(* ===== verification/Ferm_Prelude.thy ===== *)
theory Ferm_Prelude
  imports Main "HOL-Library.AList" "HOL-Library.Char_ord" "HOL-Library.List_Lexorder"
    "HOL-Library.Sublist"
begin

text \<open>
  Vocabulary shared by every component: byte strings, the decimal numerals Python prints and
  reads, the insertion-ordered dictionaries of Python, and the collections of facts the proofs
  use.

  The program reads every input as latin-1 (\<^verbatim>\<open>src/src/pyferm/streams.py\<close>), one byte per
  character, so a Python \<^verbatim>\<open>str\<close> of this program is exactly an Isabelle \<^typ>\<open>string\<close>: a list of
  8-bit characters.
\<close>

named_theorems dict_simps \<open>laws of insertion-ordered dictionaries\<close>
named_theorems str_simps \<open>facts about byte strings\<close>

section \<open>Characters and strings\<close>

abbreviation (input) NL :: char where "NL \<equiv> CHR 0x0A"
abbreviation (input) DQUOTE :: char where "DQUOTE \<equiv> CHR 0x22"
abbreviation (input) SQUOTE :: char where "SQUOTE \<equiv> CHR 0x27"
abbreviation (input) BACKSLASH :: char where "BACKSLASH \<equiv> CHR 0x5C"
abbreviation (input) BACKTICK :: char where "BACKTICK \<equiv> CHR 0x60"

definition char_code :: "char \<Rightarrow> nat" where
  "char_code c = of_char c"

definition is_digit :: "char \<Rightarrow> bool" where
  "is_digit c \<longleftrightarrow> 48 \<le> char_code c \<and> char_code c \<le> 57"

definition is_upper :: "char \<Rightarrow> bool" where
  "is_upper c \<longleftrightarrow> 65 \<le> char_code c \<and> char_code c \<le> 90"

definition is_lower :: "char \<Rightarrow> bool" where
  "is_lower c \<longleftrightarrow> 97 \<le> char_code c \<and> char_code c \<le> 122"

text \<open>The class \<^verbatim>\<open>\w\<close> of an ASCII regular expression.\<close>

definition is_word :: "char \<Rightarrow> bool" where
  "is_word c \<longleftrightarrow> is_digit c \<or> is_upper c \<or> is_lower c \<or> c = CHR ''_''"

text \<open>The class \<^verbatim>\<open>\w\<close> of a pattern without the ASCII flag, on the characters of latin-1.\<close>

definition unicode_word :: "char \<Rightarrow> bool" where
  "unicode_word c \<longleftrightarrow>
     (let n = char_code c
      in is_word c \<or> n \<in> {170, 178, 179, 181, 185, 186, 188, 189, 190} \<or> (192 \<le> n \<and> n \<noteq> 215 \<and> n \<noteq> 247))"

text \<open>The class \<^verbatim>\<open>\s\<close> of an ASCII regular expression: blank, \<^verbatim>\<open>\t \n \v \f \r\<close>.\<close>

definition is_space :: "char \<Rightarrow> bool" where
  "is_space c \<longleftrightarrow> c = CHR '' '' \<or> (9 \<le> char_code c \<and> char_code c \<le> 13)"

lemmas char_class_defs = is_digit_def is_upper_def is_lower_def is_word_def is_space_def
  char_code_def

text \<open>
  The same classes on the bits of a character, so that evaluation needs no arithmetic.
\<close>

lemma is_digit_bits [simp, code]:
  "is_digit (Char b0 b1 b2 b3 b4 b5 b6 b7) \<longleftrightarrow>
     \<not> b7 \<and> \<not> b6 \<and> b5 \<and> b4 \<and> (\<not> b3 \<or> (\<not> b2 \<and> \<not> b1))"
  by (cases b0; cases b1; cases b2; cases b3; cases b4; cases b5; cases b6; cases b7)
    (simp_all add: is_digit_def char_code_def)

lemma is_upper_bits [simp, code]:
  "is_upper (Char b0 b1 b2 b3 b4 b5 b6 b7) \<longleftrightarrow>
     \<not> b7 \<and> b6 \<and> \<not> b5 \<and> (b0 \<or> b1 \<or> b2 \<or> b3 \<or> b4) \<and> \<not> (b4 \<and> b3 \<and> (b2 \<or> (b1 \<and> b0)))"
  by (cases b0; cases b1; cases b2; cases b3; cases b4; cases b5; cases b6; cases b7)
    (simp_all add: is_upper_def char_code_def)

lemma is_lower_bits [simp, code]:
  "is_lower (Char b0 b1 b2 b3 b4 b5 b6 b7) \<longleftrightarrow>
     \<not> b7 \<and> b6 \<and> b5 \<and> (b0 \<or> b1 \<or> b2 \<or> b3 \<or> b4) \<and> \<not> (b4 \<and> b3 \<and> (b2 \<or> (b1 \<and> b0)))"
  by (cases b0; cases b1; cases b2; cases b3; cases b4; cases b5; cases b6; cases b7)
    (simp_all add: is_lower_def char_code_def)

lemma is_space_bits [simp, code]:
  "is_space (Char b0 b1 b2 b3 b4 b5 b6 b7) \<longleftrightarrow>
     \<not> b7 \<and> \<not> b6 \<and> \<not> b4 \<and>
     ((b5 \<and> \<not> b3 \<and> \<not> b2 \<and> \<not> b1 \<and> \<not> b0) \<or>
      (\<not> b5 \<and> b3 \<and> (b0 \<or> b1 \<or> b2) \<and> \<not> (b2 \<and> b1)))"
  by (cases b0; cases b1; cases b2; cases b3; cases b4; cases b5; cases b6; cases b7)
    (simp_all add: is_space_def char_code_def)

definition starts_with :: "string \<Rightarrow> string \<Rightarrow> bool" where
  "starts_with p s \<longleftrightarrow> take (length p) s = p"

definition ends_with :: "string \<Rightarrow> string \<Rightarrow> bool" where
  "ends_with p s \<longleftrightarrow> length p \<le> length s \<and> drop (length s - length p) s = p"

lemma starts_with_append [simp]: "starts_with p (p @ s)"
  by (simp add: starts_with_def)

lemma starts_withE: "starts_with p s \<Longrightarrow> \<exists>t. s = p @ t"
  by (metis append_take_drop_id starts_with_def)

lemma ends_with_append [simp]: "ends_with p (s @ p)"
  by (simp add: ends_with_def)

text \<open>\<^verbatim>\<open>sep.join(parts)\<close>\<close>

fun join_str :: "string \<Rightarrow> string list \<Rightarrow> string" where
  "join_str sep [] = []"
| "join_str sep [x] = x"
| "join_str sep (x # y # xs) = x @ sep @ join_str sep (y # xs)"

text \<open>\<^verbatim>\<open>s.replace(c, t)\<close> for a one-character needle.\<close>

definition replace_char :: "char \<Rightarrow> string \<Rightarrow> string \<Rightarrow> string" where
  "replace_char c t s = concat (map (\<lambda>x. if x = c then t else [x]) s)"

lemma replace_char_simps [simp]:
  "replace_char c t [] = []"
  "replace_char c t (x # s) = (if x = c then t else [x]) @ replace_char c t s"
  by (simp_all add: replace_char_def)

lemma replace_char_append [simp]:
  "replace_char c t (xs @ ys) = replace_char c t xs @ replace_char c t ys"
  by (simp add: replace_char_def)

lemma replace_char_idle: "c \<notin> set s \<Longrightarrow> replace_char c t s = s"
  by (induction s) auto

lemma replace_char_Nil_iff: "t \<noteq> [] \<Longrightarrow> replace_char c t s = [] \<longleftrightarrow> s = []"
  by (cases s) auto

text \<open>The text before the first newline, as \<^verbatim>\<open>.*\<close> matches it.\<close>

definition line_head :: "string \<Rightarrow> string" where
  "line_head s = takeWhile (\<lambda>c. c \<noteq> NL) s"

text \<open>
  \<^verbatim>\<open>s.splitlines(keepends=True)\<close> restricted to newline-terminated input, which is what
  iterating over a file handle opened in text mode yields.
\<close>

fun lines_keep :: "string \<Rightarrow> string list" where
  "lines_keep [] = []"
| "lines_keep (c # s) =
     (if c = NL then [NL] # lines_keep s
      else (case lines_keep s of [] \<Rightarrow> [[c]] | l # ls \<Rightarrow> (c # l) # ls))"

lemma concat_lines_keep [simp]: "concat (lines_keep s) = s"
  by (induction s) (auto split: list.splits)

lemma lines_keep_nonempty: "l \<in> set (lines_keep s) \<Longrightarrow> l \<noteq> []"
  by (induction s arbitrary: l) (auto split: list.splits if_splits)

text \<open>
  White space and line boundaries as \<^verbatim>\<open>str.split()\<close>, \<^verbatim>\<open>str.strip()\<close> and
  \<^verbatim>\<open>str.splitlines()\<close> see them on the characters of latin-1.
\<close>

definition py_space :: "char \<Rightarrow> bool" where
  "py_space c \<longleftrightarrow>
     (let n = char_code c in (9 \<le> n \<and> n \<le> 13) \<or> (28 \<le> n \<and> n \<le> 32) \<or> n = 133 \<or> n = 160)"

definition py_linebreak :: "char \<Rightarrow> bool" where
  "py_linebreak c \<longleftrightarrow>
     (let n = char_code c in (10 \<le> n \<and> n \<le> 13) \<or> (28 \<le> n \<and> n \<le> 30) \<or> n = 133)"

lemma py_space_bits [simp, code]:
  "py_space (Char b0 b1 b2 b3 b4 b5 b6 b7) \<longleftrightarrow>
     (\<not> b7 \<and> \<not> b6 \<and> \<not> b5 \<and> \<not> b4 \<and> b3 \<and> (b0 \<or> b1 \<or> b2) \<and> \<not> (b2 \<and> b1)) \<or>
     (\<not> b7 \<and> \<not> b6 \<and> \<not> b5 \<and> b4 \<and> b3 \<and> b2) \<or>
     (\<not> b6 \<and> b5 \<and> \<not> b4 \<and> \<not> b3 \<and> \<not> b2 \<and> \<not> b1 \<and> \<not> b0) \<or>
     (b7 \<and> \<not> b6 \<and> \<not> b5 \<and> \<not> b4 \<and> \<not> b3 \<and> b2 \<and> \<not> b1 \<and> b0)"
  by (cases b0; cases b1; cases b2; cases b3; cases b4; cases b5; cases b6; cases b7)
    (simp_all add: py_space_def char_code_def)

lemma py_linebreak_bits [simp, code]:
  "py_linebreak (Char b0 b1 b2 b3 b4 b5 b6 b7) \<longleftrightarrow>
     (\<not> b7 \<and> \<not> b6 \<and> \<not> b5 \<and> \<not> b4 \<and> b3 \<and> (b1 \<or> b2) \<and> \<not> (b2 \<and> b1)) \<or>
     (\<not> b7 \<and> \<not> b6 \<and> \<not> b5 \<and> b4 \<and> b3 \<and> b2 \<and> \<not> (b1 \<and> b0)) \<or>
     (b7 \<and> \<not> b6 \<and> \<not> b5 \<and> \<not> b4 \<and> \<not> b3 \<and> b2 \<and> \<not> b1 \<and> b0)"
  by (cases b0; cases b1; cases b2; cases b3; cases b4; cases b5; cases b6; cases b7)
    (simp_all add: py_linebreak_def char_code_def)

definition py_strip :: "string \<Rightarrow> string" where
  "py_strip s = rev (dropWhile py_space (rev (dropWhile py_space s)))"

fun split_by :: "(char \<Rightarrow> bool) \<Rightarrow> string \<Rightarrow> string list" where
  "split_by p [] = []"
| "split_by p (c # s) =
     (if p c then [] # split_by p s
      else (case split_by p s of [] \<Rightarrow> [[c]] | w # ws \<Rightarrow> (c # w) # ws))"

text \<open>The non-empty maximal runs of characters outside \<open>p\<close>, in order.\<close>

definition fields_by :: "(char \<Rightarrow> bool) \<Rightarrow> string \<Rightarrow> string list" where
  "fields_by p s = filter (\<lambda>w. w \<noteq> []) (split_by p s)"

text \<open>\<^verbatim>\<open>str.split(sep)\<close> with a separator keeps the empty pieces.\<close>

fun split_char :: "char \<Rightarrow> string \<Rightarrow> string list" where
  "split_char d [] = [[]]"
| "split_char d (c # s) =
     (if c = d then [] # split_char d s
      else (case split_char d s of [] \<Rightarrow> [[c]] | w # ws \<Rightarrow> (c # w) # ws))"

definition py_split :: "string \<Rightarrow> string list" where
  "py_split s = fields_by py_space s"

fun py_splitlines :: "string \<Rightarrow> string list" where
  "py_splitlines [] = []"
| "py_splitlines (c # s) =
     (if c = CHR 0x0D
      then [] # (case s of [] \<Rightarrow> [] | d # s' \<Rightarrow> if d = NL then py_splitlines s' else py_splitlines s)
      else if py_linebreak c then [] # py_splitlines s
      else (case py_splitlines s of [] \<Rightarrow> [[c]] | l # ls \<Rightarrow> (c # l) # ls))"

text \<open>\<^verbatim>\<open>repr(s)\<close> of a string.\<close>

definition hex_digit :: "nat \<Rightarrow> char" where
  "hex_digit d = (if d < 10 then char_of (48 + d) else char_of (87 + d))"

definition py_repr_char :: "char \<Rightarrow> char \<Rightarrow> string" where
  "py_repr_char q c =
     (let n = char_code c
      in if c = q \<or> c = BACKSLASH then [BACKSLASH, c]
         else if n = 9 then [BACKSLASH, CHR ''t'']
         else if n = 10 then [BACKSLASH, CHR ''n'']
         else if n = 13 then [BACKSLASH, CHR ''r'']
         else if n < 32 \<or> (127 \<le> n \<and> n \<le> 160) \<or> n = 173
         then [BACKSLASH, CHR ''x'', hex_digit (n div 16), hex_digit (n mod 16)]
         else [c])"

definition py_repr :: "string \<Rightarrow> string" where
  "py_repr s =
     (let q = (if SQUOTE \<in> set s \<and> DQUOTE \<notin> set s then DQUOTE else SQUOTE)
      in [q] @ concat (map (py_repr_char q) s) @ [q])"

lemma split_by_parts: "\<forall>w \<in> set (split_by p s). \<forall>c \<in> set w. \<not> p c"
proof (induction s)
  case (Cons c s)
  then show ?case by (cases "split_by p s") auto
qed simp

lemma split_by_word: "list_all (\<lambda>c. \<not> p c) w \<Longrightarrow> w \<noteq> [] \<Longrightarrow> split_by p w = [w]"
proof (induction w)
  case (Cons c w)
  then show ?case by (cases w) auto
qed simp

lemma split_by_snoc: "list_all (\<lambda>c. \<not> p c) w \<Longrightarrow> p b \<Longrightarrow> split_by p (w @ b # t) = w # split_by p t"
  by (induction w) auto

lemma py_split_words:
  assumes "\<forall>m \<in> set (w # ms). m \<noteq> [] \<and> list_all (\<lambda>c. \<not> py_space c) m"
  shows "py_split (w @ concat (map (Cons (CHR '' '')) ms)) = w # ms"
proof -
  have "split_by py_space (w @ concat (map (Cons (CHR '' '')) ms)) = w # ms"
    using assms by (induction ms arbitrary: w) (simp_all add: split_by_word split_by_snoc)
  then show ?thesis using assms by (simp add: py_split_def fields_by_def filter_id_conv)
qed

lemma split_by_chars: "\<forall>w \<in> set (split_by p s). set w \<subseteq> set s"
proof (induction s)
  case (Cons c s)
  then show ?case by (cases "split_by p s") auto
qed simp

lemma fields_by_parts: "w \<in> set (fields_by p s) \<Longrightarrow> w \<noteq> [] \<and> (\<forall>c \<in> set w. \<not> p c)"
  using split_by_parts [of p s] by (auto simp: fields_by_def)

section \<open>Decimal numerals\<close>

definition digit_char :: "nat \<Rightarrow> char" where
  "digit_char d = char_of (48 + d)"

definition digit_val :: "char \<Rightarrow> nat" where
  "digit_val c = char_code c - 48"

fun string_of_nat :: "nat \<Rightarrow> string" where
  "string_of_nat n =
     (if n < 10 then [digit_char n] else string_of_nat (n div 10) @ [digit_char (n mod 10)])"

declare string_of_nat.simps [simp del]

definition nat_of_string :: "string \<Rightarrow> nat" where
  "nat_of_string s = foldl (\<lambda>n c. 10 * n + digit_val c) 0 s"

definition string_of_int :: "int \<Rightarrow> string" where
  "string_of_int i = (if i < 0 then CHR ''-'' # string_of_nat (nat (- i)) else string_of_nat (nat i))"

lemma char_code_digit_char: "d < 10 \<Longrightarrow> char_code (digit_char d) = 48 + d"
  by (simp add: char_code_def digit_char_def)

lemma digit_val_digit_char [simp]: "d < 10 \<Longrightarrow> digit_val (digit_char d) = d"
  by (simp add: digit_val_def char_code_digit_char)

lemma is_digit_digit_char [simp]: "d < 10 \<Longrightarrow> is_digit (digit_char d)"
  by (simp add: is_digit_def char_code_digit_char)

lemma string_of_nat_not_Nil [simp]: "string_of_nat n \<noteq> []"
  by (subst string_of_nat.simps) simp

lemma string_of_nat_digits: "c \<in> set (string_of_nat n) \<Longrightarrow> is_digit c"
proof (induction n rule: string_of_nat.induct)
  case (1 n)
  then show ?case
    by (subst (asm) (2) string_of_nat.simps) (auto split: if_splits)
qed

lemma nat_of_string_snoc: "nat_of_string (s @ [c]) = 10 * nat_of_string s + digit_val c"
  by (simp add: nat_of_string_def)

lemma nat_of_string_of_nat [simp]: "nat_of_string (string_of_nat n) = n"
proof (induction n rule: string_of_nat.induct)
  case (1 n)
  then show ?case
    by (subst string_of_nat.simps)
      (auto simp: nat_of_string_snoc, simp_all add: nat_of_string_def)
qed

lemma string_of_nat_inject [simp]: "string_of_nat m = string_of_nat n \<longleftrightarrow> m = n"
  by (metis nat_of_string_of_nat)

text \<open>The \<^verbatim>\<open>isascii() and isdigit()\<close> test: a non-empty run of ASCII digits.\<close>

definition all_digits :: "string \<Rightarrow> bool" where
  "all_digits s \<longleftrightarrow> s \<noteq> [] \<and> (\<forall>c \<in> set s. is_digit c)"

lemma all_digits_string_of_nat [simp]: "all_digits (string_of_nat n)"
  by (auto simp: all_digits_def string_of_nat_digits)

section \<open>Python dictionaries\<close>

text \<open>
  A Python \<^verbatim>\<open>dict\<close> keeps its keys in insertion order, an assignment to an existing key keeps
  its place, and \<^verbatim>\<open>del\<close> forgets it. The interface below states these laws; the components
  use it through \<open>dict_get\<close> and its companions, which interpret it on association lists.
\<close>

type_synonym ('k, 'v) dict = "('k \<times> 'v) list"

definition dict_empty :: "('k, 'v) dict" where
  "dict_empty = []"

definition dict_get :: "('k, 'v) dict \<Rightarrow> 'k \<Rightarrow> 'v option" where
  "dict_get d k = map_of d k"

definition dict_set :: "'k \<Rightarrow> 'v \<Rightarrow> ('k, 'v) dict \<Rightarrow> ('k, 'v) dict" where
  "dict_set k v d = AList.update k v d"

definition dict_del :: "'k \<Rightarrow> ('k, 'v) dict \<Rightarrow> ('k, 'v) dict" where
  "dict_del k d = AList.delete k d"

definition dict_keys :: "('k, 'v) dict \<Rightarrow> 'k list" where
  "dict_keys d = map fst d"

definition dict_ok :: "('k, 'v) dict \<Rightarrow> bool" where
  "dict_ok d \<longleftrightarrow> distinct (map fst d)"

definition dict_has :: "('k, 'v) dict \<Rightarrow> 'k \<Rightarrow> bool" where
  "dict_has d k \<longleftrightarrow> dict_get d k \<noteq> None"

definition dict_setdefault :: "'k \<Rightarrow> 'v \<Rightarrow> ('k, 'v) dict \<Rightarrow> ('k, 'v) dict" where
  "dict_setdefault k v d = (case dict_get d k of None \<Rightarrow> dict_set k v d | Some _ \<Rightarrow> d)"

text \<open>\<^verbatim>\<open>d.update(e)\<close>\<close>

definition dict_update :: "('k, 'v) dict \<Rightarrow> ('k, 'v) dict \<Rightarrow> ('k, 'v) dict" where
  "dict_update d e = fold (\<lambda>(k, v). dict_set k v) e d"

locale ordered_dict =
  fixes empty :: "'d"
    and get :: "'d \<Rightarrow> 'k \<Rightarrow> 'v option"
    and put :: "'k \<Rightarrow> 'v \<Rightarrow> 'd \<Rightarrow> 'd"
    and del :: "'k \<Rightarrow> 'd \<Rightarrow> 'd"
    and keys :: "'d \<Rightarrow> 'k list"
    and ok :: "'d \<Rightarrow> bool"
  assumes get_empty: "get empty k = None"
    and keys_empty: "keys empty = []"
    and ok_empty: "ok empty"
    and get_put: "get (put k v d) k' = (if k' = k then Some v else get d k')"
    and get_del: "get (del k d) k' = (if k' = k then None else get d k')"
    and keys_put: "keys (put k v d) = (if k \<in> set (keys d) then keys d else keys d @ [k])"
    and keys_del: "keys (del k d) = filter (\<lambda>k'. k' \<noteq> k) (keys d)"
    and keys_get: "k \<in> set (keys d) \<longleftrightarrow> get d k \<noteq> None"
    and ok_keys: "ok d \<longleftrightarrow> distinct (keys d)"
begin

lemma get_put_same: "get (put k v d) k = Some v"
  by (simp add: get_put)

lemma get_put_other: "k' \<noteq> k \<Longrightarrow> get (put k v d) k' = get d k'"
  by (simp add: get_put)

lemma ok_put: "ok d \<Longrightarrow> ok (put k v d)"
  by (simp add: ok_keys keys_put)

lemma ok_del: "ok d \<Longrightarrow> ok (del k d)"
  by (simp add: ok_keys keys_del)

lemma keys_put_old: "get d k \<noteq> None \<Longrightarrow> keys (put k v d) = keys d"
  by (simp add: keys_put keys_get)

lemma keys_put_new: "get d k = None \<Longrightarrow> keys (put k v d) = keys d @ [k]"
  by (simp add: keys_put keys_get)

lemma get_fold_put_idle:
  "k \<notin> fst ` set kvs \<Longrightarrow> get (fold (\<lambda>(k, v). put k v) kvs d) k = get d k"
  by (induction kvs arbitrary: d) (auto simp: get_put)

lemma get_fold_put:
  "get (fold (\<lambda>(k, v). put k v) kvs d) k =
     (case map_of (rev kvs) k of None \<Rightarrow> get d k | Some v \<Rightarrow> Some v)"
  by (induction kvs arbitrary: d)
    (auto simp: get_put map_add_def split: option.splits)

lemma ok_fold_put: "ok d \<Longrightarrow> ok (fold (\<lambda>(k, v). put k v) kvs d)"
  by (induction kvs arbitrary: d) (auto simp: ok_put)

end

lemma alist_update_keys:
  "map fst (AList.update k v d) = (if k \<in> set (map fst d) then map fst d else map fst d @ [k])"
  by (induction d) auto

lemma alist_delete_keys: "map fst (AList.delete k d) = filter (\<lambda>k'. k' \<noteq> k) (map fst d)"
  by (induction d) (auto simp: AList.delete_eq)

interpretation dict: ordered_dict dict_empty dict_get dict_set dict_del dict_keys dict_ok
proof (unfold_locales, goal_cases)
  case (4 k v d k')
  then show ?case by (simp add: dict_get_def dict_set_def update_conv')
next
  case (5 k d k')
  then show ?case by (simp add: dict_get_def dict_del_def delete_conv')
next
  case (8 k d)
  then show ?case by (simp add: dict_keys_def dict_get_def map_of_eq_None_iff)
qed (simp_all add: dict_empty_def dict_get_def dict_keys_def dict_ok_def dict_set_def
    dict_del_def alist_update_keys alist_delete_keys)

lemmas dict_basic [simp, dict_simps] =
  dict.get_empty dict.get_put dict.get_del dict.ok_put dict.ok_del dict.ok_empty

lemma dict_has_iff: "dict_has d k \<longleftrightarrow> k \<in> set (dict_keys d)"
  by (simp add: dict_has_def dict.keys_get)

lemma dict_get_setdefault [simp, dict_simps]:
  "dict_get (dict_setdefault k v d) k' =
     (if k' = k \<and> dict_get d k = None then Some v else dict_get d k')"
  by (auto simp: dict_setdefault_def split: option.splits)

lemma dict_ok_setdefault [simp, dict_simps]: "dict_ok d \<Longrightarrow> dict_ok (dict_setdefault k v d)"
  by (simp add: dict_setdefault_def split: option.splits)

lemma dict_get_update [dict_simps]:
  "dict_get (dict_update d e) k =
     (case map_of (rev e) k of None \<Rightarrow> dict_get d k | Some v \<Rightarrow> Some v)"
  by (simp add: dict_update_def dict.get_fold_put)

lemma dict_ok_update [simp, dict_simps]: "dict_ok d \<Longrightarrow> dict_ok (dict_update d e)"
  by (simp add: dict_update_def dict.ok_fold_put)

lemma dict_eval [simp]:
  "dict_get [] k = None"
  "dict_get ((k', v) # d) k = (if k = k' then Some v else dict_get d k)"
  "dict_set k v [] = [(k, v)]"
  "dict_set k v ((k', w) # d) = (if k' = k then (k, v) # d else (k', w) # dict_set k v d)"
  by (simp_all add: dict_get_def dict_set_def)

end
