(* ===== verification/Ferm_Values.thy ===== *)
theory Ferm_Values
  imports Ferm_Prelude
begin

text \<open>
  The value model of \<^verbatim>\<open>src/src/pyferm/values.py\<close>: the tagged values a configuration
  expression evaluates to, the failures of the program as values, and the operations every
  other component uses on them, deferred calls included.

  Python reports the text of a reference value (\<^verbatim>\<open>str(value)\<close> of a list or a dataclass) with
  the addresses of the functions inside it, so that text is a parameter \<open>rp\<close> of the operations
  that can reach it. The callables a deferred value holds are the three the program creates
  (\<^verbatim>\<open>deferred_cat\<close>, \<^verbatim>\<open>resolve\<close>, \<^verbatim>\<open>ipfilter\<close>), named by \<open>dfun\<close>.
\<close>

section \<open>Values and failures\<close>

datatype dfun = DeferredCat | DeferredResolve | DeferredIpfilter

datatype cfg_value =
    VNone
  | VStr string
  | VList "cfg_value list"
  | VNegated cfg_value
  | VPreNegated cfg_value
  | VParams "cfg_value list"
  | VMulti "cfg_value list"
  | VDeferred dfun "cfg_value list"
  | VSetRef string "cfg_value list"

text \<open>
  How a run can end early: \<open>Located\<close> is the located \<^verbatim>\<open>error(...)\<close> of \<^verbatim>\<open>errors.py\<close>,
  \<open>Died\<close> a bare \<^verbatim>\<open>raise FermError\<close> (the internal errors included), the next
  five are the Python exceptions the program does not convert, and \<open>OutOfFuel\<close> belongs to the model:
  a loop used up its step bound.
\<close>

datatype failure =
    Located string
  | Died string
  | PyAssertion
  | PyTypeError
  | PyKeyError
  | PyValueError
  | PyRegexError
  | OutOfFuel

type_synonym 'a res = "failure + 'a"

definition bindR :: "'a res \<Rightarrow> ('a \<Rightarrow> 'b res) \<Rightarrow> 'b res" where
  "bindR r f = (case r of Inl e \<Rightarrow> Inl e | Inr x \<Rightarrow> f x)"

lemma bindR_simps [simp]:
  "bindR (Inl e) f = Inl e"
  "bindR (Inr x) f = f x"
  by (simp_all add: bindR_def)

lemma bindR_Inr_iff: "bindR r f = Inr y \<longleftrightarrow> (\<exists>x. r = Inr x \<and> f x = Inr y)"
  by (cases r) auto

lemma bindR_Inl_iff:
  "bindR r f = Inl e \<longleftrightarrow> r = Inl e \<or> (\<exists>x. r = Inr x \<and> f x = Inl e)"
  by (cases r) auto

fun mapR :: "('a \<Rightarrow> 'b res) \<Rightarrow> 'a list \<Rightarrow> 'b list res" where
  "mapR f [] = Inr []"
| "mapR f (x # xs) = bindR (f x) (\<lambda>y. bindR (mapR f xs) (\<lambda>ys. Inr (y # ys)))"

lemma mapR_length: "mapR f xs = Inr ys \<Longrightarrow> length ys = length xs"
  by (induction xs arbitrary: ys) (auto simp: bindR_Inr_iff)

text \<open>\<^verbatim>\<open>internal_error(detail)\<close>\<close>

definition internal_error :: "string \<Rightarrow> failure" where
  "internal_error detail = Died (''internal error: '' @ detail)"

definition internal_error_default :: failure where
  "internal_error_default = internal_error ''unexpected value type''"

definition ERR_STRING_EXPECTED :: string where
  "ERR_STRING_EXPECTED = ''String expected''"

text \<open>The case splits of values, under names of their own.\<close>

lemmas val_split = "cfg_value.split"
lemmas val_splits = "cfg_value.splits"

section \<open>Classification and coercion\<close>

fun is_ref :: "cfg_value \<Rightarrow> bool" where
  "is_ref VNone = False"
| "is_ref (VStr _) = False"
| "is_ref _ = True"

fun is_list :: "cfg_value \<Rightarrow> bool" where
  "is_list (VList _) = True"
| "is_list _ = False"

fun is_setref :: "cfg_value \<Rightarrow> bool" where
  "is_setref (VSetRef _ _) = True"
| "is_setref _ = False"

fun is_deferred :: "cfg_value \<Rightarrow> bool" where
  "is_deferred (VDeferred _ _) = True"
| "is_deferred _ = False"

fun iter_setrefs :: "cfg_value \<Rightarrow> cfg_value list" where
  "iter_setrefs (VSetRef n es) = [VSetRef n es]"
| "iter_setrefs (VNegated v) = iter_setrefs v"
| "iter_setrefs (VPreNegated v) = iter_setrefs v"
| "iter_setrefs (VParams vs) = concat (map iter_setrefs vs)"
| "iter_setrefs (VMulti vs) = concat (map iter_setrefs vs)"
| "iter_setrefs (VList vs) = concat (map iter_setrefs vs)"
| "iter_setrefs _ = []"

fun stringify :: "(cfg_value \<Rightarrow> string) \<Rightarrow> cfg_value \<Rightarrow> string" where
  "stringify rp VNone = []"
| "stringify rp (VStr s) = s"
| "stringify rp v = rp v"

fun perl_true :: "cfg_value \<Rightarrow> bool" where
  "perl_true VNone = False"
| "perl_true (VStr s) = (s \<noteq> [] \<and> s \<noteq> ''0'')"
| "perl_true _ = True"

text \<open>\<^verbatim>\<open>format_bool\<close> on the Python booleans its callers pass.\<close>

definition format_bool :: "bool \<Rightarrow> cfg_value" where
  "format_bool b = VStr (if b then ''1'' else ''0'')"

fun flatten :: "cfg_value list \<Rightarrow> cfg_value list" where
  "flatten [] = []"
| "flatten (VList xs # vs) = flatten xs @ flatten vs"
| "flatten (v # vs) = v # flatten vs"

fun cat_items :: "cfg_value list \<Rightarrow> string res" where
  "cat_items [] = Inr []"
| "cat_items (VNone # vs) = cat_items vs"
| "cat_items (VSetRef _ _ # vs) = Inl (Located ''a named set cannot appear in a string context'')"
| "cat_items (VStr s # vs) = bindR (cat_items vs) (\<lambda>r. Inr (s @ r))"
| "cat_items (v # vs) = Inl (Located ERR_STRING_EXPECTED)"

definition cat :: "cfg_value list \<Rightarrow> string res" where
  "cat vs = cat_items (flatten vs)"

fun join_value :: "(cfg_value \<Rightarrow> string) \<Rightarrow> string \<Rightarrow> cfg_value \<Rightarrow> cfg_value res" where
  "join_value rp sep VNone = Inr VNone"
| "join_value rp sep (VStr s) = Inr (VStr s)"
| "join_value rp sep (VList vs) = Inr (VStr (join_str sep (map (stringify rp) vs)))"
| "join_value rp sep (VNegated v) = bindR (join_value rp sep v) (\<lambda>w. Inr (VNegated w))"
| "join_value rp sep (VSetRef _ _) = Inl (Located ''a named set cannot be joined as an array'')"
| "join_value rp sep _ = Inl internal_error_default"

text \<open>\<open>pre\<close> is \<^verbatim>\<open>klass == "pre_negated"\<close>.\<close>

fun negate_value :: "cfg_value \<Rightarrow> bool \<Rightarrow> bool \<Rightarrow> cfg_value res" where
  "negate_value (VNegated _) pre allow_array = Inl (Located ''double negation is not allowed'')"
| "negate_value (VPreNegated _) pre allow_array = Inl (Located ''double negation is not allowed'')"
| "negate_value (VSetRef _ _) pre allow_array = Inl (Located ''cannot negate a named set'')"
| "negate_value v pre allow_array =
     (if is_list v \<and> \<not> allow_array
      then Inl (Located ''it is not possible to negate an array'')
      else Inr (if pre then VPreNegated v else VNegated v))"

fun to_array :: "cfg_value \<Rightarrow> cfg_value list res" where
  "to_array VNone = Inr [VNone]"
| "to_array (VStr s) = Inr [VStr s]"
| "to_array (VDeferred f ps) = Inr [VDeferred f ps]"
| "to_array (VList vs) = Inr vs"
| "to_array (VSetRef n es) = Inr [VSetRef n es]"
| "to_array _ = Inl internal_error_default"

fun eval_bool :: "cfg_value \<Rightarrow> bool res" where
  "eval_bool VNone = Inr False"
| "eval_bool (VStr s) = Inr (perl_true (VStr s))"
| "eval_bool (VList vs) = Inr (vs \<noteq> [])"
| "eval_bool (VSetRef n es) = Inr (es \<noteq> [])"
| "eval_bool _ = Inl internal_error_default"

fun contains_deferred :: "cfg_value list \<Rightarrow> bool" where
  "contains_deferred [] = False"
| "contains_deferred (VDeferred _ _ # vs) = True"
| "contains_deferred (VList xs # vs) = (contains_deferred xs \<or> contains_deferred vs)"
| "contains_deferred (v # vs) = contains_deferred vs"

section \<open>Deferred calls\<close>

text \<open>
  \<^verbatim>\<open>realize_deferred\<close> recurses through the parameters of a deferred call and, in
  \<^verbatim>\<open>deferred_cat\<close>, through its realized arguments. The recursion is bounded by the nesting of
  deferred values, which \<open>ddepth\<close> measures and \<open>realize_deferred\<close> passes as the bound.
  \<open>call\<close> runs the other two callables on their realized arguments.
\<close>

type_synonym caller = "dfun \<Rightarrow> string \<Rightarrow> cfg_value list \<Rightarrow> cfg_value list res"

fun ddepth :: "cfg_value \<Rightarrow> nat" where
  "ddepth VNone = 0"
| "ddepth (VStr _) = 0"
| "ddepth (VList vs) = foldr (\<lambda>v m. max (ddepth v) m) vs 0"
| "ddepth (VNegated v) = ddepth v"
| "ddepth (VPreNegated v) = ddepth v"
| "ddepth (VParams vs) = foldr (\<lambda>v m. max (ddepth v) m) vs 0"
| "ddepth (VMulti vs) = foldr (\<lambda>v m. max (ddepth v) m) vs 0"
| "ddepth (VDeferred f vs) = Suc (foldr (\<lambda>v m. max (ddepth v) m) vs 0)"
| "ddepth (VSetRef n vs) = foldr (\<lambda>v m. max (ddepth v) m) vs 0"

definition ddepths :: "cfg_value list \<Rightarrow> nat" where
  "ddepths vs = foldr (\<lambda>v m. max (ddepth v) m) vs 0"

fun realize_upto :: "caller \<Rightarrow> nat \<Rightarrow> string \<Rightarrow> cfg_value list \<Rightarrow> cfg_value list res" where
  "realize_upto call n fam [] = Inr []"
| "realize_upto call n fam (v # vs) =
     bindR
       (case v of
          VDeferred f ps \<Rightarrow>
            (case n of
               0 \<Rightarrow> Inl OutOfFuel
             | Suc m \<Rightarrow>
                 bindR (realize_upto call m fam ps) (\<lambda>args.
                 if f = DeferredCat
                 then bindR (realize_upto call m fam args) (\<lambda>vs'.
                      bindR (cat vs') (\<lambda>s. Inr [VStr s]))
                 else call f fam args))
        | _ \<Rightarrow> Inr [v])
       (\<lambda>xs. bindR (realize_upto call n fam vs) (\<lambda>ys. Inr (xs @ ys)))"

definition realize_deferred :: "caller \<Rightarrow> string \<Rightarrow> cfg_value list \<Rightarrow> cfg_value list res" where
  "realize_deferred call fam vs = realize_upto call (ddepths vs) fam vs"

definition deferred_cat :: "caller \<Rightarrow> string \<Rightarrow> cfg_value list \<Rightarrow> cfg_value list res" where
  "deferred_cat call fam vs =
     bindR (realize_deferred call fam vs) (\<lambda>vs'. bindR (cat vs') (\<lambda>s. Inr [VStr s]))"

section \<open>Flattening and concatenation\<close>

lemma flatten_append [simp]: "flatten (xs @ ys) = flatten xs @ flatten ys"
proof (induction xs rule: flatten.induct)
  case (2 us vs)
  then show ?case by simp
qed simp_all

lemma flatten_no_list: "v \<in> set (flatten vs) \<Longrightarrow> \<not> is_list v"
  by (induction vs rule: flatten.induct) auto

lemma flatten_flat: "\<forall>v \<in> set vs. \<not> is_list v \<Longrightarrow> flatten vs = vs"
  by (induction vs rule: flatten.induct) simp_all

lemma flatten_idem [simp]: "flatten (flatten vs) = flatten vs"
  by (rule flatten_flat) (blast dest: flatten_no_list)

lemma contains_deferred_flatten:
  "contains_deferred vs \<longleftrightarrow> (\<exists>v \<in> set (flatten vs). is_deferred v)"
  by (induction vs rule: contains_deferred.induct) auto

lemma cat_items_append:
  "cat_items (xs @ ys) = bindR (cat_items xs) (\<lambda>a. bindR (cat_items ys) (\<lambda>b. Inr (a @ b)))"
proof (induction xs rule: cat_items.induct)
  case (4 s vs)
  then show ?case by (cases "cat_items vs"; cases "cat_items ys") simp_all
qed (simp_all add: bindR_def split: sum.splits)

text \<open>Concatenation is a homomorphism on argument lists.\<close>

lemma cat_append: "cat (xs @ ys) = bindR (cat xs) (\<lambda>a. bindR (cat ys) (\<lambda>b. Inr (a @ b)))"
  by (simp add: cat_def cat_items_append)

lemma cat_strings: "cat (map VStr ss) = Inr (concat ss)"
proof -
  have "flatten (map VStr ss) = map VStr ss"
    by (rule flatten_flat) auto
  moreover have "cat_items (map VStr ss) = Inr (concat ss)"
    by (induction ss) simp_all
  ultimately show ?thesis by (simp add: cat_def)
qed

lemma cat_array: "cat (VList us # vs) = cat (us @ vs)"
  by (simp add: cat_def)

lemma cat_items_total_iff:
  "(\<exists>s. cat_items vs = Inr s) \<longleftrightarrow> (\<forall>v \<in> set vs. v = VNone \<or> (\<exists>s. v = VStr s))"
  by (induction vs rule: cat_items.induct) (auto simp: bindR_Inr_iff)

section \<open>Realization stops\<close>

lemma ddepths_simps [simp]:
  "ddepths [] = 0"
  "ddepths (v # vs) = max (ddepth v) (ddepths vs)"
  by (simp_all add: ddepths_def)

lemma ddepths_append [simp]: "ddepths (xs @ ys) = max (ddepths xs) (ddepths ys)"
  by (induction xs) auto

lemma ddepth_list [simp]: "ddepth (VList vs) = ddepths vs"
  by (simp add: ddepths_def)

lemma ddepth_deferred [simp]: "ddepth (VDeferred f vs) = Suc (ddepths vs)"
  by (simp add: ddepths_def)

declare ddepth.simps(3,8) [simp del]

lemma ddepth_le_ddepths: "v \<in> set vs \<Longrightarrow> ddepth v \<le> ddepths vs"
  by (induction vs) auto

lemma ddepths_le_iff: "ddepths vs \<le> n \<longleftrightarrow> (\<forall>v \<in> set vs. ddepth v \<le> n)"
  by (induction vs) auto

lemma cat_not_fuel: "cat vs \<noteq> Inl OutOfFuel"
proof -
  have "cat_items us \<noteq> Inl OutOfFuel" for us
    by (induction us rule: cat_items.induct) (auto simp: bindR_Inl_iff)
  then show ?thesis by (simp add: cat_def)
qed

text \<open>
  What realization relies on of the callables: they never run out of steps, and their results
  nest no deeper than their arguments.
\<close>

locale deferred_calls =
  fixes call :: caller
  assumes call_not_fuel: "call f fam args \<noteq> Inl OutOfFuel"
    and call_depth: "call f fam args = Inr out \<Longrightarrow> ddepths out \<le> ddepths args"
begin

lemma realize_upto_depth:
  "realize_upto call n fam vs = Inr out \<Longrightarrow> ddepths out \<le> ddepths vs"
proof (induction n arbitrary: fam vs out)
  case 0
  then show ?case
  proof (induction vs arbitrary: out)
    case Nil
    then show ?case by simp
  next
    case (Cons v vs)
    then obtain ys where "realize_upto call 0 fam vs = Inr ys" and "out = v # ys"
      by (cases v) (auto simp: bindR_Inr_iff)
    with Cons.IH [of ys] show ?case by auto
  qed
next
  case (Suc m)
  note outer = Suc.IH
  from Suc.prems show ?case
  proof (induction vs arbitrary: out)
    case Nil
    then show ?case by simp
  next
    case (Cons v vs)
    from Cons.prems obtain xs ys where out: "out = xs @ ys"
      and rest: "realize_upto call (Suc m) fam vs = Inr ys"
      and hd: "realize_upto call (Suc m) fam [v] = Inr xs"
      by (auto simp: bindR_Inr_iff)
    have "ddepths xs \<le> ddepth v"
    proof (cases v)
      case (VDeferred f ps)
      with hd obtain args where args: "realize_upto call m fam ps = Inr args"
        by (auto simp: bindR_Inr_iff)
      note deep = outer [OF args]
      show ?thesis
      proof (cases "f = DeferredCat")
        case True
        with hd VDeferred args show ?thesis by (auto simp: bindR_Inr_iff)
      next
        case False
        with hd VDeferred args have "call f fam args = Inr xs"
          by (auto simp: bindR_Inr_iff)
        from call_depth [OF this] deep VDeferred show ?thesis by simp
      qed
    qed (use hd in auto)
    moreover have "ddepths ys \<le> ddepths vs" using rest by (rule Cons.IH)
    ultimately show ?case by (auto simp: out)
  qed
qed

lemma realize_upto_enough: "ddepths vs \<le> n \<Longrightarrow> realize_upto call n fam vs \<noteq> Inl OutOfFuel"
proof (induction n arbitrary: fam vs)
  case 0
  then show ?case
    by (induction vs) (auto simp: bindR_Inl_iff split: val_splits)
next
  case (Suc m)
  note outer = Suc.IH
  from Suc.prems show ?case
  proof (induction vs)
    case Nil
    then show ?case by simp
  next
    case (Cons v vs)
    then have rest: "realize_upto call (Suc m) fam vs \<noteq> Inl OutOfFuel" by simp
    show ?case
    proof (cases v)
      case (VDeferred f ps)
      with Cons.prems have ps: "ddepths ps \<le> m" by simp
      have "realize_upto call m fam args \<noteq> Inl OutOfFuel"
        if "realize_upto call m fam ps = Inr args" for args
        using outer realize_upto_depth [OF that] ps by simp
      with outer [OF ps, of fam] rest VDeferred show ?thesis
        by (auto simp: bindR_Inl_iff call_not_fuel cat_not_fuel)
    qed (use rest in \<open>auto simp: bindR_Inl_iff\<close>)
  qed
qed

lemma realize_deferred_total: "realize_deferred call fam vs \<noteq> Inl OutOfFuel"
  by (simp add: realize_deferred_def realize_upto_enough)

lemma realize_deferred_depth: "realize_deferred call fam vs = Inr out \<Longrightarrow> ddepths out \<le> ddepths vs"
  by (simp add: realize_deferred_def realize_upto_depth)

end

text \<open>Without deferred values realization is the identity, whatever the callables.\<close>

lemma realize_upto_plain:
  "\<forall>v \<in> set vs. \<not> is_deferred v \<Longrightarrow> realize_upto call n fam vs = Inr vs"
  by (induction vs) (auto split: val_splits)

lemma realize_deferred_plain:
  "\<forall>v \<in> set vs. \<not> is_deferred v \<Longrightarrow> realize_deferred call fam vs = Inr vs"
  by (simp add: realize_deferred_def realize_upto_plain)

section \<open>Negation and arrays\<close>

lemma negate_value_twice:
  "negate_value v pre aa = Inr w \<Longrightarrow>
   negate_value w pre' aa' = Inl (Located ''double negation is not allowed'')"
  by (cases v) (auto split: if_splits)

lemma negate_value_payload:
  "negate_value v pre aa = Inr w \<Longrightarrow> w = (if pre then VPreNegated v else VNegated v)"
  by (cases v) (auto split: if_splits)

lemma to_array_error: "to_array v = Inl e \<Longrightarrow> e = internal_error_default"
  by (cases v) auto

lemma to_array_scalar: "\<not> is_ref v \<Longrightarrow> to_array v = Inr [v]"
  by (cases v) auto

lemma to_array_depth: "to_array v = Inr vs \<Longrightarrow> ddepths vs \<le> ddepth v"
  by (cases v) (auto simp: ddepths_def)

text \<open>Every named set a value holds is found by the shared descent.\<close>

lemma iter_setrefs_refs: "r \<in> set (iter_setrefs v) \<Longrightarrow> is_setref r"
  by (induction v rule: iter_setrefs.induct) auto

end
