(* ===== verification/Ferm_Modules.thy ===== *)
theory Ferm_Modules
  imports Ferm_Values
begin

text \<open>
  The module registry, \<^verbatim>\<open>src/src/pyferm/modules.py\<close>: the encoded keyword specifications,
  their decoder \<^verbatim>\<open>_add_def\<close>, and the tables of protocol, match and target modules the
  program builds with it when it is loaded.

  An alias shares the \<^verbatim>\<open>Keyword\<close> object of its target, and the first alias writes its name
  into that object, so a module is modelled with an explicit store: a list of keyword cells and a
  dictionary from names to cell indices.
\<close>

section \<open>Keywords and modules\<close>

datatype kparams = PNone | PInt nat | PCodes string | PFun string

record keyword =
  kw_name :: string
  kw_params :: kparams
  kw_negation :: bool
  kw_pre_negation :: bool
  kw_ferm_name :: "string option"

record moddef =
  md_cells :: "keyword list"
  md_names :: "(string, nat) dict"

definition empty_moddef :: moddef where
  "empty_moddef = \<lparr>md_cells = [], md_names = []\<rparr>"

type_synonym family_defs = "(string, moddef) dict"
type_synonym registry = "(string, family_defs) dict"

text \<open>\<^verbatim>\<open>module.keywords.get(name)\<close>\<close>

definition md_keyword :: "moddef \<Rightarrow> string \<Rightarrow> keyword option" where
  "md_keyword m n = map_option (\<lambda>i. md_cells m ! i) (dict_get (md_names m) n)"

text \<open>The keywords dictionary as the parser copies it: names to keywords, in order.\<close>

definition md_keywords :: "moddef \<Rightarrow> (string, keyword) dict" where
  "md_keywords m = map (\<lambda>(n, i). (n, md_cells m ! i)) (md_names m)"

section \<open>Decoding one keyword specification\<close>

text \<open>The leftmost place where \<open>marker\<close> starts a tail the predicate accepts.\<close>

fun search_tail :: "string \<Rightarrow> (string \<Rightarrow> bool) \<Rightarrow> string \<Rightarrow> (string \<times> string) option" where
  "search_tail m ok [] = None"
| "search_tail m ok (c # s) =
     (if starts_with m (c # s) \<and> ok (drop (length m) (c # s))
      then Some ([], drop (length m) (c # s))
      else map_option (\<lambda>(a, b). (c # a, b)) (search_tail m ok s))"

definition non_spaces :: "string \<Rightarrow> bool" where
  "non_spaces r \<longleftrightarrow> r \<noteq> [] \<and> (\<forall>c \<in> set r. \<not> py_space c)"

definition param_codes :: "string \<Rightarrow> bool" where
  "param_codes r \<longleftrightarrow> r = ''m'' \<or> (r \<noteq> [] \<and> (\<forall>c \<in> set r. c \<in> set ''acs''))"

definition alias_match :: "string \<Rightarrow> (string \<times> string) option" where
  "alias_match s = search_tail '':='' non_spaces s"

definition star_match :: "string \<Rightarrow> (string \<times> string) option" where
  "star_match s = search_tail ''*'' all_digits s"

definition eq_match :: "string \<Rightarrow> (string \<times> string) option" where
  "eq_match s = search_tail ''='' param_codes s"

definition amp_match :: "string \<Rightarrow> (string \<times> string) option" where
  "amp_match s = search_tail ''&'' non_spaces s"

text \<open>A falsy \<^verbatim>\<open>params\<close> (the count \<^verbatim>\<open>"0"\<close>) leaves the keyword without an argument.\<close>

definition truthy_params :: "kparams \<Rightarrow> kparams" where
  "truthy_params p =
     (case p of PInt n \<Rightarrow> if n = 0 then PNone else p
      | PCodes s \<Rightarrow> if s = [] \<or> s = ''0'' then PNone else p
      | _ \<Rightarrow> p)"

text \<open>The three parameter forms, tried in turn, each shortening the name.\<close>

definition decode_params :: "kparams \<Rightarrow> string \<Rightarrow> kparams \<times> string" where
  "decode_params dflt s0 =
     (let (p1, s1) = (case star_match s0 of Some (a, d) \<Rightarrow> (PCodes d, a) | None \<Rightarrow> (dflt, s0));
          (p2, s2) = (case eq_match s1 of Some (a, d) \<Rightarrow> (PCodes d, a) | None \<Rightarrow> (p1, s1))
      in (case amp_match s2 of Some (a, f) \<Rightarrow> (PFun f, a) | None \<Rightarrow> (p2, s2)))"

definition decode_spec :: "kparams \<Rightarrow> string \<Rightarrow> keyword" where
  "decode_spec dflt spec =
     (let (p, s) = decode_params dflt spec;
          pre = starts_with ''!'' s;
          s' = (if pre then tl s else s);
          post = ends_with ''!'' s'
      in \<lparr>kw_name = (if post then butlast s' else s'),
          kw_params = truthy_params p,
          kw_negation = (pre \<or> post),
          kw_pre_negation = pre,
          kw_ferm_name = None\<rparr>)"

definition add_spec :: "kparams \<Rightarrow> string \<Rightarrow> moddef \<Rightarrow> moddef res" where
  "add_spec dflt spec m =
     (case alias_match spec of
        Some (name, target) \<Rightarrow>
          (case dict_get (md_names m) target of
             None \<Rightarrow> Inl (Died (''alias target '' @ [SQUOTE] @ target @ [SQUOTE] @ '' unknown''))
           | Some i \<Rightarrow>
               (let cell = md_cells m ! i;
                    cell' = (case kw_ferm_name cell of
                               None \<Rightarrow> cell\<lparr>kw_ferm_name := Some name\<rparr>
                             | Some f \<Rightarrow> if f = [] then cell\<lparr>kw_ferm_name := Some name\<rparr> else cell)
                in Inr (m\<lparr>md_cells := (md_cells m)[i := cell'],
                          md_names := dict_set name i (md_names m)\<rparr>)))
      | None \<Rightarrow>
          (let k = decode_spec dflt spec
           in Inr (m\<lparr>md_cells := md_cells m @ [k],
                     md_names := dict_set (kw_name k) (length (md_cells m)) (md_names m)\<rparr>)))"

fun add_specs :: "kparams \<Rightarrow> string list \<Rightarrow> moddef \<Rightarrow> moddef res" where
  "add_specs dflt [] m = Inr m"
| "add_specs dflt (s # ss) m = bindR (add_spec dflt s m) (add_specs dflt ss)"

definition add_def :: "string \<Rightarrow> kparams \<Rightarrow> string \<Rightarrow> string list \<Rightarrow> registry \<Rightarrow> registry res" where
  "add_def fam dflt name specs defs =
     (let family = (case dict_get defs fam of None \<Rightarrow> [] | Some d \<Rightarrow> d)
      in if dict_has family name
         then Inl (Died (''module '' @ [SQUOTE] @ name @ [SQUOTE] @ '' already defined''))
         else bindR (add_specs dflt specs empty_moddef) (\<lambda>m.
              Inr (dict_set fam (dict_set name m family) defs)))"

section \<open>The tables\<close>

type_synonym specs = "(string \<times> string list) list"

definition eb_arp_match_specs :: "string list" where
  "eb_arp_match_specs =
     [''!arp-gratuitous*0'', ''arp-opcode!'', ''arp-htype!=ss'', ''arp-ptype!=ss'',
      ''arp-ip-src!'', ''arp-ip-dst!'', ''arp-mac-src!'', ''arp-mac-dst!'']"

definition proto_specs_ip :: specs where
  "proto_specs_ip =
   [(''dccp'', [''dccp-types!=c'', ''dccp-option!'']),
    (''mh'', [''mh-type!'']),
    (''icmp'', [''icmp-type!'', ''icmpv6-type:=icmp-type'']),
    (''sctp'', [''chunk-types!=sc'']),
    (''tcp'', [''tcp-flags!=cc'', ''!syn*0'', ''tcp-option!'', ''mss'']),
    (''udp'', [])]"

definition match_specs_ip_1 :: specs where
  "match_specs_ip_1 =
   [('''', [''source!&address_magic'', ''saddr:=source'', ''destination!&address_magic'',
      ''daddr:=destination'', ''in-interface!'', ''interface:=in-interface'',
      ''if:=in-interface'', ''out-interface!'', ''outerface:=out-interface'',
      ''of:=out-interface'', ''!fragment*0'']),
    (''account'', [''aaddr=s'', ''aname=s'', ''ashort*0'']),
    (''addrtype'', [''!src-type'', ''!dst-type'', ''limit-iface-in*0'', ''limit-iface-out*0'']),
    (''ah'', [''ahspi!'', ''ahlen!'', ''ahres*0'']),
    (''bpf'', [''bytecode'']),
    (''cgroup'', [''path!'', ''cgroup&cgroup_classid'']),
    (''comment'', [''comment=s'']),
    (''condition'', [''condition!'']),
    (''connbytes'', [''!connbytes'', ''connbytes-dir'', ''connbytes-mode'']),
    (''connlabel'', [''!label'', ''set*0'']),
    (''connlimit'', [''!connlimit-upto'', ''!connlimit-above'', ''connlimit-mask'',
      ''connlimit-saddr*0'', ''connlimit-daddr*0'']),
    (''connmark'', [''!mark'']),
    (''conntrack'', [''!ctstate=c'', ''!ctproto'', ''ctorigsrc!'', ''ctorigdst!'',
      ''ctorigsrcport!'', ''ctorigdstport!'', ''ctreplsrc!'', ''ctrepldst!'',
      ''!ctstatus'', ''!ctexpire=s'', ''ctdir=s'']),
    (''cpu'', [''!cpu'']),
    (''devgroup'', [''!src-group'', ''!dst-group'']),
    (''dscp'', [''dscp'', ''dscp-class'']),
    (''dst'', [''!dst-len=s'', ''dst-opts=c'']),
    (''ecn'', [''ecn-tcp-cwr*0'', ''ecn-tcp-ece*0'', ''ecn-ip-ect'']),
    (''esp'', [''espspi!'']),
    (''eui64'', []),
    (''fuzzy'', [''lower-limit=s'', ''upper-limit=s'']),
    (''geoip'', [''!src-cc=s'', ''!dst-cc=s'']),
    (''hbh'', [''hbh-len!'', ''hbh-opts=c'']),
    (''helper'', [''helper'']),
    (''hl'', [''hl-eq!'', ''hl-lt=s'', ''hl-gt=s'']),
    (''hashlimit'', [''hashlimit=s'', ''hashlimit-burst=s'', ''hashlimit-mode=c'',
      ''hashlimit-name=s'', ''hashlimit-upto=s'', ''hashlimit-above=s'',
      ''hashlimit-srcmask=s'', ''hashlimit-dstmask=s'', ''hashlimit-htable-size=s'',
      ''hashlimit-htable-max=s'', ''hashlimit-htable-expire=s'',
      ''hashlimit-htable-gcinterval=s'']),
    (''iprange'', [''!src-range'', ''!dst-range''])]"

definition match_specs_ip_2 :: specs where
  "match_specs_ip_2 =
   [(''ipv4options'', [''flags!=c'', ''any*0'']),
    (''ipv6header'', [''header!=c'', ''soft*0'']),
    (''ipvs'', [''!ipvs*0'', ''!vproto'', ''!vaddr'', ''!vport'', ''vdir'', ''!vportctl'']),
    (''length'', [''length!'']),
    (''length2'', [''length!'', ''layer3*0'', ''layer4*0'', ''layer5*0'']),
    (''limit'', [''limit=s'', ''limit-burst=s'']),
    (''mac'', [''mac-source!'']),
    (''mark'', [''!mark'']),
    (''multiport'', [''source-ports!&multiport_params'',
      ''destination-ports!&multiport_params'', ''ports!&multiport_params'']),
    (''nfacct'', [''nfacct-name=s'']),
    (''nth'', [''every'', ''counter'', ''start'', ''packet'']),
    (''osf'', [''!genre'', ''ttl=s'', ''log=s'']),
    (''owner'', [''!uid-owner'', ''!gid-owner'', ''pid-owner'', ''sid-owner'', ''cmd-owner'',
      ''!socket-exists=0'']),
    (''physdev'', [''physdev-in!'', ''physdev-out!'', ''!physdev-is-in*0'',
      ''!physdev-is-out*0'', ''!physdev-is-bridged*0'']),
    (''pkttype'', [''pkt-type!'']),
    (''policy'', [''dir'', ''pol'', ''strict*0'', ''!reqid'', ''!spi'', ''!proto'', ''!mode'',
      ''!tunnel-src'', ''!tunnel-dst'', ''next*0'']),
    (''psd'', [''psd-weight-threshold'', ''psd-delay-threshold'', ''psd-lo-ports-weight'',
      ''psd-hi-ports-weight'']),
    (''quota'', [''quota=s'']),
    (''random'', [''average'']),
    (''realm'', [''realm!'']),
    (''recent'', [''name=s'', ''!set*0'', ''!remove*0'', ''!rcheck*0'', ''!update*0'',
      ''!seconds'', ''!hitcount'', ''rttl*0'', ''rsource*0'', ''rdest*0'', ''mask=s'',
      ''reap*0'']),
    (''rpfilter'', [''loose*0'', ''validmark*0'', ''accept-local*0'', ''invert*0'']),
    (''rt'', [''rt-type!'', ''rt-segsleft!'', ''rt-len!'', ''rt-0-res*0'', ''rt-0-addrs=c'',
      ''rt-0-not-strict*0'']),
    (''set'', [''!match-set=sc'', ''set:=match-set'', ''return-nomatch*0'',
      ''!update-counters*0'', ''!update-subcounters*0'', ''!packets-eq=s'',
      ''packets-lt=s'', ''packets-gt=s'', ''!bytes-eq=s'', ''bytes-lt=s'', ''bytes-gt=s'']),
    (''socket'', [''transparent*0'', ''nowildcard*0'', ''restore-skmark*0'']),
    (''state'', [''!state=c'']),
    (''statistic'', [''mode=s'', ''probability=s'', ''every=s'', ''packet=s'']),
    (''string'', [''algo=s'', ''from=s'', ''to=s'', ''string'', ''hex-string'']),
    (''tcpmss'', [''!mss'']),
    (''time'', [''timestart=s'', ''timestop=s'', ''days=c'', ''datestart=s'', ''datestop=s'',
      ''!monthday=c'', ''!weekdays=c'', ''kerneltz*0'', ''contiguous*0'']),
    (''tos'', [''!tos'']),
    (''ttl'', [''ttl-eq'', ''ttl-lt=s'', ''ttl-gt=s'']),
    (''u32'', [''!u32=m''])]"

definition target_specs_ip :: specs where
  "target_specs_ip =
   [(''AUDIT'', [''type'']),
    (''BALANCE'', [''to-destination'', ''to:=to-destination'']),
    (''CHECKSUM'', [''checksum-fill*0'']),
    (''CLASSIFY'', [''set-class'']),
    (''CLUSTERIP'', [''new*0'', ''hashmode'', ''clustermac'', ''total-nodes'', ''local-node'',
      ''hash-init'']),
    (''CONNMARK'', [''set-xmark'', ''save-mark*0'', ''restore-mark*0'', ''nfmask'', ''ctmask'',
      ''and-mark'', ''or-mark'', ''xor-mark'', ''set-mark'', ''mask'']),
    (''CONNSECMARK'', [''save*0'', ''restore*0'']),
    (''CT'', [''notrack*0'', ''helper'', ''ctevents=c'', ''expevents=c'', ''zone-orig'',
      ''zone-reply'', ''zone'', ''timeout'']),
    (''DNAT'', [''to-destination=m'', ''to:=to-destination'', ''persistent*0'', ''random*0'']),
    (''DNPT'', [''src-pfx'', ''dst-pfx'']),
    (''DSCP'', [''set-dscp'', ''set-dscp-class'']),
    (''ECN'', [''ecn-tcp-remove*0'']),
    (''HL'', [''hl-set'', ''hl-dec'', ''hl-inc'']),
    (''HMARK'', [''hmark-tuple'', ''hmark-mod'', ''hmark-offset'', ''hmark-src-prefix'',
      ''hmark-dst-prefix'', ''hmark-sport-mask'', ''hmark-dport-mask'', ''hmark-spi-mask'',
      ''hmark-proto-mask'', ''hmark-rnd'']),
    (''IDLETIMER'', [''timeout'', ''label'']),
    (''IPV4OPTSSTRIP'', []),
    (''JOOL'', [''instance'']),
    (''JOOL_SIIT'', [''instance'']),
    (''LED'', [''led-trigger-id'', ''led-delay'', ''led-always-blink*0'']),
    (''LOG'', [''log-level'', ''log-prefix'', ''log-tcp-sequence*0'', ''log-tcp-options*0'',
      ''log-ip-options*0'', ''log-uid*0'']),
    (''MARK'', [''set-mark'', ''set-xmark'', ''and-mark'', ''or-mark'', ''xor-mark'']),
    (''MASQUERADE'', [''to-ports'', ''random*0'', ''random-fully*0'']),
    (''MIRROR'', []),
    (''NETMAP'', [''to'']),
    (''NFLOG'', [''nflog-group'', ''nflog-prefix'', ''nflog-range'', ''nflog-threshold'']),
    (''NFQUEUE'', [''queue-num'', ''queue-balance'', ''queue-bypass*0'', ''queue-cpu-fanout*0'']),
    (''NOTRACK'', []),
    (''RATEEST'', [''rateest-name'', ''rateest-interval'', ''rateest-ewmalog'']),
    (''REDIRECT'', [''to-ports'', ''random*0'']),
    (''REJECT'', [''reject-with'']),
    (''ROUTE'', [''oif'', ''iif'', ''gw'', ''continue*0'', ''tee*0'']),
    (''RTPENGINE'', [''id'']),
    (''SAME'', [''to'', ''nodst*0'', ''random*0'']),
    (''SECMARK'', [''selctx'']),
    (''SET'', [''add-set=sc'', ''del-set=sc'', ''timeout'', ''exist*0'']),
    (''SNAT'', [''to-source=m'', ''to:=to-source'', ''persistent*0'', ''random*0'']),
    (''SNPT'', [''src-pfx'', ''dst-pfx'']),
    (''SYNPROXY'', [''sack-perm*0'', ''timestamp*0'', ''ecn*0'', ''wscale=s'', ''mss=s'']),
    (''TARPIT'', []),
    (''TCPMSS'', [''set-mss'', ''clamp-mss-to-pmtu*0'']),
    (''TCPOPTSTRIP'', [''strip-options=c'']),
    (''TEE'', [''gateway'']),
    (''TOS'', [''set-tos'', ''and-tos'', ''or-tos'', ''xor-tos'']),
    (''TPROXY'', [''tproxy-mark'', ''on-ip'', ''on-port'']),
    (''TRACE'', []),
    (''TTL'', [''ttl-set'', ''ttl-dec'', ''ttl-inc'']),
    (''ULOG'', [''ulog-nlgroup'', ''ulog-prefix'', ''ulog-cprange'', ''ulog-qthreshold''])]"

definition match_specs_arp :: specs where
  "match_specs_arp =
   [('''', [''source-ip!'', ''destination-ip!'', ''saddr:=source-ip'',
      ''daddr:=destination-ip'', ''source-mac!'', ''destination-mac!'', ''in-interface!'',
      ''interface:=in-interface'', ''if:=in-interface'', ''out-interface!'',
      ''outerface:=out-interface'', ''of:=out-interface'', ''h-length=s'', ''opcode=s'',
      ''h-type=s'', ''proto-type=s'', ''mangle-ip-s=s'', ''mangle-ip-d=s'',
      ''mangle-mac-s=s'', ''mangle-mac-d=s'', ''mangle-target=s''])]"

definition proto_specs_eb :: specs where
  "proto_specs_eb =
   [(''IPv4'', [''ip-source!'', ''ip-destination!'', ''ip-src:=ip-source'',
      ''ip-dst:=ip-destination'', ''ip-tos!'', ''ip-protocol!'', ''ip-proto:=ip-protocol'',
      ''ip-source-port!'', ''ip-sport:=ip-source-port'', ''ip-destination-port!'',
      ''ip-dport:=ip-destination-port'']),
    (''IPv6'', [''ip6-source!'', ''ip6-destination!'', ''ip6-src:=ip6-source'',
      ''ip6-dst:=ip6-destination'', ''ip6-tclass!'', ''ip6-protocol!'',
      ''ip6-proto:=ip6-protocol'', ''ip6-source-port!'', ''ip6-sport:=ip6-source-port'',
      ''ip6-destination-port!'', ''ip6-dport:=ip6-destination-port'']),
    (''ARP'', eb_arp_match_specs),
    (''RARP'', eb_arp_match_specs),
    (''802_1Q'', [''vlan-id!'', ''vlan-prio!'', ''vlan-encap!''])]"

definition match_specs_eb :: specs where
  "match_specs_eb =
   [('''', [''in-interface!'', ''interface:=in-interface'', ''if:=in-interface'',
      ''out-interface!'', ''outerface:=out-interface'', ''of:=out-interface'',
      ''logical-in!'', ''logical-out!'', ''source!'', ''saddr:=source'', ''destination!'',
      ''daddr:=destination'', ''802_3-sap!'', ''802_3-type!'', ''!among-dst=c'',
      ''!among-src=c'', ''!among-dst-file'', ''!among-src-file'', ''limit=s'',
      ''limit-burst=s'', ''mark!'', ''pkttype-type!'', ''stp-type!'', ''stp-flags!'',
      ''stp-root-prio!'', ''stp-root-addr!'', ''stp-root-cost!'', ''stp-sender-prio!'',
      ''stp-sender-addr!'', ''stp-port!'', ''stp-msg-age!'', ''stp-max-age!'',
      ''stp-hello-time!'', ''stp-forward-delay!'', ''log*0'', ''log-level=s'',
      ''log-prefix=s'', ''log-ip*0'', ''log-arp*0''])]"

definition target_specs_eb :: specs where
  "target_specs_eb =
   [(''arpreply'', [''arpreply-mac'', ''arpreply-target'']),
    (''dnat'', [''to-destination'', ''dnat-target'']),
    (''MARK'', [''set-mark'', ''mark-target'']),
    (''redirect'', [''redirect-target'']),
    (''snat'', [''to-source'', ''snat-target'', ''snat-arp*0''])]"

section \<open>The registry\<close>

fun add_defs :: "string \<Rightarrow> kparams \<Rightarrow> specs \<Rightarrow> registry \<Rightarrow> registry res" where
  "add_defs fam dflt [] defs = Inr defs"
| "add_defs fam dflt ((name, specs) # rest) defs =
     bindR (add_def fam dflt name specs defs) (add_defs fam dflt rest)"

definition build_proto :: "registry res" where
  "build_proto = bindR (add_defs ''ip'' (PInt 1) proto_specs_ip []) (add_defs ''eb'' (PInt 1) proto_specs_eb)"

definition build_match :: "registry res" where
  "build_match =
     bindR (add_defs ''ip'' (PInt 1) (match_specs_ip_1 @ match_specs_ip_2) [])
       (\<lambda>r. bindR (add_defs ''arp'' (PInt 1) match_specs_arp r) (add_defs ''eb'' (PInt 1) match_specs_eb))"

definition build_target :: "registry res" where
  "build_target =
     bindR (add_defs ''ip'' (PCodes ''s'') target_specs_ip [])
       (add_defs ''eb'' (PCodes ''s'') target_specs_eb)"

definition registry_of :: "registry res \<Rightarrow> registry" where
  "registry_of r = (case r of Inl _ \<Rightarrow> [] | Inr d \<Rightarrow> d)"

definition PROTO_DEFS :: registry where "PROTO_DEFS = registry_of build_proto"
definition MATCH_DEFS :: registry where "MATCH_DEFS = registry_of build_match"
definition TARGET_DEFS :: registry where "TARGET_DEFS = registry_of build_target"

definition PORT_PROTOCOLS :: "string list" where
  "PORT_PROTOCOLS = [''tcp'', ''udp'', ''udplite'', ''dccp'', ''sctp'']"

definition SHORTCUTS :: "(string, (string, string \<times> string) dict) dict" where
  "SHORTCUTS =
     [(''ip'', [(''sports'', (''multiport'', ''source-ports'')),
               (''dports'', (''multiport'', ''destination-ports'')),
               (''comment'', (''comment'', ''comment''))])]"

text \<open>\<^verbatim>\<open>DEFS.get(family, {}).get(name)\<close>\<close>

definition registry_get :: "registry \<Rightarrow> string \<Rightarrow> string \<Rightarrow> moddef option" where
  "registry_get r fam name =
     (case dict_get r fam of None \<Rightarrow> None | Some d \<Rightarrow> dict_get d name)"

section \<open>Decoding keeps what a specification says\<close>

lemma search_tail_Some:
  "search_tail m ok s = Some (a, b) \<Longrightarrow> s = a @ m @ b \<and> ok b"
proof (induction s arbitrary: a)
  case (Cons c s)
  then show ?case
    by (auto split: if_splits dest!: starts_withE)
qed simp

lemma search_tail_none: "m \<noteq> [] \<Longrightarrow> hd m \<notin> set s \<Longrightarrow> search_tail m ok s = None"
proof (induction s)
  case (Cons c s)
  then have "\<not> starts_with m (c # s)" by (cases m) (auto simp: starts_with_def)
  with Cons show ?case by simp
qed simp

lemma search_tail_first:
  "m \<noteq> [] \<Longrightarrow> hd m \<notin> set a \<Longrightarrow> ok b \<Longrightarrow> search_tail m ok (a @ m @ b) = Some (a, b)"
proof (induction a)
  case Nil
  then show ?case by (cases m) (simp_all add: starts_with_def)
next
  case (Cons c a)
  then have "\<not> starts_with m (c # a @ m @ b)" by (cases m) (auto simp: starts_with_def)
  with Cons show ?case by simp
qed

text \<open>
  A printer for the keyword specifications, and the decoder as its inverse on well-formed names:
  the characters \<^verbatim>\<open>! * = & :\<close> do not occur in an option name.
\<close>

definition plain_name :: "string \<Rightarrow> bool" where
  "plain_name s \<longleftrightarrow> s \<noteq> [] \<and> (\<forall>c \<in> set s. c \<notin> set ''!*=&:'')"

definition encode_params :: "kparams \<Rightarrow> kparams \<Rightarrow> string" where
  "encode_params dflt p =
     (if p = dflt then []
      else case p of
             PNone \<Rightarrow> ''*0''
           | PInt n \<Rightarrow> ''*'' @ string_of_nat n
           | PCodes s \<Rightarrow> (if all_digits s then ''*'' else ''='') @ s
           | PFun f \<Rightarrow> ''&'' @ f)"

definition encode_spec :: "kparams \<Rightarrow> keyword \<Rightarrow> string" where
  "encode_spec dflt k =
     (if kw_pre_negation k then ''!'' else []) @ kw_name k @
     (if kw_negation k \<and> \<not> kw_pre_negation k then ''!'' else []) @
     encode_params dflt (kw_params k)"

definition printable :: "kparams \<Rightarrow> keyword \<Rightarrow> bool" where
  "printable dflt k \<longleftrightarrow>
     plain_name (kw_name k) \<and> kw_ferm_name k = None \<and>
     (kw_pre_negation k \<longrightarrow> kw_negation k) \<and>
     (case kw_params k of
        PNone \<Rightarrow> True
      | PInt n \<Rightarrow> PInt n = dflt
      | PCodes s \<Rightarrow> (all_digits s \<or> param_codes s) \<and> s \<noteq> ''0''
      | PFun f \<Rightarrow> non_spaces f \<and> (\<forall>c \<in> set f. c \<notin> set ''*=:''))"

lemma match_none:
  "CHR ''*'' \<notin> set s \<Longrightarrow> star_match s = None"
  "CHR ''='' \<notin> set s \<Longrightarrow> eq_match s = None"
  "CHR ''&'' \<notin> set s \<Longrightarrow> amp_match s = None"
  "CHR '':'' \<notin> set s \<Longrightarrow> alias_match s = None"
  by (simp_all add: star_match_def eq_match_def amp_match_def alias_match_def search_tail_none)

lemma match_first:
  "CHR ''*'' \<notin> set a \<Longrightarrow> all_digits b \<Longrightarrow> star_match (a @ CHR ''*'' # b) = Some (a, b)"
  "CHR ''='' \<notin> set a \<Longrightarrow> param_codes b \<Longrightarrow> eq_match (a @ CHR ''='' # b) = Some (a, b)"
  "CHR ''&'' \<notin> set a \<Longrightarrow> non_spaces b \<Longrightarrow> amp_match (a @ CHR ''&'' # b) = Some (a, b)"
  using search_tail_first [of "''*''" a all_digits b] search_tail_first [of "''=''" a param_codes b]
    search_tail_first [of "''&''" a non_spaces b]
  by (simp_all add: star_match_def eq_match_def amp_match_def)

lemma param_codes_chars: "param_codes s \<Longrightarrow> s \<noteq> [] \<and> CHR ''*'' \<notin> set s \<and> CHR '':'' \<notin> set s \<and> s \<noteq> ''0''"
proof -
  assume p: "param_codes s"
  show ?thesis
  proof (cases "s = ''m''")
    case True
    then show ?thesis by simp
  next
    case False
    with p have s: "s \<noteq> []" "set s \<subseteq> set ''acs''" by (simp_all add: param_codes_def subset_eq)
    have "CHR ''*'' \<notin> set ''acs''" "CHR '':'' \<notin> set ''acs''" "\<not> set ''0'' \<subseteq> set ''acs''"
      by simp_all
    with s show ?thesis by blast
  qed
qed

lemma all_digits_chars: "all_digits s \<Longrightarrow> s \<noteq> [] \<and> CHR '':'' \<notin> set s"
  by (auto simp: all_digits_def is_digit_def char_code_def)

text \<open>The decoder reads back the name, the parameters and the two negation marks.\<close>

lemma decode_params_encode:
  assumes n: "CHR ''*'' \<notin> set n" "CHR ''='' \<notin> set n" "CHR ''&'' \<notin> set n"
    and p: "printable dflt k" and dflt: "truthy_params dflt = dflt"
  shows "\<exists>q. decode_params dflt (n @ encode_params dflt (kw_params k)) = (q, n) \<and>
             truthy_params q = kw_params k"
proof (cases "kw_params k = dflt")
  case True
  with dflt n show ?thesis by (simp add: decode_params_def encode_params_def match_none)
next
  case False
  show ?thesis
  proof (cases "kw_params k")
    case PNone
    have "all_digits ''0''" by (simp add: all_digits_def is_digit_def char_code_def)
    with PNone False n show ?thesis
      by (simp add: decode_params_def encode_params_def truthy_params_def match_none match_first)
  next
    case (PInt m)
    with p False show ?thesis by (simp add: printable_def)
  next
    case (PCodes s)
    show ?thesis
    proof (cases "all_digits s")
      case True
      with PCodes False n p all_digits_chars [OF True] show ?thesis
        by (simp add: decode_params_def encode_params_def truthy_params_def printable_def
            match_none match_first)
    next
      case no: False
      with p PCodes have codes: "param_codes s" by (simp add: printable_def)
      with PCodes False n no param_codes_chars [OF codes] show ?thesis
        by (simp add: decode_params_def encode_params_def truthy_params_def printable_def
            match_none match_first)
    qed
  next
    case (PFun f)
    with p have f: "non_spaces f" "CHR ''*'' \<notin> set f" "CHR ''='' \<notin> set f"
      by (auto simp: printable_def)
    with PFun False n show ?thesis
      by (simp add: decode_params_def encode_params_def truthy_params_def match_none match_first)
  qed
qed

lemma plain_name_ends:
  "plain_name s \<Longrightarrow> \<not> starts_with ''!'' s \<and> \<not> ends_with ''!'' s"
proof -
  assume p: "plain_name s"
  then obtain c t where s: "s = c # t" and c: "c \<noteq> CHR ''!''"
    by (cases s) (auto simp: plain_name_def)
  from p have l: "last s \<noteq> CHR ''!''" and ne: "s \<noteq> []"
    by (auto simp: plain_name_def dest: last_in_set)
  then have "drop (length s - 1) s = [last s]"
    by (metis append_butlast_last_id append_eq_conv_conj length_butlast)
  with l s c show ?thesis by (simp add: starts_with_def ends_with_def)
qed

text \<open>
  C14: The encoding of a keyword as a module-table entry loses nothing: decoding the entry printed
  for a keyword gives the keyword back, with its argument shape and both negation marks, for
  every printable keyword.
\<close>

theorem decode_encode_spec:
  assumes p: "printable dflt k" and dflt: "truthy_params dflt = dflt"
  shows "decode_spec dflt (encode_spec dflt k) = k"
proof -
  let ?n = "(if kw_pre_negation k then ''!'' else []) @ kw_name k @
     (if kw_negation k \<and> \<not> kw_pre_negation k then ''!'' else [])"
  have name: "plain_name (kw_name k)" using p by (simp add: printable_def)
  then have "CHR ''*'' \<notin> set ?n" "CHR ''='' \<notin> set ?n" "CHR ''&'' \<notin> set ?n"
    by (auto simp: plain_name_def)
  from decode_params_encode [OF this p dflt] obtain q where
    q: "decode_params dflt (encode_spec dflt k) = (q, ?n)" "truthy_params q = kw_params k"
    by (auto simp: encode_spec_def)
  have "starts_with ''!'' ?n \<longleftrightarrow> kw_pre_negation k"
    using plain_name_ends [OF name] name
    by (cases "kw_name k") (auto simp: starts_with_def plain_name_def)
  moreover have "ends_with ''!'' (kw_name k @ ''!'')" by simp
  ultimately show ?thesis
    using q plain_name_ends [OF name] p
    by (auto simp: decode_spec_def printable_def butlast_append)
qed

definition sample_keyword :: keyword where
  "sample_keyword =
     \<lparr>kw_name = ''tcp-flags'', kw_params = PCodes ''cc'', kw_negation = True, kw_pre_negation = False,
      kw_ferm_name = None\<rparr>"

lemma decode_encode_spec_witness:
  "decode_spec (PInt 1) (encode_spec (PInt 1) sample_keyword) = sample_keyword \<and>
   encode_spec (PInt 1) sample_keyword = ''tcp-flags!=cc''"
proof
  show "decode_spec (PInt 1) (encode_spec (PInt 1) sample_keyword) = sample_keyword"
    by (rule decode_encode_spec) code_simp+
  show "encode_spec (PInt 1) sample_keyword = ''tcp-flags!=cc''" by code_simp
qed

lemma encode_spec_not_alias:
  assumes p: "printable dflt k"
  shows "alias_match (encode_spec dflt k) = None"
proof -
  have "CHR '':'' \<notin> set (string_of_nat m)" for m
    using all_digits_chars [OF all_digits_string_of_nat] by blast
  moreover have "CHR '':'' \<notin> set s" if "all_digits s \<or> param_codes s" for s
    using that all_digits_chars param_codes_chars by blast
  ultimately have "CHR '':'' \<notin> set (encode_params dflt (kw_params k))"
    using p by (cases "kw_params k") (simp_all add: encode_params_def printable_def, blast+)
  moreover have "CHR '':'' \<notin> set (kw_name k)"
    using p by (force simp: printable_def plain_name_def)
  ultimately have "CHR '':'' \<notin> set (encode_spec dflt k)"
    by (simp add: encode_spec_def)
  then show ?thesis by (rule match_none)
qed

section \<open>The tables load\<close>

definition module_of :: "kparams \<Rightarrow> string list \<Rightarrow> moddef" where
  "module_of dflt ss = (case add_specs dflt ss empty_moddef of Inl _ \<Rightarrow> empty_moddef | Inr m \<Rightarrow> m)"

definition specs_load :: "kparams \<Rightarrow> string list \<Rightarrow> bool" where
  "specs_load dflt ss = (case add_specs dflt ss empty_moddef of Inl _ \<Rightarrow> False | Inr m \<Rightarrow> True)"

lemma add_specs_no_alias:
  "list_all (\<lambda>s. list_all (\<lambda>c. c \<noteq> CHR '':'') s) ss \<Longrightarrow> \<exists>m'. add_specs dflt ss m = Inr m'"
proof (induction ss arbitrary: m)
  case (Cons s ss)
  then have "CHR '':'' \<notin> set s" by (auto simp: list_all_iff)
  then have "alias_match s = None" by (rule match_none)
  then obtain m' where "add_spec dflt s m = Inr m'" by (simp add: add_spec_def Let_def)
  with Cons show ?case by simp
qed simp

lemma specs_load_no_alias:
  "list_all (\<lambda>s. list_all (\<lambda>c. c \<noteq> CHR '':'') s) ss \<Longrightarrow> specs_load dflt ss"
  using add_specs_no_alias [of ss dflt empty_moddef] by (auto simp: specs_load_def)

lemma specs_load_module: "specs_load dflt ss \<Longrightarrow> add_specs dflt ss empty_moddef = Inr (module_of dflt ss)"
  by (simp add: specs_load_def module_of_def split: sum.splits)

lemma registry_get_set:
  "registry_get (dict_set fam d defs) f n = (if f = fam then dict_get d n else registry_get defs f n)"
  by (simp add: registry_get_def)

text \<open>Loading one family adds exactly its modules.\<close>

lemma add_defs_load:
  assumes "distinct (map fst specs)"
    and "\<forall>n \<in> fst ` set specs. registry_get defs fam n = None"
    and "\<forall>(n, ss) \<in> set specs. specs_load dflt ss"
  shows "\<exists>r. add_defs fam dflt specs defs = Inr r \<and>
    (\<forall>f n. registry_get r f n =
       (if f = fam \<and> n \<in> fst ` set specs then Some (module_of dflt (the (map_of specs n)))
        else registry_get defs f n))"
  using assms
proof (induction specs arbitrary: defs)
  case (Cons e specs)
  obtain n ss where e: "e = (n, ss)" by fastforce
  let ?family = "case dict_get defs fam of None \<Rightarrow> [] | Some d \<Rightarrow> d"
  let ?defs = "dict_set fam (dict_set n (module_of dflt ss) ?family) defs"
  have family: "dict_get ?family m = registry_get defs fam m" for m
    by (simp add: registry_get_def split: option.splits)
  from Cons.prems e have fresh: "registry_get defs fam n = None" and load: "specs_load dflt ss"
    by auto
  have step: "add_def fam dflt n ss defs = Inr ?defs"
    using fresh specs_load_module [OF load] by (simp add: add_def_def dict_has_def family)
  have get: "registry_get ?defs f m =
      (if f = fam \<and> m = n then Some (module_of dflt ss) else registry_get defs f m)" for f m
    by (simp add: registry_get_set family)
  have fresh': "\<forall>m \<in> fst ` set specs. registry_get ?defs fam m = None"
  proof
    fix m assume "m \<in> fst ` set specs"
    with Cons.prems e show "registry_get ?defs fam m = None" by (auto simp: get)
  qed
  from Cons.IH [of ?defs] Cons.prems e fresh' obtain r where
    r: "add_defs fam dflt specs ?defs = Inr r"
      "\<forall>f m. registry_get r f m =
         (if f = fam \<and> m \<in> fst ` set specs then Some (module_of dflt (the (map_of specs m)))
          else registry_get ?defs f m)"
    by auto
  from Cons.prems e have n: "n \<notin> fst ` set specs" by simp
  show ?case
  proof (intro exI conjI allI)
    show "add_defs fam dflt (e # specs) defs = Inr r"
      using r(1) step e by simp
    fix f m
    show "registry_get r f m =
       (if f = fam \<and> m \<in> fst ` set (e # specs) then Some (module_of dflt (the (map_of (e # specs) m)))
        else registry_get defs f m)"
      using r(2) n e by (auto simp: get)
  qed
qed simp

definition specs_table_ok :: "kparams \<Rightarrow> specs \<Rightarrow> bool" where
  "specs_table_ok dflt specs \<longleftrightarrow>
     distinct (map fst specs) \<and> list_all (\<lambda>(n, ss). specs_load dflt ss) specs"

lemma registry_get_Nil [simp]: "registry_get [] f n = None"
  by (simp add: registry_get_def)

definition no_colon :: "string list \<Rightarrow> bool" where
  "no_colon ss = list_all (\<lambda>s. list_all (\<lambda>c. c \<noteq> CHR '':'') s) ss"

lemma specs_table_okI:
  "distinct (map fst specs) \<Longrightarrow>
   list_all (\<lambda>(n, ss). if no_colon ss then True else specs_load dflt ss) specs \<Longrightarrow>
   specs_table_ok dflt specs"
  using specs_load_no_alias
  by (fastforce simp: specs_table_ok_def list_all_iff no_colon_def split: if_splits)

lemma specs_tables_ok:
  "specs_table_ok (PInt 1) proto_specs_ip"
  "specs_table_ok (PInt 1) proto_specs_eb"
  "specs_table_ok (PInt 1) (match_specs_ip_1 @ match_specs_ip_2)"
  "specs_table_ok (PInt 1) match_specs_arp"
  "specs_table_ok (PInt 1) match_specs_eb"
  "specs_table_ok (PCodes ''s'') target_specs_ip"
  "specs_table_ok (PCodes ''s'') target_specs_eb"
  by (rule specs_table_okI; code_simp)+

lemma add_defs_table:
  "specs_table_ok dflt specs \<Longrightarrow> \<forall>n. registry_get defs fam n = None \<Longrightarrow>
   \<exists>r. add_defs fam dflt specs defs = Inr r \<and>
    (\<forall>f n. registry_get r f n =
       (if f = fam then map_option (module_of dflt) (map_of specs n) else registry_get defs f n))"
proof -
  assume ok: "specs_table_ok dflt specs" and fresh: "\<forall>n. registry_get defs fam n = None"
  then obtain r where r: "add_defs fam dflt specs defs = Inr r"
    and get: "\<And>f n. registry_get r f n =
       (if f = fam \<and> n \<in> fst ` set specs then Some (module_of dflt (the (map_of specs n)))
        else registry_get defs f n)"
    using add_defs_load [of specs defs fam dflt]
    by (auto simp: specs_table_ok_def list_all_iff)
  have "n \<in> fst ` set specs \<longleftrightarrow> map_of specs n \<noteq> None" for n
    by (simp add: map_of_eq_None_iff)
  with r get fresh show ?thesis by (intro exI [of _ r]) auto
qed

text \<open>
  Loading the program builds the three registries without raising, and each holds exactly the
  modules of its tables.
\<close>

lemma build_proto_loads:
  "\<exists>r. build_proto = Inr r \<and> (\<forall>f n. registry_get r f n =
     (if f = ''eb'' then map_option (module_of (PInt 1)) (map_of proto_specs_eb n)
      else if f = ''ip'' then map_option (module_of (PInt 1)) (map_of proto_specs_ip n) else None))"
proof -
  obtain r1 where r1: "add_defs ''ip'' (PInt 1) proto_specs_ip [] = Inr r1"
    "\<And>f n. registry_get r1 f n =
       (if f = ''ip'' then map_option (module_of (PInt 1)) (map_of proto_specs_ip n) else None)"
    using add_defs_table [OF specs_tables_ok(1), of "[]" "''ip''"] by auto
  obtain r2 where r2: "add_defs ''eb'' (PInt 1) proto_specs_eb r1 = Inr r2"
    "\<And>f n. registry_get r2 f n =
       (if f = ''eb'' then map_option (module_of (PInt 1)) (map_of proto_specs_eb n)
        else registry_get r1 f n)"
    using add_defs_table [OF specs_tables_ok(2), of r1 "''eb''"] r1(2) by auto
  show ?thesis using r1 r2 by (auto simp: build_proto_def)
qed

lemma build_match_loads:
  "\<exists>r. build_match = Inr r \<and> (\<forall>f n. registry_get r f n =
     (if f = ''eb'' then map_option (module_of (PInt 1)) (map_of match_specs_eb n)
      else if f = ''arp'' then map_option (module_of (PInt 1)) (map_of match_specs_arp n)
      else if f = ''ip''
      then map_option (module_of (PInt 1)) (map_of (match_specs_ip_1 @ match_specs_ip_2) n)
      else None))"
proof -
  obtain r1 where r1: "add_defs ''ip'' (PInt 1) (match_specs_ip_1 @ match_specs_ip_2) [] = Inr r1"
    "\<And>f n. registry_get r1 f n = (if f = ''ip''
       then map_option (module_of (PInt 1)) (map_of (match_specs_ip_1 @ match_specs_ip_2) n)
       else None)"
    using add_defs_table [OF specs_tables_ok(3), of "[]" "''ip''"] by auto
  obtain r2 where r2: "add_defs ''arp'' (PInt 1) match_specs_arp r1 = Inr r2"
    "\<And>f n. registry_get r2 f n =
       (if f = ''arp'' then map_option (module_of (PInt 1)) (map_of match_specs_arp n)
        else registry_get r1 f n)"
    using add_defs_table [OF specs_tables_ok(4), of r1 "''arp''"] r1(2) by auto
  obtain r3 where r3: "add_defs ''eb'' (PInt 1) match_specs_eb r2 = Inr r3"
    "\<And>f n. registry_get r3 f n =
       (if f = ''eb'' then map_option (module_of (PInt 1)) (map_of match_specs_eb n)
        else registry_get r2 f n)"
    using add_defs_table [OF specs_tables_ok(5), of r2 "''eb''"] r1(2) r2(2) by auto
  show ?thesis using r1 r2 r3 by (auto simp: build_match_def)
qed

lemma build_target_loads:
  "\<exists>r. build_target = Inr r \<and> (\<forall>f n. registry_get r f n =
     (if f = ''eb'' then map_option (module_of (PCodes ''s'')) (map_of target_specs_eb n)
      else if f = ''ip'' then map_option (module_of (PCodes ''s'')) (map_of target_specs_ip n)
      else None))"
proof -
  obtain r1 where r1: "add_defs ''ip'' (PCodes ''s'') target_specs_ip [] = Inr r1"
    "\<And>f n. registry_get r1 f n =
       (if f = ''ip'' then map_option (module_of (PCodes ''s'')) (map_of target_specs_ip n) else None)"
    using add_defs_table [OF specs_tables_ok(6), of "[]" "''ip''"] by auto
  obtain r2 where r2: "add_defs ''eb'' (PCodes ''s'') target_specs_eb r1 = Inr r2"
    "\<And>f n. registry_get r2 f n =
       (if f = ''eb'' then map_option (module_of (PCodes ''s'')) (map_of target_specs_eb n)
        else registry_get r1 f n)"
    using add_defs_table [OF specs_tables_ok(7), of r1 "''eb''"] r1(2) by auto
  show ?thesis using r1 r2 by (auto simp: build_target_def)
qed

lemma proto_defs_get:
  "registry_get PROTO_DEFS f n =
     (if f = ''eb'' then map_option (module_of (PInt 1)) (map_of proto_specs_eb n)
      else if f = ''ip'' then map_option (module_of (PInt 1)) (map_of proto_specs_ip n) else None)" (is "_ = ?rhs")
proof -
  obtain r where b: "build_proto = Inr r" and get: "registry_get r f n = ?rhs"
    using build_proto_loads by blast
  have "PROTO_DEFS = r" unfolding PROTO_DEFS_def registry_of_def by (subst b) simp
  with get show ?thesis by simp
qed

lemma match_defs_get:
  "registry_get MATCH_DEFS f n =
     (if f = ''eb'' then map_option (module_of (PInt 1)) (map_of match_specs_eb n)
      else if f = ''arp'' then map_option (module_of (PInt 1)) (map_of match_specs_arp n)
      else if f = ''ip''
      then map_option (module_of (PInt 1)) (map_of (match_specs_ip_1 @ match_specs_ip_2) n)
      else None)" (is "_ = ?rhs")
proof -
  obtain r where b: "build_match = Inr r" and get: "registry_get r f n = ?rhs"
    using build_match_loads by blast
  have "MATCH_DEFS = r" unfolding MATCH_DEFS_def registry_of_def by (subst b) simp
  with get show ?thesis by simp
qed

lemma target_defs_get:
  "registry_get TARGET_DEFS f n =
     (if f = ''eb'' then map_option (module_of (PCodes ''s'')) (map_of target_specs_eb n)
      else if f = ''ip'' then map_option (module_of (PCodes ''s'')) (map_of target_specs_ip n)
      else None)" (is "_ = ?rhs")
proof -
  obtain r where b: "build_target = Inr r" and get: "registry_get r f n = ?rhs"
    using build_target_loads by blast
  have "TARGET_DEFS = r" unfolding TARGET_DEFS_def registry_of_def by (subst b) simp
  with get show ?thesis by simp
qed

text \<open>
  Loading the module tables raises no error (no module is defined twice, every alias names a
  keyword of its module), and the three registries hold exactly the modules of their tables,
  each under its family.
\<close>

theorem registries_load:
  "\<exists>p m t. build_proto = Inr p \<and> build_match = Inr m \<and> build_target = Inr t \<and>
     (\<forall>n. registry_get p ''ip'' n = map_option (module_of (PInt 1)) (map_of proto_specs_ip n) \<and>
          registry_get p ''eb'' n = map_option (module_of (PInt 1)) (map_of proto_specs_eb n) \<and>
          registry_get m ''ip'' n =
            map_option (module_of (PInt 1)) (map_of (match_specs_ip_1 @ match_specs_ip_2) n) \<and>
          registry_get m ''arp'' n = map_option (module_of (PInt 1)) (map_of match_specs_arp n) \<and>
          registry_get m ''eb'' n = map_option (module_of (PInt 1)) (map_of match_specs_eb n) \<and>
          registry_get t ''ip'' n = map_option (module_of (PCodes ''s'')) (map_of target_specs_ip n) \<and>
          registry_get t ''eb'' n = map_option (module_of (PCodes ''s'')) (map_of target_specs_eb n))"
proof -
  obtain p m t where build: "build_proto = Inr p" "build_match = Inr m" "build_target = Inr t"
    using build_proto_loads build_match_loads build_target_loads by blast
  have "p = PROTO_DEFS" "m = MATCH_DEFS" "t = TARGET_DEFS"
    by (simp_all only: PROTO_DEFS_def MATCH_DEFS_def TARGET_DEFS_def registry_of_def build sum.case)
  with build have "build_proto = Inr PROTO_DEFS" "build_match = Inr MATCH_DEFS" "build_target = Inr TARGET_DEFS"
    by blast+
  then show ?thesis
    by (intro exI conjI allI) (assumption | simp only: proto_defs_get match_defs_get target_defs_get, simp)+
qed

end
