(* ===== verification/Ferm_Tokenizer.thy ===== *)
theory Ferm_Tokenizer
  imports Ferm_Values
begin

text \<open>
  The lexing layer, \<^verbatim>\<open>src/src/pyferm/tokenizer.py\<close>, with the byte-level helpers of
  \<^verbatim>\<open>streams.py\<close> and the located error report of \<^verbatim>\<open>errors.py\<close>.

  A \<open>script\<close> is one open input: its unread lines, the queue of tokens already lexed, the
  current line number and the groups of consumed tokens the error report prints. The lines of
  a handle are the ones \<^verbatim>\<open>readline\<close> returns, each with its newline. The chain of \<^verbatim>\<open>parent\<close>
  scripts is kept as the file name and line of each parent, which is all the program reads
  from it.
\<close>

section \<open>Rendering control characters\<close>

definition is_control :: "char \<Rightarrow> bool" where
  "is_control c \<longleftrightarrow> char_code c \<le> 31 \<or> (127 \<le> char_code c \<and> char_code c \<le> 159)"

definition escape_control_chars :: "string \<Rightarrow> string" where
  "escape_control_chars name =
     concat (map (\<lambda>c. if is_control c
                      then [BACKSLASH, CHR ''x'', hex_digit (char_code c div 16),
                            hex_digit (char_code c mod 16)]
                      else [c]) name)"

section \<open>The lexer\<close>

definition is_quote :: "char \<Rightarrow> bool" where
  "is_quote c \<longleftrightarrow> c = DQUOTE \<or> c = SQUOTE \<or> c = BACKTICK"

definition is_special :: "char \<Rightarrow> bool" where
  "is_special c \<longleftrightarrow> c \<in> set ''!,=&$%(){};''"

text \<open>The class \<^verbatim>\<open>[-+\w/.:]\<close>.\<close>

definition is_run :: "char \<Rightarrow> bool" where
  "is_run c \<longleftrightarrow> is_word c \<or> c = CHR ''-'' \<or> c = CHR ''+'' \<or> c = CHR ''/'' \<or> c = CHR ''.'' \<or> c = CHR '':''"

text \<open>The rest of a non-greedy quoted string: its body and what follows the closing quote.\<close>

definition quoted_rest :: "char \<Rightarrow> string \<Rightarrow> (string \<times> string) option" where
  "quoted_rest q s =
     (let body = takeWhile (\<lambda>c. c \<noteq> q \<and> c \<noteq> NL) s
      in case drop (length body) s of
           [] \<Rightarrow> None
         | d # r \<Rightarrow> if d = q then Some (body, r) else None)"

lemma quoted_rest_length: "quoted_rest q s = Some (body, r) \<Longrightarrow> length r < length s"
  by (auto simp: quoted_rest_def Let_def split: list.splits if_splits)
    (metis Suc_le_eq length_Cons length_drop diff_le_self)

lemma dropWhile_length: "length (dropWhile p s) \<le> length s"
  by (induction s) auto

text \<open>\<^verbatim>\<open>_TOKEN_RE.findall\<close>\<close>

function token_findall :: "string \<Rightarrow> string list" where
  "token_findall [] = []"
| "token_findall (c # s) =
     (if is_quote c
      then (case quoted_rest c s of
              Some (body, rest) \<Rightarrow> ([c] @ body @ [c]) # token_findall rest
            | None \<Rightarrow> token_findall s)
      else if is_special c then [c] # token_findall s
      else if is_run c then (c # takeWhile is_run s) # token_findall (dropWhile is_run s)
      else if c = CHR ''@''
      then (if takeWhile is_word s = [] then token_findall s
            else (c # takeWhile is_word s) # token_findall (dropWhile is_word s))
      else if c = CHR ''#'' then [c] # token_findall s
      else token_findall s)"
  by pat_completeness auto
termination
  by (relation "measure length")
    (auto dest: quoted_rest_length simp: less_Suc_eq_le dropWhile_length)

declare token_findall.simps(2) [simp del]

definition tokenize_string :: "string \<Rightarrow> string list" where
  "tokenize_string s = takeWhile (\<lambda>w. w \<noteq> ''#'') (token_findall s)"

section \<open>Scripts and the token queue\<close>

datatype token = TStr string | TLine nat | TVal cfg_value

definition token_of_value :: "cfg_value \<Rightarrow> token" where
  "token_of_value v = (case v of VStr s \<Rightarrow> TStr s | _ \<Rightarrow> TVal v)"

fun is_str_token :: "token \<Rightarrow> bool" where
  "is_str_token (TStr _) = True"
| "is_str_token _ = False"

record script =
  sc_filename :: string
  sc_handle :: "string list option"
  sc_line :: nat
  sc_past :: "token list list"
  sc_tokens :: "token list"
  sc_parents :: "(string \<times> nat) list"
  sc_base_level :: "nat option"
  sc_status :: "int option"

definition new_script :: "string \<Rightarrow> string list option \<Rightarrow> (string \<times> nat) list \<Rightarrow> int option \<Rightarrow> script" where
  "new_script filename lines parents status =
     \<lparr>sc_filename = filename, sc_handle = lines, sc_line = 0, sc_past = [], sc_tokens = [],
      sc_parents = parents, sc_base_level = None, sc_status = status\<rparr>"

text \<open>The loop of \<^verbatim>\<open>prepare_tokens\<close> runs at most once: a line always yields its sentinel.\<close>

definition prepare_tokens :: "script \<Rightarrow> bool \<times> script" where
  "prepare_tokens s =
     (if sc_tokens s \<noteq> [] then (True, s)
      else case sc_handle s of
             None \<Rightarrow> (False, s)
           | Some [] \<Rightarrow> (False, s)
           | Some (l # ls) \<Rightarrow>
               (True, s\<lparr>sc_handle := Some ls,
                        sc_tokens := TLine (sc_line s + 1) # map TStr (tokenize_string l)\<rparr>))"

text \<open>
  \<^verbatim>\<open>handle_special_tokens\<close>: a sentinel moves the line and is dropped, a value stops the loop;
  a queued \<^verbatim>\<open>None\<close> is indistinguishable from a dropped sentinel.
\<close>

fun drain :: "token list \<Rightarrow> nat \<Rightarrow> token list \<times> nat" where
  "drain (TLine n # ts) l = drain ts n"
| "drain (TVal VNone # ts) l = drain ts l"
| "drain ts l = (ts, l)"

fun prepare_normal_lines :: "string list \<Rightarrow> nat \<Rightarrow> token list \<times> nat \<times> string list" where
  "prepare_normal_lines [] l = ([], l, [])"
| "prepare_normal_lines (x # xs) l =
     (case drain (TLine (l + 1) # map TStr (tokenize_string x)) l of
        (ts, l') \<Rightarrow> if ts \<noteq> [] then (ts, l', xs) else prepare_normal_lines xs l')"

definition prepare_normal_tokens :: "script \<Rightarrow> bool \<times> script" where
  "prepare_normal_tokens s =
     (case drain (sc_tokens s) (sc_line s) of
        (ts, l) \<Rightarrow>
          if ts \<noteq> [] then (True, s\<lparr>sc_tokens := ts, sc_line := l\<rparr>)
          else (case sc_handle s of
                  None \<Rightarrow> (False, s\<lparr>sc_tokens := [], sc_line := l\<rparr>)
                | Some xs \<Rightarrow>
                    (case prepare_normal_lines xs l of
                       (ts', l', xs') \<Rightarrow>
                         (ts' \<noteq> [], s\<lparr>sc_tokens := ts', sc_line := l', sc_handle := Some xs'\<rparr>))))"

definition script_peek :: "script \<Rightarrow> token option \<times> script" where
  "script_peek s =
     (case prepare_normal_tokens s of
        (ok, s') \<Rightarrow> (if ok then Some (hd (sc_tokens s')) else None, s'))"

definition script_next_raw :: "script \<Rightarrow> token option \<times> script" where
  "script_next_raw s =
     (case prepare_tokens s of
        (ok, s') \<Rightarrow>
          if ok then (Some (hd (sc_tokens s')), s'\<lparr>sc_tokens := tl (sc_tokens s')\<rparr>)
          else (None, s'))"

text \<open>The bookkeeping of \<^verbatim>\<open>past_tokens\<close> when \<open>t\<close> is consumed.\<close>

definition close_past :: "token list list \<Rightarrow> token list list" where
  "close_past past =
     (if past = [] then past
      else
        let group = last past; prev = (if group = [] then None else Some (last group))
        in if prev = Some (TStr '';'')
           then butlast past @ [if 1 < length past then [TStr ''{''] else []]
           else if prev = Some (TStr ''}'')
           then (let rest = butlast past
                 in if rest = [] then rest
                    else butlast rest @
                         [if last rest \<noteq> [] \<and> hd (last rest) = TStr ''{'' then [TStr ''{''] else []])
           else past)"

definition record_past :: "token \<Rightarrow> token list list \<Rightarrow> token list list" where
  "record_past t past0 =
     (let past = close_past past0;
          past' = (if t = TStr ''{'' \<or> past = [] then past @ [[]] else past)
      in butlast past' @ [last past' @ [t]])"

definition script_next :: "script \<Rightarrow> token option \<times> script" where
  "script_next s =
     (case prepare_normal_tokens s of
        (ok, s') \<Rightarrow>
          if ok
          then (let t = hd (sc_tokens s')
                in (Some t, s'\<lparr>sc_tokens := tl (sc_tokens s'), sc_past := record_past t (sc_past s')\<rparr>))
          else (None, s'))"

section \<open>The located error report\<close>

type_synonym ctx_state = "string list \<times> int \<times> nat"

definition indent :: "int \<Rightarrow> string" where
  "indent n = concat (replicate (nat n) ''    '')"

definition put_line :: "nat \<Rightarrow> string \<Rightarrow> string list \<Rightarrow> string list" where
  "put_line i v ls = (ls @ replicate (Suc i - length ls) [])[i := v]"

fun token_text :: "(cfg_value \<Rightarrow> string) \<Rightarrow> token \<Rightarrow> string" where
  "token_text rp (TStr s) = s"
| "token_text rp (TLine n) = ''Line(number='' @ string_of_nat n @ '')''"
| "token_text rp (TVal v) = (if v = VNone then ''None'' else rp v)"

definition ctx_open :: "string \<Rightarrow> token \<Rightarrow> ctx_state \<Rightarrow> ctx_state" where
  "ctx_open b word st =
     (case st of (lines, tabs, cur) \<Rightarrow>
        if word = TStr b then (put_line (cur + 1) (indent tabs) lines, tabs + 1, cur + 1)
        else st)"

definition ctx_close :: "string \<Rightarrow> token \<Rightarrow> ctx_state \<Rightarrow> ctx_state" where
  "ctx_close b word st =
     (case st of (lines, tabs, cur) \<Rightarrow>
        if word = TStr b then (put_line (cur + 1) (indent (tabs - 1)) lines, tabs - 1, cur + 1)
        else st)"

definition ctx_write :: "(cfg_value \<Rightarrow> string) \<Rightarrow> token \<Rightarrow> ctx_state \<Rightarrow> ctx_state" where
  "ctx_write rp word st =
     (case st of (lines, tabs, cur) \<Rightarrow>
        let lines' = (if length lines \<le> cur then put_line cur [] lines else lines)
        in (lines'[cur := lines' ! cur @ token_text rp word @ '' ''], tabs, cur))"

definition ctx_break :: "bool \<Rightarrow> ctx_state \<Rightarrow> ctx_state" where
  "ctx_break b st =
     (case st of (lines, tabs, cur) \<Rightarrow>
        if b then (put_line (cur + 1) (indent tabs) lines, tabs, cur + 1) else st)"

definition ctx_step ::
  "(cfg_value \<Rightarrow> string) \<Rightarrow> token option \<Rightarrow> token option \<Rightarrow> token \<Rightarrow> ctx_state \<Rightarrow> ctx_state" where
  "ctx_step rp prev nxt word st =
     (let st1 = ctx_open ''{'' word (ctx_close ''}'' word (ctx_open ''('' word (ctx_close '')'' word st)));
          st2 = ctx_write rp word st1;
          st3 = ctx_break (word = TStr ''('') st2;
          st4 = ctx_break (word = TStr '')'' \<and> nxt \<noteq> Some (TStr ''{'')) st3;
          st5 = ctx_break (word = TStr ''{'') st4;
          st6 = ctx_break (word = TStr ''}'' \<and> nxt \<noteq> Some (TStr ''}'')) st5;
          st7 = ctx_break (word = TStr '';'' \<and> nxt \<noteq> Some (TStr ''}'')) st6
      in ctx_break (prev = Some (TStr ''option'')) st7)"

fun ctx_words ::
  "(cfg_value \<Rightarrow> string) \<Rightarrow> token option \<Rightarrow> token list \<Rightarrow> ctx_state \<Rightarrow> ctx_state" where
  "ctx_words rp prev [] st = st"
| "ctx_words rp prev (w # ws) st =
     ctx_words rp (Some w) ws
       (ctx_step rp prev (case ws of [] \<Rightarrow> None | n # _ \<Rightarrow> Some n) w st)"

text \<open>The word before the first one is the last one: Python's index \<^verbatim>\<open>-1\<close>.\<close>

definition render_context :: "(cfg_value \<Rightarrow> string) \<Rightarrow> script \<Rightarrow> string" where
  "render_context rp s =
     (let words = concat (sc_past s)
      in case ctx_words rp (if words = [] then None else Some (last words)) words ([], 0, 0) of
           (lines, _, _) \<Rightarrow> join_str [NL] (drop (length lines - 5) lines))"

text \<open>What \<^verbatim>\<open>error\<close> writes to the terminal before it raises.\<close>

definition error_report :: "(cfg_value \<Rightarrow> string) \<Rightarrow> script \<Rightarrow> string" where
  "error_report rp s =
     ''Error in '' @ sc_filename s @ '' line '' @ string_of_nat (sc_line s) @ '':'' @ [NL] @
     render_context rp s @ ''<--'' @ [NL]"

definition warning_text :: "script \<Rightarrow> string \<Rightarrow> string" where
  "warning_text s msg =
     ''Warning in '' @ sc_filename s @ '' line '' @ string_of_nat (sc_line s) @ '': '' @ msg @ [NL]"

section \<open>Opening a script\<close>

text \<open>
  The file system and the pipe children are the parameter \<open>open_file\<close>: the lines and, for a
  child, the exit status, or the error text. A file that is its own ancestor is refused before it
  is opened. \<open>stdin\<close> holds the lines of standard input.
\<close>

type_synonym file_result = "string + (string list \<times> int option)"

definition open_script ::
  "(string \<Rightarrow> file_result) \<Rightarrow> string list \<Rightarrow> string \<Rightarrow> script option \<Rightarrow> script res" where
  "open_script open_file stdin filename parent =
     (let chain = (case parent of None \<Rightarrow> []
                   | Some p \<Rightarrow> (sc_filename p, sc_line p) # sc_parents p)
      in if filename \<in> fst ` set chain
         then Inl (Died (''Circular reference in '' @ fst (hd chain) @ '' line '' @
                         string_of_nat (snd (hd chain)) @ '': '' @ filename))
         else if filename = ''-'' then Inr (new_script ''<stdin>'' (Some stdin) chain None)
         else (case open_file filename of
                 Inl e \<Rightarrow> Inl (Died (''Failed to open '' @ filename @ '': '' @ e))
               | Inr (ls, st) \<Rightarrow> Inr (new_script filename (Some ls) chain st)))"

section \<open>Properties of the lexer\<close>

definition lexeme :: "string \<Rightarrow> bool" where
  "lexeme w \<longleftrightarrow>
     (\<exists>q body. is_quote q \<and> w = [q] @ body @ [q] \<and> q \<notin> set body \<and> NL \<notin> set body) \<or>
     (\<exists>c. is_special c \<and> w = [c]) \<or>
     (w \<noteq> [] \<and> (\<forall>c \<in> set w. is_run c)) \<or>
     (\<exists>r. r \<noteq> [] \<and> w = CHR ''@'' # r \<and> (\<forall>c \<in> set r. is_word c))"

lemma quoted_rest_Some:
  "quoted_rest q s = Some (body, r) \<longleftrightarrow> s = body @ [q] @ r \<and> q \<notin> set body \<and> NL \<notin> set body"
proof
  assume "quoted_rest q s = Some (body, r)"
  then have body: "body = takeWhile (\<lambda>c. c \<noteq> q \<and> c \<noteq> NL) s" and "drop (length body) s = q # r"
    by (auto simp: quoted_rest_def Let_def split: list.splits if_splits)
  then have "s = body @ [q] @ r"
    by (metis append_Cons append_Nil append_take_drop_id takeWhile_eq_take)
  then show "s = body @ [q] @ r \<and> q \<notin> set body \<and> NL \<notin> set body"
    using body by (auto dest: set_takeWhileD)
next
  assume a: "s = body @ [q] @ r \<and> q \<notin> set body \<and> NL \<notin> set body"
  then have "takeWhile (\<lambda>c. c \<noteq> q \<and> c \<noteq> NL) s = body"
    by (auto simp: takeWhile_append)
  with a show "quoted_rest q s = Some (body, r)" by (simp add: quoted_rest_def)
qed

lemma token_findall_lexeme: "w \<in> set (token_findall s) \<Longrightarrow> lexeme w \<or> w = ''#''"
proof (induction s rule: token_findall.induct)
  case (2 c s)
  consider (quote) body rest where "is_quote c" "quoted_rest c s = Some (body, rest)"
    | (open_quote) "is_quote c" "quoted_rest c s = None"
    | (other) "\<not> is_quote c"
    by (cases "quoted_rest c s") auto
  then show ?case
  proof cases
    case quote
    then have "lexeme ([c] @ body @ [c])"
      by (auto simp: lexeme_def quoted_rest_Some)
    with quote 2 show ?thesis by (auto simp: token_findall.simps(2))
  next
    case open_quote
    with 2 show ?thesis by (simp add: token_findall.simps(2))
  next
    case other
    have run: "is_run c \<Longrightarrow> lexeme (c # takeWhile is_run s)"
      by (auto simp: lexeme_def dest: set_takeWhileD)
    have at: "takeWhile is_word s \<noteq> [] \<Longrightarrow> lexeme (CHR ''@'' # takeWhile is_word s)"
      by (auto simp: lexeme_def dest: set_takeWhileD)
    have special: "is_special c \<Longrightarrow> lexeme [c]"
      by (auto simp: lexeme_def)
    from other 2 run at special show ?thesis
      by (auto simp: token_findall.simps(2) split: if_splits)
  qed
qed simp

lemma not_run_space [simp]: "\<not> is_run (CHR '' '')" "\<not> is_word (CHR '' '')"
  by (simp_all add: is_run_def char_class_defs)

lemma char_kinds:
  "is_special c \<Longrightarrow> \<not> is_quote c"
  "is_run c \<Longrightarrow> \<not> is_quote c"
  "is_run c \<Longrightarrow> \<not> is_special c"
  "\<not> is_quote (CHR ''@'')" "\<not> is_special (CHR ''@'')" "\<not> is_run (CHR ''@'')"
  "\<not> is_quote (CHR '' '')" "\<not> is_special (CHR '' '')"
  "is_word c \<Longrightarrow> is_run c"
  by (auto simp: is_special_def is_quote_def is_run_def char_class_defs)

lemma token_findall_space [simp]: "token_findall (CHR '' '' # s) = token_findall s"
  by (simp add: token_findall.simps(2) char_kinds)

lemma takeWhile_boundary:
  assumes "\<forall>c \<in> set w. p c" and "s = [] \<or> \<not> p (hd s)"
  shows "takeWhile p (w @ s) = w" and "dropWhile p (w @ s) = s"
  using assms by (induction w) (cases s; simp)+

lemma token_findall_boundary:
  assumes w: "lexeme w" and s: "s = [] \<or> hd s = CHR '' ''"
  shows "token_findall (w @ s) = w # token_findall s"
proof -
  have run_s: "s = [] \<or> \<not> is_run (hd s)" and word_s: "s = [] \<or> \<not> is_word (hd s)"
    using s by auto
  from w consider
      (quote) q body where "is_quote q" "w = [q] @ body @ [q]" "q \<notin> set body" "NL \<notin> set body"
    | (special) c where "is_special c" "w = [c]"
    | (run) c r where "w = c # r" "\<forall>x \<in> set (c # r). is_run x"
    | (at) r where "r \<noteq> []" "w = CHR ''@'' # r" "\<forall>x \<in> set r. is_word x"
    unfolding lexeme_def by (metis neq_Nil_conv)
  then show ?thesis
  proof cases
    case quote
    then have "quoted_rest q (body @ [q] @ s) = Some (body, s)"
      by (simp add: quoted_rest_Some)
    with quote show ?thesis by (simp add: token_findall.simps(2))
  next
    case special
    then show ?thesis by (simp add: token_findall.simps(2) char_kinds)
  next
    case run
    with takeWhile_boundary [of r is_run s] run_s show ?thesis
      by (simp add: token_findall.simps(2) char_kinds)
  next
    case at
    with takeWhile_boundary [of r is_word s] word_s show ?thesis
      by (simp add: token_findall.simps(2) char_kinds)
  qed
qed

lemma lexeme_not_hash: "\<not> lexeme ''#''"
  by (auto simp: lexeme_def is_special_def is_run_def char_class_defs append_eq_Cons_conv)

lemma token_findall_join: "\<forall>w \<in> set ws. lexeme w \<Longrightarrow> token_findall (join_str '' '' ws) = ws"
proof (induction ws)
  case (Cons w ws)
  show ?case
  proof (cases ws)
    case Nil
    with Cons.prems token_findall_boundary [of w "[]"] show ?thesis by simp
  next
    case (Cons v vs)
    with Cons.prems Cons.IH token_findall_boundary [of w "'' '' @ join_str '' '' ws"]
    show ?thesis by simp
  qed
qed simp

lemma tokenize_string_lexeme: "w \<in> set (tokenize_string s) \<Longrightarrow> lexeme w"
  using token_findall_lexeme [of w s]
  by (auto simp: tokenize_string_def dest: set_takeWhileD)

text \<open>
  C13: Reading back is the inverse of writing: a sequence of lexemes written with blanks between
  them is lexed into the same sequence. A lexeme is a quoted string, a special character, a run
  of word characters or an \<^verbatim>\<open>@name\<close>; \<open>tokenize_string_lexeme\<close> shows that the
  lexer yields nothing else.
\<close>

theorem tokenize_join: "\<forall>w \<in> set ws. lexeme w \<Longrightarrow> tokenize_string (join_str '' '' ws) = ws"
  using lexeme_not_hash
  by (auto simp: tokenize_string_def token_findall_join intro!: takeWhile_eq_all_conv [THEN iffD2])

lemma tokenize_join_witness:
  "tokenize_string (join_str '' '' [''saddr'', ''('', ''10.0.0.0/8'', '')'', ''@if'', [SQUOTE] @ ''a # b'' @ [SQUOTE]]) =
     [''saddr'', ''('', ''10.0.0.0/8'', '')'', ''@if'', [SQUOTE] @ ''a # b'' @ [SQUOTE]]"
proof (rule tokenize_join)
  have run: "lexeme ''saddr''" "lexeme ''10.0.0.0/8''"
    by (simp_all add: lexeme_def is_run_def is_word_def is_digit_def is_upper_def is_lower_def char_code_def)
  have special: "lexeme ''(''" "lexeme '')''"
    by (simp_all add: lexeme_def is_special_def)
  have name: "lexeme ''@if''"
    unfolding lexeme_def
    by (intro disjI2 exI [of _ "''if''"]) (simp add: is_word_def is_digit_def is_upper_def is_lower_def char_code_def)
  have quoted: "lexeme ([SQUOTE] @ ''a # b'' @ [SQUOTE])"
    unfolding lexeme_def
    by (intro disjI1 exI [of _ SQUOTE] exI [of _ "''a # b''"]) (simp add: is_quote_def)
  show "\<forall>w \<in> set [''saddr'', ''('', ''10.0.0.0/8'', '')'', ''@if'', [SQUOTE] @ ''a # b'' @ [SQUOTE]]. lexeme w"
    using run special name quoted by simp
qed

section \<open>Every read consumes input\<close>

definition line_size :: "string \<Rightarrow> nat" where
  "line_size l = Suc (length (tokenize_string l))"

definition script_size :: "script \<Rightarrow> nat" where
  "script_size s =
     length (sc_tokens s) +
     (case sc_handle s of None \<Rightarrow> 0 | Some ls \<Rightarrow> sum_list (map line_size ls))"

lemma drain_length: "drain ts l = (ts', l') \<Longrightarrow> length ts' \<le> length ts"
  by (induction ts l rule: drain.induct) auto

lemma drain_head: "drain ts l = (t # ts', l') \<Longrightarrow> (\<forall>n. t \<noteq> TLine n) \<and> t \<noteq> TVal VNone"
  by (induction ts l rule: drain.induct) auto

lemma prepare_normal_lines_size:
  "prepare_normal_lines xs l = (ts, l', xs') \<Longrightarrow>
   length ts + sum_list (map line_size xs') \<le> sum_list (map line_size xs)"
proof (induction xs l rule: prepare_normal_lines.induct)
  case (2 x xs l)
  obtain us k where d: "drain (TLine (l + 1) # map TStr (tokenize_string x)) l = (us, k)"
    by fastforce
  from drain_length [OF d] have "length us \<le> line_size x" by (simp add: line_size_def)
  with 2 d show ?case by (fastforce split: if_splits)
qed simp

lemma prepare_normal_lines_head:
  "prepare_normal_lines xs l = (t # ts, l', xs') \<Longrightarrow> (\<forall>n. t \<noteq> TLine n) \<and> t \<noteq> TVal VNone"
proof (induction xs l rule: prepare_normal_lines.induct)
  case (2 x xs l)
  then show ?case by (auto split: prod.splits if_splits dest!: drain_head)
qed simp

lemma prepare_normal_tokens_size:
  "prepare_normal_tokens s = (ok, s') \<Longrightarrow> script_size s' \<le> script_size s"
  by (auto simp: prepare_normal_tokens_def script_size_def
      split: prod.splits if_splits option.splits
      dest!: drain_length prepare_normal_lines_size)

lemma prepare_normal_tokens_ok:
  "prepare_normal_tokens s = (True, s') \<Longrightarrow>
   \<exists>t ts. sc_tokens s' = t # ts \<and> (\<forall>n. t \<noteq> TLine n) \<and> t \<noteq> TVal VNone"
  by (auto simp: prepare_normal_tokens_def neq_Nil_conv
      split: prod.splits if_splits option.splits
      dest: drain_head prepare_normal_lines_head)

lemma script_next_size: "script_next s = (Some t, s') \<Longrightarrow> script_size s' < script_size s"
proof -
  assume a: "script_next s = (Some t, s')"
  obtain ok s1 where p: "prepare_normal_tokens s = (ok, s1)" by fastforce
  with a have ok by (auto simp: script_next_def split: if_splits)
  with p obtain u us where "sc_tokens s1 = u # us" by (auto dest: prepare_normal_tokens_ok)
  with a p \<open>ok\<close> have "script_size s' < script_size s1"
    by (auto simp: script_next_def Let_def script_size_def)
  with prepare_normal_tokens_size [OF p] show ?thesis by simp
qed

lemma script_next_size_le: "script_next s = (r, s') \<Longrightarrow> script_size s' \<le> script_size s"
  using prepare_normal_tokens_size [of s]
  by (cases r) (auto simp: script_next_def Let_def script_size_def split: prod.splits if_splits
      dest: script_next_size order_less_imp_le)

lemma script_next_not_line: "script_next s = (Some t, s') \<Longrightarrow> t \<noteq> TLine n"
  by (auto simp: script_next_def Let_def split: prod.splits if_splits
      dest!: prepare_normal_tokens_ok)

lemma script_peek_size: "script_peek s = (r, s') \<Longrightarrow> script_size s' \<le> script_size s"
  by (auto simp: script_peek_def split: prod.splits dest: prepare_normal_tokens_size)

lemma script_next_raw_size: "script_next_raw s = (Some t, s') \<Longrightarrow> script_size s' < script_size s"
  by (auto simp: script_next_raw_def prepare_tokens_def script_size_def line_size_def neq_Nil_conv
      split: prod.splits if_splits option.splits list.splits)

section \<open>Escaping and opening\<close>

lemma hex_digit_not_control: "d < 16 \<Longrightarrow> \<not> is_control (hex_digit d)"
  by (auto simp: hex_digit_def is_control_def char_code_def)

lemma escape_no_control: "c \<in> set (escape_control_chars s) \<Longrightarrow> \<not> is_control c"
proof -
  have bound: "char_code x div 16 < 16" "char_code x mod 16 < 16" for x
    unfolding char_code_def using nat_of_char_less_256 [of x] by linarith+
  show "c \<in> set (escape_control_chars s) \<Longrightarrow> \<not> is_control c"
    by (auto simp: escape_control_chars_def hex_digit_not_control bound split: if_splits)
      (auto simp: is_control_def char_code_def)
qed

lemma open_script_acyclic:
  "open_script open_file stdin f (Some p) = Inr s \<Longrightarrow>
   f \<noteq> sc_filename p \<and> f \<notin> fst ` set (sc_parents p)"
  by (auto simp: open_script_def Let_def split: if_splits)

end
