(* ===== verification/Ferm_Scope.thy ===== *)
theory Ferm_Scope
  imports Ferm_Modules Ferm_Tokenizer
begin

text \<open>
  The parser's working state, \<^verbatim>\<open>src/src/pyferm/scope.py\<close>: rules, their options, the
  copy-on-write keyword dictionaries and the scope stack.

  Three kinds of object are shared between Python owners and modelled by explicit stores whose
  addresses are list indices:
  \<^item> the \<open>Option\<close> objects, because \<^verbatim>\<open>new_level\<close> copies the list of a parent's options but
    not the options themselves, and later code assigns to their \<^verbatim>\<open>value\<close> and \<^verbatim>\<open>chosen\<close>;
  \<^item> the keyword dictionaries of a rule (\<^verbatim>\<open>keywords\<close> and \<^verbatim>\<open>keyword_module\<close>, always
    shared and copied together), because a level shares its parent's until it changes them;
  \<^item> the variable and function dictionaries of a frame, because an included file shares those
    of the including one.
\<close>

section \<open>Options and rules\<close>

type_synonym source_position = "string \<times> nat"

datatype option_kind = KOption | KMatchModule | KProto | KTarget

record option_cell =
  op_name :: string
  op_value :: cfg_value
  op_kind :: option_kind
  op_module :: "string option"
  op_chosen :: cfg_value

type_synonym cells = "option_cell list"

record kw_entry =
  ke_keywords :: "(string, keyword) dict"
  ke_module :: "(string, string) dict"

type_synonym kw_store = "kw_entry list"

text \<open>\<open>ru_cow\<close> is \<^verbatim>\<open>"keywords" in rule.cow\<close>, the only key ever guarded.\<close>

record rule =
  ru_cow :: bool
  ru_kw :: nat
  ru_match :: "string set"
  ru_options :: "nat list"
  ru_domain :: cfg_value
  ru_domain_family :: "string option"
  ru_domain_both :: bool
  ru_table :: cfg_value
  ru_chain :: cfg_value
  ru_protocol :: cfg_value
  ru_auto_protocol :: cfg_value
  ru_has_rule :: bool
  ru_has_action :: bool
  ru_non_empty :: bool
  ru_script :: "source_position option"

definition empty_kw :: kw_entry where
  "empty_kw = \<lparr>ke_keywords = [], ke_module = []\<rparr>"

text \<open>\<^verbatim>\<open>Rule()\<close>: a rule with fresh, empty dictionaries.\<close>

definition fresh_rule :: "kw_store \<Rightarrow> rule \<times> kw_store" where
  "fresh_rule ks =
     (\<lparr>ru_cow = False, ru_kw = length ks, ru_match = {}, ru_options = [], ru_domain = VNone,
       ru_domain_family = None, ru_domain_both = False, ru_table = VNone, ru_chain = VNone,
       ru_protocol = VNone, ru_auto_protocol = VNone, ru_has_rule = False, ru_has_action = False,
       ru_non_empty = False, ru_script = None\<rparr>, ks @ [empty_kw])"

definition copy_on_write :: "rule \<Rightarrow> kw_store \<Rightarrow> rule \<times> kw_store" where
  "copy_on_write r ks =
     (if ru_cow r then (r\<lparr>ru_kw := length ks, ru_cow := False\<rparr>, ks @ [ks ! ru_kw r])
      else (r, ks))"

definition new_level :: "rule option \<Rightarrow> kw_store \<Rightarrow> rule \<times> kw_store" where
  "new_level prev ks =
     (case prev of
        None \<Rightarrow> fresh_rule ks
      | Some p \<Rightarrow> (p\<lparr>ru_cow := True, ru_non_empty := False, ru_script := None\<rparr>, ks))"

definition rule_keywords :: "rule \<Rightarrow> kw_store \<Rightarrow> (string, keyword) dict" where
  "rule_keywords r ks = ke_keywords (ks ! ru_kw r)"

definition rule_keyword_module :: "rule \<Rightarrow> kw_store \<Rightarrow> (string, string) dict" where
  "rule_keyword_module r ks = ke_module (ks ! ru_kw r)"

text \<open>The dictionaries after \<^verbatim>\<open>keywords.update(...)\<close> and the loop over the new names.\<close>

definition merge_entry :: "(string, keyword) dict \<Rightarrow> string option \<Rightarrow> kw_entry \<Rightarrow> kw_entry" where
  "merge_entry kws module e =
     \<lparr>ke_keywords = dict_update (ke_keywords e) kws,
      ke_module = (case module of
                     None \<Rightarrow> ke_module e
                   | Some m \<Rightarrow> dict_update (ke_module e) (map (\<lambda>(n, _). (n, m)) kws))\<rparr>"

definition merge_keywords ::
  "rule \<Rightarrow> (string, keyword) dict \<Rightarrow> string option \<Rightarrow> kw_store \<Rightarrow> rule \<times> kw_store" where
  "merge_keywords r kws module ks =
     (case copy_on_write r ks of
        (r', ks') \<Rightarrow> (r', ks'[ru_kw r' := merge_entry kws module (ks' ! ru_kw r')]))"

definition option_kind_of :: "string \<Rightarrow> option_kind" where
  "option_kind_of name =
     (if name = ''match'' then KMatchModule
      else if name = ''protocol'' then KProto
      else if name = ''jump'' \<or> name = ''goto'' then KTarget
      else KOption)"

definition append_option ::
  "rule \<Rightarrow> string \<Rightarrow> cfg_value \<Rightarrow> string option \<Rightarrow> cells \<Rightarrow> rule \<times> cells" where
  "append_option r name v module cs =
     (r\<lparr>ru_options := ru_options r @ [length cs]\<rparr>,
      cs @ [\<lparr>op_name = name, op_value = v, op_kind = option_kind_of name, op_module = module,
             op_chosen = VNone\<rparr>])"

section \<open>The scope stack\<close>

record function_def =
  fn_params :: "string list"
  fn_tokens :: "token list"
  fn_block :: bool

record env_entry =
  en_vars :: "(string, cfg_value) dict"
  en_functions :: "(string, function_def) dict"

type_synonym env_store = "env_entry list"

text \<open>A frame names its dictionaries by their address; \<open>fr_auto\<close> is its own.\<close>

record frame =
  fr_env :: nat
  fr_auto :: "(string, cfg_value) dict"

definition empty_env :: env_entry where
  "empty_env = \<lparr>en_vars = [], en_functions = []\<rparr>"

text \<open>The stack grows at its end: the last frame is the innermost one.\<close>

record scope =
  so_stack :: "frame list"
  so_envs :: env_store
  so_auto_chain :: nat

definition empty_scope :: scope where
  "empty_scope = \<lparr>so_stack = [], so_envs = [], so_auto_chain = 0\<rparr>"

text \<open>\<^verbatim>\<open>scope.push(Frame(auto=...))\<close> with fresh dictionaries.\<close>

definition push_frame :: "(string, cfg_value) dict \<Rightarrow> scope \<Rightarrow> scope" where
  "push_frame auto s =
     s\<lparr>so_stack := so_stack s @ [\<lparr>fr_env = length (so_envs s), fr_auto = auto\<rparr>],
       so_envs := so_envs s @ [empty_env]\<rparr>"

text \<open>\<^verbatim>\<open>scope.push(Frame(vars=top.vars, functions=top.functions, auto=...))\<close>\<close>

definition push_shared_frame :: "(string, cfg_value) dict \<Rightarrow> scope \<Rightarrow> scope" where
  "push_shared_frame auto s =
     s\<lparr>so_stack := so_stack s @ [\<lparr>fr_env = fr_env (last (so_stack s)), fr_auto = auto\<rparr>]\<rparr>"

definition pop_frame :: "scope \<Rightarrow> scope" where
  "pop_frame s = s\<lparr>so_stack := butlast (so_stack s)\<rparr>"

definition top_auto :: "scope \<Rightarrow> (string, cfg_value) dict" where
  "top_auto s = (if so_stack s = [] then [] else fr_auto (last (so_stack s)))"

definition set_auto :: "string \<Rightarrow> cfg_value \<Rightarrow> scope \<Rightarrow> scope" where
  "set_auto name v s =
     s\<lparr>so_stack := butlast (so_stack s) @
        [(last (so_stack s))\<lparr>fr_auto := dict_set name v (fr_auto (last (so_stack s)))\<rparr>]\<rparr>"

definition frame_vars :: "scope \<Rightarrow> frame \<Rightarrow> (string, cfg_value) dict" where
  "frame_vars s f = en_vars (so_envs s ! fr_env f)"

definition frame_functions :: "scope \<Rightarrow> frame \<Rightarrow> (string, function_def) dict" where
  "frame_functions s f = en_functions (so_envs s ! fr_env f)"

text \<open>The first frame, from the innermost outwards, that answers.\<close>

fun lookup_frames :: "(frame \<Rightarrow> 'a option) \<Rightarrow> frame list \<Rightarrow> 'a option" where
  "lookup_frames get [] = None"
| "lookup_frames get (f # fs) = (case get f of Some v \<Rightarrow> Some v | None \<Rightarrow> lookup_frames get fs)"

definition scope_variable :: "scope \<Rightarrow> string \<Rightarrow> cfg_value option" where
  "scope_variable s name =
     (case lookup_frames (\<lambda>f. dict_get (frame_vars s f) name) (rev (so_stack s)) of
        Some v \<Rightarrow> Some v
      | None \<Rightarrow> dict_get (top_auto s) name)"

definition scope_function :: "scope \<Rightarrow> string \<Rightarrow> function_def option" where
  "scope_function s name =
     lookup_frames (\<lambda>f. dict_get (frame_functions s f) name) (rev (so_stack s))"

text \<open>\<^verbatim>\<open>scope.top.vars[name] = value\<close> and its counterpart for functions.\<close>

definition set_top_var :: "string \<Rightarrow> cfg_value \<Rightarrow> scope \<Rightarrow> scope" where
  "set_top_var name v s =
     (let a = fr_env (last (so_stack s)); e = so_envs s ! a
      in s\<lparr>so_envs := (so_envs s)[a := e\<lparr>en_vars := dict_set name v (en_vars e)\<rparr>]\<rparr>)"

definition set_top_function :: "string \<Rightarrow> function_def \<Rightarrow> scope \<Rightarrow> scope" where
  "set_top_function name f s =
     (let a = fr_env (last (so_stack s)); e = so_envs s ! a
      in s\<lparr>so_envs := (so_envs s)[a := e\<lparr>en_functions := dict_set name f (en_functions e)\<rparr>]\<rparr>)"

definition global_has_var :: "scope \<Rightarrow> string \<Rightarrow> bool" where
  "global_has_var s name = dict_has (frame_vars s (hd (so_stack s))) name"

definition global_has_function :: "scope \<Rightarrow> string \<Rightarrow> bool" where
  "global_has_function s name = dict_has (frame_functions s (hd (so_stack s))) name"

definition next_auto_chain :: "scope \<Rightarrow> string \<times> scope" where
  "next_auto_chain s =
     (''ferm_auto_'' @ string_of_nat (so_auto_chain s + 1), s\<lparr>so_auto_chain := so_auto_chain s + 1\<rparr>)"

section \<open>Copy on write is invisible\<close>

text \<open>
  Two rules may hold the same address only if the one about to change guards it. Under this
  discipline a merge changes the keywords of its own rule and of no other.
\<close>

definition kw_valid :: "kw_store \<Rightarrow> rule \<Rightarrow> bool" where
  "kw_valid ks r \<longleftrightarrow> ru_kw r < length ks"

lemma new_level_keywords:
  assumes "kw_valid ks p" and "new_level (Some p) ks = (r, ks')"
  shows "ks' = ks" "kw_valid ks' r" "ru_cow r"
    "rule_keywords r ks' = rule_keywords p ks" "ru_options r = ru_options p" "ru_match r = ru_match p"
  using assms by (auto simp: new_level_def kw_valid_def rule_keywords_def)

lemma merge_keywords_own:
  assumes "kw_valid ks r" and "merge_keywords r kws module ks = (r', ks')"
  shows "ks' ! ru_kw r' = merge_entry kws module (ks ! ru_kw r)" "kw_valid ks' r'" "\<not> ru_cow r'"
  using assms
  by (auto simp: merge_keywords_def copy_on_write_def kw_valid_def nth_append split: if_splits)

lemma merge_keywords_other:
  assumes "kw_valid ks r" and "kw_valid ks p"
    and "ru_cow r \<or> ru_kw p \<noteq> ru_kw r"
    and "merge_keywords r kws module ks = (r', ks')"
  shows "ks' ! ru_kw p = ks ! ru_kw p" "kw_valid ks' p"
  using assms
  by (auto simp: merge_keywords_def copy_on_write_def kw_valid_def nth_append nth_list_update
      split: if_splits)

text \<open>
  C15: A nested level starts with the keywords of the rule it inherits from, and merging the
  keywords of a module into it changes its own dictionary only: the rule it inherits from keeps
  the keywords it had, although the two share one dictionary until that moment.
\<close>

theorem nested_keywords_private:
  assumes "kw_valid ks p" and "new_level (Some p) ks = (r, ks1)"
    and "merge_keywords r kws module ks1 = (r', ks2)"
  shows "ks2 ! ru_kw r' = merge_entry kws module (ks ! ru_kw p) \<and> ks2 ! ru_kw p = ks ! ru_kw p \<and>
         kw_valid ks2 p \<and> kw_valid ks2 r'"
proof -
  have r: "ks1 = ks" "kw_valid ks r" "ru_cow r" "ru_kw r = ru_kw p"
    using assms(1,2) by (auto simp: new_level_def kw_valid_def)
  then show ?thesis
    using merge_keywords_own [of ks r kws module r' ks2] merge_keywords_other [of ks r p kws module r' ks2]
      assms(1,3) by simp
qed

lemma nested_keywords_private_witness:
  "let (p, ks) = fresh_rule []; (r, ks1) = new_level (Some p) ks;
       (r', ks2) = merge_keywords r [] (Some ''tcp'') ks1
   in ks2 ! ru_kw r' = merge_entry [] (Some ''tcp'') (ks ! ru_kw p) \<and> ks2 ! ru_kw p = ks ! ru_kw p \<and> ru_kw r' \<noteq> ru_kw p"
proof -
  let ?p = "fst (fresh_rule [])" and ?ks = "snd (fresh_rule [])"
  let ?r = "fst (new_level (Some ?p) ?ks)" and ?ks1 = "snd (new_level (Some ?p) ?ks)"
  let ?r' = "fst (merge_keywords ?r [] (Some ''tcp'') ?ks1)" and ?ks2 = "snd (merge_keywords ?r [] (Some ''tcp'') ?ks1)"
  have "kw_valid ?ks ?p" by (simp add: kw_valid_def fresh_rule_def)
  then have "?ks2 ! ru_kw ?r' = merge_entry [] (Some ''tcp'') (?ks ! ru_kw ?p) \<and> ?ks2 ! ru_kw ?p = ?ks ! ru_kw ?p \<and>
      kw_valid ?ks2 ?p \<and> kw_valid ?ks2 ?r'"
    by (rule nested_keywords_private [of ?ks ?p ?r ?ks1]) simp_all
  moreover have "ru_kw ?r' \<noteq> ru_kw ?p"
    by (simp add: fresh_rule_def new_level_def merge_keywords_def copy_on_write_def)
  ultimately show ?thesis by (simp add: Let_def split_beta)
qed

section \<open>Scope lemmas\<close>

lemma pop_push [simp]: "so_stack (pop_frame (push_frame a s)) = so_stack s"
  "so_stack (pop_frame (push_shared_frame a s)) = so_stack s"
  by (simp_all add: pop_frame_def push_frame_def push_shared_frame_def)

lemma lookup_frames_append:
  "lookup_frames g (xs @ ys) = (case lookup_frames g xs of Some v \<Rightarrow> Some v | None \<Rightarrow> lookup_frames g ys)"
  by (induction xs) (auto split: option.splits)

definition scope_ok :: "scope \<Rightarrow> bool" where
  "scope_ok s \<longleftrightarrow> (\<forall>f \<in> set (so_stack s). fr_env f < length (so_envs s))"

lemma scope_ok_push [simp]: "scope_ok s \<Longrightarrow> scope_ok (push_frame a s)"
  by (auto simp: scope_ok_def push_frame_def)

lemma scope_ok_push_shared [simp]:
  "scope_ok s \<Longrightarrow> so_stack s \<noteq> [] \<Longrightarrow> scope_ok (push_shared_frame a s)"
  by (auto simp: scope_ok_def push_shared_frame_def)

lemma scope_ok_pop [simp]: "scope_ok s \<Longrightarrow> scope_ok (pop_frame s)"
  by (auto simp: scope_ok_def pop_frame_def dest: in_set_butlastD)

lemma lookup_frames_cong:
  "(\<And>f. f \<in> set fs \<Longrightarrow> g f = h f) \<Longrightarrow> lookup_frames g fs = lookup_frames h fs"
  by (induction fs) (auto split: option.splits)

text \<open>A variable set in a block is forgotten when the block is left.\<close>

lemma block_variable_local:
  assumes ok: "scope_ok s" and ne: "so_stack s \<noteq> []"
  shows "scope_variable (pop_frame (set_top_var n v (push_frame (top_auto s) s))) m = scope_variable s m"
proof -
  obtain a where a: "top_auto s = a" by blast
  let ?t = "pop_frame (set_top_var n v (push_frame a s))"
  have stack: "so_stack ?t = so_stack s"
    by (simp add: pop_frame_def set_top_var_def push_frame_def Let_def)
  have "frame_vars ?t f = frame_vars s f" if "f \<in> set (so_stack s)" for f
    using that ok
    by (auto simp: frame_vars_def pop_frame_def set_top_var_def push_frame_def Let_def
        scope_ok_def nth_append nth_list_update)
  then have "lookup_frames (\<lambda>f. dict_get (frame_vars ?t f) m) (rev (so_stack s)) =
      lookup_frames (\<lambda>f. dict_get (frame_vars s f) m) (rev (so_stack s))"
    by (intro lookup_frames_cong) simp
  moreover have "top_auto ?t = top_auto s" by (simp only: top_auto_def stack)
  ultimately show ?thesis by (simp only: scope_variable_def stack a)
qed

text \<open>A variable set in an included file is visible to the including one.\<close>

lemma include_variable_shared:
  assumes ok: "scope_ok s" and ne: "so_stack s \<noteq> []"
  shows "scope_variable (pop_frame (set_top_var n v (push_shared_frame a s))) n = Some v"
proof -
  let ?t = "pop_frame (set_top_var n v (push_shared_frame a s))"
  obtain fs f where s: "so_stack s = fs @ [f]" using ne by (metis rev_exhaust)
  then have "fr_env f < length (so_envs s)" using ok by (simp add: scope_ok_def)
  then have "frame_vars ?t f = dict_set n v (frame_vars s f)"
    using s by (simp add: frame_vars_def pop_frame_def set_top_var_def push_shared_frame_def Let_def)
  moreover have "so_stack ?t = fs @ [f]"
    using s by (simp add: pop_frame_def set_top_var_def push_shared_frame_def Let_def butlast_append)
  ultimately show ?thesis by (simp add: scope_variable_def)
qed

lemma next_auto_chain_fresh:
  "fst (next_auto_chain s) \<noteq> fst (next_auto_chain (snd (next_auto_chain s)))"
  by (simp add: next_auto_chain_def)

end
