(* ===== verification/Ferm_Rules.thy ===== *)
theory Ferm_Rules
  imports Ferm_Scope
begin

text \<open>
  Rule assembly, \<^verbatim>\<open>src/src/pyferm/rules.py\<close>: the netfilter predicates and the unfolding of a
  rule whose options hold arrays into one rendered rule per combination.

  The main result, \<open>mkrules2_product\<close>, states the unfold without the mutation of \<^verbatim>\<open>chosen\<close>:
  the rules added are the cartesian product of the realized arrays, in lexicographic order.
\<close>

section \<open>Netfilter predicates\<close>

definition CORE_TARGETS :: "string list" where
  "CORE_TARGETS = [''ACCEPT'', ''DROP'', ''RETURN'', ''QUEUE'']"

definition BUILTIN_CHAINS :: "string list" where
  "BUILTIN_CHAINS =
     [''PREROUTING'', ''INPUT'', ''FORWARD'', ''OUTPUT'', ''POSTROUTING'', ''BROUTING'']"

definition require_target :: "string option \<Rightarrow> string res" where
  "require_target t =
     (case t of
        None \<Rightarrow> Inl (internal_error ''undefined or empty target'')
      | Some s \<Rightarrow> if s = [] then Inl (internal_error ''undefined or empty target'') else Inr s)"

definition is_netfilter_core_target :: "string option \<Rightarrow> bool res" where
  "is_netfilter_core_target t = bindR (require_target t) (\<lambda>s. Inr (s \<in> set CORE_TARGETS))"

definition is_netfilter_module_target ::
  "registry \<Rightarrow> string option \<Rightarrow> string option \<Rightarrow> moddef option res" where
  "is_netfilter_module_target defs fam t =
     bindR (require_target t) (\<lambda>s. Inr (case fam of None \<Rightarrow> None | Some f \<Rightarrow> registry_get defs f s))"

definition is_netfilter_builtin_chain :: "string \<Rightarrow> string \<Rightarrow> bool" where
  "is_netfilter_builtin_chain table chain \<longleftrightarrow> chain \<in> set BUILTIN_CHAINS"

definition netfilter_canonical_protocol :: "string \<Rightarrow> string" where
  "netfilter_canonical_protocol p =
     (if p = ''ipv6-icmp'' \<or> p = ''icmpv6'' then ''icmp''
      else if p = ''ipv6-mh'' then ''mh'' else p)"

definition netfilter_protocol_module :: "string option \<Rightarrow> string option" where
  "netfilter_protocol_module p =
     (case p of None \<Rightarrow> None | Some s \<Rightarrow> Some (if s = ''icmpv6'' then ''icmp6'' else s))"

section \<open>Unfolding\<close>

record rendered_option =
  ro_name :: string
  ro_value :: cfg_value
  ro_kind :: option_kind
  ro_module :: "string option"

record rendered_rule =
  rr_options :: "rendered_option list"
  rr_script :: "source_position option"

definition unrealized_message :: "string \<Rightarrow> string \<Rightarrow> string" where
  "unrealized_message name kind =
     ''option '' @ py_repr name @ '' reached append_rule with an unrealized '' @ kind @ '' value''"

definition snapshot_option :: "cells \<Rightarrow> nat \<Rightarrow> rendered_option res" where
  "snapshot_option cs i =
     (let o' = cs ! i
      in case op_chosen o' of
           VList vs \<Rightarrow> Inl (internal_error (unrealized_message (op_name o') ''list''))
         | VDeferred f vs \<Rightarrow> Inl (internal_error (unrealized_message (op_name o') ''Deferred''))
         | v \<Rightarrow> Inr \<lparr>ro_name = op_name o', ro_value = v, ro_kind = op_kind o', ro_module = op_module o'\<rparr>)"

definition append_rule :: "rendered_rule list \<Rightarrow> rule \<Rightarrow> cells \<Rightarrow> rendered_rule list res" where
  "append_rule out r cs =
     bindR (mapR (snapshot_option cs) (ru_options r))
       (\<lambda>os. Inr (out @ [\<lparr>rr_options = os, rr_script = ru_script r\<rparr>]))"

definition set_chosen :: "nat \<Rightarrow> cfg_value \<Rightarrow> cells \<Rightarrow> cells" where
  "set_chosen i v cs = cs[i := (cs ! i)\<lparr>op_chosen := v\<rparr>]"

text \<open>\<open>thread\<close> is a Python \<^verbatim>\<open>for\<close> loop whose body may raise.\<close>

fun thread :: "('x \<Rightarrow> 's \<Rightarrow> 's res) \<Rightarrow> 'x list \<Rightarrow> 's \<Rightarrow> 's res" where
  "thread f [] s = Inr s"
| "thread f (x # xs) s = bindR (f x s) (thread f xs)"

primrec unfold_rule ::
  "caller \<Rightarrow> string \<Rightarrow> rule \<Rightarrow> nat list \<Rightarrow> rendered_rule list \<times> cells \<Rightarrow> (rendered_rule list \<times> cells) res" where
  "unfold_rule call fam r [] st =
     bindR (append_rule (fst st) r (snd st)) (\<lambda>out. Inr (out, snd st))"
| "unfold_rule call fam r (i # is) st =
     (case op_value (snd st ! i) of
        VList vs \<Rightarrow>
          bindR (realize_deferred call fam vs) (\<lambda>xs.
          thread (\<lambda>v st. unfold_rule call fam r is (fst st, set_chosen i v (snd st))) xs st)
      | _ \<Rightarrow> Inl PyAssertion)"

definition array_options :: "rule \<Rightarrow> cells \<Rightarrow> nat list" where
  "array_options r cs = filter (\<lambda>i. is_list (op_value (cs ! i))) (ru_options r)"

definition choose_scalars :: "rule \<Rightarrow> cells \<Rightarrow> cells" where
  "choose_scalars r cs =
     foldl (\<lambda>cs i. if is_list (op_value (cs ! i)) then cs else set_chosen i (op_value (cs ! i)) cs)
       cs (ru_options r)"

fun list_items :: "cfg_value \<Rightarrow> cfg_value list" where
  "list_items (VList vs) = vs"
| "list_items _ = []"

lemma is_list_items: "is_list v \<Longrightarrow> v = VList (list_items v)"
  by (cases v) simp_all

definition unfold_message :: "nat \<Rightarrow> nat \<Rightarrow> string" where
  "unfold_message got expected =
     ''unfold produced '' @ string_of_nat got @ '' rules, expected '' @ string_of_nat expected"

definition mkrules2 ::
  "caller \<Rightarrow> string \<Rightarrow> rendered_rule list \<Rightarrow> rule \<Rightarrow> cells \<Rightarrow> (rendered_rule list \<times> cells) res" where
  "mkrules2 call fam out r cs =
     (let arrays = array_options r cs;
          items = map (\<lambda>i. list_items (op_value (cs ! i))) arrays
      in bindR (unfold_rule call fam r arrays (out, choose_scalars r cs)) (\<lambda>st.
         let got = length (fst st) - length out; expected = prod_list (map length items)
         in if items \<noteq> [] \<and> \<not> (\<exists>vs \<in> set items. contains_deferred vs) \<and> got \<noteq> expected
            then Inl (internal_error (unfold_message got expected))
            else Inr st))"

section \<open>The unfold is the cartesian product\<close>

text \<open>A rendered rule with \<open>sel\<close> as the values chosen for some options.\<close>

definition chosen_with :: "cells \<Rightarrow> (nat \<Rightarrow> cfg_value option) \<Rightarrow> nat \<Rightarrow> rendered_option" where
  "chosen_with cs sel i =
     \<lparr>ro_name = op_name (cs ! i),
      ro_value = (case sel i of Some v \<Rightarrow> v | None \<Rightarrow> op_value (cs ! i)),
      ro_kind = op_kind (cs ! i), ro_module = op_module (cs ! i)\<rparr>"

definition render_with :: "rule \<Rightarrow> cells \<Rightarrow> (nat \<Rightarrow> cfg_value option) \<Rightarrow> rendered_rule" where
  "render_with r cs sel =
     \<lparr>rr_options = map (chosen_with cs sel) (ru_options r), rr_script = ru_script r\<rparr>"

definition plain_value :: "cfg_value \<Rightarrow> bool" where
  "plain_value v \<longleftrightarrow> \<not> is_list v \<and> \<not> is_deferred v"

text \<open>The stores that differ from \<open>cs\<close> in the chosen values only, with these values chosen.\<close>

definition chosen_as :: "rule \<Rightarrow> cells \<Rightarrow> (nat \<Rightarrow> cfg_value option) \<Rightarrow> nat set \<Rightarrow> cells \<Rightarrow> bool" where
  "chosen_as r cs sel I cs' \<longleftrightarrow>
     length cs' = length cs \<and>
     (\<forall>i < length cs. op_name (cs' ! i) = op_name (cs ! i) \<and> op_value (cs' ! i) = op_value (cs ! i) \<and>
        op_kind (cs' ! i) = op_kind (cs ! i) \<and> op_module (cs' ! i) = op_module (cs ! i)) \<and>
     (\<forall>i \<in> set (ru_options r) - I. op_chosen (cs' ! i) = ro_value (chosen_with cs sel i))"

lemma chosen_as_value: "chosen_as r cs sel I cs' \<Longrightarrow> i < length cs \<Longrightarrow> op_value (cs' ! i) = op_value (cs ! i)"
  by (simp add: chosen_as_def)

lemma chosen_as_set:
  assumes "chosen_as r cs sel (insert i I) cs'" and "i < length cs"
  shows "chosen_as r cs (sel(i \<mapsto> v)) I (set_chosen i v cs')"
  using assms
  by (auto simp: chosen_as_def set_chosen_def nth_list_update chosen_with_def)

lemma chosen_as_forget:
  assumes "chosen_as r cs (sel(i \<mapsto> v)) I cs'" and "i \<in> I'" and "I \<subseteq> I'"
  shows "chosen_as r cs sel I' cs'"
  using assms by (auto simp: chosen_as_def chosen_with_def split: if_splits)

lemma snapshot_option_plain:
  "plain_value (op_chosen (cs ! i)) \<Longrightarrow>
   snapshot_option cs i =
     Inr \<lparr>ro_name = op_name (cs ! i), ro_value = op_chosen (cs ! i), ro_kind = op_kind (cs ! i),
          ro_module = op_module (cs ! i)\<rparr>"
  by (cases "op_chosen (cs ! i)") (simp_all add: snapshot_option_def plain_value_def Let_def)

lemma mapR_Inr: "(\<And>x. x \<in> set xs \<Longrightarrow> f x = Inr (g x)) \<Longrightarrow> mapR f xs = Inr (map g xs)"
  by (induction xs) simp_all

lemma append_rule_render:
  assumes "chosen_as r cs sel {} cs'" and "\<forall>i \<in> set (ru_options r). i < length cs"
    and "\<forall>i \<in> set (ru_options r). plain_value (ro_value (chosen_with cs sel i))"
  shows "append_rule out r cs' = Inr (out @ [render_with r cs sel])"
proof -
  have "mapR (snapshot_option cs') (ru_options r) = Inr (map (chosen_with cs sel) (ru_options r))"
    using assms
    by (intro mapR_Inr) (subst snapshot_option_plain; auto simp: chosen_as_def chosen_with_def)
  then show ?thesis by (simp add: append_rule_def render_with_def)
qed

fun extend_sel :: "(nat \<Rightarrow> cfg_value option) \<Rightarrow> nat list \<Rightarrow> cfg_value list \<Rightarrow> nat \<Rightarrow> cfg_value option" where
  "extend_sel sel (i # is) (v # vs) = extend_sel (sel(i \<mapsto> v)) is vs"
| "extend_sel sel _ _ = sel"

lemma thread_append:
  assumes step: "\<And>x st. x \<in> set xs \<Longrightarrow> P (snd st) \<Longrightarrow>
      \<exists>s'. f x st = Inr (fst st @ g x, s') \<and> P s'"
    and "P (snd st)"
  shows "\<exists>s'. thread f xs st = Inr (fst st @ concat (map g xs), s') \<and> P s'"
  using assms
proof (induction xs arbitrary: st)
  case Nil
  then show ?case by (cases st) simp
next
  case (Cons x xs)
  then obtain s1 where s1: "f x st = Inr (fst st @ g x, s1)" "P s1" by fastforce
  obtain s' where "thread f xs (fst st @ g x, s1) = Inr ((fst st @ g x) @ concat (map g xs), s')" "P s'"
    using Cons.IH [of "(fst st @ g x, s1)"] Cons.prems s1 by auto
  with s1 show ?case by simp
qed

lemma unfold_rule_product:
  assumes "\<forall>i \<in> set (ru_options r). i < length cs" "set is \<subseteq> set (ru_options r)" "distinct is"
    and "list_all2 (\<lambda>i xs. \<exists>vs. op_value (cs ! i) = VList vs \<and> realize_deferred call fam vs = Inr xs) is xss"
    and "\<forall>xs \<in> set xss. \<forall>v \<in> set xs. plain_value v"
    and "\<forall>i \<in> set (ru_options r) - set is. plain_value (ro_value (chosen_with cs sel i))"
    and "chosen_as r cs sel (set is) (snd st)"
  shows "\<exists>cs'. unfold_rule call fam r is st =
      Inr (fst st @ map (\<lambda>vs. render_with r cs (extend_sel sel is vs)) (product_lists xss), cs') \<and>
      chosen_as r cs sel (set is) cs'"
  using assms
proof (induction "is" arbitrary: xss sel st)
  case Nil
  then have "append_rule (fst st) r (snd st) = Inr (fst st @ [render_with r cs sel])"
    by (intro append_rule_render) auto
  with Nil show ?case by simp
next
  case (Cons i "is")
  from Cons.prems(4) obtain vs xs yss where xss: "xss = xs # yss"
    and i: "op_value (cs ! i) = VList vs" "realize_deferred call fam vs = Inr xs"
    and rest: "list_all2 (\<lambda>i xs. \<exists>vs. op_value (cs ! i) = VList vs \<and> realize_deferred call fam vs = Inr xs) is yss"
    by (auto simp: list_all2_Cons1)
  have il: "i < length cs" using Cons.prems(1,2) by auto
  let ?g = "\<lambda>v. map (\<lambda>ws. render_with r cs (extend_sel (sel(i \<mapsto> v)) is ws)) (product_lists yss)"
  have "\<exists>s'. thread (\<lambda>v st. unfold_rule call fam r is (fst st, set_chosen i v (snd st))) xs st =
      Inr (fst st @ concat (map ?g xs), s') \<and> chosen_as r cs sel (set (i # is)) s'"
  proof (rule thread_append)
    fix v and t :: "rendered_rule list \<times> cells"
    assume v: "v \<in> set xs" and t: "chosen_as r cs sel (set (i # is)) (snd t)"
    have plain: "\<forall>j \<in> set (ru_options r) - set is. plain_value (ro_value (chosen_with cs (sel(i \<mapsto> v)) j))"
      using Cons.prems(5,6) v xss by (auto simp: chosen_with_def)
    have d: "chosen_as r cs (sel(i \<mapsto> v)) (set is) (snd (fst t, set_chosen i v (snd t)))"
      using chosen_as_set [OF t [unfolded list.set] il] by simp
    have abc: "set is \<subseteq> set (ru_options r)" "distinct is" "\<forall>xs \<in> set yss. \<forall>v \<in> set xs. plain_value v"
      using Cons.prems(2,3,5) xss by auto
    obtain s' where "unfold_rule call fam r is (fst t, set_chosen i v (snd t)) = Inr (fst t @ ?g v, s')"
      "chosen_as r cs (sel(i \<mapsto> v)) (set is) s'"
      using Cons.IH [OF Cons.prems(1) abc(1,2) rest abc(3) plain d] unfolding fst_conv by (elim exE conjE)
    then show "\<exists>s'. unfold_rule call fam r is (fst t, set_chosen i v (snd t)) = Inr (fst t @ ?g v, s') \<and>
        chosen_as r cs sel (set (i # is)) s'"
      by (auto intro: chosen_as_forget)
  qed (use Cons.prems in simp)
  moreover have "op_value (snd st ! i) = VList vs"
    using Cons.prems(7) il i by (simp add: chosen_as_value)
  ultimately show ?case
    using i xss by (simp add: map_concat comp_def)
qed

lemma choose_scalars_chosen:
  assumes "\<forall>i \<in> set (ru_options r). i < length cs"
  shows "chosen_as r cs Map.empty (set (array_options r cs)) (choose_scalars r cs)"
proof -
  let ?f = "\<lambda>cs i. if is_list (op_value (cs ! i)) then cs else set_chosen i (op_value (cs ! i)) cs"
  have "length (foldl ?f cs is) = length cs \<and>
      (\<forall>i < length cs. op_name (foldl ?f cs is ! i) = op_name (cs ! i) \<and>
        op_value (foldl ?f cs is ! i) = op_value (cs ! i) \<and>
        op_kind (foldl ?f cs is ! i) = op_kind (cs ! i) \<and> op_module (foldl ?f cs is ! i) = op_module (cs ! i)) \<and>
      (\<forall>i \<in> set is. \<not> is_list (op_value (cs ! i)) \<longrightarrow> op_chosen (foldl ?f cs is ! i) = op_value (cs ! i))"
    if "\<forall>i \<in> set is. i < length cs" for "is"
    using that
    by (induction "is" rule: rev_induct) (auto simp: set_chosen_def nth_list_update)
  then show ?thesis
    using assms by (simp add: chosen_as_def choose_scalars_def array_options_def chosen_with_def)
qed

lemma length_product_lists: "length (product_lists xss) = prod_list (map length xss)"
  by (induction xss) (simp_all add: length_concat comp_def sum_list_triv)

lemma contains_deferred_top: "\<not> contains_deferred vs \<Longrightarrow> \<forall>v \<in> set vs. \<not> is_deferred v"
  by (induction vs rule: contains_deferred.induct) auto

lemma realize_plain_length:
  "\<not> contains_deferred vs \<Longrightarrow> realize_deferred call fam vs = Inr xs \<Longrightarrow> length xs = length vs"
  using realize_deferred_plain [OF contains_deferred_top] by fastforce

text \<open>\<open>choices\<close>: the realized array of every array option.\<close>

definition choices :: "caller \<Rightarrow> string \<Rightarrow> rule \<Rightarrow> cells \<Rightarrow> cfg_value list list res" where
  "choices call fam r cs =
     mapR (\<lambda>i. realize_deferred call fam (list_items (op_value (cs ! i)))) (array_options r cs)"

lemma mapR_list_all2: "mapR f xs = Inr ys \<longleftrightarrow> list_all2 (\<lambda>x y. f x = Inr y) xs ys"
  by (induction xs arbitrary: ys) (auto simp: bindR_Inr_iff list_all2_Cons1)

text \<open>Every array option realizes to the values it stands for, and nothing nested is left.\<close>

definition unfoldable :: "rule \<Rightarrow> cells \<Rightarrow> cfg_value list list \<Rightarrow> bool" where
  "unfoldable r cs xss \<longleftrightarrow>
     distinct (ru_options r) \<and> (\<forall>i \<in> set (ru_options r). i < length cs) \<and>
     (\<forall>xs \<in> set xss. \<forall>v \<in> set xs. plain_value v) \<and>
     (\<forall>i \<in> set (ru_options r). \<not> is_deferred (op_value (cs ! i)))"

text \<open>
  C3: Unfolding a rule adds one rendered rule per element of the cartesian product of its
  realized array options, the first option varying slowest, every scalar option keeping its own
  value; the cardinality check at the end of \<^verbatim>\<open>mkrules2\<close> never fires.
\<close>

theorem mkrules2_product:
  assumes "unfoldable r cs xss" and ch: "choices call fam r cs = Inr xss"
  shows "\<exists>cs'. mkrules2 call fam out r cs =
    Inr (out @ map (\<lambda>vs. render_with r cs (extend_sel Map.empty (array_options r cs) vs))
                 (product_lists xss), cs')"
proof -
  let ?is = "array_options r cs"
  let ?items = "map (\<lambda>i. list_items (op_value (cs ! i))) ?is"
  have u: "distinct (ru_options r)" "\<forall>i \<in> set (ru_options r). i < length cs"
    "\<forall>xs \<in> set xss. \<forall>v \<in> set xs. plain_value v"
    "\<forall>i \<in> set (ru_options r). \<not> is_deferred (op_value (cs ! i))"
    using assms(1) by (auto simp: unfoldable_def)
  have all2: "list_all2 (\<lambda>i xs. realize_deferred call fam (list_items (op_value (cs ! i))) = Inr xs) ?is xss"
    using ch by (simp add: choices_def mapR_list_all2)
  then have "list_all2 (\<lambda>i xs. \<exists>vs. op_value (cs ! i) = VList vs \<and> realize_deferred call fam vs = Inr xs) ?is xss"
    by (rule list.rel_mono_strong) (use is_list_items in \<open>fastforce simp: array_options_def\<close>)
  then obtain cs' where run: "unfold_rule call fam r ?is (out, choose_scalars r cs) =
      Inr (out @ map (\<lambda>vs. render_with r cs (extend_sel Map.empty ?is vs)) (product_lists xss), cs')"
    using unfold_rule_product [of r cs ?is call fam xss Map.empty "(out, choose_scalars r cs)"]
      u choose_scalars_chosen [OF u(2)]
    by (auto simp: array_options_def chosen_with_def plain_value_def)
  have card: "prod_list (map length ?items) = prod_list (map length xss)"
    if "\<not> (\<exists>vs \<in> set ?items. contains_deferred vs)"
  proof -
    have "list_all2 (\<lambda>i xs. length (list_items (op_value (cs ! i))) = length xs) ?is xss"
      using all2 by (rule list.rel_mono_strong) (use that in \<open>auto simp: realize_plain_length\<close>)
    then have "map length ?items = map length xss"
      by (induction rule: list_all2_induct) simp_all
    then show ?thesis by (simp only:)
  qed
  show ?thesis
  proof (cases "\<exists>vs \<in> set ?items. contains_deferred vs")
    case True
    then show ?thesis unfolding mkrules2_def Let_def run by simp
  next
    case False
    then show ?thesis
      unfolding mkrules2_def Let_def run card [OF False] by (simp add: length_product_lists)
  qed
qed

end
