(* ===== verification/Ferm_Domains.thy ===== *)
theory Ferm_Domains
  imports Ferm_Rules
begin

text \<open>
  The per-family state of a run, \<^verbatim>\<open>src/src/pyferm/domains.py\<close>, and the option set,
  \<^verbatim>\<open>src/src/pyferm/config.py\<close>: chain priorities, the family gate, the tool search, the parser of a
  previous save dump and the idempotent initialization of a family. The file system
  (\<^verbatim>\<open>os.access\<close>), the search path and the injected callables are parameters.
\<close>

section \<open>Options\<close>

datatype plan_format = Structured | UnifiedDiff

record options =
  opt_test :: bool
  opt_noexec :: bool
  opt_lines :: bool
  opt_fast :: bool
  opt_flush :: bool
  opt_noflush :: bool
  opt_shell :: bool
  opt_interactive :: bool
  opt_timeout :: int
  opt_domain :: "string option"
  opt_mock_previous :: "(string, string) dict"
  opt_nolegacy :: bool
  opt_nft :: bool
  opt_plan :: bool
  opt_plan_format :: plan_format
  opt_full_reload :: bool
  opt_etckeeper :: bool

definition default_options :: options where
  "default_options =
     \<lparr>opt_test = False, opt_noexec = False, opt_lines = False, opt_fast = True, opt_flush = False,
      opt_noflush = False, opt_shell = False, opt_interactive = False, opt_timeout = 30,
      opt_domain = None, opt_mock_previous = [], opt_nolegacy = False, opt_nft = False,
      opt_plan = False, opt_plan_format = Structured, opt_full_reload = False, opt_etckeeper = True\<rparr>"

section \<open>Families\<close>

datatype family = IP | IP6 | ARP | EB

fun family_name :: "family \<Rightarrow> string" where
  "family_name IP = ''ip''"
| "family_name IP6 = ''ip6''"
| "family_name ARP = ''arp''"
| "family_name EB = ''eb''"

definition family_from_name :: "string \<Rightarrow> family res" where
  "family_from_name name =
     (if name = ''ip'' then Inr IP
      else if name = ''ip6'' then Inr IP6
      else if name = ''arp'' then Inr ARP
      else if name = ''eb'' then Inr EB
      else Inl (Died (''Invalid domain '' @ [SQUOTE] @ name @ [SQUOTE])))"

fun nft_name :: "family \<Rightarrow> string" where
  "nft_name EB = ''bridge''"
| "nft_name fam = family_name fam"

definition family_is_ip :: "family \<Rightarrow> bool" where
  "family_is_ip fam \<longleftrightarrow> fam = IP \<or> fam = IP6"

section \<open>Chain priorities\<close>

text \<open>Python refuses to convert a decimal text of more than 4300 digits.\<close>

definition py_int_digits :: "string \<Rightarrow> nat res" where
  "py_int_digits ds = (if 4300 < length ds then Inl PyValueError else Inr (nat_of_string ds))"

definition is_sign :: "char \<Rightarrow> bool" where
  "is_sign c \<longleftrightarrow> c = CHR ''+'' \<or> c = CHR ''-''"

text \<open>\<^verbatim>\<open>int(text)\<close> for a text of an optional sign and digits.\<close>

definition py_int :: "string \<Rightarrow> int res" where
  "py_int s =
     (case s of
        [] \<Rightarrow> Inl PyValueError
      | c # ds \<Rightarrow>
          if is_sign c
          then bindR (py_int_digits ds) (\<lambda>n. Inr (if c = CHR ''-'' then - int n else int n))
          else bindR (py_int_digits s) (\<lambda>n. Inr (int n)))"

definition inet_landmarks :: "(string, int) dict" where
  "inet_landmarks =
     [(''raw'', -300), (''mangle'', -150), (''dstnat'', -100), (''filter'', 0), (''security'', 50),
      (''srcnat'', 100)]"

definition bridge_landmarks :: "(string, int) dict" where
  "bridge_landmarks = [(''dstnat'', -300), (''filter'', -200), (''out'', 100), (''srcnat'', 300)]"

definition NFT_PRIORITY_LANDMARKS :: "(string, (string, int) dict) dict" where
  "NFT_PRIORITY_LANDMARKS =
     [(''ip'', inet_landmarks), (''ip6'', inet_landmarks), (''arp'', [(''filter'', 0)]),
      (''bridge'', bridge_landmarks), (''eb'', bridge_landmarks)]"

definition NFT_PRIORITY_MIN :: int where "NFT_PRIORITY_MIN = - (2 ^ 31)"
definition NFT_PRIORITY_MAX :: int where "NFT_PRIORITY_MAX = 2 ^ 31 - 1"

definition NFT_TABLE_NAME :: string where "NFT_TABLE_NAME = ''ferm''"

definition NFT_CT_STATES :: "string list" where
  "NFT_CT_STATES = [''invalid'', ''established'', ''related'', ''new'', ''untracked'']"

definition apply_priority_offset :: "int \<Rightarrow> char \<Rightarrow> int \<Rightarrow> int" where
  "apply_priority_offset base sign magnitude =
     (if sign = CHR ''+'' then base + magnitude else base - magnitude)"

definition ensure_priority_in_range :: "int \<Rightarrow> int res" where
  "ensure_priority_in_range v =
     (if NFT_PRIORITY_MIN \<le> v \<and> v \<le> NFT_PRIORITY_MAX then Inr v else Inl PyValueError)"

definition priority_int :: "string \<Rightarrow> bool" where
  "priority_int s \<longleftrightarrow> all_digits s \<or> (s \<noteq> [] \<and> is_sign (hd s) \<and> all_digits (tl s))"

definition is_alpha :: "char \<Rightarrow> bool" where
  "is_alpha c \<longleftrightarrow> is_upper c \<or> is_lower c"

text \<open>The landmark pattern: a name and, if present, the sign and the digits after it.\<close>

definition priority_landmark :: "string \<Rightarrow> (string \<times> (char \<times> string) option) option" where
  "priority_landmark s =
     (let name = takeWhile is_alpha s; rest = dropWhile py_space (dropWhile is_alpha s)
      in if name = [] then None
         else case rest of
                [] \<Rightarrow> Some (name, None)
              | c # r \<Rightarrow>
                  let ds = dropWhile py_space r
                  in if is_sign c \<and> all_digits ds then Some (name, Some (c, ds)) else None)"

definition resolve_chain_priority :: "string \<Rightarrow> string \<Rightarrow> int res" where
  "resolve_chain_priority fam text0 =
     (let s = py_strip text0
      in if priority_int s then bindR (py_int s) ensure_priority_in_range
         else case priority_landmark s of
                None \<Rightarrow> Inl PyValueError
              | Some (name, offset) \<Rightarrow>
                  (case dict_get (case dict_get NFT_PRIORITY_LANDMARKS fam of None \<Rightarrow> [] | Some d \<Rightarrow> d) name of
                     None \<Rightarrow> Inl PyValueError
                   | Some base \<Rightarrow>
                       (case offset of
                          None \<Rightarrow> Inr base
                        | Some (sign, ds) \<Rightarrow>
                            bindR (py_int_digits ds) (\<lambda>n.
                            ensure_priority_in_range (apply_priority_offset base sign (int n))))))"

section \<open>The state of a family\<close>

record chain_info =
  ci_builtin :: bool
  ci_policy :: "string option"
  ci_rules :: "rendered_rule list"
  ci_preserve :: bool
  ci_priority :: "int option"

definition new_chain :: chain_info where
  "new_chain = \<lparr>ci_builtin = False, ci_policy = None, ci_rules = [], ci_preserve = False, ci_priority = None\<rparr>"

text \<open>The preserve patterns are kept as the text of the regular expression.\<close>

record table_info =
  ti_has_builtin :: bool
  ti_preserve_regexes :: "string list"
  ti_chains :: "(string, chain_info) dict"

definition new_table :: table_info where
  "new_table = \<lparr>ti_has_builtin = False, ti_preserve_regexes = [], ti_chains = []\<rparr>"

text \<open>\<open>di_ebt_previous\<close> holds the names of the snapshot files.\<close>

record domain_info =
  di_initialized :: bool
  di_enabled :: bool
  di_tools :: "(string, string) dict"
  di_previous :: "string option"
  di_ebt_previous :: "(string, string) dict"
  di_tables :: "(string, table_info) dict"
  di_plan_unsupported :: bool

definition new_domain :: domain_info where
  "new_domain =
     \<lparr>di_initialized = False, di_enabled = False, di_tools = [], di_previous = None,
      di_ebt_previous = [], di_tables = [], di_plan_unsupported = False\<rparr>"

type_synonym domains = "(family, domain_info) dict"

definition TOOL_TABLES :: string where "TOOL_TABLES = ''tables''"
definition TOOL_SAVE :: string where "TOOL_SAVE = ''tables-save''"
definition TOOL_RESTORE :: string where "TOOL_RESTORE = ''tables-restore''"
definition DEFAULT_TABLE :: string where "DEFAULT_TABLE = ''filter''"
definition EB_TABLES :: "string list" where "EB_TABLES = [''filter'', ''nat'', ''broute'']"

definition default_tool_names :: "family \<Rightarrow> (string, string) dict" where
  "default_tool_names fam =
     (let names = dict_set TOOL_TABLES (family_name fam @ TOOL_TABLES) []
      in if family_is_ip fam
         then dict_set TOOL_RESTORE (family_name fam @ TOOL_RESTORE)
                (dict_set TOOL_SAVE (family_name fam @ TOOL_SAVE) names)
         else names)"

section \<open>Finding a tool\<close>

text \<open>The last place where \<open>m\<close> occurs: what precedes it, as a greedy \<^verbatim>\<open>.*\<close> takes it.\<close>

fun last_split :: "string \<Rightarrow> string \<Rightarrow> (string \<times> string) option" where
  "last_split m [] = (if m = [] then Some ([], []) else None)"
| "last_split m (c # s) =
     (case last_split m s of
        Some (a, b) \<Rightarrow> Some (c # a, b)
      | None \<Rightarrow> if starts_with m (c # s) then Some ([], drop (length m) (c # s)) else None)"

text \<open>\<^verbatim>\<open>^(.*tables)(.*)$\<close>, the dollar accepting one final newline.\<close>

definition legacy_split :: "string \<Rightarrow> (string \<times> string) option" where
  "legacy_split name =
     (let body = (if name \<noteq> [] \<and> last name = NL then butlast name else name)
      in if NL \<in> set body then None
         else map_option (\<lambda>(a, b). (a @ ''tables'', b)) (last_split ''tables'' body))"

fun first_executable :: "(string \<Rightarrow> bool) \<Rightarrow> string list \<Rightarrow> string \<Rightarrow> string option" where
  "first_executable access [] name = None"
| "first_executable access (d # ds) name =
     (if access (d @ ''/'' @ name) then Some (d @ ''/'' @ name) else first_executable access ds name)"

text \<open>\<open>path\<close> is the value of \<^verbatim>\<open>$PATH\<close> split at its colons.\<close>

definition find_tool :: "(string \<Rightarrow> bool) \<Rightarrow> string list \<Rightarrow> string \<Rightarrow> options \<Rightarrow> string res" where
  "find_tool access path name opts =
     (if opt_test opts then Inr name
      else
        let dirs = [''/usr/sbin'', ''/sbin''] @ path;
            legacy = (if opt_nolegacy opts then None
                      else case legacy_split name of
                             None \<Rightarrow> None
                           | Some (a, b) \<Rightarrow> first_executable access dirs (a @ ''-legacy'' @ b))
        in case legacy of
             Some p \<Rightarrow> Inr p
           | None \<Rightarrow>
               (case first_executable access dirs name of
                  Some p \<Rightarrow> Inr p
                | None \<Rightarrow> Inl (Died (name @ '' not found in PATH''))))"

section \<open>Reading a previous ruleset\<close>

definition save_table_match :: "string \<Rightarrow> string option" where
  "save_table_match l =
     (case l of
        [] \<Rightarrow> None
      | c # s \<Rightarrow> if c = CHR ''*'' \<and> takeWhile is_word s \<noteq> [] then Some (takeWhile is_word s) else None)"

definition save_chain_match :: "string \<Rightarrow> (string \<times> string) option" where
  "save_chain_match l =
     (case l of
        [] \<Rightarrow> None
      | c # s \<Rightarrow>
          let name = takeWhile is_word s; rest = dropWhile is_word s;
              policy = takeWhile (\<lambda>c. \<not> is_space c) (dropWhile is_space rest)
          in if c = CHR '':'' \<and> name \<noteq> [] \<and> takeWhile is_space rest \<noteq> [] \<and> policy \<noteq> []
             then Some (name, policy) else None)"

definition mark_builtin :: "string \<Rightarrow> string \<Rightarrow> (string, table_info) dict \<Rightarrow> (string, table_info) dict" where
  "mark_builtin table chain ts =
     (case dict_get ts table of
        None \<Rightarrow> ts
      | Some t \<Rightarrow>
          let cs = dict_setdefault chain new_chain (ti_chains t);
              c = (case dict_get cs chain of None \<Rightarrow> new_chain | Some c \<Rightarrow> c)
          in dict_set table
               (t\<lparr>ti_chains := dict_set chain (c\<lparr>ci_builtin := True\<rparr>) cs, ti_has_builtin := True\<rparr>) ts)"

text \<open>\<open>read_previous_lines\<close> carries the text so far, the current table and the tables.\<close>

fun read_previous_lines ::
  "string list \<Rightarrow> string \<Rightarrow> string option \<Rightarrow> (string, table_info) dict \<Rightarrow> string \<times> (string, table_info) dict"
where
  "read_previous_lines [] save cur ts = (save, ts)"
| "read_previous_lines (l # ls) save cur ts =
     (case save_table_match l of
        Some t \<Rightarrow> read_previous_lines ls (save @ l) (Some t) (dict_setdefault t new_table ts)
      | None \<Rightarrow>
          (case (cur, save_chain_match l) of
             (Some t, Some (chain, policy)) \<Rightarrow>
               read_previous_lines ls (save @ l) cur
                 (if policy \<noteq> ''-'' then mark_builtin t chain ts else ts)
           | _ \<Rightarrow> read_previous_lines ls (save @ l) cur ts))"

definition read_previous :: "string list \<Rightarrow> domain_info \<Rightarrow> string \<times> domain_info" where
  "read_previous ls di =
     (case read_previous_lines ls [] None (di_tables di) of
        (save, ts) \<Rightarrow> (save, di\<lparr>di_tables := ts\<rparr>))"

section \<open>Initializing a family\<close>

text \<open>The injected callables; a missing one is \<open>None\<close>. A snapshot is its two setup lines.\<close>

record seams =
  se_access :: "string \<Rightarrow> bool"
  se_path :: "string list"
  se_resolve_tools :: "(family \<Rightarrow> (string, string) dict) option"
  se_capture_previous :: "(family \<Rightarrow> domain_info \<Rightarrow> domain_info res) option"
  se_emit_line :: bool
  se_shell_snapshot :: "(family \<Rightarrow> domain_info \<Rightarrow> (string \<times> string) option) option"

definition resolve_tools :: "seams \<Rightarrow> options \<Rightarrow> family \<Rightarrow> (string, string) dict res" where
  "resolve_tools se opts fam =
     mapR (\<lambda>(k, n). bindR (find_tool (se_access se) (se_path se) n opts) (\<lambda>p. Inr (k, p)))
       (case se_resolve_tools se of Some f \<Rightarrow> f fam | None \<Rightarrow> default_tool_names fam)"

definition snapshot_lines :: "seams \<Rightarrow> options \<Rightarrow> family \<Rightarrow> domain_info \<Rightarrow> string list" where
  "snapshot_lines se opts fam di =
     (if opt_shell opts \<and> opt_interactive opts \<and> se_emit_line se
      then (case se_shell_snapshot se of
              None \<Rightarrow> []
            | Some f \<Rightarrow> (case f fam di of None \<Rightarrow> [] | Some (a, b) \<Rightarrow> [a, b]))
      else [])"

text \<open>The result is the updated dictionary and the lines given to \<^verbatim>\<open>emit_line\<close>.\<close>

definition initialize_domain ::
  "seams \<Rightarrow> options \<Rightarrow> family \<Rightarrow> domains \<Rightarrow> (domains \<times> string list) res" where
  "initialize_domain se opts fam ds =
     (let ds1 = dict_setdefault fam new_domain ds;
          di = (case dict_get ds1 fam of None \<Rightarrow> new_domain | Some d \<Rightarrow> d)
      in if di_initialized di then Inr (ds1, [])
         else bindR (resolve_tools se opts fam) (\<lambda>tools.
              let di1 = di\<lparr>di_tools := tools\<rparr>
              in bindR (case se_capture_previous se of None \<Rightarrow> Inr di1 | Some f \<Rightarrow> f fam di1) (\<lambda>di2.
                 Inr (dict_set fam (di2\<lparr>di_initialized := True\<rparr>) ds1,
                      snapshot_lines se opts fam di2))))"

section \<open>Properties\<close>

lemma family_from_name_iff: "family_from_name s = Inr fam \<longleftrightarrow> s = family_name fam"
  by (cases fam) (auto simp: family_from_name_def)

lemma landmarks_in_range:
  assumes "dict_get NFT_PRIORITY_LANDMARKS fam = Some d" and "dict_get d name = Some base"
  shows "NFT_PRIORITY_MIN \<le> base \<and> base \<le> NFT_PRIORITY_MAX"
  using assms
  by (auto simp: NFT_PRIORITY_LANDMARKS_def inet_landmarks_def bridge_landmarks_def
      NFT_PRIORITY_MIN_def NFT_PRIORITY_MAX_def split: if_splits)

lemma ensure_priority_Inr:
  "ensure_priority_in_range v = Inr w \<longleftrightarrow> w = v \<and> NFT_PRIORITY_MIN \<le> v \<and> v \<le> NFT_PRIORITY_MAX"
  by (auto simp: ensure_priority_in_range_def)

lemma py_int_error: "py_int s = Inl e \<Longrightarrow> e = PyValueError"
  by (auto simp: py_int_def py_int_digits_def bindR_Inl_iff split: list.splits if_splits)

lemma read_previous_lines_text: "fst (read_previous_lines ls save cur ts) = save @ concat ls"
  by (induction ls save cur ts rule: read_previous_lines.induct) (auto split: option.splits prod.splits)

lemma read_previous_lines_split:
  "read_previous_lines (xs @ ys) save cur ts =
     (case read_previous_lines xs save cur ts of (save', ts') \<Rightarrow>
        read_previous_lines ys save'
          (fold (\<lambda>l c. case save_table_match l of Some t \<Rightarrow> Some t | None \<Rightarrow> c) xs cur) ts')"
  by (induction xs save cur ts rule: read_previous_lines.induct) (auto split: option.splits prod.splits)

lemma first_executable_Some:
  "first_executable access ds name = Some p \<Longrightarrow> access p \<and> (\<exists>d \<in> set ds. p = d @ ''/'' @ name)"
  by (induction ds) (auto split: if_splits)

lemma first_executable_None: "first_executable access ds name = None \<longleftrightarrow> (\<forall>d \<in> set ds. \<not> access (d @ ''/'' @ name))"
  by (induction ds) auto

definition builtin_in :: "string \<Rightarrow> string \<Rightarrow> (string, table_info) dict \<Rightarrow> bool" where
  "builtin_in t c ts \<longleftrightarrow>
     (\<exists>ti ci. dict_get ts t = Some ti \<and> ti_has_builtin ti \<and> dict_get (ti_chains ti) c = Some ci \<and> ci_builtin ci)"

lemma builtin_in_setdefault: "builtin_in t c ts \<Longrightarrow> builtin_in t c (dict_setdefault t' new_table ts)"
  by (auto simp: builtin_in_def)

lemma builtin_in_mark: "builtin_in t c ts \<Longrightarrow> builtin_in t c (mark_builtin t' c' ts)"
  by (auto simp: builtin_in_def mark_builtin_def Let_def split: option.splits)

lemma mark_builtin_marks: "dict_get ts t = Some ti \<Longrightarrow> builtin_in t c (mark_builtin t c ts)"
  by (auto simp: builtin_in_def mark_builtin_def Let_def split: option.splits)

lemma builtin_in_read: "builtin_in t c ts \<Longrightarrow> builtin_in t c (snd (read_previous_lines ls save cur ts))"
  by (induction ls save cur ts rule: read_previous_lines.induct)
    (auto simp: builtin_in_setdefault builtin_in_mark split: option.splits prod.splits)

lemma mark_builtin_known: "\<exists>y. dict_get ts t = Some y \<Longrightarrow> \<exists>y. dict_get (mark_builtin u c ts) t = Some y"
  by (auto simp: mark_builtin_def Let_def split: option.splits)

lemma read_previous_table_known:
  "dict_get ts t \<noteq> None \<Longrightarrow> dict_get (snd (read_previous_lines ls save cur ts)) t \<noteq> None"
  by (induction ls save cur ts rule: read_previous_lines.induct)
    (auto simp: mark_builtin_known split: option.splits prod.splits)

lemma chain_line_no_table: "save_chain_match l = Some x \<Longrightarrow> save_table_match l = None"
  by (auto simp: save_chain_match_def save_table_match_def Let_def split: list.splits if_splits)

text \<open>
  Reading a previous dump returns its text byte for byte, and a chain listed with a policy
  other than \<^verbatim>\<open>-\<close> in the section of a table is recorded as built in, the table being
  recorded as holding built-in chains.
\<close>

theorem read_previous_builtin:
  assumes t: "save_table_match l1 = Some t" and ys: "\<forall>l \<in> set ys. save_table_match l = None"
    and c: "save_chain_match l2 = Some (c, policy)" "policy \<noteq> ''-''"
    and r: "read_previous (xs @ l1 # ys @ l2 # zs) di = (save, di')"
  shows "save = concat (xs @ l1 # ys @ l2 # zs) \<and> builtin_in t c (di_tables di')"
proof -
  obtain s1 ts1 where 1: "read_previous_lines xs [] None (di_tables di) = (s1, ts1)" by fastforce
  obtain s2 ts2 where 2: "read_previous_lines ys (s1 @ l1) (Some t) (dict_setdefault t new_table ts1) = (s2, ts2)"
    by fastforce
  have cur: "fold (\<lambda>l c. case save_table_match l of Some t \<Rightarrow> Some t | None \<Rightarrow> c) ys (Some t) = Some t"
    using ys by (induction ys) auto
  have "dict_get ts2 t \<noteq> None"
    using read_previous_table_known [of "dict_setdefault t new_table ts1" t ys "s1 @ l1" "Some t"] 2 by auto
  then have "builtin_in t c (mark_builtin t c ts2)" by (auto intro: mark_builtin_marks)
  then have "builtin_in t c (snd (read_previous_lines zs (s2 @ l2) (Some t) (mark_builtin t c ts2)))"
    by (rule builtin_in_read)
  moreover have "read_previous_lines (xs @ l1 # ys @ l2 # zs) [] None (di_tables di) =
      read_previous_lines zs (s2 @ l2) (Some t) (mark_builtin t c ts2)"
    using 1 2 t c chain_line_no_table [OF c(1)] cur
    by (simp add: read_previous_lines_split)
  ultimately show ?thesis
    using r read_previous_lines_text [of "xs @ l1 # ys @ l2 # zs" "[]" None "di_tables di"]
    by (auto simp: read_previous_def split: prod.splits)
qed

lemma read_previous_builtin_witness:
  "builtin_in ''filter'' ''INPUT''
     (di_tables (snd (read_previous [''*filter'', '':INPUT DROP [0:0]''] new_domain)))"
proof -
  have "save_table_match ''*filter'' = Some ''filter''" "save_chain_match '':INPUT DROP [0:0]'' = Some (''INPUT'', ''DROP'')"
    by code_simp+
  from read_previous_builtin [OF this(1) _ this(2) _ prod.collapse [symmetric], of "[]" "[]" "[]" new_domain]
  show ?thesis by simp
qed

lemma resolve_chain_priority_Inr:
  assumes "resolve_chain_priority fam s = Inr p"
  shows "- (2 ^ 31) \<le> p \<and> p < 2 ^ 31"
proof -
  have "NFT_PRIORITY_MIN \<le> p \<and> p \<le> NFT_PRIORITY_MAX"
    using assms unfolding resolve_chain_priority_def Let_def
    by (auto simp: bindR_Inr_iff ensure_priority_Inr split: option.splits if_splits prod.splits
        dest: landmarks_in_range)
  then show ?thesis by (simp add: NFT_PRIORITY_MIN_def NFT_PRIORITY_MAX_def)
qed

lemma resolve_chain_priority_Inl: "resolve_chain_priority fam s = Inl e \<Longrightarrow> e = PyValueError"
proof -
  have "ensure_priority_in_range v = Inl e \<Longrightarrow> e = PyValueError" for v
    by (simp add: ensure_priority_in_range_def split: if_splits)
  then show "resolve_chain_priority fam s = Inl e \<Longrightarrow> e = PyValueError"
    unfolding resolve_chain_priority_def Let_def
    by (auto simp: bindR_Inl_iff py_int_digits_def split: option.splits if_splits prod.splits
        dest: py_int_error)
qed

text \<open>
  C16: A chain priority is resolved to an integer the kernel can store, in the range of a signed
  32-bit integer, or refused with the one exception the parser turns into a located error.
\<close>

theorem resolve_chain_priority_range:
  "case resolve_chain_priority fam s of
     Inl e \<Rightarrow> e = PyValueError
   | Inr p \<Rightarrow> - (2 ^ 31) \<le> p \<and> p < 2 ^ 31"
  using resolve_chain_priority_Inr [of fam s] resolve_chain_priority_Inl [of fam s]
  by (cases "resolve_chain_priority fam s") simp_all

lemma initialize_domain_sets:
  "initialize_domain se opts fam ds = Inr (ds', ls) \<Longrightarrow> \<exists>d. dict_get ds' fam = Some d \<and> di_initialized d"
  by (auto simp: initialize_domain_def Let_def bindR_Inr_iff split: if_splits option.splits)

text \<open>
  A family is initialized once: a second initialization runs no tool, captures nothing, emits
  no line and leaves the domains as they are.
\<close>

theorem initialize_domain_once:
  assumes "initialize_domain se opts fam ds = Inr (ds', ls)"
  shows "initialize_domain se opts fam ds' = Inr (ds', [])"
  using initialize_domain_sets [OF assms]
  by (auto simp: initialize_domain_def Let_def dict_setdefault_def)

definition bare_seams :: seams where
  "bare_seams =
     \<lparr>se_access = (\<lambda>p. p = ''/sbin/iptables''), se_path = [''/usr/sbin'', ''/sbin''],
      se_resolve_tools = Some (\<lambda>_. [(TOOL_TABLES, ''iptables'')]), se_capture_previous = None,
      se_emit_line = True, se_shell_snapshot = None\<rparr>"

lemma initialize_domain_once_witness:
  "\<exists>ds. initialize_domain bare_seams default_options IP [] = Inr (ds, []) \<and>
        initialize_domain bare_seams default_options IP ds = Inr (ds, [])"
proof -
  have run: "initialize_domain bare_seams default_options IP [] =
      Inr ([(IP, new_domain\<lparr>di_tools := [(TOOL_TABLES, ''/sbin/iptables'')], di_initialized := True\<rparr>)], [])"
    by code_simp
  from initialize_domain_once [OF this] run show ?thesis by blast
qed

text \<open>
  Outside the test mode a tool is only ever used at a path that is executable; the
  \<^verbatim>\<open>-legacy\<close> spelling of a tool is no exception.
\<close>

theorem find_tool_executable:
  assumes "find_tool access path name opts = Inr p" and "\<not> opt_test opts"
  shows "access p"
  using assms
  by (auto simp: find_tool_def Let_def split: if_splits option.splits prod.splits dest: first_executable_Some)

lemma find_tool_executable_witness:
  "(\<lambda>p. p = ''/sbin/iptables-legacy'') ''/sbin/iptables-legacy'' \<and>
   find_tool (\<lambda>p. p = ''/sbin/iptables-legacy'') [''/usr/sbin'', ''/sbin''] ''iptables'' default_options =
     Inr ''/sbin/iptables-legacy''"
proof -
  have run: "find_tool (\<lambda>p. p = ''/sbin/iptables-legacy'') [''/usr/sbin'', ''/sbin''] ''iptables'' default_options =
      Inr ''/sbin/iptables-legacy''"
    by code_simp
  moreover have "\<not> opt_test default_options" by (simp add: default_options_def)
  ultimately show ?thesis using find_tool_executable [OF run] by blast
qed

end
