(* ===== verification/Ferm_Resolver.thy ===== *)
theory Ferm_Resolver
  imports Ferm_Values
begin

text \<open>
  \<^verbatim>\<open>@resolve\<close> and \<^verbatim>\<open>@ipfilter\<close>: the evaluation of host names in
  \<^verbatim>\<open>src/src/pyferm/resolver.py\<close> and the family filter of \<^verbatim>\<open>src/src/pyferm/functions.py\<close>.
  The DNS service is the parameter \<open>search\<close>; its result for one query is the
  \<^verbatim>\<open>SearchResult\<close> of the source. The zone-file resolver used under \<^verbatim>\<open>--test\<close> is modelled in
  full. \<open>expand\<close> stands for \<^verbatim>\<open>ipaddress.IPv6Address(a).exploded\<close> with the leading zeros of
  each group dropped, \<open>None\<close> where the constructor raises.
\<close>

section \<open>Address shapes\<close>

definition is_hex :: "char \<Rightarrow> bool" where
  "is_hex c \<longleftrightarrow>
     is_digit c \<or> (97 \<le> char_code c \<and> char_code c \<le> 102) \<or> (65 \<le> char_code c \<and> char_code c \<le> 70)"

text \<open>
  \<^verbatim>\<open>re.sub(r"/\d+$", "", s)\<close>: \<^verbatim>\<open>$\<close> matches at the end and before a final newline.
\<close>

definition strip_netmask :: "string \<Rightarrow> string" where
  "strip_netmask s =
     (let nl = (s \<noteq> [] \<and> last s = NL);
          core = (if nl then butlast s else s);
          digits = takeWhile is_digit (rev core);
          before = dropWhile is_digit (rev core)
      in case before of
           [] \<Rightarrow> s
         | c # cs \<Rightarrow>
             if digits \<noteq> [] \<and> c = CHR ''/'' then rev cs @ (if nl then [NL] else []) else s)"

definition ipv4_shape :: "string \<Rightarrow> bool" where
  "ipv4_shape s \<longleftrightarrow>
     (let parts = split_by (\<lambda>c. c = CHR ''.'') s
      in length parts = 4 \<and> (\<forall>p \<in> set parts. all_digits p) \<and> last s \<noteq> CHR ''.'')"

definition ipv6_shape :: "string \<Rightarrow> bool" where
  "ipv6_shape s \<longleftrightarrow>
     (\<forall>c \<in> set s. is_hex c \<or> c = CHR '':'') \<and> 2 \<le> length (filter (\<lambda>c. c = CHR '':'') s)"

definition identify_numeric_address :: "string \<Rightarrow> string option" where
  "identify_numeric_address s =
     (let t = strip_netmask s
      in if ipv4_shape t then Some ''A''
         else if ipv6_shape t then Some ''AAAA''
         else None)"

section \<open>Resolvers\<close>

record resource_record =
  rr_type :: string
  rr_data :: string

record search_result =
  found :: bool
  answer :: "resource_record list"
  errorstring :: "string option"

definition miss :: "string \<Rightarrow> search_result" where
  "miss e = \<lparr>found = False, answer = [], errorstring = Some e\<rparr>"

text \<open>\<^verbatim>\<open>str.lower\<close> on latin-1 and \<^verbatim>\<open>rstrip(".")\<close>.\<close>

definition lower_char :: "char \<Rightarrow> char" where
  "lower_char c =
     (let n = char_code c
      in if (65 \<le> n \<and> n \<le> 90) \<or> (192 \<le> n \<and> n \<le> 222 \<and> n \<noteq> 215) then char_of (n + 32) else c)"

definition canonical_name :: "string \<Rightarrow> string" where
  "canonical_name s = map lower_char (rev (dropWhile (\<lambda>c. c = CHR ''.'') (rev s)))"

definition make_record :: "string \<Rightarrow> string list \<Rightarrow> resource_record option" where
  "make_record rrtype rdata =
     (case rdata of
        [] \<Rightarrow> None
      | d # ds \<Rightarrow>
          if rrtype = ''A'' \<or> rrtype = ''AAAA'' then Some \<lparr>rr_type = rrtype, rr_data = d\<rparr>
          else if rrtype = ''NS'' then Some \<lparr>rr_type = rrtype, rr_data = canonical_name d\<rparr>
          else if rrtype = ''MX''
          then Some \<lparr>rr_type = rrtype,
                     rr_data = canonical_name (case ds of [] \<Rightarrow> d | e # _ \<Rightarrow> e)\<rparr>
          else Some \<lparr>rr_type = rrtype, rr_data = d\<rparr>)"

type_synonym zone = "(string, resource_record list) dict"

text \<open>One line of a zone file: the name, the record type after \<^verbatim>\<open>IN\<close>, and the data.\<close>

definition zone_line :: "string \<Rightarrow> zone \<Rightarrow> zone" where
  "zone_line raw records =
     (let line = py_strip (takeWhile (\<lambda>c. c \<noteq> CHR '';'') raw);
          fields = py_split line;
          i = length (takeWhile (\<lambda>f. f \<noteq> ''IN'') fields)
      in if line = [] then records
         else if i = length fields then records
         else if i = 0 \<or> length fields \<le> i + 1 then records
         else (case make_record (fields ! (i + 1)) (drop (i + 2) fields) of
                 None \<Rightarrow> records
               | Some r \<Rightarrow>
                   (let name = canonical_name (hd fields)
                    in dict_set name
                         ((case dict_get records name of None \<Rightarrow> [] | Some rs \<Rightarrow> rs) @ [r])
                         records)))"

definition zone_from_text :: "string \<Rightarrow> zone" where
  "zone_from_text text = fold zone_line (py_splitlines text) []"

definition zone_search :: "zone \<Rightarrow> string \<Rightarrow> string \<Rightarrow> search_result" where
  "zone_search records hostname rrtype =
     (case dict_get records (canonical_name hostname) of
        None \<Rightarrow> miss ''NXDOMAIN''
      | Some rs \<Rightarrow>
          (let m = filter (\<lambda>r. rr_type r = rrtype) rs
           in if m \<noteq> [] then \<lparr>found = True, answer = m, errorstring = Some ''NOERROR''\<rparr>
              else miss ''NOERROR''))"

section \<open>Evaluation of host names\<close>

type_synonym searcher = "string \<Rightarrow> string \<Rightarrow> search_result"

text \<open>The answer records of one query that have the queried type, AAAA data expanded.\<close>

fun resolve_answer ::
  "(string \<Rightarrow> string option) \<Rightarrow> string \<Rightarrow> resource_record list \<Rightarrow> cfg_value list res" where
  "resolve_answer expand rrtype [] = Inr []"
| "resolve_answer expand rrtype (r # rs) =
     (if rr_type r \<noteq> rrtype then resolve_answer expand rrtype rs
      else if rrtype = ''AAAA''
      then (case expand (rr_data r) of
              None \<Rightarrow>
                Inl (Located (''cannot parse IPv6 address from DNS answer: '' @ py_repr (rr_data r)))
            | Some a \<Rightarrow> bindR (resolve_answer expand rrtype rs) (\<lambda>vs. Inr (VStr a # vs)))
      else bindR (resolve_answer expand rrtype rs) (\<lambda>vs. Inr (VStr (rr_data r) # vs)))"

text \<open>One host of the loop of \<^verbatim>\<open>resolve\<close>.\<close>

definition resolve_host ::
  "searcher \<Rightarrow> (string \<Rightarrow> string option) \<Rightarrow> string \<Rightarrow> string \<Rightarrow> cfg_value list res" where
  "resolve_host search expand rrtype host =
     (case identify_numeric_address host of
        Some t \<Rightarrow> Inr (if t = rrtype then [VStr host] else [])
      | None \<Rightarrow>
          (let outcome = search host rrtype
           in if \<not> found outcome
              then (case errorstring outcome of
                      None \<Rightarrow> Inr []
                    | Some e \<Rightarrow>
                        if e = [] \<or> e = ''NOERROR'' \<or> e = ''NXDOMAIN'' then Inr []
                        else Inl (Located (''DNS query for '' @ [SQUOTE] @ host @ [SQUOTE] @
                                           '' failed: '' @ e)))
              else resolve_answer expand rrtype (answer outcome)))"

text \<open>The loop over the names; \<^verbatim>\<open>str(hostname)\<close> of a reference is \<open>rp\<close>.\<close>

fun resolve_names ::
  "(cfg_value \<Rightarrow> string) \<Rightarrow> searcher \<Rightarrow> (string \<Rightarrow> string option) \<Rightarrow> string \<Rightarrow> cfg_value list
    \<Rightarrow> cfg_value list res" where
  "resolve_names rp search expand rrtype [] = Inr []"
| "resolve_names rp search expand rrtype (v # vs) =
     bindR (resolve_host search expand rrtype
              (case v of VStr s \<Rightarrow> s | VNone \<Rightarrow> ''None'' | _ \<Rightarrow> rp v))
       (\<lambda>xs. bindR (resolve_names rp search expand rrtype vs) (\<lambda>ys. Inr (xs @ ys)))"

definition default_rrtype :: "string \<Rightarrow> string" where
  "default_rrtype fam = (if fam = ''ip6'' then ''AAAA'' else ''A'')"

text \<open>
  \<^verbatim>\<open>NS\<close> and \<^verbatim>\<open>MX\<close> answers are host names and go through a second pass, which queries the
  default type of the family and therefore does not recurse again.
\<close>

definition resolve ::
  "(cfg_value \<Rightarrow> string) \<Rightarrow> searcher \<Rightarrow> (string \<Rightarrow> string option) \<Rightarrow> string \<Rightarrow> cfg_value \<Rightarrow> cfg_value
    \<Rightarrow> cfg_value list res" where
  "resolve rp search expand fam names rrtype =
     (if is_ref rrtype then Inl (Located ERR_STRING_EXPECTED)
      else
        let t = (case rrtype of VStr s \<Rightarrow> if s = [] then default_rrtype fam else s
                 | _ \<Rightarrow> default_rrtype fam)
        in bindR (to_array names) (\<lambda>hosts.
           bindR (resolve_names rp search expand t hosts) (\<lambda>result.
           if t = ''NS'' \<or> t = ''MX''
           then resolve_names rp search expand (default_rrtype fam) result
           else Inr result)))"

section \<open>The family filter\<close>

text \<open>\<^verbatim>\<open>re.search(":[0-9a-f]*:", s)\<close>\<close>

fun ipv6_hint :: "string \<Rightarrow> bool" where
  "ipv6_hint [] = False"
| "ipv6_hint (c # s) =
     ((c = CHR '':'' \<and>
       starts_with '':'' (dropWhile (\<lambda>d. is_digit d \<or> (97 \<le> char_code d \<and> char_code d \<le> 102)) s))
      \<or> ipv6_hint s)"

text \<open>\<^verbatim>\<open>re.fullmatch("[0-9./]+", s)\<close>\<close>

definition ipv4_numeric :: "string \<Rightarrow> bool" where
  "ipv4_numeric s \<longleftrightarrow> s \<noteq> [] \<and> (\<forall>c \<in> set s. is_digit c \<or> c = CHR ''.'' \<or> c = CHR ''/'')"

definition ipfilter :: "(cfg_value \<Rightarrow> string) \<Rightarrow> string \<Rightarrow> cfg_value \<Rightarrow> cfg_value list res" where
  "ipfilter rp fam v =
     bindR (to_array v) (\<lambda>ips.
       Inr (if fam = ''ip'' then filter (\<lambda>ip. \<not> ipv6_hint (stringify rp ip)) ips
            else if fam = ''ip6'' then filter (\<lambda>ip. \<not> ipv4_numeric (stringify rp ip)) ips
            else ips))"

section \<open>Calling a deferred function\<close>

text \<open>
  \<^verbatim>\<open>value.function(domain, *args)\<close>: the arguments are spliced into the call, so an argument
  count the callable does not accept is a Python \<^verbatim>\<open>TypeError\<close>.
\<close>

definition call_deferred ::
  "(cfg_value \<Rightarrow> string) \<Rightarrow> searcher \<Rightarrow> (string \<Rightarrow> string option) \<Rightarrow> caller" where
  "call_deferred rp search expand f fam args =
     (case f of
        DeferredCat \<Rightarrow> bindR (cat args) (\<lambda>s. Inr [VStr s])
      | DeferredResolve \<Rightarrow>
          (case args of
             [names] \<Rightarrow> resolve rp search expand fam names VNone
           | [names, rrtype] \<Rightarrow> resolve rp search expand fam names rrtype
           | _ \<Rightarrow> Inl PyTypeError)
      | DeferredIpfilter \<Rightarrow>
          (case args of
             [v] \<Rightarrow> ipfilter rp fam v
           | _ \<Rightarrow> Inl PyTypeError))"

section \<open>Properties\<close>

lemma resolve_answer_strings:
  "resolve_answer expand t rs = Inr vs \<Longrightarrow> v \<in> set vs \<Longrightarrow> \<exists>s. v = VStr s"
  by (induction rs arbitrary: vs) (auto simp: bindR_Inr_iff split: if_splits option.splits)

lemma resolve_host_strings:
  "resolve_host search expand t h = Inr vs \<Longrightarrow> v \<in> set vs \<Longrightarrow> \<exists>s. v = VStr s"
  by (auto simp: resolve_host_def Let_def resolve_answer_strings
      split: option.splits if_splits)

lemma resolve_names_strings:
  "resolve_names rp search expand t hs = Inr vs \<Longrightarrow> v \<in> set vs \<Longrightarrow> \<exists>s. v = VStr s"
  by (induction hs arbitrary: vs) (auto simp: bindR_Inr_iff dest: resolve_host_strings)

lemma resolve_strings:
  "resolve rp search expand fam names t = Inr vs \<Longrightarrow> v \<in> set vs \<Longrightarrow> \<exists>s. v = VStr s"
  by (auto simp: resolve_def Let_def bindR_Inr_iff split: if_splits dest: resolve_names_strings)

lemma resolve_answer_not_fuel: "resolve_answer expand t rs \<noteq> Inl OutOfFuel"
  by (induction rs) (auto simp: bindR_Inl_iff split: option.splits)

lemma resolve_host_not_fuel: "resolve_host search expand t h \<noteq> Inl OutOfFuel"
  by (auto simp: resolve_host_def Let_def resolve_answer_not_fuel split: option.splits)

lemma resolve_names_not_fuel: "resolve_names rp search expand t hs \<noteq> Inl OutOfFuel"
  by (induction hs) (auto simp: bindR_Inl_iff resolve_host_not_fuel)

lemma to_array_not_fuel: "to_array v \<noteq> Inl OutOfFuel"
  by (cases v) (auto simp: internal_error_default_def internal_error_def)

lemma resolve_not_fuel: "resolve rp search expand fam names t \<noteq> Inl OutOfFuel"
  by (auto simp: resolve_def Let_def bindR_Inl_iff to_array_not_fuel resolve_names_not_fuel)

lemma strings_depth: "\<forall>v \<in> set vs. \<exists>s. v = VStr s \<Longrightarrow> ddepths vs = 0"
  by (induction vs) auto

lemma ipfilter_depth: "ipfilter rp fam v = Inr out \<Longrightarrow> ddepths out \<le> ddepth v"
proof -
  assume a: "ipfilter rp fam v = Inr out"
  then obtain ips where ips: "to_array v = Inr ips" and sub: "set out \<subseteq> set ips"
    by (auto simp: ipfilter_def bindR_Inr_iff split: if_splits)
  from sub have "ddepths out \<le> ddepths ips"
    by (auto simp: ddepths_le_iff dest: ddepth_le_ddepths)
  with to_array_depth [OF ips] show ?thesis by simp
qed

lemma ipfilter_not_fuel: "ipfilter rp fam v \<noteq> Inl OutOfFuel"
  by (auto simp: ipfilter_def bindR_Inl_iff to_array_not_fuel)

interpretation calls: deferred_calls "call_deferred rp search expand"
  for rp search expand
proof
  fix f fam args
  show "call_deferred rp search expand f fam args \<noteq> Inl OutOfFuel"
    by (auto simp: call_deferred_def bindR_Inl_iff cat_not_fuel resolve_not_fuel ipfilter_not_fuel
        split: dfun.splits list.splits)
next
  fix f fam args out
  assume a: "call_deferred rp search expand f fam args = Inr out"
  show "ddepths out \<le> ddepths args"
  proof (cases f)
    case DeferredCat
    with a show ?thesis by (auto simp: call_deferred_def bindR_Inr_iff)
  next
    case DeferredResolve
    with a have "\<forall>v \<in> set out. \<exists>s. v = VStr s"
      by (auto simp: call_deferred_def split: list.splits dest: resolve_strings)
    then show ?thesis by (simp add: strings_depth)
  next
    case DeferredIpfilter
    with a show ?thesis
      by (auto simp: call_deferred_def split: list.splits dest: ipfilter_depth)
  qed
qed

text \<open>Realization with the program's own callables always ends.\<close>

lemmas realize_total = calls.realize_deferred_total

end
