(* ===== verification/Ferm_State.thy ===== *)
theory Ferm_State
  imports Ferm_Domains Ferm_Resolver
begin

text \<open>
  The state the evaluator and the parser share, and the operations every reader is built from:
  \<^verbatim>\<open>Evaluator.__init__\<close> and \<^verbatim>\<open>Parser.__init__\<close> gather a tokenizer, a scope, the domains and the
  hook lists; \<^verbatim>\<open>Tokenizer\<close> reads tokens; \<^verbatim>\<open>error\<close> and \<^verbatim>\<open>warning\<close> write to the terminal.

  An operation is a function from the state to a failure, with what was written to the terminal
  until then, or a result and the next state. Everything outside the program is a \<open>world\<close>:
  child processes, the file system, the resolver, the text Python prints for reference values
  and their identity (\<^verbatim>\<open>is\<close>).
\<close>

section \<open>The outside\<close>

datatype shell_result = ShellError string | ShellSignal nat | ShellStatus nat | ShellOutput string

text \<open>
  \<open>w_shell\<close> is also given the number of commands run before, so that two runs of one command may
  differ, and \<open>w_is\<close> the place of the comparison.
\<close>

record world =
  w_repr :: "cfg_value \<Rightarrow> string"
  w_is :: "script option \<Rightarrow> cfg_value \<Rightarrow> cfg_value \<Rightarrow> bool"
  w_search :: searcher
  w_expand :: "string \<Rightarrow> string option"
  w_shell :: "nat \<Rightarrow> string \<Rightarrow> shell_result"
  w_glob :: "string \<Rightarrow> string list"
  w_is_dir :: "string \<Rightarrow> bool"
  w_is_file :: "string \<Rightarrow> bool"
  w_listdir :: "string \<Rightarrow> string + string list"
  w_open :: "string \<Rightarrow> file_result"
  w_stdin :: "string list"
  w_regex_ok :: "string \<Rightarrow> bool"
  w_seams :: seams

definition w_call :: "world \<Rightarrow> caller" where
  "w_call w = call_deferred (w_repr w) (w_search w) (w_expand w)"

section \<open>The state and the operations\<close>

text \<open>\<open>ps_words\<close> is the queue of a running backtick command; the hooks are the parser's.\<close>

record pstate =
  ps_script :: "script option"
  ps_words :: "string list"
  ps_calls :: nat
  ps_scope :: scope
  ps_kw :: kw_store
  ps_cells :: cells
  ps_domains :: domains
  ps_pre_hooks :: "string list"
  ps_post_hooks :: "string list"
  ps_flush_hooks :: "string list"
  ps_stderr :: "string list"
  ps_lines :: "string list"

type_synonym 'a pm = "pstate \<Rightarrow> (failure \<times> string list) + ('a \<times> pstate)"

definition retP :: "'a \<Rightarrow> 'a pm" where
  "retP x = (\<lambda>s. Inr (x, s))"

definition bindP :: "'a pm \<Rightarrow> ('a \<Rightarrow> 'b pm) \<Rightarrow> 'b pm" where
  "bindP m f = (\<lambda>s. case m s of Inl e \<Rightarrow> Inl e | Inr (x, s') \<Rightarrow> f x s')"

definition thenP :: "'a pm \<Rightarrow> 'b pm \<Rightarrow> 'b pm" where
  "thenP m k = bindP m (\<lambda>_. k)"

definition getP :: "(pstate \<Rightarrow> 'a) \<Rightarrow> 'a pm" where
  "getP f = (\<lambda>s. Inr (f s, s))"

definition modP :: "(pstate \<Rightarrow> pstate) \<Rightarrow> unit pm" where
  "modP f = (\<lambda>s. Inr ((), f s))"

text \<open>A bare \<^verbatim>\<open>raise\<close>.\<close>

definition failP :: "failure \<Rightarrow> 'a pm" where
  "failP e = (\<lambda>s. Inl (e, ps_stderr s))"

text \<open>\<^verbatim>\<open>error(msg)\<close>: the located report, then the exception.\<close>

definition errorP :: "world \<Rightarrow> string \<Rightarrow> 'a pm" where
  "errorP w msg = (\<lambda>s. Inl (Located msg, ps_stderr s @
     (case ps_script s of None \<Rightarrow> [] | Some sc \<Rightarrow> [error_report (w_repr w) sc])))"

definition warningP :: "string \<Rightarrow> unit pm" where
  "warningP msg = modP (\<lambda>s. s\<lparr>ps_stderr := ps_stderr s @
     [case ps_script s of None \<Rightarrow> ''Warning: '' @ msg @ [NL] | Some sc \<Rightarrow> warning_text sc msg]\<rparr>)"

text \<open>Running a function of \<^verbatim>\<open>values.py\<close>, \<^verbatim>\<open>rules.py\<close> or \<^verbatim>\<open>resolver.py\<close>.\<close>

definition liftP :: "world \<Rightarrow> 'a res \<Rightarrow> 'a pm" where
  "liftP w r = (case r of Inr x \<Rightarrow> retP x | Inl e \<Rightarrow> (case e of Located m \<Rightarrow> errorP w m | _ \<Rightarrow> failP e))"

definition whenP :: "bool \<Rightarrow> unit pm \<Rightarrow> unit pm" where
  "whenP b m = (if b then m else retP ())"

fun mapP :: "('a \<Rightarrow> 'b pm) \<Rightarrow> 'a list \<Rightarrow> 'b list pm" where
  "mapP f [] = retP []"
| "mapP f (x # xs) = bindP (f x) (\<lambda>y. bindP (mapP f xs) (\<lambda>ys. retP (y # ys)))"

fun forP :: "('a \<Rightarrow> unit pm) \<Rightarrow> 'a list \<Rightarrow> unit pm" where
  "forP f [] = retP ()"
| "forP f (x # xs) = thenP (f x) (forP f xs)"

named_theorems pm_defs

lemmas [pm_defs] = retP_def bindP_def thenP_def getP_def modP_def failP_def errorP_def liftP_def whenP_def

lemma pm_run [simp]:
  "retP x s = Inr (x, s)"
  "getP f s = Inr (f s, s)"
  "modP g s = Inr ((), g s)"
  "failP e s = Inl (e, ps_stderr s)"
  by (simp_all add: pm_defs)

lemma bindP_run [simp]:
  "m s = Inl e \<Longrightarrow> bindP m f s = Inl e"
  "m s = Inr (x, s') \<Longrightarrow> bindP m f s = f x s'"
  by (simp_all add: bindP_def)

lemma bindP_basic [simp]:
  "bindP (retP x) f = f x"
  "bindP (failP e) f = failP e"
  "bindP (errorP w msg) f = errorP w msg"
  by (simp_all add: pm_defs fun_eq_iff)

lemma bindP_Inr: "bindP m f s = Inr r \<longleftrightarrow> (\<exists>x s'. m s = Inr (x, s') \<and> f x s' = Inr r)"
  by (auto simp: bindP_def split: sum.splits)

lemma bindP_Inl: "bindP m f s = Inl e \<longleftrightarrow> m s = Inl e \<or> (\<exists>x s'. m s = Inr (x, s') \<and> f x s' = Inl e)"
  by (auto simp: bindP_def split: sum.splits)

lemma thenP_Inr: "thenP m k s = Inr r \<longleftrightarrow> (\<exists>x s'. m s = Inr (x, s') \<and> k s' = Inr r)"
  by (simp add: thenP_def bindP_Inr)

lemma thenP_Inl: "thenP m k s = Inl e \<longleftrightarrow> m s = Inl e \<or> (\<exists>x s'. m s = Inr (x, s') \<and> k s' = Inl e)"
  by (simp add: thenP_def bindP_Inl)

lemma thenP_run [simp]:
  "m s = Inl e \<Longrightarrow> thenP m k s = Inl e"
  "m s = Inr (x, s') \<Longrightarrow> thenP m k s = k s'"
  by (simp_all add: thenP_def)

lemma errorP_Inr [simp]: "errorP w msg s \<noteq> Inr r" "failP e s \<noteq> Inr r"
  by (simp_all add: pm_defs)

lemma liftP_Inr: "liftP w r s = Inr (x, s') \<longleftrightarrow> r = Inr x \<and> s' = s"
  by (auto simp: pm_defs split: sum.splits failure.splits)

lemma liftP_basic [simp]: "liftP w (Inr x) = retP x" "liftP w (Inl (Located msg)) = errorP w msg"
  by (simp_all add: liftP_def)

lemma whenP_simps [simp]: "whenP True m = m" "whenP False m = retP ()"
  by (simp_all add: whenP_def)

lemma bindP_assoc: "bindP (bindP m f) g = bindP m (\<lambda>x. bindP (f x) g)"
  by (auto simp: bindP_def fun_eq_iff split: sum.splits)

section \<open>Reading tokens\<close>

text \<open>\<^verbatim>\<open>Tokenizer.script\<close>\<close>

definition scriptP :: "script pm" where
  "scriptP = (\<lambda>s. case ps_script s of
     None \<Rightarrow> failP (Died ''script context not available while evaluating --def'') s
   | Some sc \<Rightarrow> Inr (sc, s))"

definition set_scriptP :: "script \<Rightarrow> unit pm" where
  "set_scriptP sc = modP (\<lambda>s. s\<lparr>ps_script := Some sc\<rparr>)"

definition readP :: "(script \<Rightarrow> 'a \<times> script) \<Rightarrow> 'a pm" where
  "readP f = bindP scriptP (\<lambda>sc. case f sc of (x, sc') \<Rightarrow> thenP (set_scriptP sc') (retP x))"

definition peek_token :: "token option pm" where
  "peek_token = readP script_peek"

definition next_token :: "token option pm" where
  "next_token = readP script_next"

text \<open>A queued \<^verbatim>\<open>None\<close> reads as the end of the input.\<close>

definition next_raw_token :: "token option pm" where
  "next_raw_token =
     bindP (readP script_next_raw) (\<lambda>t. retP (if t = Some (TVal VNone) then None else t))"

text \<open>\<^verbatim>\<open>handle_special_token\<close> on a sentinel.\<close>

definition note_line :: "token \<Rightarrow> unit pm" where
  "note_line t =
     (case t of TLine n \<Rightarrow> bindP scriptP (\<lambda>sc. set_scriptP (sc\<lparr>sc_line := n\<rparr>)) | _ \<Rightarrow> retP ())"

definition expect_token :: "world \<Rightarrow> string \<Rightarrow> string option \<Rightarrow> unit pm" where
  "expect_token w expect msg =
     bindP next_token (\<lambda>t.
       if t = Some (TStr expect) then retP ()
       else errorP w (case msg of
                        Some m \<Rightarrow> m
                      | None \<Rightarrow> [SQUOTE] @ expect @ [SQUOTE] @ '' expected''))"

text \<open>The token source of \<^verbatim>\<open>require_next_token(code)\<close>: the words of a command, or the script.\<close>

definition pop_word :: "token option pm" where
  "pop_word = (\<lambda>s. case ps_words s of
     [] \<Rightarrow> Inr (None, s)
   | x # xs \<Rightarrow> Inr (Some (TStr x), s\<lparr>ps_words := xs\<rparr>))"

definition require_next_token :: "world \<Rightarrow> bool \<Rightarrow> token pm" where
  "require_next_token w code =
     bindP (if code then pop_word else next_token) (\<lambda>t.
       case t of
         None \<Rightarrow> errorP w ''unexpected end of file''
       | Some tok \<Rightarrow>
           (case tok of
              TStr x \<Rightarrow>
                if x = '';'' \<or> x = ''{'' \<or> x = ''}''
                then errorP w ([SQUOTE] @ x @ [SQUOTE] @ '' not allowed here'')
                else retP tok
            | _ \<Rightarrow> retP tok))"

text \<open>The input left to each source, which every read diminishes.\<close>

definition left_over :: "bool \<Rightarrow> pstate \<Rightarrow> nat" where
  "left_over code s =
     (if code then length (ps_words s)
      else case ps_script s of None \<Rightarrow> 0 | Some sc \<Rightarrow> script_size sc)"

section \<open>Consumption\<close>

text \<open>Which script is read: its name and the scripts that include it.\<close>

definition script_id :: "pstate \<Rightarrow> (string \<times> (string \<times> nat) list) option" where
  "script_id s = map_option (\<lambda>sc. (sc_filename sc, sc_parents sc)) (ps_script s)"

text \<open>
  Reading tokens changes the token sources only: \<open>same_rules\<close> says that everything the parser
  builds is as before, and that the same script is read. \<open>keeps s t\<close> adds that no source has grown, \<open>consumes code s t\<close> that the
  source in use is shorter.
\<close>

definition same_rules :: "pstate \<Rightarrow> pstate \<Rightarrow> bool" where
  "same_rules s t \<longleftrightarrow>
     script_id t = script_id s \<and> ps_scope t = ps_scope s \<and> ps_kw t = ps_kw s \<and> ps_cells t = ps_cells s \<and>
     ps_domains t = ps_domains s \<and> ps_pre_hooks t = ps_pre_hooks s \<and>
     ps_post_hooks t = ps_post_hooks s \<and> ps_flush_hooks t = ps_flush_hooks s \<and>
     ps_stderr t = ps_stderr s \<and> ps_lines t = ps_lines s"

definition keeps :: "pstate \<Rightarrow> pstate \<Rightarrow> bool" where
  "keeps s t \<longleftrightarrow>
     same_rules s t \<and> left_over False t \<le> left_over False s \<and> left_over True t \<le> left_over True s"

definition consumes :: "bool \<Rightarrow> pstate \<Rightarrow> pstate \<Rightarrow> bool" where
  "consumes code s t \<longleftrightarrow> keeps s t \<and> left_over code t < left_over code s"

lemma keeps_refl [simp, intro]: "keeps s s"
  by (simp add: keeps_def same_rules_def)

lemma keeps_trans: "keeps s t \<Longrightarrow> keeps t u \<Longrightarrow> keeps s u"
  by (auto simp: keeps_def same_rules_def)

lemma keeps_left_over: "keeps s t \<Longrightarrow> left_over code t \<le> left_over code s"
  by (cases code) (auto simp: keeps_def)

text \<open>
  \<open>reads m\<close>: the operation never runs out of a model bound and keeps; \<open>eats code m\<close>: it consumes
  too.
\<close>

definition reads :: "'a pm \<Rightarrow> bool" where
  "reads m \<longleftrightarrow> (\<forall>s. case m s of Inl (e, _) \<Rightarrow> e \<noteq> OutOfFuel | Inr (_, t) \<Rightarrow> keeps s t)"

definition eats :: "bool \<Rightarrow> 'a pm \<Rightarrow> bool" where
  "eats code m \<longleftrightarrow> (\<forall>s. case m s of Inl (e, _) \<Rightarrow> e \<noteq> OutOfFuel | Inr (_, t) \<Rightarrow> consumes code s t)"

named_theorems reading

lemma eats_reads: "eats code m \<Longrightarrow> reads m"
  by (auto simp: eats_def reads_def consumes_def split: sum.splits)

lemma reads_ret [reading]: "reads (retP x)" "reads (getP f)"
  by (simp_all add: reads_def)

lemma reads_fail [reading]: "e \<noteq> OutOfFuel \<Longrightarrow> reads (failP e)" "e \<noteq> OutOfFuel \<Longrightarrow> eats code (failP e)"
  by (simp_all add: reads_def eats_def)

lemma reads_error [reading]: "reads (errorP w msg)" "eats code (errorP w msg)"
  by (simp_all add: reads_def eats_def errorP_def)

lemma reads_bind [reading]:
  assumes m: "reads m" and f: "\<And>x. reads (f x)"
  shows "reads (bindP m f)"
  unfolding reads_def
proof
  fix s
  show "case bindP m f s of Inl (e, _) \<Rightarrow> e \<noteq> OutOfFuel | Inr (_, t) \<Rightarrow> keeps s t"
  proof (cases "m s")
    case (Inl e)
    with m show ?thesis by (auto simp: reads_def bindP_def split: sum.splits dest: spec [of _ s])
  next
    case (Inr r)
    obtain x t where r: "r = (x, t)" by fastforce
    with Inr m have "keeps s t" by (auto simp: reads_def split: sum.splits dest: spec [of _ s])
    with f [of x] Inr r show ?thesis
      by (auto simp: reads_def bindP_def split: sum.splits prod.splits
          dest!: spec [of _ t] intro: keeps_trans)
  qed
qed

lemma eats_bind1:
  assumes m: "eats code m" and f: "\<And>x. reads (f x)"
  shows "eats code (bindP m f)"
  unfolding eats_def
proof
  fix s
  show "case bindP m f s of Inl (e, _) \<Rightarrow> e \<noteq> OutOfFuel | Inr (_, t) \<Rightarrow> consumes code s t"
  proof (cases "m s")
    case (Inl e)
    with m show ?thesis by (auto simp: eats_def bindP_def split: sum.splits dest: spec [of _ s])
  next
    case (Inr r)
    obtain x t where r: "r = (x, t)" by fastforce
    with Inr m have st: "consumes code s t" by (auto simp: eats_def split: sum.splits dest: spec [of _ s])
    have "consumes code s u" if "keeps t u" for u
      using st that keeps_left_over [OF that, of code] by (auto simp: consumes_def intro: keeps_trans)
    with f [of x] Inr r show ?thesis
      by (auto simp: reads_def bindP_def split: sum.splits prod.splits dest!: spec [of _ t])
  qed
qed

lemma eats_bind2:
  assumes m: "reads m" and f: "\<And>x. eats code (f x)"
  shows "eats code (bindP m f)"
  unfolding eats_def
proof
  fix s
  show "case bindP m f s of Inl (e, _) \<Rightarrow> e \<noteq> OutOfFuel | Inr (_, t) \<Rightarrow> consumes code s t"
  proof (cases "m s")
    case (Inl e)
    with m show ?thesis by (auto simp: reads_def bindP_def split: sum.splits dest: spec [of _ s])
  next
    case (Inr r)
    obtain x t where r: "r = (x, t)" by fastforce
    with Inr m have st: "keeps s t" by (auto simp: reads_def split: sum.splits dest: spec [of _ s])
    have "consumes code s u" if "consumes code t u" for u
      using st that keeps_left_over [OF st, of code] by (auto simp: consumes_def intro: keeps_trans)
    with f [of x] Inr r show ?thesis
      by (auto simp: eats_def bindP_def split: sum.splits prod.splits dest!: spec [of _ t])
  qed
qed

lemma reads_then [reading]: "reads m \<Longrightarrow> reads k \<Longrightarrow> reads (thenP m k)"
  by (simp add: thenP_def reads_bind)

lemma reads_when [reading]: "(b \<Longrightarrow> reads m) \<Longrightarrow> reads (whenP b m)"
  by (simp add: whenP_def reads_ret)

lemma reads_lift [reading]: "r \<noteq> Inl OutOfFuel \<Longrightarrow> reads (liftP w r)"
  by (auto simp: liftP_def split: sum.splits failure.splits intro!: reading)

lemma reads_map [reading]: "(\<And>x. reads (f x)) \<Longrightarrow> reads (mapP f xs)"
  by (induction xs) (auto intro!: reading)

lemma reads_readP:
  assumes "\<And>sc r sc'. f sc = (r, sc') \<Longrightarrow>
      script_size sc' \<le> script_size sc \<and> sc_filename sc' = sc_filename sc \<and> sc_parents sc' = sc_parents sc"
  shows "reads (readP f)"
proof -
  have "case readP f s of Inl (e, _) \<Rightarrow> e \<noteq> OutOfFuel | Inr (_, t) \<Rightarrow> keeps s t" for s
  proof (cases "ps_script s")
    case None
    then show ?thesis by (simp add: readP_def scriptP_def bindP_def)
  next
    case (Some sc)
    obtain r sc' where f: "f sc = (r, sc')" by fastforce
    with assms [OF f] Some show ?thesis
      by (simp add: readP_def scriptP_def set_scriptP_def thenP_def bindP_def keeps_def same_rules_def
          left_over_def script_id_def)
  qed
  then show ?thesis by (simp add: reads_def)
qed

lemma prepare_same_script:
  "prepare_tokens sc = (b, sc') \<Longrightarrow> sc_filename sc' = sc_filename sc \<and> sc_parents sc' = sc_parents sc"
  "prepare_normal_tokens sc = (b, sc') \<Longrightarrow> sc_filename sc' = sc_filename sc \<and> sc_parents sc' = sc_parents sc"
  by (auto simp: prepare_tokens_def prepare_normal_tokens_def
      split: if_splits option.splits list.splits prod.splits)

lemma script_same:
  "script_peek sc = (r, sc') \<Longrightarrow> sc_filename sc' = sc_filename sc \<and> sc_parents sc' = sc_parents sc"
  "script_next sc = (r, sc') \<Longrightarrow> sc_filename sc' = sc_filename sc \<and> sc_parents sc' = sc_parents sc"
  "script_next_raw sc = (r, sc') \<Longrightarrow> sc_filename sc' = sc_filename sc \<and> sc_parents sc' = sc_parents sc"
  by (auto simp: script_peek_def script_next_def script_next_raw_def Let_def
      split: prod.splits if_splits dest: prepare_same_script)

lemma reads_scriptP [reading]: "reads scriptP"
  by (auto simp: reads_def scriptP_def split: option.splits)

lemma reads_peek [reading]: "reads peek_token"
  unfolding peek_token_def by (rule reads_readP) (simp add: script_peek_size script_same)

lemma reads_next [reading]: "reads next_token"
  unfolding next_token_def by (rule reads_readP) (simp add: script_next_size_le script_same)

lemma reads_next_raw [reading]: "reads next_raw_token"
proof -
  have "script_next_raw sc = (r, sc') \<Longrightarrow> script_size sc' \<le> script_size sc" for sc r sc'
    by (cases r) (simp add: script_next_raw_def prepare_tokens_def split: if_splits option.splits list.splits,
        auto dest: script_next_raw_size)
  then show ?thesis
    unfolding next_raw_token_def by (intro reads_bind reads_readP reads_ret) (simp add: script_same)
qed

lemma reads_note_line [reading]: "reads (note_line t)"
  by (auto simp: reads_def note_line_def scriptP_def set_scriptP_def bindP_def keeps_def same_rules_def
      left_over_def script_size_def script_id_def split: token.splits option.splits)

lemma reads_expect [reading]: "reads (expect_token w x msg)"
  by (auto simp: expect_token_def intro!: reading)

lemma eats_require: "eats code (require_next_token w code)"
proof -
  have "consumes code s t" if r: "(if code then pop_word else next_token) s = Inr (Some x, t)" for s t x
  proof (cases code)
    case True
    with r show ?thesis
      by (auto simp: pop_word_def consumes_def keeps_def same_rules_def left_over_def script_id_def
          split: list.splits)
  next
    case False
    with r have "next_token s = Inr (Some x, t)" by simp
    then show ?thesis
      by (auto simp: next_token_def readP_def scriptP_def set_scriptP_def thenP_def bindP_def False
          consumes_def keeps_def same_rules_def left_over_def script_id_def
          split: option.splits prod.splits dest: script_next_size script_same)
  qed
  moreover have "(if code then pop_word else next_token) s \<noteq> Inl (OutOfFuel, e)" for s e
    by (auto simp: pop_word_def next_token_def readP_def scriptP_def set_scriptP_def thenP_def bindP_def
        split: option.splits prod.splits list.splits)
  ultimately show ?thesis
    by (fastforce simp: eats_def require_next_token_def bindP_def errorP_def split: sum.splits option.splits token.splits)
qed

lemma reads_require [reading]: "reads (require_next_token w code)"
  by (rule eats_reads [OF eats_require])

end
