(* ===== verification/Ferm_Evaluator.thy ===== *)
theory Ferm_Evaluator
  imports Ferm_State "HOL-Library.Char_ord" "HOL-Library.List_Lexorder"
begin

text \<open>
  Value evaluation, \<^verbatim>\<open>src/src/pyferm/functions.py\<close>: the readers of the token stream, the
  \<open>@\<close> built-ins and the keyword-parameter parsers.

  \<open>getvalues w d\<close> reads one value with \<open>d\<close> levels of nesting left; the program starts at
  \<open>MAX_VALUE_DEPTH\<close>. One level is \<open>value_body\<close>, which takes the level below as an argument. The
  loops over array elements, arguments and command words carry a step bound, one more than the
  input left, and the last section proves that no bound is ever reached.
\<close>

section \<open>Text helpers\<close>

text \<open>The class \<^verbatim>\<open>\w\<close> without \<^verbatim>\<open>re.ASCII\<close>, and \<^verbatim>\<open>str.isalpha\<close>, on latin-1.\<close>

definition is_ualpha :: "char \<Rightarrow> bool" where
  "is_ualpha c \<longleftrightarrow>
     is_upper c \<or> is_lower c \<or>
     (let n = char_code c
      in n = 170 \<or> n = 181 \<or> n = 186 \<or> (192 \<le> n \<and> n \<le> 255 \<and> n \<noteq> 215 \<and> n \<noteq> 247))"

definition is_uword :: "char \<Rightarrow> bool" where
  "is_uword c \<longleftrightarrow>
     is_word c \<or> is_ualpha c \<or>
     (let n = char_code c in n = 178 \<or> n = 179 \<or> n = 185 \<or> (188 \<le> n \<and> n \<le> 190))"

definition name_match :: "string \<Rightarrow> bool" where
  "name_match s \<longleftrightarrow> s \<noteq> [] \<and> (\<forall>c \<in> set s. is_uword c)"

text \<open>\<open>fullmatch\<close> of the quoted-token patterns.\<close>

definition quoted_inside :: "char \<Rightarrow> string \<Rightarrow> string option" where
  "quoted_inside q s =
     (if 2 \<le> length s \<and> hd s = q \<and> last s = q then Some (butlast (tl s)) else None)"

text \<open>The matches of \<^verbatim>\<open>\$(\w+)\<close> in a string, between the characters that match nothing.\<close>

function dvar_split :: "string \<Rightarrow> (char + string) list" where
  "dvar_split [] = []"
| "dvar_split (c # s) =
     (if c = CHR ''$'' \<and> takeWhile is_uword s \<noteq> []
      then Inr (takeWhile is_uword s) # dvar_split (dropWhile is_uword s)
      else Inl c # dvar_split s)"
  by pat_completeness auto
termination
  by (relation "measure length") (auto simp: less_Suc_eq_le dropWhile_length)

text \<open>What follows the last slash, and what precedes it, the slash included.\<close>

definition splitpath_file :: "string \<Rightarrow> string" where
  "splitpath_file path = rev (takeWhile (\<lambda>c. c \<noteq> CHR ''/'') (rev path))"

definition splitpath_dir :: "string \<Rightarrow> string" where
  "splitpath_dir path = rev (dropWhile (\<lambda>c. c \<noteq> CHR ''/'') (rev path))"

text \<open>\<^verbatim>\<open>re.sub(r"#.*", "", output)\<close>: comments are cut up to the end of their line.\<close>

fun strip_comments :: "bool \<Rightarrow> string \<Rightarrow> string" where
  "strip_comments inside [] = []"
| "strip_comments inside (c # s) =
     (if c = NL then c # strip_comments False s
      else if inside \<or> c = CHR ''#'' then strip_comments True s
      else c # strip_comments False s)"

definition split_backtick_output :: "string \<Rightarrow> string list" where
  "split_backtick_output out = fields_by is_space (strip_comments False out)"

section \<open>Perl numbers and substrings\<close>

definition UV_MAX :: int where "UV_MAX = 2 ^ 64 - 1"
definition IV_MIN :: int where "IV_MIN = - (2 ^ 63)"

fun bit_length :: "nat \<Rightarrow> nat" where
  "bit_length n = (if n = 0 then 0 else Suc (bit_length (n div 2)))"

declare bit_length.simps [simp del]

text \<open>
  \<open>float_trunc n d\<close> is the integer part of the double nearest to \<open>n / d\<close>, ties to even: 53
  significant bits of the quotient are kept.
\<close>

definition round_div :: "nat \<Rightarrow> nat \<Rightarrow> nat" where
  "round_div n d =
     (let q = n div d; r = n mod d
      in if d < 2 * r \<or> (2 * r = d \<and> odd q) then q + 1 else q)"

definition float_trunc :: "nat \<Rightarrow> nat \<Rightarrow> nat" where
  "float_trunc n d =
     (if 2 * n < d then 0
      else let k = bit_length (2 * n div d)
           in if k \<le> 54 then round_div (n * 2 ^ (54 - k)) d div 2 ^ (54 - k)
              else round_div n (d * 2 ^ (k - 54)) * 2 ^ (k - 54))"

definition after_exponent :: "string \<Rightarrow> (bool \<times> string) option" where
  "after_exponent s =
     (case s of
        e # r \<Rightarrow>
          if e = CHR ''e'' \<or> e = CHR ''E''
          then (let neg = (r \<noteq> [] \<and> hd r = CHR ''-'');
                    ds = takeWhile is_digit (if r \<noteq> [] \<and> is_sign (hd r) then tl r else r)
                in if ds = [] then None else Some (neg, ds))
          else None
      | [] \<Rightarrow> None)"

text \<open>
  The numeric prefix: the sign, the digits before the point, the point with the digits after it
  (\<open>None\<close> without a point) and the exponent.
\<close>

definition numeric_prefix ::
  "string \<Rightarrow> (bool \<times> string \<times> string option \<times> (bool \<times> string) option) option" where
  "numeric_prefix text0 =
     (let s0 = dropWhile is_space text0;
          neg = (s0 \<noteq> [] \<and> hd s0 = CHR ''-'');
          s = (if s0 \<noteq> [] \<and> is_sign (hd s0) then tl s0 else s0);
          ip = takeWhile is_digit s; r = dropWhile is_digit s;
          fp = (if r \<noteq> [] \<and> hd r = CHR ''.'' then takeWhile is_digit (tl r) else []);
          point = (r \<noteq> [] \<and> hd r = CHR ''.'' \<and> (ip \<noteq> [] \<or> fp \<noteq> []))
      in if ip = [] \<and> \<not> point then None
         else Some (neg, ip, if point then Some fp else None,
                after_exponent (if point then dropWhile is_digit (tl r) else r)))"

definition perl_substr_index :: "string \<Rightarrow> int res" where
  "perl_substr_index text0 =
     (case numeric_prefix text0 of
        None \<Rightarrow> Inr 0
      | Some (neg, ip, frac, expo) \<Rightarrow>
          (case (frac, expo) of
             (None, None) \<Rightarrow>
               bindR (py_int_digits ip) (\<lambda>n.
               Inr (if neg then max (- int n) IV_MIN
                    else if int n \<le> UV_MAX then int n else -1))
           | _ \<Rightarrow>
               let fp = (case frac of None \<Rightarrow> [] | Some f \<Rightarrow> f);
                   m = nat_of_string (ip @ fp);
                   (num, den) =
                     (case expo of
                        None \<Rightarrow> (m, 1)
                      | Some (eneg, ds) \<Rightarrow>
                          if eneg then (m, 10 ^ nat_of_string ds) else (m * 10 ^ nat_of_string ds, 1));
                   t = int (float_trunc num (den * 10 ^ length fp));
                   v = (if neg then - t else t)
               in Inr (if IV_MIN \<le> v \<and> v < 2 ^ 63 then v
                       else if 0 < v then (if v < 2 ^ 64 then v else -1)
                       else IV_MIN)))"

definition perl_substr :: "string \<Rightarrow> int \<Rightarrow> int \<Rightarrow> string" where
  "perl_substr s offset len =
     (let size = int (length s);
          start = (if offset < 0 then size + offset else offset);
          stop = (if len < 0 then size + len else start + len)
      in if offset > size then []
         else if start < 0 \<and> stop < 0 then []
         else let a = max start 0; b = max a (min stop size)
              in take (nat (b - a)) (drop (nat a) s))"

section \<open>Equality and stack lookups\<close>

definition perl_eq :: "world \<Rightarrow> script option \<Rightarrow> cfg_value \<Rightarrow> cfg_value \<Rightarrow> bool" where
  "perl_eq w here a b =
     (if is_ref a \<or> is_ref b then w_is w here a b
      else stringify (w_repr w) a = stringify (w_repr w) b)"

definition variable_value :: "string \<Rightarrow> cfg_value pm" where
  "variable_value name =
     getP (\<lambda>s.
       if name = ''LINE''
       then (case ps_script s of None \<Rightarrow> VNone | Some sc \<Rightarrow> VStr (string_of_nat (sc_line sc)))
       else (case scope_variable (ps_scope s) name of None \<Rightarrow> VNone | Some v \<Rightarrow> v))"

definition string_variable_value :: "world \<Rightarrow> string \<Rightarrow> cfg_value pm" where
  "string_variable_value w name =
     bindP (variable_value name) (\<lambda>v.
       if is_ref v
       then errorP w (''variable '' @ [SQUOTE] @ name @ [SQUOTE] @ '' must be a string, but it is an array'')
       else retP v)"

definition lookup_function :: "string \<Rightarrow> function_def option pm" where
  "lookup_function name = getP (\<lambda>s. scope_function (ps_scope s) name)"

section \<open>Protocols\<close>

definition append_optionP :: "rule \<Rightarrow> string \<Rightarrow> cfg_value \<Rightarrow> string option \<Rightarrow> rule pm" where
  "append_optionP r name v module =
     (\<lambda>s. case append_option r name v module (ps_cells s) of
        (r', cs) \<Rightarrow> Inr (r', s\<lparr>ps_cells := cs\<rparr>))"

definition realize_protocol :: "rule \<Rightarrow> (cfg_value \<times> rule) pm" where
  "realize_protocol r =
     (if ru_protocol r \<noteq> VNone then retP (ru_protocol r, r)
      else if ru_auto_protocol r \<noteq> VNone
      then bindP (append_optionP (r\<lparr>ru_protocol := ru_auto_protocol r, ru_auto_protocol := VNone\<rparr>)
                    ''protocol'' (ru_auto_protocol r) None)
             (\<lambda>r'. retP (ru_auto_protocol r, r'))
      else retP (VNone, r))"

text \<open>The first pending protocol whose module defines the keyword.\<close>

fun keyword_protocol :: "family_defs \<Rightarrow> string \<Rightarrow> cfg_value list \<Rightarrow> string option" where
  "keyword_protocol defs keyword [] = None"
| "keyword_protocol defs keyword (v # vs) =
     (case v of
        VStr p \<Rightarrow>
          (case dict_get defs p of
             Some m \<Rightarrow> if md_keyword m keyword \<noteq> None then Some p else keyword_protocol defs keyword vs
           | None \<Rightarrow> keyword_protocol defs keyword vs)
      | _ \<Rightarrow> keyword_protocol defs keyword vs)"

definition realize_protocol_keyword :: "world \<Rightarrow> rule \<Rightarrow> string \<Rightarrow> rule pm" where
  "realize_protocol_keyword w r keyword =
     (if ru_auto_protocol r = VNone then retP r
      else case ru_domain_family r of
             None \<Rightarrow> retP r
           | Some fam \<Rightarrow>
               (case dict_get PROTO_DEFS fam of
                  None \<Rightarrow> retP r
                | Some defs \<Rightarrow>
                    bindP (liftP w (to_array (ru_auto_protocol r))) (\<lambda>protos.
                    case keyword_protocol defs keyword protos of
                      None \<Rightarrow> retP r
                    | Some p \<Rightarrow>
                        append_optionP (r\<lparr>ru_protocol := VStr p, ru_auto_protocol := VNone\<rparr>)
                          ''protocol'' (VStr p) None)))"

section \<open>Reading values\<close>

definition MAX_VALUE_DEPTH :: nat where "MAX_VALUE_DEPTH = 100"

text \<open>The keyword flags of \<^verbatim>\<open>getvalues\<close>.\<close>

record gopts =
  go_non_empty :: bool
  go_negation :: bool
  go_comma :: bool
  go_parenthesis :: bool
  go_array_negation :: bool

definition plain_opts :: gopts where
  "plain_opts = \<lparr>go_non_empty = False, go_negation = False, go_comma = False, go_parenthesis = False,
                 go_array_negation = False\<rparr>"

definition negation_opts :: gopts where
  "negation_opts = plain_opts\<lparr>go_negation := True\<rparr>"

definition element_opts :: gopts where
  "element_opts = plain_opts\<lparr>go_parenthesis := True, go_comma := True\<rparr>"

type_synonym reader = "bool \<Rightarrow> gopts \<Rightarrow> cfg_value pm"

definition read_name :: "world \<Rightarrow> string \<Rightarrow> bool \<Rightarrow> string pm" where
  "read_name w msg code =
     bindP (require_next_token w code) (\<lambda>t.
       case t of
         TStr x \<Rightarrow> if name_match x then retP x else errorP w msg
       | _ \<Rightarrow> errorP w msg)"

primrec array_loop :: "world \<Rightarrow> reader \<Rightarrow> bool \<Rightarrow> nat \<Rightarrow> cfg_value list \<Rightarrow> cfg_value list pm" where
  "array_loop w rec code 0 acc = failP OutOfFuel"
| "array_loop w rec code (Suc n) acc =
     bindP (rec code element_opts) (\<lambda>v.
       case v of
         VList vs \<Rightarrow> array_loop w rec code n (acc @ vs)
       | VDeferred f vs \<Rightarrow> array_loop w rec code n (acc @ [v])
       | VSetRef name vs \<Rightarrow> array_loop w rec code n (acc @ [v])
       | VNone \<Rightarrow> array_loop w rec code n (acc @ [v])
       | VStr x \<Rightarrow>
           if x = '')'' then retP acc
           else if x = '',''
           then errorP w ''Comma is not allowed within arrays, please use only a space''
           else array_loop w rec code n (acc @ [v])
       | _ \<Rightarrow> errorP w ''unknown token type'')"

definition collapse :: "cfg_value list \<Rightarrow> cfg_value" where
  "collapse vs = (case vs of [v] \<Rightarrow> v | _ \<Rightarrow> VList vs)"

definition read_array :: "world \<Rightarrow> reader \<Rightarrow> bool \<Rightarrow> bool \<Rightarrow> cfg_value pm" where
  "read_array w rec code non_empty =
     bindP (getP (\<lambda>s. Suc (left_over code s))) (\<lambda>n.
     bindP (array_loop w rec code n []) (\<lambda>vs.
       if vs = [] \<and> non_empty then errorP w ''empty array not allowed here''
       else if (\<exists>v \<in> set vs. is_setref v) \<and> length vs \<noteq> 1
       then errorP w ''a named set cannot be mixed with other values in one selector''
       else retP (collapse vs)))"

primrec word_loop :: "world \<Rightarrow> reader \<Rightarrow> nat \<Rightarrow> cfg_value list \<Rightarrow> cfg_value list pm" where
  "word_loop w rec 0 acc = failP OutOfFuel"
| "word_loop w rec (Suc n) acc =
     bindP (getP (\<lambda>s. ps_words s = [])) (\<lambda>done.
       if done then retP acc
       else bindP (rec True plain_opts) (\<lambda>v.
            bindP (liftP w (to_array v)) (\<lambda>vs. word_loop w rec n (acc @ vs))))"

definition shellP :: "world \<Rightarrow> string \<Rightarrow> shell_result pm" where
  "shellP w cmd = (\<lambda>s. Inr (w_shell w (ps_calls s) cmd, s\<lparr>ps_calls := ps_calls s + 1\<rparr>))"

definition set_words :: "string list \<Rightarrow> unit pm" where
  "set_words ws = modP (\<lambda>s. s\<lparr>ps_words := ws\<rparr>)"

definition run_shell :: "world \<Rightarrow> reader \<Rightarrow> string \<Rightarrow> cfg_value pm" where
  "run_shell w rec cmd =
     bindP (shellP w cmd) (\<lambda>r.
       case r of
         ShellError msg \<Rightarrow> errorP w (''failed to execute: '' @ msg)
       | ShellSignal n \<Rightarrow> errorP w (''child died with signal '' @ string_of_nat n)
       | ShellStatus n \<Rightarrow> errorP w (''child exited with status '' @ string_of_nat n)
       | ShellOutput out \<Rightarrow>
           bindP (getP ps_words) (\<lambda>old.
           let ws = split_backtick_output out
           in thenP (set_words ws)
              (bindP (word_loop w rec (Suc (length ws)) []) (\<lambda>vs.
               thenP (set_words old) (retP (collapse vs))))))"

primrec params_loop :: "world \<Rightarrow> reader \<Rightarrow> gopts \<Rightarrow> nat \<Rightarrow> cfg_value list \<Rightarrow> cfg_value list pm" where
  "params_loop w rec o' 0 ps = failP OutOfFuel"
| "params_loop w rec o' (Suc n) ps =
     (if ps = [] then bindP (rec False o') (\<lambda>v. params_loop w rec o' n (ps @ [v]))
      else bindP (require_next_token w False) (\<lambda>t.
           if t = TStr '')'' then retP ps
           else if t \<noteq> TStr '','' then errorP w (DQUOTE # '','' @ DQUOTE # '' expected'')
           else bindP (rec False o') (\<lambda>v. params_loop w rec o' n (ps @ [v]))))"

definition parens_message :: string where
  "parens_message = ''function name must be followed by '' @ DQUOTE # ''()'' @ [DQUOTE]"

definition get_function_params :: "world \<Rightarrow> reader \<Rightarrow> bool \<Rightarrow> cfg_value list pm" where
  "get_function_params w rec neg =
     thenP (expect_token w ''('' (Some parens_message))
     (bindP peek_token (\<lambda>t.
        if t = Some (TStr '')'') then thenP (require_next_token w False) (retP [])
        else bindP (getP (\<lambda>s. Suc (left_over False s))) (\<lambda>n.
             params_loop w rec (plain_opts\<lparr>go_negation := neg\<rparr>) n [])))"

section \<open>The built-ins\<close>

definition fixed_params :: "world \<Rightarrow> reader \<Rightarrow> string \<Rightarrow> nat \<Rightarrow> cfg_value list pm" where
  "fixed_params w rec usage n =
     bindP (get_function_params w rec False) (\<lambda>ps.
       if length ps \<noteq> n then errorP w (''Usage: '' @ usage) else retP ps)"

definition string_param :: "world \<Rightarrow> reader \<Rightarrow> string \<Rightarrow> string pm" where
  "string_param w rec usage =
     bindP (fixed_params w rec usage 1) (\<lambda>ps.
       if is_ref (hd ps) then errorP w ERR_STRING_EXPECTED else retP (stringify (w_repr w) (hd ps)))"

definition perl_flag :: "bool \<Rightarrow> cfg_value" where
  "perl_flag b = VStr (if b then ''1'' else [])"

definition builtin_defined :: "world \<Rightarrow> cfg_value pm" where
  "builtin_defined w =
     thenP (expect_token w ''('' (Some parens_message))
     (bindP (require_next_token w False) (\<lambda>kind.
        if kind = TStr ''$''
        then bindP (read_name w ''variable name expected'' False) (\<lambda>name.
             thenP (expect_token w '')'' None)
             (bindP (variable_value name) (\<lambda>v. retP (perl_flag (v \<noteq> VNone)))))
        else if kind = TStr ''&''
        then bindP (read_name w ''function name expected'' False) (\<lambda>name.
             thenP (expect_token w '')'' None)
             (bindP (lookup_function name) (\<lambda>f. retP (perl_flag (f \<noteq> None)))))
        else errorP w ([SQUOTE] @ ''$'' @ [SQUOTE] @ '' or '' @ [SQUOTE] @ ''&'' @ [SQUOTE] @ '' expected'')))"

text \<open>The directory of a file name, \<^verbatim>\<open>^(.*/)\<close>, or the current one.\<close>

definition parent_directory :: "string \<Rightarrow> string" where
  "parent_directory filename =
     (let d = splitpath_dir (line_head filename) in if d = [] then ''./'' else d)"

definition glob_paths :: "world \<Rightarrow> string \<Rightarrow> cfg_value list \<Rightarrow> string list" where
  "glob_paths w dir patterns =
     concat (map (\<lambda>v.
       let path = stringify (w_repr w) v
       in sort (w_glob w (if starts_with ''/'' path then path else dir @ path))) patterns)"

definition builtin_glob :: "world \<Rightarrow> reader \<Rightarrow> cfg_value pm" where
  "builtin_glob w rec =
     bindP (fixed_params w rec ''@glob(string)'' 1) (\<lambda>ps.
     bindP scriptP (\<lambda>sc.
     bindP (liftP w (to_array (hd ps))) (\<lambda>patterns.
       retP (collapse (map VStr (glob_paths w (parent_directory (sc_filename sc)) patterns))))))"

definition builtin_eq :: "world \<Rightarrow> reader \<Rightarrow> cfg_value pm" where
  "builtin_eq w rec =
     bindP (fixed_params w rec ''@eq(a, b)'' 2) (\<lambda>ps.
     bindP (getP ps_script) (\<lambda>here. retP (format_bool (perl_eq w here (ps ! 0) (ps ! 1)))))"

definition builtin_ne :: "world \<Rightarrow> reader \<Rightarrow> cfg_value pm" where
  "builtin_ne w rec =
     bindP (fixed_params w rec ''@ne(a, b)'' 2) (\<lambda>ps.
     bindP (getP ps_script) (\<lambda>here. retP (format_bool (\<not> perl_eq w here (ps ! 0) (ps ! 1)))))"

definition builtin_not :: "world \<Rightarrow> reader \<Rightarrow> cfg_value pm" where
  "builtin_not w rec =
     bindP (fixed_params w rec ''@not(a)'' 1) (\<lambda>ps. retP (format_bool (\<not> perl_true (hd ps))))"

definition builtin_cat :: "world \<Rightarrow> reader \<Rightarrow> cfg_value pm" where
  "builtin_cat w rec =
     bindP (get_function_params w rec False) (\<lambda>ps.
       if contains_deferred ps then retP (VDeferred DeferredCat ps)
       else bindP (liftP w (cat ps)) (\<lambda>s. retP (VStr s)))"

definition builtin_join :: "world \<Rightarrow> reader \<Rightarrow> cfg_value pm" where
  "builtin_join w rec =
     bindP (get_function_params w rec False) (\<lambda>ps.
       case ps of
         [] \<Rightarrow> retP (VStr [])
       | sep # vs \<Rightarrow> liftP w (join_value (w_repr w) (stringify (w_repr w) sep) (VList (flatten vs))))"

definition builtin_substr :: "world \<Rightarrow> reader \<Rightarrow> cfg_value pm" where
  "builtin_substr w rec =
     bindP (fixed_params w rec ''@substr(string, num, num)'' 3) (\<lambda>ps.
       if \<exists>p \<in> set ps. is_ref p then errorP w ERR_STRING_EXPECTED
       else let txt = \<lambda>i. stringify (w_repr w) (ps ! i)
            in bindP (liftP w (perl_substr_index (txt 1))) (\<lambda>offset.
               bindP (liftP w (perl_substr_index (txt 2))) (\<lambda>len.
               retP (VStr (perl_substr (txt 0) offset len)))))"

definition builtin_length :: "world \<Rightarrow> reader \<Rightarrow> cfg_value pm" where
  "builtin_length w rec =
     bindP (string_param w rec ''@length(string)'') (\<lambda>s. retP (VStr (string_of_nat (length s))))"

definition builtin_basename :: "world \<Rightarrow> reader \<Rightarrow> cfg_value pm" where
  "builtin_basename w rec =
     bindP (string_param w rec ''@basename(path)'') (\<lambda>s. retP (VStr (splitpath_file s)))"

definition builtin_dirname :: "world \<Rightarrow> reader \<Rightarrow> cfg_value pm" where
  "builtin_dirname w rec =
     bindP (string_param w rec ''@dirname(path)'') (\<lambda>s. retP (VStr (splitpath_dir s)))"

definition builtin_resolve :: "world \<Rightarrow> reader \<Rightarrow> cfg_value pm" where
  "builtin_resolve w rec =
     bindP (get_function_params w rec False) (\<lambda>ps.
       if length ps = 1 \<or> length ps = 2 then retP (VDeferred DeferredResolve ps)
       else errorP w ''Usage: @resolve((hostname ...), [type])'')"

definition builtin_ipfilter :: "world \<Rightarrow> reader \<Rightarrow> cfg_value pm" where
  "builtin_ipfilter w rec =
     bindP (get_function_params w rec False) (\<lambda>ps.
       if length ps = 1 then retP (VDeferred DeferredIpfilter ps)
       else errorP w ''Usage: @ipfilter((ip1 ip2 ...))'')"

definition BUILTIN_FUNCTIONS :: "(string, world \<Rightarrow> reader \<Rightarrow> cfg_value pm) dict" where
  "BUILTIN_FUNCTIONS =
     [(''@defined'', \<lambda>w rec. builtin_defined w), (''@eq'', builtin_eq), (''@ne'', builtin_ne),
      (''@not'', builtin_not), (''@cat'', builtin_cat), (''@join'', builtin_join),
      (''@substr'', builtin_substr), (''@length'', builtin_length), (''@basename'', builtin_basename),
      (''@dirname'', builtin_dirname), (''@glob'', builtin_glob), (''@resolve'', builtin_resolve),
      (''@ipfilter'', builtin_ipfilter)]"

definition call_builtin :: "world \<Rightarrow> reader \<Rightarrow> string \<Rightarrow> cfg_value pm" where
  "call_builtin w rec name =
     (case dict_get BUILTIN_FUNCTIONS name of
        None \<Rightarrow> errorP w ''unknown ferm built-in function''
      | Some f \<Rightarrow> f w rec)"

section \<open>One value\<close>

definition interpolate :: "world \<Rightarrow> string \<Rightarrow> string pm" where
  "interpolate w s =
     bindP (mapP (\<lambda>piece.
       case piece of
         Inl c \<Rightarrow> retP [c]
       | Inr name \<Rightarrow> bindP (string_variable_value w name) (\<lambda>v. retP (stringify (w_repr w) v)))
       (dvar_split s)) (\<lambda>parts. retP (concat parts))"

definition name_message :: string where
  "name_message =
     ''variable name expected - if you want to concatenate strings, try using double quotes''"

definition plain_token :: "world \<Rightarrow> reader \<Rightarrow> bool \<Rightarrow> gopts \<Rightarrow> string \<Rightarrow> cfg_value pm" where
  "plain_token w rec code o' tok =
     (if tok = ''!''
      then (if go_negation o'
            then bindP (rec code plain_opts) (\<lambda>inner.
                 liftP w (negate_value inner False (go_array_negation o')))
            else errorP w ''negation is not allowed here'')
      else if tok = '',''
      then (if go_comma o' then retP (VStr tok) else errorP w ''comma is not allowed here'')
      else if tok = ''='' then errorP w (''equals operator ('' @ DQUOTE # ''='' @ DQUOTE # '') is not allowed here'')
      else if tok = ''$''
      then bindP (read_name w name_message code) (\<lambda>name.
           bindP (variable_value name) (\<lambda>v.
             if v = VNone then errorP w (''no such variable: $'' @ name) else retP v))
      else if tok = ''&'' then errorP w ''function calls are not allowed as keyword parameter''
      else if tok = '')'' \<and> \<not> go_parenthesis o' then errorP w ''Syntax error''
      else if starts_with ''@'' tok then call_builtin w rec tok
      else retP (VStr tok))"

definition string_value :: "world \<Rightarrow> reader \<Rightarrow> bool \<Rightarrow> gopts \<Rightarrow> string \<Rightarrow> cfg_value pm" where
  "string_value w rec code o' tok =
     (if tok = ''('' then read_array w rec code (go_non_empty o')
      else case quoted_inside BACKTICK tok of
             Some cmd \<Rightarrow> run_shell w rec cmd
           | None \<Rightarrow>
               (case quoted_inside SQUOTE tok of
                  Some x \<Rightarrow> retP (VStr x)
                | None \<Rightarrow>
                    (case quoted_inside DQUOTE tok of
                       Some x \<Rightarrow> bindP (interpolate w x) (\<lambda>y. retP (VStr y))
                     | None \<Rightarrow> plain_token w rec code o' tok)))"

definition value_body :: "world \<Rightarrow> reader \<Rightarrow> bool \<Rightarrow> gopts \<Rightarrow> cfg_value pm" where
  "value_body w rec code o' =
     bindP (require_next_token w code) (\<lambda>t.
       case t of
         TStr tok \<Rightarrow> string_value w rec code o' tok
       | TVal v \<Rightarrow> if is_deferred v then retP v else failP PyAssertion
       | TLine n \<Rightarrow> failP PyAssertion)"

primrec getvalues :: "world \<Rightarrow> nat \<Rightarrow> bool \<Rightarrow> gopts \<Rightarrow> cfg_value pm" where
  "getvalues w 0 =
     (\<lambda>code o'. errorP w (''values nested too deeply (max '' @ string_of_nat MAX_VALUE_DEPTH @ '')''))"
| "getvalues w (Suc d) = value_body w (getvalues w d)"

text \<open>The reader as the parser calls it: no value is being read.\<close>

definition get_value :: "world \<Rightarrow> gopts \<Rightarrow> cfg_value pm" where
  "get_value w o' = getvalues w MAX_VALUE_DEPTH False o'"

definition getvar :: "world \<Rightarrow> cfg_value pm" where
  "getvar w =
     bindP (get_value w plain_opts) (\<lambda>v.
       if is_list v then errorP w ''array not allowed here'' else retP v)"

definition call_params :: "world \<Rightarrow> bool \<Rightarrow> cfg_value list pm" where
  "call_params w neg = get_function_params w (getvalues w MAX_VALUE_DEPTH) neg"

section \<open>Buffering a statement\<close>

definition unmatched_message :: "string \<Rightarrow> string" where
  "unmatched_message x = ''unmatched '' @ [SQUOTE] @ x @ [SQUOTE]"

text \<open>\<open>lvl\<close> is the stack of open brackets, innermost first.\<close>

primrec collect_loop ::
  "world \<Rightarrow> bool \<Rightarrow> bool \<Rightarrow> nat \<Rightarrow> string list \<Rightarrow> token list \<Rightarrow> token list pm" where
  "collect_loop w semi els 0 lvl acc = failP OutOfFuel"
| "collect_loop w semi els (Suc n) lvl acc =
     bindP next_raw_token (\<lambda>r.
       case r of
         None \<Rightarrow> errorP w ''unexpected end of file within function/variable declaration''
       | Some (TStr x) \<Rightarrow>
           if x = ''{'' \<or> x = ''('' then collect_loop w semi els n (x # lvl) (acc @ [TStr x])
           else if x = ''}'' \<or> x = '')''
           then (let expected = (if x = ''}'' then ''{'' else ''('')
                 in case lvl of
                      [] \<Rightarrow> errorP w (unmatched_message x)
                    | opener # lvl' \<Rightarrow>
                        if opener \<noteq> expected then errorP w (unmatched_message x)
                        else if x = ''}'' \<and> lvl' = [] then retP (acc @ [TStr x])
                        else collect_loop w semi els n lvl' (acc @ [TStr x]))
           else if x = '';'' \<and> lvl = []
           then (let acc' = (if semi then acc @ [TStr x] else acc)
                 in bindP (if els then peek_token else retP None) (\<lambda>t.
                      if els \<and> t = Some (TStr ''@else'') then collect_loop w semi els n lvl acc'
                      else retP acc'))
           else collect_loop w semi els n lvl (acc @ [TStr x])
       | Some t \<Rightarrow> thenP (note_line t) (collect_loop w semi els n lvl (acc @ [t])))"

definition collect_tokens :: "world \<Rightarrow> bool \<Rightarrow> bool \<Rightarrow> token list pm" where
  "collect_tokens w semi els =
     bindP scriptP (\<lambda>sc. collect_loop w semi els (Suc (script_size sc)) [] [TLine (sc_line sc)])"

section \<open>Keyword-parameter parsers\<close>

fun text_of :: "cfg_value \<Rightarrow> string" where
  "text_of (VStr s) = s"
| "text_of _ = []"

definition address_magic :: "world \<Rightarrow> rule \<Rightarrow> cfg_value pm" where
  "address_magic w r =
     (let fam = text_of (ru_domain r);
          both = (\<lambda>ips. if ru_domain_both r then ipfilter (w_repr w) fam (VList ips) else Inr ips);
          realize = (\<lambda>vs. bindP (liftP w (realize_deferred (w_call w) fam vs)) (\<lambda>ips. liftP w (both ips)))
      in bindP (get_value w negation_opts) (\<lambda>v.
           case v of
             VNegated x \<Rightarrow>
               bindP (realize [x]) (\<lambda>ips. retP (if ips \<noteq> [] then VNegated (VList ips) else VList ips))
           | VSetRef name es \<Rightarrow> bindP (realize es) (\<lambda>ips. retP (VSetRef name ips))
           | _ \<Rightarrow> bindP (liftP w (to_array v)) (\<lambda>vs. bindP (realize vs) (\<lambda>ips. retP (VList ips)))))"

definition MAX_CLASSID :: nat where "MAX_CLASSID = 0xFFFFFFFF"

definition hex_val :: "char \<Rightarrow> nat" where
  "hex_val c = (if is_digit c then char_code c - 48
                else if is_upper c then char_code c - 55 else char_code c - 87)"

definition hex_value :: "string \<Rightarrow> nat" where
  "hex_value s = foldl (\<lambda>n c. n * 16 + hex_val c) 0 s"

definition is_hex4 :: "string \<Rightarrow> bool" where
  "is_hex4 s \<longleftrightarrow> 1 \<le> length s \<and> length s \<le> 4 \<and>
     (\<forall>c \<in> set s. is_digit c \<or> c \<in> set ''abcdefABCDEF'')"

text \<open>\<^verbatim>\<open>hex:hex\<close>\<close>

definition classid_pair :: "string \<Rightarrow> (string \<times> string) option" where
  "classid_pair s =
     (let a = takeWhile (\<lambda>c. c \<noteq> CHR '':'') s; b = drop (length a) s
      in if b \<noteq> [] \<and> is_hex4 a \<and> is_hex4 (tl b) then Some (a, tl b) else None)"

definition decimal_match :: "string \<Rightarrow> bool" where
  "decimal_match s \<longleftrightarrow> all_digits s \<or> (s \<noteq> [] \<and> hd s = CHR ''-'' \<and> all_digits (tl s))"

text \<open>One class id: the text stored for it.\<close>

definition classid_text :: "string \<Rightarrow> string res" where
  "classid_text s =
     bindR
       (case classid_pair s of
          Some (a, b) \<Rightarrow>
            (let n = hex_value a * 2 ^ 16 + hex_value b in Inr (int n, string_of_nat n))
        | None \<Rightarrow>
            if decimal_match s then bindR (py_int s) (\<lambda>n. Inr (n, s))
            else Inl (Located ''classid must be hex:hex or decimal''))
       (\<lambda>(n, stored).
          if n < 0 then Inl (Located ''classid must be non-negative'')
          else if int MAX_CLASSID < n then Inl (Located ''classid is too large'')
          else Inr stored)"

definition cgroup_classid :: "world \<Rightarrow> cfg_value pm" where
  "cgroup_classid w =
     bindP (get_value w negation_opts) (\<lambda>v.
     let finish = (\<lambda>neg vs.
           bindP (liftP w (mapR (\<lambda>x. classid_text (stringify (w_repr w) x)) vs)) (\<lambda>ts.
           retP (if neg \<and> ts \<noteq> [] then VNegated (VList (map VStr ts)) else VList (map VStr ts))))
     in case v of
          VList vs \<Rightarrow> finish False vs
        | VNegated x \<Rightarrow> finish True [x]
        | VNone \<Rightarrow> finish False [v]
        | VStr s \<Rightarrow> finish False [v]
        | _ \<Rightarrow> failP internal_error_default)"

definition MAX_MULTIPORT_PORTS :: nat where "MAX_MULTIPORT_PORTS = 15"

definition port_weight :: "string \<Rightarrow> nat" where
  "port_weight s = (if CHR '':'' \<in> set s then 2 else 1)"

text \<open>The chunks, each with its total weight bounded; \<open>chunk\<close> and \<open>used\<close> are the open one.\<close>

fun port_chunks :: "string list \<Rightarrow> string list \<Rightarrow> nat \<Rightarrow> string list list" where
  "port_chunks [] chunk used = (if chunk = [] then [] else [chunk])"
| "port_chunks (p # ps) chunk used =
     (if MAX_MULTIPORT_PORTS < used + port_weight p
      then chunk # port_chunks ps [p] (port_weight p)
      else port_chunks ps (chunk @ [p]) (used + port_weight p))"

definition multiport_protocol :: "cfg_value list \<Rightarrow> bool" where
  "multiport_protocol protos \<longleftrightarrow>
     (\<exists>p \<in> set protos. p = VStr ''tcp'' \<or> p = VStr ''udp'' \<or> p = VStr ''udplite'')"

definition multiport_message :: string where
  "multiport_message =
     ''To use multiport, you have to specify '' @ DQUOTE # ''proto tcp'' @ DQUOTE # '' or '' @
     DQUOTE # ''proto udp'' @ DQUOTE # '' first''"

definition multiport_params :: "world \<Rightarrow> rule \<Rightarrow> (cfg_value \<times> rule) pm" where
  "multiport_params w r =
     bindP (realize_protocol r) (\<lambda>(proto, r').
     bindP (if proto = VNone then retP [] else liftP w (to_array proto)) (\<lambda>protos.
       if proto = VNone \<or> \<not> multiport_protocol protos then errorP w multiport_message
       else bindP (get_value w (negation_opts\<lparr>go_array_negation := True\<rparr>)) (\<lambda>v.
            case v of
              VList vs \<Rightarrow>
                retP (collapse (map (\<lambda>c. VStr (join_str '','' c))
                        (port_chunks (map (stringify (w_repr w)) vs) [] 0)), r')
            | _ \<Rightarrow> bindP (liftP w (join_value (w_repr w) '','' v)) (\<lambda>x. retP (x, r')))))"

section \<open>Reading ends\<close>

text \<open>\<open>bounded code n m\<close>: with less than \<open>n\<close> input left, the operation stays within its bound.\<close>

definition bounded :: "bool \<Rightarrow> nat \<Rightarrow> 'a pm \<Rightarrow> bool" where
  "bounded code n m \<longleftrightarrow>
     (\<forall>s. left_over code s < n \<longrightarrow>
        (case m s of Inl (e, _) \<Rightarrow> e \<noteq> OutOfFuel | Inr (_, t) \<Rightarrow> keeps s t))"

lemma bounded_reads: "reads m \<Longrightarrow> bounded code n m"
  by (simp add: reads_def bounded_def)

lemma bounded_bind_gen:
  assumes m: "\<And>s. left_over code s < n \<Longrightarrow>
      case m s of Inl (e, _) \<Rightarrow> e \<noteq> OutOfFuel | Inr (x, t) \<Rightarrow> keeps s t \<and> left_over code t < n' x"
    and k: "\<And>x. bounded code (n' x) (k x)"
  shows "bounded code n (bindP m k)"
  unfolding bounded_def
proof (intro allI impI)
  fix s assume s: "left_over code s < n"
  show "case bindP m k s of Inl (e, _) \<Rightarrow> e \<noteq> OutOfFuel | Inr (_, u) \<Rightarrow> keeps s u"
  proof (cases "m s")
    case (Inl e)
    with m [OF s] show ?thesis by (auto simp: bindP_def)
  next
    case (Inr r)
    obtain x t where r: "r = (x, t)" by fastforce
    with Inr m [OF s] have "keeps s t" "left_over code t < n' x" by auto
    with k [of x] Inr r show ?thesis
      by (auto simp: bounded_def bindP_def split: sum.splits prod.splits dest!: spec [of _ t] intro: keeps_trans)
  qed
qed

lemma bounded_bind_eats:
  assumes "eats code m" and "\<And>x. bounded code n (k x)"
  shows "bounded code (Suc n) (bindP m k)"
proof (rule bounded_bind_gen [where n' = "\<lambda>_. n"])
  fix s assume "left_over code s < Suc n"
  with assms(1) show "case m s of Inl (e, _) \<Rightarrow> e \<noteq> OutOfFuel | Inr (x, t) \<Rightarrow> keeps s t \<and> left_over code t < n"
    by (auto simp: eats_def consumes_def split: sum.splits dest!: spec [of _ s])
qed (use assms in simp)

lemma bounded_bind_reads:
  assumes "reads m" and "\<And>x. bounded code n (k x)"
  shows "bounded code n (bindP m k)"
proof (rule bounded_bind_gen [where n' = "\<lambda>_. n"])
  fix s assume "left_over code s < n"
  with assms(1) show "case m s of Inl (e, _) \<Rightarrow> e \<noteq> OutOfFuel | Inr (x, t) \<Rightarrow> keeps s t \<and> left_over code t < n"
    by (auto simp: reads_def split: sum.splits dest!: spec [of _ s] intro: le_less_trans [OF keeps_left_over])
qed (use assms in simp)

lemma bounded_bind:
  assumes "bounded code n m" and "\<And>x. reads (k x)"
  shows "bounded code n (bindP m k)"
proof (rule bounded_bind_gen [where n' = "\<lambda>_. n"])
  fix s assume "left_over code s < n"
  with assms(1) show "case m s of Inl (e, _) \<Rightarrow> e \<noteq> OutOfFuel | Inr (x, t) \<Rightarrow> keeps s t \<and> left_over code t < n"
    by (auto simp: bounded_def split: sum.splits dest!: spec [of _ s] intro: le_less_trans [OF keeps_left_over])
qed (use assms in \<open>simp add: bounded_reads\<close>)

lemma reads_start:
  assumes "\<And>n. bounded code n (k n)"
  shows "reads (bindP (getP (\<lambda>s. Suc (left_over code s))) k)"
  using assms by (auto simp: reads_def bounded_def bindP_def)

lemma reads_if [reading]: "(b \<Longrightarrow> reads m) \<Longrightarrow> (\<not> b \<Longrightarrow> reads k) \<Longrightarrow> reads (if b then m else k)"
  by simp

text \<open>The functions of \<^verbatim>\<open>values.py\<close> have no bound to run out of.\<close>

named_theorems fuel_free

lemmas [fuel_free] = to_array_not_fuel cat_not_fuel realize_total ipfilter_not_fuel

lemma negate_value_fuel [fuel_free]: "negate_value v pre allow \<noteq> Inl OutOfFuel"
  by (cases v) simp_all

lemma join_value_fuel [fuel_free]: "join_value rp sep v \<noteq> Inl OutOfFuel"
  by (induction rp sep v rule: join_value.induct)
    (auto simp: bindR_Inl_iff internal_error_default_def internal_error_def)

lemma py_int_digits_fuel: "py_int_digits s \<noteq> Inl OutOfFuel"
  by (simp add: py_int_digits_def)

lemma perl_substr_index_fuel [fuel_free]: "perl_substr_index s \<noteq> Inl OutOfFuel"
  by (auto simp: perl_substr_index_def bindR_Inl_iff py_int_digits_fuel Let_def
      split: option.splits prod.splits)

text \<open>
  The interface between one level of the value reader and the level below: the level below
  consumes input. The lemmas of the locale give the same promise for every construct built on
  it, the loops with their step bounds included.
\<close>

locale value_reader =
  fixes w :: world and rec :: reader
  assumes rec_eats: "eats code (rec code o')"
begin

lemma rec_reads: "reads (rec code o')"
  by (rule eats_reads [OF rec_eats])

lemma array_loop_bounded: "bounded code n (array_loop w rec code n acc)"
proof (induction n arbitrary: acc)
  case (Suc n)
  show ?case
    unfolding array_loop.simps
    by (rule bounded_bind_eats [OF rec_eats])
      (auto intro!: Suc bounded_reads reading split: val_split)
qed (simp add: bounded_def)

lemma read_array_reads: "reads (read_array w rec code non_empty)"
  unfolding read_array_def
  by (rule reads_start) (auto intro!: bounded_bind array_loop_bounded reading)

lemma word_loop_bounded: "bounded True n (word_loop w rec n acc)"
proof (induction n arbitrary: acc)
  case (Suc n)
  show ?case
    unfolding word_loop.simps
    by (rule bounded_bind_reads [OF reads_ret(2)])
      (auto intro!: bounded_reads [OF reads_ret(1)] bounded_bind_eats [OF rec_eats] bounded_bind_reads
        Suc reads_lift to_array_not_fuel)
qed (simp add: bounded_def)

lemma run_shell_reads: "reads (run_shell w rec cmd)"
proof -
  let ?body = "\<lambda>ws old. thenP (set_words ws) (bindP (word_loop w rec (Suc (length ws)) [])
      (\<lambda>vs. thenP (set_words old) (retP (collapse vs))))"
  have "reads (bindP (getP ps_words) (?body ws))" for ws
    unfolding reads_def
  proof
    fix s
    have "bounded True (Suc (length ws)) (word_loop w rec (Suc (length ws)) [])"
      by (rule word_loop_bounded)
    then show "case bindP (getP ps_words) (?body ws) s of Inl (e, _) \<Rightarrow> e \<noteq> OutOfFuel | Inr (_, t) \<Rightarrow> keeps s t"
      by (auto simp: bounded_def bindP_def thenP_def set_words_def left_over_def keeps_def same_rules_def script_id_def
          split: sum.splits prod.splits dest!: spec [of _ "s\<lparr>ps_words := ws\<rparr>"])
  qed
  then have out: "reads (bindP (getP ps_words) (\<lambda>old. let ws = split_backtick_output out in ?body ws old))" for out
    by (simp add: Let_def)
  have "reads (shellP w cmd)"
    by (auto simp: reads_def shellP_def keeps_def same_rules_def left_over_def script_id_def)
  then show ?thesis
    unfolding run_shell_def
  proof (rule reads_bind)
    fix r
    show "reads (case r of
        ShellError msg \<Rightarrow> errorP w (''failed to execute: '' @ msg)
      | ShellSignal n \<Rightarrow> errorP w (''child died with signal '' @ string_of_nat n)
      | ShellStatus n \<Rightarrow> errorP w (''child exited with status '' @ string_of_nat n)
      | ShellOutput out \<Rightarrow>
          bindP (getP ps_words) (\<lambda>old. let ws = split_backtick_output out in ?body ws old))"
      by (cases r) (simp_all only: shell_result.case reads_error out)
  qed
qed

lemma params_loop_bounded: "bounded False n (params_loop w rec o' n ps)"
proof (induction n arbitrary: ps)
  case (Suc n)
  then have more: "bounded False (Suc n) (bindP (rec False o') (\<lambda>v. params_loop w rec o' n (ps @ [v])))" for ps
    by (intro bounded_bind_eats [OF rec_eats])
  have next_param: "bounded False (Suc n)
      (if t = TStr '')'' then retP ps else if t \<noteq> TStr '','' then errorP w msg
       else bindP (rec False o') (\<lambda>v. params_loop w rec o' n (ps @ [v])))" for t msg
    by (simp add: more bounded_reads reads_ret reads_error)
  show ?case
  proof (cases "ps = []")
    case True
    then show ?thesis using more [of ps] by simp
  next
    case False
    then show ?thesis by (simp only: params_loop.simps if_False) (rule bounded_bind_reads [OF reads_require next_param])
  qed
qed (simp add: bounded_def)

lemma get_function_params_reads [reading]: "reads (get_function_params w rec neg)"
proof -
  have "reads (bindP (getP (\<lambda>s. Suc (left_over False s))) (\<lambda>n. params_loop w rec o' n []))" for o'
    by (rule reads_start) (rule params_loop_bounded)
  then show ?thesis
    unfolding get_function_params_def
    by (intro reads_then reads_expect reads_bind [OF reads_peek] reads_if reads_ret reads_require)
qed

lemma fixed_params_reads [reading]: "reads (fixed_params w rec usage n)"
  unfolding fixed_params_def by (auto intro!: reading)

lemma string_param_reads [reading]: "reads (string_param w rec usage)"
  unfolding string_param_def by (auto intro!: reading)

lemma read_name_reads [reading]: "reads (read_name w msg code)"
  unfolding read_name_def by (auto intro!: reading split: token.split)

lemma lookup_reads [reading]: "reads (variable_value name)" "reads (lookup_function name)"
  "reads (string_variable_value w name)"
  by (auto simp: variable_value_def lookup_function_def string_variable_value_def intro!: reading)

lemma builtin_defined_reads: "reads (builtin_defined w)"
  unfolding builtin_defined_def by (auto intro!: reading)

lemma builtins_read:
  "reads (builtin_eq w rec)" "reads (builtin_ne w rec)" "reads (builtin_not w rec)"
  "reads (builtin_cat w rec)" "reads (builtin_join w rec)" "reads (builtin_length w rec)"
  "reads (builtin_basename w rec)" "reads (builtin_dirname w rec)" "reads (builtin_resolve w rec)"
  "reads (builtin_ipfilter w rec)"
  unfolding builtin_eq_def builtin_ne_def builtin_not_def builtin_cat_def builtin_join_def
    builtin_length_def builtin_basename_def builtin_dirname_def builtin_resolve_def builtin_ipfilter_def
  by (auto intro!: reading fuel_free split: list.split)

lemma builtin_glob_reads: "reads (builtin_glob w rec)"
  unfolding builtin_glob_def by (auto intro!: reading fuel_free)

lemma builtin_substr_reads: "reads (builtin_substr w rec)"
  unfolding builtin_substr_def Let_def by (auto intro!: reading fuel_free)

lemma call_builtin_reads: "reads (call_builtin w rec name)"
proof -
  have "reads (f w rec)" if "dict_get BUILTIN_FUNCTIONS name = Some f" for f
    using that builtins_read builtin_defined_reads builtin_glob_reads builtin_substr_reads
    by (auto simp: BUILTIN_FUNCTIONS_def split: if_splits)
  then show ?thesis by (auto simp: call_builtin_def intro!: reading split: option.split)
qed

lemma interpolate_reads: "reads (interpolate w s)"
  unfolding interpolate_def by (auto intro!: reading split: sum.split)

lemma plain_token_reads: "reads (plain_token w rec code o' tok)"
  unfolding plain_token_def
  by (auto intro!: reading rec_reads fuel_free call_builtin_reads)

lemma string_value_reads: "reads (string_value w rec code o' tok)"
  unfolding string_value_def
  by (auto intro!: reading read_array_reads run_shell_reads interpolate_reads plain_token_reads
      split: option.split)

lemma value_body_eats: "eats code (value_body w rec code o')"
  unfolding value_body_def
  by (rule eats_bind1 [OF eats_require]) (auto intro!: reading string_value_reads split: token.split)

end

lemma getvalues_eats: "eats code (getvalues w d code o')"
proof (induction d arbitrary: code o')
  case 0
  then show ?case by (simp add: reads_error)
next
  case (Suc d)
  then show ?case by (simp add: value_reader.value_body_eats [OF value_reader.intro])
qed

interpretation depth: value_reader w "getvalues w d" for w d
  by unfold_locales (rule getvalues_eats)

text \<open>The readers the parser calls.\<close>

lemma get_value_eats: "eats False (get_value w o')"
  unfolding get_value_def by (rule getvalues_eats)

lemma get_value_reads [reading]: "reads (get_value w o')"
  by (rule eats_reads [OF get_value_eats])

lemma getvar_eats: "eats False (getvar w)"
  unfolding getvar_def by (rule eats_bind1 [OF get_value_eats]) (auto intro!: reading)

lemma getvar_reads [reading]: "reads (getvar w)"
  by (rule eats_reads [OF getvar_eats])

lemma call_params_reads [reading]: "reads (call_params w neg)"
  unfolding call_params_def by (rule depth.get_function_params_reads)

lemma to_array_fuel_default: "internal_error_default \<noteq> OutOfFuel"
  by (simp add: internal_error_default_def internal_error_def)

lemma address_magic_reads [reading]: "reads (address_magic w r)"
  unfolding address_magic_def Let_def w_call_def
  by (auto intro!: reading simp: fuel_free to_array_fuel_default split: val_split if_splits)

lemma py_int_fuel: "py_int s \<noteq> Inl OutOfFuel"
  by (auto dest: py_int_error)

lemma classid_text_fuel: "classid_text s \<noteq> Inl OutOfFuel"
  by (auto simp: classid_text_def bindR_Inl_iff py_int_fuel Let_def split: option.splits if_splits)

lemma mapR_fuel: "(\<And>x. f x \<noteq> Inl OutOfFuel) \<Longrightarrow> mapR f xs \<noteq> Inl OutOfFuel"
  by (induction xs) (auto simp: bindR_Inl_iff)

lemma cgroup_classid_reads [reading]: "reads (cgroup_classid w)"
  unfolding cgroup_classid_def Let_def
  by (auto intro!: reading mapR_fuel classid_text_fuel
      simp: to_array_fuel_default bindR_Inl_iff classid_text_fuel split: val_split)

lemma next_raw_eats:
  assumes "bounded False (Suc n) (k None)" and "\<And>t. bounded False n (k (Some t))"
  shows "bounded False (Suc n) (bindP next_raw_token k)"
proof (rule bounded_bind_gen [where n' = "\<lambda>x. if x = None then Suc n else n"])
  fix s assume s: "left_over False s < Suc n"
  have "case next_raw_token s of Inl (e, _) \<Rightarrow> e \<noteq> OutOfFuel | Inr (x, t) \<Rightarrow> keeps s t"
    using reads_next_raw by (auto simp: reads_def)
  moreover have "left_over False t < left_over False s" if "next_raw_token s = Inr (Some x, t)" for x t
    using that
    by (auto simp: next_raw_token_def readP_def scriptP_def set_scriptP_def thenP_def bindP_def left_over_def
        split: option.splits prod.splits if_splits dest: script_next_raw_size)
  ultimately show "case next_raw_token s of Inl (e, _) \<Rightarrow> e \<noteq> OutOfFuel
      | Inr (x, t) \<Rightarrow> keeps s t \<and> left_over False t < (if x = None then Suc n else n)"
    using s by (fastforce split: sum.splits dest: keeps_left_over [of _ _ False])
qed (use assms in auto)

lemma bounded_if: "bounded code n m \<Longrightarrow> bounded code n k \<Longrightarrow> bounded code n (if b then m else k)"
  by simp

lemma collect_loop_bounded: "bounded False n (collect_loop w semi els n lvl acc)"
proof (induction n arbitrary: lvl acc)
  case (Suc n)
  have peek: "bounded False n (bindP (if els then peek_token else retP None) k)"
    if "\<And>t. bounded False n (k t)" for k :: "token option \<Rightarrow> token list pm"
    by (rule bounded_bind_reads) (auto intro: that reading)
  have line: "bounded False n (thenP (note_line t) (collect_loop w semi els n lvl acc))" for t lvl acc
    unfolding thenP_def by (rule bounded_bind_reads [OF reads_note_line]) (rule Suc)
  show ?case
    unfolding collect_loop.simps
  proof (rule next_raw_eats)
    show "bounded False n (case Some t of
       None \<Rightarrow> errorP w ''unexpected end of file within function/variable declaration''
     | Some (TStr x) \<Rightarrow>
         if x = ''{'' \<or> x = ''('' then collect_loop w semi els n (x # lvl) (acc @ [TStr x])
         else if x = ''}'' \<or> x = '')''
         then (let expected = (if x = ''}'' then ''{'' else ''('')
               in case lvl of
                    [] \<Rightarrow> errorP w (unmatched_message x)
                  | opener # lvl' \<Rightarrow>
                      if opener \<noteq> expected then errorP w (unmatched_message x)
                      else if x = ''}'' \<and> lvl' = [] then retP (acc @ [TStr x])
                      else collect_loop w semi els n lvl' (acc @ [TStr x]))
         else if x = '';'' \<and> lvl = []
         then (let acc' = (if semi then acc @ [TStr x] else acc)
               in bindP (if els then peek_token else retP None) (\<lambda>t.
                    if els \<and> t = Some (TStr ''@else'') then collect_loop w semi els n lvl acc'
                    else retP acc'))
         else collect_loop w semi els n lvl (acc @ [TStr x])
     | Some t \<Rightarrow> thenP (note_line t) (collect_loop w semi els n lvl (acc @ [t])))" for t
    proof (cases t)
      case (TStr x)
      show ?thesis
        unfolding TStr option.case token.case Let_def
        by (cases lvl) (intro bounded_if peek Suc bounded_reads [OF reads_error(1)] bounded_reads [OF reads_ret(1)]
          | simp only: list.case)+
    qed (simp_all only: option.case token.case line)
  qed (simp add: bounded_reads reads_error)
qed (simp add: bounded_def)

lemma collect_tokens_reads [reading]: "reads (collect_tokens w semi els)"
proof -
  have "case collect_tokens w semi els s of Inl (e, _) \<Rightarrow> e \<noteq> OutOfFuel | Inr (_, t) \<Rightarrow> keeps s t" for s
  proof (cases "ps_script s")
    case None
    then show ?thesis by (simp add: collect_tokens_def bindP_def scriptP_def)
  next
    case (Some sc)
    have "bounded False (Suc (script_size sc)) (collect_loop w semi els (Suc (script_size sc)) [] [TLine (sc_line sc)])"
      by (rule collect_loop_bounded)
    with Some show ?thesis
      by (auto simp: collect_tokens_def bindP_def scriptP_def bounded_def left_over_def dest!: spec [of _ s])
  qed
  then show ?thesis by (simp add: reads_def)
qed

section \<open>Properties of the readers\<close>

text \<open>
  C7: Reading a value always ends, at any nesting depth and from either token source: either it
  fails with one of the program's own failures, or it returns having consumed input and changed
  nothing but the token sources (no rule, variable, domain, hook or message).
\<close>

theorem getvalues_consumes:
  "case getvalues w d code o' s of
     Inl (e, _) \<Rightarrow> e \<noteq> OutOfFuel
   | Inr (v, t) \<Rightarrow> same_rules s t \<and> left_over code t < left_over code s"
  using getvalues_eats [of code w d o']
  by (auto simp: eats_def consumes_def keeps_def split: sum.splits dest!: spec [of _ s])

lemma port_chunks_spec:
  assumes "sum_list (map port_weight chunk) = used" and "used \<le> MAX_MULTIPORT_PORTS"
    and "chunk = [] \<Longrightarrow> used = 0"
  shows "concat (port_chunks ps chunk used) = chunk @ ps \<and>
    (\<forall>c \<in> set (port_chunks ps chunk used). c \<noteq> [] \<and> sum_list (map port_weight c) \<le> MAX_MULTIPORT_PORTS)"
  using assms
proof (induction ps chunk used rule: port_chunks.induct)
  case (2 p ps chunk used)
  have small: "port_weight p \<le> 2" "port_weight p \<le> MAX_MULTIPORT_PORTS"
    by (simp_all add: port_weight_def MAX_MULTIPORT_PORTS_def)
  show ?case
  proof (cases "MAX_MULTIPORT_PORTS < used + port_weight p")
    case True
    then have "chunk \<noteq> []" using 2(5) small(2) by auto
    moreover have "concat (port_chunks ps [p] (port_weight p)) = [p] @ ps \<and>
        (\<forall>c \<in> set (port_chunks ps [p] (port_weight p)).
          c \<noteq> [] \<and> sum_list (map port_weight c) \<le> MAX_MULTIPORT_PORTS)"
      by (rule 2(1) [OF True]) (use small in simp_all)
    ultimately show ?thesis using True 2(3,4) by simp
  next
    case False
    show ?thesis
      using 2(2) [OF False] 2(3) False by (simp add: add.commute)
  qed
qed auto

text \<open>
  C17: A \<^verbatim>\<open>multiport\<close> list is split into non-empty chunks that together are the list, in order,
  and none holds more than 15 ports, a range counting as two.
\<close>

theorem port_chunks_capacity:
  "concat (port_chunks ps [] 0) = ps \<and>
   (\<forall>c \<in> set (port_chunks ps [] 0). c \<noteq> [] \<and> sum_list (map port_weight c) \<le> 15)"
  using port_chunks_spec [of "[]" 0 ps] by (simp add: MAX_MULTIPORT_PORTS_def)

text \<open>Fifteen ports, a range among them, need two chunks.\<close>

definition sample_ports :: "string list" where
  "sample_ports = replicate 14 ''22'' @ [''8000:8080'', ''53'']"

lemma port_chunks_capacity_witness:
  "port_chunks sample_ports [] 0 = [replicate 14 ''22'', [''8000:8080'', ''53'']] \<and>
   sum_list (map port_weight (hd (port_chunks sample_ports [] 0))) \<le> 15"
proof
  show chunks: "port_chunks sample_ports [] 0 = [replicate 14 ''22'', [''8000:8080'', ''53'']]" by code_simp
  then have "hd (port_chunks sample_ports [] 0) \<in> set (port_chunks sample_ports [] 0)" by simp
  with port_chunks_capacity [of sample_ports]
  show "sum_list (map port_weight (hd (port_chunks sample_ports [] 0))) \<le> 15" by blast
qed

text \<open>
  \<open>@substr\<close> returns a contiguous piece of its argument, whatever the signs of offset and
  length, and no more characters than a non-negative length asks for.
\<close>

theorem perl_substr_piece:
  "(\<exists>a b. s = a @ perl_substr s offset len @ b) \<and>
   (len < 0 \<or> int (length (perl_substr s offset len)) \<le> len)"
proof -
  define piece where "piece x \<longleftrightarrow> (\<exists>a b. s = a @ x @ b)" for x
  have "piece (take n (drop m s))" for n m
    unfolding piece_def by (metis append_take_drop_id)
  moreover from this [of 0 0] have "piece []" by simp
  moreover have "piece x \<Longrightarrow> piece y \<Longrightarrow> piece (if b then x else y)" for b x y by simp
  ultimately have "piece (perl_substr s offset len)"
    unfolding perl_substr_def Let_def by blast
  then have "\<exists>a b. s = a @ perl_substr s offset len @ b" by (simp add: piece_def)
  moreover have "int (length (perl_substr s offset len)) \<le> len" if "\<not> len < 0"
  proof -
    define short where "short x \<longleftrightarrow> int (length x) \<le> len" for x :: string
    have "B \<le> len \<Longrightarrow> short (take (nat B) xs)" for B xs
      using that by (auto simp: short_def)
    moreover have "max (max st 0) (min (st + len) n) - max st 0 \<le> len" for st n
      using that by linarith
    ultimately have "short (take (nat (max (max st 0) (min (st + len) n) - max st 0)) xs)" for st n xs
      by blast
    moreover have "short []" using that by (simp add: short_def)
    moreover have "short x \<Longrightarrow> short y \<Longrightarrow> short (if b then x else y)" for b x y by simp
    ultimately have "short (perl_substr s offset len)"
      unfolding perl_substr_def Let_def if_not_P [OF that] by blast
    then show ?thesis by (simp add: short_def)
  qed
  ultimately show ?thesis by blast
qed

lemma string_of_nat_length: "n < 10 ^ Suc k \<Longrightarrow> length (string_of_nat n) \<le> Suc k"
proof (induction k arbitrary: n)
  case 0
  then show ?case by (subst string_of_nat.simps) simp
next
  case (Suc k)
  then have "n div 10 < 10 ^ Suc k" by simp
  with Suc.IH show ?case by (subst string_of_nat.simps) simp
qed

lemma py_int_string_of_nat: "n < 10 ^ 20 \<Longrightarrow> py_int (string_of_nat n) = Inr (int n)"
proof -
  assume "n < 10 ^ 20"
  then have "length (string_of_nat n) \<le> 4300"
    using string_of_nat_length [of n 19] by simp
  then have ds: "py_int_digits (string_of_nat n) = Inr n" by (simp add: py_int_digits_def)
  obtain c ds where cds: "string_of_nat n = c # ds" by (cases "string_of_nat n") simp_all
  have "is_digit c" using string_of_nat_digits [of c n] cds by simp
  then have "\<not> is_sign c" by (auto simp: is_sign_def)
  with ds show ?thesis unfolding py_int_def cds by simp
qed

lemma hex_value_bound: "\<forall>c \<in> set s. is_digit c \<or> c \<in> set ''abcdefABCDEF'' \<Longrightarrow> hex_value s < 16 ^ length s"
proof -
  have step: "hex_val c < 16" if "is_digit c \<or> c \<in> set ''abcdefABCDEF''" for c
    using that by (auto simp: hex_val_def char_class_defs)
  assume a: "\<forall>c \<in> set s. is_digit c \<or> c \<in> set ''abcdefABCDEF''"
  have "foldl (\<lambda>n c. n * 16 + hex_val c) m s < (m + 1) * 16 ^ length s" for m
    using a
  proof (induction s arbitrary: m)
    case (Cons c s)
    then have "hex_val c < 16" by (intro step) simp
    have "foldl (\<lambda>n c. n * 16 + hex_val c) (m * 16 + hex_val c) s < (m * 16 + hex_val c + 1) * 16 ^ length s"
      using Cons.prems by (intro Cons.IH) simp
    also have "\<dots> \<le> (m + 1) * 16 * 16 ^ length s"
      using \<open>hex_val c < 16\<close> by (intro mult_le_mono1) simp
    finally show ?case by (simp add: algebra_simps)
  qed simp
  from this [of 0] show ?thesis by (simp add: hex_value_def)
qed

lemma hex4_bound: "is_hex4 s \<Longrightarrow> hex_value s < 65536"
proof -
  assume a: "is_hex4 s"
  then have "hex_value s < 16 ^ length s" by (intro hex_value_bound) (simp add: is_hex4_def)
  also have "\<dots> \<le> (16 :: nat) ^ 4" using a by (intro power_increasing) (simp_all add: is_hex4_def)
  finally show ?thesis by simp
qed

text \<open>
  A cgroup class id the parser stores is the decimal text of an integer from 0 to
  \<^verbatim>\<open>0xFFFFFFFF\<close>; anything else is a located error, or Python's refusal of an over-long numeral.
\<close>

theorem classid_text_range:
  "case classid_text s of
     Inl e \<Rightarrow> e = PyValueError \<or> (\<exists>msg. e = Located msg)
   | Inr t \<Rightarrow> \<exists>n. py_int t = Inr n \<and> 0 \<le> n \<and> n \<le> 0xFFFFFFFF"
proof (cases "classid_pair s")
  case (Some ab)
  obtain a b where ab: "ab = (a, b)" by fastforce
  let ?n = "hex_value a * 2 ^ 16 + hex_value b"
  from Some ab have "is_hex4 a" "is_hex4 b"
    by (auto simp: classid_pair_def Let_def split: if_splits)
  then have "hex_value a < 65536" "hex_value b < 65536" by (simp_all add: hex4_bound)
  then have n: "?n \<le> 0xFFFFFFFF" by simp
  then have "py_int (string_of_nat ?n) = Inr (int ?n)" by (intro py_int_string_of_nat) simp
  with Some ab n show ?thesis
    by (auto simp: classid_text_def Let_def MAX_CLASSID_def)
next
  case None
  then show ?thesis
    by (cases "py_int s") (auto simp: classid_text_def MAX_CLASSID_def dest: py_int_error)
qed

end
