(* ===== verification/Ferm_Parser.thy ===== *)
theory Ferm_Parser
  imports Ferm_Evaluator
begin

text \<open>
  The parser core, \<^verbatim>\<open>src/src/pyferm/parser.py\<close>, up to the dispatch of statements: domain and
  target helpers, keyword and option parsing, rule emission, headers, definitions, function
  calls, preserved chains and the file list of an include. The recursion \<open>enter\<close> and the
  statements that re-enter it are in \<open>Ferm_Walker\<close>.

  \<open>w\<close> is the outside and \<open>opts\<close> the option set. Rules are passed by value: the parser never
  changes a rule it has handed to an inner level.
\<close>

section \<open>Small helpers\<close>

definition MAX_BLOCK_DEPTH :: nat where "MAX_BLOCK_DEPTH = 100"
definition MAX_CHAIN_NAME_LENGTH :: nat where "MAX_CHAIN_NAME_LENGTH = 29"
definition MAX_LOG_PREFIX_LENGTH :: nat where "MAX_LOG_PREFIX_LENGTH = 29"

definition ERR_CHAIN_REQUIRED :: string where
  "ERR_CHAIN_REQUIRED = ''Chain must be specified''"

definition ERR_ACTION_ALREADY_SET :: string where
  "ERR_ACTION_ALREADY_SET = ''There can only one action per rule''"

text \<open>The text of a value inside a format string.\<close>

fun py_str :: "world \<Rightarrow> cfg_value \<Rightarrow> string" where
  "py_str w VNone = ''None''"
| "py_str w (VStr s) = s"
| "py_str w v = w_repr w v"

definition quote :: "string \<Rightarrow> string" where
  "quote s = [SQUOTE] @ s @ [SQUOTE]"

definition dquote :: "string \<Rightarrow> string" where
  "dquote s = [DQUOTE] @ s @ [DQUOTE]"

definition stringifyP :: "world \<Rightarrow> cfg_value \<Rightarrow> string" where
  "stringifyP w v = stringify (w_repr w) v"

definition token_value :: "token option \<Rightarrow> cfg_value" where
  "token_value t = (case t of Some (TStr x) \<Rightarrow> VStr x | Some (TVal v) \<Rightarrow> v | _ \<Rightarrow> VNone)"

definition check_chain_name :: "world \<Rightarrow> string \<Rightarrow> unit pm" where
  "check_chain_name w name =
     whenP (MAX_CHAIN_NAME_LENGTH < length name)
       (errorP w (''Chain name too long, must be '' @ string_of_nat MAX_CHAIN_NAME_LENGTH @
                  '' characters or less: '' @ name))"

definition domain_key :: "cfg_value \<Rightarrow> family res" where
  "domain_key v = (case v of VStr s \<Rightarrow> family_from_name s | _ \<Rightarrow> Inl internal_error_default)"

definition domain_keyP :: "world \<Rightarrow> cfg_value \<Rightarrow> family pm" where
  "domain_keyP w v = liftP w (domain_key v)"

definition new_levelP :: "rule option \<Rightarrow> rule pm" where
  "new_levelP prev = (\<lambda>s. case new_level prev (ps_kw s) of (r, ks) \<Rightarrow> Inr (r, s\<lparr>ps_kw := ks\<rparr>))"

definition mergeP :: "rule \<Rightarrow> (string, keyword) dict \<Rightarrow> string option \<Rightarrow> rule pm" where
  "mergeP r kws module =
     (\<lambda>s. case merge_keywords r kws module (ps_kw s) of (r', ks) \<Rightarrow> Inr (r', s\<lparr>ps_kw := ks\<rparr>))"

definition scopeP :: "(scope \<Rightarrow> scope) \<Rightarrow> unit pm" where
  "scopeP f = modP (\<lambda>s. s\<lparr>ps_scope := f (ps_scope s)\<rparr>)"

definition position :: "source_position pm" where
  "position = bindP scriptP (\<lambda>sc. retP (sc_filename sc, sc_line sc))"

section \<open>Files to include\<close>

definition dpkg_backup :: "string \<Rightarrow> bool" where
  "dpkg_backup name =
     (let n = (if name \<noteq> [] \<and> last name = NL then butlast name else name)
      in \<exists>x \<in> set [''old'', ''dist'', ''new'', ''tmp'']. ends_with (''.dpkg-'' @ x) n \<or>
           ends_with (''.dpkg-'' @ x) name)"

definition abs_or_pipe :: "string \<Rightarrow> bool" where
  "abs_or_pipe p \<longleftrightarrow> starts_with ''/'' p \<or> ends_with ''|'' p \<or> ends_with [CHR ''|'', NL] p"

text \<open>The regular files of a directory that are no backups, in order.\<close>

definition directory_files :: "world \<Rightarrow> string \<Rightarrow> string list res" where
  "directory_files w dir =
     (if \<not> w_is_dir w dir then Inl (Located (quote dir @ '' is not a directory''))
      else case w_listdir w dir of
             Inl e \<Rightarrow> Inl (Located (''Failed to open directory '' @ quote dir @ '': '' @ e))
           | Inr names \<Rightarrow>
               Inr (filter (w_is_file w) (map (\<lambda>n. dir @ n)
                 (filter (\<lambda>n. \<not> dpkg_backup n \<and> \<not> starts_with ''.'' n \<and> \<not> ends_with ''~'' n) (sort names)))))"

definition include_path :: "world \<Rightarrow> string \<Rightarrow> string \<Rightarrow> string list res" where
  "include_path w dir raw =
     (let p = (if abs_or_pipe raw then raw else dir @ raw)
      in if ends_with ''/'' p then directory_files w p
         else if ends_with ''|'' p then Inr [p]
         else if starts_with ''|'' p then Inl (Located ''This kind of pipe is not allowed'')
         else if w_is_dir w p
         then Inl (Located (quote p @ '' is a directory; maybe use trailing '' @ quote ''/'' @
                            '' to include a directory?''))
         else if \<not> w_is_file w p then Inl (Located (quote p @ '' is not a file''))
         else Inr [p])"

definition collect_filenames :: "world \<Rightarrow> string \<Rightarrow> cfg_value list \<Rightarrow> string list res" where
  "collect_filenames w parent pathnames =
     bindR (mapR (\<lambda>v. include_path w (parent_directory parent) (stringifyP w v)) pathnames)
       (\<lambda>fss. Inr (concat fss))"

section \<open>Domains and targets\<close>

text \<open>A failure to initialize the family is reported at its place in the input.\<close>

definition init_domain :: "world \<Rightarrow> options \<Rightarrow> cfg_value \<Rightarrow> unit pm" where
  "init_domain w opts v =
     (\<lambda>s. case bindR (domain_key v) (\<lambda>fam. initialize_domain (w_seams w) opts fam (ps_domains s)) of
            Inr (ds, ls) \<Rightarrow> Inr ((), s\<lparr>ps_domains := ds, ps_lines := ps_lines s @ ls\<rparr>)
          | Inl (Died m) \<Rightarrow> errorP w (m @ [NL]) s
          | Inl (Located m) \<Rightarrow> errorP w (m @ [NL]) s
          | Inl e \<Rightarrow> failP e s)"

definition check_domain :: "world \<Rightarrow> options \<Rightarrow> cfg_value \<Rightarrow> bool pm" where
  "check_domain w opts v =
     (case opt_domain opts of
        Some d \<Rightarrow> if v \<noteq> VStr d then retP False else thenP (init_domain w opts v) (retP True)
      | None \<Rightarrow> thenP (init_domain w opts v) (retP True))"

fun ip_family :: "cfg_value \<Rightarrow> bool" where
  "ip_family (VStr d) = (d = ''ip'' \<or> d = ''ip6'')"
| "ip_family _ = False"

definition domain_family_of :: "world \<Rightarrow> cfg_value \<Rightarrow> string res" where
  "domain_family_of w v =
     (case v of
        VList ds \<Rightarrow>
          if ds = [] then Inr ''none''
          else if \<exists>d \<in> set ds. \<not> ip_family d then Inl (Located ''Cannot combine non-IP domains'')
          else Inr ''ip''
      | _ \<Rightarrow>
          if v = VStr ''ip6'' then Inr ''ip''
          else bindR (family_from_name (stringifyP w v)) (\<lambda>fam. Inr (family_name fam)))"

text \<open>The base keywords of a family, shared until the rule changes them.\<close>

definition base_keywordsP :: "rule \<Rightarrow> string \<Rightarrow> rule pm" where
  "base_keywordsP r fam =
     (\<lambda>s. let base = (case registry_get MATCH_DEFS fam [] of None \<Rightarrow> [] | Some m \<Rightarrow> md_keywords m)
          in Inr (r\<lparr>ru_kw := length (ps_kw s), ru_cow := True\<rparr>,
                  s\<lparr>ps_kw := ps_kw s @ [\<lparr>ke_keywords = base, ke_module = []\<rparr>]\<rparr>))"

definition set_domain :: "world \<Rightarrow> options \<Rightarrow> rule \<Rightarrow> cfg_value \<Rightarrow> (bool \<times> rule) pm" where
  "set_domain w opts r v =
     bindP (check_domain w opts v) (\<lambda>ok.
       if \<not> ok then retP (False, r)
       else bindP (liftP w (domain_family_of w v)) (\<lambda>fam.
            bindP (base_keywordsP (r\<lparr>ru_domain_family := Some fam\<rparr>) fam) (\<lambda>r'.
            thenP (scopeP (set_auto ''DOMAIN'' v)) (retP (True, r'\<lparr>ru_domain := v\<rparr>)))))"

definition set_target :: "world \<Rightarrow> rule \<Rightarrow> string \<Rightarrow> cfg_value \<Rightarrow> rule pm" where
  "set_target w r name v =
     (if ru_has_action r then errorP w ERR_ACTION_ALREADY_SET
      else append_optionP (r\<lparr>ru_has_action := True\<rparr>) name v None)"

definition require_tcp :: "world \<Rightarrow> rule \<Rightarrow> rule pm" where
  "require_tcp w r =
     bindP (realize_protocol r) (\<lambda>(protos, r').
       if protos = VNone then errorP w ''No protocol specified before TCPMSS''
       else bindP (liftP w (to_array protos)) (\<lambda>ps.
            thenP (forP (\<lambda>p. whenP (p \<noteq> VStr ''tcp'')
              (errorP w (''TCPMSS not available for protocol '' @ dquote (py_str w p)))) ps)
            (retP r')))"

definition set_module_target :: "world \<Rightarrow> rule \<Rightarrow> string \<Rightarrow> moddef \<Rightarrow> rule pm" where
  "set_module_target w r name defs =
     bindP (if name = ''TCPMSS'' then require_tcp w r else retP r) (\<lambda>r1.
     let target = (if name = ''MARK'' \<and> ru_domain_family r1 = Some ''eb'' then ''mark'' else name)
     in bindP (set_target w r1 ''jump'' (VStr target)) (\<lambda>r2.
        mergeP r2 (md_keywords defs) (Some target)))"

definition family_or_empty :: "rule \<Rightarrow> string" where
  "family_or_empty r = (case ru_domain_family r of None \<Rightarrow> [] | Some f \<Rightarrow> f)"

definition load_match_module :: "rule \<Rightarrow> string \<Rightarrow> rule pm" where
  "load_match_module r module =
     bindP (append_optionP r ''match'' (VStr module) None) (\<lambda>r1.
     let r2 = r1\<lparr>ru_match := insert module (ru_match r1)\<rparr>
     in case registry_get MATCH_DEFS (family_or_empty r) module of
          None \<Rightarrow> retP r2
        | Some m \<Rightarrow> mergeP r2 (md_keywords m) (Some module))"

fun load_modules :: "world \<Rightarrow> cfg_value list \<Rightarrow> rule \<Rightarrow> rule pm" where
  "load_modules w [] r = retP r"
| "load_modules w (v # vs) r =
     (if stringifyP w v \<in> ru_match r then load_modules w vs r
      else bindP (load_match_module r (stringifyP w v)) (load_modules w vs))"

definition load_match_modules :: "world \<Rightarrow> rule \<Rightarrow> rule pm" where
  "load_match_modules w r =
     bindP (get_value w plain_opts) (\<lambda>v.
     bindP (liftP w (to_array v)) (\<lambda>vs. load_modules w vs r))"

definition resolve_shortcut :: "rule \<Rightarrow> string \<Rightarrow> (string \<times> rule) pm" where
  "resolve_shortcut r keyword =
     (case dict_get (case dict_get SHORTCUTS (family_or_empty r) of None \<Rightarrow> [] | Some d \<Rightarrow> d) keyword of
        None \<Rightarrow> retP (keyword, r)
      | Some (module, name) \<Rightarrow> bindP (load_match_module r module) (\<lambda>r'. retP (name, r')))"

section \<open>Keywords and options\<close>

text \<open>A value, the rule, and whether a leading negation is still unused.\<close>

definition call_param_function :: "world \<Rightarrow> string \<Rightarrow> rule \<Rightarrow> (cfg_value \<times> rule) pm" where
  "call_param_function w name r =
     (if name = ''address_magic'' then bindP (address_magic w r) (\<lambda>v. retP (v, r))
      else if name = ''cgroup_classid'' then bindP (cgroup_classid w) (\<lambda>v. retP (v, r))
      else if name = ''multiport_params'' then multiport_params w r
      else failP internal_error_default)"

definition maybe_consume_negation :: "world \<Rightarrow> keyword \<Rightarrow> bool \<Rightarrow> bool pm" where
  "maybe_consume_negation w kw neg =
     (if kw_negation kw \<and> \<not> neg
      then bindP peek_token (\<lambda>t.
           if t = Some (TStr ''!'') then thenP (require_next_token w False) (retP True) else retP neg)
      else retP neg)"

definition getvar_family_filtered :: "world \<Rightarrow> rule \<Rightarrow> cfg_value pm" where
  "getvar_family_filtered w r =
     bindP (getvar w) (\<lambda>v.
       case v of
         VSetRef name es \<Rightarrow>
           if ru_domain_both r
           then (let fam = text_of (ru_domain r)
                 in bindP (liftP w (bindR (realize_deferred (w_call w) fam es)
                                     (\<lambda>ips. ipfilter (w_repr w) fam (VList ips))))
                      (\<lambda>es'. retP (VSetRef name es')))
           else retP v
       | _ \<Rightarrow> retP v)"

definition non_empty_opts :: gopts where
  "non_empty_opts = plain_opts\<lparr>go_non_empty := True\<rparr>"

definition coded_param :: "world \<Rightarrow> rule \<Rightarrow> char \<Rightarrow> cfg_value pm" where
  "coded_param w r c =
     (if c = CHR ''s'' then getvar_family_filtered w r
      else if c = CHR ''c''
      then bindP (get_value w non_empty_opts) (\<lambda>v.
           bindP (liftP w (to_array v)) (\<lambda>vs. retP (VStr (join_str '','' (map (stringifyP w) vs)))))
      else failP internal_error_default)"

definition truncate_log_prefix :: "keyword \<Rightarrow> cfg_value \<Rightarrow> cfg_value pm" where
  "truncate_log_prefix kw v =
     (case v of
        VStr x \<Rightarrow>
          if kw_name kw = ''log-prefix'' \<and> MAX_LOG_PREFIX_LENGTH < length x
          then (let short = take MAX_LOG_PREFIX_LENGTH x
                in thenP (warningP (''log-prefix is too long; truncating to '' @
                            string_of_nat MAX_LOG_PREFIX_LENGTH @ '' characters: '' @ quote short))
                   (retP (VStr short)))
          else retP v
      | _ \<Rightarrow> retP v)"

text \<open>The argument proper: its value, the rule, and the negation taken by then.\<close>

definition keyword_argument :: "world \<Rightarrow> rule \<Rightarrow> keyword \<Rightarrow> bool \<Rightarrow> (cfg_value \<times> rule \<times> bool) pm" where
  "keyword_argument w r kw neg =
     (case kw_params kw of
        PNone \<Rightarrow> retP (VNone, r, neg)
      | PFun name \<Rightarrow> bindP (call_param_function w name r) (\<lambda>(v, r'). retP (v, r', neg))
      | PCodes codes \<Rightarrow>
          if codes = ''m''
          then bindP (getP (\<lambda>s. case dict_get (top_auto (ps_scope s)) ''DOMAIN'' of
                                  None \<Rightarrow> [] | Some d \<Rightarrow> text_of d)) (\<lambda>fam.
               bindP (get_value w plain_opts) (\<lambda>v.
               bindP (liftP w (bindR (to_array v) (realize_deferred (w_call w) fam))) (\<lambda>vs.
               retP (VMulti vs, r, neg))))
          else if codes \<noteq> [] \<and> is_lower (hd codes)
          then bindP (maybe_consume_negation w kw neg) (\<lambda>neg'.
               bindP (mapP (coded_param w r) codes) (\<lambda>vs.
               retP (case vs of [v] \<Rightarrow> v | _ \<Rightarrow> VParams vs, r, neg')))
          else failP PyValueError
      | PInt n \<Rightarrow>
          bindP (maybe_consume_negation w kw neg) (\<lambda>neg'.
            if n = 1
            then bindP (get_value w plain_opts) (\<lambda>v.
                 bindP (truncate_log_prefix kw v) (\<lambda>v'. retP (v', r, neg')))
            else bindP (mapP (\<lambda>_. getvar w) [0..<n]) (\<lambda>vs. retP (VParams vs, r, neg'))))"

definition parse_keyword :: "world \<Rightarrow> rule \<Rightarrow> keyword \<Rightarrow> bool \<Rightarrow> (cfg_value \<times> rule \<times> bool) pm" where
  "parse_keyword w r kw negated =
     (let taken = (negated \<and> kw_pre_negation kw)
      in bindP (keyword_argument w r kw taken) (\<lambda>(v, r', neg).
         bindP (if neg then liftP w (negate_value v (kw_pre_negation kw) False) else retP v) (\<lambda>v'.
         retP (v', r', negated \<and> \<not> taken))))"

definition parse_option :: "world \<Rightarrow> keyword \<Rightarrow> rule \<Rightarrow> bool \<Rightarrow> (rule \<times> bool) pm" where
  "parse_option w kw r negated =
     bindP (parse_keyword w r kw negated) (\<lambda>(v, r', neg).
     bindP (getP (\<lambda>s. dict_get (rule_keyword_module r' (ps_kw s)) (kw_name kw))) (\<lambda>module.
     bindP (append_optionP r' (kw_name kw) v module) (\<lambda>r''. retP (r'', neg))))"

section \<open>The tables and chains of a rule\<close>

definition modify_domain :: "family \<Rightarrow> (domain_info \<Rightarrow> domain_info) \<Rightarrow> unit pm" where
  "modify_domain fam f =
     (\<lambda>s. case dict_get (ps_domains s) fam of
            None \<Rightarrow> failP PyKeyError s
          | Some di \<Rightarrow> Inr ((), s\<lparr>ps_domains := dict_set fam (f di) (ps_domains s)\<rparr>))"

definition modify_table :: "family \<Rightarrow> string \<Rightarrow> (table_info \<Rightarrow> table_info) \<Rightarrow> unit pm" where
  "modify_table fam t f =
     modify_domain fam (\<lambda>di.
       let ti = (case dict_get (di_tables di) t of None \<Rightarrow> new_table | Some x \<Rightarrow> x)
       in di\<lparr>di_tables := dict_set t (f ti) (di_tables di)\<rparr>)"

definition modify_chain :: "family \<Rightarrow> string \<Rightarrow> string \<Rightarrow> (chain_info \<Rightarrow> chain_info) \<Rightarrow> unit pm" where
  "modify_chain fam t c f =
     modify_table fam t (\<lambda>ti.
       let ci = (case dict_get (ti_chains ti) c of None \<Rightarrow> new_chain | Some x \<Rightarrow> x)
       in ti\<lparr>ti_chains := dict_set c (f ci) (ti_chains ti)\<rparr>)"

definition table_of :: "domains \<Rightarrow> family \<Rightarrow> string \<Rightarrow> table_info" where
  "table_of ds fam t =
     (case dict_get ds fam of
        None \<Rightarrow> new_table
      | Some di \<Rightarrow> (case dict_get (di_tables di) t of None \<Rightarrow> new_table | Some ti \<Rightarrow> ti))"

definition chain_of :: "domains \<Rightarrow> family \<Rightarrow> string \<Rightarrow> string \<Rightarrow> chain_info" where
  "chain_of ds fam t c =
     (case dict_get (ti_chains (table_of ds fam t)) c of None \<Rightarrow> new_chain | Some ci \<Rightarrow> ci)"

text \<open>Run \<open>f\<close> on every (table, chain) of the rule, each entry created just before.\<close>

fun foldP :: "('x \<Rightarrow> 'a \<Rightarrow> 'a pm) \<Rightarrow> 'x list \<Rightarrow> 'a \<Rightarrow> 'a pm" where
  "foldP f [] a = retP a"
| "foldP f (x # xs) a = bindP (f x a) (foldP f xs)"

definition walk_chains ::
  "world \<Rightarrow> rule \<Rightarrow> bool \<Rightarrow> (family \<Rightarrow> string \<Rightarrow> string \<Rightarrow> 'a \<Rightarrow> 'a pm) \<Rightarrow> 'a \<Rightarrow> 'a pm" where
  "walk_chains w r enable f a =
     bindP (domain_keyP w (ru_domain r)) (\<lambda>fam.
     thenP (whenP enable (modify_domain fam (\<lambda>di. di\<lparr>di_enabled := True\<rparr>)))
     (bindP (liftP w (to_array (ru_table r))) (\<lambda>tables.
      foldP (\<lambda>tv a.
        let t = stringifyP w tv
        in thenP (modify_table fam t (\<lambda>ti. ti))
           (bindP (liftP w (to_array (ru_chain r))) (\<lambda>cvs.
            foldP (\<lambda>cv a.
              let c = stringifyP w cv
              in thenP (modify_chain fam t c (\<lambda>ci. ci)) (f fam t c a)) cvs a))) tables a)))"

section \<open>Emitting a rule\<close>

text \<open>
  \<^verbatim>\<open>_expand_setrefs_for_iptables\<close> assigns to the option objects, which the rules of outer and
  inner levels share.
\<close>

fun expand_setrefs :: "world \<Rightarrow> nat list \<Rightarrow> unit pm" where
  "expand_setrefs w [] = retP ()"
| "expand_setrefs w (i # is) =
     bindP (getP (\<lambda>s. op_value (ps_cells s ! i))) (\<lambda>v.
     thenP
       (case v of
          VSetRef name es \<Rightarrow> modP (\<lambda>s. s\<lparr>ps_cells := (ps_cells s)[i := (ps_cells s ! i)\<lparr>op_value := VList es\<rparr>]\<rparr>)
        | _ \<Rightarrow> whenP (iter_setrefs v \<noteq> [])
                 (errorP w ''@set cannot back an ipset name under the iptables backend''))
       (expand_setrefs w is))"

definition count_setrefs :: "rule \<Rightarrow> cells \<Rightarrow> nat" where
  "count_setrefs r cs = sum_list (map (\<lambda>i. length (iter_setrefs (op_value (cs ! i)))) (ru_options r))"

definition expand_setrefs_for_iptables :: "world \<Rightarrow> rule \<Rightarrow> unit pm" where
  "expand_setrefs_for_iptables w r =
     bindP (getP (\<lambda>s. count_setrefs r (ps_cells s))) (\<lambda>n.
     thenP (whenP (1 < n) (errorP w ''at most one named set per rule in this version''))
       (expand_setrefs w (ru_options r)))"

definition emit_rule :: "world \<Rightarrow> rule \<Rightarrow> family \<Rightarrow> string \<Rightarrow> string \<Rightarrow> unit pm" where
  "emit_rule w r fam t c =
     bindP (getP (\<lambda>s. (ci_rules (chain_of (ps_domains s) fam t c), ps_cells s))) (\<lambda>(out, cs).
     bindP (liftP w (mkrules2 (w_call w) (family_name fam) out r cs)) (\<lambda>(out', cs').
     thenP (modP (\<lambda>s. s\<lparr>ps_cells := cs'\<rparr>))
       (modify_chain fam t c (\<lambda>ci. ci\<lparr>ci_rules := out'\<rparr>))))"

definition mkrules :: "world \<Rightarrow> options \<Rightarrow> rule \<Rightarrow> unit pm" where
  "mkrules w opts r =
     bindP (domain_keyP w (ru_domain r)) (\<lambda>_.
     thenP (whenP (\<not> opt_nft opts) (expand_setrefs_for_iptables w r))
       (walk_chains w r True (\<lambda>fam t c _.
          whenP (ru_has_rule r \<and> \<not> opt_flush opts) (emit_rule w r fam t c)) ()))"

section \<open>Definitions\<close>

definition require_name :: "world \<Rightarrow> string \<Rightarrow> string pm" where
  "require_name w msg =
     bindP (require_next_token w False) (\<lambda>t.
       case t of TStr x \<Rightarrow> if name_match x then retP x else errorP w msg | _ \<Rightarrow> errorP w msg)"

primrec def_params_loop :: "world \<Rightarrow> nat \<Rightarrow> string list \<Rightarrow> string list pm" where
  "def_params_loop w 0 ps = failP OutOfFuel"
| "def_params_loop w (Suc n) ps =
     bindP (require_next_token w False) (\<lambda>t.
       if t = TStr '')'' then retP ps
       else bindP
              (if ps = [] then retP t
               else if t \<noteq> TStr '','' then errorP w (dquote '','' @ '' expected'')
               else require_next_token w False) (\<lambda>t'.
            if t' \<noteq> TStr ''$'' then errorP w (dquote ''$'' @ '' and parameter name expected'')
            else bindP (require_name w ''invalid function parameter name'') (\<lambda>name.
                 def_params_loop w n (ps @ [name]))))"

definition def_variable :: "world \<Rightarrow> unit pm" where
  "def_variable w =
     bindP (require_name w ''invalid variable name'') (\<lambda>name.
     thenP (expect_token w ''='' None)
     (bindP (get_value w negation_opts) (\<lambda>v.
     thenP (expect_token w '';'' None)
     (bindP (getP (\<lambda>s. global_has_var (ps_scope s) name)) (\<lambda>known.
      whenP (\<not> known) (scopeP (set_top_var name v)))))))"

definition def_function :: "world \<Rightarrow> unit pm" where
  "def_function w =
     bindP (require_name w ''invalid function name'') (\<lambda>name.
     thenP (expect_token w ''('' (Some (''function parameter list or '' @ dquote ''()'' @ '' expected'')))
     (bindP (getP (\<lambda>s. Suc (left_over False s))) (\<lambda>n.
      bindP (def_params_loop w n []) (\<lambda>params.
      thenP (expect_token w ''='' None)
      (bindP (collect_tokens w False False) (\<lambda>toks.
       bindP (getP (\<lambda>s. global_has_function (ps_scope s) name)) (\<lambda>known.
       whenP (\<not> known)
         (scopeP (set_top_function name
            \<lparr>fn_params = params, fn_tokens = toks, fn_block = (TStr ''{'' \<in> set toks)\<rparr>)))))))))"

definition parse_def :: "world \<Rightarrow> rule \<Rightarrow> unit pm" where
  "parse_def w r =
     (if ru_non_empty r then errorP w (dquote ''def'' @ '' must be the first token in a command'')
      else bindP (require_next_token w False) (\<lambda>kind.
           if kind = TStr ''$'' then def_variable w
           else if kind = TStr ''&'' then def_function w
           else errorP w (dquote ''$'' @ '' (variable) or '' @ dquote ''&'' @ '' (function) expected'')))"

text \<open>\<^verbatim>\<open>\A[A-Za-z][A-Za-z0-9_]*\Z\<close>\<close>

definition nft_set_name :: "string \<Rightarrow> bool" where
  "nft_set_name s \<longleftrightarrow> s \<noteq> [] \<and> is_alpha (hd s) \<and> (\<forall>c \<in> set s. is_word c)"

definition set_elements :: "cfg_value \<Rightarrow> cfg_value list res" where
  "set_elements v =
     (if contains_deferred [v] then Inl (Located ''deferred values are not allowed in a named set'')
      else let es = flatten [v]
           in if \<exists>e \<in> set es. is_setref e
              then Inl (Located ''a named set cannot contain another named set'')
              else Inr es)"

definition parse_set :: "world \<Rightarrow> rule \<Rightarrow> unit pm" where
  "parse_set w r =
     (if ru_non_empty r then errorP w (dquote ''set'' @ '' must be the first token in a command'')
      else bindP (require_next_token w False) (\<lambda>kind.
           if kind \<noteq> TStr ''$'' then errorP w (dquote ''$'' @ '' and set name expected'')
           else bindP (require_name w ''invalid set name'') (\<lambda>name.
                if \<not> nft_set_name name
                then errorP w (''invalid nft set name '' @ quote name @ '': must be a letter-led identifier'')
                else thenP (expect_token w ''='' None)
                     (bindP (get_value w plain_opts) (\<lambda>v.
                      thenP (expect_token w '';'' None)
                      (bindP (liftP w (set_elements v)) (\<lambda>es.
                       bindP (getP (\<lambda>s. global_has_var (ps_scope s) name)) (\<lambda>known.
                       whenP (\<not> known) (scopeP (set_top_var name (VSetRef name es)))))))))))"

section \<open>Function calls\<close>

definition interpolate_params :: "world \<Rightarrow> (string, cfg_value) dict \<Rightarrow> string \<Rightarrow> string" where
  "interpolate_params w vars x =
     concat (map (\<lambda>piece.
       case piece of
         Inl c \<Rightarrow> [c]
       | Inr name \<Rightarrow>
           (case dict_get vars name of
              Some v \<Rightarrow> stringifyP w v
            | None \<Rightarrow> CHR ''$'' # name)) (dvar_split x))"

definition body_token :: "world \<Rightarrow> (string, cfg_value) dict \<Rightarrow> token \<Rightarrow> token" where
  "body_token w vars t =
     (case t of
        TStr x \<Rightarrow> if quoted_inside DQUOTE x \<noteq> None then TStr (interpolate_params w vars x) else t
      | _ \<Rightarrow> t)"

text \<open>The body with \<open>$param\<close> replaced by the argument in parentheses.\<close>

fun expand_body :: "world \<Rightarrow> (string, cfg_value) dict \<Rightarrow> token list \<Rightarrow> token list res" where
  "expand_body w vars [] = Inr []"
| "expand_body w vars [t] = Inr [body_token w vars t]"
| "expand_body w vars (t # u # ts) =
     (case (t = TStr ''$'', u) of
        (True, TStr name) \<Rightarrow>
          (case dict_get vars name of
             Some v \<Rightarrow>
               bindR (to_array v) (\<lambda>vs.
               bindR (expand_body w vars ts) (\<lambda>rest.
               Inr (TStr ''('' # map token_of_value vs @ TStr '')'' # rest)))
           | None \<Rightarrow> bindR (expand_body w vars (u # ts)) (\<lambda>rest. Inr (body_token w vars t # rest)))
      | _ \<Rightarrow> bindR (expand_body w vars (u # ts)) (\<lambda>rest. Inr (body_token w vars t # rest)))"

definition push_tokens :: "token list \<Rightarrow> unit pm" where
  "push_tokens ts =
     bindP scriptP (\<lambda>sc. set_scriptP (sc\<lparr>sc_tokens := ts @ sc_tokens sc\<rparr>))"

definition bind_params :: "string list \<Rightarrow> cfg_value list \<Rightarrow> (string, cfg_value) dict" where
  "bind_params names vs = fold (\<lambda>(n, v). dict_set n v) (zip names vs) []"

definition call_function :: "world \<Rightarrow> unit pm" where
  "call_function w =
     bindP scriptP (\<lambda>sc.
     bindP (require_name w ''function name expected'') (\<lambda>name.
     bindP (lookup_function name) (\<lambda>found.
       case found of
         None \<Rightarrow> errorP w (''no such function: &'' @ name)
       | Some fn \<Rightarrow>
           bindP (call_params w True) (\<lambda>args.
             if length args \<noteq> length (fn_params fn)
             then errorP w (''Wrong number of parameters for function '' @ quote (CHR ''&'' # name) @ '': '' @
                            string_of_nat (length (fn_params fn)) @ '' expected, '' @
                            string_of_nat (length args) @ '' given'')
             else thenP (whenP (fn_block fn) (expect_token w '';'' None))
                  (bindP (liftP w (expand_body w (bind_params (fn_params fn) args) (fn_tokens fn))) (\<lambda>body.
                   push_tokens (body @ [TLine (sc_line sc)])))))))"

section \<open>Preserved chains, hooks and protocols\<close>

text \<open>\<^verbatim>\<open>/(.+)/\<close>\<close>

definition preserve_regex :: "string \<Rightarrow> string option" where
  "preserve_regex name =
     (let inner = butlast (tl name)
      in if 3 \<le> length name \<and> hd name = CHR ''/'' \<and> last name = CHR ''/'' \<and> NL \<notin> set inner
         then Some inner else None)"

definition preserve_chain :: "world \<Rightarrow> family \<Rightarrow> string \<Rightarrow> string \<Rightarrow> unit pm" where
  "preserve_chain w fam t c =
     bindP (getP (\<lambda>s. ci_rules (chain_of (ps_domains s) fam t c))) (\<lambda>rules.
       if rules \<noteq> [] then errorP w (''Cannot @preserve chain '' @ c @ '' because it is not empty'')
       else case preserve_regex c of
              Some p \<Rightarrow>
                if \<not> w_regex_ok w p then failP PyRegexError
                else modify_table fam t (\<lambda>ti.
                       ti\<lparr>ti_preserve_regexes := ti_preserve_regexes ti @ [p],
                          ti_chains := dict_del c (ti_chains ti)\<rparr>)
            | None \<Rightarrow> modify_chain fam t c (\<lambda>ci. ci\<lparr>ci_preserve := True\<rparr>))"

definition parse_preserve :: "world \<Rightarrow> options \<Rightarrow> rule \<Rightarrow> unit pm" where
  "parse_preserve w opts r =
     (if \<not> opt_fast opts then errorP w ''@preserve not implemented for --slow mode''
      else if ru_chain r = VNone then errorP w ''@preserve without chain''
      else if ru_has_rule r then errorP w ''Cannot specify matches for @preserve''
      else thenP (expect_token w '';'' None)
           (bindP (domain_keyP w (ru_domain r)) (\<lambda>fam.
            bindP (getP (\<lambda>s. dict_get (ps_domains s) fam)) (\<lambda>di.
              case di of
                None \<Rightarrow> failP PyKeyError
              | Some d \<Rightarrow>
                  if \<not> opt_test opts \<and> di_previous d = None
                  then errorP w (''@preserve not supported on domain '' @ family_name fam)
                  else walk_chains w r False (\<lambda>fam t c _. preserve_chain w fam t c) ()))))"

definition parse_hook :: "world \<Rightarrow> rule \<Rightarrow> unit pm" where
  "parse_hook w r =
     (if ru_domain r \<noteq> VNone then errorP w (dquote ''hook'' @ '' must be the first token in a command'')
      else bindP (getvar w) (\<lambda>pos.
           if pos \<noteq> VStr ''pre'' \<and> pos \<noteq> VStr ''post'' \<and> pos \<noteq> VStr ''flush''
           then errorP w (''Invalid hook position: '' @ quote (py_str w pos))
           else bindP (getvar w) (\<lambda>cmd.
                let x = stringifyP w cmd
                in thenP (modP (\<lambda>s.
                     if pos = VStr ''pre'' then s\<lparr>ps_pre_hooks := ps_pre_hooks s @ [x]\<rparr>
                     else if pos = VStr ''post'' then s\<lparr>ps_post_hooks := ps_post_hooks s @ [x]\<rparr>
                     else s\<lparr>ps_flush_hooks := ps_flush_hooks s @ [x]\<rparr>))
                   (expect_token w '';'' None))))"

definition protocol_keyword :: keyword where
  "protocol_keyword =
     \<lparr>kw_name = [], kw_params = PInt 1, kw_negation = True, kw_pre_negation = False, kw_ferm_name = None\<rparr>"

definition merge_protocol :: "rule \<Rightarrow> string \<Rightarrow> rule pm" where
  "merge_protocol r protocol =
     (let canonical = netfilter_canonical_protocol protocol
      in case registry_get PROTO_DEFS (family_or_empty r) canonical of
           None \<Rightarrow> retP r
         | Some m \<Rightarrow>
             (let module = netfilter_protocol_module (Some canonical)
              in bindP (mergeP r (md_keywords m) module) (\<lambda>r'.
                 retP (case module of None \<Rightarrow> r' | Some x \<Rightarrow> r'\<lparr>ru_match := insert x (ru_match r')\<rparr>))))"

definition parse_protocol :: "world \<Rightarrow> rule \<Rightarrow> bool \<Rightarrow> (rule \<times> bool) pm" where
  "parse_protocol w r negated =
     bindP (parse_keyword w r protocol_keyword negated) (\<lambda>(v, r1, neg).
     bindP (append_optionP (r1\<lparr>ru_auto_protocol := VNone, ru_protocol := v\<rparr>) ''protocol'' v None) (\<lambda>r2.
     bindP (case v of VStr p \<Rightarrow> merge_protocol r2 p | _ \<Rightarrow> retP r2) (\<lambda>r3.
     retP (r3, neg))))"

definition port_protocol :: "cfg_value list \<Rightarrow> bool" where
  "port_protocol ps \<longleftrightarrow> (\<exists>p \<in> set ps. case p of VStr x \<Rightarrow> x \<in> set PORT_PROTOCOLS | _ \<Rightarrow> False)"

definition ports_message :: string where
  "ports_message =
     ''To use sport or dport, you have to specify '' @ dquote ''proto tcp'' @ '' or '' @
     dquote ''proto udp'' @ '' first''"

definition leaf_ports :: "world \<Rightarrow> rule \<Rightarrow> string \<Rightarrow> rule pm" where
  "leaf_ports w r keyword =
     bindP (realize_protocol r) (\<lambda>(proto, r').
     bindP (if proto = VNone then retP [] else liftP w (to_array proto)) (\<lambda>ps.
       if proto = VNone \<or> \<not> port_protocol ps then errorP w ports_message
       else bindP (get_value w negation_opts) (\<lambda>v. append_optionP r' keyword v None)))"

end
