(* ===== verification/Ferm_Walker.thy ===== *)
theory Ferm_Walker
  imports Ferm_Parser
begin

text \<open>
  The recursion of the parser: \<^verbatim>\<open>Parser.enter\<close> with its headers, array replays, sub-chains and
  includes (\<^verbatim>\<open>src/src/pyferm/parser.py\<close>) and the statement visitors of
  \<^verbatim>\<open>src/src/pyferm/walker.py\<close>.

  \<open>enter w opts F d\<close> parses one block with \<open>d\<close> block levels left, the program starting at
  \<open>MAX_BLOCK_DEPTH\<close>. Everything that re-enters takes the level below as the argument \<open>ent\<close>. The
  two loops of a level, over the statements of the block and over the keywords of a captured
  rule, may run for ever (a function may splice a call to itself), so they carry the step bound
  \<open>F\<close>; \<open>enter_mono\<close> shows that a run that ends within its bound does not depend on it.
\<close>

section \<open>The state of a block\<close>

type_synonym entry = "nat \<Rightarrow> rule option \<Rightarrow> unit pm"

record wstate =
  wk_level :: nat
  wk_prev :: "rule option"
  wk_base :: nat
  wk_rule :: rule
  wk_shown :: cfg_value

text \<open>\<open>self.rule = new_level(self.prev)\<close>\<close>

definition reset_rule :: "wstate \<Rightarrow> wstate pm" where
  "reset_rule ws = bindP (new_levelP (wk_prev ws)) (\<lambda>r. retP (ws\<lparr>wk_rule := r\<rparr>))"

definition scoped_frame :: "(string, cfg_value) dict \<Rightarrow> unit pm \<Rightarrow> unit pm" where
  "scoped_frame auto body =
     bindP (getP (\<lambda>s. length (so_stack (ps_scope s)))) (\<lambda>depth.
     thenP (scopeP (push_frame auto))
     (thenP body
     (thenP (scopeP pop_frame)
     (bindP (getP (\<lambda>s. length (so_stack (ps_scope s)))) (\<lambda>depth'.
      whenP (depth' \<noteq> depth) (failP internal_error_default))))))"

section \<open>Capturing and replaying\<close>

text \<open>
  \<open>\<^verbatim>\<open>_capture_rule_span\<close>\<close>: the raw tokens of one rule; \<open>p\<close> and \<open>b\<close> count open parentheses and
  braces.
\<close>

primrec span_loop :: "nat \<Rightarrow> nat \<Rightarrow> nat \<Rightarrow> token list \<Rightarrow> token list pm" where
  "span_loop 0 p b acc = failP OutOfFuel"
| "span_loop (Suc n) p b acc =
     bindP next_raw_token (\<lambda>r.
       case r of
         None \<Rightarrow> retP acc
       | Some (TStr x) \<Rightarrow>
           if x = ''('' then span_loop n (p + 1) b (acc @ [TStr x])
           else if x = '')'' then span_loop n (p - 1) b (acc @ [TStr x])
           else if x = ''{'' then span_loop n p (b + 1) (acc @ [TStr x])
           else if x = ''}''
           then (if b \<le> 1 then retP (acc @ [TStr x]) else span_loop n p (b - 1) (acc @ [TStr x]))
           else if x = '';'' \<and> b = 0 \<and> p = 0 then retP (acc @ [TStr x])
           else span_loop n p b (acc @ [TStr x])
       | Some t \<Rightarrow> thenP (note_line t) (span_loop n p b (acc @ [t])))"

definition capture_rule_span :: "token list pm" where
  "capture_rule_span =
     bindP scriptP (\<lambda>sc. span_loop (Suc (script_size sc)) 0 0 [TLine (sc_line sc)])"

text \<open>
  Run \<open>body\<close> with the script's queue replaced and its handle detached; \<open>restore\<close> is the
  \<^verbatim>\<open>finally\<close> clause.
\<close>

definition detach :: "script \<Rightarrow> token list \<Rightarrow> unit pm" where
  "detach sc ts = bindP scriptP (\<lambda>now. set_scriptP (now\<lparr>sc_handle := None, sc_tokens := ts\<rparr>))"

definition restore :: "script \<Rightarrow> unit pm" where
  "restore sc =
     bindP scriptP (\<lambda>now. set_scriptP (now\<lparr>sc_tokens := TLine (sc_line sc) # sc_tokens sc,
       sc_handle := sc_handle sc, sc_line := sc_line sc\<rparr>))"

definition set_base :: "nat option \<Rightarrow> unit pm" where
  "set_base b = bindP scriptP (\<lambda>sc. set_scriptP (sc\<lparr>sc_base_level := b\<rparr>))"

definition replay_array :: "world \<Rightarrow> entry \<Rightarrow> cfg_value list \<Rightarrow> (cfg_value \<Rightarrow> rule option pm) \<Rightarrow> unit pm" where
  "replay_array w ent items build =
     bindP (collect_tokens w True True) (\<lambda>block.
     bindP scriptP (\<lambda>sc.
     thenP (detach sc (TLine (sc_line sc) # sc_tokens sc))
     (thenP (forP (\<lambda>item.
        bindP (build item) (\<lambda>inner.
          case inner of
            None \<Rightarrow> retP ()
          | Some r \<Rightarrow>
              thenP (set_base (Some 0)) (thenP (detach sc block) (ent 0 (Some r))))) items)
     (thenP (set_base (sc_base_level sc)) (restore sc)))))"

section \<open>Includes\<close>

definition include_auto :: "string \<Rightarrow> (string, cfg_value) dict \<Rightarrow> (string, cfg_value) dict" where
  "include_auto filename auto =
     dict_set ''DIRNAME'' (VStr (splitpath_dir filename))
       (dict_set ''FILEBNAME'' (VStr (splitpath_file filename))
         (dict_set ''FILENAME'' (VStr filename) auto))"

definition push_include :: "string \<Rightarrow> scope \<Rightarrow> scope" where
  "push_include filename sc =
     (if so_stack sc = [] then push_frame (include_auto filename []) sc
      else push_shared_frame (include_auto filename (top_auto sc)) sc)"

definition include_file :: "world \<Rightarrow> entry \<Rightarrow> nat \<Rightarrow> rule \<Rightarrow> string \<Rightarrow> unit pm" where
  "include_file w ent level prev filename =
     bindP scriptP (\<lambda>old.
     bindP (liftP w (open_script (w_open w) (w_stdin w) filename (Some old))) (\<lambda>new.
     thenP (set_scriptP (new\<lparr>sc_base_level := Some (level + 1)\<rparr>))
     (bindP (getP (\<lambda>s. length (so_stack (ps_scope s)))) (\<lambda>depth.
     thenP (scopeP (push_include filename))
     (thenP (ent (level + 1) (Some prev))
     (bindP scriptP (\<lambda>now.
     thenP (case sc_status now of
              None \<Rightarrow> retP ()
            | Some st \<Rightarrow> whenP (st \<noteq> 0) (errorP w (quote (sc_filename now) @ '': exit status is not 0'')))
     (thenP (scopeP pop_frame)
     (bindP (getP (\<lambda>s. length (so_stack (ps_scope s)))) (\<lambda>depth'.
     thenP (whenP (depth' \<noteq> depth) (failP internal_error_default))
       (set_scriptP old)))))))))))"

definition include_names :: "world \<Rightarrow> string list pm" where
  "include_names w =
     bindP peek_token (\<lambda>t.
       if t = Some (TStr ''@glob'')
       then bindP (get_value w plain_opts) (\<lambda>v.
            bindP (liftP w (to_array v)) (\<lambda>vs. retP (map (stringifyP w) vs)))
       else bindP scriptP (\<lambda>sc.
            bindP (get_value w plain_opts) (\<lambda>v.
            bindP (liftP w (to_array v)) (\<lambda>vs.
            liftP w (collect_filenames w (sc_filename sc) vs)))))"

definition parse_include :: "world \<Rightarrow> entry \<Rightarrow> rule \<Rightarrow> nat \<Rightarrow> unit pm" where
  "parse_include w ent r level =
     bindP (include_names w) (\<lambda>files.
     bindP next_token (\<lambda>t.
       if t \<noteq> Some (TStr '';'')
       then errorP w (''Missing '' @ dquote '';'' @ '' - '' @ dquote ''include FILENAME'' @
                      '' must be the last command in a rule'')
       else forP (include_file w ent level r) files))"

section \<open>Headers\<close>

definition default_domain :: "options \<Rightarrow> cfg_value" where
  "default_domain opts =
     VStr (case opt_domain opts of None \<Rightarrow> ''ip'' | Some d \<Rightarrow> if d = [] then ''ip'' else d)"

definition with_domain :: "world \<Rightarrow> options \<Rightarrow> rule \<Rightarrow> rule pm" where
  "with_domain w opts r =
     (if ru_domain r = VNone then bindP (set_domain w opts r (default_domain opts)) (\<lambda>(_, r'). retP r')
      else retP r)"

definition header_domain :: "world \<Rightarrow> options \<Rightarrow> entry \<Rightarrow> rule \<Rightarrow> rule option \<Rightarrow> rule pm" where
  "header_domain w opts ent r prev =
     (if ru_domain r \<noteq> VNone then errorP w ''Domain is already specified''
      else bindP (get_value w plain_opts) (\<lambda>v.
        case v of
          VList ds \<Rightarrow>
            thenP (replay_array w ent ds (\<lambda>item.
                bindP (new_levelP (Some r)) (\<lambda>inner.
                bindP (set_domain w opts inner item) (\<lambda>(ok, inner').
                retP (if ok then Some (inner'\<lparr>ru_domain_both := True\<rparr>) else None)))))
              (new_levelP prev)
        | _ \<Rightarrow>
            bindP (set_domain w opts r v) (\<lambda>(ok, r').
              if ok then retP r' else thenP (collect_tokens w False False) (new_levelP prev))))"

definition header_table :: "world \<Rightarrow> options \<Rightarrow> entry \<Rightarrow> rule \<Rightarrow> rule option \<Rightarrow> rule pm" where
  "header_table w opts ent r prev =
     thenP (whenP (ru_table r \<noteq> VNone) (warningP ''Table is already specified''))
     (bindP (get_value w plain_opts) (\<lambda>v.
      bindP (with_domain w opts r) (\<lambda>r1.
        case v of
          VList ts \<Rightarrow>
            thenP (replay_array w ent ts (\<lambda>item.
                bindP (new_levelP (Some r1)) (\<lambda>inner.
                thenP (scopeP (set_auto ''TABLE'' item)) (retP (Some (inner\<lparr>ru_table := item\<rparr>))))))
              (new_levelP prev)
        | _ \<Rightarrow> thenP (scopeP (set_auto ''TABLE'' v)) (retP (r1\<lparr>ru_table := v\<rparr>)))))"

definition LOWER_BUILTIN_CHAINS :: "string list" where
  "LOWER_BUILTIN_CHAINS = [''input'', ''forward'', ''output'', ''prerouting'', ''postrouting'']"

fun lower_builtin :: "cfg_value \<Rightarrow> bool" where
  "lower_builtin (VStr c) = (c \<in> set LOWER_BUILTIN_CHAINS)"
| "lower_builtin _ = False"

text \<open>Every chain of the header exists afterwards, in every table of the rule.\<close>

definition register_chains :: "world \<Rightarrow> rule \<Rightarrow> cfg_value list \<Rightarrow> unit pm" where
  "register_chains w r cvs =
     bindP (domain_keyP w (ru_domain r)) (\<lambda>fam.
     bindP (liftP w (to_array (ru_table r))) (\<lambda>tables.
       forP (\<lambda>tv.
         let t = stringifyP w tv
         in thenP (modify_table fam t (\<lambda>ti. ti))
            (forP (\<lambda>cv.
               let c = stringifyP w cv
               in thenP (check_chain_name w c) (modify_chain fam t c (\<lambda>ci. ci))) cvs)) tables))"

definition header_chain :: "world \<Rightarrow> options \<Rightarrow> entry \<Rightarrow> rule \<Rightarrow> rule option \<Rightarrow> rule pm" where
  "header_chain w opts ent r prev =
     thenP (whenP (ru_chain r \<noteq> VNone) (warningP ''Chain is already specified''))
     (bindP (get_value w plain_opts) (\<lambda>v.
      bindP (liftP w (to_array v)) (\<lambda>cvs.
      thenP (whenP (\<exists>c \<in> set cvs. lower_builtin c)
               (errorP w ''Please write built-in chain names in upper case''))
      (bindP (with_domain w opts r) (\<lambda>r1.
       let r2 = (if ru_table r1 = VNone then r1\<lparr>ru_table := VStr DEFAULT_TABLE\<rparr> else r1)
       in thenP (register_chains w r2 cvs)
          (case v of
             VList cs \<Rightarrow>
               thenP (replay_array w ent cs (\<lambda>item.
                   bindP (new_levelP (Some r2)) (\<lambda>inner.
                   thenP (scopeP (set_auto ''CHAIN'' item)) (retP (Some (inner\<lparr>ru_chain := item\<rparr>))))))
                 (new_levelP prev)
           | _ \<Rightarrow> thenP (scopeP (set_auto ''CHAIN'' v)) (retP (r2\<lparr>ru_chain := v\<rparr>))))))))"

definition header_policy :: "world \<Rightarrow> rule \<Rightarrow> rule option \<Rightarrow> rule pm" where
  "header_policy w r prev =
     (if ru_has_rule r then errorP w ''Cannot specify matches for policy''
      else bindP (getvar w) (\<lambda>v.
        bindP (case v of VStr p \<Rightarrow> liftP w (is_netfilter_core_target (Some p)) | _ \<Rightarrow> retP False) (\<lambda>ok.
          if \<not> ok then errorP w (''Invalid policy target: '' @ py_str w v)
          else thenP (expect_token w '';'' None)
               (thenP (walk_chains w r True (\<lambda>fam t c _.
                   modify_chain fam t c (\<lambda>ci. ci\<lparr>ci_policy := Some (text_of v)\<rparr>)) ())
                 (new_levelP prev)))))"

text \<open>The token of a priority, an offset written apart or glued to it included.\<close>

definition priority_text :: "world \<Rightarrow> string pm" where
  "priority_text w =
     bindP (getvar w) (\<lambda>v.
     let tok = stringifyP w v
     in bindP peek_token (\<lambda>t.
          case t of
            Some (TStr sign) \<Rightarrow>
              if sign = ''+'' \<or> sign = ''-''
              then thenP next_token
                   (bindP (getvar w) (\<lambda>m. retP (tok @ '' '' @ sign @ '' '' @ stringifyP w m)))
              else if tok \<noteq> [] \<and> (\<forall>c \<in> set tok. is_ualpha c) \<and> sign \<noteq> [] \<and> is_sign (hd sign) \<and>
                      all_digits (tl sign)
              then thenP next_token (retP (tok @ '' '' @ [hd sign] @ '' '' @ tl sign))
              else retP tok
          | _ \<Rightarrow> retP tok))"

text \<open>Whether a priority was set before is carried along.\<close>

definition set_priority :: "int \<Rightarrow> family \<Rightarrow> string \<Rightarrow> string \<Rightarrow> bool \<Rightarrow> bool pm" where
  "set_priority p fam t c already =
     bindP (getP (\<lambda>s. ci_priority (chain_of (ps_domains s) fam t c))) (\<lambda>old.
     thenP (modify_chain fam t c (\<lambda>ci. ci\<lparr>ci_priority := Some p\<rparr>)) (retP (already \<or> old \<noteq> None)))"

definition header_priority :: "world \<Rightarrow> rule \<Rightarrow> rule pm" where
  "header_priority w r =
     (if ru_has_rule r then errorP w ''Cannot specify matches for priority''
      else bindP (priority_text w) (\<lambda>tok.
           bindP (domain_keyP w (ru_domain r)) (\<lambda>fam.
             case resolve_chain_priority (family_name fam) tok of
               Inl e \<Rightarrow> errorP w (''Invalid chain priority: '' @ tok)
             | Inr p \<Rightarrow>
                 bindP (walk_chains w r True (set_priority p) False) (\<lambda>already.
                 thenP (whenP already (warningP ''Priority is already specified'')) (retP r)))))"

definition parse_header :: "world \<Rightarrow> options \<Rightarrow> entry \<Rightarrow> string \<Rightarrow> rule \<Rightarrow> rule option \<Rightarrow> rule pm" where
  "parse_header w opts ent keyword r prev =
     (let r1 = r\<lparr>ru_non_empty := True\<rparr>
      in if keyword = ''domain'' then header_domain w opts ent r1 prev
         else if keyword = ''table'' then header_table w opts ent r1 prev
         else if keyword = ''chain'' then header_chain w opts ent r1 prev
         else if ru_chain r1 = VNone then errorP w ERR_CHAIN_REQUIRED
         else if keyword = ''policy'' then header_policy w r1 prev
         else header_priority w r1)"

section \<open>Sub-chains\<close>

text \<open>A quoted name: the text between two equal quotes.\<close>

definition quoted_sub :: "string \<Rightarrow> string option" where
  "quoted_sub x =
     (case quoted_inside DQUOTE x of
        Some y \<Rightarrow> Some y
      | None \<Rightarrow> quoted_inside SQUOTE x)"

text \<open>The name of the sub-chain and the token after it.\<close>

definition subchain_name :: "world \<Rightarrow> (string \<times> string) pm" where
  "subchain_name w =
     bindP peek_token (\<lambda>t.
       let quoted = (case t of Some (TStr x) \<Rightarrow> quoted_sub x | _ \<Rightarrow> None)
       in case quoted of
            Some name \<Rightarrow>
              thenP next_token (bindP next_token (\<lambda>u. retP (name, stringifyP w (token_value u))))
          | None \<Rightarrow>
              if t = Some (TStr ''{'')
              then thenP next_token
                   (bindP (getP (\<lambda>s. fst (next_auto_chain (ps_scope s)))) (\<lambda>name.
                    thenP (scopeP (\<lambda>sc. snd (next_auto_chain sc))) (retP (name, ''{''))))
              else bindP (getvar w) (\<lambda>v.
                   bindP next_token (\<lambda>u. retP (stringifyP w v, stringifyP w (token_value u)))))"

definition register_subchain :: "world \<Rightarrow> rule \<Rightarrow> string \<Rightarrow> unit pm" where
  "register_subchain w r name =
     bindP (domain_keyP w (ru_domain r)) (\<lambda>fam.
     bindP (liftP w (to_array (ru_table r))) (\<lambda>tables.
       forP (\<lambda>tv.
         let t = stringifyP w tv
         in thenP (modify_table fam t (\<lambda>ti. ti))
            (bindP (getP (\<lambda>s. dict_has (ti_chains (table_of (ps_domains s) fam t)) name)) (\<lambda>known.
             if known then warningP (''Chain '' @ name @ '' already exists'')
             else modify_chain fam t name (\<lambda>ci. ci)))) tables))"

text \<open>The context of the body: the family, the table and the keywords of the parent only.\<close>

definition subchain_rule :: "rule \<Rightarrow> string \<Rightarrow> rule pm" where
  "subchain_rule r name =
     bindP (new_levelP (Some r)) (\<lambda>i.
     retP (i\<lparr>ru_match := {}, ru_options := [], ru_chain := VStr name, ru_has_rule := False,
             ru_has_action := False, ru_protocol := VNone,
             ru_auto_protocol := (if ru_protocol r \<noteq> VNone then ru_protocol r else ru_auto_protocol i)\<rparr>))"

definition jump_key :: "string \<Rightarrow> string" where
  "jump_key keyword = (if starts_with ''sub'' keyword then CHR ''@'' # keyword else keyword)"

definition parse_subchain ::
  "world \<Rightarrow> options \<Rightarrow> entry \<Rightarrow> string \<Rightarrow> rule \<Rightarrow> rule option \<Rightarrow> nat \<Rightarrow> rule pm" where
  "parse_subchain w opts ent keyword r prev level =
     (if ru_chain r = VNone then errorP w ERR_CHAIN_REQUIRED
      else if \<not> ru_has_rule r then errorP w (''No rule specified before '' @ quote (jump_key keyword))
      else
        bindP (subchain_name w) (\<lambda>(name, after).
        thenP (check_chain_name w name)
        (thenP (register_subchain w r name)
        (bindP (set_target w r (if starts_with ''@go'' keyword then ''goto'' else ''jump'') (VStr name)) (\<lambda>r1.
         if after \<noteq> ''{''
         then errorP w (dquote ''{'' @ '' or chain name expected after '' @ jump_key keyword)
         else
           bindP (subchain_rule r1 name) (\<lambda>inner.
           bindP (getP (\<lambda>s. dict_set ''CHAIN'' (VStr name) (top_auto (ps_scope s)))) (\<lambda>auto.
           thenP (scoped_frame auto (ent (level + 1) (Some inner)))
           (bindP position (\<lambda>pos.
           thenP (mkrules w opts (r1\<lparr>ru_script := Some pos\<rparr>))
           (bindP (new_levelP prev) (\<lambda>r2. retP (r2\<lparr>ru_has_rule := False\<rparr>))))))))))))"

section \<open>The leaf dispatch\<close>

definition finish_rule :: "world \<Rightarrow> options \<Rightarrow> wstate \<Rightarrow> wstate pm" where
  "finish_rule w opts ws =
     (let r = wk_rule ws
      in if \<not> ru_non_empty r then errorP w (''Empty rule before '' @ dquote '';'' @ '' not allowed'')
         else if ru_has_rule r \<and> \<not> ru_has_action r
         then errorP w (''No action defined; did you mean '' @ dquote ''NOP'' @ ''?'')
         else if ru_chain r = VNone then errorP w ''No chain defined''
         else bindP position (\<lambda>pos.
              thenP (mkrules w opts (r\<lparr>ru_script := Some pos\<rparr>))
                (reset_rule (ws\<lparr>wk_rule := r\<lparr>ru_script := Some pos\<rparr>\<rparr>))))"

definition close_level :: "world \<Rightarrow> wstate \<Rightarrow> bool pm" where
  "close_level w ws =
     (if wk_level ws \<le> wk_base ws then errorP w (''Unmatched '' @ dquote ''}'')
      else if ru_non_empty (wk_rule ws) then errorP w (''Missing semicolon before '' @ dquote ''}'')
      else retP True)"

definition leaf_set_target :: "world \<Rightarrow> rule \<Rightarrow> string \<Rightarrow> rule pm" where
  "leaf_set_target w r keyword =
     bindP (getvar w) (\<lambda>v.
     thenP (case v of VStr x \<Rightarrow> check_chain_name w x | _ \<Rightarrow> retP ()) (set_target w r keyword v))"

definition leaf_nop :: "world \<Rightarrow> rule \<Rightarrow> rule pm" where
  "leaf_nop w r =
     (if ru_has_action r then errorP w ERR_ACTION_ALREADY_SET else retP (r\<lparr>ru_has_action := True\<rparr>))"

text \<open>The fixed keywords, below the keywords of the rule's modules.\<close>

definition leaf_action :: "world \<Rightarrow> rule \<Rightarrow> string \<Rightarrow> bool \<Rightarrow> (rule \<times> bool) option pm" where
  "leaf_action w r keyword neg =
     (let some = (\<lambda>m. bindP m (\<lambda>r'. retP (Some (r', neg))))
      in if keyword = ''jump'' \<or> keyword = ''goto'' then some (leaf_set_target w r keyword)
         else if keyword = ''NOP'' then some (leaf_nop w r)
         else if keyword = ''proto'' \<or> keyword = ''protocol''
         then bindP (parse_protocol w r neg) (\<lambda>x. retP (Some x))
         else if keyword = ''sport'' \<or> keyword = ''dport'' then some (leaf_ports w r keyword)
         else retP None)"

definition leaf_target :: "world \<Rightarrow> rule \<Rightarrow> string \<Rightarrow> rule pm" where
  "leaf_target w r keyword =
     bindP (liftP w (is_netfilter_core_target (Some keyword))) (\<lambda>core.
       if core then set_target w r ''jump'' (VStr keyword)
       else bindP (liftP w (is_netfilter_module_target TARGET_DEFS (ru_domain_family r) (Some keyword))) (\<lambda>defs.
            case defs of
              Some d \<Rightarrow> set_module_target w r keyword d
            | None \<Rightarrow> errorP w (''Unrecognized keyword: '' @ keyword)))"

text \<open>A keyword of a rule: the keyword shown in a late diagnosis, the rule, the unused negation.\<close>

definition rule_keyword :: "world \<Rightarrow> rule \<Rightarrow> string \<Rightarrow> bool \<Rightarrow> (string \<times> rule \<times> bool) pm" where
  "rule_keyword w r keyword neg =
     (if keyword = ''mod'' \<or> keyword = ''module''
      then bindP (load_match_modules w r) (\<lambda>r'. retP (keyword, r', neg))
      else
        bindP (getP (\<lambda>s. dict_has (rule_keywords r (ps_kw s)) keyword)) (\<lambda>known.
        bindP (if known then retP (keyword, r) else resolve_shortcut r keyword) (\<lambda>(key, r1).
        bindP (getP (\<lambda>s. dict_get (rule_keywords r1 (ps_kw s)) key)) (\<lambda>kw.
          case kw of
            Some k \<Rightarrow>
              bindP (realize_protocol_keyword w r1 key) (\<lambda>r2.
              bindP (parse_option w k r2 neg) (\<lambda>(r3, neg'). retP (key, r3, neg')))
          | None \<Rightarrow>
              bindP (leaf_action w r1 key neg) (\<lambda>act.
                case act of
                  Some (r2, neg') \<Rightarrow> retP (key, r2, neg')
                | None \<Rightarrow> bindP (leaf_target w r1 key) (\<lambda>r2. retP (key, r2, neg)))))))"

text \<open>\<^verbatim>\<open>handle\<close>: whether the level is closed, the state of the block, the unused negation.\<close>

definition handle :: "world \<Rightarrow> options \<Rightarrow> wstate \<Rightarrow> cfg_value \<Rightarrow> bool \<Rightarrow> (bool \<times> wstate \<times> bool) pm" where
  "handle w opts ws0 keyword neg =
     (let ws = ws0\<lparr>wk_shown := keyword\<rparr>; r = (wk_rule ws)\<lparr>ru_non_empty := True\<rparr>
      in if keyword = VStr '';'' then bindP (finish_rule w opts ws) (\<lambda>ws'. retP (False, ws', neg))
         else if keyword = VStr ''@else''
         then thenP (collect_tokens w False False) (retP (False, ws, neg))
         else if keyword = VStr ''}'' then bindP (close_level w ws) (\<lambda>c. retP (c, ws, neg))
         else if keyword = VStr ''$''
         then errorP w ''variable references are only allowed as keyword parameter''
         else if keyword = VStr ''&''
         then thenP (call_function w) (retP (False, ws\<lparr>wk_rule := r\<rparr>, neg))
         else if ru_chain r = VNone then errorP w ERR_CHAIN_REQUIRED
         else case keyword of
                VStr key \<Rightarrow>
                  bindP (rule_keyword w (r\<lparr>ru_has_rule := True\<rparr>) key neg) (\<lambda>(shown, r', neg').
                  retP (False, ws\<lparr>wk_rule := r', wk_shown := VStr shown\<rparr>, neg'))
              | _ \<Rightarrow> errorP w (''Unrecognized keyword: '' @ py_str w keyword))"

section \<open>The statement visitors\<close>

datatype stmt_kind = Directive | Header | Subchain

record stmt_spec =
  ss_kind :: stmt_kind
  ss_location :: bool
  ss_warn :: "string option"

definition directive_spec :: stmt_spec where
  "directive_spec = \<lparr>ss_kind = Directive, ss_location = False, ss_warn = None\<rparr>"

definition header_spec :: "bool \<Rightarrow> stmt_spec" where
  "header_spec loc = \<lparr>ss_kind = Header, ss_location = loc, ss_warn = None\<rparr>"

definition subchain_spec :: stmt_spec where
  "subchain_spec = \<lparr>ss_kind = Subchain, ss_location = False, ss_warn = None\<rparr>"

definition STMT_TABLE :: "(string, stmt_spec) dict" where
  "STMT_TABLE =
     [(''@def'', directive_spec), (''def'', directive_spec), (''@set'', directive_spec),
      (''@include'', directive_spec), (''include'', directive_spec), (''@preserve'', directive_spec),
      (''@hook'', directive_spec), (''hook'', directive_spec\<lparr>ss_warn := Some ''@hook''\<rparr>),
      (''domain'', header_spec True), (''table'', header_spec True), (''chain'', header_spec True),
      (''policy'', header_spec False), (''priority'', header_spec False),
      (''@subchain'', subchain_spec), (''subchain'', subchain_spec), (''@gotosubchain'', subchain_spec)]"

definition visit_block :: "entry \<Rightarrow> wstate \<Rightarrow> wstate pm" where
  "visit_block ent ws =
     bindP (getP (\<lambda>s. top_auto (ps_scope s))) (\<lambda>auto.
     thenP (scoped_frame auto (ent (wk_level ws + 1) (Some (wk_rule ws))))
       (reset_rule ws))"

definition visit_if :: "world \<Rightarrow> wstate \<Rightarrow> wstate pm" where
  "visit_if w ws =
     bindP (get_value w plain_opts) (\<lambda>v.
     bindP (liftP w (eval_bool v)) (\<lambda>b.
       if b then retP ws
       else thenP (collect_tokens w False False)
            (bindP peek_token (\<lambda>t.
               if t = Some (TStr ''@else'') then thenP (require_next_token w False) (retP ws)
               else reset_rule ws))))"

text \<open>The nodes of the directives, by the keyword that leads them.\<close>

definition visit_directive :: "world \<Rightarrow> options \<Rightarrow> entry \<Rightarrow> wstate \<Rightarrow> string \<Rightarrow> wstate pm" where
  "visit_directive w opts ent ws keyword =
     (let r = wk_rule ws
      in if keyword = ''@def'' \<or> keyword = ''def'' then thenP (parse_def w r) (retP ws)
         else if keyword = ''@set'' then thenP (parse_set w r) (retP ws)
         else if keyword = ''@include'' \<or> keyword = ''include''
         then thenP (parse_include w ent r (wk_level ws)) (retP ws)
         else if keyword = ''@preserve'' then thenP (parse_preserve w opts r) (reset_rule ws)
         else thenP (parse_hook w r) (retP ws))"

definition visit_subchain :: "world \<Rightarrow> options \<Rightarrow> entry \<Rightarrow> wstate \<Rightarrow> string \<Rightarrow> wstate pm" where
  "visit_subchain w opts ent ws keyword =
     bindP (parse_subchain w opts ent keyword ((wk_rule ws)\<lparr>ru_non_empty := True\<rparr>) (wk_prev ws) (wk_level ws))
       (\<lambda>r. retP (ws\<lparr>wk_rule := r\<rparr>))"

text \<open>\<^verbatim>\<open>_visit_stmt_node\<close>: \<open>None\<close> when the keyword leads no statement node.\<close>

definition visit_stmt :: "world \<Rightarrow> options \<Rightarrow> entry \<Rightarrow> wstate \<Rightarrow> cfg_value \<Rightarrow> wstate option pm" where
  "visit_stmt w opts ent ws0 keyword =
     (case keyword of
        VStr key \<Rightarrow>
          (case dict_get STMT_TABLE key of
             None \<Rightarrow> retP None
           | Some spec \<Rightarrow>
               bindP position (\<lambda>_.
               bindP (case ss_warn spec of
                        None \<Rightarrow> retP ws0
                      | Some new \<Rightarrow>
                          thenP (warningP (quote key @ '' is deprecated, use '' @ quote new))
                            (retP (ws0\<lparr>wk_shown := VStr new\<rparr>))) (\<lambda>ws.
               bindP (case ss_kind spec of
                        Header \<Rightarrow>
                          bindP (parse_header w opts ent key (wk_rule ws) (wk_prev ws))
                            (\<lambda>r. retP (ws\<lparr>wk_rule := r\<rparr>))
                      | Subchain \<Rightarrow> visit_subchain w opts ent ws key
                      | Directive \<Rightarrow> visit_directive w opts ent ws key) (\<lambda>ws'.
               retP (Some ws')))))
      | _ \<Rightarrow> retP None)"

text \<open>
  The values Python can hash: the reference kinds hold lists, which it cannot. A leading token is looked up
  in the set of the keywords, so one that is not a string is a \<^verbatim>\<open>TypeError\<close>.
\<close>

fun hashable :: "cfg_value \<Rightarrow> bool" where
  "hashable VNone = True"
| "hashable (VStr s) = True"
| "hashable (VNegated v) = hashable v"
| "hashable (VPreNegated v) = hashable v"
| "hashable _ = False"

definition dispatch_leading :: "world \<Rightarrow> options \<Rightarrow> entry \<Rightarrow> wstate \<Rightarrow> token \<Rightarrow> wstate option pm" where
  "dispatch_leading w opts ent ws lead =
     (let some = (\<lambda>m. thenP next_token (bindP m (\<lambda>ws'. retP (Some ws'))))
      in case lead of
           TStr x \<Rightarrow>
             if x = ''{'' then some (visit_block ent ws)
             else if x = ''@if'' then some (visit_if w ws)
             else if dict_has STMT_TABLE x then thenP next_token (visit_stmt w opts ent ws (VStr x))
             else retP None
         | TVal v \<Rightarrow> if hashable v then retP None else failP PyTypeError
         | TLine n \<Rightarrow> retP None)"

definition route_resolved :: "world \<Rightarrow> options \<Rightarrow> entry \<Rightarrow> wstate \<Rightarrow> cfg_value \<Rightarrow> wstate option pm" where
  "route_resolved w opts ent ws keyword =
     (if keyword = VStr ''priority'' then retP None else visit_stmt w opts ent ws keyword)"

text \<open>The keyword a leading token stands for, and whether a negation precedes it.\<close>

definition resolve_keyword :: "world \<Rightarrow> token \<Rightarrow> (cfg_value \<times> bool) pm" where
  "resolve_keyword w t =
     (let neg = (t = TStr ''!'')
      in bindP (if neg
                then bindP (getvar w) (\<lambda>v.
                     if v = VNone then errorP w ''unexpected end of file after negation'' else retP v)
                else retP (token_value (Some t))) (\<lambda>kw.
         if kw = VStr ''realgoto''
         then thenP (warningP (quote ''realgoto'' @ '' is deprecated, please use '' @ quote ''goto'' @ '' instead''))
              (retP (VStr ''goto'', neg))
         else retP (kw, neg)))"

section \<open>The two loops and the recursion\<close>

text \<open>One keyword of a captured rule: whether it closes the level, and the state of the block.\<close>

definition rule_step :: "world \<Rightarrow> options \<Rightarrow> entry \<Rightarrow> wstate \<Rightarrow> token \<Rightarrow> (bool \<times> wstate) pm" where
  "rule_step w opts ent ws lead =
     bindP (dispatch_leading w opts ent ws lead) (\<lambda>visited.
       case visited of
         Some ws' \<Rightarrow> retP (False, ws')
       | None \<Rightarrow>
           bindP next_token (\<lambda>t.
           bindP (resolve_keyword w (case t of Some x \<Rightarrow> x | None \<Rightarrow> lead)) (\<lambda>(kw, neg).
           bindP (route_resolved w opts ent (ws\<lparr>wk_shown := kw\<rparr>) kw) (\<lambda>routed.
           bindP (case routed of
                    Some ws' \<Rightarrow> retP (False, ws', neg)
                  | None \<Rightarrow> handle w opts (ws\<lparr>wk_shown := kw\<rparr>) kw neg) (\<lambda>(closed, ws', neg').
           if neg' then errorP w (''Doesn'' @ [SQUOTE] @ ''t support negation: '' @ py_str w (wk_shown ws'))
           else retP (closed, ws'))))))"

primrec rule_loop :: "world \<Rightarrow> options \<Rightarrow> entry \<Rightarrow> nat \<Rightarrow> wstate \<Rightarrow> (bool \<times> wstate) pm" where
  "rule_loop w opts ent 0 ws = failP OutOfFuel"
| "rule_loop w opts ent (Suc n) ws =
     bindP peek_token (\<lambda>t.
       case t of
         None \<Rightarrow> retP (False, ws)
       | Some lead \<Rightarrow>
           bindP (rule_step w opts ent ws lead) (\<lambda>(closed, ws').
             if closed then retP (True, ws') else rule_loop w opts ent n ws'))"

definition visit_rule :: "world \<Rightarrow> options \<Rightarrow> entry \<Rightarrow> nat \<Rightarrow> wstate \<Rightarrow> (bool \<times> wstate) pm" where
  "visit_rule w opts ent F ws =
     bindP capture_rule_span (\<lambda>span.
     bindP scriptP (\<lambda>sc.
     thenP (detach sc span)
     (bindP (rule_loop w opts ent F ws) (\<lambda>r.
      thenP (restore sc) (retP r)))))"

definition NON_RULE_LEADING :: "string list" where
  "NON_RULE_LEADING = ['';'', ''@else'', ''}'']"

definition block_step :: "world \<Rightarrow> options \<Rightarrow> entry \<Rightarrow> nat \<Rightarrow> wstate \<Rightarrow> token \<Rightarrow> (bool \<times> wstate) pm" where
  "block_step w opts ent F ws lead =
     bindP (dispatch_leading w opts ent ws lead) (\<lambda>visited.
       case visited of
         Some ws' \<Rightarrow> retP (False, ws')
       | None \<Rightarrow>
           if \<exists>x \<in> set NON_RULE_LEADING. lead = TStr x
           then bindP next_token (\<lambda>t.
                bindP (handle w opts ws (token_value t) False) (\<lambda>(closed, ws', _). retP (closed, ws')))
           else visit_rule w opts ent F ws)"

primrec block_loop :: "world \<Rightarrow> options \<Rightarrow> entry \<Rightarrow> nat \<Rightarrow> nat \<Rightarrow> wstate \<Rightarrow> unit pm" where
  "block_loop w opts ent F 0 ws = failP OutOfFuel"
| "block_loop w opts ent F (Suc n) ws =
     bindP peek_token (\<lambda>t.
       case t of
         None \<Rightarrow>
           if wk_base ws < wk_level ws then errorP w (''Missing '' @ dquote ''}'' @ '' at end of file'')
           else whenP (ru_non_empty (wk_rule ws)) (errorP w ''Missing semicolon before end of file'')
       | Some lead \<Rightarrow>
           bindP (block_step w opts ent F ws lead) (\<lambda>(closed, ws').
             if closed then retP () else block_loop w opts ent F n ws'))"

definition enter_body :: "world \<Rightarrow> options \<Rightarrow> entry \<Rightarrow> nat \<Rightarrow> nat \<Rightarrow> nat \<Rightarrow> rule option \<Rightarrow> unit pm" where
  "enter_body w opts ent F base level prev =
     bindP (new_levelP prev) (\<lambda>r.
     block_loop w opts ent F F
       \<lparr>wk_level = level, wk_prev = prev, wk_base = base, wk_rule = r, wk_shown = VStr []\<rparr>)"

definition base_level :: "nat pm" where
  "base_level = bindP scriptP (\<lambda>sc. retP (case sc_base_level sc of None \<Rightarrow> 0 | Some b \<Rightarrow> b))"

primrec enter :: "world \<Rightarrow> options \<Rightarrow> nat \<Rightarrow> nat \<Rightarrow> entry" where
  "enter w opts F 0 = (\<lambda>level prev.
     bindP base_level (\<lambda>base.
       if level < base then failP internal_error_default
       else errorP w (''too many nested blocks (max '' @ string_of_nat MAX_BLOCK_DEPTH @ '')'')))"
| "enter w opts F (Suc d) = (\<lambda>level prev.
     bindP base_level (\<lambda>base.
       if level < base then failP internal_error_default
       else enter_body w opts (enter w opts F d) F base level prev))"

end
