(* ===== verification/Ferm_Walker_Safe.thy ===== *)
theory Ferm_Walker_Safe
  imports Ferm_Walker
begin

text \<open>
  What a successful run of the parser leaves behind: the script and the depth of the scope stack
  it started with, and well-formed domains. Every policy is a core target, every priority
  fits a signed 32-bit integer, every option of a rendered rule is realized, and a run with
  \<^verbatim>\<open>--flush\<close> installs no rule.
\<close>

section \<open>Well-formed domains\<close>

definition rendered_plain :: "rendered_rule \<Rightarrow> bool" where
  "rendered_plain rr \<longleftrightarrow> (\<forall>o' \<in> set (rr_options rr). plain_value (ro_value o'))"

definition chain_ok :: "options \<Rightarrow> chain_info \<Rightarrow> bool" where
  "chain_ok opts ci \<longleftrightarrow>
     (case ci_policy ci of None \<Rightarrow> True | Some p \<Rightarrow> p \<in> set CORE_TARGETS) \<and>
     (case ci_priority ci of None \<Rightarrow> True | Some p \<Rightarrow> - (2 ^ 31) \<le> p \<and> p < 2 ^ 31) \<and>
     (\<forall>rr \<in> set (ci_rules ci). rendered_plain rr) \<and>
     (opt_flush opts \<longrightarrow> ci_rules ci = [])"

definition table_ok :: "options \<Rightarrow> table_info \<Rightarrow> bool" where
  "table_ok opts ti \<longleftrightarrow> (\<forall>c ci. dict_get (ti_chains ti) c = Some ci \<longrightarrow> chain_ok opts ci)"

definition domain_ok :: "options \<Rightarrow> domain_info \<Rightarrow> bool" where
  "domain_ok opts di \<longleftrightarrow> (\<forall>t ti. dict_get (di_tables di) t = Some ti \<longrightarrow> table_ok opts ti)"

definition domains_ok :: "options \<Rightarrow> domains \<Rightarrow> bool" where
  "domains_ok opts ds \<longleftrightarrow> (\<forall>fam di. dict_get ds fam = Some di \<longrightarrow> domain_ok opts di)"

lemma new_chain_ok [simp]: "chain_ok opts new_chain"
  by (simp add: chain_ok_def new_chain_def)

lemma new_table_ok [simp]: "table_ok opts new_table"
  by (simp add: table_ok_def new_table_def)

lemma new_domain_ok [simp]: "domain_ok opts new_domain"
  by (simp add: domain_ok_def new_domain_def)

lemma table_of_ok: "domains_ok opts ds \<Longrightarrow> table_ok opts (table_of ds fam t)"
  by (auto simp: domains_ok_def domain_ok_def table_of_def split: option.split)

lemma chain_of_ok: "domains_ok opts ds \<Longrightarrow> chain_ok opts (chain_of ds fam t c)"
  using table_of_ok [of opts ds fam t] by (auto simp: table_ok_def chain_of_def split: option.split)

text \<open>The tables a backend records from the kernel are the parameter of the initialization.\<close>

definition seams_ok :: "options \<Rightarrow> seams \<Rightarrow> bool" where
  "seams_ok opts se \<longleftrightarrow>
     (\<forall>f fam di di'. se_capture_previous se = Some f \<longrightarrow> domain_ok opts di \<longrightarrow> f fam di = Inr di' \<longrightarrow>
        domain_ok opts di')"

lemma initialize_domain_ok:
  assumes "initialize_domain se opts fam ds = Inr (ds', ls)" and "domains_ok opts ds" and "seams_ok opts se"
  shows "domains_ok opts ds'"
proof -
  define ds1 where "ds1 = dict_setdefault fam new_domain ds"
  define di where "di = (case dict_get ds1 fam of None \<Rightarrow> new_domain | Some d \<Rightarrow> d)"
  define cap where "cap d = (case se_capture_previous se of None \<Rightarrow> Inr d | Some f \<Rightarrow> f fam d)" for d
  have ds1: "domains_ok opts ds1" using assms(2) by (auto simp: domains_ok_def ds1_def)
  then have "domain_ok opts di" by (auto simp: domains_ok_def di_def split: option.split)
  then have di: "domain_ok opts (di\<lparr>di_tools := tools\<rparr>)" for tools by (simp add: domain_ok_def)
  have cap: "domain_ok opts d2" if "cap (di\<lparr>di_tools := tools\<rparr>) = Inr d2" for tools d2
    using that di [of tools] assms(3) by (auto simp: seams_ok_def cap_def split: option.splits)
  have run: "(if di_initialized di then Inr (ds1, [])
      else bindR (resolve_tools se opts fam) (\<lambda>tools. bindR (cap (di\<lparr>di_tools := tools\<rparr>)) (\<lambda>d2.
        Inr (dict_set fam (d2\<lparr>di_initialized := True\<rparr>) ds1, snapshot_lines se opts fam d2)))) = Inr (ds', ls)"
    using assms(1) unfolding initialize_domain_def Let_def ds1_def [symmetric] di_def [symmetric]
      cap_def [symmetric] .
  show ?thesis
  proof (cases "di_initialized di")
    case True
    then show ?thesis using run ds1 by simp
  next
    case False
    with run obtain tools d2 where d2: "cap (di\<lparr>di_tools := tools\<rparr>) = Inr d2"
      and ds': "ds' = dict_set fam (d2\<lparr>di_initialized := True\<rparr>) ds1"
      by (auto simp: bindR_Inr_iff)
    from cap [OF d2] have "domain_ok opts (d2\<lparr>di_initialized := True\<rparr>)" by (simp add: domain_ok_def)
    with ds1 ds' show ?thesis by (simp add: domains_ok_def)
  qed
qed

section \<open>Rendered rules are realized\<close>

lemma snapshot_plain: "snapshot_option cs i = Inr o' \<Longrightarrow> plain_value (ro_value o')"
  by (auto simp: snapshot_option_def Let_def plain_value_def split: val_splits)

lemma append_rule_plain:
  "append_rule out r cs = Inr out' \<Longrightarrow> \<forall>rr \<in> set out. rendered_plain rr \<Longrightarrow> \<forall>rr \<in> set out'. rendered_plain rr"
proof -
  have "mapR (snapshot_option cs) is = Inr os \<Longrightarrow> \<forall>o' \<in> set os. plain_value (ro_value o')" for "is" os
    by (induction "is" arbitrary: os) (auto simp: bindR_Inr_iff dest: snapshot_plain)
  then show "append_rule out r cs = Inr out' \<Longrightarrow> \<forall>rr \<in> set out. rendered_plain rr \<Longrightarrow> \<forall>rr \<in> set out'. rendered_plain rr"
    by (auto simp: append_rule_def bindR_Inr_iff rendered_plain_def)
qed

lemma thread_invariant:
  assumes "\<And>x s t. P s \<Longrightarrow> f x s = Inr t \<Longrightarrow> P t" and "P s" and "thread f xs s = Inr t"
  shows "P t"
  using assms(2,3) by (induction xs arbitrary: s) (auto simp: bindR_Inr_iff dest: assms(1))

lemma unfold_rule_plain:
  "unfold_rule call fam r is st = Inr st' \<Longrightarrow> \<forall>rr \<in> set (fst st). rendered_plain rr \<Longrightarrow>
   \<forall>rr \<in> set (fst st'). rendered_plain rr"
proof (induction "is" arbitrary: st st')
  case Nil
  then show ?case by (auto simp: bindR_Inr_iff dest: append_rule_plain)
next
  case (Cons i "is")
  then obtain vs xs where
    "thread (\<lambda>v st. unfold_rule call fam r is (fst st, set_chosen i v (snd st))) xs st = Inr st'"
    by (auto simp: bindR_Inr_iff split: val_splits)
  then show ?case
    by (rule thread_invariant [where P = "\<lambda>st. \<forall>rr \<in> set (fst st). rendered_plain rr", rotated 2])
      (use Cons in fastforce)+
qed

lemma mkrules2_plain:
  "mkrules2 call fam out r cs = Inr (out', cs') \<Longrightarrow> \<forall>rr \<in> set out. rendered_plain rr \<Longrightarrow>
   \<forall>rr \<in> set out'. rendered_plain rr"
  by (auto simp: mkrules2_def Let_def bindR_Inr_iff split: if_splits dest!: unfold_rule_plain)

section \<open>Preserving the domains, the script and the scope depth\<close>

definition triple :: "(pstate \<Rightarrow> bool) \<Rightarrow> 'a pm \<Rightarrow> ('a \<Rightarrow> pstate \<Rightarrow> bool) \<Rightarrow> bool" where
  "triple P m Q \<longleftrightarrow> (\<forall>s x t. P s \<longrightarrow> m s = Inr (x, t) \<longrightarrow> Q x t)"

definition post :: "(pstate \<Rightarrow> bool) \<Rightarrow> 'a pm \<Rightarrow> bool" where
  "post P m \<longleftrightarrow> triple P m (\<lambda>_. P)"

named_theorems safe

lemma triple_bind: "triple P m R \<Longrightarrow> (\<And>x. triple (R x) (f x) Q) \<Longrightarrow> triple P (bindP m f) Q"
  by (fastforce simp: triple_def bindP_Inr)

lemma triple_then: "triple P m (\<lambda>_. R) \<Longrightarrow> triple R k Q \<Longrightarrow> triple P (thenP m k) Q"
  by (simp add: thenP_def triple_bind)

lemma post_bind [safe]: "post P m \<Longrightarrow> (\<And>x. post P (f x)) \<Longrightarrow> post P (bindP m f)"
  by (auto simp: post_def intro: triple_bind)

lemma post_then [safe]: "post P m \<Longrightarrow> post P k \<Longrightarrow> post P (thenP m k)"
  by (simp add: thenP_def post_bind)

lemma post_basic [safe]:
  "post P (retP x)" "post P (getP f)" "post P (failP e)" "post P (errorP w msg)" "post P (liftP w r)"
  by (simp_all add: post_def triple_def liftP_Inr)

lemma post_when [safe]: "(b \<Longrightarrow> post P m) \<Longrightarrow> post P (whenP b m)"
  by (cases b) (simp_all add: post_basic)

lemma post_if [safe]: "(b \<Longrightarrow> post P m) \<Longrightarrow> (\<not> b \<Longrightarrow> post P k) \<Longrightarrow> post P (if b then m else k)"
  by simp

lemma post_option [safe]:
  "(v = None \<Longrightarrow> post P n) \<Longrightarrow> (\<And>x. v = Some x \<Longrightarrow> post P (f x)) \<Longrightarrow>
   post P (case v of None \<Rightarrow> n | Some x \<Rightarrow> f x)"
  by (cases v) simp_all

lemma post_prod [safe]: "(\<And>a b. p = (a, b) \<Longrightarrow> post P (f a b)) \<Longrightarrow> post P (case p of (a, b) \<Rightarrow> f a b)"
  by (cases p) simp

lemma post_for [safe]: "(\<And>x. post P (f x)) \<Longrightarrow> post P (forP f xs)"
  by (induction xs) (auto intro: safe)

lemma post_map [safe]: "(\<And>x. post P (f x)) \<Longrightarrow> post P (mapP f xs)"
  by (induction xs) (auto intro!: safe)

lemma post_fold [safe]: "(\<And>x a. post P (f x a)) \<Longrightarrow> post P (foldP f xs a)"
  by (induction xs arbitrary: a) (auto intro!: safe)

text \<open>
  \<open>parser_inv w opts v\<close>: the depth of the stack and the script are \<open>v\<close>, and the domains are well
  formed when what the backend records from the kernel is.
\<close>

type_synonym view = "nat \<times> (string \<times> (string \<times> nat) list) option"

definition view_of :: "pstate \<Rightarrow> view" where
  "view_of s = (length (so_stack (ps_scope s)), script_id s)"

definition parser_inv :: "world \<Rightarrow> options \<Rightarrow> view \<Rightarrow> pstate \<Rightarrow> bool" where
  "parser_inv w opts v s \<longleftrightarrow>
     view_of s = v \<and> so_stack (ps_scope s) \<noteq> [] \<and>
     (seams_ok opts (w_seams w) \<longrightarrow> domains_ok opts (ps_domains s))"

lemma post_reads: "reads m \<Longrightarrow> post (parser_inv w opts v) m"
  by (auto simp: post_def triple_def reads_def parser_inv_def view_of_def keeps_def same_rules_def split: sum.splits)

lemmas post_reading [safe] =
  reads_scriptP [THEN post_reads] reads_peek [THEN post_reads] reads_next [THEN post_reads]
  reads_next_raw [THEN post_reads] reads_note_line [THEN post_reads] reads_expect [THEN post_reads]
  reads_require [THEN post_reads] get_value_reads [THEN post_reads] getvar_reads [THEN post_reads]
  call_params_reads [THEN post_reads] collect_tokens_reads [THEN post_reads]
  address_magic_reads [THEN post_reads] cgroup_classid_reads [THEN post_reads]
  depth.lookup_reads [THEN post_reads]

lemma post_modP: "(\<And>s. P s \<Longrightarrow> P (f s)) \<Longrightarrow> post P (modP f)"
  by (simp add: post_def triple_def)

lemma scriptP_some: "scriptP s = Inr (sc, t) \<longleftrightarrow> ps_script s = Some sc \<and> t = s"
  by (auto simp: scriptP_def split: option.splits)

text \<open>Replacing parts of the current script other than its identity.\<close>

lemma post_script_update [safe]:
  assumes "\<And>sc. sc_filename (f sc) = sc_filename sc \<and> sc_parents (f sc) = sc_parents sc"
  shows "post (parser_inv w opts v) (bindP scriptP (\<lambda>sc. set_scriptP (f sc)))"
  using assms
  by (auto simp: post_def triple_def bindP_Inr scriptP_some set_scriptP_def parser_inv_def view_of_def script_id_def)

lemma post_warning [safe]: "post (parser_inv w opts v) (warningP msg)"
  unfolding warningP_def by (rule post_modP) (simp add: parser_inv_def view_of_def script_id_def)

lemma post_kw [safe]: "post (parser_inv w opts v) (new_levelP prev)" "post (parser_inv w opts v) (mergeP r kws module)"
  "post (parser_inv w opts v) (append_optionP r name x module)" "post (parser_inv w opts v) (base_keywordsP r fam)"
  by (auto simp: post_def triple_def new_levelP_def mergeP_def append_optionP_def base_keywordsP_def
      parser_inv_def view_of_def script_id_def Let_def split: prod.splits)

lemma post_scopeP [safe]:
  assumes "\<And>sc. so_stack sc \<noteq> [] \<Longrightarrow> length (so_stack (f sc)) = length (so_stack sc)"
  shows "post (parser_inv w opts v) (scopeP f)"
  unfolding scopeP_def
proof (rule post_modP)
  fix s assume s: "parser_inv w opts v s"
  then have "length (so_stack (f (ps_scope s))) = length (so_stack (ps_scope s))" "so_stack (ps_scope s) \<noteq> []"
    by (auto simp: parser_inv_def intro: assms)
  then have "length (so_stack (f (ps_scope s))) = length (so_stack (ps_scope s))" "so_stack (f (ps_scope s)) \<noteq> []"
    by auto
  with s show "parser_inv w opts v (s\<lparr>ps_scope := f (ps_scope s)\<rparr>)"
    by (simp add: parser_inv_def view_of_def script_id_def)
qed

lemma scope_depths [simp]:
  "so_stack s \<noteq> [] \<Longrightarrow> length (so_stack (set_auto n x s)) = length (so_stack s)"
  "so_stack (set_top_var n x s) = so_stack s"
  "so_stack (set_top_function n fn s) = so_stack s"
  "so_stack (snd (next_auto_chain s)) = so_stack s"
  by (simp_all add: set_auto_def set_top_var_def set_top_function_def next_auto_chain_def Let_def)

lemma post_hooks [safe]:
  "post (parser_inv w opts v) (modP (\<lambda>s.
     if b then s\<lparr>ps_pre_hooks := ps_pre_hooks s @ [x]\<rparr>
     else if b' then s\<lparr>ps_post_hooks := ps_post_hooks s @ [x]\<rparr>
     else s\<lparr>ps_flush_hooks := ps_flush_hooks s @ [x]\<rparr>))"
  by (rule post_modP) (simp add: parser_inv_def view_of_def script_id_def)

text \<open>Changes of the domains.\<close>

lemma post_modify_domain:
  assumes "\<And>di. seams_ok opts (w_seams w) \<Longrightarrow> domain_ok opts di \<Longrightarrow> domain_ok opts (f di)"
  shows "post (parser_inv w opts v) (modify_domain fam f)"
  using assms
  by (auto simp: post_def triple_def modify_domain_def parser_inv_def view_of_def script_id_def domains_ok_def
      split: option.splits)

lemma post_modify_table:
  assumes "\<And>ti. seams_ok opts (w_seams w) \<Longrightarrow> table_ok opts ti \<Longrightarrow> table_ok opts (f ti)"
  shows "post (parser_inv w opts v) (modify_table fam t f)"
  unfolding modify_table_def
  by (rule post_modify_domain) (auto simp: domain_ok_def Let_def intro!: assms split: option.split)

lemma post_modify_chain:
  assumes "\<And>ci. seams_ok opts (w_seams w) \<Longrightarrow> chain_ok opts ci \<Longrightarrow> chain_ok opts (f ci)"
  shows "post (parser_inv w opts v) (modify_chain fam t c f)"
  unfolding modify_chain_def
  by (rule post_modify_table) (auto simp: table_ok_def Let_def intro!: assms split: option.split)

lemma post_ensure [safe]:
  "post (parser_inv w opts v) (modify_domain fam (\<lambda>di. di\<lparr>di_enabled := True\<rparr>))"
  "post (parser_inv w opts v) (modify_table fam t (\<lambda>ti. ti))"
  "post (parser_inv w opts v) (modify_chain fam t c (\<lambda>ci. ci))"
  "post (parser_inv w opts v) (modify_chain fam t c (\<lambda>ci. ci\<lparr>ci_preserve := True\<rparr>))"
  "post (parser_inv w opts v) (modify_table fam t (\<lambda>ti.
     ti\<lparr>ti_preserve_regexes := ps ti, ti_chains := dict_del c (ti_chains ti)\<rparr>))"
  by (auto intro!: post_modify_domain post_modify_table post_modify_chain
      simp: domain_ok_def table_ok_def chain_ok_def split: if_splits)

lemma post_walk [safe]:
  "(\<And>fam t c a. post (parser_inv w opts v) (f fam t c a)) \<Longrightarrow> post (parser_inv w opts v) (walk_chains w r enable f a)"
  unfolding walk_chains_def domain_keyP_def Let_def by (intro safe)

section \<open>The operations of the parser\<close>

lemma post_realize [safe]:
  "post (parser_inv w opts v) (realize_protocol r)"
  "post (parser_inv w opts v) (realize_protocol_keyword w r keyword)"
  unfolding realize_protocol_def realize_protocol_keyword_def by (intro safe)+

lemma post_small [safe]:
  "post (parser_inv w opts v) (check_chain_name w name)" "post (parser_inv w opts v) (domain_keyP w x)"
  "post (parser_inv w opts v) position"
  unfolding check_chain_name_def domain_keyP_def position_def by (intro safe)+

lemma post_init [safe]: "post (parser_inv w opts v) (init_domain w opts x)"
  by (auto simp: post_def triple_def init_domain_def parser_inv_def view_of_def script_id_def bindR_Inr_iff
      split: sum.splits failure.splits dest: initialize_domain_ok)

lemma post_value_case:
  assumes "\<And>vs. post P (f vs)" and "post P m"
  shows "post P (case x of VList vs \<Rightarrow> f vs | _ \<Rightarrow> m)"
  using assms by (cases x) simp_all

lemma post_string_case:
  assumes "\<And>y. x = VStr y \<Longrightarrow> post P (f y)" and "post P m"
  shows "post P (case x of VStr y \<Rightarrow> f y | _ \<Rightarrow> m)"
  using assms by (cases x) simp_all

lemma post_token_case [safe]:
  assumes "\<And>y. post P (f y)" and "\<And>n. post P (g n)" and "\<And>y. post P (h y)"
  shows "post P (case t of TStr y \<Rightarrow> f y | TLine n \<Rightarrow> g n | TVal y \<Rightarrow> h y)"
  using assms by (cases t) simp_all

lemma post_domain [safe]: "post (parser_inv w opts v) (set_domain w opts r x)"
proof -
  have "post (parser_inv w opts v) (check_domain w opts x)"
    unfolding check_domain_def by (intro safe)
  then show ?thesis unfolding set_domain_def by (intro safe) auto
qed

lemma post_target [safe]:
  "post (parser_inv w opts v) (set_target w r name x)" "post (parser_inv w opts v) (require_tcp w r)"
  "post (parser_inv w opts v) (set_module_target w r name defs)"
  unfolding set_module_target_def set_target_def require_tcp_def Let_def by (intro safe)+

lemma post_modules [safe]:
  "post (parser_inv w opts v) (load_match_module r module)" "post (parser_inv w opts v) (load_match_modules w r)"
  "post (parser_inv w opts v) (resolve_shortcut r keyword)"
proof -
  show load: "post (parser_inv w opts v) (load_match_module r module)" for r module
    unfolding load_match_module_def Let_def by (intro safe)
  have "post (parser_inv w opts v) (load_modules w xs r)" for xs r
    by (induction xs arbitrary: r) (auto intro!: safe load)
  then show "post (parser_inv w opts v) (load_match_modules w r)"
    unfolding load_match_modules_def by (intro safe)
  show "post (parser_inv w opts v) (resolve_shortcut r keyword)"
    unfolding resolve_shortcut_def by (intro safe load)
qed

lemma post_keyword [safe]:
  "post (parser_inv w opts v) (parse_keyword w r kw neg)"
proof -
  have multi: "post (parser_inv w opts v) (multiport_params w r)" for r
    unfolding multiport_params_def by (intro safe post_value_case)
  have neg: "post (parser_inv w opts v) (maybe_consume_negation w kw n)" for n
    unfolding maybe_consume_negation_def by (intro safe)
  have coded: "post (parser_inv w opts v) (coded_param w r c)" for c
  proof -
    have "post (parser_inv w opts v) (getvar_family_filtered w r)"
      unfolding getvar_family_filtered_def Let_def
      by (intro post_bind safe) (auto split: val_split intro!: safe)
    then show ?thesis unfolding coded_param_def by (intro safe)
  qed
  have trunc: "post (parser_inv w opts v) (truncate_log_prefix kw x)" for x
    unfolding truncate_log_prefix_def Let_def by (intro post_string_case safe)
  have "post (parser_inv w opts v) (keyword_argument w r kw n)" for n
    unfolding keyword_argument_def call_param_function_def
    by (cases "kw_params kw") (auto intro!: safe multi neg coded trunc)
  then show ?thesis
    unfolding parse_keyword_def Let_def by (intro safe)
qed

lemma post_option_arg [safe]: "post (parser_inv w opts v) (parse_option w kw r neg)"
  unfolding parse_option_def by (intro safe)

lemma post_expand [safe]: "post (parser_inv w opts v) (expand_setrefs_for_iptables w r)"
proof -
  have "post (parser_inv w opts v) (expand_setrefs w is)" for "is"
  proof (induction "is")
    case (Cons i "is")
    have "post (parser_inv w opts v) (modP (\<lambda>s. s\<lparr>ps_cells := f s\<rparr>))" for f
      by (rule post_modP) (simp add: parser_inv_def view_of_def script_id_def)
    then have one: "post (parser_inv w opts v) (case x of
        VSetRef name es \<Rightarrow> modP (\<lambda>s. s\<lparr>ps_cells := (ps_cells s)[i := (ps_cells s ! i)\<lparr>op_value := VList es\<rparr>]\<rparr>)
      | _ \<Rightarrow> whenP (iter_setrefs x \<noteq> []) (errorP w msg))" for x msg
      by (cases x) (auto intro!: safe)
    show ?case unfolding expand_setrefs.simps by (intro safe one Cons)
  qed (simp only: expand_setrefs.simps post_basic)
  then show ?thesis unfolding expand_setrefs_for_iptables_def by (intro safe)
qed

lemma post_emit [safe]:
  assumes "\<not> opt_flush opts"
  shows "post (parser_inv w opts v) (emit_rule w r fam t c)"
  unfolding post_def triple_def
proof (intro allI impI)
  fix s x u
  assume s: "parser_inv w opts v s" and run: "emit_rule w r fam t c s = Inr (x, u)"
  then obtain out cs where mk: "mkrules2 (w_call w) (family_name fam) (ci_rules (chain_of (ps_domains s) fam t c)) r
        (ps_cells s) = Inr (out, cs)"
    and mod: "modify_chain fam t c (\<lambda>ci. ci\<lparr>ci_rules := out\<rparr>) (s\<lparr>ps_cells := cs\<rparr>) = Inr (x, u)"
    by (auto simp: emit_rule_def bindP_Inr thenP_Inr liftP_Inr)
  have "seams_ok opts (w_seams w) \<Longrightarrow> chain_ok opts (chain_of (ps_domains s) fam t c)"
    using s by (simp add: parser_inv_def chain_of_ok)
  with mk have "seams_ok opts (w_seams w) \<Longrightarrow> \<forall>rr \<in> set out. rendered_plain rr"
    by (auto simp: chain_ok_def dest!: mkrules2_plain)
  with assms have "post (parser_inv w opts v) (modify_chain fam t c (\<lambda>ci. ci\<lparr>ci_rules := out\<rparr>))"
    by (intro post_modify_chain) (simp add: chain_ok_def)
  moreover have "parser_inv w opts v (s\<lparr>ps_cells := cs\<rparr>)"
    using s by (simp add: parser_inv_def view_of_def script_id_def)
  ultimately show "parser_inv w opts v u" using mod by (auto simp: post_def triple_def)
qed

lemma post_mkrules [safe]: "post (parser_inv w opts v) (mkrules w opts r)"
  unfolding mkrules_def by (intro safe) simp

lemma post_definitions [safe]:
  "post (parser_inv w opts v) (parse_def w r)" "post (parser_inv w opts v) (parse_set w r)"
  "post (parser_inv w opts v) (call_function w)"
proof -
  have name: "post (parser_inv w opts v) (require_name w msg)" for msg
    unfolding require_name_def by (intro safe)
  have params: "post (parser_inv w opts v) (def_params_loop w n ps)" for n ps
  proof (induction n arbitrary: ps)
    case (Suc n)
    show ?case unfolding def_params_loop.simps by (intro safe name Suc)
  qed (simp only: def_params_loop.simps post_basic)
  have var: "post (parser_inv w opts v) (def_variable w)"
    unfolding def_variable_def by (intro safe name) simp
  have fn: "post (parser_inv w opts v) (def_function w)"
    unfolding def_function_def by (intro safe name params) simp
  show "post (parser_inv w opts v) (parse_def w r)"
    unfolding parse_def_def by (intro safe var fn)
  show "post (parser_inv w opts v) (parse_set w r)"
    unfolding parse_set_def by (intro safe name) simp
  have push: "post (parser_inv w opts v) (push_tokens ts)" for ts
    unfolding push_tokens_def by (intro safe) simp
  show "post (parser_inv w opts v) (call_function w)"
    unfolding call_function_def by (intro safe name push)
qed

lemma post_preserve [safe]: "post (parser_inv w opts v) (parse_preserve w opts r)"
proof -
  have "post (parser_inv w opts v) (preserve_chain w fam t c)" for fam t c
    unfolding preserve_chain_def by (intro safe)
  then show ?thesis unfolding parse_preserve_def by (intro safe)
qed

lemma post_hook [safe]: "post (parser_inv w opts v) (parse_hook w r)"
  unfolding parse_hook_def Let_def by (intro safe)

lemma post_protocol [safe]: "post (parser_inv w opts v) (parse_protocol w r neg)"
proof -
  have "post (parser_inv w opts v) (merge_protocol r p)" for r p
    unfolding merge_protocol_def Let_def by (intro safe)
  then show ?thesis unfolding parse_protocol_def by (intro safe post_string_case)
qed

lemma post_leaf [safe]:
  "post (parser_inv w opts v) (leaf_ports w r keyword)" "post (parser_inv w opts v) (leaf_set_target w r keyword)"
  "post (parser_inv w opts v) (leaf_nop w r)" "post (parser_inv w opts v) (leaf_action w r keyword neg)"
  "post (parser_inv w opts v) (leaf_target w r keyword)"
proof -
  show "post (parser_inv w opts v) (leaf_ports w r keyword)" for keyword
    unfolding leaf_ports_def by (intro safe)
  moreover show "post (parser_inv w opts v) (leaf_set_target w r keyword)" for keyword
    unfolding leaf_set_target_def by (intro safe post_string_case)
  moreover show "post (parser_inv w opts v) (leaf_nop w r)"
    unfolding leaf_nop_def by (intro safe)
  ultimately show "post (parser_inv w opts v) (leaf_action w r keyword neg)"
    unfolding leaf_action_def Let_def by (intro safe)
  show "post (parser_inv w opts v) (leaf_target w r keyword)"
    unfolding leaf_target_def by (intro safe)
qed

lemma post_rule_keyword [safe]: "post (parser_inv w opts v) (rule_keyword w r keyword neg)"
  unfolding rule_keyword_def by (intro safe)

lemma post_reset [safe]: "post (parser_inv w opts v) (reset_rule ws)"
  unfolding reset_rule_def by (intro safe)

lemma post_handle [safe]: "post (parser_inv w opts v) (handle w opts ws keyword neg)"
proof -
  have "post (parser_inv w opts v) (finish_rule w opts ws)" for ws
    unfolding finish_rule_def Let_def by (intro safe)
  moreover have "post (parser_inv w opts v) (close_level w ws)" for ws
    unfolding close_level_def by (intro safe)
  ultimately show ?thesis
    unfolding handle_def Let_def by (intro safe post_string_case)
qed

lemma post_resolve [safe]: "post (parser_inv w opts v) (resolve_keyword w t)"
  unfolding resolve_keyword_def Let_def by (intro safe)

lemma post_policy [safe]: "post (parser_inv w opts v) (header_policy w r prev)"
proof -
  have set_policy: "post (parser_inv w opts v) (modify_chain fam t c (\<lambda>ci. ci\<lparr>ci_policy := Some p\<rparr>))"
    if "p \<in> set CORE_TARGETS" for fam t c p
    by (intro post_modify_chain) (use that in \<open>simp add: chain_ok_def\<close>)
  let ?k = "\<lambda>x ok. if \<not> ok then errorP w (''Invalid policy target: '' @ py_str w x)
      else thenP (expect_token w '';'' None)
        (thenP (walk_chains w r True (\<lambda>fam t c _.
            modify_chain fam t c (\<lambda>ci. ci\<lparr>ci_policy := Some (text_of x)\<rparr>)) ()) (new_levelP prev))"
  have core: "post (parser_inv w opts v) (?k x ok)" if "ok \<Longrightarrow> text_of x \<in> set CORE_TARGETS" for x ok
    using that by (cases ok) (auto intro!: safe set_policy)
  have "post (parser_inv w opts v) (bindP (case x of VStr p \<Rightarrow> liftP w (is_netfilter_core_target (Some p))
      | _ \<Rightarrow> retP False) (?k x))" for x
  proof (cases "\<exists>p. x = VStr p \<and> p \<in> set CORE_TARGETS")
    case True
    then obtain p where "x = VStr p" "p \<in> set CORE_TARGETS" by blast
    then show ?thesis by (intro post_bind [OF _ core]) (simp_all add: post_basic)
  next
    case False
    have "post (parser_inv w opts v) (bindP (retP False) (?k x))" by (simp add: post_basic)
    moreover have "post (parser_inv w opts v) (bindP (liftP w (is_netfilter_core_target (Some p))) (?k x))"
      if "x = VStr p" for p
      using False that
      by (cases "is_netfilter_core_target (Some p)")
        (auto simp: is_netfilter_core_target_def bindR_Inr_iff require_target_def liftP_def
          split: if_splits failure.splits intro!: safe)
    ultimately show ?thesis by (cases x) simp_all
  qed
  note arg = this
  show ?thesis
    unfolding header_policy_def
    by (rule post_if, rule post_basic, rule post_bind, intro safe, rule arg)
qed

lemma post_priority [safe]: "post (parser_inv w opts v) (header_priority w r)"
proof -
  have prio_text: "post (parser_inv w opts v) (priority_text w)"
    unfolding priority_text_def Let_def by (intro safe)
  have prio: "post (parser_inv w opts v) (set_priority p fam t c a)"
    if "resolve_chain_priority (family_name fam') tok = Inr p" for p fam fam' tok t c a
  proof -
    have "- (2 ^ 31) \<le> p \<and> p < 2 ^ 31"
      using that by (rule resolve_chain_priority_Inr)
    then have "post (parser_inv w opts v) (modify_chain fam t c (\<lambda>ci. ci\<lparr>ci_priority := Some p\<rparr>))"
      by (intro post_modify_chain) (simp add: chain_ok_def)
    then show ?thesis unfolding set_priority_def by (intro safe)
  qed
  show ?thesis
    unfolding header_priority_def
    by (intro safe prio_text) (auto split: sum.split intro!: safe prio)
qed

section \<open>The constructs that re-enter\<close>

text \<open>
  The interface between a level of the parser and the level below: whatever the script and the
  depth it is entered with, the level below gives them back.
\<close>

locale block_entry =
  fixes w :: world and opts :: options and ent :: entry
  assumes ent_post: "post (parser_inv w opts v) (ent level prev)"
begin

lemma pop_depth:
  "length (so_stack sc) = Suc n \<Longrightarrow> n \<noteq> 0 \<Longrightarrow>
   so_stack (pop_frame sc) \<noteq> [] \<and> length (so_stack (pop_frame sc)) = n"
  by (cases "so_stack sc" rule: rev_cases) (auto simp: pop_frame_def)

lemma scoped_frame_post [safe]:
  assumes "\<And>v. post (parser_inv w opts v) m"
  shows "post (parser_inv w opts v) (scoped_frame auto m)"
proof -
  obtain n i where v: "v = (n, i)" by fastforce
  have push: "triple (parser_inv w opts (n, i)) (scopeP (push_frame auto)) (\<lambda>_. parser_inv w opts (Suc n, i))"
    by (auto simp: triple_def scopeP_def parser_inv_def view_of_def script_id_def push_frame_def)
  have pop: "triple (parser_inv w opts (Suc n, i)) (scopeP pop_frame) (\<lambda>_. parser_inv w opts (n, i))" if "n \<noteq> 0"
    using that
    using pop_depth by (auto simp: triple_def scopeP_def parser_inv_def view_of_def script_id_def)
  have body: "triple (parser_inv w opts u) m (\<lambda>_. parser_inv w opts u)" for u
    using assms [of u] by (simp add: post_def)
  show ?thesis
  proof (cases "n = 0")
    case True
    then show ?thesis by (auto simp: v post_def triple_def parser_inv_def view_of_def)
  next
    case False
    have rest: "triple (parser_inv w opts (n, i)) (bindP (getP f) (\<lambda>d. whenP (d \<noteq> d0) (failP e)))
        (\<lambda>_. parser_inv w opts (n, i))" for f :: "pstate \<Rightarrow> nat" and d0 e
      unfolding post_def [symmetric] by (intro safe)
    have "post (parser_inv w opts (n, i)) (thenP (scopeP (push_frame auto)) (thenP m (thenP (scopeP pop_frame)
        (bindP (getP f) (\<lambda>d. whenP (d \<noteq> d0) (failP e))))))" for f :: "pstate \<Rightarrow> nat" and d0 e
      unfolding post_def
      by (rule triple_then [OF push triple_then [OF body triple_then [OF pop [OF False] rest]]])
    then show ?thesis unfolding v scoped_frame_def by (intro post_bind [OF post_basic(2)])
  qed
qed

lemma whenP_Inr: "whenP b m s = Inr r \<longleftrightarrow> (if b then m s = Inr r else r = ((), s))"
  by (auto simp: whenP_def)

lemma include_file_post [safe]: "post (parser_inv w opts v) (include_file w ent level prev filename)"
  unfolding post_def triple_def
proof (intro allI impI)
  fix s x t
  assume s: "parser_inv w opts v s" and run: "include_file w ent level prev filename s = Inr (x, t)"
  from run obtain old new y u now where old: "ps_script s = Some old"
    and ent: "ent (level + 1) (Some prev) (s\<lparr>ps_script := Some (new\<lparr>sc_base_level := Some (level + 1)\<rparr>),
        ps_scope := push_include filename (ps_scope s)\<rparr>) = Inr (y, u)"
    and t: "t = u\<lparr>ps_scope := pop_frame (ps_scope u), ps_script := Some old\<rparr>"
    by (auto simp: include_file_def bindP_Inr thenP_Inr scriptP_some liftP_Inr set_scriptP_def scopeP_def
        whenP_Inr split: option.splits if_splits)
  let ?s = "s\<lparr>ps_script := Some (new\<lparr>sc_base_level := Some (level + 1)\<rparr>),
        ps_scope := push_include filename (ps_scope s)\<rparr>"
  let ?v = "(Suc (fst v), Some (sc_filename new, sc_parents new))"
  have "parser_inv w opts ?v ?s"
    using s by (auto simp: parser_inv_def view_of_def script_id_def push_include_def push_shared_frame_def)
  with ent ent_post have u: "parser_inv w opts ?v u" by (auto simp: post_def triple_def)
  have v: "v = (length (so_stack (ps_scope s)), script_id s)" "0 < fst v"
    using s by (auto simp: parser_inv_def view_of_def)
  have "so_stack (pop_frame (ps_scope u)) \<noteq> [] \<and> length (so_stack (pop_frame (ps_scope u))) = fst v"
    using u v(2) by (intro pop_depth) (auto simp: parser_inv_def view_of_def)
  then show "parser_inv w opts v t"
    using u v old by (auto simp: t parser_inv_def view_of_def script_id_def)
qed

lemma include_post [safe]: "post (parser_inv w opts v) (parse_include w ent r level)"
proof -
  have "post (parser_inv w opts v) (include_names w)"
    unfolding include_names_def by (intro safe)
  then show ?thesis unfolding parse_include_def by (intro safe)
qed

lemma restore_post [safe]:
  "post (parser_inv w opts v) (restore sc)" "post (parser_inv w opts v) (detach sc ts)"
  "post (parser_inv w opts v) (set_base b)"
  unfolding restore_def detach_def set_base_def by (rule post_script_update; simp)+

lemma ent_safe [safe]: "post (parser_inv w opts v) (ent level prev)"
  by (rule ent_post)

lemma replay_post [safe]:
  "(\<And>item. post (parser_inv w opts v) (build item)) \<Longrightarrow> post (parser_inv w opts v) (replay_array w ent items build)"
  unfolding replay_array_def by (intro safe)

lemma header_post [safe]: "post (parser_inv w opts v) (parse_header w opts ent keyword r prev)"
proof -
  have dom: "post (parser_inv w opts v) (with_domain w opts r)" for r
    unfolding with_domain_def by (intro safe)
  have reg: "post (parser_inv w opts v) (register_chains w r cvs)" for r cvs
    unfolding register_chains_def Let_def by (intro safe)
  have "post (parser_inv w opts v) (header_domain w opts ent r prev)" for r
    unfolding header_domain_def by (intro safe post_value_case)
  moreover have "post (parser_inv w opts v) (header_table w opts ent r prev)" for r
    unfolding header_table_def by (intro safe post_value_case dom) simp_all
  moreover have "post (parser_inv w opts v) (header_chain w opts ent r prev)" for r
    unfolding header_chain_def Let_def by (intro safe post_value_case dom reg) simp_all
  ultimately show ?thesis
    unfolding parse_header_def Let_def by (intro safe)
qed

lemma subchain_post [safe]: "post (parser_inv w opts v) (parse_subchain w opts ent keyword r prev level)"
proof -
  have name: "post (parser_inv w opts v) (subchain_name w)"
    unfolding subchain_name_def Let_def by (intro safe) simp
  have reg: "post (parser_inv w opts v) (register_subchain w r name)" for r name
    unfolding register_subchain_def Let_def by (intro safe)
  have rule: "post (parser_inv w opts v) (subchain_rule r name)" for r name
    unfolding subchain_rule_def by (intro safe)
  show ?thesis
    unfolding parse_subchain_def by (intro safe name reg rule)
qed

lemma visit_post [safe]:
  "post (parser_inv w opts v) (visit_block ent ws)" "post (parser_inv w opts v) (visit_if w ws)"
  "post (parser_inv w opts v) (visit_directive w opts ent ws keyword)"
  "post (parser_inv w opts v) (visit_subchain w opts ent ws keyword)"
  unfolding visit_block_def visit_if_def visit_directive_def visit_subchain_def Let_def by (intro safe)+

lemma visit_stmt_post [safe]: "post (parser_inv w opts v) (visit_stmt w opts ent ws keyword)"
proof -
  have kind: "post P (case k of Directive \<Rightarrow> a | Header \<Rightarrow> b | Subchain \<Rightarrow> c)"
    if "post P a" "post P b" "post P c" for P k and a b c :: "wstate pm"
    using that by (cases k) simp_all
  show ?thesis
    unfolding visit_stmt_def by (intro post_string_case safe kind)
qed

lemma dispatch_post [safe]:
  "post (parser_inv w opts v) (dispatch_leading w opts ent ws lead)"
  "post (parser_inv w opts v) (route_resolved w opts ent ws kw)"
  unfolding dispatch_leading_def route_resolved_def Let_def by (intro safe)+

lemma rule_loop_post [safe]: "post (parser_inv w opts v) (rule_loop w opts ent n ws)"
proof (induction n arbitrary: ws)
  case (Suc n)
  have "post (parser_inv w opts v) (rule_step w opts ent ws lead)" for ws lead
    unfolding rule_step_def by (intro safe)
  then show ?case unfolding rule_loop.simps by (intro safe Suc)
qed (simp only: rule_loop.simps post_basic)

lemma capture_post [safe]: "post (parser_inv w opts v) capture_rule_span"
proof -
  have "post (parser_inv w opts v) (span_loop n p b acc)" for n p b acc
  proof (induction n arbitrary: p b acc)
    case (Suc n)
    show ?case unfolding span_loop.simps by (intro safe Suc)
  qed (simp only: span_loop.simps post_basic)
  then show ?thesis unfolding capture_rule_span_def by (intro safe)
qed

lemma visit_rule_post [safe]: "post (parser_inv w opts v) (visit_rule w opts ent F ws)"
  unfolding visit_rule_def by (intro safe)

lemma block_loop_post [safe]: "post (parser_inv w opts v) (block_loop w opts ent F n ws)"
proof (induction n arbitrary: ws)
  case (Suc n)
  have "post (parser_inv w opts v) (block_step w opts ent F ws lead)" for ws lead
    unfolding block_step_def by (intro safe)
  then show ?case unfolding block_loop.simps by (intro safe Suc)
qed (simp only: block_loop.simps post_basic)

lemma enter_body_post: "post (parser_inv w opts v) (enter_body w opts ent F base level prev)"
  unfolding enter_body_def by (intro safe)

end

lemma enter_post: "post (parser_inv w opts v) (enter w opts F d level prev)"
proof (induction d arbitrary: v level prev)
  case 0
  show ?case unfolding enter.simps base_level_def by (intro safe)
next
  case (Suc d)
  have "post (parser_inv w opts v) (enter_body w opts (enter w opts F d) F base level prev)" for base level prev
    by (rule block_entry.enter_body_post) (unfold_locales, rule Suc)
  then show ?case unfolding enter.simps base_level_def by (intro safe)
qed

interpretation entry: block_entry w opts "enter w opts F d" for w opts F d
  by unfold_locales (rule enter_post)

text \<open>
  C1: A run of the parser that succeeds leaves the scope stack at the depth and the current script
  at the identity it was entered with, however deep the includes and blocks it went through, and
  keeps the domains well formed: every chain policy is a built-in target, every chain priority
  fits a signed 32-bit integer, every option of an installed rule is a realized value, and under
  \<^verbatim>\<open>--flush\<close> no chain receives a rule.
\<close>

theorem enter_keeps_domains:
  assumes "seams_ok opts (w_seams w)" and "domains_ok opts (ps_domains s)" and "so_stack (ps_scope s) \<noteq> []"
    and "enter w opts F d level prev s = Inr (x, t)"
  shows "domains_ok opts (ps_domains t) \<and>
         length (so_stack (ps_scope t)) = length (so_stack (ps_scope s)) \<and> script_id t = script_id s"
proof -
  have "parser_inv w opts (view_of s) s" using assms by (simp add: parser_inv_def)
  then have "parser_inv w opts (view_of s) t"
    using entry.ent_post [of w opts "view_of s" F d level prev] assms(4) unfolding post_def triple_def by blast
  then show ?thesis using assms(1) by (simp add: parser_inv_def view_of_def)
qed

end
