(* ===== verification/Ferm_Walker_Bound.thy ===== *)
theory Ferm_Walker_Bound
  imports Ferm_Walker
begin

text \<open>
  The step bound of the parser's loops is immaterial: a run that ends within one bound gives the
  same result under any larger one. The order \<open>leq\<close> relates an operation with one that gets
  further; the locale \<open>deeper\<close> lifts it from the level below through every construct of the
  parser.
\<close>

section \<open>Getting further\<close>

definition leq :: "'a pm \<Rightarrow> 'a pm \<Rightarrow> bool" where
  "leq m m' \<longleftrightarrow> (\<forall>s. (\<exists>e. m s = Inl (OutOfFuel, e)) \<or> m' s = m s)"

named_theorems further

lemma leq_refl [simp, intro!, further]: "leq m m"
  by (simp add: leq_def)

lemma leq_fuel [simp]: "leq (failP OutOfFuel) m"
  by (simp add: leq_def)

lemma leq_bind [further]:
  assumes "leq m m'" and "\<And>x. leq (f x) (f' x)"
  shows "leq (bindP m f) (bindP m' f')"
  unfolding leq_def
proof
  fix s
  consider (out) e where "m s = Inl (OutOfFuel, e)" | (same) "m' s = m s"
    using assms(1) by (auto simp: leq_def)
  then show "(\<exists>e. bindP m f s = Inl (OutOfFuel, e)) \<or> bindP m' f' s = bindP m f s"
  proof cases
    case same
    then show ?thesis
      using assms(2) by (auto simp: leq_def bindP_def split: sum.splits)
  qed simp
qed

lemma leq_then [further]: "leq m m' \<Longrightarrow> leq k k' \<Longrightarrow> leq (thenP m k) (thenP m' k')"
  by (simp add: thenP_def leq_bind)

lemma leq_for [further]: "(\<And>x. leq (f x) (f' x)) \<Longrightarrow> leq (forP f xs) (forP f' xs)"
  by (induction xs) (simp_all add: leq_then)

lemma leq_if [further]: "leq m m' \<Longrightarrow> leq k k' \<Longrightarrow> leq (if b then m else k) (if b then m' else k')"
  by simp

lemma leq_option [further]:
  "leq n n' \<Longrightarrow> (\<And>x. leq (f x) (f' x)) \<Longrightarrow>
   leq (case v of None \<Rightarrow> n | Some x \<Rightarrow> f x) (case v of None \<Rightarrow> n' | Some x \<Rightarrow> f' x)"
  by (cases v) simp_all

lemma leq_prod [further]:
  "(\<And>a b. leq (f a b) (f' a b)) \<Longrightarrow> leq (case p of (a, b) \<Rightarrow> f a b) (case p of (a, b) \<Rightarrow> f' a b)"
  by (cases p) simp

lemma leq_run: "leq m m' \<Longrightarrow> \<nexists>e. m s = Inl (OutOfFuel, e) \<Longrightarrow> m' s = m s"
  by (auto simp: leq_def)

section \<open>Every construct gets further with the level below\<close>

locale deeper =
  fixes ent ent' :: entry
  assumes ent_leq [further]: "leq (ent level prev) (ent' level prev)"
begin

lemma scoped_frame_leq [further]: "leq m m' \<Longrightarrow> leq (scoped_frame auto m) (scoped_frame auto m')"
  unfolding scoped_frame_def by (intro further)

lemma replay_array_leq [further]: "leq (replay_array w ent items build) (replay_array w ent' items build)"
  unfolding replay_array_def by (intro further)

lemma include_file_leq [further]:
  "leq (include_file w ent level prev filename) (include_file w ent' level prev filename)"
  unfolding include_file_def by (intro further)

lemma parse_include_leq [further]: "leq (parse_include w ent r level) (parse_include w ent' r level)"
  unfolding parse_include_def by (intro further)

lemma header_leq [further]:
  "leq (header_domain w opts ent r prev) (header_domain w opts ent' r prev)"
  "leq (header_table w opts ent r prev) (header_table w opts ent' r prev)"
  "leq (header_chain w opts ent r prev) (header_chain w opts ent' r prev)"
proof -
  have val: "leq (case v of VList vs \<Rightarrow> f vs | _ \<Rightarrow> m) (case v of VList vs \<Rightarrow> f' vs | _ \<Rightarrow> m)"
    if "\<And>vs. leq (f vs) (f' vs)" for v and f f' :: "cfg_value list \<Rightarrow> rule pm" and m
    using that by (cases v) simp_all
  show "leq (header_domain w opts ent r prev) (header_domain w opts ent' r prev)"
    unfolding header_domain_def by (intro further val)
  show "leq (header_table w opts ent r prev) (header_table w opts ent' r prev)"
    unfolding header_table_def by (intro further val)
  show "leq (header_chain w opts ent r prev) (header_chain w opts ent' r prev)"
    unfolding header_chain_def Let_def by (intro further val)
qed

lemma parse_header_leq [further]:
  "leq (parse_header w opts ent keyword r prev) (parse_header w opts ent' keyword r prev)"
  unfolding parse_header_def Let_def by (intro further)

lemma parse_subchain_leq [further]:
  "leq (parse_subchain w opts ent keyword r prev level) (parse_subchain w opts ent' keyword r prev level)"
  unfolding parse_subchain_def by (intro further)

lemma visit_leq [further]:
  "leq (visit_block ent ws) (visit_block ent' ws)"
  "leq (visit_directive w opts ent ws keyword) (visit_directive w opts ent' ws keyword)"
  "leq (visit_subchain w opts ent ws keyword) (visit_subchain w opts ent' ws keyword)"
  unfolding visit_block_def visit_directive_def visit_subchain_def Let_def by (intro further)+

lemma visit_stmt_leq [further]: "leq (visit_stmt w opts ent ws keyword) (visit_stmt w opts ent' ws keyword)"
proof -
  have kind: "leq (case k of Directive \<Rightarrow> a | Header \<Rightarrow> b | Subchain \<Rightarrow> c)
      (case k of Directive \<Rightarrow> a' | Header \<Rightarrow> b' | Subchain \<Rightarrow> c')"
    if "leq a a'" "leq b b'" "leq c c'" for k and a a' b b' c c' :: "wstate pm"
    using that by (cases k) simp_all
  show ?thesis
    by (cases keyword) (auto simp: visit_stmt_def intro!: further kind)
qed

lemma dispatch_leading_leq [further]:
  "leq (dispatch_leading w opts ent ws lead) (dispatch_leading w opts ent' ws lead)"
  by (cases lead) (auto simp: dispatch_leading_def Let_def intro!: further)

lemma route_resolved_leq [further]:
  "leq (route_resolved w opts ent ws keyword) (route_resolved w opts ent' ws keyword)"
  unfolding route_resolved_def by (intro further)

lemma rule_step_leq [further]: "leq (rule_step w opts ent ws lead) (rule_step w opts ent' ws lead)"
  unfolding rule_step_def by (intro further)

lemma rule_loop_leq: "n \<le> n' \<Longrightarrow> leq (rule_loop w opts ent n ws) (rule_loop w opts ent' n' ws)"
proof (induction n arbitrary: ws n')
  case (Suc n)
  then obtain m where "n' = Suc m" "n \<le> m" by (cases n') auto
  with Suc.IH show ?case by (auto intro!: further)
qed simp

lemma visit_rule_leq: "F \<le> F' \<Longrightarrow> leq (visit_rule w opts ent F ws) (visit_rule w opts ent' F' ws)"
  unfolding visit_rule_def by (intro further rule_loop_leq)

lemma block_step_leq: "F \<le> F' \<Longrightarrow> leq (block_step w opts ent F ws lead) (block_step w opts ent' F' ws lead)"
  unfolding block_step_def by (intro further visit_rule_leq)

lemma block_loop_leq:
  "F \<le> F' \<Longrightarrow> n \<le> n' \<Longrightarrow> leq (block_loop w opts ent F n ws) (block_loop w opts ent' F' n' ws)"
proof (induction n arbitrary: ws n')
  case (Suc n)
  then obtain m where "n' = Suc m" "n \<le> m" by (cases n') auto
  with Suc.IH Suc.prems show ?case by (auto intro!: further block_step_leq)
qed simp

lemma enter_body_leq:
  "F \<le> F' \<Longrightarrow> leq (enter_body w opts ent F base level prev) (enter_body w opts ent' F' base level prev)"
  unfolding enter_body_def by (intro further block_loop_leq)

end

lemma enter_leq: "F \<le> F' \<Longrightarrow> leq (enter w opts F d level prev) (enter w opts F' d level prev)"
proof (induction d arbitrary: level prev)
  case (Suc d)
  then show ?case
    by (auto intro!: leq_bind leq_if deeper.enter_body_leq [OF deeper.intro])
qed simp

interpretation bound: deeper "enter w opts F d" "enter w opts (F + k) d" for w opts F k d
  by unfold_locales (rule enter_leq, simp)

text \<open>
  The step bound of the parser decides nothing but whether the run ends within it: a run that
  ends, in success or with any failure of the program, ends the same way under every larger bound.
\<close>

theorem enter_bound_irrelevant:
  assumes "\<nexists>e. enter w opts F d level prev s = Inl (OutOfFuel, e)"
  shows "enter w opts (F + k) d level prev s = enter w opts F d level prev s"
  using assms by (rule leq_run [OF bound.ent_leq])

end
