(* ===== verification/Ferm_Sample.thy ===== *)
theory Ferm_Sample
  imports Ferm_Walker_Bound Ferm_Walker_Safe
begin

text \<open>
  A closed world and a start state for evaluating the parser on a script given as its lines. The
  world has no files, no resolver and no commands; the tools of a domain are not looked up.
\<close>

definition sample_seams :: seams where
  "sample_seams =
     \<lparr>se_access = (\<lambda>_. True), se_path = [''/sbin''], se_resolve_tools = Some (\<lambda>_. []),
      se_capture_previous = None, se_emit_line = False, se_shell_snapshot = None\<rparr>"

definition sample_world :: world where
  "sample_world =
     \<lparr>w_repr = (\<lambda>_. ''?''), w_is = (\<lambda>_ _ _. False), w_search = (\<lambda>_ _. miss ''NXDOMAIN''),
      w_expand = (\<lambda>_. None), w_shell = (\<lambda>_ _. ShellStatus 1), w_glob = (\<lambda>_. []),
      w_is_dir = (\<lambda>_. False), w_is_file = (\<lambda>_. False), w_listdir = (\<lambda>_. Inr []),
      w_open = (\<lambda>_. Inl ''no such file''), w_stdin = [], w_regex_ok = (\<lambda>_. True),
      w_seams = sample_seams\<rparr>"

definition sample_state :: "string list \<Rightarrow> pstate" where
  "sample_state lines =
     \<lparr>ps_script = Some (new_script ''sample.ferm'' (Some lines) [] None), ps_words = [], ps_calls = 0,
      ps_scope = push_frame [] empty_scope, ps_kw = [], ps_cells = [], ps_domains = [],
      ps_pre_hooks = [], ps_post_hooks = [], ps_flush_hooks = [], ps_stderr = [], ps_lines = []\<rparr>"

text \<open>A rule whose option \<^verbatim>\<open>dport\<close> holds an array.\<close>

definition sample_cells :: cells where
  "sample_cells =
     [\<lparr>op_name = ''protocol'', op_value = VStr ''tcp'', op_kind = KProto, op_module = None, op_chosen = VNone\<rparr>,
      \<lparr>op_name = ''dport'', op_value = VList [VStr ''22'', VStr ''80''], op_kind = KOption, op_module = None,
       op_chosen = VNone\<rparr>]"

definition sample_rule :: rule where
  "sample_rule = (fst (fresh_rule []))\<lparr>ru_options := [0, 1]\<rparr>"

section \<open>Witnesses\<close>

lemma mkrules2_product_witness:
  "\<exists>rs cs. mkrules2 (w_call sample_world) ''ip'' [] sample_rule sample_cells = Inr (rs, cs) \<and>
     map (map ro_value \<circ> rr_options) rs = [[VStr ''tcp'', VStr ''22''], [VStr ''tcp'', VStr ''80'']]"
proof -
  have hyps: "unfoldable sample_rule sample_cells [[VStr ''22'', VStr ''80'']]"
    "choices (w_call sample_world) ''ip'' sample_rule sample_cells = Inr [[VStr ''22'', VStr ''80'']]"
    by code_simp+
  have "map (map ro_value \<circ> rr_options)
      (map (\<lambda>vs. render_with sample_rule sample_cells
              (extend_sel Map.empty (array_options sample_rule sample_cells) vs))
           (product_lists [[VStr ''22'', VStr ''80'']])) =
      [[VStr ''tcp'', VStr ''22''], [VStr ''tcp'', VStr ''80'']]"
    by code_simp
  with mkrules2_product [OF hyps, of "[]"] show ?thesis by (metis append_Nil)
qed

text \<open>Three nested blocks on two lines, with a chain already known to the parser.\<close>

definition sample_domains :: domains where
  "sample_domains =
     [(IP, new_domain\<lparr>di_tables := [(''filter'', new_table\<lparr>ti_chains :=
        [(''INPUT'', new_chain\<lparr>ci_policy := Some ''DROP'', ci_priority := Some (-5)\<rparr>)]\<rparr>)]\<rparr>)]"

definition sample_start :: pstate where
  "sample_start = (sample_state [''{ { }'', ''{ } }''])\<lparr>ps_domains := sample_domains\<rparr>"

lemma sample_run: "\<exists>t. enter sample_world default_options 5 3 0 None sample_start = Inr ((), t)"
proof -
  have "\<not> isl (enter sample_world default_options 5 3 0 None sample_start)" by code_simp
  then show ?thesis by (cases "enter sample_world default_options 5 3 0 None sample_start") auto
qed

lemma enter_bound_irrelevant_witness:
  "enter sample_world default_options (5 + 100) 3 0 None sample_start =
   enter sample_world default_options 5 3 0 None sample_start"
  by (rule enter_bound_irrelevant) (use sample_run in auto)

lemma enter_keeps_domains_witness:
  "\<exists>t. enter sample_world default_options 5 3 0 None sample_start = Inr ((), t) \<and>
     domains_ok default_options (ps_domains t) \<and> length (so_stack (ps_scope t)) = 1"
proof -
  obtain t where run: "enter sample_world default_options 5 3 0 None sample_start = Inr ((), t)"
    using sample_run by blast
  have "seams_ok default_options (w_seams sample_world)"
    by (simp add: seams_ok_def sample_world_def sample_seams_def)
  moreover have "domains_ok default_options (ps_domains sample_start)"
    by (auto simp: sample_start_def sample_domains_def domains_ok_def domain_ok_def table_ok_def chain_ok_def
        new_domain_def new_table_def new_chain_def dict_get_def CORE_TARGETS_def split: if_splits)
  moreover have "length (so_stack (ps_scope sample_start)) = 1"
    by (simp add: sample_start_def sample_state_def push_frame_def empty_scope_def)
  ultimately show ?thesis
    using run enter_keeps_domains [OF _ _ _ run] by (metis length_0_conv zero_neq_one)
qed

end
