(* ===== verification/Ferm_Findings.thy ===== *)
theory Ferm_Findings
  imports Ferm_Sample
begin

text \<open>
  Behaviours of the program that differ from what it means to do, each as a theorem about the
  definitions of the components.
\<close>

section \<open>The named-set guard looks at cells an outer rule has rewritten\<close>

text \<open>
  A rule with two named sets is refused with \<^verbatim>\<open>at most one named set per rule\<close>, but only
  until the enclosing rule is completed: the guard counts the references in option objects that
  the levels share, and the expansion of the enclosing rule replaces its reference by the
  elements, after which the same inner rule is accepted.
\<close>

theorem named_set_guard_depends_on_outer_rule:
  assumes "i < length (ps_cells s)" and "j < length (ps_cells s)" and "i \<noteq> j"
    and "op_value (ps_cells s ! i) = VSetRef a xs" and "op_value (ps_cells s ! j) = VSetRef b ys"
    and "ru_options outer = [i]" and "ru_options inner = [i, j]" and "\<forall>x \<in> set xs. iter_setrefs x = []"
  shows "expand_setrefs_for_iptables w inner s = errorP w ''at most one named set per rule in this version'' s \<and>
    (\<exists>t u. expand_setrefs_for_iptables w outer s = Inr ((), t) \<and>
           expand_setrefs_for_iptables w inner t = Inr ((), u))"
proof
  show "expand_setrefs_for_iptables w inner s = errorP w ''at most one named set per rule in this version'' s"
    using assms by (simp add: expand_setrefs_for_iptables_def count_setrefs_def bindP_def thenP_def errorP_def)
  let ?t = "s\<lparr>ps_cells := (ps_cells s)[i := (ps_cells s ! i)\<lparr>op_value := VList xs\<rparr>]\<rparr>"
  have nil: "iter_setrefs (VList xs) = []"
    using assms(8) by (induction xs) auto
  have "expand_setrefs_for_iptables w outer s = Inr ((), ?t)"
    using assms by (simp add: expand_setrefs_for_iptables_def count_setrefs_def bindP_def thenP_def)
  moreover have "\<exists>u. expand_setrefs_for_iptables w inner ?t = Inr ((), u)"
    using assms nil
    by (simp add: expand_setrefs_for_iptables_def count_setrefs_def bindP_def thenP_def)
  ultimately show "\<exists>t u. expand_setrefs_for_iptables w outer s = Inr ((), t) \<and>
      expand_setrefs_for_iptables w inner t = Inr ((), u)" by blast
qed

definition set_cells :: cells where
  "set_cells =
     [\<lparr>op_name = ''source'', op_value = VSetRef ''a'' [VStr ''10.0.0.1''], op_kind = KOption, op_module = None,
       op_chosen = VNone\<rparr>,
      \<lparr>op_name = ''destination'', op_value = VSetRef ''b'' [VStr ''10.0.0.2''], op_kind = KOption,
       op_module = None, op_chosen = VNone\<rparr>]"

lemma named_set_guard_depends_on_outer_rule_witness:
  "let s = (sample_state [])\<lparr>ps_cells := set_cells\<rparr>; outer = sample_rule\<lparr>ru_options := [0]\<rparr>;
       inner = sample_rule\<lparr>ru_options := [0, 1]\<rparr>
   in expand_setrefs_for_iptables sample_world inner s =
        errorP sample_world ''at most one named set per rule in this version'' s \<and>
      (\<exists>t u. expand_setrefs_for_iptables sample_world outer s = Inr ((), t) \<and>
             expand_setrefs_for_iptables sample_world inner t = Inr ((), u))"
  unfolding Let_def
  by (rule named_set_guard_depends_on_outer_rule
      [where i = 0 and j = 1 and a = "''a''" and b = "''b''" and xs = "[VStr ''10.0.0.1'']"
         and ys = "[VStr ''10.0.0.2'']"]) (simp_all add: set_cells_def)

section \<open>A named set as an argument of a function\<close>

text \<open>
  The call of a user function splices the values of its arguments into the token stream; the
  value reader accepts only a deferred value there, so a named set stops the program on an
  assertion instead of a located message.
\<close>

theorem named_set_argument_asserts:
  assumes "ps_script s = Some sc" and "script_next sc = (Some (TVal (VSetRef a xs)), sc')"
  shows "get_value w o' s = Inl (PyAssertion, ps_stderr s)"
  using assms
  by (simp add: get_value_def MAX_VALUE_DEPTH_def numeral_eq_Suc value_body_def require_next_token_def
      next_token_def readP_def bindP_def thenP_def scriptP_def set_scriptP_def)

lemma named_set_argument_asserts_witness:
  "get_value sample_world plain_opts
     ((sample_state [])\<lparr>ps_script := Some ((new_script ''f'' None [] None)\<lparr>sc_tokens := [TVal (VSetRef ''a'' [])]\<rparr>)\<rparr>) =
   Inl (PyAssertion, [])"
proof -
  let ?sc = "(new_script ''f'' None [] None)\<lparr>sc_tokens := [TVal (VSetRef ''a'' [])]\<rparr>"
  have token: "script_next ?sc = (Some (TVal (VSetRef ''a'' [])), snd (script_next ?sc))"
    by (simp add: script_next_def prepare_normal_tokens_def Let_def)
  have "get_value sample_world plain_opts ((sample_state [])\<lparr>ps_script := Some ?sc\<rparr>) =
      Inl (PyAssertion, ps_stderr ((sample_state [])\<lparr>ps_script := Some ?sc\<rparr>))"
    by (rule named_set_argument_asserts [OF _ token]) simp
  then show ?thesis by (simp add: sample_state_def)
qed

section \<open>Filtering the addresses of a resolved name\<close>

text \<open>
  \<^verbatim>\<open>@ipfilter(@resolve(host))\<close> passes the addresses of the host as separate arguments;
  unless there is exactly one, the call raises a \<^verbatim>\<open>TypeError\<close>.
\<close>

theorem ipfilter_of_resolve_type_error:
  assumes "call_deferred rp search expand DeferredResolve fam [VStr host] = Inr addresses"
    and "length addresses \<noteq> 1"
  shows "realize_deferred (call_deferred rp search expand) fam
           [VDeferred DeferredIpfilter [VDeferred DeferredResolve [VStr host]]] = Inl PyTypeError"
proof -
  have "call_deferred rp search expand DeferredIpfilter fam addresses = Inl PyTypeError"
    using assms(2) by (cases addresses; cases "tl addresses") (simp_all add: call_deferred_def)
  then show ?thesis
    using assms(1) by (simp add: realize_deferred_def ddepths_def)
qed

definition two_addresses :: searcher where
  "two_addresses host rrtype =
     \<lparr>found = True, answer = [\<lparr>rr_type = ''A'', rr_data = ''10.0.0.1''\<rparr>, \<lparr>rr_type = ''A'', rr_data = ''10.0.0.2''\<rparr>],
      errorstring = None\<rparr>"

lemma ipfilter_of_resolve_type_error_witness:
  "realize_deferred (call_deferred (\<lambda>_. []) two_addresses (\<lambda>_. None)) ''ip''
     [VDeferred DeferredIpfilter [VDeferred DeferredResolve [VStr ''example'']]] = Inl PyTypeError"
proof (rule ipfilter_of_resolve_type_error)
  show "call_deferred (\<lambda>_. []) two_addresses (\<lambda>_. None) DeferredResolve ''ip'' [VStr ''example''] =
      Inr [VStr ''10.0.0.1'', VStr ''10.0.0.2'']"
    by code_simp
qed simp

section \<open>A keyword that cannot be written\<close>

text \<open>
  The entry of the \<^verbatim>\<open>owner\<close> module for \<^verbatim>\<open>socket-exists\<close> ends in \<^verbatim>\<open>=0\<close>,
  which is no argument code: the module has no keyword \<^verbatim>\<open>socket-exists\<close>, but one named
  \<^verbatim>\<open>socket-exists=0\<close> that takes an argument.
\<close>

theorem socket_exists_keyword:
  "\<exists>md. registry_get MATCH_DEFS ''ip'' ''owner'' = Some md \<and>
     dict_get (md_keywords md) ''socket-exists'' = None \<and>
     map_option kw_params (dict_get (md_keywords md) ''socket-exists=0'') = Some (PInt 1)"
proof -
  have "map_of (match_specs_ip_1 @ match_specs_ip_2) ''owner'' =
      Some [''!uid-owner'', ''!gid-owner'', ''pid-owner'', ''sid-owner'', ''cmd-owner'', ''!socket-exists=0'']"
    by code_simp
  then have "registry_get MATCH_DEFS ''ip'' ''owner'' = Some (module_of (PInt 1)
      [''!uid-owner'', ''!gid-owner'', ''pid-owner'', ''sid-owner'', ''cmd-owner'', ''!socket-exists=0''])"
    by (simp only: match_defs_get) simp
  moreover have "dict_get (md_keywords (module_of (PInt 1)
      [''!uid-owner'', ''!gid-owner'', ''pid-owner'', ''sid-owner'', ''cmd-owner'', ''!socket-exists=0''])) ''socket-exists'' = None"
    "map_option kw_params (dict_get (md_keywords (module_of (PInt 1)
      [''!uid-owner'', ''!gid-owner'', ''pid-owner'', ''sid-owner'', ''cmd-owner'', ''!socket-exists=0''])) ''socket-exists=0'') =
      Some (PInt 1)"
    by code_simp+
  ultimately show ?thesis by blast
qed

end
