(* ===== verification/Ferm_Iptables.thy ===== *)
theory Ferm_Iptables
  imports Ferm_Domains
begin

text \<open>
  The x_tables backend, \<^verbatim>\<open>src/src/pyferm/backend/iptables.py\<close>: the gate on table and chain
  names, the quoting of option values, the text given to \<^verbatim>\<open>iptables-restore\<close>, the list of
  commands used where there is no such tool, and the construction of both from a domain.

  The version of the program, the time of day and the names of temporary files are parameters.
  The table name is inserted unescaped into a regular expression; \<open>name_atoms\<close> compiles it with
  the meaning its dots and plus signs have there.
\<close>

section \<open>The gate on names\<close>

definition name_char :: "char \<Rightarrow> bool" where
  "name_char c \<longleftrightarrow> is_word c \<or> c = CHR ''.'' \<or> c = CHR ''+'' \<or> c = CHR ''-''"

definition IPT_POLICIES :: "string list" where
  "IPT_POLICIES = CORE_TARGETS @ [''-'']"

definition validate_policy :: "string option \<Rightarrow> string option res" where
  "validate_policy policy =
     (case policy of
        Some p \<Rightarrow>
          if p \<in> set IPT_POLICIES then Inr policy
          else Inl (Died (''invalid chain policy '' @ py_repr p @ '' for iptables backend''))
      | None \<Rightarrow> Inr None)"

definition validate_ipt_name :: "string \<Rightarrow> string \<Rightarrow> string res" where
  "validate_ipt_name name kind =
     (if name \<noteq> [] \<and> list_all name_char name then Inr name
      else Inl (Died (''invalid '' @ kind @ '' name '' @ py_repr name @ '' for iptables backend'')))"

definition validate_chain :: "string \<Rightarrow> chain_info \<Rightarrow> unit res" where
  "validate_chain chain ci =
     bindR (validate_ipt_name chain ''chain'') (\<lambda>_.
     bindR (validate_policy (ci_policy ci)) (\<lambda>_.
       case ci_priority ci of
         None \<Rightarrow> Inr ()
       | Some p \<Rightarrow> Inl (Died (''chain priority ('' @ [SQUOTE] @ chain @ [SQUOTE] @ '' priority '' @
           string_of_int p @ '') is an nft-only feature; the iptables backend has no chain priority''))))"

definition validate_table :: "string \<Rightarrow> table_info \<Rightarrow> unit res" where
  "validate_table table ti =
     bindR (validate_ipt_name table ''table'') (\<lambda>_.
     bindR (mapR (\<lambda>(c, ci). validate_chain c ci) (ti_chains ti)) (\<lambda>_. Inr ()))"

definition validate_names :: "domain_info \<Rightarrow> unit res" where
  "validate_names di = bindR (mapR (\<lambda>(t, ti). validate_table t ti) (di_tables di)) (\<lambda>_. Inr ())"

section \<open>Quoting\<close>

text \<open>The anchor \<^verbatim>\<open>$\<close> accepts one final newline.\<close>

definition chomp :: "string \<Rightarrow> string" where
  "chomp s = (if s \<noteq> [] \<and> last s = NL then butlast s else s)"

definition plain_token_char :: "char \<Rightarrow> bool" where
  "plain_token_char c \<longleftrightarrow> is_word c \<or> c = CHR ''-''"

definition plain_shell_token :: "string \<Rightarrow> bool" where
  "plain_shell_token s \<longleftrightarrow> chomp s \<noteq> [] \<and> list_all plain_token_char (chomp s)"

definition backtick_token :: "string \<Rightarrow> bool" where
  "backtick_token s \<longleftrightarrow>
     (let t = chomp s
      in 2 \<le> length t \<and> hd t = BACKTICK \<and> last t = BACKTICK \<and> NL \<notin> set t)"

definition fast_special :: "char \<Rightarrow> bool" where
  "fast_special c \<longleftrightarrow> is_space c \<or> c = SQUOTE \<or> c = BACKSLASH \<or> c = CHR '';'' \<or> c = CHR ''&''"

definition slow_special :: "char \<Rightarrow> bool" where
  "slow_special c \<longleftrightarrow>
     is_space c \<or> c = DQUOTE \<or> c = BACKSLASH \<or> c = CHR '';'' \<or> c = CHR ''<'' \<or> c = CHR ''>'' \<or>
     c = CHR ''&'' \<or> c = CHR ''|''"

definition quote_if :: "(char \<Rightarrow> bool) \<Rightarrow> char \<Rightarrow> string \<Rightarrow> string" where
  "quote_if special q s = (if list_ex special s \<or> s = [] then [q] @ s @ [q] else s)"

definition shell_escape :: "bool \<Rightarrow> string \<Rightarrow> string" where
  "shell_escape fast tok =
     (if plain_shell_token tok then tok
      else if fast then quote_if fast_special DQUOTE (replace_char DQUOTE [BACKSLASH, DQUOTE] tok)
      else if backtick_token tok then tok
      else quote_if slow_special SQUOTE (replace_char SQUOTE [SQUOTE, BACKSLASH, SQUOTE, SQUOTE] tok))"

section \<open>Formatting a rule\<close>

fun scalar_text :: "cfg_value \<Rightarrow> string res" where
  "scalar_text (VStr s) = Inr s"
| "scalar_text _ = Inl internal_error_default"

text \<open>A negated array collapses to its first element; an empty one is a flag.\<close>

definition negated_payload :: "cfg_value \<Rightarrow> cfg_value" where
  "negated_payload v = (case v of VList [] \<Rightarrow> VNone | VList (x # _) \<Rightarrow> x | _ \<Rightarrow> v)"

definition unwrap_negation :: "cfg_value \<Rightarrow> string \<times> cfg_value" where
  "unwrap_negation v =
     (case v of
        VNegated x \<Rightarrow> ('' !'', negated_payload x)
      | VPreNegated x \<Rightarrow> ('' !'', negated_payload x)
      | _ \<Rightarrow> ([], v))"

definition format_scalar :: "bool \<Rightarrow> cfg_value \<Rightarrow> string res" where
  "format_scalar fast v = bindR (scalar_text v) (\<lambda>s. Inr (shell_escape fast s))"

definition shell_format_option :: "bool \<Rightarrow> string \<Rightarrow> cfg_value \<Rightarrow> string res" where
  "shell_format_option fast keyword v0 =
     (case unwrap_negation v0 of
        (cmd, v) \<Rightarrow>
          let opt = '' --'' @ keyword
          in case v of
               VNone \<Rightarrow> Inr (cmd @ opt)
             | VParams vs \<Rightarrow>
                 bindR (mapR (format_scalar fast) vs) (\<lambda>ss. Inr (cmd @ opt @ '' '' @ join_str '' '' ss))
             | VMulti vs \<Rightarrow>
                 bindR (mapR (format_scalar fast) vs) (\<lambda>ss.
                 Inr (cmd @ concat (map (\<lambda>s. opt @ '' '' @ s) ss)))
             | VStr s \<Rightarrow> Inr (cmd @ opt @ '' '' @ shell_escape fast s)
             | VSetRef n es \<Rightarrow>
                 Inl (Died ''internal: a named set reached the iptables backend unexpanded'')
             | _ \<Rightarrow> Inl internal_error_default)"

definition ICMP6_REJECT_MAP :: "(string, string) dict" where
  "ICMP6_REJECT_MAP =
     [(''icmp-net-unreachable'', ''icmp6-no-route''),
      (''icmp-host-unreachable'', ''icmp6-addr-unreachable''),
      (''icmp-port-unreachable'', ''icmp6-port-unreachable''),
      (''icmp-net-prohibited'', ''icmp6-adm-prohibited''),
      (''icmp-host-prohibited'', ''icmp6-adm-prohibited''),
      (''icmp-admin-prohibited'', ''icmp6-adm-prohibited'')]"

definition family_option :: "family \<Rightarrow> string \<Rightarrow> cfg_value \<Rightarrow> string \<times> cfg_value" where
  "family_option fam name v =
     (if fam = IP6
      then
        let v1 = (if name = ''protocol'' \<and> v = VStr ''icmp'' then VStr ''icmpv6'' else v);
            name1 = (if name = ''icmp-type'' then ''icmpv6-type'' else name);
            v2 = (case v1 of
                    VStr s \<Rightarrow> if name1 = ''reject-with''
                              then VStr (case dict_get ICMP6_REJECT_MAP s of None \<Rightarrow> s | Some t \<Rightarrow> t) else v1
                  | _ \<Rightarrow> v1)
        in (name1, v2)
      else (name, v))"

definition format_option :: "family \<Rightarrow> bool \<Rightarrow> string \<Rightarrow> cfg_value \<Rightarrow> string res" where
  "format_option fam fast name v =
     (case family_option fam name v of (name', v') \<Rightarrow> shell_format_option fast name' v')"

definition format_rule :: "family \<Rightarrow> bool \<Rightarrow> rendered_rule \<Rightarrow> string res" where
  "format_rule fam fast rr =
     bindR (mapR (\<lambda>o'. format_option fam fast (ro_name o') (ro_value o')) (rr_options rr)) (\<lambda>ss.
     Inr (concat ss))"

section \<open>Reading the previous save text\<close>

text \<open>
  A table name as a regular expression: each character with the quantifier the plus signs after
  it give it. A second plus makes the match possessive, a third one is an error.
\<close>

datatype quantifier = Once | Plus | Possessive

type_synonym atoms = "((char \<Rightarrow> bool) \<times> quantifier) list"

fun name_atoms :: "string \<Rightarrow> atoms \<Rightarrow> atoms res" where
  "name_atoms [] done_atoms = Inr done_atoms"
| "name_atoms (c # cs) done_atoms =
     (if c = CHR ''+''
      then (case last done_atoms of
              (p, Once) \<Rightarrow> name_atoms cs (butlast done_atoms @ [(p, Plus)])
            | (p, Plus) \<Rightarrow> name_atoms cs (butlast done_atoms @ [(p, Possessive)])
            | (p, Possessive) \<Rightarrow> Inl PyRegexError)
      else if c = CHR ''.'' then name_atoms cs (done_atoms @ [(\<lambda>_. True, Once)])
      else name_atoms cs (done_atoms @ [(\<lambda>d. d = c, Once)]))"

text \<open>The lengths a repeated character can take, the longest first.\<close>

definition run_lengths :: "(char \<Rightarrow> bool) \<Rightarrow> nat \<Rightarrow> string \<Rightarrow> nat list" where
  "run_lengths p least s = rev [least..<Suc (length (takeWhile p s))]"

definition atom_lengths :: "(char \<Rightarrow> bool) \<times> quantifier \<Rightarrow> string \<Rightarrow> nat list" where
  "atom_lengths a s =
     (case a of
        (p, Once) \<Rightarrow> (if s \<noteq> [] \<and> p (hd s) then [1] else [])
      | (p, Plus) \<Rightarrow> run_lengths p 1 s
      | (p, Possessive) \<Rightarrow> take 1 (run_lengths p 1 s))"

fun atoms_ends :: "atoms \<Rightarrow> string \<Rightarrow> nat \<Rightarrow> nat list" where
  "atoms_ends [] s i = [i]"
| "atoms_ends (a # as) s i = concat (map (\<lambda>n. atoms_ends as s (i + n)) (atom_lengths a (drop i s)))"

definition at_line_start :: "string \<Rightarrow> nat \<Rightarrow> bool" where
  "at_line_start s i \<longleftrightarrow> i = 0 \<or> s ! (i - 1) = NL"

text \<open>\<^verbatim>\<open>^COMMIT\s*$\<close> at position \<open>i\<close>.\<close>

definition commit_at :: "string \<Rightarrow> nat \<Rightarrow> bool" where
  "commit_at s i \<longleftrightarrow>
     at_line_start s i \<and> starts_with ''COMMIT'' (drop i s) \<and>
     (let rest = drop (i + 6) s; blanks = takeWhile py_space rest
      in NL \<in> set blanks \<or> length blanks = length rest)"

definition table_starts :: "atoms \<Rightarrow> string \<Rightarrow> nat list" where
  "table_starts as s =
     concat (map (\<lambda>i. if at_line_start s i
       then concat (map (\<lambda>j. concat (map (\<lambda>a. map (\<lambda>b. j + a + b)
              (run_lengths (\<lambda>c. c = CHR ''s'') 0 (drop (j + a) s)))
            (run_lengths py_space 0 (drop j s))))
          (atoms_ends as s i))
       else []) [0..<Suc (length s)])"

definition extract_table_from_save :: "string \<Rightarrow> string \<Rightarrow> string res" where
  "extract_table_from_save save table =
     bindR (name_atoms table [(\<lambda>c. c = CHR ''*'', Once)]) (\<lambda>as.
     Inr (case concat (map (\<lambda>k. map (\<lambda>e. (k, e)) (take 1 (filter (commit_at save) [k..<Suc (length save)])))
                        (table_starts as save)) of
            [] \<Rightarrow> []
          | (k, e) # _ \<Rightarrow> take (e - k) (drop k save)))"

text \<open>
  The matches of \<open>p\<close>\<^verbatim>\<open>.*\n\<close> at line starts; \<open>bol\<close> tells whether the text begins a line.
\<close>

function line_matches :: "string \<Rightarrow> bool \<Rightarrow> string \<Rightarrow> string list" where
  "line_matches p bol [] = []"
| "line_matches p bol (c # s) =
     (let rest = drop (length p) (c # s); body = line_head rest
      in if bol \<and> starts_with p (c # s) \<and> length body < length rest
         then (p @ body @ [NL]) # line_matches p True (drop (Suc (length body)) rest)
         else line_matches p (c = NL) s)"
  by pat_completeness auto
termination by (relation "measure (\<lambda>(p, bol, s). length s)") auto

declare line_matches.simps(2) [simp del]

definition extract_chain_from_table_save :: "string \<Rightarrow> string \<Rightarrow> string" where
  "extract_chain_from_table_save table_save chain =
     concat (line_matches (''-A '' @ chain @ '' '') True table_save)"

definition preserve_header :: "string \<Rightarrow> string \<Rightarrow> string option" where
  "preserve_header table_save chain =
     (case line_matches ('':'' @ chain @ '' '') True table_save of [] \<Rightarrow> None | l # _ \<Rightarrow> Some l)"

text \<open>The chains the pattern \<^verbatim>\<open>^:([^ ]+) .*\<close> finds, in order.\<close>

definition not_blank :: "char \<Rightarrow> bool" where
  "not_blank c \<longleftrightarrow> c \<noteq> CHR '' ''"

function listed_chains :: "bool \<Rightarrow> string \<Rightarrow> string list" where
  "listed_chains bol [] = []"
| "listed_chains bol (c # s) =
     (let name = takeWhile not_blank s; rest = dropWhile not_blank s
      in if bol \<and> c = CHR '':'' \<and> name \<noteq> [] \<and> rest \<noteq> []
         then name # listed_chains False (dropWhile (\<lambda>d. d \<noteq> NL) rest)
         else listed_chains (c = NL) s)"
  by pat_completeness auto
termination
  by (relation "measure (\<lambda>(bol, s). length s)")
    (auto intro: le_less_trans [OF order_trans [OF length_dropWhile_le length_dropWhile_le]])

declare listed_chains.simps(2) [simp del]

definition resolve_dynamic_preserve ::
  "(string \<Rightarrow> string \<Rightarrow> bool) \<Rightarrow> table_info \<Rightarrow> string \<Rightarrow> (string, chain_info) dict" where
  "resolve_dynamic_preserve search ti table_save =
     fold (\<lambda>c added.
         if dict_has (ti_chains ti) c then added
         else if \<exists>r \<in> set (ti_preserve_regexes ti). search r c
         then dict_set c (new_chain\<lparr>ci_preserve := True\<rparr>) added
         else added)
       (listed_chains True table_save) []"

section \<open>The save text\<close>

text \<open>\<open>pv_search\<close> searches a configured pattern in a chain name; the rest goes into the header.\<close>

record save_params =
  pv_search :: "string \<Rightarrow> string \<Rightarrow> bool"
  pv_version :: string
  pv_now :: string

definition save_rule :: "family \<Rightarrow> string \<Rightarrow> rendered_rule \<Rightarrow> string res" where
  "save_rule fam chain rr =
     bindR (format_rule fam True rr) (\<lambda>txt. Inr (''-A '' @ chain @ txt @ [NL]))"

definition table_chain_to_save ::
  "family \<Rightarrow> options \<Rightarrow> (string, string) dict \<Rightarrow> string \<Rightarrow> chain_info \<Rightarrow> string res" where
  "table_chain_to_save fam opts preserved chain ci =
     (let kept = (case dict_get preserved chain of None \<Rightarrow> [] | Some t \<Rightarrow> t)
      in if opt_flush opts then Inr kept
         else bindR (mapR (save_rule fam chain) (ci_rules ci)) (\<lambda>ls. Inr (kept @ concat ls)))"

definition sorted_chains :: "(string, 'a) dict \<Rightarrow> (string \<times> 'a) list" where
  "sorted_chains d = map (\<lambda>c. (c, the (dict_get d c))) (sort (dict_keys d))"

definition table_to_save ::
  "family \<Rightarrow> (string, chain_info) dict \<Rightarrow> options \<Rightarrow> (string, string) dict \<Rightarrow> string res" where
  "table_to_save fam cs opts preserved =
     bindR (mapR (\<lambda>(c, ci). table_chain_to_save fam opts preserved c ci) (sorted_chains cs)) (\<lambda>ls.
     Inr (concat ls))"

text \<open>The line that declares a chain with its policy; a synthesized chain has the policy \<^verbatim>\<open>-\<close>.\<close>

definition policy_line :: "string \<Rightarrow> options \<Rightarrow> string \<Rightarrow> chain_info \<Rightarrow> string" where
  "policy_line table opts chain ci =
     (let line = (\<lambda>p. '':'' @ chain @ '' '' @ p @ '' [0:0]'' @ [NL])
      in case (if opt_flush opts then None else ci_policy ci) of
           Some p \<Rightarrow> line p
         | None \<Rightarrow>
             if is_netfilter_builtin_chain table chain then line ''ACCEPT''
             else if opt_flush opts then [] else line ''-'')"

text \<open>One turn of the loop over the chains: the text so far and the preserved rules.\<close>

definition declare_chain ::
  "string \<Rightarrow> options \<Rightarrow> string \<Rightarrow> string \<times> chain_info \<Rightarrow> string \<times> (string, string) dict \<Rightarrow>
   string \<times> (string, string) dict" where
  "declare_chain table opts table_save entry st =
     (case (entry, st) of
        ((chain, ci), (txt, preserved)) \<Rightarrow>
          if ci_preserve ci
          then
            let preserved' = dict_set chain (extract_chain_from_table_save table_save chain) preserved
            in (case preserve_header table_save chain of
                  Some l \<Rightarrow> (txt @ l, preserved')
                | None \<Rightarrow> (txt @ policy_line table opts chain ci, preserved'))
          else (txt @ policy_line table opts chain ci, preserved))"

definition save_of_table ::
  "family \<Rightarrow> save_params \<Rightarrow> options \<Rightarrow> string option \<Rightarrow> string \<Rightarrow> table_info \<Rightarrow> string res" where
  "save_of_table fam pv opts previous table ti =
     (let needed = ti_preserve_regexes ti \<noteq> [] \<or> list_ex (\<lambda>(c, ci). ci_preserve ci) (ti_chains ti)
      in bindR (if needed
                then extract_table_from_save (case previous of None \<Rightarrow> [] | Some p \<Rightarrow> p) table
                else Inr []) (\<lambda>table_save.
         let known = (if ti_preserve_regexes ti = [] then ti_chains ti
                       else dict_update (ti_chains ti)
                              (resolve_dynamic_preserve (pv_search pv) ti table_save))
         in case fold (declare_chain table opts table_save) (sorted_chains known) ([], []) of
              (decls, preserved) \<Rightarrow>
                bindR (table_to_save fam known opts preserved) (\<lambda>rules.
                Inr (''*'' @ table @ [NL] @ decls @ rules @ ''COMMIT'' @ [NL]))))"

text \<open>\<^verbatim>\<open>re.sub(".*/", "", path)\<close>: on every line, what follows the last slash.\<close>

definition after_slash :: "string \<Rightarrow> string" where
  "after_slash s = rev (takeWhile (\<lambda>c. c \<noteq> CHR ''/'') (rev s))"

definition tool_name :: "string \<Rightarrow> string" where
  "tool_name path = concat (map after_slash (lines_keep path))"

definition rules_to_save ::
  "family \<Rightarrow> save_params \<Rightarrow> domain_info \<Rightarrow> options \<Rightarrow> string res" where
  "rules_to_save fam pv di opts =
     (case dict_get (di_tools di) TOOL_SAVE of
        None \<Rightarrow> Inl PyKeyError
      | Some path \<Rightarrow>
          bindR (mapR (\<lambda>(t, ti). save_of_table fam pv opts (di_previous di) t ti)
                      (sorted_chains (di_tables di))) (\<lambda>ts.
          Inr (''# Generated by ferm '' @ pv_version pv @ '' ('' @ tool_name path @ '') on '' @
               pv_now pv @ [NL] @ concat ts)))"

section \<open>The commands of the slow mode\<close>

text \<open>A command and whether it is skipped once an earlier guarded one has failed.\<close>

record command =
  cm_text :: string
  cm_guarded :: bool

definition guarded :: "string \<Rightarrow> command" where
  "guarded t = \<lparr>cm_text = t, cm_guarded = True\<rparr>"

definition unguarded :: "string \<Rightarrow> command" where
  "unguarded t = \<lparr>cm_text = t, cm_guarded = False\<rparr>"

definition ebt_atomic :: "string \<Rightarrow> string \<Rightarrow> string \<Rightarrow> string \<Rightarrow> string" where
  "ebt_atomic domain_cmd eb_table name flag =
     domain_cmd @ '' -t '' @ eb_table @ '' --atomic-file '' @ name @ '' '' @ flag"

definition ebt_open_frames :: "string \<Rightarrow> (string \<Rightarrow> string) \<Rightarrow> command list" where
  "ebt_open_frames domain_cmd tmp =
     concat (map (\<lambda>t.
       [unguarded (ebt_atomic domain_cmd t (tmp t) ''--atomic-init''),
        unguarded (ebt_atomic domain_cmd t (tmp t) ''--init-table'')]) EB_TABLES)"

definition ebt_commit_frames :: "string \<Rightarrow> (string \<Rightarrow> string) \<Rightarrow> command list" where
  "ebt_commit_frames domain_cmd tmp =
     map (\<lambda>t. unguarded (ebt_atomic domain_cmd t (tmp t) ''--atomic-commit'')) EB_TABLES"

definition reset_policies :: "string \<Rightarrow> string \<Rightarrow> options \<Rightarrow> table_info \<Rightarrow> command list" where
  "reset_policies table_cmd table opts ti =
     concat (map (\<lambda>(c, ci).
       if (ci_builtin ci \<or> (\<not> ti_has_builtin ti \<and> is_netfilter_builtin_chain table c)) \<and> \<not> opt_noflush opts
       then [guarded (table_cmd @ '' -P '' @ c @ '' ACCEPT'')] else []) (ti_chains ti))"

definition create_chain :: "string \<Rightarrow> string \<Rightarrow> string \<times> chain_info \<Rightarrow> command list" where
  "create_chain table_cmd table entry =
     (case entry of
        (c, ci) \<Rightarrow>
          if is_netfilter_builtin_chain table c
          then (case ci_policy ci of
                  Some p \<Rightarrow> if p \<noteq> ''ACCEPT'' then [guarded (table_cmd @ '' -P '' @ c @ '' '' @ p)] else []
                | None \<Rightarrow> [])
          else (case ci_policy ci of
                  Some p \<Rightarrow> [guarded (table_cmd @ '' -N '' @ c @ '' -P '' @ p)]
                | None \<Rightarrow> [guarded (table_cmd @ '' -N '' @ c)]))"

definition dump_chain ::
  "family \<Rightarrow> options \<Rightarrow> string \<Rightarrow> string \<times> chain_info \<Rightarrow> command list res" where
  "dump_chain fam opts table_cmd entry =
     (case entry of
        (c, ci) \<Rightarrow>
          mapR (\<lambda>rr. bindR (format_rule fam (opt_fast opts) rr) (\<lambda>txt.
            Inr (guarded (table_cmd @ '' -A '' @ c @ txt)))) (ci_rules ci))"

definition table_commands ::
  "family \<Rightarrow> options \<Rightarrow> string \<Rightarrow> string \<Rightarrow> table_info \<Rightarrow> command list res" where
  "table_commands fam opts table_cmd table ti =
     (let clear = reset_policies table_cmd table opts ti @
                  (if opt_noflush opts then [] else [guarded (table_cmd @ '' -F''), guarded (table_cmd @ '' -X'')])
      in if opt_flush opts then Inr clear
         else bindR (mapR (dump_chain fam opts table_cmd) (ti_chains ti)) (\<lambda>rules.
              Inr (clear @ concat (map (create_chain table_cmd table) (ti_chains ti)) @ concat rules)))"

datatype rendered = Save string | Commands "command list"

definition slow_table ::
  "family \<Rightarrow> options \<Rightarrow> string \<Rightarrow> (string \<Rightarrow> string) \<Rightarrow> string \<times> table_info \<Rightarrow> command list res" where
  "slow_table fam opts domain_cmd tmp entry =
     (case entry of
        (table, ti) \<Rightarrow>
          table_commands fam opts
            (domain_cmd @ '' -t '' @ table @
             (if fam = EB then '' --atomic-file '' @ tmp table else [])) table ti)"

definition render_slow ::
  "family \<Rightarrow> (string \<Rightarrow> string) \<Rightarrow> domain_info \<Rightarrow> options \<Rightarrow> rendered res" where
  "render_slow fam tmp di opts =
     (case dict_get (di_tools di) TOOL_TABLES of
        None \<Rightarrow> Inl PyKeyError
      | Some domain_cmd \<Rightarrow>
          (case (if fam = EB then find (\<lambda>t. t \<notin> set EB_TABLES) (dict_keys (di_tables di)) else None) of
             Some t \<Rightarrow> Inl (Died (''ebtables has no table '' @ [SQUOTE] @ t @ [SQUOTE]))
           | None \<Rightarrow>
               bindR (mapR (slow_table fam opts domain_cmd tmp) (di_tables di)) (\<lambda>cs.
               Inr (Commands
                 ((if fam = EB then ebt_open_frames domain_cmd tmp else []) @ concat cs @
                  (if fam = EB then ebt_commit_frames domain_cmd tmp else []))))))"

section \<open>Rendering\<close>

definition render ::
  "family \<Rightarrow> save_params \<Rightarrow> (string \<Rightarrow> string) \<Rightarrow> domain_info \<Rightarrow> options \<Rightarrow> rendered res" where
  "render fam pv tmp di opts =
     bindR (validate_names di) (\<lambda>_.
       if opt_fast opts \<and> dict_has (di_tools di) TOOL_RESTORE
       then bindR (rules_to_save fam pv di opts) (\<lambda>s. Inr (Save s))
       else render_slow fam tmp di opts)"

text \<open>The lines of the generated shell script that save and restore the running rules.\<close>

definition shell_snapshot :: "family \<Rightarrow> domain_info \<Rightarrow> ((string \<times> string) \<times> string) option" where
  "shell_snapshot fam di =
     (case (dict_get (di_tools di) TOOL_SAVE, dict_get (di_tools di) TOOL_RESTORE) of
        (Some save, Some restore) \<Rightarrow>
          Some ((family_name fam @ ''_tmp=$(mktemp ferm.XXXXXXXXXX)'' @ [NL],
                 save @ '' >$'' @ family_name fam @ ''_tmp'' @ [NL]),
                restore @ '' <$'' @ family_name fam @ ''_tmp'' @ [NL])
      | _ \<Rightarrow> None)"

end
