(* ===== verification/Ferm_Io.thy ===== *)
theory Ferm_Io
  imports Ferm_Iptables
begin

text \<open>
  The effects of a run, \<^verbatim>\<open>src/src/pyferm/cli/io.py\<close>, and the settled options,
  \<^verbatim>\<open>src/src/pyferm/cli/options.py\<close>.

  A run is described by the events it causes, the newest first; the operating system answers each
  event and may look at everything that happened before. Spawned processes are told apart by how
  they are started: through the shell, directly, with a text on their standard input, or with
  their output captured. \<open>OsError\<close> is an exception of the
  operating system nobody catches, \<open>Exit\<close> is \<^verbatim>\<open>SystemExit\<close>, \<open>RolledBack\<close> and \<open>Untouched\<close> are the two exits
  that \<^verbatim>\<open>cli/apply.py\<close> tells apart.
\<close>

section \<open>Effects\<close>

datatype event =
    Shell string
  | Spawn "string list"
  | Pipe "string list" string
  | Capture "string list"
  | Emit string
  | Stderr string
  | AskUser int
  | AskLine

text \<open>What the system answers: the exit status, standard output and standard error, or no process.\<close>

datatype outcome = Finished int string string | Unspawnable string

type_synonym os = "event list \<Rightarrow> outcome"

datatype stop = Raised failure | OsError string | Exit int | RolledBack | Untouched failure

type_synonym 'a act = "os \<Rightarrow> event list \<Rightarrow> (stop + 'a) \<times> event list"

definition retA :: "'a \<Rightarrow> 'a act" where
  "retA x = (\<lambda>os h. (Inr x, h))"

definition stopA :: "stop \<Rightarrow> 'a act" where
  "stopA e = (\<lambda>os h. (Inl e, h))"

definition bindA :: "'a act \<Rightarrow> ('a \<Rightarrow> 'b act) \<Rightarrow> 'b act" where
  "bindA m f = (\<lambda>os h. case m os h of (Inl e, h') \<Rightarrow> (Inl e, h') | (Inr x, h') \<Rightarrow> f x os h')"

definition thenA :: "'a act \<Rightarrow> 'b act \<Rightarrow> 'b act" where
  "thenA m k = bindA m (\<lambda>_. k)"

definition sayA :: "event \<Rightarrow> unit act" where
  "sayA e = (\<lambda>os h. (Inr (), e # h))"

definition askA :: "event \<Rightarrow> outcome act" where
  "askA e = (\<lambda>os h. (Inr (os (e # h)), e # h))"

definition liftA :: "'a res \<Rightarrow> 'a act" where
  "liftA r = (case r of Inl e \<Rightarrow> stopA (Raised e) | Inr x \<Rightarrow> retA x)"

definition whenA :: "bool \<Rightarrow> unit act \<Rightarrow> unit act" where
  "whenA b m = (if b then m else retA ())"

fun eachA :: "('a \<Rightarrow> unit act) \<Rightarrow> 'a list \<Rightarrow> unit act" where
  "eachA f [] = retA ()"
| "eachA f (x # xs) = thenA (f x) (eachA f xs)"

text \<open>A \<^verbatim>\<open>FermError\<close> is what the program raises itself.\<close>

fun is_ferm_error :: "failure \<Rightarrow> bool" where
  "is_ferm_error (Located _) = True"
| "is_ferm_error (Died _) = True"
| "is_ferm_error _ = False"

fun failure_text :: "failure \<Rightarrow> string" where
  "failure_text (Located m) = m"
| "failure_text (Died m) = m"
| "failure_text _ = []"

text \<open>\<^verbatim>\<open>except FermError\<close>\<close>

definition catchA :: "'a act \<Rightarrow> (failure \<Rightarrow> 'a act) \<Rightarrow> 'a act" where
  "catchA m f = (\<lambda>os h. case m os h of
     (Inl (Raised e), h') \<Rightarrow> if is_ferm_error e then f e os h' else (Inl (Raised e), h')
   | r \<Rightarrow> r)"

text \<open>A process cannot be given an argument with a zero byte.\<close>

definition NUL :: char where "NUL = CHR 0x00"

definition spawnA :: "event \<Rightarrow> string list \<Rightarrow> outcome act" where
  "spawnA e argv = (if list_ex (\<lambda>a. NUL \<in> set a) argv then stopA (Raised PyValueError) else askA e)"

section \<open>Running commands\<close>

definition SHELL_META :: string where
  "SHELL_META = ''$&*(){}[]'' @ [SQUOTE, DQUOTE] @ '';'' @ [BACKSLASH] @ ''|?<>~'' @ [BACKTICK, NL]"

definition var_assign :: "string \<Rightarrow> bool" where
  "var_assign s \<longleftrightarrow> starts_with ''='' (dropWhile is_alpha s)"

definition use_shell :: "string \<Rightarrow> bool" where
  "use_shell command \<longleftrightarrow>
     starts_with ''. '' command \<or> var_assign command \<or> list_ex (\<lambda>c. c \<in> set SHELL_META) command \<or>
     py_split command = []"

definition emit_line :: "string \<Rightarrow> unit act" where
  "emit_line text = sayA (Emit text)"

definition process_of :: "string \<Rightarrow> event" where
  "process_of command = (if use_shell command then Shell command else Spawn (py_split command))"

definition process_args :: "string \<Rightarrow> string list" where
  "process_args command = (if use_shell command then [command] else py_split command)"

definition exit_status :: "outcome \<Rightarrow> int option act" where
  "exit_status r =
     (case r of
        Unspawnable e \<Rightarrow> thenA (sayA (Stderr (''failed to execute: '' @ e @ [NL]))) (stopA (Exit 1))
      | Finished ret _ _ \<Rightarrow>
          if ret = 0 then retA None
          else if ret < 0
          then thenA (sayA (Stderr (''child died with signal '' @ string_of_int (- ret) @ [NL])))
                 (retA (Some 1))
          else retA (Some ret))"

definition execute :: "options \<Rightarrow> string \<Rightarrow> int option act" where
  "execute opts command =
     thenA (whenA (opt_lines opts) (emit_line (command @ [NL])))
     (if opt_noexec opts then retA None
      else bindA (spawnA (process_of command) (process_args command)) exit_status)"

definition read_save :: "options \<Rightarrow> string \<Rightarrow> string option act" where
  "read_save opts tool =
     bindA (spawnA (Capture [tool]) [tool]) (\<lambda>r.
       case r of
         Unspawnable e \<Rightarrow>
           if opt_plan opts
           then stopA (Raised (Died (''failed to read current ruleset via '' @ tool @ '': '' @ e)))
           else retA (Some [])
       | Finished ret out _ \<Rightarrow>
           if opt_plan opts \<and> ret \<noteq> 0
           then stopA (Raised (Died (tool @ '' exited '' @ string_of_int ret @ ''; cannot build a plan'')))
           else retA (Some out))"

definition contains_text :: "string \<Rightarrow> string \<Rightarrow> bool" where
  "contains_text p s \<longleftrightarrow> list_ex (starts_with p) (suffixes s)"

definition capture :: "options \<Rightarrow> string \<Rightarrow> string option act" where
  "capture opts command =
     (if opt_noexec opts \<and> \<not> opt_plan opts then retA None
      else bindA (spawnA (Capture (py_split command)) (py_split command)) (\<lambda>r.
        case r of
          Unspawnable e \<Rightarrow> stopA (Raised (Died (''failed to snapshot for rollback: '' @ e)))
        | Finished ret out err \<Rightarrow>
            if ret = 0 then retA (if out = [] then None else Some out)
            else if contains_text ''No such file or directory'' err then retA None
            else stopA (Raised (Died (''failed to snapshot for rollback: '' @
                   (if py_strip err = [] then ''exit '' @ string_of_int ret else py_strip err))))))"

definition restore_argv :: "options \<Rightarrow> string \<Rightarrow> string list" where
  "restore_argv opts path = path # (if opt_noflush opts then [''--noflush''] else [])"

definition restore_domain :: "options \<Rightarrow> domain_info \<Rightarrow> string \<Rightarrow> unit act" where
  "restore_domain opts di save =
     (case dict_get (di_tools di) TOOL_RESTORE of
        None \<Rightarrow> stopA (Raised PyKeyError)
      | Some path \<Rightarrow>
          bindA (spawnA (Pipe (restore_argv opts path) save) (restore_argv opts path)) (\<lambda>r.
               case r of
                 Unspawnable e \<Rightarrow> stopA (Raised (Died (''Failed to run '' @ path @ '': '' @ e)))
               | Finished ret _ _ \<Rightarrow>
                   if ret \<noteq> 0 then stopA (Raised (Died (''Failed to run '' @ path))) else retA ()))"

definition TOOL_NFT :: string where "TOOL_NFT = ''nft''"

definition run_failed :: "string \<Rightarrow> string \<Rightarrow> stop" where
  "run_failed path e = Raised (Died (''Failed to run '' @ path @ '': '' @ e))"

definition nft_check_save :: "string \<Rightarrow> string \<Rightarrow> unit act" where
  "nft_check_save path save =
     bindA (spawnA (Pipe [path, ''-c'', ''-f'', ''-''] save) [path]) (\<lambda>r.
       case r of
         Unspawnable e \<Rightarrow> stopA (run_failed path e)
       | Finished ret _ err \<Rightarrow>
           if ret \<noteq> 0
           then stopA (Raised (Died (if py_strip err = [] then ''Failed to run '' @ path @ '' -c''
                                     else py_strip err)))
           else retA ())"

definition validate_desired_nft :: "options \<Rightarrow> string \<Rightarrow> string \<Rightarrow> unit act" where
  "validate_desired_nft opts path save = (if opt_test opts then retA () else nft_check_save path save)"

definition nft_restore :: "domain_info \<Rightarrow> string \<Rightarrow> unit act" where
  "nft_restore di save =
     (case dict_get (di_tools di) TOOL_NFT of
        None \<Rightarrow> stopA (Raised PyKeyError)
      | Some path \<Rightarrow>
          thenA (nft_check_save path save)
          (bindA (spawnA (Pipe [path, ''-f'', ''-''] save) [path]) (\<lambda>r.
             case r of
               Unspawnable e \<Rightarrow> stopA (run_failed path e)
             | Finished ret _ _ \<Rightarrow>
                 if ret \<noteq> 0 then stopA (Raised (Died (''Failed to run '' @ path))) else retA ())))"

definition restore_rules :: "options \<Rightarrow> domain_info \<Rightarrow> string \<Rightarrow> unit act" where
  "restore_rules opts di save = (if opt_nft opts then nft_restore di save else restore_domain opts di save)"

text \<open>The exit status of a hook is ignored; one that cannot be started ends the run.\<close>

definition run_hook :: "options \<Rightarrow> string \<Rightarrow> unit act" where
  "run_hook opts command =
     thenA (whenA (opt_lines opts) (emit_line (command @ [NL])))
     (whenA (\<not> opt_noexec opts)
       (bindA (spawnA (Shell command) [command]) (\<lambda>r.
          case r of Unspawnable e \<Rightarrow> stopA (OsError e) | Finished _ _ _ \<Rightarrow> retA ())))"

definition family_rank :: "family \<Rightarrow> nat" where
  "family_rank fam = (case fam of ARP \<Rightarrow> 0 | EB \<Rightarrow> 1 | IP \<Rightarrow> 2 | IP6 \<Rightarrow> 3)"

definition sorted_domains :: "domains \<Rightarrow> (family \<times> domain_info) list" where
  "sorted_domains ds = map (\<lambda>f. (f, the (dict_get ds f))) (sort_key family_rank (dict_keys ds))"

definition enabled_domains :: "domains \<Rightarrow> (family \<times> domain_info) list" where
  "enabled_domains ds = filter (\<lambda>(f, di). di_enabled di) (sorted_domains ds)"

section \<open>Reasoning about runs\<close>

lemma retA_iff [simp]: "retA x os h = (r, h') \<longleftrightarrow> r = Inr x \<and> h' = h"
  by (auto simp: retA_def)

lemma stopA_iff [simp]: "stopA e os h = (r, h') \<longleftrightarrow> r = Inl e \<and> h' = h"
  by (auto simp: stopA_def)

lemma sayA_iff [simp]: "sayA e os h = (r, h') \<longleftrightarrow> r = Inr () \<and> h' = e # h"
  by (auto simp: sayA_def)

lemma askA_iff [simp]: "askA e os h = (r, h') \<longleftrightarrow> r = Inr (os (e # h)) \<and> h' = e # h"
  by (auto simp: askA_def)

lemma bindA_Inr:
  "bindA m f os h = (Inr y, h') \<longleftrightarrow> (\<exists>x h1. m os h = (Inr x, h1) \<and> f x os h1 = (Inr y, h'))"
  by (auto simp: bindA_def split: prod.splits sum.splits)

lemma bindA_Inl:
  "bindA m f os h = (Inl e, h') \<longleftrightarrow>
     m os h = (Inl e, h') \<or> (\<exists>x h1. m os h = (Inr x, h1) \<and> f x os h1 = (Inl e, h'))"
  by (auto simp: bindA_def split: prod.splits sum.splits)

lemma thenA_Inr: "thenA m k os h = (Inr y, h') \<longleftrightarrow> (\<exists>x h1. m os h = (Inr x, h1) \<and> k os h1 = (Inr y, h'))"
  by (simp add: thenA_def bindA_Inr)

lemma thenA_Inl:
  "thenA m k os h = (Inl e, h') \<longleftrightarrow>
     m os h = (Inl e, h') \<or> (\<exists>x h1. m os h = (Inr x, h1) \<and> k os h1 = (Inl e, h'))"
  by (simp add: thenA_def bindA_Inl)

lemma spawnA_Inr:
  "spawnA e argv os h = (Inr r, h') \<longleftrightarrow> (\<forall>a \<in> set argv. NUL \<notin> set a) \<and> r = os (e # h) \<and> h' = e # h"
  by (auto simp: spawnA_def list_ex_iff)

lemma spawnA_Inl:
  "spawnA e argv os h = (Inl s, h') \<longleftrightarrow> (\<exists>a \<in> set argv. NUL \<in> set a) \<and> s = Raised PyValueError \<and> h' = h"
  by (auto simp: spawnA_def list_ex_iff)

lemma liftA_iff: "liftA r os h = (x, h') \<longleftrightarrow> h' = h \<and> x = (case r of Inl e \<Rightarrow> Inl (Raised e) | Inr y \<Rightarrow> Inr y)"
  by (auto simp: liftA_def split: sum.splits)

lemma catchA_Inr:
  "catchA m f os h = (Inr y, h') \<longleftrightarrow>
     m os h = (Inr y, h') \<or>
     (\<exists>e h1. m os h = (Inl (Raised e), h1) \<and> is_ferm_error e \<and> f e os h1 = (Inr y, h'))"
  by (auto simp: catchA_def split: prod.splits sum.splits stop.splits)

lemmas run_iffs = bindA_Inr bindA_Inl thenA_Inr thenA_Inl spawnA_Inr spawnA_Inl

text \<open>A property of every moment of a run, given as the history up to it.\<close>

fun all_new :: "(event list \<Rightarrow> bool) \<Rightarrow> event list \<Rightarrow> event list \<Rightarrow> bool" where
  "all_new R [] h = True"
| "all_new R (e # n) h = (R (e # n @ h) \<and> all_new R n h)"

lemma all_new_append: "all_new R (n @ n') h \<longleftrightarrow> all_new R n (n' @ h) \<and> all_new R n' h"
  by (induction n) auto

definition always :: "(os \<Rightarrow> event list \<Rightarrow> bool) \<Rightarrow> 'a act \<Rightarrow> bool" where
  "always R m \<longleftrightarrow> (\<forall>os h. \<exists>new. snd (m os h) = new @ h \<and> all_new (R os) new h)"

named_theorems runs \<open>what every moment of a run satisfies\<close>

lemma always_alwaysI: "(\<And>os h. \<exists>new. snd (m os h) = new @ h \<and> all_new (R os) new h) \<Longrightarrow> always R m"
  by (simp add: always_def)

lemma always_ret [runs]: "always R (retA x)"
  by (simp add: always_def retA_def)

lemma always_stop [runs]: "always R (stopA e)"
  by (simp add: always_def stopA_def)

lemma always_say [runs]: "(\<And>os h. R os (e # h)) \<Longrightarrow> always R (sayA e)"
  unfolding always_def sayA_def by (intro allI exI [of _ "[e]"]) simp

lemma always_ask [runs]: "(\<And>os h. R os (e # h)) \<Longrightarrow> always R (askA e)"
  unfolding always_def askA_def by (intro allI exI [of _ "[e]"]) simp

lemma always_spawn [runs]: "(\<And>os h. R os (e # h)) \<Longrightarrow> always R (spawnA e argv)"
  by (simp add: spawnA_def always_ask always_stop)

lemma always_lift [runs]: "always R (liftA r)"
  by (simp add: liftA_def always_ret always_stop split: sum.splits)

lemma always_bind [runs]:
  assumes "always R m" and "\<And>x. always R (f x)"
  shows "always R (bindA m f)"
proof (rule always_alwaysI)
  fix os h
  obtain r h1 where m: "m os h = (r, h1)" by fastforce
  obtain n1 where n1: "h1 = n1 @ h" "all_new (R os) n1 h"
    using assms(1) m unfolding always_def by (metis snd_conv)
  show "\<exists>new. snd (bindA m f os h) = new @ h \<and> all_new (R os) new h"
  proof (cases r)
    case (Inr x)
    obtain n2 where "snd (f x os h1) = n2 @ h1" "all_new (R os) n2 h1"
      using assms(2) [of x] unfolding always_def by blast
    then show ?thesis using m n1 Inr by (intro exI [of _ "n2 @ n1"]) (simp add: bindA_def all_new_append)
  qed (use m n1 in \<open>auto simp: bindA_def\<close>)
qed

lemma always_then [runs]: "always R m \<Longrightarrow> always R k \<Longrightarrow> always R (thenA m k)"
  by (simp add: thenA_def always_bind)

lemma always_when [runs]: "(b \<Longrightarrow> always R m) \<Longrightarrow> always R (whenA b m)"
  by (simp add: whenA_def always_ret)

lemma always_each [runs]: "(\<And>x. x \<in> set xs \<Longrightarrow> always R (f x)) \<Longrightarrow> always R (eachA f xs)"
  by (induction xs) (auto intro: runs)

lemma always_catch [runs]:
  assumes "always R m" and "\<And>e. always R (f e)"
  shows "always R (catchA m f)"
proof (rule always_alwaysI)
  fix os h
  obtain r h1 where m: "m os h = (r, h1)" by fastforce
  obtain n1 where n1: "h1 = n1 @ h" "all_new (R os) n1 h"
    using assms(1) m unfolding always_def by (metis snd_conv)
  show "\<exists>new. snd (catchA m f os h) = new @ h \<and> all_new (R os) new h"
  proof (cases "\<exists>e. r = Inl (Raised e) \<and> is_ferm_error e")
    case True
    then obtain e where e: "r = Inl (Raised e)" "is_ferm_error e" by blast
    obtain n2 where "snd (f e os h1) = n2 @ h1" "all_new (R os) n2 h1"
      using assms(2) [of e] unfolding always_def by blast
    then show ?thesis using m n1 e by (intro exI [of _ "n2 @ n1"]) (simp add: catchA_def all_new_append)
  qed (use m n1 in \<open>auto simp: catchA_def split: sum.splits stop.splits\<close>)
qed

abbreviation grows :: "'a act \<Rightarrow> bool" where
  "grows \<equiv> always (\<lambda>_ _. True)"

lemma growsD: "grows m \<Longrightarrow> m os h = (r, h') \<Longrightarrow> \<exists>new. h' = new @ h"
  unfolding always_def by (metis snd_conv)

lemma always_mono: "always R m \<Longrightarrow> (\<And>os h. R os h \<Longrightarrow> R' os h) \<Longrightarrow> always R' m"
proof -
  have "all_new P new h \<Longrightarrow> (\<And>x. P x \<Longrightarrow> P' x) \<Longrightarrow> all_new P' new h" for P P' new h
    by (induction new) auto
  then show "always R m \<Longrightarrow> (\<And>os h. R os h \<Longrightarrow> R' os h) \<Longrightarrow> always R' m"
    unfolding always_def by metis
qed

text \<open>Writing to the generated script and to standard error leaves the system alone.\<close>

fun quiet_event :: "event \<Rightarrow> bool" where
  "quiet_event (Emit _) = True"
| "quiet_event (Stderr _) = True"
| "quiet_event _ = False"

definition quiet :: "os \<Rightarrow> event list \<Rightarrow> bool" where
  "quiet os h \<longleftrightarrow> h \<noteq> [] \<and> quiet_event (hd h)"

lemma quiet_simps [simp]: "quiet os (e # h) \<longleftrightarrow> quiet_event e"
  by (simp add: quiet_def)

lemma all_new_quiet: "all_new (quiet os) new h \<longleftrightarrow> list_all quiet_event new"
  by (induction new) auto

lemma emit_runs [runs]: "(\<And>os h. R os (Emit t # h)) \<Longrightarrow> always R (emit_line t)"
  by (simp add: emit_line_def always_say)

lemma exit_status_runs [runs]: "(\<And>t os h. R os (Stderr t # h)) \<Longrightarrow> always R (exit_status r)"
  unfolding exit_status_def by (auto intro!: runs split: outcome.splits)

lemma execute_dry [runs]: "opt_noexec opts \<Longrightarrow> always quiet (execute opts c)"
  unfolding execute_def by (simp, intro runs; simp)

lemma execute_dry_result: "opt_noexec opts \<Longrightarrow> execute opts c os h = (Inr st, h') \<Longrightarrow> st = None"
  by (auto simp: execute_def thenA_Inr)

lemma hook_dry [runs]: "opt_noexec opts \<Longrightarrow> always quiet (run_hook opts c)"
  unfolding run_hook_def by (intro runs; simp)

lemma execute_grows [runs]: "grows (execute opts c)"
  unfolding execute_def by (auto intro!: runs)

lemma restore_domain_grows [runs]: "grows (restore_domain opts di save)"
  unfolding restore_domain_def
  by (auto split: option.splits outcome.splits intro!: runs)

lemma run_hook_grows [runs]: "grows (run_hook opts c)"
  unfolding run_hook_def by (auto split: outcome.splits intro!: runs)

lemma nft_restore_grows [runs]: "grows (nft_restore di save)"
  unfolding nft_restore_def nft_check_save_def
  by (auto split: option.splits outcome.splits intro!: runs)

lemma restore_grows [runs]: "grows (restore_rules opts di save)"
  by (simp add: restore_rules_def restore_domain_grows nft_restore_grows)

text \<open>A process of the run that has ended with status 0.\<close>

definition succeeded :: "os \<Rightarrow> event list \<Rightarrow> event \<Rightarrow> bool" where
  "succeeded os h e \<longleftrightarrow> (\<exists>new rest out err. h = new @ e # rest \<and> os (e # rest) = Finished 0 out err)"

lemma succeeded_later: "succeeded os h e \<Longrightarrow> succeeded os (new @ h) e"
  unfolding succeeded_def by (metis append.assoc)

lemma succeeded_now: "os (e # h) = Finished 0 out err \<Longrightarrow> succeeded os (e # h) e"
  unfolding succeeded_def by (metis append_Nil)

lemma restore_domain_success:
  assumes "restore_domain opts di save os h = (Inr x, h')"
  shows "\<exists>path. dict_get (di_tools di) TOOL_RESTORE = Some path \<and>
    succeeded os h' (Pipe (restore_argv opts path) save)"
  using assms
  by (auto simp: restore_domain_def run_iffs intro!: succeeded_now
      split: option.splits outcome.splits if_splits)

end
