(* ===== verification/Ferm_Words.thy ===== *)
theory Ferm_Words
  imports Ferm_Iptables
begin

text \<open>
  The words a rendered rule stands for, and the interface \<open>word_reader\<close>: what a reader of command
  texts must do with one word for it to read a whole rule back. The shell of the slow mode and the
  tokenizer of the importer are its two instances.
\<close>

section \<open>The words a rule stands for\<close>

fun scalar_word :: "cfg_value \<Rightarrow> string" where
  "scalar_word (VStr s) = s"
| "scalar_word _ = []"

definition option_argv :: "string \<Rightarrow> cfg_value \<Rightarrow> string list" where
  "option_argv keyword v0 =
     (case unwrap_negation v0 of
        (neg, v) \<Rightarrow>
          (if neg = [] then [] else [''!'']) @
          (case v of
             VParams vs \<Rightarrow> (''--'' @ keyword) # map scalar_word vs
           | VMulti vs \<Rightarrow> concat (map (\<lambda>x. [''--'' @ keyword, scalar_word x]) vs)
           | VStr s \<Rightarrow> [''--'' @ keyword, s]
           | _ \<Rightarrow> [''--'' @ keyword]))"

definition rule_argv :: "family \<Rightarrow> rendered_rule \<Rightarrow> string list" where
  "rule_argv fam rr =
     concat (map (\<lambda>o'. case family_option fam (ro_name o') (ro_value o') of (k, v) \<Rightarrow> option_argv k v)
       (rr_options rr))"

fun strings_of :: "cfg_value \<Rightarrow> string list" where
  "strings_of (VStr s) = [s]"
| "strings_of (VParams vs) = map scalar_word vs"
| "strings_of (VMulti vs) = map scalar_word vs"
| "strings_of _ = []"

definition option_clean :: "(string \<Rightarrow> bool) \<Rightarrow> (string \<Rightarrow> bool) \<Rightarrow> string \<Rightarrow> cfg_value \<Rightarrow> bool" where
  "option_clean key_ok word_ok keyword v \<longleftrightarrow>
     snd (unwrap_negation v) \<noteq> VParams [] \<and> key_ok keyword \<and>
     list_all word_ok (strings_of (snd (unwrap_negation v)))"

definition rule_clean ::
  "(string \<Rightarrow> bool) \<Rightarrow> (string \<Rightarrow> bool) \<Rightarrow> family \<Rightarrow> rendered_rule \<Rightarrow> bool" where
  "rule_clean key_ok word_ok fam rr \<longleftrightarrow>
     list_all (\<lambda>o'. case family_option fam (ro_name o') (ro_value o') of (k, v) \<Rightarrow> option_clean key_ok word_ok k v)
       (rr_options rr)"

section \<open>Reading a rule back\<close>

lemma mapR_scalars:
  "mapR (format_scalar fast) vs = Inr ss \<Longrightarrow> ss = map (\<lambda>v. shell_escape fast (scalar_word v)) vs"
proof (induction vs arbitrary: ss)
  case (Cons v vs)
  then show ?case by (cases v) (auto simp: format_scalar_def bindR_Inr_iff)
qed simp

lemma join_blank: "ws \<noteq> [] \<Longrightarrow> CHR '' '' # join_str '' '' ws = concat (map (Cons (CHR '' '')) ws)"
proof (induction ws)
  case (Cons w ws)
  then show ?case by (cases ws) simp_all
qed simp

lemma unwrapped:
  assumes "shell_format_option fast kw v0 = Inr txt" and "unwrap_negation v0 = (neg, v)"
  shows "\<exists>t. txt = neg @ t \<and> shell_format_option fast kw v = Inr t \<and> unwrap_negation v = ([], v) \<and>
    (neg = [] \<or> neg = '' !'')"
  using assms
  by (cases v) (auto simp: shell_format_option_def unwrap_negation_def bindR_Inr_iff split: val_splits)

locale word_reader =
  fixes fast :: bool
    and reads :: "string \<Rightarrow> string list \<Rightarrow> bool"
    and key_ok :: "string \<Rightarrow> bool"
    and word_ok :: "string \<Rightarrow> bool"
  assumes reads_Nil: "reads [] []"
    and reads_both: "reads a ms \<Longrightarrow> reads b ns \<Longrightarrow> reads (a @ b) (ms @ ns)"
    and reads_escaped: "word_ok s \<Longrightarrow> reads (CHR '' '' # shell_escape fast s) [s]"
    and reads_key: "key_ok kw \<Longrightarrow> reads ('' --'' @ kw) [''--'' @ kw]"
    and reads_not: "reads '' !'' [''!'']"

context word_reader
begin

lemma reads_words:
  "list_all word_ok (map scalar_word vs) \<Longrightarrow>
     reads (concat (map (Cons (CHR '' '')) (map (\<lambda>v. shell_escape fast (scalar_word v)) vs))) (map scalar_word vs)"
proof (induction vs)
  case (Cons v vs)
  then have "reads ((CHR '' '' # shell_escape fast (scalar_word v)) @
      concat (map (Cons (CHR '' '')) (map (\<lambda>v. shell_escape fast (scalar_word v)) vs)))
      ([scalar_word v] @ map scalar_word vs)"
    by (intro reads_both reads_escaped) simp_all
  then show ?case by simp
qed (simp add: reads_Nil)

lemma reads_key_word:
  assumes "key_ok kw" and "word_ok s"
  shows "reads ('' --'' @ kw @ '' '' @ shell_escape fast s) [''--'' @ kw, s]"
  using reads_both [OF reads_key [OF assms(1)] reads_escaped [OF assms(2)]] by simp

lemma reads_repeated:
  "key_ok kw \<Longrightarrow> list_all word_ok (map scalar_word vs) \<Longrightarrow>
     reads (concat (map (\<lambda>s. '' --'' @ kw @ '' '' @ s) (map (\<lambda>v. shell_escape fast (scalar_word v)) vs)))
       (concat (map (\<lambda>x. [''--'' @ kw, scalar_word x]) vs))"
proof (induction vs)
  case (Cons v vs)
  then have "reads (('' --'' @ kw @ '' '' @ shell_escape fast (scalar_word v)) @
      concat (map (\<lambda>s. '' --'' @ kw @ '' '' @ s) (map (\<lambda>v. shell_escape fast (scalar_word v)) vs)))
      ([''--'' @ kw, scalar_word v] @ concat (map (\<lambda>x. [''--'' @ kw, scalar_word x]) vs))"
    by (intro reads_both reads_key_word) simp_all
  then show ?case by simp
qed (simp add: reads_Nil)

lemma reads_payload:
  assumes "key_ok kw" and "list_all word_ok (strings_of v)" and "v \<noteq> VParams []"
    and "shell_format_option fast kw v = Inr txt" and "unwrap_negation v = ([], v)"
  shows "reads txt (option_argv kw v)"
proof (cases v)
  case (VStr s)
  then show ?thesis using assms reads_key_word [of kw s]
    by (auto simp: shell_format_option_def option_argv_def)
next
  case (VParams vs)
  then have ne: "map (\<lambda>v. shell_escape fast (scalar_word v)) vs \<noteq> []" using assms(3) by simp
  have "reads ('' --'' @ kw @ CHR '' '' # join_str '' '' (map (\<lambda>v. shell_escape fast (scalar_word v)) vs))
      ((''--'' @ kw) # map scalar_word vs)"
    using reads_both [OF reads_key [OF assms(1)] reads_words [of vs]] assms(2) VParams
    unfolding join_blank [OF ne, symmetric] by simp
  then show ?thesis using assms(4,5) VParams
    by (auto simp: shell_format_option_def option_argv_def bindR_Inr_iff dest!: mapR_scalars)
next
  case (VMulti vs)
  then show ?thesis using assms reads_repeated [of kw vs]
    by (auto simp: shell_format_option_def option_argv_def bindR_Inr_iff dest!: mapR_scalars)
qed (use assms reads_key [of kw] in \<open>auto simp: shell_format_option_def option_argv_def unwrap_negation_def\<close>)

lemma reads_option:
  assumes "option_clean key_ok word_ok kw v0" and "shell_format_option fast kw v0 = Inr txt"
  shows "reads txt (option_argv kw v0)"
proof -
  obtain neg v where u: "unwrap_negation v0 = (neg, v)" by fastforce
  obtain t where t: "txt = neg @ t" "shell_format_option fast kw v = Inr t"
      "unwrap_negation v = ([], v)" "neg = [] \<or> neg = '' !''"
    using unwrapped [OF assms(2) u] by blast
  have payload: "reads t (option_argv kw v)"
    using assms(1) t u by (intro reads_payload) (simp_all add: option_clean_def)
  have "option_argv kw v0 = (if neg = [] then [] else [''!'']) @ option_argv kw v"
    using u t(3) by (simp add: option_argv_def)
  then show ?thesis using t(1,4) payload reads_both [OF reads_not payload] by auto
qed

lemma reads_options:
  assumes "list_all (\<lambda>o'. case family_option fam (ro_name o') (ro_value o') of (k, v) \<Rightarrow> option_clean key_ok word_ok k v) os"
    and "mapR (\<lambda>o'. format_option fam fast (ro_name o') (ro_value o')) os = Inr ss"
  shows "reads (concat ss)
    (concat (map (\<lambda>o'. case family_option fam (ro_name o') (ro_value o') of (k, v) \<Rightarrow> option_argv k v) os))"
  using assms
proof (induction os arbitrary: ss)
  case (Cons o' os)
  then obtain t ss' where "format_option fam fast (ro_name o') (ro_value o') = Inr t"
    "mapR (\<lambda>o'. format_option fam fast (ro_name o') (ro_value o')) os = Inr ss'" "ss = t # ss'"
    by (auto simp: bindR_Inr_iff)
  with Cons show ?case
    by (auto simp: format_option_def split: prod.splits intro!: reads_both reads_option)
qed (simp add: reads_Nil)

lemma reads_rule:
  "rule_clean key_ok word_ok fam rr \<Longrightarrow> format_rule fam fast rr = Inr txt \<Longrightarrow> reads txt (rule_argv fam rr)"
  by (auto simp: rule_clean_def rule_argv_def format_rule_def bindR_Inr_iff intro: reads_options)

end

end
