(* ===== verification/Ferm_Slow.thy ===== *)
theory Ferm_Slow
  imports Ferm_Io Ferm_Words
begin

text \<open>
  What the commands of the slow mode mean to the process they start. The shell is a parameter, a function
  from a text to the words of the simple command it is, if it is one; \<open>posix_words\<close> is what POSIX says of it for
  the texts that matter here: words of ordinary characters, single quotes and escaped quotes, separated
  by blanks, the first of them a path. \<open>sh_lex\<close> is a concrete shell that reads so, for the samples.
\<close>

section \<open>What a shell reads\<close>

definition sh_active :: "char \<Rightarrow> bool" where
  "sh_active c \<longleftrightarrow>
     c \<in> set (''$&*(){}[];|?<>~#'' @ [BACKTICK, NL, NUL])"

definition sh_literal :: "char \<Rightarrow> bool" where
  "sh_literal c \<longleftrightarrow>
     \<not> py_space c \<and> \<not> sh_active c \<and> c \<noteq> SQUOTE \<and> c \<noteq> DQUOTE \<and> c \<noteq> BACKSLASH"

text \<open>
  A piece of a word and what it stands for (POSIX 2.2, quoting): an ordinary character stands for itself,
  single quotes for what is between them, a backslash before a quote for the quote.
\<close>

definition sh_piece :: "string \<times> string \<Rightarrow> bool" where
  "sh_piece p \<longleftrightarrow>
     (case p of (r, m) \<Rightarrow>
        (\<exists>c. sh_literal c \<and> r = [c] \<and> m = [c]) \<or>
        SQUOTE \<notin> set m \<and> r = SQUOTE # m @ [SQUOTE] \<or>
        r = [BACKSLASH, SQUOTE] \<and> m = [SQUOTE])"

definition sh_word :: "string \<Rightarrow> string \<Rightarrow> bool" where
  "sh_word r m \<longleftrightarrow>
     (\<exists>ps. ps \<noteq> [] \<and> r = concat (map fst ps) \<and> m = concat (map snd ps) \<and> list_all sh_piece ps)"

text \<open>Words with blanks between them, of which the first is a path, are the words of the command.\<close>

type_synonym shell = "string \<Rightarrow> string list option"

definition posix_words :: "shell \<Rightarrow> bool" where
  "posix_words sh \<longleftrightarrow>
     (\<forall>r rs m ms. sh_word r m \<longrightarrow> starts_with ''/'' r \<longrightarrow> list_all2 sh_word rs ms \<longrightarrow>
        sh (r @ concat (map (Cons (CHR '' '')) rs)) = Some (m # ms))"

section \<open>A shell\<close>

definition sh_blank :: "char \<Rightarrow> bool" where
  "sh_blank c \<longleftrightarrow> c = CHR '' '' \<or> c = CHR 0x09"

definition grow :: "string option \<Rightarrow> string \<Rightarrow> string option" where
  "grow cur s = Some ((case cur of None \<Rightarrow> [] | Some w \<Rightarrow> w) @ s)"

function sh_lex :: "string \<Rightarrow> string option \<Rightarrow> string list option" where
  "sh_lex [] cur = Some (case cur of None \<Rightarrow> [] | Some w \<Rightarrow> [w])"
| "sh_lex (c # s) cur =
     (if sh_blank c
      then (case cur of
              None \<Rightarrow> sh_lex s None
            | Some w \<Rightarrow> map_option (Cons w) (sh_lex s None))
      else if c = SQUOTE
      then (let body = takeWhile (\<lambda>d. d \<noteq> SQUOTE) s
            in if length body < length s then sh_lex (drop (Suc (length body)) s) (grow cur body) else None)
      else if c = DQUOTE
      then (let body = takeWhile (\<lambda>d. d \<noteq> DQUOTE) s
            in if length body < length s \<and> list_all (\<lambda>d. d \<notin> {CHR ''$'', BACKTICK, BACKSLASH}) body
               then sh_lex (drop (Suc (length body)) s) (grow cur body) else None)
      else if c = BACKSLASH
      then (case s of [] \<Rightarrow> None | d # s' \<Rightarrow> if d = NL then None else sh_lex s' (grow cur [d]))
      else if sh_active c then None
      else sh_lex s (grow cur [c]))"
  by pat_completeness auto
termination by (relation "measure (\<lambda>(s, cur). length s)") auto

declare sh_lex.simps(2) [simp del]

definition plain_sh :: shell where
  "plain_sh text = sh_lex text None"

lemma lex_literal: "sh_literal c \<Longrightarrow> sh_lex (c # rest) cur = sh_lex rest (grow cur [c])"
proof -
  assume c: "sh_literal c"
  then have "\<not> sh_blank c" by (auto simp: sh_literal_def sh_blank_def)
  with c show ?thesis by (simp add: sh_lex.simps(2) sh_literal_def)
qed

lemma takeWhile_stop: "c \<notin> set b \<Longrightarrow> takeWhile (\<lambda>d. d \<noteq> c) (b @ c # r) = b"
  by (induction b) auto

lemma lex_quoted: "SQUOTE \<notin> set m \<Longrightarrow> sh_lex (SQUOTE # m @ SQUOTE # rest) cur = sh_lex rest (grow cur m)"
  by (simp add: sh_lex.simps(2) sh_blank_def takeWhile_stop Let_def)

lemma lex_escaped: "sh_lex (BACKSLASH # SQUOTE # rest) cur = sh_lex rest (grow cur [SQUOTE])"
  by (simp add: sh_lex.simps(2) sh_blank_def)

lemma lex_piece:
  assumes "sh_piece (r, m)"
  shows "sh_lex (r @ rest) cur = sh_lex rest (grow cur m)"
proof -
  consider c where "sh_literal c" "r = [c]" "m = [c]" | "SQUOTE \<notin> set m" "r = SQUOTE # m @ [SQUOTE]"
    | "r = [BACKSLASH, SQUOTE]" "m = [SQUOTE]"
    using assms unfolding sh_piece_def prod.case by blast
  then show ?thesis by cases (simp_all add: lex_literal lex_quoted lex_escaped)
qed

lemma grow_grow [simp]: "grow (grow cur a) b = grow cur (a @ b)"
  by (simp add: grow_def)

lemma lex_pieces:
  "list_all sh_piece ps \<Longrightarrow> ps \<noteq> [] \<Longrightarrow>
     sh_lex (concat (map fst ps) @ rest) cur = sh_lex rest (grow cur (concat (map snd ps)))"
proof (induction ps arbitrary: cur)
  case (Cons p ps)
  obtain r m where p: "p = (r, m)" by (cases p)
  then show ?case using Cons lex_piece [of r m] by (cases "ps = []") simp_all
qed simp

lemma lex_word: "sh_word r m \<Longrightarrow> sh_lex (r @ rest) cur = sh_lex rest (grow cur m)"
  using lex_pieces unfolding sh_word_def by blast

lemma lex_words:
  "list_all2 sh_word rs ms \<Longrightarrow> sh_lex (concat (map (Cons (CHR '' '')) rs)) (Some w) = Some (w # ms)"
proof (induction rs ms arbitrary: w rule: list_all2_induct)
  case (Cons r rs m ms)
  then show ?case by (simp add: sh_lex.simps(2) [of "CHR '' ''"] sh_blank_def lex_word grow_def)
qed simp

lemma plain_sh_posix: "posix_words plain_sh"
  by (simp add: posix_words_def plain_sh_def lex_word lex_words grow_def)

section \<open>What the program starts\<close>

text \<open>The arguments of the process a command text starts.\<close>

definition started_argv :: "shell \<Rightarrow> string \<Rightarrow> string list option" where
  "started_argv sh command = (if use_shell command then sh command else Some (py_split command))"

text \<open>The values whose quoting the shell undoes.\<close>

definition slow_safe :: "string \<Rightarrow> bool" where
  "slow_safe s \<longleftrightarrow>
     chomp s = s \<and> \<not> backtick_token s \<and> NUL \<notin> set s \<and>
     (s = [] \<or> list_ex (\<lambda>c. slow_special c \<or> c = SQUOTE) s \<or> list_all sh_literal s)"

section \<open>Raw texts and the words they spell\<close>

text \<open>A raw text without a shell character also stands for itself when it is split at blanks.\<close>

definition word_for :: "string \<Rightarrow> string \<Rightarrow> bool" where
  "word_for r m \<longleftrightarrow>
     sh_word r m \<and>
     (list_all (\<lambda>c. c \<notin> set SHELL_META) r \<longrightarrow> r = m \<and> m \<noteq> [] \<and> list_all (\<lambda>c. \<not> py_space c) m)"

definition spells :: "string \<Rightarrow> string list \<Rightarrow> bool" where
  "spells t ms \<longleftrightarrow> (\<exists>rs. t = concat (map (Cons (CHR '' '')) rs) \<and> list_all2 word_for rs ms)"

lemma sh_word_append: "sh_word a s \<Longrightarrow> sh_word b t \<Longrightarrow> sh_word (a @ b) (s @ t)"
  unfolding sh_word_def by (metis append_is_Nil_conv concat_append list_all_append map_append)

lemma sh_word_piece: "sh_piece (r, m) \<Longrightarrow> sh_word r m"
  unfolding sh_word_def by (rule exI [of _ "[(r, m)]"]) simp

lemma sh_word_literal: "list_all sh_literal w \<Longrightarrow> w \<noteq> [] \<Longrightarrow> sh_word w w"
proof -
  assume "list_all sh_literal w" "w \<noteq> []"
  moreover have "concat (map (\<lambda>c. [c]) w) = w" by (induction w) simp_all
  ultimately show "sh_word w w"
    unfolding sh_word_def by (intro exI [of _ "map (\<lambda>c. ([c], [c])) w"]) (auto simp: list_all_iff sh_piece_def o_def)
qed

lemma sh_word_quoted: "SQUOTE \<notin> set b \<Longrightarrow> sh_word (SQUOTE # b @ [SQUOTE]) b"
  by (rule sh_word_piece) (simp add: sh_piece_def)

lemma sh_word_escaped_quote: "sh_word [BACKSLASH, SQUOTE] [SQUOTE]"
  by (rule sh_word_piece) (simp add: sh_piece_def)

lemma sh_word_replaced:
  "sh_word (SQUOTE # replace_char SQUOTE [SQUOTE, BACKSLASH, SQUOTE, SQUOTE] s @ [SQUOTE]) s"
proof (induction s rule: length_induct)
  case (1 s)
  show ?case
  proof (cases "SQUOTE \<in> set s")
    case False
    then show ?thesis by (simp add: replace_char_idle sh_word_quoted)
  next
    case True
    then obtain a b where s: "s = a @ SQUOTE # b" "SQUOTE \<notin> set a" by (metis split_list_first)
    have "sh_word ((SQUOTE # a @ [SQUOTE]) @ [BACKSLASH, SQUOTE] @
        (SQUOTE # replace_char SQUOTE [SQUOTE, BACKSLASH, SQUOTE, SQUOTE] b @ [SQUOTE])) (a @ [SQUOTE] @ b)"
      using 1 s by (intro sh_word_append sh_word_quoted sh_word_escaped_quote) auto
    with s show ?thesis by (simp add: replace_char_idle)
  qed
qed

lemma plain_literal: "plain_token_char c \<Longrightarrow> sh_literal c"
proof -
  have "plain_token_char c \<Longrightarrow> \<not> py_space c"
    by (cases c) (auto simp: plain_token_char_def is_word_def)
  moreover have "plain_token_char c \<Longrightarrow> \<not> sh_active c \<and> c \<noteq> SQUOTE \<and> c \<noteq> DQUOTE \<and> c \<noteq> BACKSLASH"
    by (auto simp: plain_token_char_def sh_active_def NUL_def is_word_def)
  ultimately show "plain_token_char c \<Longrightarrow> sh_literal c" by (simp add: sh_literal_def)
qed

lemma literal_no_meta: "sh_literal c \<Longrightarrow> c \<notin> set SHELL_META"
  by (auto simp: sh_literal_def sh_active_def SHELL_META_def)

lemma word_for_literal: "list_all sh_literal w \<Longrightarrow> w \<noteq> [] \<Longrightarrow> word_for w w"
  by (auto simp: word_for_def sh_word_literal sh_literal_def list_all_iff)

lemma word_for_quoted: "sh_word (SQUOTE # b @ [SQUOTE]) m \<Longrightarrow> word_for (SQUOTE # b @ [SQUOTE]) m"
  by (simp add: word_for_def SHELL_META_def)

lemma replace_marks:
  assumes "list_ex (\<lambda>c. slow_special c \<or> c = SQUOTE) s"
  shows "list_ex slow_special (replace_char SQUOTE [SQUOTE, BACKSLASH, SQUOTE, SQUOTE] s)"
  using assms by (induction s) (auto simp: slow_special_def)

lemma word_for_escape:
  assumes "slow_safe s"
  shows "word_for (shell_escape False s) s"
proof (cases "plain_shell_token s")
  case True
  then have "list_all sh_literal s" "s \<noteq> []"
    using assms by (auto simp: plain_shell_token_def slow_safe_def list_all_iff plain_literal)
  with True show ?thesis by (simp add: shell_escape_def word_for_literal)
next
  case False
  let ?r = "replace_char SQUOTE [SQUOTE, BACKSLASH, SQUOTE, SQUOTE] s"
  have esc: "shell_escape False s = quote_if slow_special SQUOTE ?r"
    using False assms by (simp add: shell_escape_def slow_safe_def)
  show ?thesis
  proof (cases "list_ex slow_special ?r \<or> ?r = []")
    case True
    then show ?thesis by (simp add: esc quote_if_def word_for_quoted sh_word_replaced)
  next
    case F: False
    then have "\<not> list_ex (\<lambda>c. slow_special c \<or> c = SQUOTE) s" "s \<noteq> []"
      using replace_marks by (auto simp: replace_char_Nil_iff)
    then have "list_all sh_literal s" using assms by (auto simp: slow_safe_def)
    moreover have "SQUOTE \<notin> set s" using \<open>list_all sh_literal s\<close> by (auto simp: list_all_iff sh_literal_def)
    ultimately show ?thesis using F \<open>s \<noteq> []\<close>
      by (auto simp: esc quote_if_def replace_char_idle word_for_literal)
  qed
qed

lemma spells_Nil [simp]: "spells [] []"
  by (auto simp: spells_def)

lemma spells_one: "word_for r m \<Longrightarrow> spells (CHR '' '' # r) [m]"
  unfolding spells_def by (rule exI [of _ "[r]"]) simp

lemma spells_append: "spells a ms \<Longrightarrow> spells b ns \<Longrightarrow> spells (a @ b) (ms @ ns)"
  unfolding spells_def by (metis concat_append list_all2_appendI map_append)

lemma spells_Cons: "word_for r m \<Longrightarrow> spells b ns \<Longrightarrow> spells (CHR '' '' # r @ b) (m # ns)"
  using spells_append [OF spells_one] by fastforce

text \<open>A command that begins with an absolute path and is spelled out word by word.\<close>

lemma started_spelled:
  assumes "posix_words sh" and "word_for r w" and "starts_with ''/'' r" and "spells t ms"
  shows "started_argv sh (r @ t) = Some (w # ms)"
proof -
  obtain rs where t: "t = concat (map (Cons (CHR '' '')) rs)" "list_all2 word_for rs ms"
    using assms(4) by (auto simp: spells_def)
  show ?thesis
  proof (cases "use_shell (r @ t)")
    case True
    have "list_all2 sh_word rs ms" using t(2) by (rule list_all2_mono) (simp add: word_for_def)
    then show ?thesis
      using True assms(1-3) t(1) by (simp add: started_argv_def posix_words_def word_for_def)
  next
    case False
    then have quiet: "\<forall>c \<in> set (r @ t). c \<notin> set SHELL_META" by (auto simp: use_shell_def list_ex_iff)
    have "rs = ms \<and> (\<forall>m \<in> set ms. m \<noteq> [] \<and> list_all (\<lambda>c. \<not> py_space c) m)"
      using t(2) quiet unfolding t(1)
      by (induction rs ms rule: list_all2_induct) (auto simp: word_for_def list_all_iff)
    moreover have "r = w \<and> w \<noteq> [] \<and> list_all (\<lambda>c. \<not> py_space c) w"
      using assms(2) quiet by (auto simp: word_for_def list_all_iff)
    ultimately show ?thesis using False t by (simp add: started_argv_def py_split_words)
  qed
qed

section \<open>A rule as the arguments of a process\<close>

lemma word_for_option: "list_all sh_literal kw \<Longrightarrow> word_for (''--'' @ kw) (''--'' @ kw)"
  using plain_literal [of "CHR ''-''"] by (intro word_for_literal) (simp_all add: plain_token_char_def)

lemma word_for_bang: "word_for ''!'' ''!''"
  by (rule word_for_literal) (simp_all add: sh_literal_def sh_active_def NUL_def)

text \<open>The shell is a reader of the words of a rule.\<close>

interpretation sh: word_reader False spells "list_all sh_literal" slow_safe
proof
  fix kw assume "list_all sh_literal kw"
  then show "spells ('' --'' @ kw) [''--'' @ kw]"
    using spells_one [OF word_for_option] by simp
next
  show "spells '' !'' [''!'']" using spells_one [OF word_for_bang] by simp
qed (auto intro: spells_append spells_one word_for_escape)

definition rule_safe :: "family \<Rightarrow> rendered_rule \<Rightarrow> bool" where
  "rule_safe fam rr = rule_clean (list_all sh_literal) slow_safe fam rr"

lemma spells_rule:
  "rule_safe fam rr \<Longrightarrow> format_rule fam False rr = Inr txt \<Longrightarrow> spells txt (rule_argv fam rr)"
  unfolding rule_safe_def by (rule sh.reads_rule)

lemma dot_plus_literal: "sh_literal (CHR ''.'')" "sh_literal (CHR ''+'')"
  by (simp_all add: sh_literal_def sh_active_def NUL_def)

lemma name_literal: "name_char c \<Longrightarrow> sh_literal c"
  using plain_literal [of c] by (auto simp: name_char_def plain_token_char_def dot_plus_literal)

lemma spells_literals:
  "\<forall>w \<in> set ws. w \<noteq> [] \<and> list_all sh_literal w \<Longrightarrow> spells (concat (map (Cons (CHR '' '')) ws)) ws"
  by (induction ws) (auto intro: spells_Cons word_for_literal)

lemma join_words: "join_str '' '' (w # ws) = w @ concat (map (Cons (CHR '' '')) ws)"
proof (induction ws arbitrary: w)
  case (Cons v ws)
  then show ?case by simp
qed simp

lemma append_command_argv:
  assumes "posix_words sh" and "\<forall>w \<in> set (path # args). w \<noteq> [] \<and> list_all sh_literal w" and "starts_with ''/'' path"
    and "chain \<noteq> []" and "list_all name_char chain" and "rule_safe fam rr"
    and "format_rule fam False rr = Inr txt"
  shows "started_argv sh (join_str '' '' (path # args) @ '' -A '' @ chain @ txt) =
    Some (path # args @ [''-A'', chain] @ rule_argv fam rr)"
proof -
  have "spells (concat (map (Cons (CHR '' '')) (args @ [''-A'', chain])) @ txt)
      ((args @ [''-A'', chain]) @ rule_argv fam rr)"
    using assms plain_literal
    by (intro spells_append spells_rule spells_literals)
      (auto simp: list_all_iff name_literal plain_token_char_def is_word_def)
  then have "started_argv sh (path @ concat (map (Cons (CHR '' '')) (args @ [''-A'', chain])) @ txt) =
      Some (path # (args @ [''-A'', chain]) @ rule_argv fam rr)"
    using assms by (intro started_spelled word_for_literal) auto
  then show ?thesis unfolding join_words by simp
qed

text \<open>
  C18: In the slow mode each rule of a chain becomes one command. For rules whose keywords and values are
  safe, running that command, with any POSIX shell or without one, starts the tool with exactly the
  arguments the rule stands for: no value is split, joined, dropped or changed. Safe (\<open>rule_safe\<close>) is a value that has one of
  the characters which make the program quote it, or only ordinary ones; the values left out, such as
  \<^verbatim>\<open>$HOME\<close>, \<^verbatim>\<open>#1\<close> and a byte only Python takes for a blank, are passed wrongly (\<open>slow_quoting_gaps\<close>).
\<close>

theorem slow_rules_argv:
  assumes "posix_words sh"
    and "\<not> opt_fast opts" and "dump_chain fam opts (join_str '' '' (path # args)) (chain, ci) = Inr cmds"
    and "\<forall>w \<in> set (path # args). w \<noteq> [] \<and> list_all sh_literal w" and "starts_with ''/'' path"
    and "validate_ipt_name chain ''chain'' = Inr chain" and "\<forall>rr \<in> set (ci_rules ci). rule_safe fam rr"
  shows "map (started_argv sh \<circ> cm_text) cmds =
    map (\<lambda>rr. Some (path # args @ [''-A'', chain] @ rule_argv fam rr)) (ci_rules ci)"
proof -
  have chain: "chain \<noteq> []" "list_all name_char chain"
    using assms(6) by (auto simp: validate_ipt_name_def split: if_splits)
  have "mapR (\<lambda>rr. bindR (format_rule fam False rr) (\<lambda>txt.
        Inr (guarded (join_str '' '' (path # args) @ '' -A '' @ chain @ txt)))) rs = Inr cs \<Longrightarrow>
      \<forall>rr \<in> set rs. rule_safe fam rr \<Longrightarrow>
      map (started_argv sh \<circ> cm_text) cs =
        map (\<lambda>rr. Some (path # args @ [''-A'', chain] @ rule_argv fam rr)) rs" for rs cs
    by (induction rs arbitrary: cs)
      (auto simp: bindR_Inr_iff guarded_def append_command_argv [OF assms(1,4,5) chain, simplified])
  then show ?thesis using assms(2,3,7) by (simp add: dump_chain_def)
qed

definition sample_option :: "string \<Rightarrow> cfg_value \<Rightarrow> rendered_option" where
  "sample_option n v = \<lparr>ro_name = n, ro_value = v, ro_kind = KOption, ro_module = None\<rparr>"

definition sample_slow_chain :: chain_info where
  "sample_slow_chain = new_chain\<lparr>ci_rules :=
     [\<lparr>rr_options =
        [sample_option ''protocol'' (VNegated (VStr ''tcp'')),
         sample_option ''comment'' (VStr (''it'' @ [SQUOTE] @ ''s $HOME; #1'')),
         sample_option ''jump'' (VStr ''DROP'')],
       rr_script = None\<rparr>]\<rparr>"

lemma slow_rules_argv_witness:
  "map (started_argv plain_sh \<circ> cm_text)
     (case dump_chain IP (default_options\<lparr>opt_fast := False\<rparr>) ''/sbin/iptables -t filter'' (''INPUT'', sample_slow_chain) of
        Inl e \<Rightarrow> [] | Inr cs \<Rightarrow> cs) =
   [Some [''/sbin/iptables'', ''-t'', ''filter'', ''-A'', ''INPUT'', ''!'', ''--protocol'', ''tcp'',
          ''--comment'', ''it'' @ [SQUOTE] @ ''s $HOME; #1'', ''--jump'', ''DROP'']]"
proof -
  let ?opts = "default_options\<lparr>opt_fast := False\<rparr>"
  obtain cmds where run: "dump_chain IP ?opts (join_str '' '' [''/sbin/iptables'', ''-t'', ''filter''])
      (''INPUT'', sample_slow_chain) = Inr cmds"
    and cmds: "(case dump_chain IP ?opts ''/sbin/iptables -t filter'' (''INPUT'', sample_slow_chain) of
        Inl e \<Rightarrow> [] | Inr cs \<Rightarrow> cs) = cmds"
  proof -
    have "isl (dump_chain IP ?opts ''/sbin/iptables -t filter'' (''INPUT'', sample_slow_chain)) = False"
      by code_simp
    then show ?thesis
      using that by (cases "dump_chain IP ?opts ''/sbin/iptables -t filter'' (''INPUT'', sample_slow_chain)") auto
  qed
  have safe: "list_all (rule_safe IP) (ci_rules sample_slow_chain)" by code_simp
  have words: "list_all (\<lambda>w. w \<noteq> [] \<and> list_all sh_literal w) [''/sbin/iptables'', ''-t'', ''filter'']"
    by code_simp
  have name: "validate_ipt_name ''INPUT'' ''chain'' = Inr ''INPUT''" by code_simp
  have argv: "map (\<lambda>rr. Some (''/sbin/iptables'' # [''-t'', ''filter''] @ [''-A'', ''INPUT''] @ rule_argv IP rr))
      (ci_rules sample_slow_chain) =
    [Some [''/sbin/iptables'', ''-t'', ''filter'', ''-A'', ''INPUT'', ''!'', ''--protocol'', ''tcp'',
          ''--comment'', ''it'' @ [SQUOTE] @ ''s $HOME; #1'', ''--jump'', ''DROP'']]"
    by code_simp
  have "map (started_argv plain_sh \<circ> cm_text) cmds =
      map (\<lambda>rr. Some (''/sbin/iptables'' # [''-t'', ''filter''] @ [''-A'', ''INPUT''] @ rule_argv IP rr))
        (ci_rules sample_slow_chain)"
    using safe words by (intro slow_rules_argv [OF plain_sh_posix _ run _ _ name]) (simp_all only: list_all_iff, simp_all add: starts_with_def)
  then show ?thesis unfolding cmds argv .
qed

text \<open>
  The quoting of the slow mode leaves gaps. A byte that only Python counts as a blank is not
  quoted and splits the argument, as in the two bytes of an accented letter; a text with an active
  character but none that is quoted reaches the shell as it is, here a comment sign that cuts off
  the rest of the rule because another argument has made the program use the shell.
\<close>

theorem slow_quoting_gaps:
  "started_argv plain_sh (''/sbin/iptables -A INPUT --comment '' @ shell_escape False (CHR 0xC3 # CHR 0xA0 # ''x'')) =
     Some [''/sbin/iptables'', ''-A'', ''INPUT'', ''--comment'', [CHR 0xC3], ''x''] \<and>
   shell_escape False ''#1'' = ''#1'' \<and> shell_escape False ''$HOME'' = ''$HOME'' \<and>
   use_shell (''/sbin/iptables -A INPUT --comment #1 --log-prefix '' @ shell_escape False ''a b'')"
  by code_simp

end
