(* ===== verification/Ferm_Etckeeper.thy ===== *)
theory Ferm_Etckeeper
  imports Ferm_Slow
begin

text \<open>
  The history of applied rules: \<^verbatim>\<open>src/src/pyferm/etckeeper.py\<close> and the recording half of
  \<^verbatim>\<open>src/src/pyferm/cli/history.py\<close>. A call of \<^verbatim>\<open>etckeeper\<close> is a process with its output
  captured; where the program is found, \<open>which\<close>, and the path arithmetic of the standard library
  are parameters.
\<close>

section \<open>Calls of etckeeper\<close>

definition revision_char :: "char \<Rightarrow> bool" where
  "revision_char c \<longleftrightarrow> is_word c \<or> c \<in> {CHR ''.'', CHR ''/'', CHR ''-''}"

definition validate_revision :: "string \<Rightarrow> unit res" where
  "validate_revision sha =
     (let bad = ''invalid revision '' @ py_repr sha
      in if starts_with ''-'' sha
         then Inl (Died (bad @ '': leading '' @ [SQUOTE] @ ''-'' @ [SQUOTE] @ '' not allowed''))
         else if contains_text ''..'' sha then Inl (Died (bad @ '': range not allowed''))
         else if sha \<noteq> [] \<and> list_all revision_char sha then Inr () else Inl (Died bad))"

definition describe_failure :: "int \<Rightarrow> string \<Rightarrow> string" where
  "describe_failure ret err = (if py_strip err = [] then ''exit '' @ string_of_int ret else py_strip err)"

definition ek_commit :: "string \<Rightarrow> unit act" where
  "ek_commit message =
     (let argv = [''etckeeper'', ''commit'', message]
      in bindA (spawnA (Capture argv) argv) (\<lambda>r.
           case r of
             Unspawnable e \<Rightarrow> sayA (Stderr (''ferm: etckeeper commit failed: '' @ e @ [NL]))
           | Finished ret _ err \<Rightarrow>
               whenA (ret \<noteq> 0)
                 (sayA (Stderr (''ferm: etckeeper commit failed: '' @ describe_failure ret err @ [NL])))))"

definition vcs :: "string list \<Rightarrow> string \<Rightarrow> (int \<times> string \<times> string) act" where
  "vcs args action =
     (let argv = [''etckeeper'', ''vcs''] @ args
      in bindA (spawnA (Capture argv) argv) (\<lambda>r.
           case r of
             Unspawnable e \<Rightarrow> stopA (Raised (Died (''etckeeper vcs '' @ action @ '' failed: '' @ e)))
           | Finished ret out err \<Rightarrow> retA (ret, out, err)))"

definition stdout_or_raise :: "int \<times> string \<times> string \<Rightarrow> string \<Rightarrow> string act" where
  "stdout_or_raise r action =
     (case r of
        (ret, out, err) \<Rightarrow>
          if ret \<noteq> 0
          then stopA (Raised (Died (if py_strip err = [] then ''etckeeper vcs '' @ action @ '' failed''
                                    else py_strip err)))
          else retA out)"

definition rollback_available :: "bool act" where
  "rollback_available =
     catchA (bindA (vcs [''rev-parse'', ''--show-toplevel''] ''rev-parse'') (\<lambda>(ret, _). retA (ret = 0)))
       (\<lambda>_. retA False)"

text \<open>\<open>relpath\<close> is \<^verbatim>\<open>os.path.relpath\<close> of the resolved directory of the configuration.\<close>

definition repo_relative_subpath :: "(string \<Rightarrow> string \<Rightarrow> string) \<Rightarrow> string \<Rightarrow> string act" where
  "repo_relative_subpath relpath config =
     bindA (vcs [''rev-parse'', ''--show-toplevel''] ''rev-parse'') (\<lambda>r.
     bindA (stdout_or_raise r ''rev-parse'') (\<lambda>root.
       let rel = relpath config (py_strip root)
       in if rel = ''..'' \<or> starts_with ''../'' rel
          then stopA (Raised (Died (''ferm config '' @ py_repr config @
                 '' is outside the etckeeper repository; rollback is unsupported there'')))
          else if rel = ''.'' \<or> rel = []
          then stopA (Raised (Died (''ferm config '' @ py_repr config @
                 '' sits at the etckeeper repository root; a path-scoped rollback would revert and clean '' @
                 ''the entire tree. Place the config in a subdirectory (e.g. /etc/ferm/).'')))
          else retA rel))"

definition list_history :: "string \<Rightarrow> int option \<Rightarrow> string act" where
  "list_history subpath limit =
     bindA (vcs ([''log'', ''--date=format:%Y-%m-%d %H:%M'', ''--format=%h  %ad  %s''] @
                 (case limit of None \<Rightarrow> [] | Some n \<Rightarrow> [''-n'', string_of_int n]) @ [''--'', subpath]) ''log'')
       (\<lambda>r. stdout_or_raise r ''log'')"

definition PREVIOUS_DEPTH :: nat where "PREVIOUS_DEPTH = 2"

definition previous_revision :: "string \<Rightarrow> string act" where
  "previous_revision subpath =
     bindA (vcs [''log'', ''--format=%H'', ''-n'', string_of_nat PREVIOUS_DEPTH, ''--'', subpath] ''log'') (\<lambda>r.
     bindA (stdout_or_raise r ''log'') (\<lambda>out.
       let revisions = filter (\<lambda>l. py_strip l \<noteq> []) (py_splitlines out)
       in if length revisions < PREVIOUS_DEPTH
          then stopA (Raised (Died ''no previous version to roll back to''))
          else retA (revisions ! 1)))"

definition diff_revision :: "string \<Rightarrow> string \<Rightarrow> string act" where
  "diff_revision sha subpath =
     bindA (liftA (validate_revision sha)) (\<lambda>_.
     bindA (vcs [''diff'', sha, ''--'', subpath] ''diff'') (\<lambda>r. stdout_or_raise r ''diff''))"

definition working_tree_dirty :: "string option \<Rightarrow> bool act" where
  "working_tree_dirty subpath =
     bindA (vcs ([''status'', ''--porcelain''] @ (case subpath of None \<Rightarrow> [] | Some p \<Rightarrow> [''--'', p])) ''status'') (\<lambda>r.
     bindA (stdout_or_raise r ''status'') (\<lambda>out. retA (py_strip out \<noteq> [])))"

definition rollback_steps :: "string \<Rightarrow> string \<Rightarrow> (string list \<times> string) list" where
  "rollback_steps sha subpath =
     [([''rm'', ''-r'', ''--cached'', ''--ignore-unmatch'', ''--'', subpath], ''unstage''),
      ([''checkout'', sha, ''--'', subpath], ''checkout''),
      ([''clean'', ''-f'', ''-d'', ''--'', subpath], ''clean'')]"

definition ek_rollback :: "string \<Rightarrow> string \<Rightarrow> unit act" where
  "ek_rollback sha subpath =
     bindA (liftA (validate_revision sha)) (\<lambda>_.
     eachA (\<lambda>(args, action). bindA (vcs args action) (\<lambda>(ret, _, err).
         whenA (ret \<noteq> 0)
           (stopA (Raised (Died (''rollback '' @ action @ '' failed: '' @ describe_failure ret err))))))
       (rollback_steps sha subpath))"

section \<open>Recording an applied configuration\<close>

definition commit_subject :: "string \<Rightarrow> domains \<Rightarrow> options \<Rightarrow> string" where
  "commit_subject filename ds opts =
     (let families = join_str '' '' (map (family_name \<circ> fst) (enabled_domains ds));
          descriptors = (if families = [] then [] else [families]) @
            [if opt_nft opts then ''nft'' else ''iptables''] @ (if opt_fast opts then [] else [''slow'']);
          name = rev (takeWhile (\<lambda>c. c \<noteq> CHR ''/'') (rev filename));
          head = (if opt_flush opts then ''flush '' @ name @ '' rules'' else ''apply '' @ name)
      in head @ '' ('' @ join_str '', '' descriptors @ '')'')"

definition redact_def_operand :: "string \<Rightarrow> string" where
  "redact_def_operand operand =
     (if CHR ''='' \<in> set operand then takeWhile (\<lambda>c. c \<noteq> CHR ''='') operand @ ''=<redacted>'' else operand)"

fun redacted_args :: "bool \<Rightarrow> string list \<Rightarrow> string list" where
  "redacted_args expect [] = []"
| "redacted_args expect (arg # args) =
     (if expect then redact_def_operand arg # redacted_args False args
      else if arg = ''--def'' then arg # redacted_args True args
      else if starts_with ''--def='' arg
      then (''--def='' @ redact_def_operand (drop 6 arg)) # redacted_args False args
      else arg # redacted_args False args)"

definition redacted_argv :: "string list \<Rightarrow> string list" where
  "redacted_argv argv = redacted_args False argv"

text \<open>\<open>prog\<close> is the name of the program, \<open>version\<close> its version.\<close>

definition trailer_block :: "string \<Rightarrow> string \<Rightarrow> string list \<Rightarrow> string" where
  "trailer_block version prog argv =
     ''Ferm-Version: '' @ version @ [NL] @ ''Ferm-Command: '' @ join_str '' '' (prog # redacted_argv argv)"

text \<open>
  \<open>delta\<close> is the phrase and the body of the plan, missing when the plan cannot be built.
\<close>

definition build_commit_message :: "string \<Rightarrow> (string \<times> string) option \<Rightarrow> string \<Rightarrow> string" where
  "build_commit_message head delta trailer =
     (case delta of
        None \<Rightarrow> ''ferm: '' @ head @ [NL, NL] @ trailer
      | Some (phrase, body) \<Rightarrow>
          ''ferm: '' @ head @ '': '' @ phrase @ (if body = [] then [] else [NL, NL] @ body) @ [NL, NL] @ trailer)"

definition any_failure_text :: "stop \<Rightarrow> string" where
  "any_failure_text e = (case e of Raised f \<Rightarrow> failure_text f | Untouched f \<Rightarrow> failure_text f | OsError m \<Rightarrow> m | _ \<Rightarrow> [])"

definition is_exit :: "stop \<Rightarrow> bool" where
  "is_exit e = (case e of Exit _ \<Rightarrow> True | RolledBack \<Rightarrow> True | _ \<Rightarrow> False)"

text \<open>\<^verbatim>\<open>except Exception\<close>: everything but an exit.\<close>

definition catch_any :: "unit act \<Rightarrow> (stop \<Rightarrow> unit act) \<Rightarrow> unit act" where
  "catch_any m f = (\<lambda>os h. case m os h of
     (Inl e, h') \<Rightarrow> if is_exit e then (Inl e, h') else f e os h'
   | r \<Rightarrow> r)"

definition record_history :: "options \<Rightarrow> string option \<Rightarrow> string act \<Rightarrow> unit act" where
  "record_history opts which message =
     (if opt_noexec opts \<or> opt_plan opts \<or> opt_test opts \<or> \<not> opt_etckeeper opts \<or> which = None then retA ()
      else catch_any
        (bindA (working_tree_dirty None) (\<lambda>dirty. whenA dirty (bindA message ek_commit)))
        (\<lambda>e. sayA (Stderr (''ferm: etckeeper commit skipped: '' @ any_failure_text e @ [NL]))))"

text \<open>A message that is known already.\<close>

definition commit_history :: "options \<Rightarrow> string option \<Rightarrow> string \<Rightarrow> unit act" where
  "commit_history opts which message = record_history opts which (retA message)"

section \<open>No secret in the recorded command\<close>

text \<open>
  Two command lines that differ only in the values of their definitions: the arguments that carry
  one have the same name before the first equals sign.
\<close>

definition same_operand :: "string \<Rightarrow> string \<Rightarrow> bool" where
  "same_operand a b \<longleftrightarrow>
     a = b \<or> (\<exists>name v v'. CHR ''='' \<notin> set name \<and> a = name @ ''='' @ v \<and> b = name @ ''='' @ v')"

inductive same_but_values :: "bool \<Rightarrow> string list \<Rightarrow> string list \<Rightarrow> bool" where
  stop: "same_but_values e [] []"
| operand: "same_operand a b \<Longrightarrow> same_but_values False as bs \<Longrightarrow> same_but_values True (a # as) (b # bs)"
| separate: "same_but_values True as bs \<Longrightarrow> same_but_values False (''--def'' # as) (''--def'' # bs)"
| joined: "same_operand a b \<Longrightarrow> same_but_values False as bs \<Longrightarrow>
    same_but_values False ((''--def='' @ a) # as) ((''--def='' @ b) # bs)"
| other: "same_but_values False as bs \<Longrightarrow> a \<noteq> ''--def'' \<Longrightarrow> same_but_values False (a # as) (a # bs)"

lemma redact_same: "same_operand a b \<Longrightarrow> redact_def_operand a = redact_def_operand b"
proof -
  have "takeWhile (\<lambda>c. c \<noteq> CHR ''='') (name @ ''='' @ v) = name" if "CHR ''='' \<notin> set name" for name v :: string
    using that by (induction name) auto
  then show "same_operand a b \<Longrightarrow> redact_def_operand a = redact_def_operand b"
    by (auto simp: same_operand_def redact_def_operand_def)
qed

lemma redacted_args_same: "same_but_values e as bs \<Longrightarrow> redacted_args e as = redacted_args e bs"
  by (induction rule: same_but_values.induct) (auto simp: redact_same starts_with_def)

text \<open>
  C26: The command recorded with an applied configuration does not depend on the values of the
  definitions given on the command line: two command lines that differ in nothing else are recorded
  as the same text.
\<close>

theorem recorded_command_hides_values:
  assumes "same_but_values False argv argv'"
  shows "trailer_block version prog argv = trailer_block version prog argv'"
  using redacted_args_same [OF assms] by (simp add: trailer_block_def redacted_argv_def)

lemma recorded_command_hides_values_witness:
  "trailer_block ''2.9'' ''ferm'' [''--nft'', ''--def'', ''key=secret'', ''--def=k2=a=b'', ''f.conf''] =
   trailer_block ''2.9'' ''ferm'' [''--nft'', ''--def'', ''key=other'', ''--def=k2='', ''f.conf'']"
proof (rule recorded_command_hides_values)
  have operand: "CHR ''='' \<notin> set name \<Longrightarrow> same_operand (name @ ''='' @ v) (name @ ''='' @ v')" for name v v'
    unfolding same_operand_def by blast
  have "same_operand ''key=secret'' ''key=other''" "same_operand ''k2=a=b'' ''k2=''"
    using operand [of "''key''" "''secret''" "''other''"] operand [of "''k2''" "''a=b''" "[]"] by simp_all
  then show "same_but_values False [''--nft'', ''--def'', ''key=secret'', ''--def=k2=a=b'', ''f.conf'']
      [''--nft'', ''--def'', ''key=other'', ''--def=k2='', ''f.conf'']"
    using same_but_values.joined [of "''k2=a=b''" "''k2=''" "[''f.conf'']" "[''f.conf'']"]
    by (auto intro!: same_but_values.intros)
qed

end
