(* ===== verification/Ferm_Apply.thy ===== *)
theory Ferm_Apply
  imports Ferm_Etckeeper Ferm_Walker_Safe
begin

text \<open>
  Applying a configuration: the effectful half of the backends (commit, roll back, capture of the
  previous rules; \<^verbatim>\<open>backend/iptables.py\<close>, \<^verbatim>\<open>backend/nft/backend.py\<close>) and the
  orchestration of \<^verbatim>\<open>cli/apply.py\<close>.

  A backend is a record of its methods, as the abstract class in \<^verbatim>\<open>backend/base.py\<close> has them;
  the callables given to them are arguments.
\<close>

section \<open>The interface of a backend\<close>

type_synonym executor = "string \<Rightarrow> int option act"
type_synonym emitter = "string \<Rightarrow> unit act"
type_synonym restorer = "domain_info \<Rightarrow> string \<Rightarrow> unit act"

record backend =
  bk_tool_names :: "family \<Rightarrow> (string, string) dict"
  bk_render :: "family \<Rightarrow> domain_info \<Rightarrow> options \<Rightarrow> rendered res"
  bk_commit ::
    "family \<Rightarrow> domain_info \<Rightarrow> rendered \<Rightarrow> options \<Rightarrow> executor \<Rightarrow> emitter \<Rightarrow> restorer \<Rightarrow> int option act"
  bk_rollback :: "family \<Rightarrow> domain_info \<Rightarrow> options \<Rightarrow> executor \<Rightarrow> restorer \<Rightarrow> unit act"
  bk_snapshot :: "family \<Rightarrow> domain_info \<Rightarrow> ((string \<times> string) \<times> string) option"
  bk_notice :: "string option"

section \<open>The x_tables backend\<close>

fun run_commands :: "executor \<Rightarrow> int option \<Rightarrow> command list \<Rightarrow> int option act" where
  "run_commands ex status [] = retA status"
| "run_commands ex status (c # cs) =
     (if cm_guarded c
      then (if status = None \<or> status = Some 0
            then bindA (ex (cm_text c)) (\<lambda>st. run_commands ex st cs)
            else run_commands ex status cs)
      else bindA (ex (cm_text c)) (\<lambda>_. run_commands ex status cs))"

definition commit_slow :: "executor \<Rightarrow> command list \<Rightarrow> int option act" where
  "commit_slow ex cs = run_commands ex None cs"

definition commit_fast ::
  "domain_info \<Rightarrow> string \<Rightarrow> options \<Rightarrow> emitter \<Rightarrow> restorer \<Rightarrow> int option act" where
  "commit_fast di save opts emit rst =
     thenA
       (if opt_lines opts
        then (case dict_get (di_tools di) TOOL_RESTORE of
                None \<Rightarrow> stopA (Raised PyKeyError)
              | Some tool \<Rightarrow>
                  let path = tool @ (if opt_noflush opts then '' --noflush'' else [])
                  in thenA (whenA (opt_shell opts) (emit (path @ '' <<EOT'' @ [NL])))
                     (thenA (emit save) (whenA (opt_shell opts) (emit (''EOT'' @ [NL])))))
        else retA ())
       (if opt_noexec opts then retA None
        else catchA (thenA (rst di save) (retA None))
               (\<lambda>e. thenA (sayA (Stderr (failure_text e @ [NL]))) (retA (Some 1))))"

definition ipt_commit ::
  "family \<Rightarrow> domain_info \<Rightarrow> rendered \<Rightarrow> options \<Rightarrow> executor \<Rightarrow> emitter \<Rightarrow> restorer \<Rightarrow> int option act" where
  "ipt_commit fam di r opts ex emit rst =
     (case r of Save s \<Rightarrow> commit_fast di s opts emit rst | Commands cs \<Rightarrow> commit_slow ex cs)"

text \<open>The built-in chains of a table reset to \<^verbatim>\<open>ACCEPT\<close>.\<close>

definition reset_table :: "string \<times> table_info \<Rightarrow> string" where
  "reset_table entry =
     (case entry of
        (table, ti) \<Rightarrow>
          let chains = concat (map (\<lambda>c. if is_netfilter_builtin_chain table c
                then '':'' @ c @ '' ACCEPT [0:0]'' @ [NL] else []) (dict_keys (ti_chains ti)))
          in if chains = [] then [] else ''*'' @ table @ [NL] @ chains @ ''COMMIT'' @ [NL])"

definition rollback_text :: "domain_info \<Rightarrow> string" where
  "rollback_text di =
     concat (map reset_table (di_tables di)) @ (case di_previous di of None \<Rightarrow> [] | Some p \<Rightarrow> p)"

definition ipt_rollback ::
  "family \<Rightarrow> domain_info \<Rightarrow> options \<Rightarrow> executor \<Rightarrow> restorer \<Rightarrow> unit act" where
  "ipt_rollback fam di opts ex rst =
     (if \<not> di_enabled di then retA ()
      else if fam = EB
      then (case dict_get (di_tools di) TOOL_TABLES of
              None \<Rightarrow> stopA (Raised PyKeyError)
            | Some cmd \<Rightarrow>
                eachA (\<lambda>t. case dict_get (di_ebt_previous di) t of
                    None \<Rightarrow> stopA (Raised PyKeyError)
                  | Some name \<Rightarrow> bindA (ex (ebt_atomic cmd t name ''--atomic-commit'')) (\<lambda>_. retA ()))
                  EB_TABLES)
      else if \<not> dict_has (di_tools di) TOOL_RESTORE
      then sayA (Stderr (''Cannot rollback domain '' @ [SQUOTE] @ family_name fam @ [SQUOTE] @
             '' because there is no '' @ family_name fam @ TOOL_RESTORE @ [NL]))
      else rst di (rollback_text di))"

definition ipt_backend :: "save_params \<Rightarrow> (string \<Rightarrow> string) \<Rightarrow> backend" where
  "ipt_backend pv tmp =
     \<lparr>bk_tool_names = default_tool_names, bk_render = (\<lambda>fam. render fam pv tmp), bk_commit = ipt_commit,
      bk_rollback = ipt_rollback, bk_snapshot = shell_snapshot, bk_notice = None\<rparr>"

text \<open>
  The previous rules. \<open>mock\<close> opens a file of \<^verbatim>\<open>--test-mock-previous\<close>, \<open>tmp\<close> names the
  snapshot file of a table.
\<close>

definition previous_of_mock :: "(string \<Rightarrow> string + string) \<Rightarrow> options \<Rightarrow> family \<Rightarrow> domain_info \<Rightarrow> domain_info act" where
  "previous_of_mock mock opts fam di =
     (case dict_get (opt_mock_previous opts) (family_name fam) of
        None \<Rightarrow> retA di
      | Some path \<Rightarrow>
          (case mock path of
             Inl e \<Rightarrow> stopA (Raised (Died e))
           | Inr text \<Rightarrow>
               (case read_previous (lines_keep text) di of
                  (save, di') \<Rightarrow> retA (di'\<lparr>di_previous := Some save\<rparr>))))"

text \<open>\<^verbatim>\<open>saved.splitlines(keepends=True)\<close>: the ends of lines Python knows, kept.\<close>

function splitlines_keep :: "string \<Rightarrow> string list" where
  "splitlines_keep [] = []"
| "splitlines_keep (c # s) =
     (let body = takeWhile (\<lambda>d. \<not> py_linebreak d) (c # s); rest = dropWhile (\<lambda>d. \<not> py_linebreak d) (c # s);
          n = (if take 2 rest = [CHR 0x0D, NL] then 2 else 1)
      in (body @ take n rest) # splitlines_keep (drop n rest))"
  by pat_completeness auto
termination
  by (relation "measure length") (auto simp: Let_def less_Suc_eq_le intro: order_trans [OF diff_le_self]
      order_trans [OF length_dropWhile_le] split: if_splits)

declare splitlines_keep.simps(2) [simp del]

definition previous_of_tool :: "(string \<Rightarrow> string option act) \<Rightarrow> domain_info \<Rightarrow> domain_info act" where
  "previous_of_tool read di =
     (case dict_get (di_tools di) TOOL_SAVE of
        None \<Rightarrow> retA di
      | Some tool \<Rightarrow>
          bindA (read tool) (\<lambda>saved.
            case saved of
              None \<Rightarrow> retA di
            | Some text \<Rightarrow>
                (case read_previous (splitlines_keep text) di of
                   (save, di') \<Rightarrow> retA (di'\<lparr>di_previous := Some save\<rparr>))))"

fun save_eb_tables :: "executor \<Rightarrow> (string \<Rightarrow> string) \<Rightarrow> string list \<Rightarrow> domain_info \<Rightarrow> domain_info act" where
  "save_eb_tables ex tmp [] di = retA di"
| "save_eb_tables ex tmp (t # ts) di =
     (case dict_get (di_tools di) TOOL_TABLES of
        None \<Rightarrow> stopA (Raised PyKeyError)
      | Some cmd \<Rightarrow>
          bindA (ex (ebt_atomic cmd t (tmp t) ''--atomic-save'')) (\<lambda>_.
          save_eb_tables ex tmp ts (di\<lparr>di_ebt_previous := dict_set t (tmp t) (di_ebt_previous di)\<rparr>)))"

definition ipt_capture_previous ::
  "(string \<Rightarrow> string + string) \<Rightarrow> (string \<Rightarrow> string) \<Rightarrow> options \<Rightarrow> executor \<Rightarrow> (string \<Rightarrow> string option act) \<Rightarrow>
   family \<Rightarrow> domain_info \<Rightarrow> domain_info act" where
  "ipt_capture_previous mock tmp opts ex read fam di =
     (if opt_plan opts \<and> \<not> family_is_ip fam then retA (di\<lparr>di_plan_unsupported := True\<rparr>)
      else bindA (if opt_test opts then previous_of_mock mock opts fam di else previous_of_tool read di) (\<lambda>di.
           if fam = EB then save_eb_tables ex tmp EB_TABLES di else retA di))"

section \<open>The nft backend\<close>

text \<open>What it does to the kernel besides applying the rules.\<close>

definition nft_table :: "family \<Rightarrow> string" where
  "nft_table fam = nft_name fam @ '' '' @ NFT_TABLE_NAME"

definition nft_capture_previous ::
  "(string \<Rightarrow> string + string) \<Rightarrow> options \<Rightarrow> (string \<Rightarrow> string option act) \<Rightarrow> family \<Rightarrow> domain_info \<Rightarrow> domain_info act" where
  "nft_capture_previous mock opts cap fam di =
     (if opt_test opts
      then (case dict_get (opt_mock_previous opts) (family_name fam) of
              None \<Rightarrow> retA di
            | Some path \<Rightarrow>
                (case mock path of
                   Inl e \<Rightarrow> stopA (Raised (Died e))
                 | Inr text \<Rightarrow> retA (di\<lparr>di_previous := Some text\<rparr>)))
      else (case dict_get (di_tools di) TOOL_NFT of
              None \<Rightarrow> stopA (Raised PyKeyError)
            | Some tool \<Rightarrow>
                bindA (cap (tool @ '' list table '' @ nft_table fam)) (\<lambda>snapshot.
                retA (di\<lparr>di_previous := (if snapshot = Some [] then None else snapshot)\<rparr>))))"

definition nft_rollback ::
  "family \<Rightarrow> domain_info \<Rightarrow> options \<Rightarrow> executor \<Rightarrow> restorer \<Rightarrow> unit act" where
  "nft_rollback fam di opts ex rst =
     (if \<not> di_enabled di then retA ()
      else case di_previous di of
        Some (c # p) \<Rightarrow> rst di (c # p)
      | _ \<Rightarrow>
          (case dict_get (di_tools di) TOOL_NFT of
             None \<Rightarrow> stopA (Raised PyKeyError)
           | Some tool \<Rightarrow> bindA (ex (tool @ '' delete table '' @ nft_table fam)) (\<lambda>_. retA ())))"

definition nft_shell_snapshot :: "family \<Rightarrow> domain_info \<Rightarrow> ((string \<times> string) \<times> string) option" where
  "nft_shell_snapshot fam di =
     map_option (\<lambda>tool.
         let tmp = family_name fam @ ''_tmp''
         in ((tmp @ ''=$(mktemp ferm.XXXXXXXXXX)'' @ [NL],
              tool @ '' list table '' @ nft_table fam @ '' >$'' @ tmp @ '' 2>/dev/null || true'' @ [NL]),
             tool @ '' delete table '' @ nft_table fam @ '' 2>/dev/null || true'' @ [NL] @
             tool @ '' -f $'' @ tmp @ [NL]))
       (dict_get (di_tools di) TOOL_NFT)"

definition nft_rollback_notice :: string where
  "nft_rollback_notice =
     ''echo '' @ [SQUOTE] @ ''ferm: rolled back to the previous firewall rules.'' @ [SQUOTE] @ '' >&2'' @ [NL]"

section \<open>Orchestration\<close>

definition rollback_all :: "domains \<Rightarrow> options \<Rightarrow> backend \<Rightarrow> unit act" where
  "rollback_all ds opts bk =
     thenA (eachA (\<lambda>(fam, di). bk_rollback bk fam di opts (execute opts) (restore_rules opts)) (enabled_domains ds))
     (thenA (sayA (Stderr ([NL] @ ''Firewall rules rolled back.'' @ [NL]))) (stopA RolledBack))"

text \<open>The read ends with an error when the alarm interrupts it; at most three bytes are read.\<close>

definition confirm_rules :: "options \<Rightarrow> bool act" where
  "confirm_rules opts =
     thenA (sayA (Stderr ([NL] @ ''ferm has applied the new firewall rules.'' @ [NL] @
                          ''Please type '' @ [SQUOTE] @ ''yes'' @ [SQUOTE] @ '' to confirm:'' @ [NL])))
     (bindA (askA (AskUser (opt_timeout opts))) (\<lambda>r.
        case r of
          Unspawnable e \<Rightarrow> retA False
        | Finished _ typed _ \<Rightarrow> retA (take 3 typed = ''yes'')))"

definition emit_shell_confirmation :: "backend \<Rightarrow> domains \<Rightarrow> options \<Rightarrow> unit act" where
  "emit_shell_confirmation bk ds opts =
     thenA (emit_line (''echo '' @ [SQUOTE] @ ''ferm has applied the new firewall rules.'' @ [SQUOTE] @ [NL]))
     (thenA (emit_line (''echo '' @ [SQUOTE] @ ''Please press Ctrl-C to confirm.'' @ [SQUOTE] @ [NL]))
     (thenA (emit_line (''sleep '' @ string_of_int (opt_timeout opts) @ [NL]))
     (thenA (eachA (\<lambda>(fam, di). case bk_snapshot bk fam di of
               None \<Rightarrow> retA () | Some (setup, back) \<Rightarrow> emit_line back) (sorted_domains ds))
            (case bk_notice bk of None \<Rightarrow> retA () | Some n \<Rightarrow> emit_line n))))"

fun commit_domains ::
  "backend \<Rightarrow> options \<Rightarrow> int option \<Rightarrow> (family \<times> domain_info) list \<Rightarrow> int option act" where
  "commit_domains bk opts status [] = retA status"
| "commit_domains bk opts status ((fam, di) # ds) =
     bindA (liftA (bk_render bk fam di opts)) (\<lambda>r.
     bindA (bk_commit bk fam di r opts (execute opts) emit_line (restore_rules opts)) (\<lambda>result.
     commit_domains bk opts (if result = None then status else result) ds))"

record hooks =
  hk_pre :: "string list"
  hk_post :: "string list"
  hk_flush :: "string list"

definition active_hooks :: "options \<Rightarrow> hooks \<Rightarrow> hooks" where
  "active_hooks opts hk =
     (if opt_flush opts then hk\<lparr>hk_pre := [], hk_post := []\<rparr> else hk\<lparr>hk_flush := []\<rparr>)"

definition confirm_phase :: "backend \<Rightarrow> options \<Rightarrow> domains \<Rightarrow> unit act" where
  "confirm_phase bk opts ds =
     whenA (opt_interactive opts)
       (thenA (whenA (opt_shell opts) (emit_shell_confirmation bk ds opts))
         (whenA (\<not> opt_noexec opts)
           (bindA (confirm_rules opts) (\<lambda>ok. whenA (\<not> ok) (rollback_all ds opts bk)))))"

text \<open>From the hooks to the recording of the applied rules, \<open>history\<close>.\<close>

definition apply_rules :: "backend \<Rightarrow> options \<Rightarrow> domains \<Rightarrow> hooks \<Rightarrow> unit act \<Rightarrow> unit act" where
  "apply_rules bk opts ds hk0 history =
     (let hk = active_hooks opts hk0
      in thenA (eachA (run_hook opts) (hk_pre hk))
         (bindA (commit_domains bk opts None (enabled_domains ds)) (\<lambda>status.
          thenA (eachA (run_hook opts) (hk_post hk @ hk_flush hk))
          (thenA (whenA (status \<noteq> None) (rollback_all ds opts bk))
          (thenA (confirm_phase bk opts ds) history)))))"

section \<open>Parsing and applying\<close>

definition def_split :: "string \<Rightarrow> (string \<times> string) option" where
  "def_split spec =
     (let s = (if starts_with ''$'' spec then tl spec else spec); rest = dropWhile is_word s
      in if takeWhile is_word s \<noteq> [] \<and> starts_with ''='' rest then Some (takeWhile is_word s, tl rest) else None)"

definition apply_def :: "world \<Rightarrow> string \<Rightarrow> unit pm" where
  "apply_def w spec =
     (case def_split spec of
        None \<Rightarrow> failP (Died ''Invalid --def specification'')
      | Some (name, text) \<Rightarrow>
          thenP (set_words (tokenize_string text))
          (bindP (getvalues w MAX_VALUE_DEPTH True plain_opts) (\<lambda>v.
           bindP (getP ps_words) (\<lambda>ws.
             if ws \<noteq> [] then failP (Died ''Extra tokens after --def'') else scopeP (set_top_var name v)))))"

definition bare_state :: pstate where
  "bare_state =
     \<lparr>ps_script = None, ps_words = [], ps_calls = 0, ps_scope = push_frame [] empty_scope, ps_kw = [],
      ps_cells = [], ps_domains = [], ps_pre_hooks = [], ps_post_hooks = [], ps_flush_hooks = [],
      ps_stderr = [], ps_lines = []\<rparr>"

fun apply_defs :: "world \<Rightarrow> string list \<Rightarrow> unit pm" where
  "apply_defs w [] = retP ()"
| "apply_defs w (d # ds) = thenP (apply_def w d) (apply_defs w ds)"

definition open_config :: "string \<Rightarrow> script \<Rightarrow> pstate \<Rightarrow> pstate" where
  "open_config filename sc s =
     s\<lparr>ps_script := Some sc, ps_scope := push_frame (include_auto filename []) (ps_scope s)\<rparr>"

text \<open>What the parser wrote to the generated script and to standard error.\<close>

definition report_parse :: "string list \<Rightarrow> string list \<Rightarrow> unit act" where
  "report_parse errs lines =
     thenA (eachA (\<lambda>t. sayA (Stderr t)) errs) (eachA emit_line lines)"

definition apply_parsed ::
  "backend \<Rightarrow> options \<Rightarrow> (domains \<Rightarrow> int act) \<Rightarrow> (domains \<Rightarrow> unit act) \<Rightarrow> pstate \<Rightarrow> int act" where
  "apply_parsed bk opts plan history s =
     thenA (report_parse (ps_stderr s) (ps_lines s))
     (if length (so_stack (ps_scope s)) \<noteq> 2
      then stopA (Raised (internal_error ''parser left the scope stack unbalanced''))
      else if opt_plan opts then plan (ps_domains s)
      else thenA (apply_rules bk opts (ps_domains s)
                   \<lparr>hk_pre = ps_pre_hooks s, hk_post = ps_post_hooks s, hk_flush = ps_flush_hooks s\<rparr>
                   (history (ps_domains s)))
             (retA 0))"

text \<open>
  The whole run; \<open>F\<close> bounds the loops of the parser, \<open>plan\<close> is the read-only mode and \<open>history\<close>
  the recording of an applied configuration.
\<close>

definition apply_config ::
  "world \<Rightarrow> options \<Rightarrow> nat \<Rightarrow> backend \<Rightarrow> (domains \<Rightarrow> int act) \<Rightarrow> (domains \<Rightarrow> unit act) \<Rightarrow> string list \<Rightarrow> string \<Rightarrow>
   int act" where
  "apply_config w opts F bk plan history defs filename =
     (case apply_defs w defs bare_state of
        Inl (e, errs) \<Rightarrow> thenA (report_parse errs []) (stopA (Raised e))
      | Inr (_, s0) \<Rightarrow>
          (case open_script (w_open w) (w_stdin w) filename None of
             Inl e \<Rightarrow> stopA (Raised e)
           | Inr sc \<Rightarrow>
               (case enter w opts F MAX_BLOCK_DEPTH 0 None (open_config filename sc s0) of
                  Inl (e, errs) \<Rightarrow>
                    thenA (report_parse errs []) (stopA (if is_ferm_error e then Untouched e else Raised e))
                | Inr (_, s) \<Rightarrow> apply_parsed bk opts plan history s)))"

end
