(* ===== verification/Ferm_Apply_Safe.thy ===== *)
theory Ferm_Apply_Safe
  imports Ferm_Apply Ferm_Sample
begin

text \<open>
  What applying a configuration guarantees, for every backend that keeps the contract of
  \<open>backend_contract\<close>: a dry run does nothing to the system, a run that ends normally has installed
  every family (and was confirmed, if it had to be), a run that ends rolled back has restored every
  family. The contract is interpreted on the x_tables backend, where the bridge family in the slow mode
  is an exception: the program ignores the status of the commits of its tables.
\<close>

section \<open>Runs that do not roll back\<close>

text \<open>The exits that prove the rules of the kernel unchanged come from the orchestration alone.\<close>

fun plain_stop :: "stop \<Rightarrow> bool" where
  "plain_stop RolledBack = False"
| "plain_stop (Untouched _) = False"
| "plain_stop _ = True"

definition calm :: "'a act \<Rightarrow> bool" where
  "calm m \<longleftrightarrow> (\<forall>os h e h'. m os h = (Inl e, h') \<longrightarrow> plain_stop e)"

lemma calmD: "calm m \<Longrightarrow> m os h = (Inl e, h') \<Longrightarrow> plain_stop e"
  by (auto simp: calm_def)

lemma calm_not_rolled_back [simp]: "calm m \<Longrightarrow> m os h \<noteq> (Inl RolledBack, h')"
  using calmD by fastforce

named_theorems calms \<open>actions that end with neither of them\<close>

lemma calmI: "(\<And>os h e h'. m os h = (Inl e, h') \<Longrightarrow> plain_stop e) \<Longrightarrow> calm m"
  by (auto simp: calm_def)

lemma calm_basic [calms]:
  "calm (retA x)" "plain_stop e \<Longrightarrow> calm (stopA e)" "calm (sayA ev)" "calm (askA ev)" "calm (spawnA ev argv)"
  "calm (liftA r)" "calm (emit_line t)"
  by (auto simp: calm_def spawnA_Inl liftA_iff emit_line_def split: sum.splits)

lemma calm_bind [calms]:
  assumes "calm m" and "\<And>x. calm (f x)"
  shows "calm (bindA m f)"
  using calmD [OF assms(1)] calmD [OF assms(2)] by (auto intro!: calmI simp: bindA_Inl)

lemma calm_then [calms]: "calm m \<Longrightarrow> calm k \<Longrightarrow> calm (thenA m k)"
  by (simp add: thenA_def calm_bind)

lemma calm_when [calms]: "(b \<Longrightarrow> calm m) \<Longrightarrow> calm (whenA b m)"
  by (simp add: whenA_def calms)

lemma calm_each [calms]: "(\<And>x. x \<in> set xs \<Longrightarrow> calm (f x)) \<Longrightarrow> calm (eachA f xs)"
  by (induction xs) (auto intro: calms)

lemma calm_catch [calms]:
  assumes "calm m" and "\<And>e. calm (f e)"
  shows "calm (catchA m f)"
proof (rule calmI)
  fix os h e h'
  assume "catchA m f os h = (Inl e, h')"
  then have "m os h = (Inl e, h') \<or> (\<exists>x h1. f x os h1 = (Inl e, h'))"
    by (auto simp: catchA_def split: prod.splits sum.splits stop.splits if_splits)
  then show "plain_stop e" using calmD [OF assms(1)] calmD [OF assms(2)] by blast
qed

lemma calm_execute [calms]: "calm (execute opts c)"
  unfolding execute_def exit_status_def by (auto intro!: calms split: outcome.splits)

lemma calm_restore_domain [calms]: "calm (restore_domain opts di save)"
  unfolding restore_domain_def by (auto intro!: calms split: outcome.splits option.splits)

lemma calm_nft_restore [calms]: "calm (nft_restore di save)"
  unfolding nft_restore_def nft_check_save_def run_failed_def
  by (auto intro!: calms split: outcome.splits option.splits)

lemma calm_restore_rules [calms]: "calm (restore_rules opts di save)"
  by (simp add: restore_rules_def calms)

lemma calm_hook [calms]: "calm (run_hook opts c)"
  unfolding run_hook_def by (auto intro!: calms split: outcome.splits)

lemma calm_confirm [calms]: "calm (confirm_rules opts)"
  unfolding confirm_rules_def by (auto intro!: calms split: outcome.splits)

lemma calm_emit_confirmation [calms]: "calm (emit_shell_confirmation bk ds opts)"
  unfolding emit_shell_confirmation_def by (auto intro!: calms split: option.splits)

lemma vcs_calm [calms]: "calm (vcs args action)"
  unfolding vcs_def Let_def by (auto intro!: calms split: outcome.splits)

lemma ek_calm [calms]: "calm (working_tree_dirty p)" "calm (ek_commit m)"
  unfolding working_tree_dirty_def ek_commit_def stdout_or_raise_def Let_def
  by (auto intro!: calms split: outcome.splits prod.splits)

lemma calm_catch_any [calms]:
  assumes "calm m" and "\<And>e. calm (f e)"
  shows "calm (catch_any m f)"
  using calmD [OF assms(1)] calmD [OF assms(2)]
  by (auto intro!: calmI simp: catch_any_def split: prod.splits sum.splits if_splits)

lemma record_history_calm [calms]: "calm m \<Longrightarrow> calm (record_history opts which m)"
  unfolding record_history_def by (auto intro!: calms)

lemma commit_history_calm [calms]: "calm (commit_history opts which m)"
  unfolding commit_history_def by (intro calms)

section \<open>Histories only grow\<close>

lemma confirm_grows [runs]: "grows (confirm_rules opts)"
  unfolding confirm_rules_def by (auto intro!: runs split: outcome.splits)

lemma emit_confirmation_quiet [runs]: "always quiet (emit_shell_confirmation bk ds opts)"
  unfolding emit_shell_confirmation_def by (auto intro!: runs split: option.splits)

lemma grows_of: "always R m \<Longrightarrow> grows m"
  by (erule always_mono) simp

lemma ek_grows [runs]: "grows (vcs args action)" "grows (working_tree_dirty p)" "grows (ek_commit m)"
  unfolding vcs_def working_tree_dirty_def ek_commit_def stdout_or_raise_def Let_def
  by (auto intro!: runs split: outcome.splits prod.splits)

lemma always_catch_any [runs]:
  assumes "always R m" and "\<And>e. always R (f e)"
  shows "always R (catch_any m f)"
proof (rule always_alwaysI)
  fix os h
  obtain r h1 where m: "m os h = (r, h1)" by fastforce
  obtain n1 where n1: "h1 = n1 @ h" "all_new (R os) n1 h"
    using assms(1) m unfolding always_def by (metis snd_conv)
  show "\<exists>new. snd (catch_any m f os h) = new @ h \<and> all_new (R os) new h"
  proof (cases "\<exists>e. r = Inl e \<and> \<not> is_exit e")
    case True
    then obtain e where e: "r = Inl e" "\<not> is_exit e" by blast
    obtain n2 where "snd (f e os h1) = n2 @ h1" "all_new (R os) n2 h1"
      using assms(2) [of e] unfolding always_def by blast
    then show ?thesis using m n1 e by (intro exI [of _ "n2 @ n1"]) (simp add: catch_any_def all_new_append)
  qed (use m n1 in \<open>auto simp: catch_any_def split: sum.splits\<close>)
qed

lemma record_history_grows [runs]: "grows m \<Longrightarrow> grows (record_history opts which m)"
  unfolding record_history_def by (auto intro!: runs)

lemma commit_history_grows [runs]: "grows (commit_history opts which m)"
  unfolding commit_history_def by (intro runs)

lemma record_history_dry [runs]: "opt_noexec opts \<Longrightarrow> always R (record_history opts which m)"
  by (simp add: record_history_def runs)

lemma commit_history_dry [runs]: "opt_noexec opts \<Longrightarrow> always R (commit_history opts which m)"
  by (simp add: commit_history_def runs)

lemma commit_domains_append:
  assumes "commit_domains bk opts st ds os h = (Inr st', h1)"
  shows "commit_domains bk opts st (ds @ ds') os h = commit_domains bk opts st' ds' os h1"
  using assms
proof (induction ds arbitrary: st h)
  case (Cons d ds)
  then show ?case by (cases d) (auto simp: bindA_def liftA_iff split: prod.splits sum.splits)
qed simp

section \<open>The contract of a backend\<close>

definition confirmed :: "options \<Rightarrow> os \<Rightarrow> event list \<Rightarrow> bool" where
  "confirmed opts os h \<longleftrightarrow>
     (\<exists>new rest ret typed err. h = new @ AskUser (opt_timeout opts) # rest \<and>
        os (AskUser (opt_timeout opts) # rest) = Finished ret typed err \<and> take 3 typed = ''yes'')"

locale backend_contract =
  fixes bk :: backend
    and uses :: "options \<Rightarrow> bool"
    and installed :: "options \<Rightarrow> family \<Rightarrow> domain_info \<Rightarrow> rendered \<Rightarrow> os \<Rightarrow> event list \<Rightarrow> bool"
    and restored :: "options \<Rightarrow> family \<Rightarrow> domain_info \<Rightarrow> os \<Rightarrow> event list \<Rightarrow> bool"
  assumes commit_grows: "grows (bk_commit bk fam di r opts (execute opts) emit_line (restore_rules opts))"
    and rollback_grows: "grows (bk_rollback bk fam di opts (execute opts) (restore_rules opts))"
    and commit_calm: "calm (bk_commit bk fam di r opts (execute opts) emit_line (restore_rules opts))"
    and rollback_calm: "calm (bk_rollback bk fam di opts (execute opts) (restore_rules opts))"
    and commit_dry: "opt_noexec opts \<Longrightarrow>
      always quiet (bk_commit bk fam di r opts (execute opts) emit_line (restore_rules opts))"
    and commit_dry_status: "opt_noexec opts \<Longrightarrow>
      bk_commit bk fam di r opts (execute opts) emit_line (restore_rules opts) os h = (Inr st, h') \<Longrightarrow> st = None"
    and commit_installs: "uses opts \<Longrightarrow> bk_render bk fam di opts = Inr r \<Longrightarrow>
      bk_commit bk fam di r opts (execute opts) emit_line (restore_rules opts) os h = (Inr None, h') \<Longrightarrow>
      installed opts fam di r os h'"
    and rollback_restores: "uses opts \<Longrightarrow> di_enabled di \<Longrightarrow>
      bk_rollback bk fam di opts (execute opts) (restore_rules opts) os h = (Inr x, h') \<Longrightarrow>
      restored opts fam di os h'"
    and installed_later: "installed opts fam di r os h \<Longrightarrow> installed opts fam di r os (new @ h)"
    and restored_later: "restored opts fam di os h \<Longrightarrow> restored opts fam di os (new @ h)"
begin

lemma commit_domains_grows: "grows (commit_domains bk opts st ds)"
proof (induction ds arbitrary: st)
  case (Cons d ds)
  then show ?case by (cases d) (auto intro!: runs commit_grows)
qed (simp add: runs)

lemma commit_domains_calm: "calm (commit_domains bk opts st ds)"
proof (induction ds arbitrary: st)
  case (Cons d ds)
  then show ?case by (cases d) (auto intro!: calms commit_calm)
qed (simp add: calms)

lemma commit_domains_dry:
  assumes "opt_noexec opts"
  shows "always quiet (commit_domains bk opts st ds)"
    and "commit_domains bk opts None ds os h = (Inr st', h') \<Longrightarrow> st' = None"
  using assms
proof (induction ds arbitrary: st h)
  case (Cons d ds)
  {
    case 1
    show ?case using Cons.IH(1) assms by (cases d) (auto intro!: runs commit_dry)
  next
    case 2
    then show ?case using Cons.IH(2) assms
      by (cases d) (auto simp: bindA_Inr liftA_iff dest!: commit_dry_status)
  }
qed (auto intro: runs)

lemma commit_domains_status: "commit_domains bk opts (Some st) ds os h \<noteq> (Inr None, h')"
proof (induction ds arbitrary: st h)
  case (Cons d ds)
  have "commit_domains bk opts (if res = None then Some st else res) ds os h1 \<noteq> (Inr None, h')" for res h1
    using Cons by (cases res) auto
  then show ?case by (cases d) (auto simp: bindA_Inr)
qed simp

lemma commit_domains_installs:
  assumes "uses opts" and "commit_domains bk opts None ds os h = (Inr None, h')"
  shows "\<forall>(fam, di) \<in> set ds. \<exists>r. bk_render bk fam di opts = Inr r \<and> installed opts fam di r os h'"
  using assms(2)
proof (induction ds arbitrary: h)
  case (Cons d ds)
  obtain fam di where d: "d = (fam, di)" by fastforce
  from Cons.prems obtain r h1 res where r: "bk_render bk fam di opts = Inr r"
    and c: "bk_commit bk fam di r opts (execute opts) emit_line (restore_rules opts) os h = (Inr res, h1)"
    and rest: "commit_domains bk opts (if res = None then None else res) ds os h1 = (Inr None, h')"
    unfolding d by (auto simp: bindA_Inr liftA_iff split: sum.splits)
  have "res = None" using rest commit_domains_status by (cases res) auto
  then have "installed opts fam di r os h1" using c r assms(1) commit_installs by blast
  moreover obtain new where "h' = new @ h1" using growsD [OF commit_domains_grows rest] by blast
  ultimately show ?case using r Cons.IH rest \<open>res = None\<close> d installed_later by auto
qed simp

lemma rollback_all_restores:
  assumes "uses opts" and "rollback_all ds opts bk os h = (Inl RolledBack, h')"
  shows "\<forall>(fam, di) \<in> set (enabled_domains ds). restored opts fam di os h'"
proof -
  let ?f = "\<lambda>(fam, di). bk_rollback bk fam di opts (execute opts) (restore_rules opts)"
  have calm: "calm (eachA ?f ds')" for ds' by (auto intro!: calms rollback_calm)
  obtain h1 where run: "eachA ?f (enabled_domains ds) os h = (Inr (), h1)"
    and h': "h' = Stderr ([NL] @ ''Firewall rules rolled back.'' @ [NL]) # h1"
    using assms(2) calm [of "enabled_domains ds"] by (simp add: rollback_all_def thenA_Inl) blast
  have "\<forall>(fam, di) \<in> set ds'. di_enabled di \<Longrightarrow> eachA ?f ds' os h = (Inr (), h1) \<Longrightarrow>
      \<forall>(fam, di) \<in> set ds'. restored opts fam di os h1" for ds' h
  proof (induction ds' arbitrary: h)
    case (Cons d ds')
    obtain fam di where d: "d = (fam, di)" by fastforce
    from Cons.prems(2) obtain h2 where h2: "?f d os h = (Inr (), h2)" "eachA ?f ds' os h2 = (Inr (), h1)"
      by (auto simp: thenA_Inr)
    have restored: "restored opts fam di os h2"
      using h2(1) Cons.prems(1) assms(1) d rollback_restores by auto
    have "grows (eachA ?f ds')" by (auto intro!: runs rollback_grows)
    from growsD [OF this, of os h2 "Inr ()" h1] h2(2) obtain new where h1: "h1 = new @ h2" by auto
    have "restored opts fam di os h1" unfolding h1 by (rule restored_later) (rule restored)
    moreover have "\<forall>(fam, di) \<in> set ds'. restored opts fam di os h1"
      using Cons.IH [OF _ h2(2)] Cons.prems(1) by simp
    ultimately show ?case by (simp add: d)
  qed simp
  moreover have "\<forall>(fam, di) \<in> set (enabled_domains ds). di_enabled di" by (auto simp: enabled_domains_def)
  ultimately have "\<forall>(fam, di) \<in> set (enabled_domains ds). restored opts fam di os h1" using run by blast
  then show ?thesis unfolding h' using restored_later [of _ _ _ _ h1 "[x]" for x] by auto
qed

lemma rollback_all_never_returns: "rollback_all ds opts bk os h \<noteq> (Inr x, h')"
  by (simp add: rollback_all_def thenA_Inr)

text \<open>A dry run writes text and asks nothing.\<close>

lemma apply_dry:
  assumes "opt_noexec opts" and "always quiet history"
  shows "always quiet (apply_rules bk opts ds hk history)"
proof (rule always_alwaysI)
  fix os h
  let ?hk = "active_hooks opts hk"
  have pre: "always quiet (eachA (run_hook opts) (hk_pre ?hk))" by (intro runs assms)
  have rest: "always quiet (thenA (eachA (run_hook opts) (hk_post ?hk @ hk_flush ?hk))
      (thenA (whenA (st \<noteq> None) (rollback_all ds opts bk)) (thenA (confirm_phase bk opts ds) history)))"
    if "st = None" for st
    using that assms unfolding confirm_phase_def by (auto simp: whenA_def intro!: runs)
  have "always quiet (bindA (commit_domains bk opts None (enabled_domains ds)) (\<lambda>st.
      thenA (eachA (run_hook opts) (hk_post ?hk @ hk_flush ?hk))
      (thenA (whenA (st \<noteq> None) (rollback_all ds opts bk)) (thenA (confirm_phase bk opts ds) history))))"
    (is "always _ (bindA ?m ?k)")
  proof (rule always_alwaysI)
    fix os h
    obtain r h1 where m: "?m os h = (r, h1)" by fastforce
    obtain n1 where n1: "h1 = n1 @ h" "all_new (quiet os) n1 h"
      using commit_domains_dry(1) [OF assms(1), of None "enabled_domains ds"] m
      unfolding always_def by (metis snd_conv)
    show "\<exists>new. snd (bindA ?m ?k os h) = new @ h \<and> all_new (quiet os) new h"
    proof (cases r)
      case (Inr st)
      then have "st = None" using commit_domains_dry(2) [OF assms(1)] m by blast
      then obtain n2 where "snd (?k st os h1) = n2 @ h1" "all_new (quiet os) n2 h1"
        using rest unfolding always_def by blast
      then show ?thesis using m n1 Inr by (intro exI [of _ "n2 @ n1"]) (simp add: bindA_def all_new_append)
    qed (use m n1 in \<open>auto simp: bindA_def\<close>)
  qed
  with pre show "\<exists>new. snd (apply_rules bk opts ds hk history os h) = new @ h \<and> all_new (quiet os) new h"
    unfolding apply_rules_def Let_def using always_then unfolding always_def by blast
qed

lemma confirm_phase_ends:
  assumes "confirm_phase bk opts ds os h = (Inr x, h')" and "\<not> opt_noexec opts"
  shows "(opt_interactive opts \<longrightarrow> confirmed opts os h') \<and> (\<exists>new. h' = new @ h)"
proof (cases "opt_interactive opts")
  case True
  let ?emit = "whenA (opt_shell opts) (emit_shell_confirmation bk ds opts)"
  obtain h1 ok h2 where emit: "?emit os h = (Inr (), h1)" and ask: "confirm_rules opts os h1 = (Inr ok, h2)"
    and end': "whenA (\<not> ok) (rollback_all ds opts bk) os h2 = (Inr x, h')"
    using assms True unfolding confirm_phase_def by (auto simp: whenA_def thenA_Inr bindA_Inr)
  have "ok \<and> h' = h2" using end' rollback_all_never_returns by (cases ok) (auto simp: whenA_def)
  moreover have "confirmed opts os h2" if "ok"
    using ask that unfolding confirm_rules_def confirmed_def
    by (auto simp: thenA_Inr bindA_Inr split: outcome.splits intro: exI [of _ "[]"])
  moreover
  have g: "grows ?emit" using grows_of [OF emit_confirmation_quiet] by (auto intro!: runs)
  have "\<exists>new. h2 = new @ h" using growsD [OF g emit] growsD [OF confirm_grows ask] by force
  ultimately show ?thesis by blast
qed (use assms in \<open>simp add: confirm_phase_def whenA_def\<close>)

lemma confirmed_later: "confirmed opts os h \<Longrightarrow> confirmed opts os (new @ h)"
  unfolding confirmed_def by (metis append.assoc)

text \<open>A run that ends normally has installed every family, and was confirmed if it had to be.\<close>

lemma apply_ends:
  assumes "uses opts" and "\<not> opt_noexec opts" and "grows history"
    and "apply_rules bk opts ds hk history os h = (Inr x, h')"
  shows "(\<forall>(fam, di) \<in> set (enabled_domains ds).
      \<exists>r. bk_render bk fam di opts = Inr r \<and> installed opts fam di r os h') \<and>
    (opt_interactive opts \<longrightarrow> confirmed opts os h')"
proof -
  let ?post = "eachA (run_hook opts) (hk_post (active_hooks opts hk) @ hk_flush (active_hooks opts hk))"
  obtain h1 st h2 h3 h4 h5 where
    c: "commit_domains bk opts None (enabled_domains ds) os h1 = (Inr st, h2)"
    and p: "?post os h2 = (Inr (), h3)"
    and b: "whenA (st \<noteq> None) (rollback_all ds opts bk) os h3 = (Inr (), h4)"
    and f: "confirm_phase bk opts ds os h4 = (Inr (), h5)" and e: "history os h5 = (Inr x, h')"
    using assms(4) unfolding apply_rules_def Let_def by (auto simp: thenA_Inr bindA_Inr)
  have st: "st = None \<and> h4 = h3" using b rollback_all_never_returns by (auto simp: whenA_def split: if_splits)
  have all: "\<forall>(fam, di) \<in> set (enabled_domains ds). \<exists>r. bk_render bk fam di opts = Inr r \<and> installed opts fam di r os h2"
    using commit_domains_installs [OF assms(1)] c st by blast
  have "grows ?post" by (intro runs)
  from growsD [OF this p] obtain n1 where "h3 = n1 @ h2" by blast
  moreover from confirm_phase_ends [OF f assms(2)] obtain n2 where "h5 = n2 @ h4"
    and conf: "opt_interactive opts \<longrightarrow> confirmed opts os h5" by blast
  moreover from growsD [OF assms(3) e] obtain n3 where n3: "h' = n3 @ h5" by blast
  ultimately have h': "h' = (n3 @ n2 @ n1) @ h2" using st by simp
  have "installed opts fam di r os h'" if "installed opts fam di r os h2" for fam di r
    unfolding h' by (rule installed_later) (rule that)
  then show ?thesis using all conf confirmed_later n3 by fast
qed

text \<open>A run that ends rolled back has restored every family.\<close>

lemma apply_rolled_back:
  assumes "uses opts" and "calm history" and "apply_rules bk opts ds hk history os h = (Inl RolledBack, h')"
  shows "\<forall>(fam, di) \<in> set (enabled_domains ds). restored opts fam di os h'"
proof -
  have hooks: "calm (eachA (run_hook opts) hs)" for hs by (intro calms)
  have "\<exists>h1. rollback_all ds opts bk os h1 = (Inl RolledBack, h')"
    if "confirm_phase bk opts ds os h0 = (Inl RolledBack, h')" for h0
    using that calm_emit_confirmation calm_confirm unfolding confirm_phase_def
    by (auto simp: whenA_def thenA_Inl bindA_Inl split: if_splits)
  then have "\<exists>h1. rollback_all ds opts bk os h1 = (Inl RolledBack, h')"
    using assms(2,3) hooks commit_domains_calm unfolding apply_rules_def Let_def
    by (auto simp: thenA_Inl bindA_Inl whenA_def split: if_splits)
  then show ?thesis using rollback_all_restores assms(1) by blast
qed

end

section \<open>The x_tables backend keeps the contract\<close>

lemma exit_status_Inr:
  "exit_status r os h = (Inr st, h') \<longleftrightarrow>
     (\<exists>ret out err. r = Finished ret out err \<and> st = (if ret = 0 then None else Some (if ret < 0 then 1 else ret)) \<and>
        h' = (if ret < 0 then [Stderr (''child died with signal '' @ string_of_int (- ret) @ [NL])] else []) @ h)"
  by (cases r) (auto simp: exit_status_def thenA_Inr)

lemma execute_run:
  assumes "execute opts c os h = (Inr st, h')" and "\<not> opt_noexec opts"
  obtains h1 ret out err more said where "os (process_of c # h1) = Finished ret out err" and "h1 = said @ h"
    and "h' = more @ process_of c # h1" and "st = (if ret = 0 then None else Some (if ret < 0 then 1 else ret))"
proof -
  let ?say = "whenA (opt_lines opts) (emit_line (c @ [NL]))"
  obtain u h1 where "?say os h = (Inr u, h1)"
    and "exit_status (os (process_of c # h1)) os (process_of c # h1) = (Inr st, h')"
    using assms by (auto simp: execute_def thenA_Inr bindA_Inr spawnA_Inr)
  moreover have "grows ?say" unfolding emit_line_def by (auto intro!: runs)
  ultimately show ?thesis using that growsD unfolding exit_status_Inr by metis
qed

lemma execute_success:
  assumes "execute opts c os h = (Inr None, h')" and "\<not> opt_noexec opts"
  shows "succeeded os h' (process_of c)"
  by (rule execute_run [OF assms]) (auto split: if_splits intro!: succeeded_later succeeded_now)

lemma execute_failure: "execute opts c os h \<noteq> (Inr (Some 0), h')"
proof
  assume run: "execute opts c os h = (Inr (Some 0), h')"
  then have "\<not> opt_noexec opts" by (auto dest: execute_dry_result)
  then show False by (rule execute_run [OF run]) (auto split: if_splits)
qed

lemma execute_started:
  assumes "execute opts c os h = (Inr st, h')" and "\<not> opt_noexec opts"
  shows "process_of c \<in> set h'"
  by (rule execute_run [OF assms]) simp

lemma run_commands_grows [runs]: "(\<And>c. always R (ex c)) \<Longrightarrow> always R (run_commands ex st cs)"
  by (induction cs arbitrary: st) (auto intro!: runs)

lemma run_commands_calm [calms]: "(\<And>c. calm (ex c)) \<Longrightarrow> calm (run_commands ex st cs)"
  by (induction cs arbitrary: st) (auto intro!: calms)

lemma run_commands_failed:
  "n \<noteq> 0 \<Longrightarrow> run_commands ex (Some n) cs os h \<noteq> (Inr None, h')"
  by (induction cs arbitrary: h) (auto simp: bindA_Inr)

text \<open>A successful run has started every command, in the order of the list; no guarded one failed.\<close>

lemma run_commands_success:
  assumes "run_commands (execute opts) None cs os h = (Inr None, h')" and "\<not> opt_noexec opts"
  shows "\<exists>new. h' = new @ h \<and> subseq (map (process_of \<circ> cm_text) cs) (rev new) \<and>
    (\<forall>c \<in> set cs. cm_guarded c \<longrightarrow> succeeded os h' (process_of (cm_text c)))"
  using assms(1)
proof (induction cs arbitrary: h)
  case (Cons c cs)
  obtain st h1 where run: "execute opts (cm_text c) os h = (Inr st, h1)"
      and rest: "run_commands (execute opts) (if cm_guarded c then st else None) cs os h1 = (Inr None, h')"
    using Cons.prems by (auto simp: bindA_Inr split: if_splits)
  have st: "st = None" if "cm_guarded c"
  proof (rule ccontr)
    assume "st \<noteq> None"
    then obtain n where "st = Some n" "n \<noteq> 0" using run execute_failure by fastforce
    then show False using rest that run_commands_failed by simp
  qed
  have rest': "run_commands (execute opts) None cs os h1 = (Inr None, h')" using rest st by (simp split: if_splits)
  obtain new where h': "h' = new @ h1" and order: "subseq (map (process_of \<circ> cm_text) cs) (rev new)"
    and ok: "\<forall>c \<in> set cs. cm_guarded c \<longrightarrow> succeeded os h' (process_of (cm_text c))"
    using Cons.IH [OF rest'] by blast
  obtain more said where h1: "h1 = (more @ process_of (cm_text c) # said) @ h"
    by (rule execute_run [OF run assms(2)]) auto
  have "subseq (map (process_of \<circ> cm_text) (c # cs)) (rev said @ process_of (cm_text c) # rev more @ rev new)"
    using order by (simp add: list_emb_append2 subseq_drop_many)
  moreover have "cm_guarded c \<longrightarrow> succeeded os h' (process_of (cm_text c))"
    using run st assms(2) by (auto simp: h' intro!: succeeded_later execute_success)
  ultimately show ?case using ok h' h1
    by (intro exI [of _ "new @ more @ process_of (cm_text c) # said"]) (simp add: o_def)
qed simp

text \<open>
  What it means for the x_tables backend to have installed a family. The restore tool was given the text
  and exited with 0; or, in the slow mode, all commands were started in the order rendered and all
  succeeded. The frames around the commands of the bridge family are an exception the program makes: it
  starts them and ignores their status, so for \<^verbatim>\<open>eb\<close> the commits of the tables, the last commands, are
  known to have been started only.
\<close>

definition eb_commits :: "string \<Rightarrow> (string \<Rightarrow> string) \<Rightarrow> string list" where
  "eb_commits cmd tmp = map (\<lambda>t. ebt_atomic cmd t (tmp t) ''--atomic-commit'') EB_TABLES"

definition eb_opens :: "string \<Rightarrow> (string \<Rightarrow> string) \<Rightarrow> string list" where
  "eb_opens cmd tmp = concat (map (\<lambda>t.
     [ebt_atomic cmd t (tmp t) ''--atomic-init'', ebt_atomic cmd t (tmp t) ''--init-table'']) EB_TABLES)"

definition slow_installed ::
  "(string \<Rightarrow> string) \<Rightarrow> family \<Rightarrow> domain_info \<Rightarrow> command list \<Rightarrow> os \<Rightarrow> event list \<Rightarrow> bool" where
  "slow_installed tmp fam di cs os h \<longleftrightarrow>
     subseq (map (process_of \<circ> cm_text) cs) (rev h) \<and>
     (\<exists>cmd. dict_get (di_tools di) TOOL_TABLES = Some cmd \<and>
       (if fam = EB
        then \<exists>mid. map cm_text cs = eb_opens cmd tmp @ mid @ eb_commits cmd tmp \<and>
          (\<forall>t \<in> set mid. succeeded os h (process_of t))
        else \<forall>c \<in> set cs. succeeded os h (process_of (cm_text c))))"

lemma mapR_mem: "mapR f xs = Inr ys \<Longrightarrow> y \<in> set ys \<Longrightarrow> \<exists>x \<in> set xs. f x = Inr y"
  by (fastforce simp: mapR_list_all2 in_set_conv_nth list_all2_conv_all_nth)

lemma guarded_parts:
  "cm_guarded (guarded t)"
  "c \<in> set (create_chain tc t e) \<Longrightarrow> cm_guarded c"
  "c \<in> set (reset_policies tc t opts ti) \<Longrightarrow> cm_guarded c"
  "dump_chain fam opts tc e = Inr ys \<Longrightarrow> c \<in> set ys \<Longrightarrow> cm_guarded c"
proof -
  show "c \<in> set (create_chain tc t e) \<Longrightarrow> cm_guarded c"
    by (auto simp: create_chain_def guarded_def split: prod.splits option.splits if_splits)
  show "c \<in> set (reset_policies tc t opts ti) \<Longrightarrow> cm_guarded c"
    by (auto simp: reset_policies_def guarded_def split: if_splits)
  show "dump_chain fam opts tc e = Inr ys \<Longrightarrow> c \<in> set ys \<Longrightarrow> cm_guarded c"
    unfolding dump_chain_def by (auto simp: bindR_Inr_iff guarded_def dest!: mapR_mem split: prod.splits)
qed (simp add: guarded_def)

lemma table_commands_guarded:
  assumes "table_commands fam opts tc t ti = Inr cs" and "c \<in> set cs"
  shows "cm_guarded c"
proof -
  let ?clear = "reset_policies tc t opts ti @ (if opt_noflush opts then [] else [guarded (tc @ '' -F''), guarded (tc @ '' -X'')])"
  have clear: "c \<in> set ?clear \<Longrightarrow> cm_guarded c" using guarded_parts(1,3) by (auto split: if_splits)
  show ?thesis
  proof (cases "opt_flush opts")
    case True
    then show ?thesis using assms clear by (simp add: table_commands_def Let_def)
  next
    case False
    then obtain rules where "mapR (dump_chain fam opts tc) (ti_chains ti) = Inr rules"
      and "cs = ?clear @ concat (map (create_chain tc t) (ti_chains ti)) @ concat rules"
      using assms(1) by (auto simp: table_commands_def Let_def bindR_Inr_iff)
    moreover from this have "c \<in> set (concat rules) \<Longrightarrow> cm_guarded c"
      using guarded_parts(4) mapR_mem by (metis concat_eq_concat_iff in_set_conv_decomp set_concat UN_E)
    moreover have "c \<in> set (concat (map (create_chain tc t) (ti_chains ti))) \<Longrightarrow> cm_guarded c"
      using guarded_parts(2) by auto
    ultimately show ?thesis using assms(2) clear by fastforce
  qed
qed

lemma slow_table_guarded: "slow_table fam opts cmd tmp entry = Inr cs \<Longrightarrow> c \<in> set cs \<Longrightarrow> cm_guarded c"
  by (auto simp: slow_table_def dest: table_commands_guarded split: prod.splits)

lemma render_slow_commands:
  assumes "render_slow fam tmp di opts = Inr (Commands cs)"
  obtains cmd mid where "dict_get (di_tools di) TOOL_TABLES = Some cmd" and "\<forall>c \<in> set mid. cm_guarded c"
    and "cs = (if fam = EB then ebt_open_frames cmd tmp else []) @ mid @
      (if fam = EB then ebt_commit_frames cmd tmp else [])"
proof -
  obtain cmd ls where cmd: "dict_get (di_tools di) TOOL_TABLES = Some cmd"
    and ls: "mapR (slow_table fam opts cmd tmp) (di_tables di) = Inr ls"
    and cs: "cs = (if fam = EB then ebt_open_frames cmd tmp else []) @ concat ls @
      (if fam = EB then ebt_commit_frames cmd tmp else [])"
    using assms by (auto simp: render_slow_def bindR_Inr_iff split: option.splits)
  have "\<forall>c \<in> set (concat ls). cm_guarded c"
    using ls by (auto dest: slow_table_guarded mapR_mem)
  then show ?thesis using that cmd cs by blast
qed

lemma render_commands:
  "render fam pv tmp di opts = Inr (Commands cs) \<Longrightarrow> render_slow fam tmp di opts = Inr (Commands cs)"
  by (auto simp: render_def bindR_Inr_iff split: if_splits)

lemma commit_slow_installs:
  assumes "render fam pv tmp di opts = Inr (Commands cs)" and "\<not> opt_noexec opts"
    and "run_commands (execute opts) None cs os h = (Inr None, h')"
  shows "slow_installed tmp fam di cs os h'"
proof -
  obtain cmd mid where cmd: "dict_get (di_tools di) TOOL_TABLES = Some cmd" and mid: "\<forall>c \<in> set mid. cm_guarded c"
    and cs: "cs = (if fam = EB then ebt_open_frames cmd tmp else []) @ mid @
      (if fam = EB then ebt_commit_frames cmd tmp else [])"
    using render_slow_commands [OF render_commands [OF assms(1)]] .
  obtain new where "h' = new @ h" "subseq (map (process_of \<circ> cm_text) cs) (rev new)"
    and ok: "\<forall>c \<in> set cs. cm_guarded c \<longrightarrow> succeeded os h' (process_of (cm_text c))"
    using run_commands_success [OF assms(3,2)] by blast
  then have "subseq (map (process_of \<circ> cm_text) cs) (rev h')" by (simp add: list_emb_append2)
  moreover have "map cm_text (ebt_open_frames cmd tmp) = eb_opens cmd tmp"
    "map cm_text (ebt_commit_frames cmd tmp) = eb_commits cmd tmp"
    by (simp_all add: ebt_open_frames_def eb_opens_def ebt_commit_frames_def eb_commits_def unguarded_def map_concat o_def)
  ultimately show ?thesis using cmd cs mid ok
    by (auto simp: slow_installed_def intro!: exI [of _ "map cm_text mid"])
qed

lemma commit_slow_dry_status:
  assumes "opt_noexec opts"
  shows "run_commands (execute opts) None cs os h = (Inr st, h') \<Longrightarrow> st = None"
  by (induction cs arbitrary: h) (auto simp: bindA_Inr dest!: execute_dry_result [OF assms] split: if_splits)

definition ipt_installed ::
  "(string \<Rightarrow> string) \<Rightarrow> options \<Rightarrow> family \<Rightarrow> domain_info \<Rightarrow> rendered \<Rightarrow> os \<Rightarrow> event list \<Rightarrow> bool" where
  "ipt_installed tmp opts fam di r os h \<longleftrightarrow>
     (case r of
        Save s \<Rightarrow> \<exists>path. dict_get (di_tools di) TOOL_RESTORE = Some path \<and>
          succeeded os h (Pipe (restore_argv opts path) s)
      | Commands cs \<Rightarrow> slow_installed tmp fam di cs os h)"

lemma slow_installed_later:
  assumes "slow_installed tmp fam di cs os h"
  shows "slow_installed tmp fam di cs os (new @ h)"
proof -
  have "subseq ps (rev (new @ h))" if "subseq ps (rev h)" for ps
    using that by (simp add: list_emb_prefix)
  then show ?thesis using assms succeeded_later unfolding slow_installed_def by (auto split: if_splits)
qed

definition ipt_restored :: "options \<Rightarrow> family \<Rightarrow> domain_info \<Rightarrow> os \<Rightarrow> event list \<Rightarrow> bool" where
  "ipt_restored opts fam di os h \<longleftrightarrow>
     (if fam = EB
      then \<forall>t \<in> set EB_TABLES. \<exists>cmd name. dict_get (di_tools di) TOOL_TABLES = Some cmd \<and>
        dict_get (di_ebt_previous di) t = Some name \<and>
        process_of (ebt_atomic cmd t name ''--atomic-commit'') \<in> set h
      else dict_has (di_tools di) TOOL_RESTORE \<longrightarrow>
        (\<exists>path. dict_get (di_tools di) TOOL_RESTORE = Some path \<and>
          succeeded os h (Pipe (restore_argv opts path) (rollback_text di))))"

definition ipt_live :: "options \<Rightarrow> bool" where
  "ipt_live opts \<longleftrightarrow> \<not> opt_nft opts \<and> \<not> opt_noexec opts"

lemma commit_fast_always:
  assumes "\<And>t. always R (sayA (Emit t))" and "\<And>t. always R (sayA (Stderr t))"
    and "\<not> opt_noexec opts \<Longrightarrow> always R (rst di save)"
  shows "always R (commit_fast di save opts emit_line rst)"
  unfolding commit_fast_def Let_def emit_line_def
  by (auto split: option.splits intro!: runs assms)

lemma ipt_commit_grows [runs]: "grows (ipt_commit fam di r opts (execute opts) emit_line (restore_rules opts))"
  unfolding ipt_commit_def commit_slow_def
  by (auto split: rendered.splits intro!: commit_fast_always runs)

lemma ipt_rollback_grows [runs]: "grows (ipt_rollback fam di opts (execute opts) (restore_rules opts))"
  unfolding ipt_rollback_def by (auto split: option.splits intro!: runs)

lemma ipt_commit_dry: "opt_noexec opts \<Longrightarrow> always quiet (ipt_commit fam di r opts (execute opts) emit_line rst)"
  unfolding ipt_commit_def commit_slow_def
  by (auto split: rendered.splits intro!: commit_fast_always runs)

lemma ipt_commit_calm [calms]: "calm (ipt_commit fam di r opts (execute opts) emit_line (restore_rules opts))"
  unfolding ipt_commit_def commit_slow_def commit_fast_def Let_def
  by (auto split: rendered.splits option.splits intro!: calms)

lemma ipt_rollback_calm [calms]: "calm (ipt_rollback fam di opts (execute opts) (restore_rules opts))"
  unfolding ipt_rollback_def by (auto split: option.splits intro!: calms)

lemma eachA_all:
  assumes "eachA f xs os h = (Inr (), h')" and "x \<in> set xs" and "\<And>y. y \<in> set xs \<Longrightarrow> grows (f y)"
  shows "\<exists>h1 h2 new. f x os h1 = (Inr (), h2) \<and> h' = new @ h2"
  using assms
proof (induction xs arbitrary: h)
  case (Cons y ys)
  then obtain h1 where 1: "f y os h = (Inr (), h1)" "eachA f ys os h1 = (Inr (), h')" by (auto simp: thenA_Inr)
  have "grows (eachA f ys)" using Cons.prems(3) by (auto intro!: runs)
  from growsD [OF this 1(2)] obtain new where "h' = new @ h1" by blast
  then show ?case using Cons 1 by (cases "x = y") auto
qed simp

lemma ipt_rollback_restores:
  assumes "ipt_live opts" and "di_enabled di"
    and "ipt_rollback fam di opts (execute opts) (restore_rules opts) os h = (Inr x, h')"
  shows "ipt_restored opts fam di os h'"
proof (cases "fam = EB")
  case True
  then obtain cmd where cmd: "dict_get (di_tools di) TOOL_TABLES = Some cmd"
    using assms by (auto simp: ipt_rollback_def split: option.splits)
  let ?f = "\<lambda>t. case dict_get (di_ebt_previous di) t of None \<Rightarrow> stopA (Raised PyKeyError)
    | Some name \<Rightarrow> bindA (execute opts (ebt_atomic cmd t name ''--atomic-commit'')) (\<lambda>_. retA ())"
  have run: "eachA ?f EB_TABLES os h = (Inr (), h')"
    using assms(2,3) True cmd by (simp add: ipt_rollback_def)
  have "\<exists>name. dict_get (di_ebt_previous di) t = Some name \<and>
      process_of (ebt_atomic cmd t name ''--atomic-commit'') \<in> set h'" if "t \<in> set EB_TABLES" for t
  proof -
    have "grows (?f t)" for t by (auto intro!: runs split: option.splits)
    from eachA_all [OF run that this] obtain h1 h2 new where
      1: "?f t os h1 = (Inr (), h2)" "h' = new @ h2" by blast
    then show ?thesis using assms(1)
      by (auto simp: bindA_Inr ipt_live_def dest!: execute_started split: option.splits)
  qed
  then show ?thesis using True cmd by (simp add: ipt_restored_def)
next
  case False
  then show ?thesis using assms
    by (auto simp: ipt_rollback_def ipt_restored_def ipt_live_def restore_rules_def
        split: if_splits dest: restore_domain_success)
qed

interpretation ipt: backend_contract "ipt_backend pv tmp" ipt_live "ipt_installed tmp" ipt_restored for pv tmp
proof (unfold_locales, goal_cases)
  case (6 opts fam di r os h st h')
  then show ?case
    by (cases r) (auto simp: ipt_backend_def ipt_commit_def commit_slow_def commit_fast_def thenA_Inr
        dest: commit_slow_dry_status)
next
  case (7 opts fam di r os h h')
  then show ?case
    by (cases r) (auto simp: ipt_backend_def ipt_commit_def ipt_installed_def ipt_live_def commit_slow_def
        commit_fast_def thenA_Inr catchA_Inr restore_rules_def dest: commit_slow_installs restore_domain_success)
next
  case (9 opts fam di r os h new)
  then show ?case by (cases r) (auto simp: ipt_installed_def intro: succeeded_later slow_installed_later)
next
  case (10 opts fam di os h new)
  then show ?case by (auto simp: ipt_restored_def intro: succeeded_later split: if_splits)
qed (auto simp: ipt_backend_def intro: ipt_commit_grows ipt_rollback_grows ipt_commit_calm ipt_rollback_calm
    ipt_commit_dry ipt_rollback_restores)

section \<open>Properties\<close>

text \<open>
  C19: A live run of the x_tables backend that ends normally has installed every enabled family:
  its restore tool was given the rendered text and exited with status 0, or, in the slow mode, all
  rendered commands were started in their order and succeeded; in the interactive mode the
  administrator has typed \<^verbatim>\<open>yes\<close>. The bridge family is weaker, because the program ignores the status of
  the frames around its commands: the commands of the rules succeeded and the commit of every table was
  started after them, whatever its status.
\<close>

theorem applied_means_installed:
  assumes "\<not> opt_nft opts" and "\<not> opt_noexec opts"
    and "apply_rules (ipt_backend pv tmp) opts ds hk (commit_history opts which message) os h = (Inr (), h')"
  shows "(\<forall>(fam, di) \<in> set (enabled_domains ds). \<exists>r. render fam pv tmp di opts = Inr r \<and>
      (case r of
         Save s \<Rightarrow> \<exists>path. dict_get (di_tools di) TOOL_RESTORE = Some path \<and>
           succeeded os h' (Pipe (restore_argv opts path) s)
       | Commands cs \<Rightarrow> slow_installed tmp fam di cs os h')) \<and>
    (opt_interactive opts \<longrightarrow> confirmed opts os h')"
  using ipt.apply_ends [of opts "commit_history opts which message" pv tmp ds hk os h "()" h'] assms
  by (simp add: ipt_live_def commit_history_grows ipt_backend_def ipt_installed_def)

text \<open>
  C20: A live run of the x_tables backend without \<^verbatim>\<open>--noflush\<close> that ends rolled back has given every
  enabled family whose restore tool is known its previous rules back: the tool, told nothing about
  keeping rules, was given the reset of the built-in chains followed by the captured rules and exited
  with status 0. A family without a restore tool gets nothing back; for the bridge family the commit of
  the snapshot of every table was started, its status is ignored.
\<close>

theorem rolled_back_means_restored:
  assumes "\<not> opt_nft opts" and "\<not> opt_noexec opts" and "\<not> opt_noflush opts"
    and "apply_rules (ipt_backend pv tmp) opts ds hk (commit_history opts which message) os h = (Inl RolledBack, h')"
  shows "\<forall>(fam, di) \<in> set (enabled_domains ds).
    if fam = EB
    then \<forall>t \<in> set EB_TABLES. \<exists>cmd name. dict_get (di_tools di) TOOL_TABLES = Some cmd \<and>
      dict_get (di_ebt_previous di) t = Some name \<and>
      process_of (ebt_atomic cmd t name ''--atomic-commit'') \<in> set h'
    else \<forall>path. dict_get (di_tools di) TOOL_RESTORE = Some path \<longrightarrow>
      succeeded os h' (Pipe [path]
        (concat (map reset_table (di_tables di)) @ (case di_previous di of None \<Rightarrow> [] | Some p \<Rightarrow> p)))"
  using ipt.apply_rolled_back [of opts "commit_history opts which message" pv tmp ds hk os h h'] assms
  by (fastforce simp: ipt_live_def commit_history_calm ipt_restored_def restore_argv_def rollback_text_def dict_has_def
      split: prod.splits)

section \<open>A family to apply\<close>

definition sample_params :: save_params where
  "sample_params = \<lparr>pv_search = (\<lambda>_ _. False), pv_version = ''2'', pv_now = ''now''\<rparr>"

definition sample_di :: "string \<Rightarrow> int option \<Rightarrow> domain_info" where
  "sample_di name prio = new_domain\<lparr>di_initialized := True, di_enabled := True,
     di_tools := [(TOOL_TABLES, name), (TOOL_SAVE, name @ ''-save''), (TOOL_RESTORE, name @ ''-restore'')],
     di_previous := Some ''old rules'',
     di_tables := [(''filter'', new_table\<lparr>ti_chains :=
       [(''INPUT'', new_chain\<lparr>ci_policy := Some ''DROP'', ci_priority := prio,
          ci_rules := [\<lparr>rr_options = [sample_option ''jump'' (VStr ''ACCEPT'')], rr_script = None\<rparr>]\<rparr>)]\<rparr>)]\<rparr>"

definition no_hooks :: hooks where
  "no_hooks = \<lparr>hk_pre = [], hk_post = [], hk_flush = []\<rparr>"

text \<open>The first \<open>n\<close> processes fail; the administrator answers \<open>reply\<close>.\<close>

definition failing_os :: "nat \<Rightarrow> string \<Rightarrow> os" where
  "failing_os n reply h =
     (case h of
        AskUser _ # _ \<Rightarrow> Finished 0 reply []
      | _ \<Rightarrow> Finished (if length (filter (\<lambda>e. \<not> quiet_event e) h) \<le> n then 1 else 0) [] [])"

definition sample_save :: string where
  "sample_save = ''# Generated by ferm 2 (ip-save) on now'' @ [NL] @ ''*filter'' @ [NL] @
     '':INPUT DROP [0:0]'' @ [NL] @ ''-A INPUT --jump ACCEPT'' @ [NL] @ ''COMMIT'' @ [NL]"

definition run_sample ::
  "options \<Rightarrow> domains \<Rightarrow> os \<Rightarrow> (stop + unit) \<times> event list" where
  "run_sample opts ds os =
     apply_rules (ipt_backend sample_params (\<lambda>_. ''tmp'')) opts ds no_hooks (commit_history opts None []) os []"

lemma applied_means_installed_witness:
  "\<exists>h'. run_sample (default_options\<lparr>opt_interactive := True\<rparr>) [(IP, sample_di ''ip'' None)] (failing_os 0 ''yes'') =
      (Inr (), h') \<and> succeeded (failing_os 0 ''yes'') h' (Pipe [''ip-restore''] sample_save) \<and>
      confirmed (default_options\<lparr>opt_interactive := True\<rparr>) (failing_os 0 ''yes'') h'"
proof -
  let ?opts = "default_options\<lparr>opt_interactive := True\<rparr>"
  let ?ds = "[(IP, sample_di ''ip'' None)]"
  let ?os = "failing_os 0 ''yes''"
  have "fst (run_sample ?opts ?ds ?os) = Inr ()" by code_simp
  then obtain h' where run: "run_sample ?opts ?ds ?os = (Inr (), h')" by (metis prod.collapse)
  have ds: "enabled_domains ?ds = ?ds" by code_simp
  have r: "render IP sample_params (\<lambda>_. ''tmp'') (sample_di ''ip'' None) ?opts = Inr (Save sample_save)" by code_simp
  have tool: "dict_get (di_tools (sample_di ''ip'' None)) TOOL_RESTORE = Some ''ip-restore''"
    "restore_argv ?opts ''ip-restore'' = [''ip-restore'']" by code_simp+
  have opts: "\<not> opt_nft ?opts" "\<not> opt_noexec ?opts" "opt_interactive ?opts" by (simp_all add: default_options_def)
  from applied_means_installed [OF opts(1,2) run [unfolded run_sample_def]] show ?thesis
    using run by (simp add: ds r tool opts(3))
qed

lemma rolled_back_means_restored_witness:
  "\<exists>h'. run_sample default_options [(IP, sample_di ''ip'' None)] (failing_os 1 []) = (Inl RolledBack, h') \<and>
      succeeded (failing_os 1 []) h'
        (Pipe [''ip-restore'']
          (''*filter'' @ [NL] @ '':INPUT ACCEPT [0:0]'' @ [NL] @ ''COMMIT'' @ [NL] @ ''old rules''))"
proof -
  let ?ds = "[(IP, sample_di ''ip'' None)]"
  have "fst (run_sample default_options ?ds (failing_os 1 [])) = Inl RolledBack" by code_simp
  then obtain h' where run: "run_sample default_options ?ds (failing_os 1 []) = (Inl RolledBack, h')"
    by (metis prod.collapse)
  have ds: "enabled_domains ?ds = ?ds" by code_simp
  have tool: "dict_get (di_tools (sample_di ''ip'' None)) TOOL_RESTORE = Some ''ip-restore''"
    "dict_has (di_tools (sample_di ''ip'' None)) TOOL_RESTORE"
    "restore_argv default_options ''ip-restore'' = [''ip-restore'']"
    "rollback_text (sample_di ''ip'' None) =
       ''*filter'' @ [NL] @ '':INPUT ACCEPT [0:0]'' @ [NL] @ ''COMMIT'' @ [NL] @ ''old rules''" by code_simp+
  note given = tool(4) [unfolded rollback_text_def]
  have opts: "\<not> opt_nft default_options" "\<not> opt_noexec default_options" "\<not> opt_noflush default_options"
    by (simp_all add: default_options_def)
  from rolled_back_means_restored [OF opts run [unfolded run_sample_def]] show ?thesis
    using run by (simp add: ds tool given)
qed

section \<open>From the command line to the domains\<close>

lemma set_words_post [safe]: "post (parser_inv w opts v) (set_words ws)"
  unfolding set_words_def by (rule post_modP) (simp add: parser_inv_def view_of_def script_id_def)

lemma apply_def_post: "post (parser_inv w opts v) (apply_def w d)"
proof -
  have reader: "post (parser_inv w opts v) (getvalues w MAX_VALUE_DEPTH True plain_opts)"
    by (rule post_reads) (rule depth.rec_reads)
  have store: "post (parser_inv w opts v) (scopeP (set_top_var name x))" for name x
    by (rule post_scopeP) (simp add: set_top_var_def Let_def)
  show ?thesis
    unfolding apply_def_def by (auto split: option.splits intro!: safe reader store)
qed

lemma apply_defs_post: "post (parser_inv w opts v) (apply_defs w ds)"
proof (induction ds)
  case Nil
  show ?case by (simp add: post_def triple_def retP_def)
next
  case (Cons d ds)
  show ?case unfolding apply_defs.simps by (intro safe apply_def_post Cons)
qed

text \<open>Reading a previous dump keeps a family well formed, so the capture of the x_tables backend does.\<close>

definition tables_ok :: "options \<Rightarrow> (string, table_info) dict \<Rightarrow> bool" where
  "tables_ok opts ts \<longleftrightarrow> (\<forall>t ti. dict_get ts t = Some ti \<longrightarrow> table_ok opts ti)"

lemma chain_marked_ok:
  "table_ok opts ti \<Longrightarrow> dict_get (dict_setdefault c new_chain (ti_chains ti)) c = Some ci \<Longrightarrow>
     chain_ok opts (ci\<lparr>ci_builtin := True\<rparr>)"
proof -
  assume ti: "table_ok opts ti" and "dict_get (dict_setdefault c new_chain (ti_chains ti)) c = Some ci"
  then have "chain_ok opts ci" by (auto simp: table_ok_def split: if_splits)
  then show ?thesis by (simp add: chain_ok_def)
qed

lemma mark_builtin_ok:
  assumes "tables_ok opts ts"
  shows "tables_ok opts (mark_builtin t c ts)"
proof (cases "dict_get ts t")
  case (Some ti)
  let ?cs = "dict_setdefault c new_chain (ti_chains ti)"
  obtain ci where ci: "dict_get ?cs c = Some ci" by (cases "dict_get (ti_chains ti) c") auto
  have ti: "table_ok opts ti" using assms Some by (simp add: tables_ok_def)
  have "table_ok opts (ti\<lparr>ti_chains := dict_set c (ci\<lparr>ci_builtin := True\<rparr>) ?cs, ti_has_builtin := True\<rparr>)"
    using ti chain_marked_ok [OF ti ci] by (auto simp: table_ok_def split: if_splits)
  then show ?thesis using assms Some ci by (simp add: mark_builtin_def Let_def tables_ok_def)
qed (use assms in \<open>simp add: mark_builtin_def\<close>)

lemma setdefault_table_ok: "tables_ok opts ts \<Longrightarrow> tables_ok opts (dict_setdefault t new_table ts)"
  by (auto simp: tables_ok_def split: if_splits)

lemma read_previous_lines_ok:
  "tables_ok opts ts \<Longrightarrow> tables_ok opts (snd (read_previous_lines ls save cur ts))"
  by (induction ls arbitrary: save cur ts)
    (simp_all add: mark_builtin_ok setdefault_table_ok split: option.split)

lemma read_previous_ok: "domain_ok opts di \<Longrightarrow> domain_ok opts (snd (read_previous ls di))"
  using read_previous_lines_ok [of opts "di_tables di" ls "[]" None]
  by (auto simp: read_previous_def domain_ok_def tables_ok_def split: prod.splits)

text \<open>
  C25: A configuration that parses, with whatever definitions were given on the command line, leaves
  exactly the global frame and the frame of the script on the stack, so the check of the program
  never fires; and the domains handed to the backend are well formed: policies are built-in
  targets, priorities fit 32 bits, options are realized and no rule was kept under \<^verbatim>\<open>--flush\<close>.
\<close>

theorem parsed_config_well_formed:
  assumes "seams_ok opts (w_seams w)" and "apply_defs w defs bare_state = Inr (u, s0)"
    and "enter w opts F d 0 None (open_config filename sc s0) = Inr (x, s)"
  shows "length (so_stack (ps_scope s)) = 2 \<and> domains_ok opts (ps_domains s)"
proof -
  have "parser_inv w opts (1, None) bare_state"
    by (simp add: parser_inv_def view_of_def bare_state_def script_id_def push_frame_def empty_scope_def domains_ok_def)
  then have "parser_inv w opts (1, None) s0"
    using apply_defs_post [of w opts "(1, None)" defs] assms(2) unfolding post_def triple_def by blast
  then have "parser_inv w opts (2, script_id (open_config filename sc s0)) (open_config filename sc s0)"
    by (auto simp: parser_inv_def view_of_def open_config_def push_frame_def)
  then have "parser_inv w opts (2, script_id (open_config filename sc s0)) s"
    using entry.ent_post [of w opts "(2, script_id (open_config filename sc s0))" F d 0 None] assms(3)
    unfolding post_def triple_def by blast
  then show ?thesis using assms(1) by (simp add: parser_inv_def view_of_def)
qed

lemma parsed_config_well_formed_witness:
  "\<exists>s. enter sample_world default_options 5 3 0 None
       (open_config ''a.ferm'' (new_script ''a.ferm'' (Some [''{ { }'', ''{ } }'']) [] None) bare_state) = Inr ((), s) \<and>
     length (so_stack (ps_scope s)) = 2 \<and> domains_ok default_options (ps_domains s)"
proof -
  let ?start = "open_config ''a.ferm'' (new_script ''a.ferm'' (Some [''{ { }'', ''{ } }'']) [] None) bare_state"
  have "\<not> isl (enter sample_world default_options 5 3 0 None ?start)" by code_simp
  then obtain s where run: "enter sample_world default_options 5 3 0 None ?start = Inr ((), s)"
    by (cases "enter sample_world default_options 5 3 0 None ?start") auto
  have "seams_ok default_options (w_seams sample_world)"
    by (simp add: seams_ok_def sample_world_def sample_seams_def)
  moreover have "apply_defs sample_world [] bare_state = Inr ((), bare_state)" by (simp add: retP_def)
  ultimately show ?thesis using parsed_config_well_formed [OF _ _ run] run by blast
qed

section \<open>Where the guarantees end\<close>

text \<open>
  C28: Whatever happened before it, a family the backend refuses to render ends the run with that error
  and at once: no hook is run after it, nothing is rolled back and nobody is asked. The families before
  it in the order of the run keep their new rules (installed, if no tool had failed) although the run
  has failed.
\<close>

theorem refused_family_not_rolled_back:
  assumes "\<not> opt_nft opts" and "\<not> opt_noexec opts" and "enabled_domains ds = earlier @ (fam, di) # later"
    and "eachA (run_hook opts) (hk_pre (active_hooks opts hk)) os h = (Inr (), h1)"
    and "commit_domains (ipt_backend pv tmp) opts None earlier os h1 = (Inr st, h2)"
    and "render fam pv tmp di opts = Inl e"
  shows "apply_rules (ipt_backend pv tmp) opts ds hk history os h = (Inl (Raised e), h2) \<and>
    (st = None \<longrightarrow> (\<forall>(fam', di') \<in> set earlier. \<exists>r.
      render fam' pv tmp di' opts = Inr r \<and> ipt_installed tmp opts fam' di' r os h2))"
proof
  have "bk_render (ipt_backend pv tmp) fam di opts = Inl e" using assms(6) by (simp add: ipt_backend_def)
  then have "commit_domains (ipt_backend pv tmp) opts None (earlier @ (fam, di) # later) os h1 = (Inl (Raised e), h2)"
    using commit_domains_append [OF assms(5)] by (simp add: bindA_Inl liftA_iff)
  then show "apply_rules (ipt_backend pv tmp) opts ds hk history os h = (Inl (Raised e), h2)"
    using assms(3,4) by (simp add: apply_rules_def Let_def thenA_def bindA_def)
  show "st = None \<longrightarrow> (\<forall>(fam', di') \<in> set earlier. \<exists>r.
      render fam' pv tmp di' opts = Inr r \<and> ipt_installed tmp opts fam' di' r os h2)"
    using ipt.commit_domains_installs [of opts pv tmp earlier os h1 h2] assms(1,2,5)
    by (auto simp: ipt_live_def ipt_backend_def)
qed

lemma refused_family_not_rolled_back_witness:
  "apply_rules (ipt_backend sample_params (\<lambda>_. ''tmp'')) default_options
     [(IP, sample_di ''ip'' None), (IP6, sample_di ''ip6'' (Some 5))] no_hooks (retA ()) (failing_os 0 []) [] =
     (Inl (Raised (Died (''chain priority ('' @ [SQUOTE] @ ''INPUT'' @ [SQUOTE] @
        '' priority 5) is an nft-only feature; the iptables backend has no chain priority''))),
      [Pipe [''ip-restore''] sample_save])"
proof -
  let ?bk = "ipt_backend sample_params (\<lambda>_. ''tmp'')" and ?os = "failing_os 0 []"
  let ?ds = "[(IP, sample_di ''ip'' None), (IP6, sample_di ''ip6'' (Some 5))]"
  have order: "enabled_domains ?ds = [(IP, sample_di ''ip'' None)] @ (IP6, sample_di ''ip6'' (Some 5)) # []" by code_simp
  have hooks: "eachA (run_hook default_options) (hk_pre (active_hooks default_options no_hooks)) ?os [] = (Inr (), [])"
    by code_simp
  have first: "commit_domains ?bk default_options None [(IP, sample_di ''ip'' None)] ?os [] =
      (Inr None, [Pipe [''ip-restore''] sample_save])" by code_simp
  have refused: "render IP6 sample_params (\<lambda>_. ''tmp'') (sample_di ''ip6'' (Some 5)) default_options =
      Inl (Died (''chain priority ('' @ [SQUOTE] @ ''INPUT'' @ [SQUOTE] @
        '' priority 5) is an nft-only feature; the iptables backend has no chain priority''))" by code_simp
  have opts: "\<not> opt_nft default_options" "\<not> opt_noexec default_options" by (simp_all add: default_options_def)
  show ?thesis using refused_family_not_rolled_back [OF opts order hooks first refused] by blast
qed

text \<open>
  Under \<^verbatim>\<open>--noflush\<close> the tool that restores the previous rules is told not to flush either, so the
  previous rules are added to whatever the failed run has left.
\<close>

theorem rollback_passes_noflush:
  "filter (\<lambda>e. \<not> quiet_event e)
     (snd (run_sample (default_options\<lparr>opt_noflush := True\<rparr>) [(IP, sample_di ''ip'' None)] (failing_os 1 []))) =
   [Pipe [''ip-restore'', ''--noflush'']
      (''*filter'' @ [NL] @ '':INPUT ACCEPT [0:0]'' @ [NL] @ ''COMMIT'' @ [NL] @ ''old rules''),
    Pipe [''ip-restore'', ''--noflush''] sample_save]"
  by code_simp

text \<open>
  C29: A live rollback of the nft backend with a captured table checks the captured text and loads it, and
  that is all it does: no command deletes or flushes the table that holds the new rules, whatever the
  captured text. The script it generates for the same purpose deletes the table first.
\<close>

theorem nft_rollback_keeps_new_table:
  assumes "opt_nft opts" and "di_enabled di" and "di_previous di = Some previous" and "previous \<noteq> []"
    and "nft_rollback fam di opts (execute opts) (restore_rules opts) os h = (Inr (), h')"
  shows "\<exists>nft. dict_get (di_tools di) TOOL_NFT = Some nft \<and>
    h' = [Pipe [nft, ''-f'', ''-''] previous, Pipe [nft, ''-c'', ''-f'', ''-''] previous] @ h \<and>
    (\<exists>setup script. nft_shell_snapshot fam di = Some (setup, nft @ '' delete table '' @ nft_table fam @ script))"
proof -
  have run: "nft_restore di previous os h = (Inr (), h')"
    using assms by (auto simp: nft_rollback_def restore_rules_def neq_Nil_conv)
  then obtain nft where nft: "dict_get (di_tools di) TOOL_NFT = Some nft"
    by (auto simp: nft_restore_def split: option.splits)
  let ?check = "Pipe [nft, ''-c'', ''-f'', ''-''] previous" and ?load = "Pipe [nft, ''-f'', ''-''] previous"
  have "h' = [?load, ?check] @ h"
    using run nft by (cases "os (?check # h)"; cases "os (?load # ?check # h)")
      (auto simp: nft_restore_def nft_check_save_def run_failed_def thenA_Inr bindA_Inr spawnA_Inr split: if_splits)
  moreover have "\<exists>setup script. nft_shell_snapshot fam di = Some (setup, nft @ '' delete table '' @ nft_table fam @ script)"
    using nft by (auto simp: nft_shell_snapshot_def Let_def)
  ultimately show ?thesis using nft by blast
qed

lemma nft_rollback_keeps_new_table_witness:
  "\<exists>h'. nft_rollback IP ((sample_di ''ip'' None)\<lparr>di_tools := [(TOOL_NFT, ''nft'')]\<rparr>) (default_options\<lparr>opt_nft := True\<rparr>)
       (execute (default_options\<lparr>opt_nft := True\<rparr>)) (restore_rules (default_options\<lparr>opt_nft := True\<rparr>))
       (failing_os 0 []) [] = (Inr (), h') \<and>
     h' = [Pipe [''nft'', ''-f'', ''-''] ''old rules'', Pipe [''nft'', ''-c'', ''-f'', ''-''] ''old rules'']"
proof -
  let ?di = "(sample_di ''ip'' None)\<lparr>di_tools := [(TOOL_NFT, ''nft'')]\<rparr>" and ?opts = "default_options\<lparr>opt_nft := True\<rparr>"
  let ?run = "nft_rollback IP ?di ?opts (execute ?opts) (restore_rules ?opts) (failing_os 0 []) []"
  have "fst ?run = Inr ()" by code_simp
  then obtain h' where run: "?run = (Inr (), h')" by (metis prod.collapse)
  have di: "opt_nft ?opts" "di_enabled ?di" "di_previous ?di = Some ''old rules''" "''old rules'' \<noteq> []"
    "dict_get (di_tools ?di) TOOL_NFT = Some ''nft''" by code_simp+
  from nft_rollback_keeps_new_table [OF di(1-4) run] show ?thesis using run di(5) by auto
qed

end
