(* ===== verification/Ferm_Rollback.thy ===== *)
theory Ferm_Rollback
  imports Ferm_Apply_Safe
begin

text \<open>
  The subcommand that reverts a configuration to a recorded revision and applies it again,
  \<^verbatim>\<open>src/src/pyferm/cli/rollback.py\<close>. Applying is an argument, \<open>reapply\<close>; \<open>tty\<close> tells whether
  standard input is a terminal. The argument parser is not modelled.
\<close>

section \<open>Reverting and applying again\<close>

definition mark_current :: "string \<Rightarrow> string" where
  "mark_current history =
     (let head = takeWhile (\<lambda>c. c \<noteq> NL) history
      in if head = [] then history else head @ '' (current)'' @ dropWhile (\<lambda>c. c \<noteq> NL) history)"

definition require_interactive_tty :: "bool \<Rightarrow> bool \<Rightarrow> bool \<Rightarrow> unit res" where
  "require_interactive_tty interactive stdin_tty stderr_tty =
     (if interactive \<and> \<not> stdin_tty
      then Inl (Died ''ferm interactive mode not possible: /dev/stdin is not a tty'')
      else if interactive \<and> \<not> stderr_tty
      then Inl (Died ''ferm interactive mode not possible: /dev/stderr is not a tty'')
      else Inr ())"

definition CURRENT_REVISION :: string where "CURRENT_REVISION = ''HEAD''"

definition not_restored_text :: "string \<Rightarrow> failure \<Rightarrow> string" where
  "not_restored_text config e =
     ''ferm: could not restore '' @ config @ '' after the aborted rollback: '' @ failure_text e @ [NL] @
     ''ferm: '' @ config @ '' is left at the reverted revision, uncommitted'' @ [NL]"

definition restore_worktree :: "string \<Rightarrow> string \<Rightarrow> unit act" where
  "restore_worktree config subpath =
     bindA (catchA (thenA (ek_rollback CURRENT_REVISION subpath) (retA None)) (\<lambda>e. retA (Some e))) (\<lambda>r.
       case r of
         Some e \<Rightarrow> sayA (Stderr (not_restored_text config e))
       | None \<Rightarrow> sayA (Stderr (''Rollback of '' @ config @
           '' aborted; the config file was restored to match the running rules.'' @ [NL])))"

definition left_reverted_text :: "string \<Rightarrow> string" where
  "left_reverted_text config =
     ''ferm: '' @ config @ '' is left at the reverted revision, uncommitted: the re-apply failed '' @
     ''mid-flight and the kernel may match neither revision; inspect the rules, then commit or `git '' @
     ''checkout` the config manually'' @ [NL]"

text \<open>The two handlers around applying: the exits that prove the kernel unchanged, and the others.\<close>

definition after_reapply :: "string \<Rightarrow> string \<Rightarrow> stop \<Rightarrow> unit act" where
  "after_reapply config subpath e =
     (case e of
        RolledBack \<Rightarrow> restore_worktree config subpath
      | Untouched f \<Rightarrow> restore_worktree config subpath
      | Raised f \<Rightarrow> whenA (is_ferm_error f) (sayA (Stderr (left_reverted_text config)))
      | Exit code \<Rightarrow> whenA (code \<noteq> 0) (sayA (Stderr (left_reverted_text config)))
      | OsError m \<Rightarrow> retA ())"

definition reapply_guarded :: "string \<Rightarrow> string \<Rightarrow> int act \<Rightarrow> int act" where
  "reapply_guarded config subpath reapply = (\<lambda>os h. case reapply os h of
     (Inl e, h') \<Rightarrow> thenA (after_reapply config subpath e) (stopA e) os h'
   | r \<Rightarrow> r)"

text \<open>\<^verbatim>\<open>str.lower()\<close> on the characters of latin-1.\<close>

definition py_lower :: "char \<Rightarrow> char" where
  "py_lower c =
     (let n = char_code c
      in if is_upper c \<or> (192 \<le> n \<and> n \<le> 222 \<and> n \<noteq> 215) then char_of (n + 32) else c)"

definition confirm_rollback :: "string \<Rightarrow> string \<Rightarrow> string \<Rightarrow> bool \<Rightarrow> bool act" where
  "confirm_rollback sha config subpath tty =
     (if \<not> tty
      then stopA (Raised (Died (''refusing to roll back without confirmation on a non-tty; '' @
             ''re-run with --to <sha>'')))
      else bindA (diff_revision sha subpath) (\<lambda>diff.
           thenA (sayA (Stderr diff))
           (thenA (sayA (Stderr ([NL] @ ''Roll back '' @ config @ '' to '' @ sha @ ''? [y/N] '')))
           (bindA (askA AskLine) (\<lambda>r.
              let line = (case r of Finished _ t _ \<Rightarrow> map py_lower (py_strip t) | Unspawnable _ \<Rightarrow> [])
              in retA (line = ''y'' \<or> line = ''yes''))))))"

definition rollback_to :: "string \<Rightarrow> string \<Rightarrow> string \<Rightarrow> bool \<Rightarrow> bool \<Rightarrow> int act \<Rightarrow> int act" where
  "rollback_to sha config subpath confirm tty reapply =
     bindA (working_tree_dirty (Some subpath)) (\<lambda>dirty.
       if dirty
       then stopA (Raised (Died (config @ '' has uncommitted changes; commit or stash them before '' @
              ''rolling back (checkout would overwrite them)'')))
       else bindA (if confirm then confirm_rollback sha config subpath tty else retA True) (\<lambda>go.
         if \<not> go then thenA (sayA (Stderr (''Rollback cancelled.'' @ [NL]))) (retA 0)
         else thenA (ek_rollback sha subpath) (reapply_guarded config subpath reapply)))"

section \<open>The configuration after an aborted rollback\<close>

definition checkout :: "string \<Rightarrow> string \<Rightarrow> event" where
  "checkout sha subpath = Capture [''etckeeper'', ''vcs'', ''checkout'', sha, ''--'', subpath]"

fun is_checkout :: "event \<Rightarrow> bool" where
  "is_checkout (Capture (a # b # c # args)) = (c = ''checkout'')"
| "is_checkout _ = False"

text \<open>The last checkout of the run was of this revision, and it succeeded.\<close>

definition checked_out :: "string \<Rightarrow> string \<Rightarrow> os \<Rightarrow> event list \<Rightarrow> bool" where
  "checked_out sha subpath os h \<longleftrightarrow>
     (\<exists>new rest out err. h = new @ checkout sha subpath # rest \<and>
        os (checkout sha subpath # rest) = Finished 0 out err \<and> list_all (\<lambda>e. \<not> is_checkout e) new)"

lemma checked_out_later:
  "checked_out sha subpath os h \<Longrightarrow> list_all (\<lambda>e. \<not> is_checkout e) new \<Longrightarrow> checked_out sha subpath os (new @ h)"
  unfolding checked_out_def by (metis append.assoc list_all_append)

lemma vcs_Inr:
  "vcs args action os h = (Inr (ret, out, err), h') \<longleftrightarrow>
     (\<forall>a \<in> set args. NUL \<notin> set a) \<and> h' = Capture ([''etckeeper'', ''vcs''] @ args) # h \<and>
     os h' = Finished ret out err"
  by (auto simp: vcs_def Let_def bindA_Inr spawnA_Inr NUL_def split: outcome.splits)

lemma ek_rollback_success:
  assumes "ek_rollback sha subpath os h = (Inr x, h')"
  shows "checked_out sha subpath os h'"
proof -
  obtain h1 where "h' = Capture ([''etckeeper'', ''vcs''] @ [''clean'', ''-f'', ''-d'', ''--'', subpath]) #
      checkout sha subpath # h1" "\<exists>out err. os (checkout sha subpath # h1) = Finished 0 out err"
    using assms
    by (auto simp: ek_rollback_def rollback_steps_def bindA_Inr thenA_Inr liftA_iff vcs_Inr whenA_def checkout_def
        split: if_splits)
  then show ?thesis unfolding checked_out_def
    by (intro exI [of _ "[Capture ([''etckeeper'', ''vcs''] @ [''clean'', ''-f'', ''-d'', ''--'', subpath])]"] exI [of _ h1])
      auto
qed

lemma ek_rollback_calm [calms]: "calm (ek_rollback sha subpath)"
  unfolding ek_rollback_def by (auto intro!: calms split: prod.splits)

lemma confirm_rollback_calm [calms]: "calm (confirm_rollback sha config subpath tty)"
  unfolding confirm_rollback_def diff_revision_def stdout_or_raise_def Let_def
  by (auto intro!: calms split: prod.splits)

text \<open>
  C27: When the configuration applied by a rollback was rolled back in the kernel, or failed before it
  touched the kernel, the reverted files are put back too: the last checkout of the run is the
  successful one of the recorded state, or the operator was told that it failed.
\<close>

theorem aborted_rollback_restores_files:
  assumes "rollback_to sha config subpath confirm tty reapply os h = (Inl e, h')"
    and "e = RolledBack \<or> e = Untouched f"
  shows "checked_out CURRENT_REVISION subpath os h' \<or> (\<exists>f. hd h' = Stderr (not_restored_text config f))"
proof -
  have not_plain: "\<not> plain_stop e" using assms(2) by auto
  obtain h1 where g: "reapply_guarded config subpath reapply os h1 = (Inl e, h')"
    using assms(1) not_plain unfolding rollback_to_def
    by (auto simp: bindA_Inl thenA_Inl split: if_splits
        dest: calmD [OF ek_calm(1)] calmD [OF ek_rollback_calm] calmD [OF confirm_rollback_calm])
  obtain e1 h2 where "reapply os h1 = (Inl e1, h2)"
      and after: "thenA (after_reapply config subpath e1) (stopA e1 :: int act) os h2 = (Inl e, h')"
    using g unfolding reapply_guarded_def by (auto split: prod.splits sum.splits)
  have calm: "calm (after_reapply config subpath e1)"
    unfolding after_reapply_def restore_worktree_def by (auto intro!: calms split: stop.splits option.splits)
  have "e1 = e \<and> after_reapply config subpath e os h2 = (Inr (), h')"
    using after not_plain by (auto simp: thenA_Inl dest: calmD [OF calm])
  then have "restore_worktree config subpath os h2 = (Inr (), h')"
    using assms(2) by (auto simp: after_reapply_def)
  then obtain r h3 where
    r: "catchA (thenA (ek_rollback CURRENT_REVISION subpath) (retA None)) (\<lambda>e. retA (Some e)) os h2 = (Inr r, h3)"
    and h': "h' = Stderr (case r of Some f \<Rightarrow> not_restored_text config f
        | None \<Rightarrow> ''Rollback of '' @ config @
            '' aborted; the config file was restored to match the running rules.'' @ [NL]) # h3"
    by (auto simp: restore_worktree_def bindA_Inr split: option.splits)
  show ?thesis
  proof (cases r)
    case None
    then have "checked_out CURRENT_REVISION subpath os h3"
      using r ek_rollback_success by (auto simp: catchA_Inr thenA_Inr)
    then show ?thesis using checked_out_later [of _ _ _ h3 "[x]" for x] h' by simp
  qed (use h' in auto)
qed

text \<open>A system on which every call of etckeeper succeeds and the repository is clean.\<close>

definition clean_os :: os where
  "clean_os h = Finished 0 [] []"

lemma aborted_rollback_restores_files_witness:
  "\<exists>h'. rollback_to ''abc123'' ''/etc/ferm/ferm.conf'' ''ferm'' False True (stopA RolledBack) clean_os [] =
      (Inl RolledBack, h') \<and> checked_out CURRENT_REVISION ''ferm'' clean_os h'"
proof -
  let ?run = "rollback_to ''abc123'' ''/etc/ferm/ferm.conf'' ''ferm'' False True (stopA RolledBack) clean_os []"
  have "fst ?run = Inl RolledBack" by code_simp
  then obtain h' where run: "?run = (Inl RolledBack, h')" by (metis prod.collapse)
  have "hd (snd ?run) = Stderr (''Rollback of '' @ ''/etc/ferm/ferm.conf'' @
      '' aborted; the config file was restored to match the running rules.'' @ [NL])" by code_simp
  then have "hd h' \<noteq> Stderr (not_restored_text ''/etc/ferm/ferm.conf'' f)" for f
    using run by (simp add: not_restored_text_def)
  then show ?thesis using aborted_rollback_restores_files [OF run] run by blast
qed

text \<open>
  A configuration that cannot be opened, for example because the reverted revision does not have
  it, stops the run before anything is applied, but not with the exit that says so: the files are
  left at the reverted revision and the operator is told that the kernel may match neither.
\<close>

theorem missing_config_left_reverted:
  "rollback_to ''abc123'' ''/etc/ferm/ferm.conf'' ''ferm'' False True
     (apply_config sample_world default_options 5 (ipt_backend sample_params (\<lambda>_. [])) (\<lambda>_. retA 0) (\<lambda>_. retA ()) []
        ''/etc/ferm/ferm.conf'') clean_os [] =
   (Inl (Raised (Died ''Failed to open /etc/ferm/ferm.conf: no such file'')),
    [Stderr (left_reverted_text ''/etc/ferm/ferm.conf''),
     Capture [''etckeeper'', ''vcs'', ''clean'', ''-f'', ''-d'', ''--'', ''ferm''],
     checkout ''abc123'' ''ferm'',
     Capture [''etckeeper'', ''vcs'', ''rm'', ''-r'', ''--cached'', ''--ignore-unmatch'', ''--'', ''ferm''],
     Capture [''etckeeper'', ''vcs'', ''status'', ''--porcelain'', ''--'', ''ferm'']])"
  by code_simp

end
