(* ===== verification/Ferm_Options.thy ===== *)
theory Ferm_Options
  imports Ferm_Rollback
begin

text \<open>
  The settled options of a run, \<^verbatim>\<open>src/src/pyferm/cli/options.py\<close>: what the switches of the command
  line, here already read by the argument parser, are turned into, and the combinations refused.
\<close>

record switches =
  sw_noexec :: bool
  sw_flush :: bool
  sw_noflush :: bool
  sw_lines :: bool
  sw_interactive :: bool
  sw_timeout :: "string option"
  sw_test :: bool
  sw_mock_previous :: "string list"
  sw_fast :: bool
  sw_slow :: bool
  sw_shell :: bool
  sw_domain :: "string option"
  sw_defs :: "string list"
  sw_nolegacy :: bool
  sw_nft :: bool
  sw_full_reload :: bool
  sw_no_etckeeper :: bool
  sw_plan :: bool
  sw_plan_format :: plan_format
  sw_lint :: bool
  sw_lint_strict :: bool
  sw_lint_fail_level :: "string option"

definition default_switches :: switches where
  "default_switches =
     \<lparr>sw_noexec = False, sw_flush = False, sw_noflush = False, sw_lines = False, sw_interactive = False,
      sw_timeout = None, sw_test = False, sw_mock_previous = [], sw_fast = False, sw_slow = False,
      sw_shell = False, sw_domain = None, sw_defs = [], sw_nolegacy = False, sw_nft = False,
      sw_full_reload = False, sw_no_etckeeper = False, sw_plan = False, sw_plan_format = Structured,
      sw_lint = False, sw_lint_strict = False, sw_lint_fail_level = None\<rparr>"

definition lint_message :: "string \<Rightarrow> failure" where
  "lint_message flag = Died (''ferm --lint cannot be combined with '' @ flag)"

definition reject_lint_conflicts :: "switches \<Rightarrow> unit res" where
  "reject_lint_conflicts sw =
     (case find snd
        [(''--plan'', sw_plan sw), (''--nft'', sw_nft sw), (''--fast'', sw_fast sw), (''--slow'', sw_slow sw),
         (''--shell'', sw_shell sw), (''--interactive'', sw_interactive sw), (''--flush'', sw_flush sw),
         (''--noflush'', sw_noflush sw), (''--full-reload'', sw_full_reload sw)] of
        Some (flag, _) \<Rightarrow> Inl (lint_message flag)
      | None \<Rightarrow>
          if sw_plan_format sw \<noteq> Structured then Inl (lint_message ''--plan-format'')
          else if sw_defs sw \<noteq> [] then Inl (lint_message ''--def'')
          else if sw_domain sw \<noteq> None then Inl (lint_message ''--domain'')
          else Inr ())"

text \<open>\<^verbatim>\<open>^[+-]?\d+$\<close>, the dollar accepting one final newline.\<close>

definition timeout_text :: "string \<Rightarrow> bool" where
  "timeout_text s \<longleftrightarrow>
     (let t = chomp s; ds = (if t \<noteq> [] \<and> is_sign (hd t) then tl t else t) in all_digits ds)"

definition mock_split :: "string \<Rightarrow> (string \<times> string) option" where
  "mock_split spec =
     (let name = takeWhile unicode_word spec; rest = dropWhile unicode_word spec
      in if name \<noteq> [] \<and> starts_with ''='' rest \<and> tl rest \<noteq> [] \<and> NL \<notin> set rest
         then Some (name, tl rest) else None)"

fun mock_previous_of :: "string list \<Rightarrow> (string, string) dict \<Rightarrow> (string, string) dict res" where
  "mock_previous_of [] d = Inr d"
| "mock_previous_of (spec # specs) d =
     (case mock_split spec of
        None \<Rightarrow> Inl (Died (''Invalid --test-mock-previous: '' @ [SQUOTE] @ spec @ [SQUOTE]))
      | Some (k, v) \<Rightarrow> mock_previous_of specs (dict_set k v d))"

definition guardR :: "bool \<Rightarrow> string \<Rightarrow> unit res" where
  "guardR bad msg = (if bad then Inl (Died msg) else Inr ())"

definition resolve_timeout :: "switches \<Rightarrow> int res" where
  "resolve_timeout sw =
     (case sw_timeout sw of
        None \<Rightarrow> Inr 30
      | Some t \<Rightarrow>
          if \<not> sw_interactive sw then Inl (Died ''ferm timeout has no sense without interactive mode'')
          else if \<not> timeout_text t then Inl (Died ''invalid timeout. must be an integer'')
          else py_int (chomp t))"

definition resolve_options :: "bool \<Rightarrow> bool \<Rightarrow> switches \<Rightarrow> options res" where
  "resolve_options stdin_tty stderr_tty sw =
     bindR (guardR (sw_lint_strict sw \<and> \<not> sw_lint sw) ''ferm --lint-strict has no sense without --lint'') (\<lambda>_.
     bindR (guardR (sw_lint_fail_level sw \<noteq> None \<and> \<not> sw_lint sw)
              ''ferm --lint-fail-level has no sense without --lint'') (\<lambda>_.
     if sw_lint sw then bindR (reject_lint_conflicts sw) (\<lambda>_. Inr default_options)
     else
       let interactive = (sw_interactive sw \<and> \<not> sw_noexec sw)
       in bindR (require_interactive_tty interactive stdin_tty stderr_tty) (\<lambda>_.
          bindR (resolve_timeout sw) (\<lambda>timeout.
          bindR (mock_previous_of (sw_mock_previous sw) []) (\<lambda>mock.
          bindR (guardR (sw_full_reload sw \<and> \<not> sw_nft sw) ''ferm --full-reload has no sense without --nft'') (\<lambda>_.
          bindR (guardR (sw_plan_format sw \<noteq> Structured \<and> \<not> sw_plan sw)
                   ''ferm --plan-format has no sense without --plan'') (\<lambda>_.
          bindR (guardR (sw_plan sw \<and> sw_nft sw \<and> sw_noflush sw)
                   ''--noflush is not supported with --plan --nft yet'') (\<lambda>_.
          Inr \<lparr>opt_test = sw_test sw, opt_noexec = (sw_noexec sw \<or> sw_test sw),
               opt_lines = (sw_lines sw \<or> sw_test sw \<or> sw_shell sw), opt_fast = (\<not> sw_slow sw),
               opt_flush = sw_flush sw, opt_noflush = sw_noflush sw, opt_shell = sw_shell sw,
               opt_interactive = interactive, opt_timeout = timeout, opt_domain = sw_domain sw,
               opt_mock_previous = mock, opt_nolegacy = sw_nolegacy sw, opt_nft = sw_nft sw,
               opt_plan = sw_plan sw, opt_plan_format = sw_plan_format sw,
               opt_full_reload = sw_full_reload sw, opt_etckeeper = (\<not> sw_no_etckeeper sw)\<rparr>))))))))"

section \<open>Properties\<close>

lemma guardR_Inr [simp]: "guardR bad msg = Inr u \<longleftrightarrow> \<not> bad"
  by (auto simp: guardR_def)

lemma resolve_options_noexec:
  assumes "resolve_options a b sw = Inr opts" and "\<not> sw_lint sw"
  shows "opt_noexec opts \<longleftrightarrow> sw_noexec sw \<or> sw_test sw" and "opt_nft opts = sw_nft sw"
  using assms by (auto simp: resolve_options_def Let_def bindR_Inr_iff)

lemma resolve_options_plan:
  assumes "resolve_options a b sw = Inr opts" and "\<not> sw_lint sw"
  shows "opt_plan opts = sw_plan sw"
  using assms by (auto simp: resolve_options_def Let_def bindR_Inr_iff)

end
