(* ===== verification/Ferm_Optimize.thy ===== *)
theory Ferm_Optimize
  imports Ferm_Modules
begin

text \<open>
  The rule structures of \<^verbatim>\<open>src/src/pyferm/import_ferm.py\<close> and its optimization: rules with a common
  first match become a block, rules that differ in one value become one rule with an array. The
  program changes its rules in place; every rule and every entry has one owner, so new values
  stand for the changed ones. What a rule means to a packet is stated over the options the packet
  satisfies, with the keywords whose array means any of its elements as a parameter.
\<close>

section \<open>Rules\<close>

type_synonym mentry = "string \<times> cfg_value"

datatype irule = IRule
  (ir_keywords: "(string, keyword) dict")
  (ir_match: "mentry list")
  (ir_mod: "string list")
  (ir_proto: cfg_value)
  (ir_jump: "string option")
  (ir_goto: "string option")
  (ir_target: "mentry list option")
  (ir_match_keywords: "(string, keyword) dict option")
  (ir_block: "irule list option")

fun with_match :: "mentry list \<Rightarrow> irule \<Rightarrow> irule" where
  "with_match m (IRule k _ mods p j g t mk b) = IRule k m mods p j g t mk b"

definition block_rule :: "mentry \<Rightarrow> irule list \<Rightarrow> irule" where
  "block_rule m b = IRule [] [m] [] VNone None None None None (Some b)"

text \<open>Equality of dictionaries ignores the order, equality of sets too.\<close>

definition dict_eq :: "('k, 'v) dict \<Rightarrow> ('k, 'v) dict \<Rightarrow> bool" where
  "dict_eq d e \<longleftrightarrow>
     list_all (\<lambda>k. dict_get d k = dict_get e k) (dict_keys d) \<and>
     list_all (\<lambda>k. dict_get d k = dict_get e k) (dict_keys e)"

definition option_eq :: "('a \<Rightarrow> 'b \<Rightarrow> bool) \<Rightarrow> 'a option \<Rightarrow> 'b option \<Rightarrow> bool" where
  "option_eq eq x y = (case (x, y) of (None, None) \<Rightarrow> True | (Some a, Some b) \<Rightarrow> eq a b | _ \<Rightarrow> False)"

fun irule_eq :: "irule \<Rightarrow> irule \<Rightarrow> bool"
  and irules_eq :: "irule list \<Rightarrow> irule list \<Rightarrow> bool" where
  "irule_eq (IRule k m mods p j g t mk b) (IRule k' m' mods' p' j' g' t' mk' b') \<longleftrightarrow>
     dict_eq k k' \<and> m = m' \<and> set mods = set mods' \<and> p = p' \<and> j = j' \<and> g = g' \<and> t = t' \<and>
     option_eq dict_eq mk mk' \<and>
     (case b of
        None \<Rightarrow> b' = None
      | Some xs \<Rightarrow> (case b' of None \<Rightarrow> False | Some ys \<Rightarrow> irules_eq xs ys))"
| "irules_eq [] [] = True"
| "irules_eq (r # rs) (s # ss) = (irule_eq r s \<and> irules_eq rs ss)"
| "irules_eq _ _ = False"

section \<open>The two passes\<close>

definition prefix_matches :: "irule \<Rightarrow> irule \<Rightarrow> bool" where
  "prefix_matches first other \<longleftrightarrow> ir_match other \<noteq> [] \<and> hd (ir_match first) = hd (ir_match other)"

definition prefix_match_count :: "irule \<Rightarrow> irule list \<Rightarrow> nat" where
  "prefix_match_count first rs = length (takeWhile (prefix_matches first) rs)"

fun is_merging_array_member :: "cfg_value \<Rightarrow> bool" where
  "is_merging_array_member (VStr _) = True"
| "is_merging_array_member (VList _) = True"
| "is_merging_array_member _ = False"

definition tail_rule :: "irule \<Rightarrow> irule" where
  "tail_rule r = with_match (tl (ir_match r)) r"

definition array_matches :: "irule \<Rightarrow> irule \<Rightarrow> bool" where
  "array_matches r s \<longleftrightarrow>
     ir_match r \<noteq> [] \<and> ir_match s \<noteq> [] \<and>
     is_merging_array_member (snd (hd (ir_match r))) \<and> is_merging_array_member (snd (hd (ir_match s))) \<and>
     fst (hd (ir_match r)) = fst (hd (ir_match s)) \<and> irule_eq (tail_rule r) (tail_rule s)"

definition single_string :: "irule \<Rightarrow> bool" where
  "single_string r \<longleftrightarrow>
     (case ir_match_keywords r of
        None \<Rightarrow> False
      | Some ks \<Rightarrow>
          (case dict_get ks (fst (hd (ir_match r))) of
             None \<Rightarrow> False
           | Some k \<Rightarrow> kw_params k = PCodes ''s''))"

definition array_match_count :: "irule \<Rightarrow> irule list \<Rightarrow> nat" where
  "array_match_count first rs =
     (if ir_match first = [] \<or> single_string first then 0
      else length (takeWhile (array_matches first) rs))"

definition pop_match :: "irule \<Rightarrow> irule" where
  "pop_match r = with_match (tl (ir_match r)) r"

definition push_match :: "mentry \<Rightarrow> irule \<Rightarrow> irule" where
  "push_match m r = with_match (m # ir_match r) r"

fun array_items :: "cfg_value \<Rightarrow> cfg_value list" where
  "array_items (VList vs) = vs"
| "array_items v = [v]"

definition with_array :: "cfg_value list \<Rightarrow> irule \<Rightarrow> irule" where
  "with_array vs r = with_match ((fst (hd (ir_match r)), VList vs) # tl (ir_match r)) r"

function merge_arrays :: "irule list \<Rightarrow> irule list" where
  "merge_arrays [] = []"
| "merge_arrays (r # rs) =
     (let n = array_match_count r rs
      in (if n > 0
          then with_array (concat (map (\<lambda>s. array_items (snd (hd (ir_match s)))) (r # take n rs))) r
          else r) # merge_arrays (drop n rs))"
  by pat_completeness auto
termination by (relation "measure length") auto

declare merge_arrays.simps(2) [simp del]

definition block_of :: "mentry \<Rightarrow> irule list \<Rightarrow> irule" where
  "block_of m b = (case b of [r] \<Rightarrow> push_match m r | _ \<Rightarrow> block_rule m b)"

definition match_sizes :: "irule list \<Rightarrow> nat" where
  "match_sizes rs = sum_list (map (\<lambda>r. length (ir_match r)) rs)"

lemma match_with_match [simp]: "ir_match (with_match m r) = m" "ir_block (with_match m r) = ir_block r"
  by (cases r; simp)+

lemma match_sizes_pop:
  "\<forall>r \<in> set rs. ir_match r \<noteq> [] \<Longrightarrow> rs \<noteq> [] \<Longrightarrow> match_sizes (map pop_match rs) < match_sizes rs"
proof (induction rs)
  case (Cons r rs)
  then have "length (ir_match (pop_match r)) < length (ir_match r)" by (simp add: pop_match_def)
  then show ?case using Cons by (cases "rs = []") (auto simp: match_sizes_def)
qed simp

lemma prefix_taken: "set (take (prefix_match_count r rs) rs) \<subseteq> {s. prefix_matches r s}"
proof -
  have "take (prefix_match_count r rs) rs = takeWhile (prefix_matches r) rs"
    unfolding prefix_match_count_def by (metis takeWhile_eq_take)
  then show ?thesis by (auto dest: set_takeWhileD)
qed

lemma match_sizes_append: "match_sizes (xs @ ys) = match_sizes xs + match_sizes ys"
  by (simp add: match_sizes_def)

lemma match_sizes_split: "match_sizes (r # rs) = match_sizes (r # take n rs) + match_sizes (drop n rs)"
  by (metis append_Cons append_take_drop_id match_sizes_append)

text \<open>\<^verbatim>\<open>_optimize\<close> is the array pass after this one; the pass calls it on the rules of a block.\<close>

function factor_prefixes :: "irule list \<Rightarrow> irule list" where
  "factor_prefixes [] = []"
| "factor_prefixes (r # rs) =
     (if ir_match r = [] then r # factor_prefixes rs
      else
        let n = prefix_match_count r rs
        in if n = 0 then r # factor_prefixes rs
           else block_of (hd (ir_match r)) (merge_arrays (factor_prefixes (map pop_match (r # take n rs)))) #
                factor_prefixes (drop n rs))"
  by pat_completeness auto
termination
proof (relation "measures [match_sizes, length]", goal_cases)
  case (4 r rs n)
  then have "\<forall>s \<in> set (r # take n rs). ir_match s \<noteq> []"
    using prefix_taken [of r rs] by (auto simp: prefix_matches_def)
  then have "match_sizes (map pop_match (r # take n rs)) < match_sizes (r # take n rs)"
    by (intro match_sizes_pop) auto
  then show ?case using match_sizes_split [of r rs n] by simp
next
  case (5 r rs n)
  then show ?case using match_sizes_split [of r rs n] by (auto simp: match_sizes_def)
qed (auto simp: match_sizes_def)

declare factor_prefixes.simps(2) [simp del]

definition optimize :: "irule list \<Rightarrow> irule list" where
  "optimize rs = merge_arrays (factor_prefixes rs)"

section \<open>What a list of rules does to a packet\<close>

text \<open>
  \<open>P\<close> tells which options the packet satisfies, as they are written to a configuration. An array of a
  keyword in \<open>A\<close> means any of its elements: ferm unfolds it into a rule per element, or joins it into
  a list the kernel reads that way. An array of any other keyword is one argument, of which \<open>P\<close> says whether it
  holds, whatever it says of its elements. \<open>hits\<close> is the sequence of actions a packet meets when no action ends
  its way.
\<close>

definition entry_holds :: "(string \<Rightarrow> bool) \<Rightarrow> (string \<Rightarrow> cfg_value \<Rightarrow> bool) \<Rightarrow> mentry \<Rightarrow> bool" where
  "entry_holds A P e = (case e of (n, v) \<Rightarrow> if A n then list_ex (P n) (array_items v) else P n v)"

type_synonym action = "string option \<times> string option \<times> mentry list option"

fun hits :: "(string \<Rightarrow> bool) \<Rightarrow> (string \<Rightarrow> cfg_value \<Rightarrow> bool) \<Rightarrow> irule \<Rightarrow> action list"
  and hits_all :: "(string \<Rightarrow> bool) \<Rightarrow> (string \<Rightarrow> cfg_value \<Rightarrow> bool) \<Rightarrow> irule list \<Rightarrow> action list" where
  "hits A P (IRule k m mods p j g t mk b) =
     (if list_all (entry_holds A P) m
      then (case b of None \<Rightarrow> [(j, g, t)] | Some rs \<Rightarrow> hits_all A P rs)
      else [])"
| "hits_all A P [] = []"
| "hits_all A P (r # rs) = hits A P r @ hits_all A P rs"

text \<open>
  The verdict is the first action of a set of terminating ones; two sequences are equivalent when
  every such set gives them the same verdict.
\<close>

definition same_verdict :: "'a list \<Rightarrow> 'a list \<Rightarrow> bool" where
  "same_verdict xs ys \<longleftrightarrow> (\<forall>T. find T xs = find T ys)"

lemma same_verdict_refl [simp, intro]: "same_verdict xs xs"
  by (simp add: same_verdict_def)

lemma same_verdict_trans [trans]: "same_verdict xs ys \<Longrightarrow> same_verdict ys zs \<Longrightarrow> same_verdict xs zs"
  by (simp add: same_verdict_def)

lemma same_verdict_sym: "same_verdict xs ys \<Longrightarrow> same_verdict ys xs"
  by (simp add: same_verdict_def)

lemma find_append: "find T (xs @ ys) = (case find T xs of None \<Rightarrow> find T ys | Some x \<Rightarrow> Some x)"
  by (induction xs) auto

lemma same_verdict_append: "same_verdict a a' \<Longrightarrow> same_verdict b b' \<Longrightarrow> same_verdict (a @ b) (a' @ b')"
  by (auto simp: same_verdict_def find_append split: option.splits)

lemma same_verdict_again: "same_verdict (x @ x) x"
  by (auto simp: same_verdict_def find_append split: option.splits)

lemma hits_all_append: "hits_all A P (rs @ ss) = hits_all A P rs @ hits_all A P ss"
  by (induction rs) auto

lemma hits_with_match:
  "hits A P (with_match (m # ms) r) = (if entry_holds A P m then hits A P (with_match ms r) else [])"
  by (cases r) auto

lemma hits_head:
  "ir_match r \<noteq> [] \<Longrightarrow> hits A P r = (if entry_holds A P (hd (ir_match r)) then hits A P (pop_match r) else [])"
proof -
  assume "ir_match r \<noteq> []"
  moreover have "with_match (ir_match r) r = r" by (cases r) simp
  ultimately show ?thesis using hits_with_match [of A P "hd (ir_match r)" "tl (ir_match r)" r]
    by (simp add: pop_match_def)
qed

lemma hits_push: "hits A P (push_match m r) = (if entry_holds A P m then hits A P r else [])"
proof -
  have "with_match (ir_match r) r = r" by (cases r) simp
  then show ?thesis by (simp add: push_match_def hits_with_match)
qed

lemma hits_block_rule: "hits A P (block_rule m b) = (if entry_holds A P m then hits_all A P b else [])"
  by (simp add: block_rule_def)

lemma hits_block_of: "hits A P (block_of m b) = (if entry_holds A P m then hits_all A P b else [])"
  by (auto simp: block_of_def hits_push hits_block_rule split: list.splits)

lemma irule_eq_hits:
  "irule_eq r s \<Longrightarrow> hits A P r = hits A P s" "irules_eq rs ss \<Longrightarrow> hits_all A P rs = hits_all A P ss"
  by (induction r s and rs ss rule: irule_eq_irules_eq.induct) (auto split: option.splits)

lemma hits_common_prefix:
  "\<forall>s \<in> set rs. ir_match s \<noteq> [] \<and> hd (ir_match s) = m \<Longrightarrow>
     hits_all A P rs = (if entry_holds A P m then hits_all A P (map pop_match rs) else [])"
  by (induction rs) (auto simp: hits_head [of _ A P])

lemma same_verdict_repeat:
  "same_verdict (concat (map (\<lambda>y. if p y then X else []) ys)) (if list_ex p ys then X else [])"
proof (induction ys)
  case (Cons y ys)
  show ?case
  proof (cases "p y")
    case True
    have "same_verdict (X @ concat (map (\<lambda>y. if p y then X else []) ys)) (X @ (if list_ex p ys then X else []))"
      by (rule same_verdict_append [OF same_verdict_refl Cons])
    also have "same_verdict \<dots> X" using same_verdict_again by auto
    finally show ?thesis using True by simp
  qed (use Cons in simp)
qed simp

lemma array_member_hits:
  assumes "array_matches r s"
  shows "hits A P s = (if entry_holds A P (hd (ir_match s)) then hits A P (pop_match r) else [])"
proof -
  have "hits A P (pop_match s) = hits A P (pop_match r)"
    using assms irule_eq_hits(1) [of "tail_rule r" "tail_rule s" A P]
    by (simp add: array_matches_def tail_rule_def pop_match_def)
  then show ?thesis using assms hits_head [of s A P] by (simp add: array_matches_def)
qed

lemma array_taken: "s \<in> set (take (array_match_count r rs) rs) \<Longrightarrow> array_matches r s"
proof -
  have "take (length (takeWhile (array_matches r) rs)) rs = takeWhile (array_matches r) rs"
    by (metis takeWhile_eq_take)
  then show "s \<in> set (take (array_match_count r rs) rs) \<Longrightarrow> array_matches r s"
    by (auto simp: array_match_count_def dest: set_takeWhileD split: if_splits)
qed

lemma merged_hits:
  assumes "\<forall>s \<in> set ss. array_matches r s" and "ir_match r \<noteq> []" and any: "A (fst (hd (ir_match r)))"
  shows "same_verdict
    (hits A P (with_array (concat (map (\<lambda>s. array_items (snd (hd (ir_match s)))) (r # ss))) r))
    (hits_all A P (r # ss))"
proof -
  let ?X = "hits A P (pop_match r)"
  have single: "hits A P s = (if entry_holds A P (hd (ir_match s)) then ?X else [])" if "s \<in> set (r # ss)" for s
    using that assms hits_head [of r A P] array_member_hits [of r _ A P] by auto
  have all: "hits_all A P ys = concat (map (\<lambda>s. if entry_holds A P (hd (ir_match s)) then ?X else []) ys)"
    if "set ys \<subseteq> set (r # ss)" for ys
    using that by (induction ys) (auto simp: single)
  have item: "list_ex (P (fst (hd (ir_match r)))) (array_items (snd (hd (ir_match s)))) =
      entry_holds A P (hd (ir_match s))" if "s \<in> set (r # ss)" for s
  proof -
    have "fst (hd (ir_match s)) = fst (hd (ir_match r))"
      using that assms by (auto simp: array_matches_def)
    then show ?thesis using any by (cases "hd (ir_match s)") (simp add: entry_holds_def)
  qed
  have items: "list_ex (P (fst (hd (ir_match r)))) (concat (map (\<lambda>s. array_items (snd (hd (ir_match s)))) ys)) =
      list_ex (\<lambda>s. entry_holds A P (hd (ir_match s))) ys" if "set ys \<subseteq> set (r # ss)" for ys
    using that by (induction ys) (simp_all add: item)
  have "hits A P (with_array (concat (map (\<lambda>s. array_items (snd (hd (ir_match s)))) (r # ss))) r) =
      (if list_ex (\<lambda>s. entry_holds A P (hd (ir_match s))) (r # ss) then ?X else [])"
    using items [OF order_refl] any by (simp add: with_array_def hits_with_match entry_holds_def pop_match_def)
  moreover have "hits_all A P (r # ss) =
      concat (map (\<lambda>s. if entry_holds A P (hd (ir_match s)) then ?X else []) (r # ss))"
    by (rule all [OF order_refl])
  ultimately show ?thesis by (simp only: same_verdict_sym [OF same_verdict_repeat])
qed

lemma hits_all_split: "hits_all A P (r # rs) = hits_all A P (r # take n rs) @ hits_all A P (drop n rs)"
  by (metis append_Cons append_take_drop_id hits_all_append)

section \<open>Rules whose arrays mean any of their elements\<close>

text \<open>Every option that may join an array is of a keyword in \<open>A\<close>.\<close>

definition joinable :: "(string \<Rightarrow> bool) \<Rightarrow> mentry list \<Rightarrow> bool" where
  "joinable A m \<longleftrightarrow> list_all (\<lambda>(n, v). is_merging_array_member v \<longrightarrow> A n) m"

definition all_joinable :: "(string \<Rightarrow> bool) \<Rightarrow> irule list \<Rightarrow> bool" where
  "all_joinable A rs \<longleftrightarrow> list_all (\<lambda>r. joinable A (ir_match r)) rs"

lemma joinable_simps [simp]:
  "joinable A []" "joinable A (e # m) \<longleftrightarrow> (is_merging_array_member (snd e) \<longrightarrow> A (fst e)) \<and> joinable A m"
  "all_joinable A []" "all_joinable A (r # rs) \<longleftrightarrow> joinable A (ir_match r) \<and> all_joinable A rs"
  by (auto simp: joinable_def all_joinable_def)

lemma joinable_tl: "joinable A m \<Longrightarrow> joinable A (tl m)"
  by (cases m) simp_all

lemma all_joinable_part: "all_joinable A rs \<Longrightarrow> all_joinable A (take n rs) \<and> all_joinable A (drop n rs)"
  by (auto simp: all_joinable_def list_all_iff dest: in_set_takeD in_set_dropD)

lemma all_joinable_pop: "all_joinable A rs \<Longrightarrow> all_joinable A (map pop_match rs)"
  by (auto simp: all_joinable_def list_all_iff pop_match_def joinable_tl)

lemma array_count_head:
  assumes "array_match_count r rs \<noteq> 0"
  shows "ir_match r \<noteq> [] \<and> is_merging_array_member (snd (hd (ir_match r)))"
proof -
  have "array_matches r (hd rs)" and "ir_match r \<noteq> []"
    using assms by (auto simp: array_match_count_def split: if_splits) (cases rs; simp split: if_splits)
  then show ?thesis by (simp add: array_matches_def)
qed

lemma array_head:
  assumes "joinable A (ir_match r)" and "array_match_count r rs \<noteq> 0"
  shows "ir_match r \<noteq> []" and "A (fst (hd (ir_match r)))"
  using assms array_count_head by (cases "ir_match r"; fastforce)+

lemma merge_arrays_joinable: "all_joinable A rs \<Longrightarrow> all_joinable A (merge_arrays rs)"
proof (induction rs rule: merge_arrays.induct)
  case (2 r rs)
  let ?n = "array_match_count r rs"
  have "all_joinable A (merge_arrays (drop ?n rs))" using 2 all_joinable_part by simp
  moreover have "joinable A (ir_match (with_array vs r))" if "?n \<noteq> 0" for vs
    using array_head [of A r rs] that 2(2) by (simp add: with_array_def joinable_tl)
  ultimately show ?case using 2(2) by (simp add: merge_arrays.simps(2) Let_def)
qed simp

lemma factor_prefixes_joinable: "all_joinable A rs \<Longrightarrow> all_joinable A (factor_prefixes rs)"
proof (induction rs rule: factor_prefixes.induct)
  case (2 r rs)
  let ?n = "prefix_match_count r rs"
  let ?group = "r # take ?n rs"
  show ?case
  proof (cases "ir_match r = [] \<or> ?n = 0")
    case True
    then have "factor_prefixes (r # rs) = r # factor_prefixes rs"
      by (auto simp: factor_prefixes.simps(2) [of r rs] Let_def)
    moreover have "all_joinable A (factor_prefixes rs)"
      using True 2(1) 2(2) [OF _ refl] 2(5) by (cases "ir_match r = []") simp_all
    ultimately show ?thesis using 2(5) by simp
  next
    case False
    let ?b = "merge_arrays (factor_prefixes (map pop_match ?group))"
    have "all_joinable A (map pop_match ?group)"
      using all_joinable_pop [of A ?group] 2(5) all_joinable_part by simp
    then have b: "all_joinable A ?b" using 2(3) [OF _ refl] False merge_arrays_joinable by simp
    have "joinable A [hd (ir_match r)]" using 2(5) False by (cases "ir_match r") simp_all
    then have "joinable A (ir_match (block_of (hd (ir_match r)) ?b))"
      using b by (auto simp: block_of_def push_match_def block_rule_def split: list.splits)
    moreover have "all_joinable A (factor_prefixes (drop ?n rs))"
      using 2(4) [OF _ refl] False 2(5) all_joinable_part by simp
    ultimately show ?thesis
      using False by (simp only: factor_prefixes.simps(2) [of r rs] Let_def if_False joinable_simps de_Morgan_disj)
  qed
qed simp

lemma merge_arrays_verdict: "all_joinable A rs \<Longrightarrow> same_verdict (hits_all A P (merge_arrays rs)) (hits_all A P rs)"
proof (induction rs rule: merge_arrays.induct)
  case (2 r rs)
  let ?n = "array_match_count r rs"
  have rest: "same_verdict (hits_all A P (merge_arrays (drop ?n rs))) (hits_all A P (drop ?n rs))"
    using 2 all_joinable_part by simp
  show ?case
  proof (cases "?n = 0")
    case False
    then have "ir_match r \<noteq> []" "A (fst (hd (ir_match r)))" using array_head [of A r rs] 2(2) by simp_all
    then have "same_verdict
        (hits A P (with_array (concat (map (\<lambda>s. array_items (snd (hd (ir_match s)))) (r # take ?n rs))) r))
        (hits_all A P (r # take ?n rs))"
      by (intro merged_hits ballI array_taken)
    from same_verdict_append [OF this rest]
    have "same_verdict (hits_all A P (merge_arrays (r # rs)))
        (hits_all A P (r # take ?n rs) @ hits_all A P (drop ?n rs))"
      using False by (simp add: merge_arrays.simps(2) Let_def)
    then show ?thesis by (simp only: hits_all_split [symmetric])
  qed (use rest in \<open>simp add: merge_arrays.simps(2) same_verdict_append\<close>)
qed simp

lemma factor_prefixes_verdict: "all_joinable A rs \<Longrightarrow> same_verdict (hits_all A P (factor_prefixes rs)) (hits_all A P rs)"
proof (induction rs rule: factor_prefixes.induct)
  case (2 r rs)
  let ?n = "prefix_match_count r rs"
  let ?group = "r # take ?n rs"
  show ?case
  proof (cases "ir_match r = [] \<or> ?n = 0")
    case True
    then have "factor_prefixes (r # rs) = r # factor_prefixes rs"
      by (auto simp: factor_prefixes.simps(2) [of r rs] Let_def)
    moreover have "same_verdict (hits_all A P (factor_prefixes rs)) (hits_all A P rs)"
      using True 2(1) 2(2) [OF _ refl] 2(5) by (cases "ir_match r = []") simp_all
    ultimately show ?thesis by (simp add: same_verdict_append)
  next
    case False
    have group: "all_joinable A (map pop_match ?group)"
      using all_joinable_pop [of A ?group] 2(5) all_joinable_part by simp
    have "same_verdict (hits_all A P (merge_arrays (factor_prefixes (map pop_match ?group)))) (hits_all A P (map pop_match ?group))"
      using 2(3) [OF _ refl _ group] False
        same_verdict_trans [OF merge_arrays_verdict [OF factor_prefixes_joinable [OF group]]] by simp
    moreover have "hits_all A P ?group = (if entry_holds A P (hd (ir_match r)) then hits_all A P (map pop_match ?group) else [])"
      using False prefix_taken [of r rs] by (intro hits_common_prefix) (auto simp: prefix_matches_def)
    ultimately have "same_verdict
        (hits A P (block_of (hd (ir_match r)) (merge_arrays (factor_prefixes (map pop_match ?group))))) (hits_all A P ?group)"
      by (simp add: hits_block_of)
    moreover have "same_verdict (hits_all A P (factor_prefixes (drop ?n rs))) (hits_all A P (drop ?n rs))"
      using 2(4) [OF _ refl] False 2(5) all_joinable_part by simp
    ultimately have "same_verdict
        (hits A P (block_of (hd (ir_match r)) (merge_arrays (factor_prefixes (map pop_match ?group)))) @
          hits_all A P (factor_prefixes (drop ?n rs))) (hits_all A P ?group @ hits_all A P (drop ?n rs))"
      by (rule same_verdict_append)
    then have "same_verdict (hits_all A P (factor_prefixes (r # rs)))
        (hits_all A P ?group @ hits_all A P (drop ?n rs))"
      using False by (simp only: factor_prefixes.simps(2) [of r rs] Let_def if_False hits_all.simps de_Morgan_disj)
    then show ?thesis by (simp only: hits_all_split [symmetric])
  qed
qed simp

text \<open>
  C30: The optimization of the importer changes no verdict when every option that may join an array is of
  a keyword whose array means any of its elements: whatever options a packet satisfies and whatever actions
  end its way, the optimized rules give it the same first terminating action as the original ones. A
  keyword whose array ferm joins into one argument of another meaning, such as the modes of hashlimit, is
  outside this; the optimization merges it all the same.
\<close>

theorem optimize_same_verdict:
  assumes "all_joinable A rs"
  shows "find T (hits_all A P (optimize rs)) = find T (hits_all A P rs)"
  using same_verdict_trans [OF merge_arrays_verdict [OF factor_prefixes_joinable [OF assms]] factor_prefixes_verdict [OF assms],
      of P]
  by (simp add: optimize_def same_verdict_def)

definition host_rule :: "mentry list \<Rightarrow> irule" where
  "host_rule m = IRule [] m [] VNone (Some ''ACCEPT'') None None None None"

definition second_host :: "string \<Rightarrow> cfg_value \<Rightarrow> bool" where
  "second_host n v \<longleftrightarrow> n = ''saddr'' \<and> v = VStr ''10.0.0.2''"

lemma optimize_same_verdict_witness:
  "find (\<lambda>_. True) (hits_all (\<lambda>n. n = ''saddr'') second_host
     [host_rule [(''saddr'', VList [VStr ''10.0.0.1'', VStr ''10.0.0.2''])]]) =
   find (\<lambda>_. True) (hits_all (\<lambda>n. n = ''saddr'') second_host
     [host_rule [(''saddr'', VStr ''10.0.0.1'')], host_rule [(''saddr'', VStr ''10.0.0.2'')]])"
proof -
  let ?rs = "[host_rule [(''saddr'', VStr ''10.0.0.1'')], host_rule [(''saddr'', VStr ''10.0.0.2'')]]"
  have opt: "optimize ?rs = [host_rule [(''saddr'', VList [VStr ''10.0.0.1'', VStr ''10.0.0.2''])]]" by code_simp
  have "all_joinable (\<lambda>n. n = ''saddr'') ?rs" by (simp add: host_rule_def)
  from optimize_same_verdict [OF this, of "\<lambda>_. True" second_host] show ?thesis unfolding opt .
qed

text \<open>
  Where the hypothesis fails, the verdict may change: two limits by address and by port become one limit
  by the pair of both.
\<close>

lemma joined_modes_merge:
  "optimize [host_rule [(''hashlimit-mode'', VStr ''srcip'')], host_rule [(''hashlimit-mode'', VStr ''srcport'')]] =
     [host_rule [(''hashlimit-mode'', VList [VStr ''srcip'', VStr ''srcport''])]]"
  by code_simp

text \<open>
  A block has no keywords of its own, so an option with one scalar argument, which is never merged in a
  rule, is merged at the head of two equal blocks; the parser refuses the array.
\<close>

definition comment_rule :: "string \<Rightarrow> string \<Rightarrow> string \<Rightarrow> irule" where
  "comment_rule c host target = IRule [] [(''comment'', VStr c), (''saddr'', VStr host)] [] VNone (Some target) None None
     (Some [(''comment'', \<lparr>kw_name = ''comment'', kw_params = PCodes ''s'', kw_negation = False,
        kw_pre_negation = False, kw_ferm_name = None\<rparr>)]) None"

lemma scalar_option_merged_in_blocks:
  "map ir_match (optimize [comment_rule ''a'' ''10.0.0.1'' ''ACCEPT'', comment_rule ''a'' ''10.0.0.2'' ''DROP'',
      comment_rule ''b'' ''10.0.0.1'' ''ACCEPT'', comment_rule ''b'' ''10.0.0.2'' ''DROP'']) =
   [[(''comment'', VList [VStr ''a'', VStr ''b''])]]"
  by code_simp

end
