(* ===== verification/Ferm_Import.thy ===== *)
theory Ferm_Import
  imports Ferm_Words Ferm_Optimize Ferm_Io
begin

text \<open>
  The importer, \<^verbatim>\<open>src/src/pyferm/import_ferm.py\<close>: a dump of \<^verbatim>\<open>iptables-save\<close> becomes a
  configuration. \<open>importer\<close> is the state of class \<^verbatim>\<open>Importer\<close>; what it has written and the
  warnings it gave are fields of it, so that an error keeps them. \<open>rp\<close> is Python's rendering of a
  value that is not a string.
\<close>

section \<open>Texts\<close>

definition bare_char :: "char \<Rightarrow> bool" where
  "bare_char c \<longleftrightarrow> is_word c \<or> c \<in> set ''-.:/''"

definition ferm_escape :: "(cfg_value \<Rightarrow> string) \<Rightarrow> cfg_value \<Rightarrow> string" where
  "ferm_escape rp v =
     (let t = stringify rp v
      in if t = [] \<or> \<not> list_all bare_char t then [SQUOTE] @ t @ [SQUOTE] else t)"

definition format_items :: "(cfg_value \<Rightarrow> string) \<Rightarrow> cfg_value list \<Rightarrow> string" where
  "format_items rp vs =
     (case vs of
        [v] \<Rightarrow> ferm_escape rp v
      | _ \<Rightarrow> ''('' @ join_str '' '' (map (ferm_escape rp) vs) @ '')'')"

fun format_array :: "(cfg_value \<Rightarrow> string) \<Rightarrow> cfg_value \<Rightarrow> string" where
  "format_array rp (VMulti vs) = format_items rp vs"
| "format_array rp (VList vs) = format_items rp vs"
| "format_array rp v = ferm_escape rp v"

section \<open>Tokens\<close>

definition lex_token :: "string \<Rightarrow> (string \<times> string) option" where
  "lex_token s =
     (case dropWhile is_space s of
        [] \<Rightarrow> None
      | c # t \<Rightarrow>
          if c = DQUOTE \<and> DQUOTE \<in> set t
          then Some (takeWhile (\<lambda>d. d \<noteq> DQUOTE) t, tl (dropWhile (\<lambda>d. d \<noteq> DQUOTE) t))
          else if c = CHR ''!'' then Some ([c], t)
          else Some (takeWhile (\<lambda>d. \<not> is_space d) (c # t), dropWhile (\<lambda>d. \<not> is_space d) (c # t)))"

lemma lex_token_shorter: "lex_token s = Some (w, rest) \<Longrightarrow> length rest < length s"
proof -
  assume tok: "lex_token s = Some (w, rest)"
  show ?thesis
  proof (cases "dropWhile is_space s")
    case (Cons c t)
    then have "\<not> is_space c" by (metis hd_dropWhile list.sel(1) list.distinct(1))
    moreover have "length (c # t) \<le> length s" by (metis Cons length_dropWhile_le)
    ultimately show ?thesis using tok Cons length_dropWhile_le [of "\<lambda>d. \<not> is_space d" t]
        length_dropWhile_le [of "\<lambda>d. d \<noteq> DQUOTE" t]
      by (auto simp: lex_token_def split: if_splits)
  next
    case Nil
    then show ?thesis using tok by (simp only: lex_token_def list.case) simp
  qed
qed

function tokenize :: "string \<Rightarrow> string list" where
  "tokenize s = (case lex_token s of None \<Rightarrow> [] | Some (w, rest) \<Rightarrow> w # tokenize rest)"
  by auto
termination by (relation "measure length") (auto simp: lex_token_shorter)

declare tokenize.simps [simp del]

text \<open>\<^verbatim>\<open>_OPTION_RE\<close>, then \<^verbatim>\<open>_LONG_OPTION_RE\<close>.\<close>

definition match_option :: "string \<Rightarrow> string option" where
  "match_option token =
     (let t = chomp token
      in case t of
           [d, c] \<Rightarrow> if d = CHR ''-'' \<and> is_word c then Some [c] else None
         | d # e # w \<Rightarrow>
             if d = CHR ''-'' \<and> e = CHR ''-'' \<and> list_all (\<lambda>c. \<not> is_space c) w then Some w else None
         | _ \<Rightarrow> None)"

definition import_aliases :: "(string, string) dict" where
  "import_aliases =
     [(''i'', ''interface''), (''o'', ''outerface''), (''f'', ''fragment''), (''p'', ''protocol''),
      (''d'', ''daddr''), (''s'', ''saddr''), (''m'', ''match''), (''j'', ''jump''), (''g'', ''goto'')]"

section \<open>The state\<close>

record importer =
  im_out :: string
  im_indent :: int
  im_table :: "string option"
  im_chain :: "string option"
  im_domain :: "string option"
  im_next_domain :: string
  im_rules :: "irule list"
  im_policies :: "(string, string) dict"
  im_lineno :: nat
  im_warnings :: "string list"

definition new_importer :: "string \<Rightarrow> importer" where
  "new_importer dmn =
     \<lparr>im_out = [], im_indent = 0, im_table = None, im_chain = None, im_domain = None,
      im_next_domain = dmn, im_rules = [], im_policies = [], im_lineno = 0, im_warnings = []\<rparr>"

type_synonym stepped = "importer \<times> failure option"

definition then_step :: "stepped \<Rightarrow> (importer \<Rightarrow> stepped) \<Rightarrow> stepped" where
  "then_step s k = (case s of (st, None) \<Rightarrow> k st | (st, Some e) \<Rightarrow> (st, Some e))"

definition doneS :: "importer \<Rightarrow> stepped" where
  "doneS st = (st, None)"

section \<open>Writing\<close>

definition write_line :: "string list \<Rightarrow> importer \<Rightarrow> importer" where
  "write_line toks0 st =
     (let comma = (if toks0 \<noteq> [] \<and> last toks0 = '';'' then '';'' else []);
          toks = (if comma = [] then toks0 else butlast toks0);
          ind = (if toks \<noteq> [] \<and> starts_with ''}'' (hd toks) then im_indent st - 4 else im_indent st);
          text = replicate (nat ind) (CHR '' '') @ join_str '' '' toks @ comma @ [NL]
      in st\<lparr>im_out := im_out st @ text,
            im_indent := (if toks \<noteq> [] \<and> ends_with ''{'' (last toks) then ind + 4 else ind)\<rparr>)"

fun payload_tokens :: "(cfg_value \<Rightarrow> string) \<Rightarrow> cfg_value \<Rightarrow> string list" where
  "payload_tokens rp (VParams vs) = map (format_array rp) vs"
| "payload_tokens rp VNone = []"
| "payload_tokens rp v = [format_array rp v]"

text \<open>A \<^verbatim>\<open>PreNegated\<close> is unwrapped before the key, a \<^verbatim>\<open>Negated\<close> after it.\<close>

definition flush_option :: "(cfg_value \<Rightarrow> string) \<Rightarrow> string \<Rightarrow> cfg_value \<Rightarrow> string list" where
  "flush_option rp key v0 =
     (case (case v0 of VPreNegated v \<Rightarrow> ([''!''], v) | _ \<Rightarrow> ([], v0)) of
        (pre, v1) \<Rightarrow>
          pre @ [key] @
          (case v1 of VNegated v \<Rightarrow> ''!'' # payload_tokens rp v | _ \<Rightarrow> payload_tokens rp v1))"

definition flush_entries :: "(cfg_value \<Rightarrow> string) \<Rightarrow> mentry list \<Rightarrow> string list" where
  "flush_entries rp es = concat (map (\<lambda>(n, v). flush_option rp n v) es)"

definition action_tokens :: "(cfg_value \<Rightarrow> string) \<Rightarrow> irule \<Rightarrow> string list res" where
  "action_tokens rp r =
     (case ir_jump r of
        Some t \<Rightarrow>
          bindR (is_netfilter_core_target (Some t)) (\<lambda>core.
          bindR (if core then Inr None else is_netfilter_module_target TARGET_DEFS (Some ''ip'') (Some t)) (\<lambda>d.
          Inr (if core \<or> d \<noteq> None then [t] else flush_option rp ''jump'' (VStr t))))
      | None \<Rightarrow>
          Inr (case ir_goto r of
                 Some g \<Rightarrow> flush_option rp ''goto'' (VStr g)
               | None \<Rightarrow> if ir_block r = None then [''NOP''] else []))"

definition rule_tokens :: "(cfg_value \<Rightarrow> string) \<Rightarrow> irule \<Rightarrow> string list res" where
  "rule_tokens rp r =
     bindR (action_tokens rp r) (\<lambda>act.
     Inr (flush_entries rp (ir_match r) @ act @
          (case ir_target r of None \<Rightarrow> [] | Some es \<Rightarrow> flush_entries rp es)))"

fun rule_weight :: "irule \<Rightarrow> nat" where
  "rule_weight (IRule k m mods p j g t mk b) =
     Suc (length m) + (case b of None \<Rightarrow> 0 | Some rs \<Rightarrow> sum_list (map rule_weight rs))"

definition weights :: "irule list \<Rightarrow> nat" where
  "weights rs = sum_list (map rule_weight rs)"

lemma weights_simps [simp]: "weights [] = 0" "weights (r # rs) = rule_weight r + weights rs"
  by (simp_all add: weights_def)

lemma weights_append [simp]: "weights (rs @ ss) = weights rs + weights ss"
  by (simp add: weights_def)

lemma rule_weight_block:
  "rule_weight r = Suc (length (ir_match r)) + (case ir_block r of None \<Rightarrow> 0 | Some rs \<Rightarrow> weights rs)"
  by (cases r) (simp add: weights_def split: option.split)

lemma weight_with_match [simp]:
  "rule_weight (with_match m r) + length (ir_match r) = rule_weight r + length m"
  by (simp add: rule_weight_block)

lemma rule_weight_pos: "0 < rule_weight r"
  by (simp add: rule_weight_block)

lemma weights_pos: "rs \<noteq> [] \<Longrightarrow> 0 < weights rs"
  using rule_weight_pos by (cases rs) simp_all

lemma weights_split: "weights (r # take n rs) + weights (drop n rs) = weights (r # rs)"
  by (metis append_Cons append_take_drop_id weights_append)

lemma merge_arrays_weight: "weights (merge_arrays rs) \<le> weights rs"
proof (induction rs rule: merge_arrays.induct)
  case (2 r rs)
  let ?n = "array_match_count r rs"
  have "rule_weight (with_array vs r) = rule_weight r" if "?n > 0" for vs
    using that by (cases "ir_match r") (auto simp: with_array_def array_match_count_def rule_weight_block)
  then have "weights (merge_arrays (r # rs)) = rule_weight r + weights (merge_arrays (drop ?n rs))"
    by (simp add: merge_arrays.simps(2) [of r rs] Let_def)
  also have "\<dots> \<le> weights (r # rs)" using 2 weights_split [of r ?n rs] by simp
  finally show ?case .
qed simp

lemma weights_pop:
  "\<forall>r \<in> set rs. ir_match r \<noteq> [] \<Longrightarrow> weights (map pop_match rs) + length rs = weights rs"
proof (induction rs)
  case (Cons r rs)
  have "rule_weight (pop_match r) + 1 = rule_weight r"
    using Cons.prems by (cases "ir_match r") (auto simp: pop_match_def rule_weight_block)
  then show ?case using Cons by simp
qed simp

lemma block_of_weight: "rule_weight (block_of m b) \<le> weights b + 2"
  by (auto simp: block_of_def push_match_def block_rule_def rule_weight_block weights_def split: list.splits)

lemma factor_prefixes_weight: "weights (factor_prefixes rs) \<le> weights rs"
proof (induction rs rule: factor_prefixes.induct)
  case (2 r rs)
  let ?n = "prefix_match_count r rs"
  let ?group = "r # take ?n rs"
  show ?case
  proof (cases "ir_match r = [] \<or> ?n = 0")
    case True
    then have "factor_prefixes (r # rs) = r # factor_prefixes rs"
      by (auto simp: factor_prefixes.simps(2) [of r rs] Let_def)
    moreover have "weights (factor_prefixes rs) \<le> weights rs"
      using True 2(1) 2(2) [OF _ refl] by (cases "ir_match r = []") simp_all
    ultimately show ?thesis by simp
  next
    case False
    let ?b = "merge_arrays (factor_prefixes (map pop_match ?group))"
    have "weights ?b \<le> weights (map pop_match ?group)"
      using 2(3) [OF _ refl] False order_trans [OF merge_arrays_weight] by simp
    moreover have "weights (map pop_match ?group) + length ?group = weights ?group"
      using False prefix_taken [of r rs] by (intro weights_pop) (auto simp: prefix_matches_def)
    moreover have "2 \<le> length ?group"
      using False by (cases rs) (auto simp: prefix_match_count_def Suc_le_eq split: if_splits)
    moreover have "weights (factor_prefixes (drop ?n rs)) \<le> weights (drop ?n rs)"
      using 2(4) [OF _ refl] False by simp
    moreover have "weights (factor_prefixes (r # rs)) =
        rule_weight (block_of (hd (ir_match r)) ?b) + weights (factor_prefixes (drop ?n rs))"
      using False by (simp only: factor_prefixes.simps(2) [of r rs] Let_def if_False de_Morgan_disj weights_simps)
    ultimately show ?thesis
      using block_of_weight [of "hd (ir_match r)" ?b] weights_split [of r ?n rs] by linarith
  qed
qed simp

lemma optimize_weight: "weights (optimize rs) \<le> weights rs"
  unfolding optimize_def by (rule order_trans [OF merge_arrays_weight factor_prefixes_weight])

text \<open>The body of the loop of \<^verbatim>\<open>flush\<close> over the optimized rules.\<close>

function flush_rules :: "(cfg_value \<Rightarrow> string) \<Rightarrow> irule list \<Rightarrow> importer \<Rightarrow> stepped" where
  "flush_rules rp [] st = (st, None)"
| "flush_rules rp (r # rs) st =
     (case rule_tokens rp r of
        Inl e \<Rightarrow> (st, Some e)
      | Inr line \<Rightarrow>
          (case ir_block r of
             None \<Rightarrow> flush_rules rp rs (write_line (line @ ['';'']) st)
           | Some b \<Rightarrow>
               then_step (flush_rules rp (optimize b) (write_line (line @ [''{'']) st)) (\<lambda>st1.
               flush_rules rp rs (write_line [''}''] (st1\<lparr>im_rules := []\<rparr>)))))"
  by pat_completeness auto
termination
proof (relation "measure (\<lambda>(rp, rs, st). weights rs)", goal_cases)
  case (3 rp r rs st line b)
  then show ?case
    using optimize_weight [of b] rule_weight_block [of r] by simp
qed (use rule_weight_pos in \<open>auto simp: rule_weight_block\<close>)

declare flush_rules.simps(2) [simp del]

section \<open>Flushing\<close>

definition flush :: "(cfg_value \<Rightarrow> string) \<Rightarrow> importer \<Rightarrow> stepped" where
  "flush rp st =
     then_step (flush_rules rp (optimize (im_rules st)) st) (\<lambda>st1. doneS (st1\<lparr>im_rules := []\<rparr>))"

definition flush_policies :: "importer \<Rightarrow> importer" where
  "flush_policies st =
     (fold (\<lambda>(c, p). write_line [''chain'', c, ''policy'', p, '';'']) (sorted_chains (im_policies st)) st)
       \<lparr>im_policies := []\<rparr>"

definition close_if :: "bool \<Rightarrow> importer \<Rightarrow> importer" where
  "close_if b st = (if b then write_line [''}''] st else st)"

definition flush_domain :: "(cfg_value \<Rightarrow> string) \<Rightarrow> importer \<Rightarrow> stepped" where
  "flush_domain rp st =
     then_step (flush rp st) (\<lambda>st1.
     doneS ((close_if (im_domain st1 \<noteq> None) (close_if (im_table st1 \<noteq> None) (close_if (im_chain st1 \<noteq> None) st1)))
       \<lparr>im_chain := None, im_table := None, im_domain := None\<rparr>))"

section \<open>Parsing an option\<close>

definition in_line :: "nat \<Rightarrow> string" where
  "in_line n = '' in line '' @ string_of_nat n"

definition parse_died :: "nat \<Rightarrow> failure" where
  "parse_died n = Died (''import-ferm: parse error'' @ in_line n)"

definition fetch_token :: "nat \<Rightarrow> string \<Rightarrow> string list \<Rightarrow> (string \<times> string list) res" where
  "fetch_token n opt ts =
     (case ts of
        [] \<Rightarrow> Inl (Died (''not enough arguments for option '' @ [SQUOTE] @ opt @ [SQUOTE] @ in_line n))
      | t # rest \<Rightarrow> Inr (t, rest))"

fun fetch_tokens :: "nat \<Rightarrow> string \<Rightarrow> nat \<Rightarrow> string list \<Rightarrow> (string list \<times> string list) res" where
  "fetch_tokens n opt 0 ts = Inr ([], ts)"
| "fetch_tokens n opt (Suc k) ts =
     bindR (fetch_token n opt ts) (\<lambda>(t, ts1).
     bindR (fetch_tokens n opt k ts1) (\<lambda>(us, ts2). Inr (t # us, ts2)))"

definition fetch_negated :: "string list \<Rightarrow> bool \<times> string list" where
  "fetch_negated ts = (case ts of t # rest \<Rightarrow> if t = ''!'' then (True, rest) else (False, ts) | [] \<Rightarrow> (False, []))"

definition comma_items :: "string \<Rightarrow> cfg_value list" where
  "comma_items t = map VStr (split_char (CHR '','') t)"

definition code_value :: "nat \<Rightarrow> char \<times> string \<Rightarrow> cfg_value res" where
  "code_value n ct =
     (case ct of (c, t) \<Rightarrow>
        if c = CHR ''s'' then Inr (VStr t)
        else if c = CHR ''c'' then Inr (VList (comma_items t))
        else Inl (parse_died n))"

text \<open>The pieces of a letter code are taken only when there are enough tokens for all of them.\<close>

definition parse_codes :: "nat \<Rightarrow> string \<Rightarrow> string list \<Rightarrow> (cfg_value \<times> string list) res" where
  "parse_codes n codes ts =
     (if length ts < length codes then Inl (parse_died n)
      else bindR (mapR (code_value n) (zip codes ts)) (\<lambda>parts.
           Inr (case parts of [v] \<Rightarrow> v | _ \<Rightarrow> VParams parts, drop (length codes) ts)))"

definition import_def_args :: "nat \<Rightarrow> string \<Rightarrow> kparams \<Rightarrow> string list \<Rightarrow> (cfg_value \<times> string list) res" where
  "import_def_args n opt ps ts =
     (case ps of
        PNone \<Rightarrow> Inr (VNone, ts)
      | PFun f \<Rightarrow> bindR (fetch_token n opt ts) (\<lambda>(t, rest). Inr (VList (comma_items t), rest))
      | PCodes codes \<Rightarrow>
          if codes = ''m'' then bindR (fetch_token n opt ts) (\<lambda>(t, rest). Inr (VMulti [VStr t], rest))
          else parse_codes n codes ts
      | PInt k \<Rightarrow>
          if k = 1 then bindR (fetch_token n opt ts) (\<lambda>(t, rest). Inr (VStr t, rest))
          else bindR (fetch_tokens n opt k ts) (\<lambda>(us, rest). Inr (VMulti (map VStr us), rest)))"

definition import_def_option ::
  "nat \<Rightarrow> string \<Rightarrow> kparams \<Rightarrow> bool \<Rightarrow> bool \<Rightarrow> string list \<Rightarrow> (cfg_value \<times> string list) res" where
  "import_def_option n opt ps pre_negation negated0 ts0 =
     (case fetch_negated ts0 of (bang, ts) \<Rightarrow>
        bindR (import_def_args n opt ps ts) (\<lambda>(v, rest).
        Inr (if negated0 \<or> bang then (if pre_negation then VPreNegated v else VNegated v) else v, rest)))"

section \<open>The rule in progress\<close>

text \<open>
  \<^verbatim>\<open>rule.cur\<close> is the list new entries go to: the target's list once \<^verbatim>\<open>--jump\<close> has made it, the
  matches before.
\<close>

definition new_irule :: irule where
  "new_irule = IRule [] [] [] VNone None None None None None"

fun current_entries :: "irule \<Rightarrow> mentry list" where
  "current_entries (IRule k m mods p j g t mk b) = (case t of None \<Rightarrow> m | Some es \<Rightarrow> es)"

fun set_current :: "mentry list \<Rightarrow> irule \<Rightarrow> irule" where
  "set_current es (IRule k m mods p j g t mk b) =
     (case t of None \<Rightarrow> IRule k es mods p j g t mk b | Some _ \<Rightarrow> IRule k m mods p j g (Some es) mk b)"

definition add_entry :: "string \<Rightarrow> cfg_value \<Rightarrow> irule \<Rightarrow> irule" where
  "add_entry n v r = set_current (current_entries r @ [(n, v)]) r"

fun import_merge :: "(string, keyword) dict \<Rightarrow> irule \<Rightarrow> irule" where
  "import_merge ks (IRule k m mods p j g t mk b) = IRule (dict_update k ks) m mods p j g t mk b"

fun with_proto :: "cfg_value \<Rightarrow> irule \<Rightarrow> irule" where
  "with_proto v (IRule k m mods p j g t mk b) = IRule k m mods v j g t mk b"

fun add_mod :: "string \<Rightarrow> irule \<Rightarrow> irule" where
  "add_mod x (IRule k m mods p j g t mk b) = IRule k m (List.insert x mods) p j g t mk b"

fun start_target :: "string \<Rightarrow> irule \<Rightarrow> irule" where
  "start_target x (IRule k m mods p j g t mk b) = IRule [] m mods p (Some x) g (Some []) (Some k) b"

fun with_goto :: "string \<Rightarrow> irule \<Rightarrow> irule" where
  "with_goto x (IRule k m mods p j g t mk b) = IRule k m mods p j (Some x) t mk b"

definition merge_module :: "registry \<Rightarrow> string \<Rightarrow> irule \<Rightarrow> irule" where
  "merge_module defs x r =
     (case registry_get defs ''ip'' x of None \<Rightarrow> r | Some d \<Rightarrow> import_merge (md_keywords d) r)"

definition port_keyword :: "string \<Rightarrow> keyword" where
  "port_keyword x =
     \<lparr>kw_name = x, kw_params = PInt 1, kw_negation = True, kw_pre_negation = False, kw_ferm_name = None\<rparr>"

definition add_port_keywords :: "irule \<Rightarrow> irule" where
  "add_port_keywords r = import_merge [(''sport'', port_keyword ''sport''), (''dport'', port_keyword ''dport'')] r"

definition protocol_keywords :: "cfg_value \<Rightarrow> irule \<Rightarrow> irule" where
  "protocol_keywords v r =
     (case v of
        VStr p \<Rightarrow>
          (let r1 = merge_module PROTO_DEFS (netfilter_canonical_protocol p) r
           in if p \<in> set PORT_PROTOCOLS then add_port_keywords r1 else r1)
      | _ \<Rightarrow> r)"

definition import_protocol ::
  "nat \<Rightarrow> irule \<Rightarrow> bool \<Rightarrow> string list \<Rightarrow> (irule \<times> string list) res" where
  "import_protocol n r negated ts =
     bindR (import_def_option n ''protocol'' (PInt 1) False negated ts) (\<lambda>(v, rest).
     Inr (protocol_keywords v (add_entry ''protocol'' v (with_proto v r)), rest))"

definition proto_covers :: "cfg_value \<Rightarrow> string \<Rightarrow> bool" where
  "proto_covers proto param \<longleftrightarrow>
     (case proto of
        VStr p \<Rightarrow> p = param \<or> (p \<in> set [''ipv6-icmp'', ''icmpv6''] \<and> param = ''icmp6'')
      | _ \<Rightarrow> False)"

definition import_match :: "nat \<Rightarrow> irule \<Rightarrow> string list \<Rightarrow> (irule \<times> string list) res" where
  "import_match n r ts =
     (case ts of
        [] \<Rightarrow> Inl (parse_died n)
      | param # rest \<Rightarrow>
          let r1 = add_mod param r;
              r2 = (if proto_covers (ir_proto r) param then r1 else add_entry ''mod'' (VStr param) r1);
              m = (if param = ''icmp6'' then ''icmpv6'' else param);
              r3 = (if registry_get MATCH_DEFS ''ip'' m \<noteq> None then merge_module MATCH_DEFS m r2
                    else merge_module PROTO_DEFS m r2)
          in Inr (if param \<in> set PORT_PROTOCOLS then add_port_keywords r3 else r3, rest))"

definition keyword_entry :: "keyword \<Rightarrow> string" where
  "keyword_entry k = (case kw_ferm_name k of None \<Rightarrow> kw_name k | Some x \<Rightarrow> if x = [] then kw_name k else x)"

definition extend_multi :: "string \<Rightarrow> cfg_value \<Rightarrow> mentry list \<Rightarrow> mentry list option" where
  "extend_multi opt v es =
     (if es = [] then None
      else case (v, last es) of
             (VMulti vs, (x, VMulti us)) \<Rightarrow> if x = opt then Some (butlast es @ [(x, VMulti (us @ vs))]) else None
           | _ \<Rightarrow> None)"

definition import_keyword ::
  "nat \<Rightarrow> irule \<Rightarrow> string \<Rightarrow> keyword \<Rightarrow> bool \<Rightarrow> string list \<Rightarrow> (irule \<times> string list) res" where
  "import_keyword n r opt k negated ts =
     bindR (import_def_option n opt (kw_params k) (kw_pre_negation k) negated ts) (\<lambda>(v, rest).
     Inr (case extend_multi opt v (current_entries r) of
            Some es \<Rightarrow> set_current es r
          | None \<Rightarrow> add_entry (keyword_entry k) v r, rest))"

definition import_jump :: "nat \<Rightarrow> irule \<Rightarrow> string list \<Rightarrow> (irule \<times> string list) res" where
  "import_jump n r ts =
     (case ts of
        [] \<Rightarrow> Inl (parse_died n)
      | target # rest \<Rightarrow> Inr (merge_module TARGET_DEFS target (start_target target r), rest))"

definition import_goto :: "nat \<Rightarrow> irule \<Rightarrow> string list \<Rightarrow> (irule \<times> string list) res" where
  "import_goto n r ts =
     (case ts of
        [] \<Rightarrow> Inl (parse_died n)
      | target # rest \<Rightarrow> Inr (with_goto target r, rest))"

definition import_option_name :: "string \<Rightarrow> string" where
  "import_option_name opt0 =
     (let opt = (case dict_get import_aliases opt0 of None \<Rightarrow> opt0 | Some x \<Rightarrow> x)
      in if opt = ''dports'' then ''destination-ports''
         else if opt = ''sports'' then ''source-ports''
         else opt)"

definition not_negatable :: "nat \<Rightarrow> string \<Rightarrow> bool \<Rightarrow> 'a res \<Rightarrow> 'a res" where
  "not_negatable n opt negated m =
     bindR m (\<lambda>x.
       if negated then Inl (Died (''option '' @ [SQUOTE] @ opt @ [SQUOTE] @ in_line n @ '' cannot be negated''))
       else Inr x)"

definition import_option ::
  "nat \<Rightarrow> irule \<Rightarrow> string \<Rightarrow> bool \<Rightarrow> string list \<Rightarrow> (irule \<times> string list) res" where
  "import_option n r opt0 negated ts =
     (let opt = import_option_name opt0
      in if opt = ''protocol'' then import_protocol n r negated ts
         else if opt = ''match'' then not_negatable n opt negated (import_match n r ts)
         else case dict_get (ir_keywords r) opt of
                Some k \<Rightarrow> import_keyword n r opt k negated ts
              | None \<Rightarrow>
                  if opt = ''jump'' then not_negatable n opt negated (import_jump n r ts)
                  else if opt = ''goto'' then not_negatable n opt negated (import_goto n r ts)
                  else Inl (Died (''option '' @ [SQUOTE] @ opt @ [SQUOTE] @ in_line n @ '' not understood'')))"

section \<open>No operation gives tokens back\<close>

definition keeps_tokens :: "string list \<Rightarrow> ('a \<times> string list) res \<Rightarrow> bool" where
  "keeps_tokens ts r = (case r of Inl _ \<Rightarrow> True | Inr (x, rest) \<Rightarrow> length rest \<le> length ts)"

lemma keeps_tokens_bind:
  "keeps_tokens ts m \<Longrightarrow> (\<And>x rest. length rest \<le> length ts \<Longrightarrow> keeps_tokens ts (k (x, rest))) \<Longrightarrow> keeps_tokens ts (bindR m k)"
  by (cases m) (auto simp: keeps_tokens_def)

lemma fetch_token_consumes: "keeps_tokens ts (fetch_token n opt ts)"
  by (cases ts) (simp_all add: fetch_token_def keeps_tokens_def)

lemma fetch_tokens_consumes: "keeps_tokens ts (fetch_tokens n opt k ts)"
proof (induction k arbitrary: ts)
  case (Suc k)
  show ?case
  proof (cases ts)
    case (Cons t rest)
    then show ?thesis using Suc [of rest]
      by (auto simp: keeps_tokens_def fetch_token_def bindR_def split: sum.splits)
  qed (simp add: keeps_tokens_def fetch_token_def)
qed (simp add: keeps_tokens_def)

lemma def_option_consumes: "keeps_tokens ts (import_def_option n opt ps pre neg ts)"
proof -
  have args: "keeps_tokens us (import_def_args n opt ps us)" for us
    unfolding import_def_args_def parse_codes_def
    by (auto split: kparams.split prod.split
        intro!: keeps_tokens_bind [OF fetch_token_consumes] keeps_tokens_bind [OF fetch_tokens_consumes]
        simp: keeps_tokens_def [of _ "Inr _"] keeps_tokens_def [of _ "Inl _"])
      (auto simp: keeps_tokens_def bindR_def split: sum.splits)
  have "length (snd (fetch_negated ts)) \<le> length ts"
    by (auto simp: fetch_negated_def split: list.splits)
  with args [of "snd (fetch_negated ts)"] show ?thesis
    by (auto simp: import_def_option_def keeps_tokens_def bindR_def split: prod.splits sum.splits)
qed

lemma import_option_consumes: "keeps_tokens ts (import_option n r opt neg ts)"
  unfolding import_option_def import_protocol_def import_keyword_def import_match_def import_jump_def
    import_goto_def not_negatable_def Let_def
  by (auto split: option.split list.split prod.split intro!: keeps_tokens_bind [OF def_option_consumes]
      simp: keeps_tokens_def [of _ "Inr _"] keeps_tokens_def [of _ "Inl _"] keeps_tokens_bind)

end
