(* ===== verification/Ferm_Import_Run.thy ===== *)
theory Ferm_Import_Run
  imports Ferm_Import
begin

text \<open>
  The input loop of the importer: the lines of a dump and their handlers, \<^verbatim>\<open>run\<close>, the choice of
  the input and \<^verbatim>\<open>main\<close>. The usage text, the files, the standard input and the live
  \<^verbatim>\<open>iptables-save\<close> are arguments.
\<close>

section \<open>The tokens of a rule\<close>

definition import_warning :: "string \<Rightarrow> string" where
  "import_warning m = ''warning: '' @ m @ [NL]"

lemma import_option_rest: "import_option n r opt neg ts = Inr (r1, rest) \<Longrightarrow> length rest \<le> length ts"
  using import_option_consumes [of ts n r opt neg] by (simp add: keeps_tokens_def)

text \<open>The loop of \<^verbatim>\<open>_handle_rule\<close>; the second result is the warnings it gave.\<close>

function import_tokens :: "nat \<Rightarrow> irule \<Rightarrow> string list \<Rightarrow> irule res \<times> string list" where
  "import_tokens n r [] = (Inr r, [])"
| "import_tokens n r (t # ts) =
     (case match_option t of
        Some opt \<Rightarrow>
          (case import_option n r opt False ts of
             Inl e \<Rightarrow> (Inl e, [])
           | Inr (r1, rest) \<Rightarrow> import_tokens n r1 rest)
      | None \<Rightarrow>
          if t = ''!''
          then (case ts of
                  [] \<Rightarrow> (Inl (parse_died n), [])
                | u # us \<Rightarrow>
                    (case match_option u of
                       None \<Rightarrow> (Inl (Died (''option expected'' @ in_line n)), [])
                     | Some opt \<Rightarrow>
                         (case import_option n r opt True us of
                            Inl e \<Rightarrow> (Inl e, [])
                          | Inr (r1, rest) \<Rightarrow> import_tokens n r1 rest)))
          else (case import_tokens n r ts of
                  (res, ws) \<Rightarrow>
                    (res, import_warning (''unknown token '' @ [SQUOTE] @ t @ [SQUOTE] @ in_line n) # ws)))"
  by pat_completeness auto
termination by (relation "measure (\<lambda>(n, r, ts). length ts)") (auto dest!: import_option_rest simp: less_Suc_eq_le)

declare import_tokens.simps(2) [simp del]

section \<open>The lines of a dump\<close>

text \<open>A run of non-spaces, at least one space after it, and what follows the spaces.\<close>

definition word_spaces :: "string \<Rightarrow> (string \<times> string) option" where
  "word_spaces s =
     (let w = takeWhile (\<lambda>c. \<not> is_space c) s;
          r = dropWhile (\<lambda>c. \<not> is_space c) s
      in if w = [] \<or> r = [] then None else Some (w, dropWhile is_space r))"

definition comment_line :: "string \<Rightarrow> bool" where
  "comment_line s \<longleftrightarrow> s = [] \<or> (hd s = CHR ''#'' \<and> NL \<notin> set s)"

definition word_ends :: "string \<Rightarrow> bool" where
  "word_ends s \<longleftrightarrow> s = [] \<or> \<not> is_word (hd s)"

definition header_here :: "string \<Rightarrow> string option" where
  "header_here s =
     (if starts_with ''iptables-save'' s \<and> word_ends (drop 13 s) then Some ''ip''
      else if starts_with ''ip6tables-save'' s \<and> word_ends (drop 14 s) then Some ''ip6''
      else None)"

text \<open>The last place of the line that names the tool: the run of \<^verbatim>\<open>.*\<close> is greedy.\<close>

fun header_after :: "char \<Rightarrow> string \<Rightarrow> string option" where
  "header_after prev [] = None"
| "header_after prev (c # s) =
     (case header_after c s of
        Some d \<Rightarrow> Some d
      | None \<Rightarrow> if is_word prev then None else header_here (c # s))"

definition save_header :: "string \<Rightarrow> string option" where
  "save_header s = (case s of c # t \<Rightarrow> if c = CHR ''#'' then header_after c t else None | [] \<Rightarrow> None)"

definition table_line :: "string \<Rightarrow> string option" where
  "table_line s =
     (case s of c # t \<Rightarrow> if c = CHR ''*'' \<and> t \<noteq> [] \<and> list_all is_word t then Some t else None | [] \<Rightarrow> None)"

definition chain_line :: "string \<Rightarrow> string option" where
  "chain_line s =
     (case s of
        c # t \<Rightarrow>
          if c = CHR '':''
          then (case word_spaces t of
                  Some (w, d # e # _) \<Rightarrow> if d = CHR ''-'' \<and> is_space e then Some w else None
                | _ \<Rightarrow> None)
          else None
      | [] \<Rightarrow> None)"

definition policy_of_line :: "string \<Rightarrow> (string \<times> string) option" where
  "policy_of_line s =
     (case s of
        c # t \<Rightarrow>
          if c = CHR '':''
          then (case word_spaces t of
                  Some (w, r) \<Rightarrow>
                    (let p = takeWhile is_word r; r1 = dropWhile is_word r
                     in if p \<noteq> [] \<and> r1 \<noteq> [] \<and> is_space (hd r1) then Some (w, p) else None)
                | None \<Rightarrow> None)
          else None
      | [] \<Rightarrow> None)"

definition rule_line :: "string \<Rightarrow> (string \<times> string) option" where
  "rule_line s = (if starts_with ''-A '' s then word_spaces (drop 3 s) else None)"

section \<open>The handlers\<close>

definition flush_left_policies :: "importer \<Rightarrow> importer" where
  "flush_left_policies st = (if im_policies st = [] then st else flush_policies st)"

definition open_domain :: "(cfg_value \<Rightarrow> string) \<Rightarrow> importer \<Rightarrow> stepped" where
  "open_domain rp st =
     (if im_domain st = Some (im_next_domain st) then doneS st
      else then_step (flush_domain rp st) (\<lambda>st1.
           doneS (write_line [''domain'', im_next_domain st1, ''{''] (st1\<lparr>im_domain := Some (im_next_domain st1)\<rparr>))))"

definition handle_table :: "(cfg_value \<Rightarrow> string) \<Rightarrow> string \<Rightarrow> importer \<Rightarrow> stepped" where
  "handle_table rp name st =
     then_step (open_domain rp (flush_left_policies st)) (\<lambda>st1.
     doneS (write_line [''table'', name, ''{''] ((close_if (im_table st1 \<noteq> None) st1)\<lparr>im_table := Some name\<rparr>)))"

definition enter_chain :: "(cfg_value \<Rightarrow> string) \<Rightarrow> string \<Rightarrow> importer \<Rightarrow> stepped" where
  "enter_chain rp c st =
     (if im_chain st = Some c then doneS st
      else then_step (flush rp st) (\<lambda>st1.
           doneS (write_line [''chain'', c, ''{''] ((close_if (im_chain st1 \<noteq> None) st1)\<lparr>im_chain := Some c\<rparr>))))"

definition take_policy :: "string \<Rightarrow> importer \<Rightarrow> importer" where
  "take_policy c st =
     (case dict_get (im_policies st) c of
        None \<Rightarrow> st
      | Some p \<Rightarrow> (write_line [''policy'', p, '';''] st)\<lparr>im_policies := dict_del c (im_policies st)\<rparr>)"

definition start_irule :: irule where
  "start_irule = merge_module MATCH_DEFS [] new_irule"

definition read_rule :: "string \<Rightarrow> importer \<Rightarrow> stepped" where
  "read_rule rest st =
     (case import_tokens (im_lineno st) start_irule (tokenize rest) of
        (res, ws) \<Rightarrow>
          (let st1 = st\<lparr>im_warnings := im_warnings st @ ws\<rparr>
           in case res of
                Inl e \<Rightarrow> (st1, Some e)
              | Inr r \<Rightarrow> (st1\<lparr>im_rules := im_rules st1 @ [r]\<rparr>, None)))"

definition handle_rule :: "(cfg_value \<Rightarrow> string) \<Rightarrow> string \<Rightarrow> string \<Rightarrow> importer \<Rightarrow> stepped" where
  "handle_rule rp c rest st = then_step (enter_chain rp c st) (\<lambda>st1. read_rule rest (take_policy c st1))"

definition need_table :: "importer \<Rightarrow> importer \<Rightarrow> stepped" where
  "need_table st st1 = (if im_table st = None then (st, Some (parse_died (im_lineno st))) else (st1, None))"

definition handle_commit :: "(cfg_value \<Rightarrow> string) \<Rightarrow> importer \<Rightarrow> stepped" where
  "handle_commit rp st =
     then_step (flush rp st) (\<lambda>st1.
     doneS ((close_if (im_chain st1 \<noteq> None) st1)\<lparr>im_chain := None\<rparr>))"

definition process_line :: "(cfg_value \<Rightarrow> string) \<Rightarrow> string \<Rightarrow> importer \<Rightarrow> stepped" where
  "process_line rp line st =
     (if comment_line line
      then doneS (case save_header line of None \<Rightarrow> st | Some d \<Rightarrow> st\<lparr>im_next_domain := d\<rparr>)
      else case table_line line of
        Some t \<Rightarrow> handle_table rp t st
      | None \<Rightarrow>
     (case chain_line line of
        Some c \<Rightarrow> need_table st (write_line [''chain '' @ c @ '';''] st)
      | None \<Rightarrow>
     (case policy_of_line line of
        Some (c, p) \<Rightarrow> need_table st (st\<lparr>im_policies := dict_set c p (im_policies st)\<rparr>)
      | None \<Rightarrow>
     (case rule_line line of
        Some (c, rest) \<Rightarrow> handle_rule rp c rest st
      | None \<Rightarrow>
          if starts_with ''COMMIT'' line then handle_commit rp st
          else doneS (st\<lparr>im_warnings := im_warnings st @
            [import_warning (''line '' @ string_of_nat (im_lineno st) @ '' was not understood, ignoring it'')]\<rparr>)))))"

section \<open>The run\<close>

definition strip_eol :: "string \<Rightarrow> string" where
  "strip_eol s = rev (dropWhile (\<lambda>c. c = CHR 0x0D \<or> c = NL) (rev s))"

fun process_lines :: "(cfg_value \<Rightarrow> string) \<Rightarrow> string list \<Rightarrow> importer \<Rightarrow> stepped" where
  "process_lines rp [] st = doneS st"
| "process_lines rp (l # ls) st =
     then_step (process_line rp (strip_eol l) (st\<lparr>im_lineno := Suc (im_lineno st)\<rparr>)) (process_lines rp ls)"

definition import_banner :: string where
  "import_banner = ''# ferm rules generated by import-ferm'' @ [NL] @ ''# http://ferm.foo-projects.org/'' @ [NL]"

definition finish_import :: "(cfg_value \<Rightarrow> string) \<Rightarrow> importer \<Rightarrow> stepped" where
  "finish_import rp st =
     (let st1 = flush_left_policies st
      in then_step (if im_domain st1 \<noteq> None then flush_domain rp st1 else doneS st1) (\<lambda>st2.
         if im_indent st2 = 0 then doneS st2 else (st2, Some (internal_error ''unbalanced indentation''))))"

definition import_run :: "(cfg_value \<Rightarrow> string) \<Rightarrow> string list \<Rightarrow> importer \<Rightarrow> stepped" where
  "import_run rp ls st =
     then_step (process_lines rp ls (st\<lparr>im_out := im_out st @ import_banner\<rparr>)) (finish_import rp)"

section \<open>The command\<close>

datatype import_source = FromSave | ShowUsage | FromFiles

definition optionish :: "string \<Rightarrow> bool" where
  "optionish s \<longleftrightarrow> (case s of d # c # _ \<Rightarrow> d = CHR ''-'' \<and> c \<noteq> NL | _ \<Rightarrow> False)"

definition choose_input_source :: "string list \<Rightarrow> bool \<Rightarrow> import_source" where
  "choose_input_source args tty =
     (if args = [] \<and> tty then FromSave else if list_ex optionish args then ShowUsage else FromFiles)"

text \<open>
  A file that cannot be read gives the text of the system's error; the standard input is read once,
  a second \<^verbatim>\<open>-\<close> finds it empty.
\<close>

fun gather_files ::
  "(string \<Rightarrow> string + string) \<Rightarrow> string list \<Rightarrow> string list \<Rightarrow> string list \<times> string list" where
  "gather_files files stdin [] = ([], [])"
| "gather_files files stdin (a # args) =
     (if a = ''-'' then (case gather_files files [] args of (ls, errs) \<Rightarrow> (stdin @ ls, errs))
      else case gather_files files stdin args of
             (ls, errs) \<Rightarrow>
               (case files a of
                  Inl e \<Rightarrow> (ls, (''Can'' @ [SQUOTE] @ ''t open '' @ a @ '': '' @ e @ [NL]) # errs)
                | Inr text \<Rightarrow> (py_splitlines text @ ls, errs)))"

definition gather_input ::
  "(string \<Rightarrow> string + string) \<Rightarrow> string list \<Rightarrow> string list \<Rightarrow> string list \<times> string list" where
  "gather_input files stdin args = (if args = [] then (stdin, []) else gather_files files stdin args)"

text \<open>What \<^verbatim>\<open>main\<close> leaves: the standard output, the standard error, the status.\<close>

definition import_main ::
  "(cfg_value \<Rightarrow> string) \<Rightarrow> string \<Rightarrow> string option \<Rightarrow> bool \<Rightarrow> string + string \<Rightarrow>
     (string \<Rightarrow> string + string) \<Rightarrow> string list \<Rightarrow> string list \<Rightarrow> (string \<times> string \<times> nat) res" where
  "import_main rp usage env tty save files stdin args =
     (if ''-h'' \<in> set args \<or> ''--help'' \<in> set args then Inr (usage, [], 0)
      else
        let dmn = (case env of None \<Rightarrow> ''ip'' | Some d \<Rightarrow> if d = [] then ''ip'' else d);
            go = (\<lambda>ls errs.
              case import_run rp ls (new_importer dmn) of
                (st, None) \<Rightarrow> Inr (im_out st, concat (errs @ im_warnings st), 0)
              | (st, Some e) \<Rightarrow>
                  if is_ferm_error e
                  then Inr (im_out st, concat (errs @ im_warnings st) @ failure_text e @ [NL], 1)
                  else Inl e)
        in case choose_input_source args tty of
             ShowUsage \<Rightarrow> Inr ([], usage, 1)
           | FromSave \<Rightarrow>
               (case save of
                  Inl e \<Rightarrow> Inr ([], ''Failed to run iptables-save: '' @ e @ [NL], 1)
                | Inr text \<Rightarrow> go (py_splitlines text) [])
           | FromFiles \<Rightarrow> (case gather_input files stdin args of (ls, errs) \<Rightarrow> go ls errs))"

end
