(* ===== verification/Ferm_Import_Words.thy ===== *)
theory Ferm_Import_Words
  imports Ferm_Import_Run
begin

text \<open>
  The importer reads back what the save renderer writes: the tokenizer as a reader of the words of
  a rule, and the line of a rule as the handler gets it.
\<close>

section \<open>The tokenizer as a reader of words\<close>

definition eol_char :: "char \<Rightarrow> bool" where
  "eol_char c \<longleftrightarrow> c = CHR 0x0D \<or> c = NL"

definition ends_here :: "string \<Rightarrow> bool" where
  "ends_here s \<longleftrightarrow> s = [] \<or> is_space (hd s)"

definition tok_reads :: "string \<Rightarrow> string list \<Rightarrow> bool" where
  "tok_reads t ms \<longleftrightarrow>
     (t = [] \<or> (hd t = CHR '' '' \<and> \<not> eol_char (last t))) \<and>
     (\<forall>rest. ends_here rest \<longrightarrow> tokenize (t @ rest) = ms @ tokenize rest)"

definition plain_key :: "string \<Rightarrow> bool" where
  "plain_key kw \<longleftrightarrow> list_all (\<lambda>c. \<not> is_space c) kw"

text \<open>
  The values a save file carries: no quote, which would be escaped, and no end of line; an
  exclamation mark may begin a value only when the value is quoted.
\<close>

definition save_word :: "string \<Rightarrow> bool" where
  "save_word s \<longleftrightarrow>
     DQUOTE \<notin> set s \<and> NL \<notin> set s \<and> (starts_with ''!'' s \<longrightarrow> list_ex fast_special s)"

lemma space_blank [simp]: "is_space (CHR '' '')"
  by simp

lemma takeWhile_ends:
  "list_all (\<lambda>c. \<not> is_space c) w \<Longrightarrow> ends_here rest \<Longrightarrow>
     takeWhile (\<lambda>c. \<not> is_space c) (w @ rest) = w \<and> dropWhile (\<lambda>c. \<not> is_space c) (w @ rest) = rest"
  by (cases rest) (simp_all add: list_all_iff ends_here_def takeWhile_append2 dropWhile_append2)

lemma takeWhile_quoted:
  "DQUOTE \<notin> set b \<Longrightarrow> takeWhile (\<lambda>d. d \<noteq> DQUOTE) (b @ DQUOTE # r) = b"
  "DQUOTE \<notin> set b \<Longrightarrow> dropWhile (\<lambda>d. d \<noteq> DQUOTE) (b @ DQUOTE # r) = DQUOTE # r"
  by (induction b) auto

lemma tokenize_word:
  assumes "w \<noteq> []" and "list_all (\<lambda>c. \<not> is_space c) w" and "hd w \<noteq> DQUOTE" and "hd w \<noteq> CHR ''!''"
    and "ends_here rest"
  shows "tokenize (CHR '' '' # w @ rest) = w # tokenize rest"
proof -
  obtain c w' where w: "w = c # w'" using assms(1) by (cases w) auto
  have "lex_token (CHR '' '' # w @ rest) = Some (w, rest)"
    using assms(2-4) takeWhile_ends [OF assms(2,5)] unfolding w
    by (simp add: lex_token_def del: is_space_bits)
  then show ?thesis by (simp add: tokenize.simps [of "CHR '' '' # w @ rest"])
qed

lemma tokenize_quoted:
  assumes "DQUOTE \<notin> set b"
  shows "tokenize (CHR '' '' # DQUOTE # b @ DQUOTE # rest) = b # tokenize rest"
proof -
  have "lex_token (CHR '' '' # DQUOTE # b @ DQUOTE # rest) = Some (b, rest)"
    using takeWhile_quoted [OF assms] by (simp add: lex_token_def)
  then show ?thesis by (simp add: tokenize.simps [of "CHR '' '' # DQUOTE # b @ DQUOTE # rest"])
qed

lemma tokenize_bang: "tokenize ('' !'' @ rest) = ''!'' # tokenize rest"
proof -
  have "lex_token ('' !'' @ rest) = Some (''!'', rest)" by (simp add: lex_token_def)
  then show ?thesis by (simp add: tokenize.simps [of "CHR '' '' # CHR ''!'' # rest"])
qed

lemma plain_char_tokens: "plain_token_char c \<Longrightarrow> \<not> is_space c \<and> c \<noteq> DQUOTE \<and> c \<noteq> CHR ''!'' \<and> \<not> eol_char c"
  by (auto simp: plain_token_char_def eol_char_def char_class_defs)

lemma tok_reads_word:
  assumes "w \<noteq> []" and "list_all (\<lambda>c. \<not> is_space c) w" and "hd w \<noteq> DQUOTE" and "hd w \<noteq> CHR ''!''"
  shows "tok_reads (CHR '' '' # w) [w]"
proof -
  have "\<not> is_space (last w)" using assms(1,2) by (simp add: list_all_iff)
  then have "\<not> eol_char (last w)" by (auto simp: eol_char_def)
  then show ?thesis using assms tokenize_word [OF assms] by (simp add: tok_reads_def)
qed

lemma tok_reads_escaped:
  assumes "save_word s"
  shows "tok_reads (CHR '' '' # shell_escape True s) [s]"
proof (cases "plain_shell_token s")
  case True
  have "chomp s = s" using assms by (cases s rule: rev_cases) (auto simp: chomp_def save_word_def)
  then have s: "s \<noteq> []" "list_all plain_token_char s" using True by (simp_all add: plain_shell_token_def)
  have "list_all (\<lambda>c. \<not> is_space c) s"
    using s(2) by (rule list.pred_mono_strong) (simp add: plain_char_tokens del: is_space_bits)
  moreover have "plain_token_char (hd s)" using s by (cases s) simp_all
  ultimately have "tok_reads (CHR '' '' # s) [s]"
    using s(1) plain_char_tokens [of "hd s"] by (intro tok_reads_word) simp_all
  then show ?thesis using True by (simp add: shell_escape_def)
next
  case False
  have esc: "shell_escape True s = quote_if fast_special DQUOTE s"
    using False assms by (simp add: shell_escape_def save_word_def replace_char_idle)
  show ?thesis
  proof (cases "list_ex fast_special s \<or> s = []")
    case True
    then show ?thesis using assms tokenize_quoted [of s]
      by (simp add: esc quote_if_def tok_reads_def save_word_def eol_char_def)
  next
    case F: False
    have "list_all (\<lambda>c. \<not> is_space c) s"
      using F by (auto simp: list_ex_iff list_all_iff fast_special_def)
    moreover have "hd s \<noteq> DQUOTE" "hd s \<noteq> CHR ''!''"
      using F assms by (auto simp: save_word_def starts_with_def neq_Nil_conv)
    ultimately show ?thesis using F by (simp add: esc quote_if_def tok_reads_word)
  qed
qed

text \<open>The tokenizer is a reader of the words of a rule.\<close>

interpretation tok: word_reader True tok_reads plain_key save_word
proof
  fix a ms b ns
  assume ab: "tok_reads a ms" "tok_reads b ns"
  have "ends_here (b @ rest)" if "ends_here rest" for rest
    using ab(2) that by (cases b) (auto simp: tok_reads_def ends_here_def)
  then show "tok_reads (a @ b) (ms @ ns)" using ab by (cases a; cases b) (auto simp: tok_reads_def)
next
  fix kw assume "plain_key kw"
  then have "tok_reads (CHR '' '' # (''--'' @ kw)) [''--'' @ kw]"
    by (intro tok_reads_word) (simp_all add: plain_key_def)
  then show "tok_reads ('' --'' @ kw) [''--'' @ kw]" by simp
next
  show "tok_reads '' !'' [''!'']" using tokenize_bang by (simp add: tok_reads_def eol_char_def)
qed (simp_all add: tok_reads_escaped, simp add: tok_reads_def)

section \<open>The line of a rule\<close>

lemma strip_eol_snoc: "\<not> eol_char (last s) \<Longrightarrow> s \<noteq> [] \<Longrightarrow> strip_eol (s @ [NL]) = s"
proof -
  assume "\<not> eol_char (last s)" "s \<noteq> []"
  then have "dropWhile (\<lambda>c. c = CHR 0x0D \<or> c = NL) (rev s) = rev s"
    by (cases "rev s") (auto simp: eol_char_def)
  then show ?thesis by (simp add: strip_eol_def)
qed

lemma rule_line_process:
  "starts_with ''-A '' line \<Longrightarrow> rule_line line = Some (c, rest) \<Longrightarrow>
     process_line rp line st = handle_rule rp c rest st"
  by (auto simp: process_line_def comment_line_def table_line_def chain_line_def policy_of_line_def
      starts_with_def split: list.splits)

lemma tokenize_strip: "tokenize (dropWhile is_space s) = tokenize s"
proof -
  have "lex_token (dropWhile is_space s) = lex_token s" by (simp add: lex_token_def)
  then show ?thesis by (simp add: tokenize.simps [of "dropWhile is_space s"] tokenize.simps [of s])
qed

lemma name_char_solid: "name_char c \<Longrightarrow> \<not> is_space c"
  by (auto simp: name_char_def char_class_defs)

text \<open>
  C31: A rule that the save renderer writes is read back by the importer if it has at least one option, no
  keyword has a blank, and no value has a quote, an end of line or an unquoted exclamation mark at its
  start: the line goes to the handler of rules with the chain of the rule, and the tokens the handler works
  on are the words the rule stands for, with the quotes undone. The rules left out are not read back: a
  rule without options is refused as not understood, and an escaped quote splits the value
  (\<open>import_gaps\<close>).
\<close>

theorem import_reads_saved_rule:
  assumes "save_rule fam chain rr = Inr line" and "line \<noteq> ''-A '' @ chain @ [NL]"
    and "validate_ipt_name chain ''chain'' = Inr chain" and "rule_clean plain_key save_word fam rr"
  shows "\<exists>rest. process_line rp (strip_eol line) st = handle_rule rp chain rest st \<and>
    tokenize rest = rule_argv fam rr"
proof -
  obtain body where body: "format_rule fam True rr = Inr body" "line = ''-A '' @ chain @ body @ [NL]"
    using assms(1) by (auto simp: save_rule_def bindR_Inr_iff)
  have chain: "chain \<noteq> []" "list_all (\<lambda>c. \<not> is_space c) chain"
    using assms(3) name_char_solid
    by (auto simp: validate_ipt_name_def list_all_iff simp del: is_space_bits split: if_splits)
  have reads: "tok_reads body (rule_argv fam rr)" using tok.reads_rule [OF assms(4) body(1)] .
  have "body \<noteq> []" using assms(2) body(2) by auto
  with reads obtain t where t: "body = CHR '' '' # t" "\<not> eol_char (last body)"
    by (cases body) (auto simp: tok_reads_def)
  have "strip_eol line = ''-A '' @ chain @ body"
    using strip_eol_snoc [of "''-A '' @ chain @ body"] t by (simp add: body(2))
  moreover have "word_spaces (chain @ body) = Some (chain, dropWhile is_space body)"
    using takeWhile_ends [OF chain(2), of body] chain(1) t(1) by (simp add: word_spaces_def ends_here_def)
  then have "rule_line (''-A '' @ chain @ body) = Some (chain, dropWhile is_space body)"
    by (simp add: rule_line_def starts_with_def)
  ultimately have "process_line rp (strip_eol line) st = handle_rule rp chain (dropWhile is_space body) st"
    by (simp add: rule_line_process starts_with_def)
  moreover have "tokenize (dropWhile is_space body) = rule_argv fam rr"
    using reads tokenize_strip [of body] by (auto simp: tok_reads_def ends_here_def tokenize.simps [of "[]"] lex_token_def)
  ultimately show ?thesis by blast
qed

definition sample_saved_rule :: rendered_rule where
  "sample_saved_rule =
     \<lparr>rr_options =
        [\<lparr>ro_name = ''protocol'', ro_value = VNegated (VStr ''tcp''), ro_kind = KOption, ro_module = None\<rparr>,
         \<lparr>ro_name = ''comment'', ro_value = VStr ''! not this; one'', ro_kind = KOption, ro_module = None\<rparr>,
         \<lparr>ro_name = ''jump'', ro_value = VStr ''ACCEPT'', ro_kind = KOption, ro_module = None\<rparr>],
      rr_script = None\<rparr>"

lemma import_reads_saved_rule_witness:
  "\<exists>rest. process_line (\<lambda>v. []) (strip_eol (case save_rule IP ''INPUT'' sample_saved_rule of Inl e \<Rightarrow> [] | Inr l \<Rightarrow> l))
       (new_importer ''ip'') =
     handle_rule (\<lambda>v. []) ''INPUT'' rest (new_importer ''ip'') \<and>
     tokenize rest = [''!'', ''--protocol'', ''tcp'', ''--comment'', ''! not this; one'', ''--jump'', ''ACCEPT'']"
proof -
  let ?line = "''-A INPUT ! --protocol tcp --comment '' @ [DQUOTE] @ ''! not this; one'' @ [DQUOTE] @ '' --jump ACCEPT'' @ [NL]"
  have line: "save_rule IP ''INPUT'' sample_saved_rule = Inr ?line" by code_simp
  have argv: "rule_argv IP sample_saved_rule =
      [''!'', ''--protocol'', ''tcp'', ''--comment'', ''! not this; one'', ''--jump'', ''ACCEPT'']" by code_simp
  have "\<exists>rest. process_line (\<lambda>v. []) (strip_eol ?line) (new_importer ''ip'') =
      handle_rule (\<lambda>v. []) ''INPUT'' rest (new_importer ''ip'') \<and> tokenize rest = rule_argv IP sample_saved_rule"
    by (rule import_reads_saved_rule [OF line]) (simp, code_simp+)
  then show ?thesis unfolding line argv by simp
qed

text \<open>
  Two texts a dump may hold are lost on the way: the line of a rule without options has nothing
  after the chain once its end is stripped, so it is reported and ignored, and a quote inside a
  value, which a dump escapes, ends the token.
\<close>

theorem import_gaps:
  "process_line rp (strip_eol (''-A INPUT'' @ [NL])) st =
     (st\<lparr>im_warnings := im_warnings st @
        [import_warning (''line '' @ string_of_nat (im_lineno st) @ '' was not understood, ignoring it'')]\<rparr>, None) \<and>
   tokenize (CHR '' '' # shell_escape True (''a '' @ [DQUOTE] @ ''b'' @ [DQUOTE] @ '' c'')) =
     [''a '' @ [BACKSLASH], ''b'' @ [BACKSLASH, DQUOTE], ''c'' @ [DQUOTE]]"
proof
  have "strip_eol (''-A INPUT'' @ [NL]) = ''-A INPUT''" by code_simp
  moreover have "comment_line ''-A INPUT'' = False" "table_line ''-A INPUT'' = None" "chain_line ''-A INPUT'' = None"
    "policy_of_line ''-A INPUT'' = None" "rule_line ''-A INPUT'' = None" "starts_with ''COMMIT'' ''-A INPUT'' = False"
    by code_simp+
  ultimately show "process_line rp (strip_eol (''-A INPUT'' @ [NL])) st =
     (st\<lparr>im_warnings := im_warnings st @
        [import_warning (''line '' @ string_of_nat (im_lineno st) @ '' was not understood, ignoring it'')]\<rparr>, None)"
    by (simp add: process_line_def doneS_def)
qed code_simp

end
