(* ===== verification/Ferm_Import_Safe.thy ===== *)
theory Ferm_Import_Safe
  imports Ferm_Import_Words
begin

text \<open>
  The braces of what the importer writes: the indentation is four columns for each open block, after
  every line, whatever the dump holds, because no token but its own opens or closes a block.
\<close>

section \<open>Names without braces\<close>

definition brace_free :: "string \<Rightarrow> bool" where
  "brace_free s \<longleftrightarrow> CHR ''{'' \<notin> set s \<and> CHR ''}'' \<notin> set s"

definition kw_clean :: "keyword \<Rightarrow> bool" where
  "kw_clean k \<longleftrightarrow> brace_free (kw_name k) \<and> (case kw_ferm_name k of None \<Rightarrow> True | Some f \<Rightarrow> brace_free f)"

definition mod_clean :: "moddef \<Rightarrow> bool" where
  "mod_clean m \<longleftrightarrow>
     list_all kw_clean (md_cells m) \<and> list_all (\<lambda>(n, i). i < length (md_cells m)) (md_names m)"

lemma brace_free_part: "brace_free s \<Longrightarrow> set t \<subseteq> set s \<Longrightarrow> brace_free t"
  by (auto simp: brace_free_def)

lemma search_tail_parts: "search_tail m ok s = Some (a, b) \<Longrightarrow> set a \<subseteq> set s \<and> set b \<subseteq> set s"
  using search_tail_Some [of m ok s a b] by auto

lemma decode_params_name: "decode_params dflt s = (p, n) \<Longrightarrow> set n \<subseteq> set s"
  unfolding decode_params_def star_match_def eq_match_def amp_match_def
  by (auto split: option.splits prod.splits dest!: search_tail_parts)

lemma decode_spec_clean: "brace_free s \<Longrightarrow> kw_clean (decode_spec dflt s)"
proof -
  assume "brace_free s"
  obtain p n where n: "decode_params dflt s = (p, n)" by fastforce
  have "brace_free n" using brace_free_part [OF \<open>brace_free s\<close> decode_params_name [OF n]] .
  moreover have "set (tl n) \<subseteq> set n" by (cases n) auto
  ultimately have "brace_free (if b then tl n else n)" "brace_free (butlast (if b then tl n else n))" for b
    by (auto intro: brace_free_part dest: in_set_butlastD)
  then show ?thesis by (simp add: kw_clean_def decode_spec_def n Let_def)
qed

lemma names_wider: "list_all (\<lambda>(n, i). i < (l :: nat)) d \<Longrightarrow> l \<le> l' \<Longrightarrow> list_all (\<lambda>(n, i). i < l') d"
  by (induction d) auto

lemma names_below:
  "list_all (\<lambda>(n, i). i < (l :: nat)) d \<Longrightarrow> i < l' \<Longrightarrow> l \<le> l' \<Longrightarrow> list_all (\<lambda>(n, i). i < l') (dict_set n i d)"
proof (induction d)
  case (Cons e d)
  then have "list_all (\<lambda>(n, i). i < l') d" using names_wider [of l d l'] by simp
  with Cons show ?case by (cases e) (auto simp: dict_set_def)
qed (simp add: dict_set_def)

lemma list_all_update: "list_all P xs \<Longrightarrow> P x \<Longrightarrow> list_all P (xs[i := x])"
  by (auto simp: list_all_iff dest!: set_update_subset_insert [THEN subsetD])

lemma kw_clean_alias: "kw_clean k \<Longrightarrow> brace_free n \<Longrightarrow> kw_clean (k\<lparr>kw_ferm_name := Some n\<rparr>)"
  by (simp add: kw_clean_def split: option.splits)

lemma add_spec_clean:
  assumes "mod_clean m" and "brace_free s" and "add_spec dflt s m = Inr m'"
  shows "mod_clean m'"
proof (cases "alias_match s")
  case None
  then show ?thesis
    using assms decode_spec_clean [OF assms(2)]
      names_below [of "length (md_cells m)" "md_names m" "length (md_cells m)" "Suc (length (md_cells m))"]
    by (auto simp: add_spec_def mod_clean_def Let_def)
next
  case (Some nt)
  obtain n t where nt: "nt = (n, t)" by (cases nt)
  have n: "brace_free n"
    using Some nt assms(2) search_tail_parts brace_free_part by (metis alias_match_def)
  obtain i where i: "dict_get (md_names m) t = Some i"
    using assms(3) Some nt by (auto simp: add_spec_def split: option.splits)
  have "i < length (md_cells m)"
    using assms(1) i by (auto simp: mod_clean_def list_all_iff dict_get_def dest!: map_of_SomeD)
  moreover from this have "kw_clean (md_cells m ! i)"
    using assms(1) by (simp add: mod_clean_def list_all_length)
  ultimately show ?thesis
    using assms(1,3) Some nt i n kw_clean_alias [of "md_cells m ! i" n] names_below [of "length (md_cells m)" "md_names m" i "length (md_cells m)" n]
    by (auto simp: add_spec_def mod_clean_def Let_def intro!: list_all_update split: option.splits if_splits)
qed

lemma add_specs_clean:
  "mod_clean m \<Longrightarrow> list_all brace_free ss \<Longrightarrow> add_specs dflt ss m = Inr m' \<Longrightarrow> mod_clean m'"
  by (induction ss arbitrary: m) (auto simp: bindR_Inr_iff intro: add_spec_clean)

lemma module_of_clean: "list_all brace_free ss \<Longrightarrow> mod_clean (module_of dflt ss)"
  using add_specs_clean [of empty_moddef ss dflt]
  by (auto simp: module_of_def mod_clean_def empty_moddef_def split: sum.split)

lemma tables_brace_free:
  "list_all (\<lambda>(n, ss). list_all brace_free ss) proto_specs_ip"
  "list_all (\<lambda>(n, ss). list_all brace_free ss) (match_specs_ip_1 @ match_specs_ip_2)"
  "list_all (\<lambda>(n, ss). list_all brace_free ss) target_specs_ip"
  "list_all (\<lambda>(n, ss). brace_free n) target_specs_ip"
  "list_all brace_free CORE_TARGETS"
  by code_simp+

lemma map_of_module_clean:
  "list_all (\<lambda>(n, ss). list_all brace_free ss) specs \<Longrightarrow>
     map_option (module_of dflt) (map_of specs n) = Some d \<Longrightarrow> mod_clean d"
  by (auto simp: list_all_iff intro!: module_of_clean dest!: map_of_SomeD)

lemma registries_clean:
  "registry_get PROTO_DEFS ''ip'' n = Some d \<Longrightarrow> mod_clean d"
  "registry_get MATCH_DEFS ''ip'' n = Some d \<Longrightarrow> mod_clean d"
  "registry_get TARGET_DEFS ''ip'' n = Some d \<Longrightarrow> mod_clean d"
  using map_of_module_clean [OF tables_brace_free(1), of "PInt 1" n d]
    map_of_module_clean [OF tables_brace_free(2), of "PInt 1" n d]
    map_of_module_clean [OF tables_brace_free(3), of "PCodes ''s''" n d]
  by (simp_all add: proto_defs_get match_defs_get target_defs_get del: map_of_append)

definition entry_clean :: "string \<times> keyword \<Rightarrow> bool" where
  "entry_clean e = brace_free (keyword_entry (snd e))"

lemma keyword_entry_clean: "kw_clean k \<Longrightarrow> brace_free (keyword_entry k)"
  by (auto simp: kw_clean_def keyword_entry_def split: option.splits)

lemma md_keywords_clean: "mod_clean m \<Longrightarrow> list_all entry_clean (md_keywords m)"
  by (auto simp: mod_clean_def md_keywords_def list_all_iff entry_clean_def intro!: keyword_entry_clean)


section \<open>Rules whose options have clean names\<close>

definition entries_clean :: "mentry list \<Rightarrow> bool" where
  "entries_clean es = list_all (\<lambda>e. brace_free (fst e)) es"

fun rule_named :: "irule \<Rightarrow> bool" where
  "rule_named (IRule k m mods p j g t mk b) \<longleftrightarrow>
     entries_clean m \<and> (case t of None \<Rightarrow> True | Some es \<Rightarrow> entries_clean es) \<and>
     (case b of None \<Rightarrow> True | Some rs \<Rightarrow> list_all rule_named rs)"

lemma entries_clean_simps [simp]:
  "entries_clean []" "entries_clean (e # es) \<longleftrightarrow> brace_free (fst e) \<and> entries_clean es"
  "entries_clean (es @ fs) \<longleftrightarrow> entries_clean es \<and> entries_clean fs"
  by (simp_all add: entries_clean_def)

lemma rule_named_parts:
  "rule_named r \<longleftrightarrow>
     entries_clean (ir_match r) \<and> (case ir_target r of None \<Rightarrow> True | Some es \<Rightarrow> entries_clean es) \<and>
     (case ir_block r of None \<Rightarrow> True | Some rs \<Rightarrow> list_all rule_named rs)"
  by (cases r) simp

lemma target_with_match [simp]: "ir_target (with_match m r) = ir_target r"
  by (cases r) simp

lemma named_with_match: "rule_named r \<Longrightarrow> entries_clean m \<Longrightarrow> rule_named (with_match m r)"
  by (simp add: rule_named_parts)

lemma named_tail: "rule_named r \<Longrightarrow> entries_clean (tl (ir_match r))"
  by (cases "ir_match r") (simp_all add: rule_named_parts)

lemma named_head: "rule_named r \<Longrightarrow> ir_match r \<noteq> [] \<Longrightarrow> brace_free (fst (hd (ir_match r)))"
  by (cases "ir_match r") (simp_all add: rule_named_parts)

lemma merge_arrays_named: "list_all rule_named rs \<Longrightarrow> list_all rule_named (merge_arrays rs)"
proof (induction rs rule: merge_arrays.induct)
  case (2 r rs)
  let ?n = "array_match_count r rs"
  have rest: "list_all rule_named (drop ?n rs)" using 2(2) by (auto simp: list_all_iff dest: in_set_dropD)
  have "rule_named (with_array vs r)" if "?n > 0" for vs
    using that 2(2) named_tail [of r] named_head [of r]
    by (auto simp: with_array_def array_match_count_def intro!: named_with_match split: if_splits)
  then show ?case using 2(1) [OF refl rest] 2(2) by (simp add: merge_arrays.simps(2) [of r rs] Let_def)
qed simp

lemma block_of_named: "brace_free (fst m) \<Longrightarrow> list_all rule_named b \<Longrightarrow> rule_named (block_of m b)"
  by (auto simp: block_of_def push_match_def block_rule_def rule_named_parts split: list.splits)

lemma factor_prefixes_named: "list_all rule_named rs \<Longrightarrow> list_all rule_named (factor_prefixes rs)"
proof (induction rs rule: factor_prefixes.induct)
  case (2 r rs)
  let ?n = "prefix_match_count r rs"
  let ?group = "r # take ?n rs"
  show ?case
  proof (cases "ir_match r = [] \<or> ?n = 0")
    case True
    then have "factor_prefixes (r # rs) = r # factor_prefixes rs"
      by (auto simp: factor_prefixes.simps(2) [of r rs] Let_def)
    moreover have "list_all rule_named (factor_prefixes rs)"
      using True 2(1) 2(2) [OF _ refl] 2(5) by (cases "ir_match r = []") simp_all
    ultimately show ?thesis using 2(5) by simp
  next
    case False
    let ?b = "merge_arrays (factor_prefixes (map pop_match ?group))"
    have "list_all rule_named ?group" "list_all rule_named (drop ?n rs)"
      using 2(5) by (auto simp: list_all_iff dest: in_set_takeD in_set_dropD)
    moreover from this have "list_all rule_named (map pop_match ?group)"
      using named_tail by (auto simp: list_all_iff pop_match_def intro!: named_with_match)
    ultimately have "list_all rule_named ?b" "list_all rule_named (factor_prefixes (drop ?n rs))"
      using 2(3) [OF _ refl] 2(4) [OF _ refl] False by (simp_all add: merge_arrays_named)
    moreover have "factor_prefixes (r # rs) = block_of (hd (ir_match r)) ?b # factor_prefixes (drop ?n rs)"
      using False by (simp only: factor_prefixes.simps(2) [of r rs] Let_def if_False de_Morgan_disj)
    moreover have "brace_free (fst (hd (ir_match r)))" using False 2(5) named_head by simp
    ultimately show ?thesis by (simp add: block_of_named)
  qed
qed simp

lemma optimize_named: "list_all rule_named rs \<Longrightarrow> list_all rule_named (optimize rs)"
  by (simp add: optimize_def merge_arrays_named factor_prefixes_named)

section \<open>The tokens of a line open and close no block\<close>

definition token_ok :: "string \<Rightarrow> bool" where
  "token_ok t \<longleftrightarrow> t = [] \<or> (hd t \<noteq> CHR ''}'' \<and> last t \<noteq> CHR ''{'')"

lemma one_mark:
  "starts_with [c] t \<longleftrightarrow> t \<noteq> [] \<and> hd t = c"
  "ends_with [c] t \<longleftrightarrow> t \<noteq> [] \<and> last t = c"
  by (cases t, simp_all add: starts_with_def, cases t rule: rev_cases, simp_all add: ends_with_def)

lemma brace_free_token: "brace_free t \<Longrightarrow> token_ok t"
  by (cases "t = []") (auto simp: brace_free_def token_ok_def dest: hd_in_set last_in_set)

lemma bare_brace_free: "list_all bare_char t \<Longrightarrow> brace_free t"
  by (auto simp: brace_free_def list_all_iff bare_char_def char_class_defs char_code_def)

lemma escape_token: "token_ok (ferm_escape rp v)"
proof (cases "stringify rp v = [] \<or> \<not> list_all bare_char (stringify rp v)")
  case True
  then show ?thesis by (simp add: ferm_escape_def Let_def token_ok_def)
next
  case False
  then show ?thesis using brace_free_token [OF bare_brace_free] by (simp add: ferm_escape_def Let_def)
qed

lemma array_token: "token_ok (format_array rp v)"
proof -
  have "token_ok (format_items rp vs)" for vs
    by (auto simp: format_items_def escape_token token_ok_def [of "_ # _"] split: list.splits)
  then show ?thesis by (cases v) (simp_all add: escape_token)
qed

lemma payload_ok: "list_all token_ok (payload_tokens rp v)"
  by (cases v) (simp_all add: list_all_iff array_token del: format_array.simps)

lemma bang_ok: "token_ok ''!''"
  by (simp add: token_ok_def)

lemma flush_option_ok: "brace_free n \<Longrightarrow> list_all token_ok (flush_option rp n v)"
  by (auto simp: flush_option_def bang_ok payload_ok brace_free_token simp del: payload_tokens.simps split: val_splits prod.splits)

lemma flush_entries_ok: "entries_clean es \<Longrightarrow> list_all token_ok (flush_entries rp es)"
  by (induction es) (auto simp: flush_entries_def flush_option_ok split: prod.split)

lemma action_ok: "action_tokens rp r = Inr line \<Longrightarrow> list_all token_ok line"
proof -
  assume act: "action_tokens rp r = Inr line"
  have target: "token_ok t" if "registry_get TARGET_DEFS ''ip'' t = Some d" for t d
    using that tables_brace_free(4)
    by (auto simp: target_defs_get list_all_iff intro!: brace_free_token dest!: map_of_SomeD)
  have core: "token_ok t" if "t \<in> set CORE_TARGETS" for t
    using that tables_brace_free(5) by (auto simp: list_all_iff intro!: brace_free_token)
  have word: "list_all token_ok (flush_option rp ''jump'' v)" "list_all token_ok (flush_option rp ''goto'' v)" for v
    by (simp_all add: flush_option_ok brace_free_def)
  have nop: "token_ok ''NOP''" by (simp add: token_ok_def)
  show ?thesis
    using act by (auto simp: action_tokens_def bindR_Inr_iff is_netfilter_core_target_def
        is_netfilter_module_target_def require_target_def word nop split: option.splits if_splits intro: core target)
qed

lemma rule_tokens_ok: "rule_named r \<Longrightarrow> rule_tokens rp r = Inr line \<Longrightarrow> list_all token_ok line"
  by (auto simp: rule_tokens_def bindR_Inr_iff rule_named_parts flush_entries_ok dest: action_ok split: option.splits)

end
