(* ===== verification/Ferm_Import_Braces.thy ===== *)
theory Ferm_Import_Braces
  imports Ferm_Import_Safe
begin

text \<open>
  The invariant of the importer's state: the indentation counts the open blocks, the rules it holds
  have clean option names, the recorded policies are words. Every handler keeps it.
\<close>

section \<open>Writing one line\<close>

lemma write_line_frame [simp]:
  "im_table (write_line t st) = im_table st" "im_chain (write_line t st) = im_chain st"
  "im_domain (write_line t st) = im_domain st" "im_rules (write_line t st) = im_rules st"
  "im_policies (write_line t st) = im_policies st" "im_next_domain (write_line t st) = im_next_domain st"
  "im_lineno (write_line t st) = im_lineno st"
  by (simp_all add: write_line_def Let_def)

definition ends_ok :: "string list \<Rightarrow> bool" where
  "ends_ok line \<longleftrightarrow> line = [] \<or> (\<not> starts_with ''}'' (hd line) \<and> \<not> ends_with ''{'' (last line))"

lemma write_statement: "ends_ok line \<Longrightarrow> im_indent (write_line (line @ ['';'']) st) = im_indent st"
  by (auto simp: write_line_def ends_ok_def Let_def)

lemma write_open:
  "line = [] \<or> \<not> starts_with ''}'' (hd line) \<Longrightarrow> im_indent (write_line (line @ [''{'']) st) = im_indent st + 4"
  by (cases line) (auto simp: write_line_def one_mark Let_def)

lemma write_open_block [simp]:
  "hd k \<noteq> CHR ''}'' \<Longrightarrow> im_indent (write_line [k, x, ''{''] st) = im_indent st + 4"
  using write_open [of "[k, x]" st] by (simp add: one_mark)

lemma write_close [simp]: "im_indent (write_line [''}''] st) = im_indent st - 4"
  by (simp add: write_line_def one_mark Let_def)

lemma tokens_ends: "list_all token_ok line \<Longrightarrow> ends_ok line"
proof (cases "line = []")
  case False
  assume "list_all token_ok line"
  then have "token_ok (hd line)" "token_ok (last line)" using False by (auto simp: list_all_iff)
  then show ?thesis by (auto simp: ends_ok_def one_mark token_ok_def)
qed (simp add: ends_ok_def)

lemma close_if_frame [simp]:
  "im_table (close_if b st) = im_table st" "im_chain (close_if b st) = im_chain st"
  "im_domain (close_if b st) = im_domain st" "im_rules (close_if b st) = im_rules st"
  "im_policies (close_if b st) = im_policies st" "im_next_domain (close_if b st) = im_next_domain st"
  "im_indent (close_if b st) = im_indent st - (if b then 4 else 0)"
  by (simp_all add: close_if_def)

section \<open>Flushing keeps the indentation\<close>

definition same_blocks :: "importer \<Rightarrow> importer \<Rightarrow> bool" where
  "same_blocks st st' \<longleftrightarrow>
     im_indent st' = im_indent st \<and> im_table st' = im_table st \<and> im_chain st' = im_chain st \<and>
     im_domain st' = im_domain st \<and> im_policies st' = im_policies st \<and>
     im_next_domain st' = im_next_domain st"

lemma same_blocks_trans: "same_blocks a b \<Longrightarrow> same_blocks b c \<Longrightarrow> same_blocks a c"
  by (simp add: same_blocks_def)

lemma then_step_ok:
  "then_step s k = (st', None) \<longleftrightarrow> (\<exists>st1. s = (st1, None) \<and> k st1 = (st', None))"
  by (cases s) (auto simp: then_step_def split: option.split)

lemma doneS_ok [simp]: "doneS st = (st', e) \<longleftrightarrow> st' = st \<and> e = None"
  by (auto simp: doneS_def)

lemma flush_rules_blocks:
  "flush_rules rp rs st = (st', None) \<Longrightarrow> list_all rule_named rs \<Longrightarrow> same_blocks st st'"
proof (induction rp rs st arbitrary: st' rule: flush_rules.induct)
  case (1 rp st)
  then show ?case by (simp add: same_blocks_def)
next
  case (2 rp r rs st)
  obtain line where line: "rule_tokens rp r = Inr line"
    using 2(4) by (auto simp: flush_rules.simps(2) split: sum.splits)
  have ok: "list_all token_ok line" using rule_tokens_ok [OF _ line] 2(5) by simp
  show ?case
  proof (cases "ir_block r")
    case None
    then have "same_blocks (write_line (line @ ['';'']) st) st'"
      using 2(1) [OF line None] 2(4,5) line by (simp add: flush_rules.simps(2))
    then show ?thesis using write_statement [OF tokens_ends [OF ok], of st] by (simp add: same_blocks_def)
  next
    case (Some b)
    obtain st1 where st1: "flush_rules rp (optimize b) (write_line (line @ [''{'']) st) = (st1, None)"
      and rest: "flush_rules rp rs (write_line [''}''] (st1\<lparr>im_rules := []\<rparr>)) = (st', None)"
      using 2(4) line Some by (auto simp: flush_rules.simps(2) then_step_ok)
    have "list_all rule_named (optimize b)"
      using 2(5) Some by (intro optimize_named) (simp add: rule_named_parts)
    then have inner: "same_blocks (write_line (line @ [''{'']) st) st1" using 2(2) [OF line Some st1] by simp
    have outer: "same_blocks (write_line [''}''] (st1\<lparr>im_rules := []\<rparr>)) st'"
      using 2(3) [OF line Some rest] 2(5) by simp
    have "im_indent (write_line (line @ [''{'']) st) = im_indent st + 4"
      using tokens_ends [OF ok] by (intro write_open) (auto simp: ends_ok_def)
    with inner outer show ?thesis by (simp add: same_blocks_def)
  qed
qed

lemma flush_rules_failure:
  "flush_rules rp rs st = (st', Some e) \<Longrightarrow> e = internal_error ''undefined or empty target''"
proof (induction rp rs st arbitrary: st' rule: flush_rules.induct)
  case (2 rp r rs st)
  show ?case
  proof (cases "rule_tokens rp r")
    case (Inl e')
    then have "e' = internal_error ''undefined or empty target''"
      by (auto simp: rule_tokens_def action_tokens_def bindR_Inl_iff is_netfilter_core_target_def
          is_netfilter_module_target_def require_target_def split: option.splits if_splits)
    then show ?thesis using 2(4) Inl by (simp add: flush_rules.simps(2))
  next
    case (Inr line)
    show ?thesis
    proof (cases "ir_block r")
      case None
      then show ?thesis using 2(1) [OF Inr None] 2(4) Inr by (simp add: flush_rules.simps(2))
    next
      case (Some b)
      obtain st1 x where inner: "flush_rules rp (optimize b) (write_line (line @ [''{'']) st) = (st1, x)" by fastforce
      show ?thesis
      proof (cases x)
        case None
        then show ?thesis using 2(3) [OF Inr Some] 2(4) Inr Some inner
          by (simp add: flush_rules.simps(2) then_step_def)
      next
        case (Some y)
        then show ?thesis using 2(2) [OF Inr \<open>ir_block r = Some b\<close>] 2(4) Inr \<open>ir_block r = Some b\<close> inner
          by (simp add: flush_rules.simps(2) then_step_def)
      qed
    qed
  qed
qed simp

section \<open>The invariant\<close>

definition open_blocks :: "importer \<Rightarrow> int" where
  "open_blocks st =
     of_bool (im_domain st \<noteq> None) + of_bool (im_table st \<noteq> None) + of_bool (im_chain st \<noteq> None)"

definition importer_ok :: "importer \<Rightarrow> bool" where
  "importer_ok st \<longleftrightarrow>
     im_indent st = 4 * open_blocks st \<and> list_all rule_named (im_rules st) \<and>
     list_all (\<lambda>(c, p). list_all is_word p) (im_policies st) \<and>
     (im_domain st = None \<longrightarrow> im_table st = None)"

lemma flush_ok:
  assumes "flush rp st = (st', None)" and "list_all rule_named (im_rules st)"
  shows "same_blocks st st' \<and> im_rules st' = []"
proof -
  obtain st1 where "flush_rules rp (optimize (im_rules st)) st = (st1, None)" "st' = st1\<lparr>im_rules := []\<rparr>"
    using assms(1) by (auto simp: flush_def then_step_ok)
  then show ?thesis
    using flush_rules_blocks [OF _ optimize_named [OF assms(2)]] by (fastforce simp: same_blocks_def)
qed

lemma word_ends_ok: "list_all is_word p \<Longrightarrow> \<not> ends_with ''{'' p"
proof -
  assume "list_all is_word p"
  then have "list_all bare_char p" by (auto simp: list_all_iff bare_char_def)
  then have "token_ok p" by (intro brace_free_token bare_brace_free)
  then show ?thesis by (auto simp: one_mark token_ok_def)
qed

lemma policy_fold:
  "list_all (\<lambda>(c, p). list_all is_word p) ps \<Longrightarrow>
     same_blocks st (fold (\<lambda>(c, p). write_line [''chain'', c, ''policy'', p, '';'']) ps st) \<and>
     im_rules (fold (\<lambda>(c, p). write_line [''chain'', c, ''policy'', p, '';'']) ps st) = im_rules st"
proof (induction ps arbitrary: st)
  case (Cons cp ps)
  obtain c p where cp: "cp = (c, p)" by (cases cp)
  have "im_indent (write_line ([''chain'', c, ''policy'', p] @ ['';'']) st) = im_indent st"
    using Cons.prems by (intro write_statement) (simp add: ends_ok_def one_mark(1) word_ends_ok cp)
  then have "same_blocks st (write_line [''chain'', c, ''policy'', p, '';''] st)" by (simp add: same_blocks_def)
  with Cons.IH [of "write_line [''chain'', c, ''policy'', p, '';''] st"] Cons.prems show ?case
    by (auto simp: cp intro: same_blocks_trans)
qed (simp add: same_blocks_def)

lemma sorted_chains_all:
  assumes "list_all (\<lambda>(c, p). Q p) ps"
  shows "list_all (\<lambda>(c, p). Q p) (sorted_chains ps)"
proof -
  have "Q (the (dict_get ps c))" if c: "c \<in> set (dict_keys ps)" for c
  proof -
    obtain p where p: "map_of ps c = Some p"
      using c by (auto simp: dict_keys_def dest: weak_map_of_SomeI)
    then have "(c, p) \<in> set ps" by (rule map_of_SomeD)
    then show ?thesis using assms p by (auto simp: list_all_iff dict_get_def)
  qed
  then show ?thesis by (auto simp: sorted_chains_def list_all_iff)
qed

lemma flush_policies_ok: "importer_ok st \<Longrightarrow> importer_ok (flush_left_policies st) \<and>
    im_domain (flush_left_policies st) = im_domain st \<and> im_table (flush_left_policies st) = im_table st \<and>
    im_chain (flush_left_policies st) = im_chain st \<and> im_next_domain (flush_left_policies st) = im_next_domain st"
proof -
  assume ok: "importer_ok st"
  then have "list_all (\<lambda>(c, p). list_all is_word p) (sorted_chains (im_policies st))"
    by (intro sorted_chains_all) (simp add: importer_ok_def)
  from policy_fold [OF this, of st] ok show ?thesis
    by (auto simp: flush_left_policies_def flush_policies_def importer_ok_def same_blocks_def open_blocks_def)
qed

lemma flush_domain_ok:
  "flush_domain rp st = (st', None) \<Longrightarrow> importer_ok st \<Longrightarrow>
     importer_ok st' \<and> im_domain st' = None \<and> im_table st' = None \<and> im_chain st' = None"
  by (auto simp: flush_domain_def then_step_ok importer_ok_def open_blocks_def same_blocks_def dest!: flush_ok)

lemma importer_ok_opened:
  assumes "importer_ok st" and "hd k \<noteq> CHR ''}''" and "im_domain st' = None \<longrightarrow> im_table st' = None"
    and "im_rules st' = im_rules st" and "im_policies st' = im_policies st"
    and "im_indent st' = im_indent st + 4 * (open_blocks st' - open_blocks st - 1)"
  shows "importer_ok (write_line [k, x, ''{''] st')"
  using assms by (simp add: importer_ok_def open_blocks_def)

lemma open_domain_ok:
  assumes "open_domain rp st = (st', None)" and "importer_ok st"
  shows "importer_ok st' \<and> im_domain st' \<noteq> None"
proof (cases "im_domain st = Some (im_next_domain st)")
  case False
  obtain st1 where st1: "flush_domain rp st = (st1, None)" and st': "st' =
      write_line [''domain'', im_next_domain st1, ''{''] (st1\<lparr>im_domain := Some (im_next_domain st1)\<rparr>)"
    using assms(1) False by (auto simp: open_domain_def then_step_ok)
  from flush_domain_ok [OF st1 assms(2)] have "importer_ok st'"
    unfolding st' by (intro importer_ok_opened [of st1]) (auto simp: open_blocks_def)
  then show ?thesis by (simp add: st')
qed (use assms in \<open>simp add: open_domain_def\<close>)

lemma handle_table_ok: "handle_table rp t st = (st', None) \<Longrightarrow> importer_ok st \<Longrightarrow> importer_ok st' \<and> im_domain st' \<noteq> None"
proof -
  assume run: "handle_table rp t st = (st', None)" and ok: "importer_ok st"
  obtain st1 where st1: "open_domain rp (flush_left_policies st) = (st1, None)"
    and st': "st' = write_line [''table'', t, ''{''] ((close_if (im_table st1 \<noteq> None) st1)\<lparr>im_table := Some t\<rparr>)"
    using run by (auto simp: handle_table_def then_step_ok)
  have "importer_ok st1" "im_domain st1 \<noteq> None" using open_domain_ok [OF st1] flush_policies_ok [OF ok] by auto
  then show ?thesis
    unfolding st' by (auto intro!: importer_ok_opened [of st1] simp: open_blocks_def)
qed

lemma enter_chain_ok:
  assumes "enter_chain rp c st = (st', None)" and "importer_ok st"
  shows "importer_ok st' \<and> im_chain st' = Some c"
proof (cases "im_chain st = Some c")
  case False
  obtain st1 where st1: "flush rp st = (st1, None)"
    and st': "st' = write_line [''chain'', c, ''{''] ((close_if (im_chain st1 \<noteq> None) st1)\<lparr>im_chain := Some c\<rparr>)"
    using assms(1) False by (auto simp: enter_chain_def then_step_ok)
  have "importer_ok st1" using flush_ok [OF st1] assms(2) by (simp add: importer_ok_def open_blocks_def same_blocks_def)
  then show ?thesis
    unfolding st' by (auto intro!: importer_ok_opened [of st1] simp: open_blocks_def importer_ok_def)
qed (use assms in \<open>simp add: enter_chain_def\<close>)

lemma list_all_dict_del: "list_all Q d \<Longrightarrow> list_all Q (dict_del k d)"
  by (auto simp: dict_del_def AList.delete_eq list_all_iff)

lemma take_policy_ok: "importer_ok st \<Longrightarrow> importer_ok (take_policy c st)"
proof (cases "dict_get (im_policies st) c")
  case (Some p)
  assume ok: "importer_ok st"
  then have "list_all is_word p"
    using Some by (auto simp: importer_ok_def list_all_iff dict_get_def dest!: map_of_SomeD)
  then have "im_indent (write_line ([''policy'', p] @ ['';'']) st) = im_indent st"
    by (intro write_statement) (simp add: ends_ok_def one_mark(1) word_ends_ok)
  with ok Some show ?thesis
    by (simp add: take_policy_def importer_ok_def open_blocks_def list_all_dict_del)
qed (simp add: take_policy_def)

section \<open>A rule that is read has clean names\<close>

definition reading_ok :: "irule \<Rightarrow> bool" where
  "reading_ok r \<longleftrightarrow> rule_named r \<and> list_all entry_clean (ir_keywords r)"

lemma dict_update_clean: "list_all Q d \<Longrightarrow> list_all Q e \<Longrightarrow> list_all Q (dict_update d e)"
proof -
  have set1: "list_all Q (dict_set k v d)" if "list_all Q d" "Q (k, v)" for k v d
    using that by (induction d) (auto simp: dict_set_def)
  have "list_all Q e \<Longrightarrow> list_all Q d \<Longrightarrow> list_all Q (fold (\<lambda>(k, v). dict_set k v) e d)" for d e
    by (induction e arbitrary: d) (auto simp: set1)
  then show "list_all Q d \<Longrightarrow> list_all Q e \<Longrightarrow> list_all Q (dict_update d e)" by (simp add: dict_update_def)
qed

lemma merge_clean: "reading_ok r \<Longrightarrow> list_all entry_clean ks \<Longrightarrow> reading_ok (import_merge ks r)"
  by (cases r) (simp add: reading_ok_def dict_update_clean)

lemma merge_module_ok:
  "reading_ok r \<Longrightarrow> reading_ok (merge_module PROTO_DEFS n r)"
  "reading_ok r \<Longrightarrow> reading_ok (merge_module MATCH_DEFS n r)"
  "reading_ok r \<Longrightarrow> reading_ok (merge_module TARGET_DEFS n r)"
  by (auto simp: merge_module_def split: option.split
      intro!: merge_clean md_keywords_clean dest: registries_clean)

lemma port_keywords_ok: "reading_ok r \<Longrightarrow> reading_ok (add_port_keywords r)"
  unfolding add_port_keywords_def
  by (intro merge_clean)
    (simp_all add: entry_clean_def keyword_entry_def port_keyword_def brace_free_def)

lemma set_current_ok: "reading_ok r \<Longrightarrow> entries_clean es \<Longrightarrow> reading_ok (set_current es r)"
  by (cases r) (auto simp: reading_ok_def split: option.split)

lemma current_clean: "reading_ok r \<Longrightarrow> entries_clean (current_entries r)"
  by (cases r) (auto simp: reading_ok_def split: option.splits)

lemma add_entry_ok: "reading_ok r \<Longrightarrow> brace_free n \<Longrightarrow> reading_ok (add_entry n v r)"
  unfolding add_entry_def by (intro set_current_ok) (simp_all add: current_clean)

lemma field_updates_ok:
  "reading_ok r \<Longrightarrow> reading_ok (with_proto v r)" "reading_ok r \<Longrightarrow> reading_ok (add_mod x r)"
  "reading_ok r \<Longrightarrow> reading_ok (start_target x r)" "reading_ok r \<Longrightarrow> reading_ok (with_goto x r)"
  by (cases r; simp add: reading_ok_def)+

lemma extend_multi_clean: "extend_multi opt v es = Some fs \<Longrightarrow> entries_clean es \<Longrightarrow> entries_clean fs"
  by (cases es rule: rev_cases)
    (auto simp: extend_multi_def split: prod.splits val_splits if_splits)

lemma protocol_keywords_ok: "reading_ok r \<Longrightarrow> reading_ok (protocol_keywords v r)"
  by (cases v) (simp_all add: protocol_keywords_def Let_def port_keywords_ok merge_module_ok)

lemma import_option_ok:
  assumes "import_option n r opt neg ts = Inr (r', rest)" and "reading_ok r"
  shows "reading_ok r'"
proof -
  have names: "brace_free ''protocol''" "brace_free ''mod''" by (simp_all add: brace_free_def)
  have proto: "reading_ok r'" if "import_protocol n r neg ts = Inr (r', rest)" for r' rest
    using that assms(2) names
    by (auto simp: import_protocol_def bindR_Inr_iff
        intro!: protocol_keywords_ok add_entry_ok field_updates_ok)
  have matches: "reading_ok r'" if "import_match n r ts = Inr (r', rest)" for r' rest
    using that assms(2) names
    by (auto simp: import_match_def Let_def split: list.splits if_splits
        intro!: port_keywords_ok merge_module_ok add_entry_ok field_updates_ok)
  have kw: "reading_ok r'" if "import_keyword n r o' k neg ts = Inr (r', rest)"
    and "dict_get (ir_keywords r) o' = Some k" for o' k r' rest
  proof -
    have "brace_free (keyword_entry k)"
      using that(2) assms(2)
      by (auto simp: reading_ok_def list_all_iff entry_clean_def dict_get_def dest!: map_of_SomeD)
    then show ?thesis using that(1) assms(2) current_clean [OF assms(2)]
      by (auto simp: import_keyword_def bindR_Inr_iff split: option.splits
          intro!: set_current_ok add_entry_ok dest: extend_multi_clean)
  qed
  have jump: "reading_ok r'" if "import_jump n r ts = Inr (r', rest)" for r' rest
    using that assms(2) by (auto simp: import_jump_def split: list.splits intro!: merge_module_ok field_updates_ok)
  have goto: "reading_ok r'" if "import_goto n r ts = Inr (r', rest)" for r' rest
    using that assms(2) by (auto simp: import_goto_def split: list.splits intro!: field_updates_ok)
  have bare: "not_negatable n o' neg m = Inr x \<Longrightarrow> m = Inr x" for o' and m :: "(irule \<times> string list) res" and x
    by (auto simp: not_negatable_def bindR_Inr_iff split: if_splits)
  let ?o = "import_option_name opt"
  consider "?o = ''protocol''" | "?o = ''match''"
    | k where "?o \<noteq> ''protocol''" "?o \<noteq> ''match''" "dict_get (ir_keywords r) ?o = Some k"
    | "?o \<noteq> ''protocol''" "?o \<noteq> ''match''" "dict_get (ir_keywords r) ?o = None"
    by (cases "dict_get (ir_keywords r) ?o") blast+
  then show ?thesis
  proof cases
    case 1
    then show ?thesis using assms(1) proto by (simp add: import_option_def Let_def)
  next
    case 2
    then show ?thesis using assms(1) by (auto simp: import_option_def Let_def dest!: bare intro: matches)
  next
    case 3
    then show ?thesis using assms(1) kw by (simp add: import_option_def Let_def)
  next
    case 4
    then show ?thesis using assms(1) by (auto simp: import_option_def Let_def dest!: bare intro: jump goto split: if_splits)
  qed
qed

lemma import_tokens_ok: "import_tokens n r ts = (Inr r', ws) \<Longrightarrow> reading_ok r \<Longrightarrow> reading_ok r'"
proof (induction ts arbitrary: r ws rule: length_induct)
  case (1 ts)
  then have later: "length us < length ts \<Longrightarrow> import_tokens n s us = (Inr r', vs) \<Longrightarrow> reading_ok s \<Longrightarrow> reading_ok r'"
    for us s vs by blast
  have option: "reading_ok r'" if "import_option n r opt neg us = Inr (s, rest)" "length us < length ts"
    and "import_tokens n s rest = (Inr r', vs)" for opt neg us s rest vs
    using later [OF _ that(3) import_option_ok [OF that(1) 1(3)]] import_option_rest [OF that(1)] that(2) by simp
  show ?case
  proof (cases ts)
    case (Cons t us)
    note run = 1(2) [unfolded Cons import_tokens.simps(2)]
    show ?thesis
    proof (cases "match_option t")
      case None
      show ?thesis
      proof (cases "t = ''!''")
        case True
        then show ?thesis using run None option [of _ _ "tl us"] Cons
          by (auto split: list.splits option.splits sum.splits)
      next
        case False
        then show ?thesis using run None later [of us] 1(3) Cons by (auto split: prod.splits)
      qed
    qed (use run option [of _ _ us] Cons in \<open>auto split: sum.splits\<close>)
  qed (use 1 in simp)
qed

lemma start_irule_ok: "reading_ok start_irule"
  unfolding start_irule_def by (intro merge_module_ok) (simp add: reading_ok_def new_irule_def)

lemma read_rule_ok: "read_rule rest st = (st', None) \<Longrightarrow> importer_ok st \<Longrightarrow> importer_ok st'"
  using import_tokens_ok [OF _ start_irule_ok]
  by (auto simp: read_rule_def Let_def importer_ok_def open_blocks_def reading_ok_def split: prod.splits sum.splits)

section \<open>Every line keeps the invariant\<close>

lemma importer_ok_cong:
  "importer_ok st \<Longrightarrow> same_blocks st st' \<Longrightarrow> im_rules st' = im_rules st \<Longrightarrow> importer_ok st'"
  by (simp add: importer_ok_def same_blocks_def open_blocks_def)

lemma handle_rule_ok: "handle_rule rp c rest st = (st', None) \<Longrightarrow> importer_ok st \<Longrightarrow> importer_ok st'"
  by (auto simp: handle_rule_def then_step_ok dest!: enter_chain_ok intro: read_rule_ok take_policy_ok)

lemma handle_commit_ok: "handle_commit rp st = (st', None) \<Longrightarrow> importer_ok st \<Longrightarrow> importer_ok st'"
  by (auto simp: handle_commit_def then_step_ok importer_ok_def same_blocks_def open_blocks_def dest!: flush_ok)

lemma chain_line_ok: "importer_ok st \<Longrightarrow> importer_ok (write_line [''chain '' @ c @ '';''] st)"
proof -
  have "im_indent (write_line [''chain '' @ c @ '';''] st) = im_indent st"
    by (simp add: write_line_def one_mark Let_def)
  then show "importer_ok st \<Longrightarrow> ?thesis" by (simp add: importer_ok_def open_blocks_def)
qed

lemma policy_line_word: "policy_of_line s = Some (c, p) \<Longrightarrow> list_all is_word p"
  by (auto simp: policy_of_line_def Let_def list_all_iff split: list.splits option.splits if_splits dest: set_takeWhileD)

lemma list_all_dict_set: "list_all Q d \<Longrightarrow> Q (k, v) \<Longrightarrow> list_all Q (dict_set k v d)"
  by (induction d) (auto simp: dict_set_def)

lemma process_line_ok:
  assumes "process_line rp line st = (st', None)" and "importer_ok st"
  shows "importer_ok st'"
proof -
  have quiet: "importer_ok (st\<lparr>im_next_domain := d\<rparr>)" "importer_ok (st\<lparr>im_warnings := ws\<rparr>)" for d ws
    using assms(2) by (simp_all add: importer_ok_def open_blocks_def)
  have policy: "importer_ok (st\<lparr>im_policies := dict_set c p (im_policies st)\<rparr>)" if "list_all is_word p" for c p
    using assms(2) that by (simp add: importer_ok_def open_blocks_def list_all_dict_set)
  show ?thesis
    using assms quiet
    by (auto simp: process_line_def need_table_def split: if_splits option.splits prod.splits
        dest: handle_table_ok handle_rule_ok handle_commit_ok intro: chain_line_ok [simplified] policy policy_line_word)
qed

lemma process_lines_ok: "process_lines rp ls st = (st', None) \<Longrightarrow> importer_ok st \<Longrightarrow> importer_ok st'"
proof (induction ls arbitrary: st)
  case (Cons l ls)
  then obtain st1 where "process_line rp (strip_eol l) (st\<lparr>im_lineno := Suc (im_lineno st)\<rparr>) = (st1, None)"
    and "process_lines rp ls st1 = (st', None)"
    by (auto simp: then_step_ok)
  then show ?case using Cons process_line_ok [of rp "strip_eol l" "st\<lparr>im_lineno := Suc (im_lineno st)\<rparr>" st1]
    by (simp add: importer_ok_def open_blocks_def)
qed simp

definition started :: "string \<Rightarrow> importer" where
  "started dmn = (new_importer dmn)\<lparr>im_out := import_banner\<rparr>"

lemma flush_domain_failure:
  "snd (flush_domain rp st) = Some e \<Longrightarrow> e = internal_error ''undefined or empty target''"
  by (cases "flush_rules rp (optimize (im_rules st)) st")
    (auto simp: flush_domain_def flush_def then_step_def doneS_def split: option.splits
      dest: flush_rules_failure)

text \<open>
  C32: The blocks the importer opens it closes. After any lines it accepts, the indentation is four
  columns for each of the domain, table and chain that are open, whatever names, values and rule
  structures were written in between; and the run ends with the internal error of an unbalanced
  indentation exactly when, at the end of the lines, a chain is open and no table line has come: rules
  before any table open such a chain, a \<^verbatim>\<open>COMMIT\<close> closes it.
\<close>

theorem import_balanced:
  assumes "process_lines rp ls (started dmn) = (st, None)"
  shows "im_indent st = 4 * open_blocks st \<and>
    (snd (import_run rp ls (new_importer dmn)) = Some (internal_error ''unbalanced indentation'') \<longleftrightarrow>
      im_domain st = None \<and> im_chain st \<noteq> None)"
proof
  have "importer_ok (started dmn)"
    by (simp add: started_def new_importer_def importer_ok_def open_blocks_def)
  then have ok: "importer_ok st" using process_lines_ok assms by blast
  then show "im_indent st = 4 * open_blocks st" by (simp add: importer_ok_def)
  have run: "import_run rp ls (new_importer dmn) = finish_import rp st"
    using assms by (simp add: import_run_def then_step_def started_def new_importer_def)
  let ?st = "flush_left_policies st"
  have st1: "importer_ok ?st" "im_domain ?st = im_domain st" "im_chain ?st = im_chain st"
    using flush_policies_ok [OF ok] by simp_all
  show "snd (import_run rp ls (new_importer dmn)) = Some (internal_error ''unbalanced indentation'') \<longleftrightarrow>
      im_domain st = None \<and> im_chain st \<noteq> None"
  proof (cases "im_domain st = None")
    case True
    then have "im_indent ?st = 4 * of_bool (im_chain st \<noteq> None)"
      using st1 by (auto simp: importer_ok_def open_blocks_def)
    then show ?thesis using True st1(2) by (auto simp: run finish_import_def Let_def then_step_def doneS_def)
  next
    case False
    obtain st2 x where fd: "flush_domain rp ?st = (st2, x)" by fastforce
    show ?thesis
    proof (cases x)
      case None
      then have "im_indent st2 = 0"
        using flush_domain_ok [of rp ?st st2] fd st1(1) by (simp add: importer_ok_def open_blocks_def)
      then show ?thesis using False st1(2) fd None
        by (simp add: run finish_import_def Let_def then_step_def doneS_def)
    next
      case (Some e)
      then have "e = internal_error ''undefined or empty target''"
        using flush_domain_failure [of rp ?st e] fd by simp
      then show ?thesis using False st1(2) fd Some
        by (simp add: run finish_import_def Let_def then_step_def internal_error_def)
    qed
  qed
qed

definition sample_dump :: "string list" where
  "sample_dump =
     [''# Generated by ip6tables-save v1.8'', ''*filter'', '':INPUT DROP [0:0]'', '':mychain - [0:0]'', ''COMMIT'',
      ''*nat'']"

lemma import_balanced_witness:
  "im_indent (fst (process_lines (\<lambda>v. []) sample_dump (started ''ip''))) = 8 \<and>
   snd (import_run (\<lambda>v. []) sample_dump (new_importer ''ip'')) \<noteq> Some (internal_error ''unbalanced indentation'')"
proof -
  have run: "snd (process_lines (\<lambda>v. []) sample_dump (started ''ip'')) = None \<and>
      open_blocks (fst (process_lines (\<lambda>v. []) sample_dump (started ''ip''))) = 2 \<and>
      im_domain (fst (process_lines (\<lambda>v. []) sample_dump (started ''ip''))) = Some ''ip6''"
    by code_simp
  then obtain st where st: "process_lines (\<lambda>v. []) sample_dump (started ''ip'') = (st, None)"
    by (cases "process_lines (\<lambda>v. []) sample_dump (started ''ip'')") auto
  from import_balanced [OF st] run show ?thesis unfolding st by simp
qed

end
