(* ===== verification/Ferm_Ipaddr.thy ===== *)
theory Ferm_Ipaddr
  imports Ferm_Evaluator
begin

text \<open>
  What the program uses of Python's \<^verbatim>\<open>ipaddress\<close>: reading and printing of addresses and networks.
  An IPv6 address is printed as the interpreters before 3.13 do, an IPv4-mapped one in hexadecimal;
  \<^verbatim>\<open>nftset.py\<close> spells that case itself where it matters.
\<close>

section \<open>Reading an address\<close>

datatype ipaddr = Ip4 nat | Ip6 nat "string option"

fun ip_version :: "ipaddr \<Rightarrow> nat" where
  "ip_version (Ip4 _) = 4"
| "ip_version (Ip6 _ _) = 6"

fun ip_int :: "ipaddr \<Rightarrow> nat" where
  "ip_int (Ip4 n) = n"
| "ip_int (Ip6 n _) = n"

fun max_prefixlen :: "ipaddr \<Rightarrow> nat" where
  "max_prefixlen (Ip4 _) = 32"
| "max_prefixlen (Ip6 _ _) = 128"

definition ipv4_octet :: "string \<Rightarrow> nat option" where
  "ipv4_octet s =
     (if s \<noteq> [] \<and> list_all is_digit s \<and> length s \<le> 3 \<and> (s = ''0'' \<or> hd s \<noteq> CHR ''0'') \<and> nat_of_string s \<le> 255
      then Some (nat_of_string s) else None)"

definition parse_ipv4 :: "string \<Rightarrow> nat option" where
  "parse_ipv4 s =
     (case map ipv4_octet (split_char (CHR ''.'') s) of
        [Some a, Some b, Some c, Some d] \<Rightarrow> Some (((a * 256 + b) * 256 + c) * 256 + d)
      | _ \<Rightarrow> None)"

definition parse_hextet :: "string \<Rightarrow> nat option" where
  "parse_hextet s =
     (if s \<noteq> [] \<and> list_all is_hex s \<and> length s \<le> 4 then Some (hex_value s) else None)"

fun parse_hextets :: "string list \<Rightarrow> nat list option" where
  "parse_hextets [] = Some []"
| "parse_hextets (s # ss) =
     (case (parse_hextet s, parse_hextets ss) of (Some n, Some ns) \<Rightarrow> Some (n # ns) | _ \<Rightarrow> None)"

definition hextets_value :: "nat list \<Rightarrow> nat" where
  "hextets_value hs = foldl (\<lambda>n h. n * 65536 + h) 0 hs"

fun hex_text :: "nat \<Rightarrow> string" where
  "hex_text n = (if n < 16 then [hex_digit n] else hex_text (n div 16) @ [hex_digit (n mod 16)])"

declare hex_text.simps [simp del]

text \<open>An IPv4 address at the end stands for the last two groups.\<close>

definition ipv6_parts :: "string \<Rightarrow> string list option" where
  "ipv6_parts s =
     (let ps = split_char (CHR '':'') s
      in if length ps < 3 then None
         else if CHR ''.'' \<in> set (last ps)
         then (case parse_ipv4 (last ps) of
                 None \<Rightarrow> None
               | Some n \<Rightarrow> Some (butlast ps @ [hex_text (n div 65536), hex_text (n mod 65536)]))
         else Some ps)"

definition inner_empty :: "string list \<Rightarrow> nat list" where
  "inner_empty ps = filter (\<lambda>i. ps ! i = []) [1..<length ps - 1]"

text \<open>How many groups stand before and after the double colon at \<open>k\<close>.\<close>

definition skip_counts :: "string list \<Rightarrow> nat \<Rightarrow> (nat \<times> nat) option" where
  "skip_counts ps k =
     (let hi = (if hd ps = [] then k - 1 else k);
          rest = length ps - k - 1;
          lo = (if last ps = [] then rest - 1 else rest)
      in if (hd ps = [] \<and> hi \<noteq> 0) \<or> (last ps = [] \<and> lo \<noteq> 0) \<or> hi + lo \<ge> 8 then None else Some (hi, lo))"

definition parse_ipv6_int :: "string \<Rightarrow> nat option" where
  "parse_ipv6_int s =
     (case ipv6_parts s of
        None \<Rightarrow> None
      | Some ps \<Rightarrow>
          if length ps > 9 then None
          else (case inner_empty ps of
                  [] \<Rightarrow> if length ps = 8 then map_option hextets_value (parse_hextets ps) else None
                | [k] \<Rightarrow>
                    (case skip_counts ps k of
                       None \<Rightarrow> None
                     | Some (hi, lo) \<Rightarrow>
                         (case (parse_hextets (take hi ps), parse_hextets (drop (length ps - lo) ps)) of
                            (Some hs, Some ls) \<Rightarrow>
                              Some (hextets_value (hs @ replicate (8 - (hi + lo)) 0 @ ls))
                          | _ \<Rightarrow> None))
                | _ \<Rightarrow> None))"

definition parse_ipv6 :: "string \<Rightarrow> (nat \<times> string option) option" where
  "parse_ipv6 s =
     (if CHR ''/'' \<in> set s then None
      else let addr = takeWhile (\<lambda>c. c \<noteq> CHR ''%'') s;
               rest = dropWhile (\<lambda>c. c \<noteq> CHR ''%'') s
           in case rest of
                [] \<Rightarrow> map_option (\<lambda>n. (n, None)) (parse_ipv6_int addr)
              | _ # scope \<Rightarrow>
                  if scope = [] \<or> CHR ''%'' \<in> set scope then None
                  else map_option (\<lambda>n. (n, Some scope)) (parse_ipv6_int addr))"

definition ip_address :: "string \<Rightarrow> ipaddr option" where
  "ip_address s =
     (case parse_ipv4 s of
        Some n \<Rightarrow> Some (Ip4 n)
      | None \<Rightarrow> map_option (\<lambda>(n, sc). Ip6 n sc) (parse_ipv6 s))"

section \<open>Networks\<close>

datatype ipnet = Net (net_address: ipaddr) (net_prefixlen: nat)

definition prefix_number :: "nat \<Rightarrow> string \<Rightarrow> nat option" where
  "prefix_number w s =
     (if s \<noteq> [] \<and> list_all is_digit s \<and> nat_of_string s \<le> w then Some (nat_of_string s) else None)"

definition netmask_prefix :: "nat \<Rightarrow> nat option" where
  "netmask_prefix n = find (\<lambda>p. n + 2 ^ (32 - p) = 2 ^ 32) [0..<33]"

text \<open>A mask may be a length, a netmask or, failing that, its complement.\<close>

definition ipv4_prefix :: "string \<Rightarrow> nat option" where
  "ipv4_prefix s =
     (case prefix_number 32 s of
        Some p \<Rightarrow> Some p
      | None \<Rightarrow>
          (case parse_ipv4 s of
             None \<Rightarrow> None
           | Some n \<Rightarrow>
               (case netmask_prefix n of Some p \<Rightarrow> Some p | None \<Rightarrow> netmask_prefix (2 ^ 32 - 1 - n))))"

definition mask_int :: "nat \<Rightarrow> nat \<Rightarrow> nat \<Rightarrow> nat" where
  "mask_int w p n = n div 2 ^ (w - p) * 2 ^ (w - p)"

text \<open>The scope of an address survives when no host bit is cut.\<close>

fun mask_address :: "nat \<Rightarrow> ipaddr \<Rightarrow> ipaddr" where
  "mask_address p (Ip4 n) = Ip4 (mask_int 32 p n)"
| "mask_address p (Ip6 n sc) =
     (if mask_int 128 p n = n then Ip6 n sc else Ip6 (mask_int 128 p n) None)"

definition network_of :: "ipaddr option \<Rightarrow> nat option \<Rightarrow> ipnet option" where
  "network_of a p = (case (a, p) of (Some x, Some n) \<Rightarrow> Some (Net (mask_address n x) n) | _ \<Rightarrow> None)"

text \<open>\<^verbatim>\<open>ip_network(s, strict=False)\<close>\<close>

definition ip_network :: "string \<Rightarrow> ipnet option" where
  "ip_network s =
     (let ps = split_char (CHR ''/'') s;
          v4 = map_option Ip4 (parse_ipv4 (hd ps));
          v6 = map_option (\<lambda>(n, sc). Ip6 n sc) (parse_ipv6 (hd ps))
      in if length ps > 2 then None
         else case network_of v4 (if length ps = 2 then ipv4_prefix (ps ! 1) else Some 32) of
                Some net \<Rightarrow> Some net
              | None \<Rightarrow> network_of v6 (if length ps = 2 then prefix_number 128 (ps ! 1) else Some 128))"

section \<open>Printing\<close>

definition ipv4_text :: "nat \<Rightarrow> string" where
  "ipv4_text n =
     string_of_nat (n div 16777216 mod 256) @ ''.'' @ string_of_nat (n div 65536 mod 256) @ ''.'' @
     string_of_nat (n div 256 mod 256) @ ''.'' @ string_of_nat (n mod 256)"

definition hextets :: "nat \<Rightarrow> nat list" where
  "hextets n = map (\<lambda>i. n div 65536 ^ (7 - i) mod 65536) [0..<8]"

text \<open>The first longest run of zero groups, as its start and its length.\<close>

definition zero_run :: "nat list \<Rightarrow> nat \<Rightarrow> nat" where
  "zero_run hs i = length (takeWhile (\<lambda>h. h = 0) (drop i hs))"

definition best_zeros :: "nat list \<Rightarrow> nat \<times> nat" where
  "best_zeros hs =
     fold (\<lambda>i (s, l). if zero_run hs i > l then (i, zero_run hs i) else (s, l)) [0..<length hs] (0, 0)"

definition compress_hextets :: "nat list \<Rightarrow> string list" where
  "compress_hextets hs =
     (case best_zeros hs of
        (s, l) \<Rightarrow>
          if l > 1
          then (if s = 0 then [[]] else []) @ map hex_text (take s hs) @ [[]] @
               map hex_text (drop (s + l) hs) @ (if s + l = length hs then [[]] else [])
          else map hex_text hs)"

definition ipv6_text :: "nat \<Rightarrow> string" where
  "ipv6_text n = join_str '':'' (compress_hextets (hextets n))"

fun ip_text :: "ipaddr \<Rightarrow> string" where
  "ip_text (Ip4 n) = ipv4_text n"
| "ip_text (Ip6 n sc) = ipv6_text n @ (case sc of None \<Rightarrow> [] | Some s \<Rightarrow> ''%'' @ s)"

definition net_text :: "ipnet \<Rightarrow> string" where
  "net_text net = ip_text (net_address net) @ ''/'' @ string_of_nat (net_prefixlen net)"

end
