(* ===== verification/Ferm_Nft_Set.thy ===== *)
theory Ferm_Nft_Set
  imports Ferm_Ipaddr "HOL-Library.Product_Lexorder"
begin

text \<open>
  The order and the spelling of set elements, \<^verbatim>\<open>src/src/pyferm/nftset.py\<close>: the rank of an
  element, the canonical order of sets and verdict maps, and the form in which nft stores an element.
\<close>

section \<open>Ranks\<close>

definition RANK_NUMBER :: nat where "RANK_NUMBER = 0"
definition RANK_INTERVAL :: nat where "RANK_INTERVAL = 1"
definition RANK_ADDRESS :: nat where "RANK_ADDRESS = 2"
definition RANK_PROTONAME :: nat where "RANK_PROTONAME = 3"
definition RANK_QUOTED :: nat where "RANK_QUOTED = 4"
definition RANK_UNPARSABLE :: nat where "RANK_UNPARSABLE = 5"

lemmas rank_defs = RANK_NUMBER_def RANK_INTERVAL_def RANK_ADDRESS_def RANK_PROTONAME_def
  RANK_QUOTED_def RANK_UNPARSABLE_def

definition NFT_L4PROTO_NUMBER :: "(string, nat) dict" where
  "NFT_L4PROTO_NUMBER =
     [(''ip'', 0), (''icmp'', 1), (''igmp'', 2), (''ipencap'', 4), (''tcp'', 6), (''egp'', 8),
      (''udp'', 17), (''dccp'', 33), (''ipv6'', 41), (''ipv6-route'', 43), (''ipv6-frag'', 44),
      (''rsvp'', 46), (''gre'', 47), (''esp'', 50), (''ah'', 51), (''ipv6-icmp'', 58),
      (''ipv6-nonxt'', 59), (''ipv6-opts'', 60), (''ospf'', 89), (''mtp'', 92), (''ipip'', 94),
      (''pim'', 103), (''ipcomp'', 108), (''carp'', 112), (''l2tp'', 115), (''sctp'', 132),
      (''mobility-header'', 135), (''udplite'', 136), (''mpls-in-ip'', 137)]"

definition NFT_L4PROTO_NAME :: "(nat, string) dict" where
  "NFT_L4PROTO_NAME = map (\<lambda>(name, number). (number, name)) NFT_L4PROTO_NUMBER"

definition is_ascii_uint :: "string \<Rightarrow> bool" where
  "is_ascii_uint s \<longleftrightarrow> s \<noteq> [] \<and> list_all is_digit s"

definition l4proto_name :: "string \<Rightarrow> string res" where
  "l4proto_name proto =
     (if is_ascii_uint proto
      then bindR (py_int_digits proto) (\<lambda>n.
             Inr (case dict_get NFT_L4PROTO_NAME n of None \<Rightarrow> proto | Some name \<Rightarrow> name))
      else Inr proto)"

definition is_quoted_string :: "string \<Rightarrow> bool" where
  "is_quoted_string s \<longleftrightarrow>
     length s \<ge> 2 \<and> hd s = last s \<and> (hd s = DQUOTE \<or> hd s = SQUOTE)"

text \<open>\<^verbatim>\<open>partition("-")\<close>: the part before the first dash and, when there is one, what follows.\<close>

definition at_dash :: "string \<Rightarrow> string \<times> string option" where
  "at_dash s =
     (takeWhile (\<lambda>c. c \<noteq> CHR ''-'') s,
      case dropWhile (\<lambda>c. c \<noteq> CHR ''-'') s of [] \<Rightarrow> None | _ # r \<Rightarrow> Some r)"

definition classify_address_range :: "string \<Rightarrow> string \<Rightarrow> nat list option" where
  "classify_address_range low high =
     (case (ip_address low, ip_address high) of
        (Some lo, Some hi) \<Rightarrow>
          if ip_version lo = ip_version hi then Some [ip_version lo, ip_int lo, ip_int hi] else None
      | _ \<Rightarrow> None)"

text \<open>
  The rank and the natural key of an element. A tuple of numbers is the list of them; a quoted
  element is ordered by its characters. A number of more than 4300 digits is refused by \<^verbatim>\<open>int\<close>.
\<close>

definition classify_other :: "string \<Rightarrow> nat \<times> nat list" where
  "classify_other s =
     (case ip_network s of
        Some net \<Rightarrow>
          (RANK_ADDRESS, [ip_version (net_address net), ip_int (net_address net), net_prefixlen net])
      | None \<Rightarrow>
          (case dict_get NFT_L4PROTO_NUMBER s of
             Some n \<Rightarrow> (RANK_PROTONAME, [n])
           | None \<Rightarrow>
               if is_quoted_string s then (RANK_QUOTED, map char_code s) else (RANK_UNPARSABLE, [])))"

definition classify :: "string \<Rightarrow> (nat \<times> nat list) res" where
  "classify s =
     (if is_ascii_uint s then bindR (py_int_digits s) (\<lambda>n. Inr (RANK_NUMBER, [n]))
      else case at_dash s of
             (low, Some high) \<Rightarrow>
               if is_ascii_uint low \<and> is_ascii_uint high
               then bindR (py_int_digits low) (\<lambda>l. bindR (py_int_digits high) (\<lambda>h.
                      Inr (RANK_INTERVAL, [l, h])))
               else (case classify_address_range low high of
                       Some r \<Rightarrow> Inr (RANK_INTERVAL, r)
                     | None \<Rightarrow> Inr (classify_other s))
           | (low, None) \<Rightarrow> Inr (classify_other s))"

section \<open>The canonical order\<close>

type_synonym set_key = "nat \<times> nat list \<times> string"

definition set_sort_key :: "nat \<Rightarrow> string \<Rightarrow> set_key res" where
  "set_sort_key index s =
     bindR (classify s) (\<lambda>(rank, natural).
       Inr (if rank = RANK_UNPARSABLE then (rank, [index], []) else (rank, natural, s)))"

definition sort_by_keys :: "('a \<Rightarrow> string) \<Rightarrow> 'a list \<Rightarrow> 'a list res" where
  "sort_by_keys f xs =
     bindR (mapR (\<lambda>(i, x). set_sort_key i (f x)) (zip [0..<length xs] xs)) (\<lambda>ks.
       Inr (map snd (sort_key fst (zip ks xs))))"

definition sort_set_elements :: "string list \<Rightarrow> string list res" where
  "sort_set_elements = sort_by_keys (\<lambda>s. s)"

definition sort_vmap_pairs :: "(string \<times> string) list \<Rightarrow> (string \<times> string) list res" where
  "sort_vmap_pairs = sort_by_keys fst"

section \<open>The stored form\<close>

definition ipv4_mapped :: "ipaddr \<Rightarrow> nat option" where
  "ipv4_mapped a =
     (case a of Ip4 _ \<Rightarrow> None
      | Ip6 n _ \<Rightarrow> if n div 2 ^ 32 = 65535 then Some (n mod 2 ^ 32) else None)"

definition nft_network_text :: "ipnet \<Rightarrow> string" where
  "nft_network_text net =
     (if net_prefixlen net \<noteq> max_prefixlen (net_address net) then net_text net
      else case ipv4_mapped (net_address net) of
             Some n \<Rightarrow> ''::ffff:'' @ ipv4_text n
           | None \<Rightarrow> ip_text (net_address net))"

definition aligned_block :: "nat \<Rightarrow> nat \<Rightarrow> bool" where
  "aligned_block low n \<longleftrightarrow> and n (n - 1) = 0 \<and> low mod n = 0"

definition collapse_range :: "ipaddr \<Rightarrow> ipaddr \<Rightarrow> string option" where
  "collapse_range lo hi =
     (if ip_version lo \<noteq> ip_version hi \<or> ip_int hi < ip_int lo then None
      else let span = ip_int hi - ip_int lo + 1
           in if \<not> aligned_block (ip_int lo) span then Some (ip_text lo @ ''-'' @ ip_text hi)
              else let prefixlen = max_prefixlen lo - (bit_length span - 1)
                   in if prefixlen = max_prefixlen lo then Some (ip_text lo)
                      else Some (ip_text lo @ ''/'' @ string_of_nat prefixlen))"

definition collapse_address_range :: "string \<Rightarrow> string \<Rightarrow> string option" where
  "collapse_address_range low high =
     (case (ip_address low, ip_address high) of
        (Some lo, Some hi) \<Rightarrow> collapse_range lo hi
      | _ \<Rightarrow> None)"

definition canonicalize_element :: "string \<Rightarrow> string res" where
  "canonicalize_element s =
     bindR (classify s) (\<lambda>(rank, _).
       Inr (if rank = RANK_INTERVAL
            then (case at_dash s of
                    (low, high) \<Rightarrow>
                      if is_ascii_uint low then s
                      else (case collapse_address_range low (case high of None \<Rightarrow> [] | Some h \<Rightarrow> h) of
                              Some t \<Rightarrow> t | None \<Rightarrow> s))
            else if rank = RANK_ADDRESS
            then (case ip_network s of Some net \<Rightarrow> nft_network_text net | None \<Rightarrow> s)
            else s))"

text \<open>
  The order of addresses in Python: equal addresses with different scopes are not ordered by
  \<^verbatim>\<open><=\<close>, and the last address of a network has no scope.
\<close>

definition addr_le :: "ipaddr \<Rightarrow> ipaddr \<Rightarrow> bool" where
  "addr_le x y \<longleftrightarrow> ip_int x < ip_int y \<or> x = y"

definition net_last :: "ipnet \<Rightarrow> nat" where
  "net_last net =
     ip_int (net_address net) + 2 ^ (max_prefixlen (net_address net) - net_prefixlen net) - 1"

definition subnet_of :: "ipnet \<Rightarrow> ipnet \<Rightarrow> bool" where
  "subnet_of a b \<longleftrightarrow> addr_le (net_address b) (net_address a) \<and> net_last a \<le> net_last b"

definition covered_by_other :: "(string \<times> ipnet) list \<Rightarrow> string \<Rightarrow> bool" where
  "covered_by_other nets s =
     (case map_of nets s of
        None \<Rightarrow> False
      | Some net \<Rightarrow>
          list_ex (\<lambda>(t, other). t \<noteq> s \<and> ip_version (net_address other) = ip_version (net_address net) \<and>
            subnet_of net other) nets)"

definition networks_of :: "string list \<Rightarrow> (string \<times> ipnet) list" where
  "networks_of xs = List.map_filter (\<lambda>s. map_option (Pair s) (ip_network s)) xs"

definition drop_contained_networks :: "string list \<Rightarrow> string list" where
  "drop_contained_networks xs = filter (\<lambda>s. \<not> covered_by_other (networks_of xs) s) xs"

text \<open>\<^verbatim>\<open>dict.fromkeys\<close> keeps the first of equal elements.\<close>

fun firsts :: "'a list \<Rightarrow> 'a list" where
  "firsts [] = []"
| "firsts (x # xs) = x # removeAll x (firsts xs)"

definition canonicalize_set_elements :: "bool \<Rightarrow> string list \<Rightarrow> string list res" where
  "canonicalize_set_elements absorb xs =
     bindR (mapR canonicalize_element xs) (\<lambda>ys.
       let canonical = firsts ys
       in sort_set_elements (if absorb then drop_contained_networks canonical else canonical))"

definition set_body :: "string list \<Rightarrow> string" where
  "set_body xs = ''{ '' @ join_str '', '' xs @ '' }''"

end
