(* ===== verification/Ferm_Nft_Model.thy ===== *)
theory Ferm_Nft_Model
  imports Ferm_Nft_Set
begin

text \<open>
  The vocabulary of the nft backend, \<^verbatim>\<open>src/src/pyferm/backend/nft/model.py\<close>: the operands it lets
  into a script, the statements of a rule with their text, and the spelling of quoted strings, of
  protocols and of times. The service, user and group databases of the host are parameters.
\<close>

section \<open>Texts of Python\<close>

definition sq :: "string \<Rightarrow> string" where
  "sq s = SQUOTE # s @ [SQUOTE]"

text \<open>\<^verbatim>\<open>raise FermError(...)\<close> with the pieces of the message.\<close>

definition refuse :: "string list \<Rightarrow> 'a res" where
  "refuse ps = Inl (Died (concat ps))"

lemma refuse_not_Inr [simp]: "refuse ps \<noteq> Inr x"
  by (simp add: refuse_def)

text \<open>\<^verbatim>\<open>s.partition(c)\<close>: the head, whether the separator is there, the tail.\<close>

definition py_partition :: "char \<Rightarrow> string \<Rightarrow> string \<times> bool \<times> string" where
  "py_partition c s = (takeWhile (\<lambda>d. d \<noteq> c) s, c \<in> set s, tl (dropWhile (\<lambda>d. d \<noteq> c) s))"

definition py_lower_text :: "string \<Rightarrow> string" where
  "py_lower_text s = map lower_char s"

text \<open>Digits with single underscores between them, as \<^verbatim>\<open>int\<close> reads them; the underscores are dropped.\<close>

definition digit_groups :: "(char \<Rightarrow> bool) \<Rightarrow> string \<Rightarrow> string option" where
  "digit_groups p s =
     (let gs = split_char (CHR ''_'') s
      in if list_all (\<lambda>g. g \<noteq> [] \<and> list_all p g) gs then Some (concat gs) else None)"

definition is_octal :: "char \<Rightarrow> bool" where
  "is_octal c \<longleftrightarrow> c \<in> set ''01234567''"

definition in_base :: "nat \<Rightarrow> string \<Rightarrow> nat" where
  "in_base b s = foldl (\<lambda>n c. n * b + hex_val c) 0 s"

text \<open>After a prefix such as \<^verbatim>\<open>0x\<close> one underscore may follow.\<close>

definition prefixed_digits :: "nat \<Rightarrow> (char \<Rightarrow> bool) \<Rightarrow> string \<Rightarrow> nat option" where
  "prefixed_digits b p s =
     map_option (in_base b) (digit_groups p (case s of c # r \<Rightarrow> if c = CHR ''_'' then r else s | [] \<Rightarrow> []))"

definition decimal_digits :: "bool \<Rightarrow> string \<Rightarrow> nat option" where
  "decimal_digits zero_only s =
     (case digit_groups is_digit s of
        None \<Rightarrow> None
      | Some ds \<Rightarrow>
          if 4300 < length ds \<or> zero_only \<and> nat_of_string ds \<noteq> 0 then None else Some (nat_of_string ds))"

definition unsigned_auto :: "string \<Rightarrow> nat option" where
  "unsigned_auto s =
     (case s of
        z # x # r \<Rightarrow>
          if z \<noteq> CHR ''0'' then decimal_digits False s
          else if x \<in> set ''xX'' then prefixed_digits 16 is_hex r
          else if x \<in> set ''oO'' then prefixed_digits 8 is_octal r
          else if x \<in> set ''bB'' then prefixed_digits 2 (\<lambda>c. c \<in> set ''01'') r
          else decimal_digits True s
      | _ \<Rightarrow> decimal_digits False s)"

text \<open>The blanks \<^verbatim>\<open>int\<close> and \<^verbatim>\<open>float\<close> strip: not those of \<^verbatim>\<open>str.strip\<close>.\<close>

definition num_space :: "char \<Rightarrow> bool" where
  "num_space c \<longleftrightarrow> is_space c \<or> char_code c = 133 \<or> char_code c = 160"

definition num_strip :: "string \<Rightarrow> string" where
  "num_strip s = rev (dropWhile num_space (rev (dropWhile num_space s)))"

text \<open>\<^verbatim>\<open>int(s, 0)\<close>, where \<open>None\<close> is the \<^verbatim>\<open>ValueError\<close>.\<close>

definition py_int_auto :: "string \<Rightarrow> int option" where
  "py_int_auto s0 =
     (let s = num_strip s0
      in case s of
           [] \<Rightarrow> None
         | c # r \<Rightarrow>
             if is_sign c
             then map_option (\<lambda>n. if c = CHR ''-'' then - int n else int n) (unsigned_auto r)
             else map_option int (unsigned_auto s))"

definition pad0 :: "nat \<Rightarrow> string \<Rightarrow> string" where
  "pad0 w s = replicate (w - length s) (CHR ''0'') @ s"

definition hex08 :: "nat \<Rightarrow> string" where
  "hex08 n = ''0x'' @ pad0 8 (hex_text n)"

section \<open>Operands\<close>

text \<open>
  What the backend asks the host: the port of a service, the number of a user and of a group, and
  the text Python gives a value that is no string.
\<close>

record nft_host =
  nh_service :: "string \<Rightarrow> nat option"
  nh_user :: "string \<Rightarrow> nat option"
  nh_group :: "string \<Rightarrow> nat option"
  nh_text :: "cfg_value \<Rightarrow> string"

definition host_text :: "nft_host \<Rightarrow> cfg_value \<Rightarrow> string" where
  "host_text hs v = (case v of VStr s \<Rightarrow> s | _ \<Rightarrow> nh_text hs v)"

definition NFT_COMMENT_MAX :: nat where "NFT_COMMENT_MAX = 128"
definition NFT_NAME_MAXLEN :: nat where "NFT_NAME_MAXLEN = 256"

definition is_alnum :: "char \<Rightarrow> bool" where
  "is_alnum c \<longleftrightarrow> is_digit c \<or> is_alpha c"

definition addr_char :: "char \<Rightarrow> bool" where
  "addr_char c \<longleftrightarrow> is_hex c \<or> c \<in> set ''.:/-''"

definition validate_address :: "string \<Rightarrow> string res" where
  "validate_address s =
     (if s \<noteq> [] \<and> list_all addr_char s then Inr s
      else refuse [''invalid address '', sq s, '' for nft backend''])"

definition set_name_ok :: "string \<Rightarrow> bool" where
  "set_name_ok s \<longleftrightarrow> (case s of [] \<Rightarrow> False | c # r \<Rightarrow> is_alpha c \<and> list_all is_word r)"

definition validate_set_name :: "string \<Rightarrow> string res" where
  "validate_set_name s =
     (if \<not> set_name_ok s \<or> length s \<ge> NFT_NAME_MAXLEN
      then refuse [''invalid set name '', sq s, '' for nft backend''] else Inr s)"

definition port_token :: "string \<Rightarrow> bool" where
  "port_token s \<longleftrightarrow>
     (case s of [] \<Rightarrow> False | c # r \<Rightarrow> is_alnum c \<and> list_all (\<lambda>d. is_alnum d \<or> d = CHR ''-'') r)"

definition resolve_port_token :: "nft_host \<Rightarrow> string \<Rightarrow> string res" where
  "resolve_port_token hs s =
     (if is_ascii_uint s then Inr s
      else if port_token s
      then (case nh_service hs s of
              Some p \<Rightarrow> Inr (string_of_nat p)
            | None \<Rightarrow> refuse [''unknown service name '', sq s, '' for nft backend''])
      else refuse [''invalid port '', sq s, '' for nft backend''])"

text \<open>\<^verbatim>\<open>lo:hi\<close> with two alphanumeric ends, \<^verbatim>\<open>lo-hi\<close> with two numbers.\<close>

definition colon_range :: "string \<Rightarrow> (string \<times> string) option" where
  "colon_range s =
     (case split_char (CHR '':'') s of
        [a, b] \<Rightarrow>
          if a \<noteq> [] \<and> list_all is_alnum a \<and> b \<noteq> [] \<and> list_all is_alnum b then Some (a, b) else None
      | _ \<Rightarrow> None)"

definition dash_range :: "string \<Rightarrow> bool" where
  "dash_range s \<longleftrightarrow>
     (case split_char (CHR ''-'') s of [a, b] \<Rightarrow> is_ascii_uint a \<and> is_ascii_uint b | _ \<Rightarrow> False)"

definition validate_port :: "nft_host \<Rightarrow> string \<Rightarrow> string res" where
  "validate_port hs s =
     (case colon_range s of
        Some (a, b) \<Rightarrow>
          bindR (resolve_port_token hs a) (\<lambda>lo. bindR (resolve_port_token hs b) (\<lambda>hi.
            Inr (lo @ ''-'' @ hi)))
      | None \<Rightarrow> if dash_range s then Inr s else resolve_port_token hs s)"

definition validate_protocol :: "string \<Rightarrow> string res" where
  "validate_protocol s =
     (if port_token s then Inr s else refuse [''invalid protocol '', sq s, '' for nft backend''])"

text \<open>A bounded unsigned number.\<close>

definition bounded_uint :: "string \<Rightarrow> nat \<Rightarrow> string \<Rightarrow> nat res" where
  "bounded_uint s maximum label =
     (let bad = refuse [''invalid '', label, '' '', sq s, '' for nft backend'']
      in if \<not> is_ascii_uint s then bad
         else bindR (py_int_digits s) (\<lambda>n. if n > maximum then bad else Inr n))"

section \<open>Values of options\<close>

definition UNSUPPORTED_VALUE_SHAPE :: string where
  "UNSUPPORTED_VALUE_SHAPE = ''unsupported value shape for nft backend''"

fun is_negation :: "cfg_value \<Rightarrow> bool" where
  "is_negation (VNegated _) = True"
| "is_negation (VPreNegated _) = True"
| "is_negation _ = False"

definition strip_negation :: "cfg_value \<Rightarrow> cfg_value" where
  "strip_negation v = (case v of VNegated x \<Rightarrow> x | VPreNegated x \<Rightarrow> x | _ \<Rightarrow> v)"

definition scalar_of :: "cfg_value \<Rightarrow> string res" where
  "scalar_of v =
     (case v of
        VParams _ \<Rightarrow> refuse [''multi-value cannot be expressed as a single nft match'']
      | VMulti _ \<Rightarrow> refuse [''multi-value cannot be expressed as a single nft match'']
      | VStr s \<Rightarrow> Inr s
      | _ \<Rightarrow> refuse [UNSUPPORTED_VALUE_SHAPE])"

definition unwrap_value :: "cfg_value \<Rightarrow> (string \<times> bool) res" where
  "unwrap_value v =
     (if is_negation v
      then (case strip_negation v of
              VList (x # y # zs) \<Rightarrow> refuse [''multi-value match cannot be negated in nft'']
            | VList [x] \<Rightarrow> bindR (scalar_of x) (\<lambda>s. Inr (s, True))
            | VList [] \<Rightarrow> Inr ([], True)
            | x \<Rightarrow> bindR (scalar_of x) (\<lambda>s. Inr (s, True)))
      else bindR (scalar_of v) (\<lambda>s. Inr (s, False)))"

text \<open>The scalar alone, where the code ignores the negation.\<close>

definition unwrap_scalar :: "cfg_value \<Rightarrow> string res" where
  "unwrap_scalar v = bindR (unwrap_value v) (\<lambda>(s, neg). Inr s)"

definition first_scalar :: "cfg_value \<Rightarrow> string res" where
  "first_scalar v =
     (case v of
        VMulti (VStr s # vs) \<Rightarrow> Inr s
      | VParams (VStr s # vs) \<Rightarrow> Inr s
      | VStr s \<Rightarrow> Inr s
      | _ \<Rightarrow> refuse [UNSUPPORTED_VALUE_SHAPE])"

definition nft_op :: "bool \<Rightarrow> string" where
  "nft_op neg = (if neg then ''!= '' else [])"

section \<open>Quoted strings and protocols\<close>

definition unquotable :: "char \<Rightarrow> bool" where
  "unquotable c \<longleftrightarrow> c = DQUOTE \<or> c = BACKSLASH \<or> char_code c < 32"

definition nft_quote_string :: "string \<Rightarrow> string res" where
  "nft_quote_string s =
     (if list_ex unquotable s then refuse [''value '', py_repr s, '' has a character nft cannot quote'']
      else Inr (DQUOTE # s @ [DQUOTE]))"

definition nft_ifname :: "string \<Rightarrow> string res" where
  "nft_ifname s = nft_quote_string (if s \<noteq> [] \<and> last s = CHR ''+'' then butlast s @ ''*'' else s)"

definition render_comment :: "string \<Rightarrow> string res" where
  "render_comment s =
     (if NFT_COMMENT_MAX < length s
      then refuse [''comment exceeds nft limit of '', string_of_nat NFT_COMMENT_MAX, '' bytes'']
      else bindR (nft_quote_string s) (\<lambda>q. Inr (''comment '' @ q)))"

definition addr_set_type :: "family \<Rightarrow> string" where
  "addr_set_type fam = (if fam = IP then ''ipv4_addr'' else ''ipv6_addr'')"

definition nft_l4proto :: "family \<Rightarrow> string \<Rightarrow> string res" where
  "nft_l4proto fam proto =
     (if fam = IP6 \<and> proto \<in> {''icmp'', ''icmpv6'', ''ipv6-icmp''} then Inr ''ipv6-icmp''
      else if proto = ''mh'' then Inr ''mobility-header''
      else if proto = ''hopopt'' then Inr ''ip''
      else l4proto_name proto)"

section \<open>Times\<close>

definition TIME_UNITS_MS :: "(string \<times> nat) list" where
  "TIME_UNITS_MS = [(''d'', 86400000), (''h'', 3600000), (''m'', 60000), (''s'', 1000), (''ms'', 1)]"

fun time_parts :: "(string \<times> nat) list \<Rightarrow> nat \<Rightarrow> string" where
  "time_parts [] n = []"
| "time_parts ((u, span) # us) n =
     (if n div span = 0 then [] else string_of_nat (n div span) @ u) @ time_parts us (n mod span)"

definition nft_time_canon :: "nat \<Rightarrow> string res" where
  "nft_time_canon ms =
     (if ms = 0 then refuse [''stateful timeout must be positive for the nft backend'']
      else Inr (time_parts TIME_UNITS_MS ms))"

section \<open>Chains, statements and rules\<close>

record nft_base_chain =
  bc_name :: string
  bc_type :: string
  bc_hook :: string
  bc_priority :: int
  bc_policy :: "string option"

datatype nft_chain = NftBaseChain nft_base_chain | NftRegularChain string

fun nft_chain_id :: "nft_chain \<Rightarrow> string" where
  "nft_chain_id (NftBaseChain c) = bc_name c"
| "nft_chain_id (NftRegularChain n) = n"

fun chain_header :: "nft_chain \<Rightarrow> string" where
  "chain_header (NftBaseChain c) =
     ''{ type '' @ bc_type c @ '' hook '' @ bc_hook c @ '' priority '' @ string_of_int (bc_priority c) @ '';'' @
     (case bc_policy c of None \<Rightarrow> [] | Some p \<Rightarrow> '' policy '' @ p @ '';'') @ '' }''"
| "chain_header (NftRegularChain n) = []"

text \<open>A match carries the selector and the operand the passes below compare it by.\<close>

record nft_match =
  nm_expr :: string
  nm_set_key :: "string option"
  nm_element :: "string option"
  nm_elements :: "string list option"
  nm_setref :: "(string \<times> cfg_value list) option"
  nm_selector :: "string option"

definition plain_match :: "string \<Rightarrow> nft_match" where
  "plain_match e =
     \<lparr>nm_expr = e, nm_set_key = None, nm_element = None, nm_elements = None, nm_setref = None,
      nm_selector = None\<rparr>"

record set_update =
  su_name :: string
  su_key :: string
  su_type :: string
  su_timeout :: "string option"
  su_limit :: "string option"
  su_verb :: string
  su_owned :: bool

record object_ref =
  or_kind :: string
  or_name :: string
  or_body :: string
  or_expr :: string

datatype nft_statement =
    NftMatch nft_match
  | NftVerdict string
  | NftVmap string "(string \<times> string) list"
  | NftReset string
  | NftSetUpdate set_update
  | NftObjectRef object_ref
  | NftQuota string

record nft_rule =
  nr_statements :: "nft_statement list"
  nr_comment :: "string option"

definition match_text :: "nft_match \<Rightarrow> string res" where
  "match_text m =
     (case nm_elements m of
        None \<Rightarrow> Inr (nm_expr m)
      | Some es \<Rightarrow>
          (case nm_set_key m of
             None \<Rightarrow> Inl internal_error_default
           | Some k \<Rightarrow> bindR (sort_set_elements (firsts es)) (\<lambda>xs. Inr (k @ '' '' @ set_body xs))))"

definition vmap_text :: "string \<Rightarrow> (string \<times> string) list \<Rightarrow> string res" where
  "vmap_text k ps =
     bindR (sort_vmap_pairs ps) (\<lambda>qs.
       Inr (k @ '' vmap { '' @ join_str '', '' (map (\<lambda>(key, v). key @ '' : '' @ v) qs) @ '' }''))"

definition update_text :: "set_update \<Rightarrow> string" where
  "update_text u =
     su_verb u @ '' @'' @ su_name u @ '' { '' @
     join_str '' ''
       (su_key u # (case su_timeout u of None \<Rightarrow> [] | Some t \<Rightarrow> [''timeout '' @ t]) @
        (case su_limit u of None \<Rightarrow> [] | Some l \<Rightarrow> [''limit '' @ l])) @ '' }''"

fun to_text :: "nft_statement \<Rightarrow> string res" where
  "to_text (NftMatch m) = match_text m"
| "to_text (NftVerdict e) = Inr e"
| "to_text (NftVmap k ps) = vmap_text k ps"
| "to_text (NftReset e) = Inr e"
| "to_text (NftSetUpdate u) = Inr (update_text u)"
| "to_text (NftObjectRef r) = Inr (or_expr r)"
| "to_text (NftQuota e) = Inr e"

end
