(* ===== verification/Ferm_Nft_Collapse.thy ===== *)
theory Ferm_Nft_Collapse
  imports Ferm_Nft_Model "HOL-Library.Multiset"
begin

text \<open>
  The folding of adjacent rules, the second half of \<^verbatim>\<open>src/src/pyferm/backend/nft/assemble.py\<close>: rules
  that differ in one operand become one rule over an anonymous set, and rules of one operand and one
  verdict become a verdict map. Each pass shortens the list, so the repetition ends.
\<close>

section \<open>Comparing rules\<close>

definition elements_equal :: "string list option \<Rightarrow> string list option \<Rightarrow> bool res" where
  "elements_equal a b =
     (case (a, b) of
        (Some xs, Some ys) \<Rightarrow>
          bindR (sort_set_elements xs) (\<lambda>u. bindR (sort_set_elements ys) (\<lambda>v. Inr (u = v)))
      | _ \<Rightarrow> Inr (a = None \<and> b = None))"

definition match_equal :: "nft_match \<Rightarrow> nft_match \<Rightarrow> bool res" where
  "match_equal a b =
     (if nm_set_key a \<noteq> None \<and> nm_set_key b \<noteq> None
      then if nm_set_key a = nm_set_key b \<and> nm_element a = nm_element b
           then elements_equal (nm_elements a) (nm_elements b) else Inr False
      else Inr (nm_expr a = nm_expr b))"

definition text_equal :: "nft_statement \<Rightarrow> nft_statement \<Rightarrow> bool res" where
  "text_equal a b = bindR (to_text a) (\<lambda>s. bindR (to_text b) (\<lambda>t. Inr (s = t)))"

fun stmt_equal :: "nft_statement \<Rightarrow> nft_statement \<Rightarrow> bool res" where
  "stmt_equal (NftMatch a) (NftMatch b) = match_equal a b"
| "stmt_equal (NftVerdict a) (NftVerdict b) = text_equal (NftVerdict a) (NftVerdict b)"
| "stmt_equal (NftVmap k ps) (NftVmap l qs) = text_equal (NftVmap k ps) (NftVmap l qs)"
| "stmt_equal (NftReset a) (NftReset b) = text_equal (NftReset a) (NftReset b)"
| "stmt_equal (NftSetUpdate a) (NftSetUpdate b) = text_equal (NftSetUpdate a) (NftSetUpdate b)"
| "stmt_equal (NftObjectRef a) (NftObjectRef b) = text_equal (NftObjectRef a) (NftObjectRef b)"
| "stmt_equal (NftQuota a) (NftQuota b) = text_equal (NftQuota a) (NftQuota b)"
| "stmt_equal _ _ = Inr False"

text \<open>The positions at which two lists of statements differ.\<close>

fun differing :: "nat \<Rightarrow> nft_statement list \<Rightarrow> nft_statement list \<Rightarrow> nat list res" where
  "differing k (a # as) (b # bs) =
     bindR (stmt_equal a b) (\<lambda>eq. bindR (differing (Suc k) as bs) (\<lambda>ks. Inr (if eq then ks else k # ks)))"
| "differing k _ _ = Inr []"

fun eligible_pair :: "nft_statement \<Rightarrow> nft_statement \<Rightarrow> bool" where
  "eligible_pair (NftMatch a) (NftMatch b) \<longleftrightarrow> nm_set_key a \<noteq> None \<and> nm_set_key a = nm_set_key b"
| "eligible_pair _ _ \<longleftrightarrow> False"

definition collapse_axis :: "nft_rule \<Rightarrow> nft_rule \<Rightarrow> nat option res" where
  "collapse_axis a b =
     (if nr_comment a \<noteq> nr_comment b \<or> length (nr_statements a) \<noteq> length (nr_statements b) then Inr None
      else bindR (differing 0 (nr_statements a) (nr_statements b)) (\<lambda>ks.
        Inr (case ks of
               [k] \<Rightarrow> if eligible_pair (nr_statements a ! k) (nr_statements b ! k) then Some k else None
             | _ \<Rightarrow> None)))"

section \<open>Anonymous sets\<close>

fun match_operands :: "nft_statement \<Rightarrow> string list" where
  "match_operands (NftMatch m) =
     (case nm_elements m of
        Some es \<Rightarrow> es
      | None \<Rightarrow> (case nm_element m of Some e \<Rightarrow> [e] | None \<Rightarrow> []))"
| "match_operands _ = []"

fun with_elements :: "string list \<Rightarrow> nft_statement \<Rightarrow> nft_statement" where
  "with_elements es (NftMatch m) =
     NftMatch ((plain_match (nm_expr m))\<lparr>nm_set_key := nm_set_key m, nm_elements := Some es\<rparr>)"
| "with_elements es s = s"

definition merge_run :: "nft_rule \<Rightarrow> nft_rule list \<Rightarrow> nat \<Rightarrow> nft_rule" where
  "merge_run base run axis =
     (let es = concat (map (\<lambda>r. match_operands (nr_statements r ! axis)) (base # run))
      in base\<lparr>nr_statements := (nr_statements base)[axis := with_elements es (nr_statements base ! axis)]\<rparr>)"

text \<open>The rules after \<open>base\<close> that differ from it at the same place only, and what is left.\<close>

fun axis_run :: "nft_rule \<Rightarrow> nat \<Rightarrow> nft_rule list \<Rightarrow> (nft_rule list \<times> nft_rule list) res" where
  "axis_run base axis [] = Inr ([], [])"
| "axis_run base axis (r # rs) =
     bindR (collapse_axis base r) (\<lambda>a.
       if a = Some axis then bindR (axis_run base axis rs) (\<lambda>(run, rest). Inr (r # run, rest))
       else Inr ([], r # rs))"

lemma axis_run_split: "axis_run base axis rs = Inr (run, rest) \<Longrightarrow> rs = run @ rest"
  by (induction rs arbitrary: run) (auto simp: bindR_Inr_iff split: if_splits)

lemma bindR_fundef_cong [fundef_cong]:
  "r = r' \<Longrightarrow> (\<And>x. r' = Inr x \<Longrightarrow> f x = g x) \<Longrightarrow> bindR r f = bindR r' g"
  by (cases r') simp_all

function collapse_one_pass :: "nft_rule list \<Rightarrow> (nft_rule list \<times> bool) res" where
  "collapse_one_pass [] = Inr ([], False)"
| "collapse_one_pass [r] = Inr ([r], False)"
| "collapse_one_pass (r # s # rs) =
     bindR (collapse_axis r s) (\<lambda>a.
       case a of
         None \<Rightarrow> bindR (collapse_one_pass (s # rs)) (\<lambda>(out, changed). Inr (r # out, changed))
       | Some axis \<Rightarrow>
           bindR (axis_run r axis rs) (\<lambda>(run, rest).
           bindR (collapse_one_pass rest) (\<lambda>(out, changed). Inr (merge_run r (s # run) axis # out, True))))"
  by pat_completeness auto
termination
  by (relation "measure length") (auto dest: axis_run_split)

lemma collapse_one_pass_length:
  "collapse_one_pass rs = Inr (out, changed) \<Longrightarrow>
     length out \<le> length rs \<and> (changed \<longrightarrow> length out < length rs)"
proof (induction rs arbitrary: out changed rule: collapse_one_pass.induct)
  case (3 r s rs)
  then obtain a where a: "collapse_axis r s = Inr a" by (auto simp: bindR_Inr_iff)
  show ?case
  proof (cases a)
    case None
    then show ?thesis using 3(1) [OF a] 3(3) a by (force simp: bindR_Inr_iff)
  next
    case (Some axis)
    with a 3(3) obtain run rest out' c where run: "axis_run r axis rs = Inr (run, rest)"
      and out: "collapse_one_pass rest = Inr (out', c)" "out = merge_run r (s # run) axis # out'"
      by (auto simp: bindR_Inr_iff)
    from 3(2) [OF a Some run refl out(1)] axis_run_split [OF run] out(2) show ?thesis by auto
  qed
qed auto

function collapse_sets :: "nft_rule list \<Rightarrow> nft_rule list res" where
  "collapse_sets rs =
     bindR (collapse_one_pass rs) (\<lambda>(out, changed). if changed then collapse_sets out else Inr out)"
  by pat_completeness auto
termination
  by (relation "measure length") (auto dest: collapse_one_pass_length)

declare collapse_sets.simps [simp del]

section \<open>Verdict maps\<close>

definition VMAP_VERDICTS :: "string list" where "VMAP_VERDICTS = [''accept'', ''drop'', ''return'']"

definition is_vmap_verdict :: "string \<Rightarrow> bool" where
  "is_vmap_verdict e \<longleftrightarrow> e \<in> set VMAP_VERDICTS \<or> starts_with ''jump '' e \<or> starts_with ''goto '' e"

definition vmap_candidate :: "nft_rule \<Rightarrow> (string \<times> string \<times> string) option" where
  "vmap_candidate r =
     (if nr_comment r \<noteq> None then None
      else case nr_statements r of
             [NftMatch m, NftVerdict v] \<Rightarrow>
               (case (nm_set_key m, nm_element m, nm_elements m) of
                  (Some k, Some e, None) \<Rightarrow> if is_vmap_verdict v then Some (k, e, v) else None
                | _ \<Rightarrow> None)
           | _ \<Rightarrow> None)"

text \<open>The pairs that join the map, up to another selector or a key already seen.\<close>

fun vmap_run :: "string \<Rightarrow> string list \<Rightarrow> nft_rule list \<Rightarrow> (string \<times> string) list \<times> nft_rule list" where
  "vmap_run k seen [] = ([], [])"
| "vmap_run k seen (r # rs) =
     (case vmap_candidate r of
        Some (k', e, v) \<Rightarrow>
          if k' = k \<and> e \<notin> set seen
          then (case vmap_run k (e # seen) rs of (ps, rest) \<Rightarrow> ((e, v) # ps, rest))
          else ([], r # rs)
      | None \<Rightarrow> ([], r # rs))"

lemma vmap_run_length: "vmap_run k seen rs = (ps, rest) \<Longrightarrow> length rs = length ps + length rest"
  by (induction rs arbitrary: seen ps) (auto split: option.splits if_splits prod.splits)

function collapse_vmap :: "nft_rule list \<Rightarrow> nft_rule list" where
  "collapse_vmap [] = []"
| "collapse_vmap (r # rs) =
     (case vmap_candidate r of
        None \<Rightarrow> r # collapse_vmap rs
      | Some (k, e, v) \<Rightarrow>
          (case vmap_run k [e] rs of
             (ps, rest) \<Rightarrow>
               (if ps = [] then r
                else \<lparr>nr_statements = [NftVmap k ((e, v) # ps)], nr_comment = None\<rparr>) # collapse_vmap rest))"
  by pat_completeness auto
termination
  by (relation "measure length") (auto dest!: vmap_run_length [OF sym])

definition collapse_chain_rules :: "nft_rule list \<Rightarrow> nft_rule list res" where
  "collapse_chain_rules rs = bindR (collapse_sets rs) (\<lambda>out. Inr (collapse_vmap out))"

end
