(* ===== verification/Ferm_Diff.thy ===== *)
theory Ferm_Diff
  imports Ferm_Iptables "HOL-Library.Multiset"
begin

text \<open>
  What a plan compares and records: the model of \<^verbatim>\<open>src/src/pyferm/plan/model.py\<close>, the differ of
  \<^verbatim>\<open>plan/diff.py\<close> and, of Python's \<^verbatim>\<open>difflib\<close>, the matching of two lists it uses.
\<close>

section \<open>Parsed state\<close>

record parsed_chain =
  pc_policy :: string
  pc_rules :: "string list"

record parsed_set =
  ps_name :: string
  ps_elements :: "string list"
  ps_type :: "string option"
  ps_flags :: "string list"

record parsed_object =
  po_name :: string
  po_kind :: string
  po_body :: string

record parsed_table =
  pt_chains :: "(string, parsed_chain) dict"
  pt_sets :: "(string, parsed_set) dict"
  pt_objects :: "(string, parsed_object) dict"

type_synonym parsed = "(string, parsed_table) dict"

definition empty_parsed_table :: parsed_table where
  "empty_parsed_table = \<lparr>pt_chains = [], pt_sets = [], pt_objects = []\<rparr>"

definition set_is_dynamic :: "parsed_set \<Rightarrow> bool" where
  "set_is_dynamic s = list_ex (\<lambda>f. ''dynamic'' \<in> set (split_char (CHR '','') f)) (ps_flags s)"

section \<open>Changes\<close>

record policy_change =
  pch_table :: string
  pch_chain :: string
  pch_old :: string
  pch_new :: string

record rule_change =
  rch_table :: string
  rch_chain :: string
  rch_rule :: string

record named_chain =
  nch_table :: string
  nch_chain :: string

datatype set_change_kind = SetAdd | SetRemove | SetModify

fun touches_elements :: "set_change_kind \<Rightarrow> bool" where
  "touches_elements SetRemove = False"
| "touches_elements _ = True"

fun is_removal :: "set_change_kind \<Rightarrow> bool" where
  "is_removal SetAdd = False"
| "is_removal _ = True"

record set_change =
  sch_table :: string
  sch_name :: string
  sch_kind :: set_change_kind
  sch_elements :: "string list"
  sch_current :: "string list"

record object_change =
  och_table :: string
  och_name :: string
  och_kind :: string
  och_added :: bool

record plan_diff =
  pd_policy :: "policy_change list"
  pd_added :: "rule_change list"
  pd_removed :: "rule_change list"
  pd_foreign :: "named_chain list"
  pd_desuet :: "named_chain list"
  pd_rebuilds :: "policy_change list"
  pd_sets :: "set_change list"
  pd_objects :: "object_change list"
  pd_noflush :: bool
  pd_current_empty :: bool

definition empty_diff :: "bool \<Rightarrow> bool \<Rightarrow> plan_diff" where
  "empty_diff noflush cur_empty =
     \<lparr>pd_policy = [], pd_added = [], pd_removed = [], pd_foreign = [], pd_desuet = [],
      pd_rebuilds = [], pd_sets = [], pd_objects = [], pd_noflush = noflush,
      pd_current_empty = cur_empty\<rparr>"

definition has_changes :: "plan_diff \<Rightarrow> bool" where
  "has_changes d \<longleftrightarrow>
     pd_policy d \<noteq> [] \<or> pd_added d \<noteq> [] \<or> pd_removed d \<noteq> [] \<or> pd_foreign d \<noteq> [] \<or>
     pd_desuet d \<noteq> [] \<or> pd_rebuilds d \<noteq> [] \<or> pd_sets d \<noteq> [] \<or> pd_objects d \<noteq> []"

section \<open>Matching two lists\<close>

text \<open>
  \<^verbatim>\<open>find_longest_match\<close> of \<^verbatim>\<open>difflib.SequenceMatcher\<close> without junk: the longest common run, the
  first one in the order of its end in the first list, then in the second.
\<close>

fun common_prefix :: "'a list \<Rightarrow> 'a list \<Rightarrow> nat" where
  "common_prefix (x # xs) (y # ys) = (if x = y then Suc (common_prefix xs ys) else 0)"
| "common_prefix _ _ = 0"

definition run_ending :: "'a list \<Rightarrow> 'a list \<Rightarrow> nat \<Rightarrow> nat \<Rightarrow> nat" where
  "run_ending a b i j = common_prefix (rev (take (Suc i) a)) (rev (take (Suc j) b))"

definition better_run :: "'a list \<Rightarrow> 'a list \<Rightarrow> nat \<times> nat \<Rightarrow> nat \<times> nat \<times> nat \<Rightarrow> nat \<times> nat \<times> nat" where
  "better_run a b ij best =
     (case (ij, best) of ((i, j), (bi, bj, best_size)) \<Rightarrow>
        let k = run_ending a b i j in if k > best_size then (Suc i - k, Suc j - k, k) else best)"

definition longest_match :: "'a list \<Rightarrow> 'a list \<Rightarrow> nat \<times> nat \<times> nat" where
  "longest_match a b =
     fold (better_run a b) (List.product [0..<length a] [0..<length b]) (0, 0, 0)"

lemma common_prefix_le: "common_prefix xs ys \<le> length xs \<and> common_prefix xs ys \<le> length ys"
  by (induction xs ys rule: common_prefix.induct) auto

lemma common_prefix_take: "take (common_prefix xs ys) xs = take (common_prefix xs ys) ys"
  by (induction xs ys rule: common_prefix.induct) auto

definition common_run :: "'a list \<Rightarrow> 'a list \<Rightarrow> nat \<times> nat \<times> nat \<Rightarrow> bool" where
  "common_run a b m = (case m of (i, j, k) \<Rightarrow>
     i + k \<le> length a \<and> j + k \<le> length b \<and> take k (drop i a) = take k (drop j b))"

lemma take_rev_rev: "n \<le> length xs \<Longrightarrow> rev (take n (rev xs)) = drop (length xs - n) xs"
  by (simp add: take_rev)

lemma run_ending_common:
  assumes "i < length a" and "j < length b" and "k = run_ending a b i j"
  shows "k \<le> Suc i \<and> k \<le> Suc j \<and> common_run a b (Suc i - k, Suc j - k, k)"
proof -
  let ?x = "take (Suc i) a" and ?y = "take (Suc j) b"
  have len: "length ?x = Suc i" "length ?y = Suc j" using assms by auto
  have k: "k \<le> Suc i" "k \<le> Suc j"
    using common_prefix_le [of "rev ?x" "rev ?y"] len by (simp_all add: assms(3) run_ending_def)
  have "rev (take k (rev ?x)) = rev (take k (rev ?y))"
    using common_prefix_take [of "rev ?x" "rev ?y"] by (simp add: assms(3) run_ending_def)
  then have "drop (Suc i - k) ?x = drop (Suc j - k) ?y" using k len by (simp add: take_rev)
  then show ?thesis using k assms(1,2) by (simp add: common_run_def drop_take)
qed

lemma longest_match_common: "common_run a b (longest_match a b)"
proof -
  have "\<forall>(i, j) \<in> set ps. i < length a \<and> j < length b \<Longrightarrow> common_run a b m \<Longrightarrow>
      common_run a b (fold (better_run a b) ps m)" for ps m
  proof (induction ps arbitrary: m)
    case (Cons p ps)
    have "common_run a b (better_run a b p m)"
      using Cons.prems run_ending_common [of "fst p" a "snd p" b]
      by (auto simp: better_run_def Let_def split: prod.splits)
    with Cons show ?case by simp
  qed simp
  then show ?thesis by (simp add: longest_match_def common_run_def)
qed

lemma longest_match_bounds: "(i, j, k) = longest_match a b \<Longrightarrow> i + k \<le> length a \<and> j + k \<le> length b"
  using longest_match_common [of a b] by (auto simp: common_run_def)

text \<open>
  The removed pieces of the first list and the added pieces of the second, as the operations of
  \<^verbatim>\<open>get_opcodes\<close> list them: around the longest match, the parts before it and after it are matched in
  the same way.
\<close>

function diff_rules :: "'a list \<Rightarrow> 'a list \<Rightarrow> 'a list \<times> 'a list" where
  "diff_rules cur des =
     (case longest_match cur des of
        (i, j, k) \<Rightarrow>
          if k = 0 then (des, cur)
          else case (diff_rules (take i cur) (take j des), diff_rules (drop (i + k) cur) (drop (j + k) des)) of
                 ((a1, r1), (a2, r2)) \<Rightarrow> (a1 @ a2, r1 @ r2))"
  by auto
termination
  by (relation "measure (\<lambda>(a, b). length a)") (auto dest!: longest_match_bounds)

declare diff_rules.simps [simp del]

text \<open>The counts balance, and nothing is reported exactly when the lists are equal.\<close>

lemma diff_rules_balance:
  "diff_rules cur des = (ad, rm) \<Longrightarrow> mset cur + mset ad = mset des + mset rm"
proof (induction cur des arbitrary: ad rm rule: diff_rules.induct)
  case (1 cur des)
  obtain i j k where m: "longest_match cur des = (i, j, k)" by (metis prod_cases3)
  show ?case
  proof (cases "k = 0")
    case True
    then have "ad = des" "rm = cur" using 1(3) m by (auto simp: diff_rules.simps [of cur des])
    then show ?thesis by (simp only: add.commute)
  next
    case False
    obtain a1 r1 where left: "diff_rules (take i cur) (take j des) = (a1, r1)" by fastforce
    obtain a2 r2 where right: "diff_rules (drop (i + k) cur) (drop (j + k) des) = (a2, r2)" by fastforce
    have out: "ad = a1 @ a2" "rm = r1 @ r2"
      using 1(3) m False left right by (simp_all add: diff_rules.simps [of cur des])
    have run: "take k (drop i cur) = take k (drop j des)"
      using longest_match_common [of cur des] m by (simp add: common_run_def)
    have cut: "mset xs = mset (take n xs) + mset (take k (drop n xs)) + mset (drop (n + k) xs)" for n and xs :: "'a list"
    proof -
      have "xs = take n xs @ take k (drop n xs) @ drop (n + k) xs"
        by (metis append_take_drop_id drop_drop add.commute)
      then have "mset xs = mset (take n xs @ take k (drop n xs) @ drop (n + k) xs)" by simp
      then show ?thesis by (simp only: mset_append add.assoc)
    qed
    have l: "mset (take i cur) + mset a1 = mset (take j des) + mset r1"
      using 1(1) [OF m [symmetric] refl False left] .
    have r: "mset (drop (i + k) cur) + mset a2 = mset (drop (j + k) des) + mset r2"
      using 1(2) [OF m [symmetric] refl False right] .
    have "(mset (take i cur) + mset a1) + (mset (drop (i + k) cur) + mset a2) + mset (take k (drop j des)) =
        (mset (take j des) + mset r1) + (mset (drop (j + k) des) + mset r2) + mset (take k (drop j des))"
      by (simp only: l r)
    then show ?thesis unfolding cut [of cur i] cut [of des j] run out mset_append
      by (simp only: ac_simps)
  qed
qed

lemma common_prefix_self: "common_prefix xs xs = length xs"
  by (induction xs) auto

lemma longest_match_maximal:
  assumes "i < length a" and "j < length b"
  shows "run_ending a b i j \<le> snd (snd (longest_match a b))"
proof -
  have grow: "snd (snd m) \<le> snd (snd (better_run a b p m))" for p m
    by (auto simp: better_run_def Let_def split: prod.splits)
  have fold_grow: "snd (snd m) \<le> snd (snd (fold (better_run a b) ps m))" for ps m
    proof (induction ps arbitrary: m)
    case (Cons p ps)
    show ?case using order_trans [OF grow Cons.IH [of "better_run a b p m"]] by simp
  qed simp
  have reached: "(i, j) \<in> set ps \<Longrightarrow> run_ending a b i j \<le> snd (snd (fold (better_run a b) ps m))" for ps m
  proof (induction ps arbitrary: m)
    case (Cons p ps)
    have "run_ending a b i j \<le> snd (snd (better_run a b (i, j) m))"
      by (auto simp: better_run_def Let_def split: prod.splits)
    then show ?case using Cons fold_grow [of "better_run a b (i, j) m" ps]
      by (cases "(i, j) \<in> set ps") (auto simp del: split_paired_All split_paired_Ex)
  qed simp
  show ?thesis unfolding longest_match_def using assms by (intro reached) auto
qed

lemma longest_match_self: "xs \<noteq> [] \<Longrightarrow> longest_match xs xs = (0, 0, length xs)"
proof -
  assume ne: "xs \<noteq> []"
  obtain i j k where m: "longest_match xs xs = (i, j, k)" by (metis prod_cases3)
  have "run_ending xs xs (length xs - 1) (length xs - 1) = length xs"
    using ne by (simp add: run_ending_def common_prefix_self)
  then have "length xs \<le> k"
    using longest_match_maximal [of "length xs - 1" xs "length xs - 1" xs] ne m by simp
  then show ?thesis using longest_match_common [of xs xs] m by (simp add: common_run_def)
qed

lemma longest_match_Nil: "longest_match [] ys = (0, 0, 0)"
  by (simp add: longest_match_def)

lemma diff_rules_none: "diff_rules cur des = ([], []) \<longleftrightarrow> cur = des"
proof
  show "diff_rules cur des = ([], []) \<Longrightarrow> cur = des"
  proof (induction cur des rule: diff_rules.induct)
    case (1 cur des)
    obtain i j k where m: "longest_match cur des = (i, j, k)" by (metis prod_cases3)
    show ?case
    proof (cases "k = 0")
      case True
      then show ?thesis using 1(3) m by (simp add: diff_rules.simps [of cur des])
    next
      case False
      obtain a1 r1 where left: "diff_rules (take i cur) (take j des) = (a1, r1)" by fastforce
      obtain a2 r2 where right: "diff_rules (drop (i + k) cur) (drop (j + k) des) = (a2, r2)" by fastforce
      have out: "a1 = []" "a2 = []" "r1 = []" "r2 = []"
        using 1(3) m False left right by (simp_all add: diff_rules.simps [of cur des])
      have run: "i + k \<le> length cur" "j + k \<le> length des" "take k (drop i cur) = take k (drop j des)"
        using longest_match_common [of cur des] m by (simp_all add: common_run_def)
      have l: "take i cur = take j des"
        using 1(1) [OF m [symmetric] refl False] left out by simp
      have r: "drop (i + k) cur = drop (j + k) des"
        using 1(2) [OF m [symmetric] refl False] right out by simp
      have "xs = take n xs @ take k (drop n xs) @ drop (n + k) xs" for n and xs :: "'a list"
        by (metis append_take_drop_id drop_drop add.commute)
      then show ?thesis using l r run(3) by metis
    qed
  qed
  have Nil: "diff_rules [] [] = ([], [])" by (simp add: diff_rules.simps [of "[]" "[]"] longest_match_Nil)
  have "diff_rules xs xs = ([], [])" for xs :: "'a list"
    by (cases "xs = []") (simp_all add: Nil diff_rules.simps [of xs xs] longest_match_self)
  then show "cur = des \<Longrightarrow> diff_rules cur des = ([], [])" by simp
qed

section \<open>The diff of one family\<close>

definition is_builtin :: "parsed_chain \<Rightarrow> bool" where
  "is_builtin c \<longleftrightarrow> pc_policy c \<noteq> ''-''"

text \<open>\<^verbatim>\<open>_header_priority\<close> of \<^verbatim>\<open>plan/readback.py\<close>.\<close>

fun after_word :: "string \<Rightarrow> string list \<Rightarrow> string option" where
  "after_word w (x # y # ts) = (if x = w then Some y else after_word w (y # ts))"
| "after_word w _ = None"

definition header_priority_of :: "string \<Rightarrow> string option" where
  "header_priority_of header = after_word ''priority'' (py_split header)"

definition text_or_empty :: "string option \<Rightarrow> string" where
  "text_or_empty t = (case t of None \<Rightarrow> [] | Some s \<Rightarrow> s)"

definition policy_differs :: "parsed_chain option \<Rightarrow> parsed_chain \<Rightarrow> bool" where
  "policy_differs cur des =
     (case cur of None \<Rightarrow> False | Some c \<Rightarrow> is_builtin c \<and> pc_policy des \<noteq> pc_policy c)"

definition chain_rebuilt :: "parsed_chain option \<Rightarrow> parsed_chain \<Rightarrow> bool" where
  "chain_rebuilt cur des \<longleftrightarrow>
     policy_differs cur des \<and>
     header_priority_of (pc_policy (the cur)) \<noteq> header_priority_of (pc_policy des)"

definition rules_of :: "parsed_chain option \<Rightarrow> string list" where
  "rules_of c = (case c of None \<Rightarrow> [] | Some ch \<Rightarrow> pc_rules ch)"

definition emit_removal :: "bool \<Rightarrow> parsed_chain option \<Rightarrow> bool" where
  "emit_removal noflush cur \<longleftrightarrow> \<not> noflush \<or> (case cur of None \<Rightarrow> False | Some c \<Rightarrow> \<not> is_builtin c)"

definition diff_chain ::
  "string \<Rightarrow> bool \<Rightarrow> (string, parsed_chain) dict \<Rightarrow> string \<times> parsed_chain \<Rightarrow> plan_diff \<Rightarrow> plan_diff" where
  "diff_chain t noflush curs cd d =
     (case cd of (n, des) \<Rightarrow>
        let cur = dict_get curs n;
            change = \<lambda>old new. \<lparr>pch_table = t, pch_chain = n, pch_old = old, pch_new = new\<rparr>;
            rule = \<lambda>r. \<lparr>rch_table = t, rch_chain = n, rch_rule = r\<rparr>
        in if chain_rebuilt cur des
           then d\<lparr>pd_rebuilds := pd_rebuilds d @
                   [change (text_or_empty (header_priority_of (pc_policy (the cur))))
                      (text_or_empty (header_priority_of (pc_policy des)))]\<rparr>
           else
             let d1 = (if policy_differs cur des
                       then d\<lparr>pd_policy := pd_policy d @ [change (pc_policy (the cur)) (pc_policy des)]\<rparr>
                       else d)
             in case diff_rules (rules_of cur) (pc_rules des) of
                  (added, removed) \<Rightarrow>
                    let d2 = d1\<lparr>pd_added := pd_added d1 @ map rule added\<rparr>
                    in if emit_removal noflush cur
                       then d2\<lparr>pd_removed := pd_removed d2 @ map rule removed\<rparr>
                       else d2)"

definition set_changes_for ::
  "string \<Rightarrow> (string, parsed_set) dict \<Rightarrow> string \<times> parsed_set \<Rightarrow> set_change list" where
  "set_changes_for t curs sd =
     (case sd of (n, des) \<Rightarrow>
        let change = \<lambda>k els cur. \<lparr>sch_table = t, sch_name = n, sch_kind = k, sch_elements = els, sch_current = cur\<rparr>
        in case dict_get curs n of
             None \<Rightarrow> [change SetAdd (ps_elements des) []]
           | Some cur \<Rightarrow>
               if (ps_type cur, ps_flags cur) \<noteq> (ps_type des, ps_flags des)
               then [change SetRemove [] [], change SetAdd (ps_elements des) []]
               else if \<not> set_is_dynamic des \<and> ps_elements cur \<noteq> ps_elements des
               then [change SetModify (ps_elements des) (ps_elements cur)]
               else [])"

definition set_removals ::
  "string \<Rightarrow> (string, parsed_set) dict \<Rightarrow> (string, parsed_set) dict \<Rightarrow> set_change list" where
  "set_removals t curs dess =
     map (\<lambda>n. \<lparr>sch_table = t, sch_name = n, sch_kind = SetRemove, sch_elements = [], sch_current = []\<rparr>)
       (filter (\<lambda>n. \<not> dict_has dess n) (dict_keys curs))"

definition missing_objects ::
  "string \<Rightarrow> bool \<Rightarrow> (string, parsed_object) dict \<Rightarrow> (string, parsed_object) dict \<Rightarrow> object_change list" where
  "missing_objects t added os others =
     map (\<lambda>(n, x). \<lparr>och_table = t, och_name = n, och_kind = po_kind x, och_added = added\<rparr>)
       (filter (\<lambda>(n, x). \<not> dict_has others n) os)"

definition left_chains ::
  "(parsed_chain \<Rightarrow> bool) \<Rightarrow> string \<Rightarrow> (string, parsed_chain) dict \<Rightarrow> (string, parsed_chain) dict \<Rightarrow> named_chain list" where
  "left_chains p t curs dess =
     map (\<lambda>(n, c). \<lparr>nch_table = t, nch_chain = n\<rparr>)
       (filter (\<lambda>(n, c). \<not> dict_has dess n \<and> p c) curs)"

definition diff_table :: "bool \<Rightarrow> parsed \<Rightarrow> string \<times> parsed_table \<Rightarrow> plan_diff \<Rightarrow> plan_diff" where
  "diff_table noflush current td d =
     (case td of (t, des) \<Rightarrow>
        let cur = (case dict_get current t of None \<Rightarrow> empty_parsed_table | Some x \<Rightarrow> x);
            d1 = fold (diff_chain t noflush (pt_chains cur)) (pt_chains des) d
        in d1\<lparr>pd_sets := pd_sets d1 @ concat (map (set_changes_for t (pt_sets cur)) (pt_sets des)) @
                set_removals t (pt_sets cur) (pt_sets des),
              pd_objects := pd_objects d1 @ missing_objects t True (pt_objects des) (pt_objects cur) @
                missing_objects t False (pt_objects cur) (pt_objects des),
              pd_desuet := pd_desuet d1 @ left_chains is_builtin t (pt_chains cur) (pt_chains des),
              pd_foreign := pd_foreign d1 @
                (if noflush then [] else left_chains (\<lambda>c. \<not> is_builtin c) t (pt_chains cur) (pt_chains des))\<rparr>)"

definition diff_tables :: "bool \<Rightarrow> parsed \<Rightarrow> parsed \<Rightarrow> plan_diff" where
  "diff_tables noflush current desired =
     fold (diff_table noflush current) desired (empty_diff noflush (current = []))"

section \<open>The plan\<close>

record plan =
  pl_families :: "(string, plan_diff) dict"
  pl_unsupported :: "string list"

definition plan_has_changes :: "plan \<Rightarrow> bool" where
  "plan_has_changes p = list_ex (\<lambda>(n, d). has_changes d) (pl_families p)"

end
