(* ===== verification/Ferm_Canon.thy ===== *)
theory Ferm_Canon
  imports Ferm_Nft_Set Ferm_Diff
begin

text \<open>
  The canonical form of rules and headers, the first half of \<^verbatim>\<open>src/src/pyferm/plan/readback.py\<close>:
  both sides of a plan pass through these functions before they are compared.
\<close>

section \<open>Characters and words of Python\<close>

text \<open>\<^verbatim>\<open>str.isprintable\<close> and \<^verbatim>\<open>\w\<close> on latin-1 characters.\<close>

definition py_printable :: "char \<Rightarrow> bool" where
  "py_printable c \<longleftrightarrow> (let n = char_code c in \<not> (n < 32 \<or> (127 \<le> n \<and> n \<le> 160) \<or> n = 173))"

definition py_wordchar :: "char \<Rightarrow> bool" where
  "py_wordchar c \<longleftrightarrow>
     is_word c \<or>
     (let n = char_code c
      in n \<in> {170, 178, 179, 181, 185, 186, 188, 189, 190} \<or> (192 \<le> n \<and> n \<noteq> 215 \<and> n \<noteq> 247))"

text \<open>\<^verbatim>\<open>shlex.split(s, posix=False)\<close>: a quote opens a word only at its start, and ends it.\<close>

definition shlex_blank :: "char \<Rightarrow> bool" where
  "shlex_blank c \<longleftrightarrow> c \<in> {CHR '' '', CHR 0x09, CHR 0x0D, NL}"

datatype shlex_state = Between | Quoted char | Unquoted

fun shlex_scan :: "shlex_state \<Rightarrow> string \<Rightarrow> string \<Rightarrow> string list option" where
  "shlex_scan Between w [] = Some []"
| "shlex_scan Unquoted w [] = Some [w]"
| "shlex_scan (Quoted q) w [] = None"
| "shlex_scan Between w (c # s) =
     (if shlex_blank c then shlex_scan Between [] s
      else if c = DQUOTE \<or> c = SQUOTE then shlex_scan (Quoted c) [c] s
      else shlex_scan Unquoted [c] s)"
| "shlex_scan (Quoted q) w (c # s) =
     (if c = q then map_option (Cons (w @ [c])) (shlex_scan Between [] s)
      else shlex_scan (Quoted q) (w @ [c]) s)"
| "shlex_scan Unquoted w (c # s) =
     (if shlex_blank c then map_option (Cons w) (shlex_scan Between [] s)
      else shlex_scan Unquoted (w @ [c]) s)"

definition tokenize_rule :: "string \<Rightarrow> string list" where
  "tokenize_rule body =
     (case shlex_scan Between [] body of None \<Rightarrow> py_split body | Some ws \<Rightarrow> ws)"

section \<open>Rules of iptables-save\<close>

definition OPTION_ALIASES :: "(string, string) dict" where
  "OPTION_ALIASES =
     [(''--protocol'', ''-p''), (''--source'', ''-s''), (''--destination'', ''-d''),
      (''--match'', ''-m''), (''--jump'', ''-j''), (''--goto'', ''-g''), (''--in-interface'', ''-i''),
      (''--out-interface'', ''-o''), (''--fragment'', ''-f''),
      (''--destination-ports'', ''--dports''), (''--source-ports'', ''--sports'')]"

definition IMPLIED_MATCHES :: "string list" where
  "IMPLIED_MATCHES = [''tcp'', ''udp'', ''icmp'', ''icmpv6'']"

definition short_option :: "string \<Rightarrow> string" where
  "short_option t = (case dict_get OPTION_ALIASES t of None \<Rightarrow> t | Some u \<Rightarrow> u)"

definition proto_of :: "string list \<Rightarrow> string option" where
  "proto_of ts = after_word ''-p'' ts"

definition strip_host_mask :: "string \<Rightarrow> string \<Rightarrow> string" where
  "strip_host_mask operand hm =
     (if ends_with hm operand then take (length operand - length hm) operand else operand)"

fun canonical_tokens :: "string \<Rightarrow> string option \<Rightarrow> string list \<Rightarrow> string list \<Rightarrow> string list" where
  "canonical_tokens hm proto seen [] = []"
| "canonical_tokens hm proto seen [t] = [t]"
| "canonical_tokens hm proto seen (t # u # ts) =
     (if t = ''-m''
      then (if (u \<in> set IMPLIED_MATCHES \<and> Some u = proto) \<or> u \<in> set seen
            then canonical_tokens hm proto seen ts
            else t # u # canonical_tokens hm proto (u # seen) ts)
      else if t = ''-s'' \<or> t = ''-d''
      then t # strip_host_mask u hm # canonical_tokens hm proto seen ts
      else t # canonical_tokens hm proto seen (u # ts))"

definition strip_counter :: "string list \<Rightarrow> string list" where
  "strip_counter ts = (if take 1 ts = [''-c''] \<and> length ts \<ge> 3 then drop 3 ts else ts)"

definition canonicalize_rule :: "string \<Rightarrow> string \<Rightarrow> string" where
  "canonicalize_rule body hm =
     (let ts = map short_option (strip_counter (tokenize_rule body))
      in join_str '' '' (canonical_tokens hm (proto_of ts) [] ts))"

section \<open>Sets inside nft rules\<close>

definition known_states :: "string list \<Rightarrow> bool" where
  "known_states ms = list_all (\<lambda>m. m \<in> set NFT_CT_STATES) ms"

fun index_of :: "'a \<Rightarrow> 'a list \<Rightarrow> nat" where
  "index_of x [] = 0"
| "index_of x (y # ys) = (if x = y then 0 else Suc (index_of x ys))"

definition state_order :: "string list \<Rightarrow> string list" where
  "state_order ms = sort_key (\<lambda>m. index_of m NFT_CT_STATES) ms"

definition py_rstrip :: "string \<Rightarrow> string" where
  "py_rstrip s = rev (dropWhile py_space (rev s))"

definition ct_state_before :: "string \<Rightarrow> bool" where
  "ct_state_before left =
     (let l = py_rstrip left
      in ends_with ''ct state'' l \<or>
         (ends_with ''!='' l \<and> ends_with ''ct state'' (py_rstrip (take (length l - 2) l))))"

fun infix_text :: "string \<Rightarrow> string \<Rightarrow> bool" where
  "infix_text p [] = (p = [])"
| "infix_text p (c # s) = (starts_with p (c # s) \<or> infix_text p s)"

text \<open>\<^verbatim>\<open>rpartition(sep)\<close>: what stands before and after the last separator.\<close>

fun last_cut :: "string \<Rightarrow> string \<Rightarrow> (string \<times> string) option" where
  "last_cut p [] = None"
| "last_cut p (c # s) =
     (case last_cut p s of
        Some (l, r) \<Rightarrow> Some (c # l, r)
      | None \<Rightarrow> if starts_with p (c # s) then Some ([], drop (length p) (c # s)) else None)"

text \<open>The members are read in order; the first one without a separator leaves the run as it was.\<close>

fun vmap_pairs :: "string list \<Rightarrow> (string \<times> string) list option res" where
  "vmap_pairs [] = Inr (Some [])"
| "vmap_pairs (m # ms) =
     (case last_cut '' : '' m of
        None \<Rightarrow> Inr None
      | Some (k, v) \<Rightarrow>
          bindR (canonicalize_element (py_strip k)) (\<lambda>c.
          bindR (vmap_pairs ms) (\<lambda>r. Inr (map_option (Cons (c, py_strip v)) r))))"

definition normalize_vmap_run :: "string \<Rightarrow> string res" where
  "normalize_vmap_run inner =
     bindR (vmap_pairs (split_char (CHR '','') inner)) (\<lambda>r.
       case r of
         None \<Rightarrow> Inr (''vmap {'' @ inner @ ''}'')
       | Some ps \<Rightarrow>
           bindR (sort_vmap_pairs ps) (\<lambda>sorted_ps.
             Inr (''vmap { '' @ join_str '', '' (map (\<lambda>(k, v). k @ '' : '' @ v) sorted_ps) @ '' }'')))"

definition set_members :: "string \<Rightarrow> string list" where
  "set_members inner =
     filter (\<lambda>m. m \<noteq> []) (map (\<lambda>m. join_str '' '' (py_split m)) (split_char (CHR '','') inner))"

definition normalize_set_run :: "string \<Rightarrow> string \<Rightarrow> string res" where
  "normalize_set_run left inner =
     (let ms = set_members inner
      in if infix_text '' : '' inner then Inr (''{'' @ inner @ ''}'')
         else if ms = [] then Inr ''{ }''
         else if ct_state_before left \<and> known_states ms then Inr (set_body (state_order ms))
         else if list_ex (\<lambda>m. CHR '' '' \<in> set m) ms then Inr (set_body ms)
         else bindR (canonicalize_set_elements True ms) (\<lambda>cs. Inr (set_body cs)))"

text \<open>
  \<^verbatim>\<open>_NFT_SET_RE\<close> at one position: an optional \<^verbatim>\<open>vmap\<close>, then a pair of braces without a brace
  inside. The result is the marker, the text between the braces and the rest.
\<close>

definition brace_run :: "string \<Rightarrow> (string \<times> string) option" where
  "brace_run s =
     (case s of
        [] \<Rightarrow> None
      | c # t \<Rightarrow>
          if c \<noteq> CHR ''{'' then None
          else let inner = takeWhile (\<lambda>d. d \<noteq> CHR ''{'' \<and> d \<noteq> CHR ''}'') t;
                   rest = drop (length inner) t
               in if rest \<noteq> [] \<and> hd rest = CHR ''}'' then Some (inner, tl rest) else None)"

definition set_run_at :: "char option \<Rightarrow> string \<Rightarrow> (bool \<times> string \<times> string) option" where
  "set_run_at prior s =
     (let marked = (if starts_with ''vmap'' s \<and>
                       (case prior of None \<Rightarrow> True | Some b \<Rightarrow> \<not> (py_wordchar b \<or> b = CHR ''@''))
                    then brace_run (dropWhile py_space (drop 4 s)) else None)
      in case marked of
           Some (inner, rest) \<Rightarrow> Some (True, inner, rest)
         | None \<Rightarrow> map_option (\<lambda>(inner, rest). (False, inner, rest)) (brace_run s))"

lemma brace_run_shorter: "brace_run s = Some (inner, rest) \<Longrightarrow> length rest < length s"
  by (auto simp: brace_run_def Let_def split: list.splits if_splits)

lemma set_run_shorter: "set_run_at b s = Some (m, inner, rest) \<Longrightarrow> length rest < length s"
proof -
  assume run: "set_run_at b s = Some (m, inner, rest)"
  have "brace_run s = Some (inner, rest) \<or> brace_run (dropWhile py_space (drop 4 s)) = Some (inner, rest)"
    using run by (auto simp: set_run_at_def Let_def split: option.splits if_splits)
  moreover have "length (dropWhile py_space (drop 4 s)) \<le> length s"
    using length_dropWhile_le [of py_space "drop 4 s"] by simp
  ultimately show ?thesis using brace_run_shorter by fastforce
qed

text \<open>\<^verbatim>\<open>_NFT_SET_RE.sub(_normalize_set_run, s)\<close>; \<open>left\<close> is the text already passed.\<close>

function sub_sets :: "string \<Rightarrow> string \<Rightarrow> string res" where
  "sub_sets left [] = Inr []"
| "sub_sets left (c # s) =
     (case set_run_at (if left = [] then None else Some (last left)) (c # s) of
        None \<Rightarrow> bindR (sub_sets (left @ [c]) s) (\<lambda>r. Inr (c # r))
      | Some (marked, inner, rest) \<Rightarrow>
          bindR (if marked then normalize_vmap_run inner else normalize_set_run left inner) (\<lambda>run.
          bindR (sub_sets (left @ take (Suc (length s) - length rest) (c # s)) rest) (\<lambda>r.
            Inr (run @ r))))"
  by pat_completeness auto
termination
  by (relation "measure (\<lambda>(l, s). length s)") (auto dest!: set_run_shorter)

text \<open>Quoted spans outside braces are kept as they are.\<close>

fun normalize_spans :: "char option \<Rightarrow> int \<Rightarrow> string \<Rightarrow> string \<Rightarrow> string res" where
  "normalize_spans q depth span [] = (if q = None then sub_sets [] span else Inr span)"
| "normalize_spans None depth span (c # s) =
     (if c = CHR ''{'' then normalize_spans None (depth + 1) (span @ [c]) s
      else if c = CHR ''}'' then normalize_spans None (depth - 1) (span @ [c]) s
      else if (c = DQUOTE \<or> c = SQUOTE) \<and> depth = 0
      then bindR (sub_sets [] span) (\<lambda>t. bindR (normalize_spans (Some c) depth [c] s) (\<lambda>r. Inr (t @ r)))
      else normalize_spans None depth (span @ [c]) s)"
| "normalize_spans (Some q) depth span (c # s) =
     (if c = q then bindR (normalize_spans None depth [] s) (\<lambda>r. Inr ((span @ [c]) @ r))
      else normalize_spans (Some q) depth (span @ [c]) s)"

definition normalize_sets :: "string \<Rightarrow> string res" where
  "normalize_sets body = normalize_spans None 0 [] body"

section \<open>Rules of nft\<close>

definition NFT_REJECT_DEFAULTS :: "(string, string) dict" where
  "NFT_REJECT_DEFAULTS = [(''ip'', ''icmp''), (''ip6'', ''icmpv6'')]"

definition NFT_REJECT_DEFAULT_TYPE :: string where
  "NFT_REJECT_DEFAULT_TYPE = ''port-unreachable''"

definition default_reject :: "string \<Rightarrow> string \<Rightarrow> string \<Rightarrow> bool" where
  "default_reject family fam t \<longleftrightarrow>
     dict_get NFT_REJECT_DEFAULTS family = Some fam \<and> t = NFT_REJECT_DEFAULT_TYPE"

definition states_token :: "string \<Rightarrow> string" where
  "states_token t =
     (let ms = split_char (CHR '','') t
      in if known_states ms then join_str '','' (state_order ms) else t)"

text \<open>What follows \<^verbatim>\<open>ct state\<close>: an optional negation and the members; and the tokens left.\<close>

definition ct_state_tail :: "string list \<Rightarrow> string list \<times> string list" where
  "ct_state_tail ts =
     (let neg = (if take 1 ts = [''!=''] then [''!=''] else []);
          us = drop (length neg) ts
      in case us of [] \<Rightarrow> (neg, []) | m # rest \<Rightarrow> (neg @ [states_token m], rest))"

text \<open>\<^verbatim>\<open>reject with fam type X\<close> and \<^verbatim>\<open>reject with fam X\<close>, given what follows \<^verbatim>\<open>with\<close>.\<close>

definition reject_tail :: "string \<Rightarrow> string list \<Rightarrow> (string list \<times> string list) option" where
  "reject_tail family ts =
     (if length ts \<ge> 3 \<and> ts ! 1 = ''type''
      then Some (if default_reject family (ts ! 0) (ts ! 2) then [''reject'']
                 else [''reject'', ''with'', ts ! 0, ts ! 2], drop 3 ts)
      else if length ts \<ge> 2 \<and> default_reject family (ts ! 0) (ts ! 1)
      then Some ([''reject''], drop 2 ts)
      else None)"

lemma ct_state_tail_shorter: "ct_state_tail ts = (out, rest) \<Longrightarrow> length rest \<le> length ts"
  by (auto simp: ct_state_tail_def Let_def split: list.splits if_splits)
     (metis Suc_leD Suc_le_mono diff_le_self length_Cons length_drop order_trans le_SucI)+

lemma reject_tail_shorter: "reject_tail family ts = Some (out, rest) \<Longrightarrow> length rest \<le> length ts"
  by (auto simp: reject_tail_def split: if_splits)

function canonical_nft :: "string \<Rightarrow> string list \<Rightarrow> string list" where
  "canonical_nft family [] = []"
| "canonical_nft family (t # ts) =
     (if t = ''ct'' \<and> take 1 ts = [''state'']
      then (case ct_state_tail (drop 1 ts) of (out, rest) \<Rightarrow> [t, ''state''] @ out @ canonical_nft family rest)
      else if t = ''reject'' \<and> length ts \<ge> 2 \<and> take 1 ts = [''with'']
      then (case reject_tail family (drop 1 ts) of
              Some (out, rest) \<Rightarrow> out @ canonical_nft family rest
            | None \<Rightarrow> t # canonical_nft family ts)
      else if t = ''limit'' \<and> length ts \<ge> 2 \<and> take 1 ts = [''rate'']
      then t # take 2 ts @
           (if take 1 (drop 2 ts) = [''burst''] then [] else [''burst'', ''5'', ''packets'']) @
           canonical_nft family (drop 2 ts)
      else t # canonical_nft family ts)"
  by pat_completeness auto
termination
  by (relation "measure (\<lambda>(f, ts). length ts)")
     (auto dest!: ct_state_tail_shorter reject_tail_shorter
        dest: ct_state_tail_shorter [OF sym] reject_tail_shorter [OF sym])

definition canonicalize_nft_rule :: "string \<Rightarrow> string \<Rightarrow> string res" where
  "canonicalize_nft_rule family body =
     normalize_sets (join_str '' '' (canonical_nft family (tokenize_rule body)))"

section \<open>Headers of base chains\<close>

text \<open>
  \<^verbatim>\<open>int(token)\<close> of a token without blanks: an optional sign, digits with single underscores
  between them, at most 4300 digits.
\<close>

definition int_of_token :: "string \<Rightarrow> int option" where
  "int_of_token t =
     (let body = (if t \<noteq> [] \<and> is_sign (hd t) then tl t else t);
          ds = filter is_digit body
      in if list_all is_ascii_uint (split_char (CHR ''_'') body) \<and> length ds \<le> 4300
         then Some (if t \<noteq> [] \<and> hd t = CHR ''-'' then - int (nat_of_string ds) else int (nat_of_string ds))
         else None)"

definition priority_map :: "string \<Rightarrow> (string, int) dict" where
  "priority_map family =
     (case dict_get NFT_PRIORITY_LANDMARKS family of None \<Rightarrow> [] | Some m \<Rightarrow> m)"

text \<open>The tokens for a priority and the number of tokens read after \<^verbatim>\<open>priority\<close>.\<close>

definition priority_tokens :: "(string, int) dict \<Rightarrow> string list \<Rightarrow> string \<times> nat" where
  "priority_tokens landmarks ts =
     (case dict_get landmarks (hd ts) of
        None \<Rightarrow> (hd ts, 1)
      | Some base \<Rightarrow>
          if length ts \<ge> 3 \<and> (ts ! 1 = ''+'' \<or> ts ! 1 = ''-'')
          then (case int_of_token (ts ! 2) of
                  None \<Rightarrow> (hd ts, 1)
                | Some m \<Rightarrow> (string_of_int (apply_priority_offset base (hd (ts ! 1)) m), 3))
          else (string_of_int base, 1))"

text \<open>The tokens of the header and whether one of them is \<^verbatim>\<open>policy\<close>.\<close>

function canonical_header :: "(string, int) dict \<Rightarrow> string list \<Rightarrow> string list \<times> bool" where
  "canonical_header landmarks [] = ([], False)"
| "canonical_header landmarks (t # ts) =
     (if t = ''priority'' \<and> ts \<noteq> []
      then (case priority_tokens landmarks ts of
              (out, n) \<Rightarrow> apfst (\<lambda>r. t # out # r) (canonical_header landmarks (drop n ts)))
      else case canonical_header landmarks ts of
             (r, seen) \<Rightarrow> (t # r, t = ''policy'' \<or> seen))"
  by pat_completeness auto
termination by (relation "measure (\<lambda>(l, ts). length ts)") auto

definition canonicalize_nft_header :: "string \<Rightarrow> string \<Rightarrow> string" where
  "canonicalize_nft_header family header =
     (case canonical_header (priority_map family) (py_split (replace_char (CHR '';'') '' '' header)) of
        (out, seen) \<Rightarrow> join_str '' '' (out @ (if seen then [] else [''policy'', ''accept''])))"

end
