(* ===== verification/Ferm_Readback.thy ===== *)
theory Ferm_Readback
  imports Ferm_Canon
begin

text \<open>
  The parsers of \<^verbatim>\<open>src/src/pyferm/plan/readback.py\<close>: a dump of iptables-save, the script the
  nft backend renders, and the listing of the live nft table. Each line is one step on the state read
  so far; a line no production accepts ends the run with a parse error.
\<close>

section \<open>Lines\<close>

definition parse_error :: "nat \<Rightarrow> string \<Rightarrow> failure" where
  "parse_error lineno line =
     Died (''cannot parse save line '' @ string_of_nat lineno @ '': '' @
       py_repr (filter py_printable (take 80 (rev (dropWhile (\<lambda>c. c = NL) (rev line))))))"

fun foldR :: "('a \<Rightarrow> 's \<Rightarrow> 's res) \<Rightarrow> 'a list \<Rightarrow> 's \<Rightarrow> 's res" where
  "foldR f [] s = Inr s"
| "foldR f (x # xs) s = bindR (f x s) (foldR f xs)"

lemma foldR_append: "foldR f (xs @ ys) s = bindR (foldR f xs s) (foldR f ys)"
  by (induction xs arbitrary: s) (auto simp: bindR_def split: sum.splits)

definition numbered :: "string list \<Rightarrow> (nat \<times> string) list" where
  "numbered ls = zip [1..<Suc (length ls)] ls"

definition skipped_line :: "string \<Rightarrow> bool" where
  "skipped_line line \<longleftrightarrow> line = [] \<or> hd line = CHR ''#''"

section \<open>iptables-save\<close>

type_synonym save_state = "parsed \<times> string option"

definition put_chain :: "string \<Rightarrow> parsed_chain \<Rightarrow> parsed_table \<Rightarrow> parsed_table" where
  "put_chain n c t = t\<lparr>pt_chains := dict_set n c (pt_chains t)\<rparr>"

definition append_rule_to :: "string \<Rightarrow> string \<Rightarrow> parsed_table \<Rightarrow> parsed_table" where
  "append_rule_to n r t =
     (case dict_get (pt_chains t) n of
        None \<Rightarrow> t
      | Some c \<Rightarrow> put_chain n (c\<lparr>pc_rules := pc_rules c @ [r]\<rparr>) t)"

definition change_table :: "string \<Rightarrow> (parsed_table \<Rightarrow> parsed_table) \<Rightarrow> parsed \<Rightarrow> parsed" where
  "change_table n f ts = (case dict_get ts n of None \<Rightarrow> ts | Some t \<Rightarrow> dict_set n (f t) ts)"

definition empty_chain :: "string \<Rightarrow> parsed_chain" where
  "empty_chain policy = \<lparr>pc_policy = policy, pc_rules = []\<rparr>"

definition save_rule_line ::
  "string \<Rightarrow> failure \<Rightarrow> string \<Rightarrow> string \<Rightarrow> parsed \<Rightarrow> save_state res" where
  "save_rule_line hm e body tname ts =
     (let chain = takeWhile (\<lambda>c. c \<noteq> CHR '' '') body;
          rest = drop (Suc (length chain)) body
      in if chain = [] \<or> (case dict_get ts tname of None \<Rightarrow> True | Some t \<Rightarrow> \<not> dict_has (pt_chains t) chain)
         then Inl e
         else Inr (change_table tname (append_rule_to chain (canonicalize_rule rest hm)) ts, Some tname))"

definition save_step :: "string \<Rightarrow> nat \<times> string \<Rightarrow> save_state \<Rightarrow> save_state res" where
  "save_step hm numbered_line st =
     (case (numbered_line, st) of ((lineno, raw), (ts, cur)) \<Rightarrow>
        let line = py_strip raw; e = parse_error lineno raw
        in if skipped_line line then Inr (ts, cur)
           else if hd line = CHR ''*''
           then (let name = tl line
                 in if cur \<noteq> None \<or> name = [] \<or> CHR '' '' \<in> set name \<or> dict_has ts name then Inl e
                    else Inr (dict_set name empty_parsed_table ts, Some name))
           else if line = ''COMMIT'' then (if cur = None then Inl e else Inr (ts, None))
           else case cur of
                  None \<Rightarrow> Inl e
                | Some tname \<Rightarrow>
                    if hd line = CHR '':''
                    then (let parts = py_split (tl line)
                          in if length parts < 2 \<or> 3 < length parts then Inl e
                             else Inr (change_table tname (put_chain (parts ! 0) (empty_chain (parts ! 1))) ts, cur))
                    else if starts_with ''-A '' line then save_rule_line hm e (drop 3 line) tname ts
                    else Inl e)"

definition parse_save :: "string \<Rightarrow> string \<Rightarrow> parsed res" where
  "parse_save hm txt =
     (let ls = py_splitlines txt
      in bindR (foldR (save_step hm) (numbered ls) ([], None)) (\<lambda>(ts, cur).
           if cur \<noteq> None then Inl (parse_error (length ls) ''<EOF: missing COMMIT>'') else Inr ts))"

section \<open>The script of the nft backend\<close>

definition ensure_ferm_table :: "parsed \<Rightarrow> parsed" where
  "ensure_ferm_table ts =
     (if dict_has ts NFT_TABLE_NAME then ts else dict_set NFT_TABLE_NAME empty_parsed_table ts)"

definition in_ferm :: "(parsed_table \<Rightarrow> parsed_table) \<Rightarrow> parsed \<Rightarrow> parsed" where
  "in_ferm f ts = change_table NFT_TABLE_NAME f (ensure_ferm_table ts)"

definition find_char :: "char \<Rightarrow> string \<Rightarrow> nat option" where
  "find_char c s = (if c \<in> set s then Some (length (takeWhile (\<lambda>d. d \<noteq> c) s)) else None)"

definition rfind_char :: "char \<Rightarrow> string \<Rightarrow> nat option" where
  "rfind_char c s = (if c \<in> set s then Some (length s - 1 - length (takeWhile (\<lambda>d. d \<noteq> c) (rev s))) else None)"

definition brace_body :: "string \<Rightarrow> string option" where
  "brace_body line =
     (case (find_char (CHR ''{'') line, rfind_char (CHR ''}'') line) of
        (Some a, Some b) \<Rightarrow> if b \<le> a then None else Some (take (b - a - 1) (drop (Suc a) line))
      | _ \<Rightarrow> None)"

definition put_object :: "string \<Rightarrow> string \<Rightarrow> string \<Rightarrow> parsed_table \<Rightarrow> parsed_table" where
  "put_object n kind body t =
     t\<lparr>pt_objects := dict_set n \<lparr>po_name = n, po_kind = kind, po_body = body\<rparr> (pt_objects t)\<rparr>"

definition store_table_object :: "string \<Rightarrow> string \<Rightarrow> string \<Rightarrow> parsed \<Rightarrow> parsed" where
  "store_table_object n kind line ts =
     in_ferm (put_object n kind (py_strip (text_or_empty (brace_body line)))) ts"

fun set_header_step :: "string list \<Rightarrow> string option \<times> string list \<Rightarrow> string option \<times> string list" where
  "set_header_step ts (ty, fl) =
     (if take 1 ts = [''type''] \<and> length ts > 1 then (Some (ts ! 1), fl)
      else if take 1 ts = [''flags''] then (ty, fl @ drop 1 ts)
      else (ty, fl))"

definition parse_set_header :: "string \<Rightarrow> string option \<times> string list" where
  "parse_set_header inner =
     fold set_header_step
       (map py_split (split_char (CHR '';'') (replace_char NL '';'' inner))) (None, [])"

definition check_family :: "string option \<Rightarrow> string \<Rightarrow> failure \<Rightarrow> string res" where
  "check_family cur seen e = (if cur \<noteq> None \<and> cur \<noteq> Some seen then Inl e else Inr seen)"

text \<open>The head of an object line: table and family are checked, the name stands at index \<open>k\<close>.\<close>

definition parse_object_head ::
  "nat \<Rightarrow> string list \<Rightarrow> string option \<Rightarrow> failure \<Rightarrow> (string \<times> string) res" where
  "parse_object_head k parts fam e =
     (if parts ! (k - 1) \<noteq> NFT_TABLE_NAME then Inl e
      else bindR (check_family fam (parts ! (k - 2)) e) (\<lambda>f. Inr (f, parts ! k)))"

type_synonym script_state = "parsed \<times> string option"

definition script_table_line :: "string list \<Rightarrow> failure \<Rightarrow> script_state \<Rightarrow> script_state res" where
  "script_table_line parts e st =
     (case st of (ts, fam) \<Rightarrow>
        if length parts \<noteq> 4 \<or> parts ! 3 \<noteq> NFT_TABLE_NAME then Inl e
        else bindR (check_family fam (parts ! 2) e) (\<lambda>f.
               Inr (if parts ! 0 = ''delete'' then dict_del NFT_TABLE_NAME ts else ensure_ferm_table ts, Some f)))"

definition script_chain_line :: "string \<Rightarrow> string list \<Rightarrow> failure \<Rightarrow> script_state \<Rightarrow> script_state res" where
  "script_chain_line line parts e st =
     (case st of (ts, fam) \<Rightarrow>
        bindR (parse_object_head 4 parts fam e) (\<lambda>(f, n).
          if drop 5 parts = [] then Inr (in_ferm (put_chain n (empty_chain ''-'')) ts, Some f)
          else if parts ! 5 = ''{''
          then (case brace_body (py_strip (drop 9 line)) of
                  None \<Rightarrow> Inl e
                | Some h \<Rightarrow>
                    Inr (in_ferm (put_chain n (empty_chain (canonicalize_nft_header f (py_strip h)))) ts, Some f))
          else Inl e))"

definition new_set :: "string \<Rightarrow> parsed_set" where
  "new_set n = \<lparr>ps_name = n, ps_elements = [], ps_type = None, ps_flags = []\<rparr>"

definition change_set :: "string \<Rightarrow> (parsed_set \<Rightarrow> parsed_set) \<Rightarrow> parsed_table \<Rightarrow> parsed_table" where
  "change_set n f t =
     t\<lparr>pt_sets := dict_set n (f (case dict_get (pt_sets t) n of None \<Rightarrow> new_set n | Some s \<Rightarrow> s)) (pt_sets t)\<rparr>"

definition declare_set :: "string \<Rightarrow> parsed_set \<Rightarrow> parsed_set" where
  "declare_set line s =
     (case brace_body line of
        None \<Rightarrow> s
      | Some b \<Rightarrow> (case parse_set_header b of (ty, fl) \<Rightarrow> s\<lparr>ps_type := ty, ps_flags := fl\<rparr>))"

definition set_line :: "string \<Rightarrow> string list \<Rightarrow> failure \<Rightarrow> script_state \<Rightarrow> script_state res" where
  "set_line line parts e st =
     (case st of (ts, fam) \<Rightarrow>
        bindR (parse_object_head 4 parts fam e) (\<lambda>(f, n).
          Inr (in_ferm (change_set n (declare_set line)) ts, Some f)))"

definition object_line ::
  "nat \<Rightarrow> string \<Rightarrow> string \<Rightarrow> string list \<Rightarrow> failure \<Rightarrow> script_state \<Rightarrow> script_state res" where
  "object_line k kind line parts e st =
     (case st of (ts, fam) \<Rightarrow>
        bindR (parse_object_head k parts fam e) (\<lambda>(f, n).
          Inr (store_table_object n kind line ts, Some f)))"

definition listed_elements :: "string \<Rightarrow> string list" where
  "listed_elements body = filter (\<lambda>x. x \<noteq> []) (map py_strip (split_char (CHR '','') body))"

text \<open>The elements of the set after further ones were added to it.\<close>

definition merged_elements :: "string \<Rightarrow> string list \<Rightarrow> parsed_table \<Rightarrow> string list res" where
  "merged_elements n xs t =
     canonicalize_set_elements False
       ((case dict_get (pt_sets t) n of None \<Rightarrow> [] | Some s \<Rightarrow> ps_elements s) @ xs)"

definition ferm_of :: "parsed \<Rightarrow> parsed_table" where
  "ferm_of ts = (case dict_get ts NFT_TABLE_NAME of None \<Rightarrow> empty_parsed_table | Some t \<Rightarrow> t)"

definition element_line :: "string \<Rightarrow> string list \<Rightarrow> failure \<Rightarrow> script_state \<Rightarrow> script_state res" where
  "element_line line parts e st =
     (case st of (ts, fam) \<Rightarrow>
        bindR (parse_object_head 4 parts fam e) (\<lambda>(f, n).
          case brace_body line of
            None \<Rightarrow> Inl e
          | Some body \<Rightarrow>
              bindR (merged_elements n (listed_elements body) (ferm_of ts)) (\<lambda>xs.
                Inr (in_ferm (change_set n (\<lambda>s. s\<lparr>ps_elements := xs\<rparr>)) ts, Some f))))"

definition rule_body :: "string \<Rightarrow> string list \<Rightarrow> string" where
  "rule_body line parts =
     py_strip (drop (length (''add rule '' @ parts ! 2 @ '' ferm '' @ parts ! 4)) line)"

definition nft_rule_line :: "string \<Rightarrow> string list \<Rightarrow> failure \<Rightarrow> script_state \<Rightarrow> script_state res" where
  "nft_rule_line line parts e st =
     (case st of (ts, fam) \<Rightarrow>
        bindR (parse_object_head 4 parts fam e) (\<lambda>(f, n).
          if \<not> dict_has (pt_chains (ferm_of ts)) n then Inl e
          else bindR (canonicalize_nft_rule f (rule_body line parts)) (\<lambda>r.
                 Inr (in_ferm (append_rule_to n r) ts, Some f))))"

definition script_line :: "string \<Rightarrow> failure \<Rightarrow> script_state \<Rightarrow> script_state res" where
  "script_line line e st =
     (let parts = py_split line; verb = parts ! 0; sub = (if length parts > 1 then parts ! 1 else [])
      in if take 1 (drop 1 parts) = [''table''] \<and> verb \<in> {''add'', ''flush'', ''delete''}
         then script_table_line parts e st
         else if verb \<noteq> ''add'' then Inl e
         else if sub = ''chain'' \<and> length parts \<ge> 5 then script_chain_line line parts e st
         else if sub = ''set'' \<and> length parts \<ge> 5 then set_line line parts e st
         else if sub = ''secmark'' \<and> length parts \<ge> 5 then object_line 4 ''secmark'' line parts e st
         else if sub = ''ct'' \<and> take 1 (drop 2 parts) = [''helper''] \<and> length parts \<ge> 7
         then object_line 5 ''ct helper'' line parts e st
         else if sub = ''element'' \<and> length parts \<ge> 5 then element_line line parts e st
         else if sub = ''rule'' \<and> length parts \<ge> 6 then nft_rule_line line parts e st
         else Inl e)"

definition script_step :: "nat \<times> string \<Rightarrow> script_state \<Rightarrow> script_state res" where
  "script_step numbered_line st =
     (case numbered_line of (lineno, raw) \<Rightarrow>
        let line = py_strip raw
        in if skipped_line line then Inr st else script_line line (parse_error lineno raw) st)"

definition parse_nft_script :: "string \<Rightarrow> parsed res" where
  "parse_nft_script txt =
     bindR (foldR script_step (numbered (py_splitlines txt)) ([], None)) (\<lambda>(ts, fam). Inr ts)"

section \<open>The listing of the live table\<close>

definition py_lstrip :: "string \<Rightarrow> string" where
  "py_lstrip s = dropWhile py_space s"

fun join_elements :: "string option \<Rightarrow> string list \<Rightarrow> string list" where
  "join_elements None [] = []"
| "join_elements (Some b) [] = [b]"
| "join_elements (Some b) (l # ls) =
     (let b' = b @ '' '' @ py_strip l
      in if CHR ''}'' \<in> set l then b' # join_elements None ls else join_elements (Some b') ls)"
| "join_elements None (l # ls) =
     (if starts_with ''elements'' (py_lstrip l) \<and> CHR ''}'' \<notin> set l
      then join_elements (Some (py_rstrip l)) ls else l # join_elements None ls)"

definition join_multiline_elements :: "string \<Rightarrow> string" where
  "join_multiline_elements txt =
     join_str [NL] (join_elements None (py_splitlines txt)) @ (if ends_with [NL] txt then [NL] else [])"

datatype nft_block = Outside | InTable | InChain string bool | InSet string | InObject string

text \<open>\<^verbatim>\<open>^keyword\s+(\S+)\s*\{$\<close> on a stripped line.\<close>

definition opener :: "string \<Rightarrow> string \<Rightarrow> string option" where
  "opener kw line =
     (let rest = drop (length kw) line; body = py_lstrip rest; name = py_rstrip (butlast body)
      in if starts_with kw line \<and> rest \<noteq> [] \<and> py_space (hd rest) \<and> body \<noteq> [] \<and> last body = CHR ''{'' \<and>
            name \<noteq> [] \<and> list_all (\<lambda>c. \<not> py_space c) name
         then Some name else None)"

text \<open>\<^verbatim>\<open>^table\s+(\S+)\s+ferm\s*\{$\<close>\<close>

definition table_opener :: "string \<Rightarrow> string option" where
  "table_opener line =
     (let rest = drop 5 line; body = py_lstrip rest;
          fam = takeWhile (\<lambda>c. \<not> py_space c) body; after_fam = drop (length fam) body;
          tail = py_lstrip after_fam
      in if starts_with ''table'' line \<and> rest \<noteq> [] \<and> py_space (hd rest) \<and> fam \<noteq> [] \<and> after_fam \<noteq> [] \<and>
            starts_with ''ferm'' tail \<and> py_lstrip (drop 4 tail) = ''{''
         then Some fam else None)"

definition header_line :: "string \<Rightarrow> bool" where
  "header_line line \<longleftrightarrow>
     (let ws = py_split line
      in length ws \<ge> 5 \<and> ws ! 0 = ''type'' \<and> ws ! 2 = ''hook'' \<and> starts_with ''priority'' (ws ! 4) \<and>
         (drop 8 (ws ! 4) = [] \<or> \<not> py_wordchar (hd (drop 8 (ws ! 4)))))"

definition ident_char :: "char \<Rightarrow> bool" where
  "ident_char c \<longleftrightarrow> is_word c"

definition set_ident :: "string \<Rightarrow> bool" where
  "set_ident s \<longleftrightarrow> s \<noteq> [] \<and> is_alpha (hd s) \<and> list_all ident_char (tl s)"

definition chain_ident :: "string \<Rightarrow> bool" where
  "chain_ident s \<longleftrightarrow> s \<noteq> [] \<and> is_alpha (hd s) \<and> list_all (\<lambda>c. ident_char c \<or> c = CHR ''-'') (tl s)"

type_synonym list_state = "parsed \<times> nft_block"

definition in_table_line :: "string \<Rightarrow> failure \<Rightarrow> parsed \<Rightarrow> list_state res" where
  "in_table_line line e ts =
     (let object = (\<lambda>kind n. if set_ident n
                       then Inr (change_table NFT_TABLE_NAME (put_object n kind []) ts, InObject n) else Inl e)
      in if line = ''}'' then Inr (ts, Outside)
         else case opener ''secmark'' line of
                Some n \<Rightarrow> object ''secmark'' n
              | None \<Rightarrow>
         (case opener ''ct helper'' line of
                Some n \<Rightarrow> object ''ct helper'' n
              | None \<Rightarrow>
         (case opener ''set'' line of
                Some n \<Rightarrow>
                  if set_ident n
                  then Inr (change_table NFT_TABLE_NAME
                         (\<lambda>t. t\<lparr>pt_sets := dict_set n (new_set n) (pt_sets t)\<rparr>) ts, InSet n)
                  else Inl e
              | None \<Rightarrow>
         (case opener ''chain'' line of
                Some n \<Rightarrow>
                  if chain_ident n
                  then Inr (change_table NFT_TABLE_NAME (put_chain n (empty_chain ''-'')) ts, InChain n False)
                  else Inl e
              | None \<Rightarrow> Inl e))))"

definition change_chain :: "string \<Rightarrow> (parsed_chain \<Rightarrow> parsed_chain) \<Rightarrow> parsed_table \<Rightarrow> parsed_table" where
  "change_chain n f t = (case dict_get (pt_chains t) n of None \<Rightarrow> t | Some c \<Rightarrow> put_chain n (f c) t)"

definition in_chain_line :: "string \<Rightarrow> string \<Rightarrow> string \<Rightarrow> bool \<Rightarrow> parsed \<Rightarrow> list_state res" where
  "in_chain_line family line n seen ts =
     (if line = ''}'' then Inr (ts, InTable)
      else if \<not> seen \<and> header_line line
      then Inr (change_table NFT_TABLE_NAME
             (change_chain n (\<lambda>c. c\<lparr>pc_policy := canonicalize_nft_header family line\<rparr>)) ts, InChain n True)
      else bindR (canonicalize_nft_rule family line) (\<lambda>r.
             Inr (change_table NFT_TABLE_NAME (append_rule_to n r) ts, InChain n True)))"

definition in_object_line :: "string \<Rightarrow> string \<Rightarrow> parsed \<Rightarrow> list_state res" where
  "in_object_line line n ts =
     (if line = ''}'' then Inr (ts, InTable)
      else Inr (change_table NFT_TABLE_NAME
             (\<lambda>t. case dict_get (pt_objects t) n of
                    None \<Rightarrow> t
                  | Some x \<Rightarrow> put_object n (po_kind x)
                      (if po_body x = [] then line else py_strip (po_body x @ '' '' @ line)) t) ts, InObject n))"

definition in_set_line :: "string \<Rightarrow> string \<Rightarrow> parsed \<Rightarrow> list_state res" where
  "in_set_line line n ts =
     (if line = ''}'' then Inr (ts, InTable)
      else if starts_with ''elements'' line
      then (case brace_body line of
              None \<Rightarrow> Inr (ts, InSet n)
            | Some body \<Rightarrow>
                bindR (merged_elements n (listed_elements body) (ferm_of ts)) (\<lambda>xs.
                  Inr (change_table NFT_TABLE_NAME (change_set n (\<lambda>s. s\<lparr>ps_elements := xs\<rparr>)) ts, InSet n)))
      else (case parse_set_header line of
              (ty, fl) \<Rightarrow>
                Inr (change_table NFT_TABLE_NAME
                   (change_set n (\<lambda>s. s\<lparr>ps_type := (if ty = None then ps_type s else ty), ps_flags := ps_flags s @ fl\<rparr>)) ts,
                   InSet n)))"

definition list_step :: "string \<Rightarrow> nat \<times> string \<Rightarrow> list_state \<Rightarrow> list_state res" where
  "list_step family numbered_line st =
     (case (numbered_line, st) of ((lineno, raw), (ts, block)) \<Rightarrow>
        let line = py_strip raw; e = parse_error lineno raw
        in if skipped_line line then Inr st
           else case block of
                  Outside \<Rightarrow>
                    (case table_opener line of
                       None \<Rightarrow> Inl e
                     | Some fam \<Rightarrow> if fam \<noteq> family then Inl e else Inr (ensure_ferm_table ts, InTable))
                | InTable \<Rightarrow> in_table_line line e ts
                | InChain n seen \<Rightarrow> in_chain_line family line n seen ts
                | InSet n \<Rightarrow> in_set_line line n ts
                | InObject n \<Rightarrow> in_object_line line n ts)"

definition parse_nft_list :: "string \<Rightarrow> string \<Rightarrow> parsed res" where
  "parse_nft_list family txt =
     (let ls = py_splitlines (join_multiline_elements txt)
      in bindR (foldR (list_step family) (numbered ls) ([], Outside)) (\<lambda>(ts, block).
           if block = Outside then Inr ts
           else Inl (parse_error (if ls = [] then 1 else length ls) ''<EOF: unterminated block>'')))"

end
