(* ===== verification/Ferm_Delta.thy ===== *)
theory Ferm_Delta
  imports Ferm_Readback
begin

text \<open>
  The incremental delta of the nft backend, \<^verbatim>\<open>src/src/pyferm/plan/delta.py\<close>: the lines of the
  rendered script by object, the two phases of a delta and the decision for a full reload.
\<close>

section \<open>The index of the rendered script\<close>

record desired_index =
  ix_chain_decl :: "(string, string) dict"
  ix_chain_rules :: "(string, string list) dict"
  ix_set_decl :: "(string, string) dict"
  ix_set_elements :: "(string, string) dict"
  ix_object_decl :: "(string, string) dict"

definition empty_index :: desired_index where
  "empty_index = \<lparr>ix_chain_decl = [], ix_chain_rules = [], ix_set_decl = [], ix_set_elements = [], ix_object_decl = []\<rparr>"

definition unexpected_line :: "string \<Rightarrow> failure" where
  "unexpected_line line = internal_error (''unexpected render line: '' @ py_repr line)"

definition listed_rules :: "desired_index \<Rightarrow> string \<Rightarrow> string list" where
  "listed_rules ix n = (case dict_get (ix_chain_rules ix) n of None \<Rightarrow> [] | Some rs \<Rightarrow> rs)"

definition index_object :: "string \<Rightarrow> string \<Rightarrow> string \<Rightarrow> desired_index \<Rightarrow> desired_index res" where
  "index_object sub n line ix =
     (if sub = ''chain'' then Inr (ix\<lparr>ix_chain_decl := dict_set n line (ix_chain_decl ix)\<rparr>)
      else if sub = ''rule''
      then Inr (ix\<lparr>ix_chain_rules := dict_set n (listed_rules ix n @ [line]) (ix_chain_rules ix)\<rparr>)
      else if sub = ''set'' then Inr (ix\<lparr>ix_set_decl := dict_set n line (ix_set_decl ix)\<rparr>)
      else if sub = ''element'' then Inr (ix\<lparr>ix_set_elements := dict_set n line (ix_set_elements ix)\<rparr>)
      else if sub = ''secmark'' then Inr (ix\<lparr>ix_object_decl := dict_set n line (ix_object_decl ix)\<rparr>)
      else Inl (unexpected_line line))"

definition index_line :: "string \<Rightarrow> desired_index \<Rightarrow> desired_index res" where
  "index_line raw ix =
     (let line = py_strip raw; parts = py_split line
      in if skipped_line line then Inr ix
         else if take 2 parts = [''delete'', ''table''] then Inr empty_index
         else if take 2 parts = [''add'', ''table''] \<or> take 2 parts = [''flush'', ''table''] then Inr ix
         else if length parts \<le> 4 \<or> parts ! 0 \<noteq> ''add'' then Inl (unexpected_line line)
         else if parts ! 1 = ''ct'' \<and> parts ! 2 = ''helper'' \<and> length parts > 5
         then Inr (ix\<lparr>ix_object_decl := dict_set (parts ! 5) line (ix_object_decl ix)\<rparr>)
         else index_object (parts ! 1) (parts ! 4) line ix)"

definition build_desired_index :: "string \<Rightarrow> desired_index res" where
  "build_desired_index save = foldR index_line (py_splitlines save) empty_index"

section \<open>The two phases\<close>

definition ferm_prefix :: "string \<Rightarrow> string" where
  "ferm_prefix family = family @ '' ferm''"

definition element_command :: "string \<Rightarrow> string \<Rightarrow> string \<Rightarrow> string list \<Rightarrow> string list" where
  "element_command verb family n xs =
     (if xs = [] then []
      else [verb @ '' element '' @ ferm_prefix family @ '' '' @ n @ '' { '' @ join_str '', '' xs @ '' }''])"

definition set_change_lines ::
  "string \<Rightarrow> (string, parsed_set) dict \<Rightarrow> desired_index \<Rightarrow> set_change \<Rightarrow> string list res" where
  "set_change_lines family current ix sc =
     (case sch_kind sc of
        SetRemove \<Rightarrow>
          Inl (internal_error (''set remove reached the emitter (should full-reload): '' @ py_repr (sch_name sc)))
      | SetAdd \<Rightarrow>
          (case dict_get (ix_set_decl ix) (sch_name sc) of
             None \<Rightarrow> Inl (internal_error (''no desired decl for set '' @ py_repr (sch_name sc)))
           | Some decl \<Rightarrow>
               Inr (decl # (case dict_get (ix_set_elements ix) (sch_name sc) of None \<Rightarrow> [] | Some l \<Rightarrow> [l])))
      | SetModify \<Rightarrow>
          (case dict_get current (sch_name sc) of
             None \<Rightarrow> Inl PyKeyError
           | Some live \<Rightarrow>
               let removed = filter (\<lambda>x. x \<notin> set (sch_elements sc)) (ps_elements live);
                   added = filter (\<lambda>x. x \<notin> set (ps_elements live)) (sch_elements sc)
               in Inr (element_command ''delete'' family (sch_name sc) removed @
                       element_command ''add'' family (sch_name sc) added)))"

definition emit_set_changes ::
  "string \<Rightarrow> parsed_table \<Rightarrow> desired_index \<Rightarrow> plan_diff \<Rightarrow> string list res" where
  "emit_set_changes family current ix d =
     bindR (mapR (set_change_lines family (pt_sets current) ix) (sort_key sch_name (pd_sets d)))
       (\<lambda>ls. Inr (concat ls))"

definition delete_chain :: "string \<Rightarrow> string \<Rightarrow> string" where
  "delete_chain family n = ''delete chain '' @ ferm_prefix family @ '' '' @ n"

definition flush_chain :: "string \<Rightarrow> string \<Rightarrow> string" where
  "flush_chain family n = ''flush chain '' @ ferm_prefix family @ '' '' @ n"

definition rule_changed :: "plan_diff \<Rightarrow> string \<Rightarrow> bool" where
  "rule_changed d n \<longleftrightarrow> n \<in> set (map rch_chain (pd_added d @ pd_removed d))"

definition chain_lines ::
  "string \<Rightarrow> parsed_table \<Rightarrow> desired_index \<Rightarrow> plan_diff \<Rightarrow> string \<Rightarrow> string list" where
  "chain_lines family current ix d n =
     (let decl = (case dict_get (ix_chain_decl ix) n of None \<Rightarrow> [] | Some l \<Rightarrow> l);
          rules = listed_rules ix n
      in if \<not> dict_has (pt_chains current) n then decl # rules
         else if n \<in> set (map pch_chain (pd_rebuilds d)) then delete_chain family n # decl # rules
         else if rule_changed d n then decl # flush_chain family n # rules
         else if n \<in> set (map pch_chain (pd_policy d)) then [decl]
         else [])"

definition emit_chain_changes ::
  "string \<Rightarrow> parsed_table \<Rightarrow> desired_index \<Rightarrow> plan_diff \<Rightarrow> string list" where
  "emit_chain_changes family current ix d =
     concat (map (chain_lines family current ix d) (sort (dict_keys (ix_chain_decl ix)))) @
     map (delete_chain family) (sort (map nch_chain (pd_desuet d))) @
     map (delete_chain family) (sort (map nch_chain (pd_foreign d)))"

definition delta_lines ::
  "string \<Rightarrow> parsed_table \<Rightarrow> desired_index \<Rightarrow> plan_diff \<Rightarrow> string list res" where
  "delta_lines family current ix d =
     (if \<not> has_changes d then Inr []
      else bindR (emit_set_changes family current ix d) (\<lambda>ls.
             Inr ((''add table '' @ ferm_prefix family) # ls @ emit_chain_changes family current ix d)))"

definition emit_delta_script ::
  "string \<Rightarrow> parsed \<Rightarrow> desired_index \<Rightarrow> plan_diff \<Rightarrow> string res" where
  "emit_delta_script family current ix d =
     bindR (delta_lines family (ferm_of current) ix d) (\<lambda>ls.
       Inr (if ls = [] then [] else join_str [NL] ls @ [NL]))"

section \<open>Delta or full reload\<close>

definition needs_full_reload :: "string option \<Rightarrow> bool" where
  "needs_full_reload previous = (case previous of None \<Rightarrow> True | Some p \<Rightarrow> py_strip p = [])"

definition delta_unsafe :: "plan_diff \<Rightarrow> bool" where
  "delta_unsafe d \<longleftrightarrow> list_ex (\<lambda>sc. sch_kind sc = SetRemove) (pd_sets d) \<or> pd_objects d \<noteq> []"

definition build_nft_delta :: "string \<Rightarrow> string \<Rightarrow> string \<Rightarrow> string option res" where
  "build_nft_delta family previous desired_save =
     bindR (parse_nft_list family previous) (\<lambda>current.
     bindR (parse_nft_script desired_save) (\<lambda>desired.
       let d = diff_tables False current desired
       in if delta_unsafe d then Inr None
          else bindR (build_desired_index desired_save) (\<lambda>ix.
               bindR (emit_delta_script family current ix d) (\<lambda>s. Inr (Some s)))))"

end
