(* ===== verification/Ferm_Diff_Safe.thy ===== *)
theory Ferm_Diff_Safe
  imports Ferm_Diff
begin

text \<open>
  What a plan without changes says. The exact condition on the live and the desired state is
  \<open>state_agrees\<close>, which follows the steps of the differ; it is weaker than sameness of the two states,
  \<open>same_state\<close>, and the places where it is are those \<open>comparable\<close> excludes.
\<close>

section \<open>Agreement of two tables\<close>

definition chain_agrees :: "parsed_chain option \<Rightarrow> parsed_chain \<Rightarrow> bool" where
  "chain_agrees cur des =
     (case cur of
        None \<Rightarrow> pc_rules des = []
      | Some c \<Rightarrow> pc_rules c = pc_rules des \<and> (is_builtin c \<longrightarrow> pc_policy c = pc_policy des))"

definition set_agrees :: "parsed_set option \<Rightarrow> parsed_set \<Rightarrow> bool" where
  "set_agrees cur des =
     (case cur of
        None \<Rightarrow> False
      | Some c \<Rightarrow> ps_type c = ps_type des \<and> ps_flags c = ps_flags des \<and>
          (set_is_dynamic des \<or> ps_elements c = ps_elements des))"

definition table_agrees :: "parsed_table \<Rightarrow> parsed_table \<Rightarrow> bool" where
  "table_agrees cur des \<longleftrightarrow>
     list_all (\<lambda>(n, d). chain_agrees (dict_get (pt_chains cur) n) d) (pt_chains des) \<and>
     list_all (\<lambda>n. dict_has (pt_chains des) n) (dict_keys (pt_chains cur)) \<and>
     list_all (\<lambda>(n, d). set_agrees (dict_get (pt_sets cur) n) d) (pt_sets des) \<and>
     list_all (\<lambda>n. dict_has (pt_sets des) n) (dict_keys (pt_sets cur)) \<and>
     list_all (\<lambda>n. dict_has (pt_objects cur) n) (dict_keys (pt_objects des)) \<and>
     list_all (\<lambda>n. dict_has (pt_objects des) n) (dict_keys (pt_objects cur))"

definition state_agrees :: "parsed \<Rightarrow> parsed \<Rightarrow> bool" where
  "state_agrees current desired =
     list_all (\<lambda>(t, d). table_agrees (case dict_get current t of None \<Rightarrow> empty_parsed_table | Some c \<Rightarrow> c) d) desired"

section \<open>Each step of the diff\<close>

lemma policy_differs_agrees:
  "\<not> policy_differs cur des \<and> rules_of cur = pc_rules des \<longleftrightarrow> chain_agrees cur des"
  by (cases cur) (auto simp: policy_differs_def rules_of_def chain_agrees_def)

lemma diff_rules_changes: "diff_rules cur des = (ad, rm) \<Longrightarrow> cur = des \<longleftrightarrow> ad = [] \<and> rm = []"
  using diff_rules_none [of cur des] by auto

lemma diff_chain_changes:
  "has_changes (diff_chain t False curs (n, des) d) \<longleftrightarrow>
     has_changes d \<or> \<not> chain_agrees (dict_get curs n) des"
proof -
  let ?cur = "dict_get curs n"
  obtain ad rm where dr: "diff_rules (rules_of ?cur) (pc_rules des) = (ad, rm)" by fastforce
  have same: "rules_of ?cur = pc_rules des \<longleftrightarrow> ad = [] \<and> rm = []" by (rule diff_rules_changes [OF dr])
  show ?thesis
  proof (cases "chain_rebuilt ?cur des")
    case True
    then have "\<not> chain_agrees ?cur des"
      unfolding policy_differs_agrees [symmetric] by (simp add: chain_rebuilt_def)
    then show ?thesis using True by (simp add: diff_chain_def Let_def has_changes_def)
  next
    case False
    then show ?thesis
      unfolding policy_differs_agrees [symmetric] same
      by (auto simp: diff_chain_def Let_def dr has_changes_def emit_removal_def)
  qed
qed

lemma diff_chains_changes:
  "has_changes (fold (diff_chain t False curs) cs d) \<longleftrightarrow>
     has_changes d \<or> \<not> list_all (\<lambda>(n, des). chain_agrees (dict_get curs n) des) cs"
proof (induction cs arbitrary: d)
  case (Cons cd cs)
  then show ?case by (cases cd) (auto simp: diff_chain_changes)
qed simp

lemma set_changes_none:
  "set_changes_for t curs (n, des) = [] \<longleftrightarrow> set_agrees (dict_get curs n) des"
  by (auto simp: set_changes_for_def set_agrees_def Let_def split: option.split)

lemma set_removals_none: "set_removals t curs dess = [] \<longleftrightarrow> list_all (\<lambda>n. dict_has dess n) (dict_keys curs)"
  by (auto simp: set_removals_def filter_empty_conv list_all_iff)

lemma missing_objects_none:
  "missing_objects t b os others = [] \<longleftrightarrow> list_all (\<lambda>n. dict_has others n) (dict_keys os)"
  by (auto simp: missing_objects_def filter_empty_conv list_all_iff dict_keys_def split: prod.splits)

lemma left_chains_none:
  "left_chains is_builtin t curs dess = [] \<and> left_chains (\<lambda>c. \<not> is_builtin c) t curs dess = [] \<longleftrightarrow>
     list_all (\<lambda>n. dict_has dess n) (dict_keys curs)"
proof -
  have one: "left_chains p t curs dess = [] \<longleftrightarrow> list_all (\<lambda>(n, c). p c \<longrightarrow> dict_has dess n) curs" for p
    by (induction curs) (auto simp: left_chains_def)
  have two: "list_all (\<lambda>n. dict_has dess n) (dict_keys curs) = list_all (\<lambda>(n, c). dict_has dess n) curs"
    by (induction curs) (auto simp: dict_keys_def)
  have three: "list_all (\<lambda>(n, c). is_builtin c \<longrightarrow> Q n) cs \<and> list_all (\<lambda>(n, c). \<not> is_builtin c \<longrightarrow> Q n) cs \<longleftrightarrow>
      list_all (\<lambda>(n, c). Q n) cs" for Q and cs :: "(string, parsed_chain) dict"
    by (induction cs) auto
  show ?thesis unfolding one two by (rule three)
qed

lemma diff_table_changes:
  "has_changes (diff_table False current (t, des) d) \<longleftrightarrow>
     has_changes d \<or>
     \<not> table_agrees (case dict_get current t of None \<Rightarrow> empty_parsed_table | Some c \<Rightarrow> c) des"
proof -
  define cur where "cur = (case dict_get current t of None \<Rightarrow> empty_parsed_table | Some c \<Rightarrow> c)"
  let ?d1 = "fold (diff_chain t False (pt_chains cur)) (pt_chains des) d"
  have sets: "concat (map (set_changes_for t (pt_sets cur)) ss) = [] \<longleftrightarrow>
      list_all (\<lambda>(n, s). set_agrees (dict_get (pt_sets cur) n) s) ss" for ss
    by (induction ss) (auto simp: set_changes_none)
  have "has_changes (diff_table False current (t, des) d) \<longleftrightarrow>
      has_changes ?d1 \<or>
      concat (map (set_changes_for t (pt_sets cur)) (pt_sets des)) \<noteq> [] \<or>
      set_removals t (pt_sets cur) (pt_sets des) \<noteq> [] \<or>
      missing_objects t True (pt_objects des) (pt_objects cur) \<noteq> [] \<or>
      missing_objects t False (pt_objects cur) (pt_objects des) \<noteq> [] \<or>
      \<not> (left_chains is_builtin t (pt_chains cur) (pt_chains des) = [] \<and>
         left_chains (\<lambda>c. \<not> is_builtin c) t (pt_chains cur) (pt_chains des) = [])"
    by (simp add: diff_table_def cur_def [symmetric] Let_def has_changes_def) blast
  then show ?thesis
    unfolding cur_def [symmetric] diff_chains_changes sets set_removals_none missing_objects_none left_chains_none
      table_agrees_def by blast
qed

lemma diff_tables_changes:
  "has_changes (fold (diff_table False current) ts d) \<longleftrightarrow> has_changes d \<or> \<not> state_agrees current ts"
proof (induction ts arbitrary: d)
  case (Cons td ts)
  then show ?case by (cases td) (auto simp: diff_table_changes state_agrees_def)
qed (simp add: state_agrees_def)

section \<open>Sameness of two states\<close>

text \<open>Two tables with the same chains, sets and objects, name by name; the order does not matter.\<close>

definition same_table :: "parsed_table \<Rightarrow> parsed_table \<Rightarrow> bool" where
  "same_table a b \<longleftrightarrow>
     (\<forall>n. dict_get (pt_chains a) n = dict_get (pt_chains b) n) \<and>
     (\<forall>n. map_option (\<lambda>s. (ps_type s, ps_flags s, ps_elements s)) (dict_get (pt_sets a) n) =
           map_option (\<lambda>s. (ps_type s, ps_flags s, ps_elements s)) (dict_get (pt_sets b) n)) \<and>
     (\<forall>n. dict_get (pt_objects a) n = dict_get (pt_objects b) n)"

text \<open>The live table of a name; a table that does not exist is one without chains, sets and objects.\<close>

definition live_of :: "parsed \<Rightarrow> string \<Rightarrow> parsed_table" where
  "live_of current t = (case dict_get current t of None \<Rightarrow> empty_parsed_table | Some c \<Rightarrow> c)"

definition same_state :: "parsed \<Rightarrow> parsed \<Rightarrow> bool" where
  "same_state current desired \<longleftrightarrow> (\<forall>(t, des) \<in> set desired. same_table (live_of current t) des)"

text \<open>
  What the differ does not look at: a desired chain without rules that is missing, a live user chain that
  is desired as a base chain, the elements of a dynamic set, and the content of a named object.
\<close>

definition comparable :: "parsed_table \<Rightarrow> parsed_table \<Rightarrow> bool" where
  "comparable cur des \<longleftrightarrow>
     dict_ok (pt_chains des) \<and> dict_ok (pt_sets des) \<and>
     (\<forall>(n, d) \<in> set (pt_chains des).
        case dict_get (pt_chains cur) n of
          None \<Rightarrow> pc_rules d \<noteq> []
        | Some c \<Rightarrow> is_builtin d \<longrightarrow> is_builtin c) \<and>
     (\<forall>(n, d) \<in> set (pt_sets des). \<not> set_is_dynamic d) \<and>
     (\<forall>n a b. dict_get (pt_objects cur) n = Some a \<longrightarrow> dict_get (pt_objects des) n = Some b \<longrightarrow> a = b)"

lemma pair_in_dict: "dict_ok ds \<Longrightarrow> (n, x) \<in> set ds \<longleftrightarrow> dict_get ds n = Some x"
  by (auto simp: dict_ok_def dict_get_def)

lemma chain_agrees_same:
  assumes "case cur of None \<Rightarrow> pc_rules d \<noteq> [] | Some c \<Rightarrow> is_builtin d \<longrightarrow> is_builtin c"
  shows "chain_agrees cur d \<longleftrightarrow> cur = Some d"
  using assms by (cases cur) (auto simp: chain_agrees_def is_builtin_def)

lemma set_agrees_same:
  "\<not> set_is_dynamic d \<Longrightarrow> set_agrees cur d \<longleftrightarrow>
     map_option (\<lambda>s. (ps_type s, ps_flags s, ps_elements s)) cur = Some (ps_type d, ps_flags d, ps_elements d)"
  by (cases cur) (auto simp: set_agrees_def)

lemma dict_missing: "n \<notin> set (dict_keys ds) \<longleftrightarrow> dict_get ds n = None"
  using dict_has_iff [of ds n] by (cases "dict_get ds n") (auto simp: dict_has_def)

text \<open>Entry by entry and no other names, against name by name.\<close>

lemma entries_same:
  assumes "dict_ok ds" and none: "\<And>c. f c = None \<longleftrightarrow> c = None"
  shows "(\<forall>(n, d) \<in> set ds. f (dict_get cs n) = Some (g d)) \<and> (\<forall>n \<in> set (dict_keys cs). dict_has ds n) \<longleftrightarrow>
    (\<forall>n. f (dict_get cs n) = map_option g (dict_get ds n))" (is "?entries \<and> ?known \<longleftrightarrow> ?same")
proof
  assume r: "?entries \<and> ?known"
  have "f (dict_get cs n) = map_option g (dict_get ds n)" for n
  proof (cases "dict_get ds n")
    case None
    then have "n \<notin> set (dict_keys cs)" using r by (auto simp: dict_has_def)
    then show ?thesis using None none by (simp add: dict_missing)
  next
    case (Some d)
    then show ?thesis using r pair_in_dict [OF assms(1), of n d] by auto
  qed
  then show ?same by blast
next
  assume r: ?same
  have "f (dict_get cs n) = Some (g d)" if "(n, d) \<in> set ds" for n d
    using r that pair_in_dict [OF assms(1), of n d] by simp
  then have ?entries by blast
  moreover have "dict_has ds n" if "n \<in> set (dict_keys cs)" for n
  proof -
    have "dict_get cs n \<noteq> None" using that dict_missing [of n cs] by simp
    then have "f (dict_get cs n) \<noteq> None" using none by simp
    then show ?thesis using r [rule_format, of n] by (cases "dict_get ds n") (simp_all add: dict_has_def)
  qed
  then have ?known by blast
  ultimately show "?entries \<and> ?known" by (rule conjI)
qed

lemma table_agrees_same:
  assumes "comparable cur des"
  shows "table_agrees cur des \<longleftrightarrow> same_table cur des"
proof -
  have ok: "dict_ok (pt_chains des)" "dict_ok (pt_sets des)" using assms by (simp_all add: comparable_def)
  have "chain_agrees (dict_get (pt_chains cur) n) d \<longleftrightarrow> dict_get (pt_chains cur) n = Some d"
    if "(n, d) \<in> set (pt_chains des)" for n d
    using assms that by (intro chain_agrees_same) (auto simp: comparable_def)
  then have "(\<forall>(n, d) \<in> set (pt_chains des). chain_agrees (dict_get (pt_chains cur) n) d) \<longleftrightarrow>
      (\<forall>(n, d) \<in> set (pt_chains des). dict_get (pt_chains cur) n = Some d)" by auto
  then have chains: "(\<forall>(n, d) \<in> set (pt_chains des). chain_agrees (dict_get (pt_chains cur) n) d) \<and>
      (\<forall>n \<in> set (dict_keys (pt_chains cur)). dict_has (pt_chains des) n) \<longleftrightarrow>
      (\<forall>n. dict_get (pt_chains cur) n = dict_get (pt_chains des) n)"
    using entries_same [OF ok(1), of "\<lambda>x. x" "pt_chains cur" "\<lambda>x. x"] by (simp add: option.map_ident)
  let ?v = "\<lambda>s. (ps_type s, ps_flags s, ps_elements s)"
  have "set_agrees (dict_get (pt_sets cur) n) d \<longleftrightarrow> map_option ?v (dict_get (pt_sets cur) n) = Some (?v d)"
    if "(n, d) \<in> set (pt_sets des)" for n d
    using assms that by (intro set_agrees_same) (auto simp: comparable_def)
  then have "(\<forall>(n, d) \<in> set (pt_sets des). set_agrees (dict_get (pt_sets cur) n) d) \<longleftrightarrow>
      (\<forall>(n, d) \<in> set (pt_sets des). map_option ?v (dict_get (pt_sets cur) n) = Some (?v d))" by auto
  then have sets: "(\<forall>(n, d) \<in> set (pt_sets des). set_agrees (dict_get (pt_sets cur) n) d) \<and>
      (\<forall>n \<in> set (dict_keys (pt_sets cur)). dict_has (pt_sets des) n) \<longleftrightarrow>
      (\<forall>n. map_option ?v (dict_get (pt_sets cur) n) = map_option ?v (dict_get (pt_sets des) n))"
    using entries_same [OF ok(2), of "map_option ?v" "pt_sets cur" ?v] by simp
  have "(\<forall>n. dict_get (pt_objects cur) n = dict_get (pt_objects des) n) \<longleftrightarrow>
      (\<forall>n \<in> set (dict_keys (pt_objects des)). dict_has (pt_objects cur) n) \<and>
      (\<forall>n \<in> set (dict_keys (pt_objects cur)). dict_has (pt_objects des) n)"
  proof
    assume r: "(\<forall>n \<in> set (dict_keys (pt_objects des)). dict_has (pt_objects cur) n) \<and>
      (\<forall>n \<in> set (dict_keys (pt_objects cur)). dict_has (pt_objects des) n)"
    have "dict_get (pt_objects cur) n = dict_get (pt_objects des) n" for n
      using r dict_missing [of n "pt_objects cur"] dict_missing [of n "pt_objects des"] assms
      by (cases "dict_get (pt_objects cur) n"; cases "dict_get (pt_objects des) n")
        (auto simp: comparable_def dict_has_def)
    then show "\<forall>n. dict_get (pt_objects cur) n = dict_get (pt_objects des) n" by blast
  qed (auto simp: dict_has_iff [symmetric] dict_has_def)
  then show ?thesis unfolding same_table_def chains [symmetric] sets [symmetric] table_agrees_def list_all_iff by blast
qed

lemma changes_differ:
  assumes "\<forall>(t, des) \<in> set desired. comparable (live_of current t) des"
  shows "has_changes (diff_tables False current desired) \<longleftrightarrow> \<not> same_state current desired"
proof -
  have "state_agrees current desired \<longleftrightarrow> same_state current desired"
    using assms table_agrees_same
    by (fastforce simp: state_agrees_def same_state_def list_all_iff live_of_def [symmetric])
  then show ?thesis
    by (simp add: diff_tables_def diff_tables_changes) (simp add: empty_diff_def has_changes_def)
qed


text \<open>A table with one chain.\<close>

definition one_chain :: "string \<Rightarrow> string \<Rightarrow> string \<Rightarrow> string list \<Rightarrow> parsed" where
  "one_chain t n p rules =
     [(t, \<lparr>pt_chains = [(n, \<lparr>pc_policy = p, pc_rules = rules\<rparr>)], pt_sets = [], pt_objects = []\<rparr>)]"

lemma one_chain_comparable:
  "\<forall>(t', des) \<in> set (one_chain t n p new). comparable (live_of (one_chain t n p old) t') des"
  by (simp add: one_chain_def comparable_def live_of_def dict_get_def dict_ok_def is_builtin_def)

lemma one_chain_same: "same_state (one_chain t n p old) (one_chain t n p new) \<longleftrightarrow> old = new"
  by (auto simp: one_chain_def same_state_def same_table_def live_of_def dict_get_def)


text \<open>
  The rules a plan reports for a chain account for the difference in number and kind: the live
  rules and the added ones together are the desired rules and the removed ones together, each as often.
\<close>

theorem reported_rules_balance:
  "mset cur + mset (fst (diff_rules cur des)) = mset des + mset (snd (diff_rules cur des))"
  using diff_rules_balance [of cur des] by (cases "diff_rules cur des") simp

end
