(* ===== verification/Ferm_Nft_Commands.thy ===== *)
theory Ferm_Nft_Commands
  imports Ferm_Delta Ferm_Diff_Safe
begin

text \<open>
  What nft does with the lines of a delta, on the state a listing shows. nft itself is a parameter of
  the development, \<open>nft_tool\<close>: a function that takes a line and refuses it or gives the next state. The
  documented effect of each command, which \<open>nft_effects\<close> asks of an accepted line, is the specification
  \<open>nft_command\<close>, in the manner of the reference interpreter the program is tested against
  (\<^verbatim>\<open>_apply_delta\<close> of \<^verbatim>\<open>tests/unit/test_plan_delta_convergence.py\<close>) and stricter than it: a line that
  names a chain or a set which does not exist is refused. What else nft checks, such as the existence of
  a jump target, is left to the parameter.
\<close>

section \<open>The commands\<close>

definition declared_policy :: "string \<Rightarrow> string \<Rightarrow> string option" where
  "declared_policy family line =
     (if drop 5 (py_split line) = [] then None
      else map_option (\<lambda>h. canonicalize_nft_header family (py_strip h)) (brace_body (py_strip (drop 9 line))))"

definition add_chain :: "string \<Rightarrow> string option \<Rightarrow> parsed_table \<Rightarrow> parsed_table" where
  "add_chain n p t =
     (case dict_get (pt_chains t) n of
        None \<Rightarrow> put_chain n (empty_chain (case p of None \<Rightarrow> ''-'' | Some q \<Rightarrow> q)) t
      | Some c \<Rightarrow> (case p of None \<Rightarrow> t | Some q \<Rightarrow> put_chain n (c\<lparr>pc_policy := q\<rparr>) t))"

definition drop_chain :: "string \<Rightarrow> parsed_table \<Rightarrow> parsed_table" where
  "drop_chain n t = t\<lparr>pt_chains := dict_del n (pt_chains t)\<rparr>"

definition chain_command :: "string \<Rightarrow> string \<Rightarrow> string \<Rightarrow> string \<Rightarrow> parsed_table \<Rightarrow> parsed_table res" where
  "chain_command family verb n line t =
     (if verb = ''add'' then Inr (add_chain n (declared_policy family line) t)
      else if \<not> dict_has (pt_chains t) n then Inl (Died line)
      else if verb = ''flush'' then Inr (change_chain n (\<lambda>c. c\<lparr>pc_rules := []\<rparr>) t)
      else if verb = ''delete'' then Inr (drop_chain n t)
      else Inl (Died line))"

definition element_members :: "string \<Rightarrow> string list" where
  "element_members line = listed_elements (text_or_empty (brace_body line))"

definition element_change :: "string \<Rightarrow> string \<Rightarrow> string \<Rightarrow> parsed_table \<Rightarrow> parsed_table res" where
  "element_change verb n line t =
     (if \<not> dict_has (pt_sets t) n then Inl (Died line)
      else if verb = ''add''
      then bindR (merged_elements n (element_members line) t) (\<lambda>xs.
             Inr (change_set n (\<lambda>s. s\<lparr>ps_elements := xs\<rparr>) t))
      else Inr (change_set n (\<lambda>s. s\<lparr>ps_elements :=
             filter (\<lambda>x. x \<notin> set (element_members line)) (ps_elements s)\<rparr>) t))"

definition rule_command :: "string \<Rightarrow> string \<Rightarrow> string \<Rightarrow> parsed_table \<Rightarrow> parsed_table res" where
  "rule_command family n line t =
     (if \<not> dict_has (pt_chains t) n then Inl (Died line)
      else bindR (canonicalize_nft_rule family (rule_body line (py_split line))) (\<lambda>r.
             Inr (append_rule_to n r t)))"

definition nft_command :: "string \<Rightarrow> string \<Rightarrow> parsed_table \<Rightarrow> parsed_table res" where
  "nft_command family line t =
     (let parts = py_split line; verb = parts ! 0; sub = parts ! 1; n = parts ! 4
      in if take 2 parts = [''add'', ''table''] then Inr t
         else if length parts < 5 \<or> parts ! 2 \<noteq> family \<or> parts ! 3 \<noteq> NFT_TABLE_NAME then Inl (Died line)
         else if sub = ''chain'' then chain_command family verb n line t
         else if sub = ''rule'' \<and> verb = ''add'' then rule_command family n line t
         else if sub = ''set'' \<and> verb = ''add'' then Inr (change_set n (declare_set line) t)
         else if sub = ''element'' then element_change verb n line t
         else Inl (Died line))"

definition run_commands_on :: "string \<Rightarrow> string list \<Rightarrow> parsed_table \<Rightarrow> parsed_table res" where
  "run_commands_on family ls t = foldR (nft_command family) ls t"

lemma run_commands_on_simps [simp]:
  "run_commands_on family [] t = Inr t"
  "run_commands_on family (l # ls) t = bindR (nft_command family l t) (run_commands_on family ls)"
  "run_commands_on family (ls @ ms) t = bindR (run_commands_on family ls t) (run_commands_on family ms)"
  by (simp_all add: run_commands_on_def foldR_append) (auto simp: bindR_def run_commands_on_def split: sum.splits)

text \<open>
  nft as a parameter: it may refuse any line, but a line it accepts has the documented effect. A script is
  loaded in one transaction, so one refused line refuses it all.
\<close>

type_synonym nft_tool = "string \<Rightarrow> parsed_table \<Rightarrow> parsed_table option"

definition nft_effects :: "string \<Rightarrow> nft_tool \<Rightarrow> bool" where
  "nft_effects family nft \<longleftrightarrow> (\<forall>line t t'. nft line t = Some t' \<longrightarrow> nft_command family line t = Inr t')"

fun nft_loads :: "nft_tool \<Rightarrow> string list \<Rightarrow> parsed_table \<Rightarrow> parsed_table option" where
  "nft_loads nft [] t = Some t"
| "nft_loads nft (l # ls) t = (case nft l t of None \<Rightarrow> None | Some t' \<Rightarrow> nft_loads nft ls t')"

lemma nft_loads_effect:
  "nft_effects family nft \<Longrightarrow> nft_loads nft ls t = Some u \<Longrightarrow> run_commands_on family ls t = Inr u"
  by (induction ls arbitrary: t) (auto simp: nft_effects_def split: option.splits)

section \<open>Words of a line\<close>

definition plain_word :: "string \<Rightarrow> bool" where
  "plain_word w \<longleftrightarrow> w \<noteq> [] \<and> list_all (\<lambda>c. \<not> py_space c) w"

lemma py_split_word: "plain_word w \<Longrightarrow> py_split (w @ CHR '' '' # r) = w # py_split r"
  by (simp add: py_split_def fields_by_def plain_word_def split_by_snoc)

lemma py_split_last: "plain_word w \<Longrightarrow> py_split w = [w]"
  by (simp add: py_split_def fields_by_def plain_word_def split_by_word)

lemma plain_words [simp]:
  "plain_word ''add''" "plain_word ''delete''" "plain_word ''flush''" "plain_word ''chain''"
  "plain_word ''table''" "plain_word ''ferm''" "plain_word ''element''"
  by (simp_all add: plain_word_def)

lemma py_split_head:
  assumes "plain_word v" and "plain_word s" and "plain_word family"
  shows "py_split (v @ '' '' @ s @ '' '' @ ferm_prefix family @ '' '' @ r) = [v, s, family, ''ferm''] @ py_split r"
  using assms py_split_word [of v "s @ '' '' @ ferm_prefix family @ '' '' @ r"]
    py_split_word [of s "ferm_prefix family @ '' '' @ r"] py_split_word [of family "''ferm '' @ r"]
    py_split_word [of "''ferm''" r]
  by (simp add: ferm_prefix_def)

lemma delete_chain_parts:
  "plain_word family \<Longrightarrow> plain_word n \<Longrightarrow>
     py_split (delete_chain family n) = [''delete'', ''chain'', family, ''ferm'', n]"
  using py_split_head [of "''delete''" "''chain''" family n] by (simp add: delete_chain_def py_split_last)

lemma flush_chain_parts:
  "plain_word family \<Longrightarrow> plain_word n \<Longrightarrow>
     py_split (flush_chain family n) = [''flush'', ''chain'', family, ''ferm'', n]"
  using py_split_head [of "''flush''" "''chain''" family n] by (simp add: flush_chain_def py_split_last)

lemma add_table_parts:
  "plain_word family \<Longrightarrow> py_split (''add table '' @ ferm_prefix family) = [''add'', ''table'', family, ''ferm'']"
  using py_split_word [of "''add''" "''table '' @ ferm_prefix family"] py_split_word [of "''table''" "ferm_prefix family"]
    py_split_word [of family "''ferm''"] py_split_last [of "''ferm''"]
  by (simp add: ferm_prefix_def)

section \<open>The commands on chains\<close>

definition chain_at :: "parsed_table \<Rightarrow> string \<Rightarrow> parsed_chain option" where
  "chain_at t n = dict_get (pt_chains t) n"

definition set_at :: "parsed_table \<Rightarrow> string \<Rightarrow> parsed_set option" where
  "set_at t n = dict_get (pt_sets t) n"

lemma dict_has_chain: "dict_has (pt_chains t) n \<longleftrightarrow> chain_at t n \<noteq> None"
  by (simp add: dict_has_def chain_at_def)

lemma put_chain_at: "chain_at (put_chain n c t) = (chain_at t)(n := Some c)"
  by (auto simp: put_chain_def chain_at_def)

lemma drop_chain_at: "chain_at (drop_chain n t) = (chain_at t)(n := None)"
  by (auto simp: drop_chain_def chain_at_def)

lemma change_chain_at:
  "chain_at (change_chain n f t) = (case chain_at t n of None \<Rightarrow> chain_at t | Some c \<Rightarrow> (chain_at t)(n := Some (f c)))"
  by (auto simp: change_chain_def put_chain_at [unfolded chain_at_def] chain_at_def split: option.split)

lemma append_rule_at:
  "chain_at (append_rule_to n r t) =
     (case chain_at t n of None \<Rightarrow> chain_at t
      | Some c \<Rightarrow> (chain_at t)(n := Some (c\<lparr>pc_rules := pc_rules c @ [r]\<rparr>)))"
  by (auto simp: append_rule_to_def put_chain_at [unfolded chain_at_def] chain_at_def split: option.split)

lemma chain_changes_keep_sets [simp]:
  "pt_sets (put_chain n c t) = pt_sets t" "pt_sets (drop_chain n t) = pt_sets t"
  "pt_sets (change_chain n f t) = pt_sets t" "pt_sets (append_rule_to n r t) = pt_sets t"
  by (auto simp: put_chain_def drop_chain_def change_chain_def append_rule_to_def split: option.split)

lemma set_changes_keep_chains [simp]: "pt_chains (change_set n f t) = pt_chains t"
  by (simp add: change_set_def)

lemma change_set_at:
  "set_at (change_set n f t) = (set_at t)(n := Some (f (case set_at t n of None \<Rightarrow> new_set n | Some s \<Rightarrow> s)))"
  by (auto simp: change_set_def set_at_def)

text \<open>A line that declares a chain, and one that adds a rule to it.\<close>

definition declares :: "string \<Rightarrow> string \<Rightarrow> string \<Rightarrow> bool" where
  "declares family n line \<longleftrightarrow>
     take 5 (py_split line) = [''add'', ''chain'', family, ''ferm'', n]"

definition adds_rule :: "string \<Rightarrow> string \<Rightarrow> string \<Rightarrow> string \<Rightarrow> bool" where
  "adds_rule family n r line \<longleftrightarrow>
     take 5 (py_split line) = [''add'', ''rule'', family, ''ferm'', n] \<and>
     canonicalize_nft_rule family (rule_body line (py_split line)) = Inr r"

lemma take5:
  "take 5 xs = [a, b, c, d, e] \<Longrightarrow>
     take 2 xs = [a, b] \<and> 5 \<le> length xs \<and> xs ! 0 = a \<and> xs ! 1 = b \<and> xs ! 2 = c \<and> xs ! 3 = d \<and> xs ! 4 = e"
proof -
  assume t: "take 5 xs = [a, b, c, d, e]"
  obtain ys where "xs = [a, b, c, d, e] @ ys" using append_take_drop_id [of 5 xs] unfolding t by metis
  then show ?thesis by simp
qed

lemma command_declares:
  "declares family n l \<Longrightarrow> nft_command family l t = Inr (add_chain n (declared_policy family l) t)"
  using take5 [of "py_split l"]
  by (fastforce simp: declares_def nft_command_def chain_command_def NFT_TABLE_NAME_def Let_def)

lemma command_adds_rule:
  "adds_rule family n r l \<Longrightarrow> chain_at t n \<noteq> None \<Longrightarrow> nft_command family l t = Inr (append_rule_to n r t)"
  using take5 [of "py_split l"]
  by (fastforce simp: adds_rule_def nft_command_def rule_command_def NFT_TABLE_NAME_def Let_def dict_has_chain)

lemma command_delete:
  "plain_word family \<Longrightarrow> plain_word n \<Longrightarrow> chain_at t n \<noteq> None \<Longrightarrow>
     nft_command family (delete_chain family n) t = Inr (drop_chain n t)"
  by (simp add: nft_command_def delete_chain_parts chain_command_def NFT_TABLE_NAME_def dict_has_chain)

lemma command_flush:
  "plain_word family \<Longrightarrow> plain_word n \<Longrightarrow> chain_at t n \<noteq> None \<Longrightarrow>
     nft_command family (flush_chain family n) t = Inr (change_chain n (\<lambda>c. c\<lparr>pc_rules := []\<rparr>) t)"
  by (simp add: nft_command_def flush_chain_parts chain_command_def NFT_TABLE_NAME_def dict_has_chain)

lemma command_add_table:
  "plain_word family \<Longrightarrow> nft_command family (''add table '' @ ferm_prefix family) t = Inr t"
  by (simp add: nft_command_def add_table_parts [simplified])

text \<open>Filling a chain appends the rules in order and touches nothing else.\<close>

lemma run_rules:
  assumes "list_all2 (adds_rule family n) rs ls" and "chain_at t n = Some c"
  shows "\<exists>t'. run_commands_on family ls t = Inr t' \<and> pt_sets t' = pt_sets t \<and>
           chain_at t' = (chain_at t)(n := Some (c\<lparr>pc_rules := pc_rules c @ rs\<rparr>))"
  using assms
proof (induction rs ls arbitrary: t c rule: list_all2_induct)
  case Nil
  then show ?case by (auto simp: fun_upd_idem)
next
  case (Cons r rs l ls)
  let ?t = "append_rule_to n r t" and ?c = "c\<lparr>pc_rules := pc_rules c @ [r]\<rparr>"
  have step: "nft_command family l t = Inr ?t" using Cons by (intro command_adds_rule) auto
  have "chain_at ?t n = Some ?c" using Cons.prems by (simp add: append_rule_at)
  then obtain t' where "run_commands_on family ls ?t = Inr t'" "pt_sets t' = pt_sets ?t"
      "chain_at t' = (chain_at ?t)(n := Some (?c\<lparr>pc_rules := pc_rules ?c @ rs\<rparr>))"
    using Cons.IH by blast
  then show ?case using Cons.prems step by (auto simp: append_rule_at fun_eq_iff)
qed

end
