(* ===== verification/Ferm_Delta_Sets.thy ===== *)
theory Ferm_Delta_Sets
  imports Ferm_Nft_Commands
begin

text \<open>
  The set phase of a delta: reading the element commands it prints, and the sets it reaches.
\<close>

section \<open>Sorting keeps the elements\<close>

lemma sort_by_keys_mset: "sort_by_keys f xs = Inr ys \<Longrightarrow> mset ys = mset xs"
proof -
  assume s: "sort_by_keys f xs = Inr ys"
  then obtain ks where ks: "mapR (\<lambda>(i, x). set_sort_key i (f x)) (zip [0..<length xs] xs) = Inr ks"
      and ys: "ys = map snd (sort_key fst (zip ks xs))"
    by (auto simp: sort_by_keys_def bindR_Inr_iff)
  have "length ks = length xs" using mapR_length [OF ks] by simp
  then have "map snd (zip ks xs) = xs" by simp
  then have "image_mset snd (mset (zip ks xs)) = mset xs" by (metis mset_map)
  then show ?thesis unfolding ys mset_map mset_sort .
qed

lemma sort_by_keys_total:
  assumes "\<And>x. x \<in> set xs \<Longrightarrow> \<exists>r. classify (f x) = Inr r"
  shows "\<exists>ys. sort_by_keys f xs = Inr ys"
proof -
  have "(\<And>i x. (i, x) \<in> set ps \<Longrightarrow> x \<in> set xs) \<Longrightarrow> \<exists>ks. mapR (\<lambda>(i, x). set_sort_key i (f x)) ps = Inr ks" for ps
  proof (induction ps)
    case (Cons p ps)
    obtain i x where p: "p = (i, x)" by force
    obtain r where "classify (f x) = Inr r" using assms Cons.prems p by (meson list.set_intros(1))
    moreover have "\<exists>ks. mapR (\<lambda>(i, x). set_sort_key i (f x)) ps = Inr ks"
      using Cons.prems by (intro Cons.IH) (meson list.set_intros(2))
    ultimately show ?case by (cases r) (auto simp: p set_sort_key_def)
  qed simp
  then have "\<exists>ks. mapR (\<lambda>(i, x). set_sort_key i (f x)) (zip [0..<length xs] xs) = Inr ks"
    by (metis set_zip_rightD)
  then show ?thesis by (auto simp: sort_by_keys_def)
qed

lemma set_firsts [simp]: "set (firsts xs) = set xs"
  by (induction xs) auto

definition stable_element :: "string \<Rightarrow> bool" where
  "stable_element x \<longleftrightarrow>
     canonicalize_element x = Inr x \<and> x \<noteq> [] \<and> py_strip x = x \<and> CHR '','' \<notin> set x"

lemma stable_classify: "stable_element x \<Longrightarrow> \<exists>r. classify x = Inr r"
  by (auto simp: stable_element_def canonicalize_element_def bindR_Inr_iff)

lemma mapR_stable: "list_all stable_element xs \<Longrightarrow> mapR canonicalize_element xs = Inr xs"
  by (induction xs) (auto simp: stable_element_def)

lemma canonicalize_stable:
  assumes "list_all stable_element xs"
  shows "\<exists>ys. canonicalize_set_elements False xs = Inr ys \<and> set ys = set xs"
proof -
  obtain ys where ys: "sort_set_elements (firsts xs) = Inr ys"
    using sort_by_keys_total [of "firsts xs" "\<lambda>s. s"] stable_classify assms
    by (auto simp: sort_set_elements_def list_all_iff)
  then have "mset ys = mset (firsts xs)" using sort_by_keys_mset unfolding sort_set_elements_def by blast
  then have "set ys = set xs" using set_mset_mset [of ys] set_mset_mset [of "firsts xs"] by simp
  then show ?thesis using ys mapR_stable [OF assms] by (simp add: canonicalize_set_elements_def Let_def)
qed

section \<open>Reading an element command\<close>

lemma py_strip_front: "py_space c \<Longrightarrow> py_strip (c # s) = py_strip s"
  by (simp add: py_strip_def)

lemma py_strip_back: "py_space c \<Longrightarrow> py_strip (s @ [c]) = py_strip s"
  by (cases "\<forall>x \<in> set s. py_space x")
     (simp_all add: py_strip_def dropWhile_append dropWhile_eq_Nil_conv [symmetric] del: dropWhile_eq_Nil_conv)

lemma split_char_none: "d \<notin> set w \<Longrightarrow> split_char d w = [w]"
  by (induction w) auto

lemma split_char_cut: "d \<notin> set w \<Longrightarrow> split_char d (w @ d # r) = w # split_char d r"
  by (induction w) auto

lemma listed_join:
  assumes "list_all stable_element xs" and "xs \<noteq> []"
  shows "listed_elements ('' '' @ join_str '', '' xs @ '' '') = xs"
proof -
  have strip: "py_strip (CHR '' '' # x @ '' '') = x" if "stable_element x" for x
    using that py_strip_front [of "CHR '' ''" "x @ '' ''"] py_strip_back [of "CHR '' ''" x]
    by (simp add: stable_element_def)
  have front: "py_strip (CHR '' '' # x) = x" if "stable_element x" for x
    using that py_strip_front [of "CHR '' ''" x] by (simp add: stable_element_def)
  have "map py_strip (split_char (CHR '','') (CHR '' '' # join_str '', '' xs @ '' '')) = xs" using assms
  proof (induction xs)
    case (Cons x ys)
    show ?case
    proof (cases ys)
      case Nil
      have "CHR '','' \<notin> set (CHR '' '' # x @ '' '')" using Cons.prems by (simp add: stable_element_def)
      from split_char_none [OF this] show ?thesis using Cons.prems strip [of x] Nil
        by (simp del: split_char.simps)
    next
      case (Cons y zs)
      have x: "stable_element x" "list_all stable_element ys" "ys \<noteq> []" using Cons.prems Cons by auto
      have "CHR '','' \<notin> set (CHR '' '' # x)" using x(1) by (simp add: stable_element_def)
      from split_char_cut [OF this, of "CHR '' '' # join_str '', '' ys @ '' ''"]
      show ?thesis using Cons.IH [OF x(2,3)] front [OF x(1)] by (simp add: Cons del: split_char.simps)
    qed
  qed simp
  then show ?thesis using assms(1) by (auto simp: listed_elements_def list_all_iff stable_element_def filter_id_conv)
qed

definition name_word :: "string \<Rightarrow> bool" where
  "name_word w \<longleftrightarrow> w \<noteq> [] \<and> list_all (\<lambda>c. \<not> py_space c \<and> c \<noteq> CHR ''{'') w"

lemma name_word_plain: "name_word w \<Longrightarrow> plain_word w"
  by (auto simp: name_word_def plain_word_def list_all_iff)

lemma brace_body_cut:
  assumes "CHR ''{'' \<notin> set p"
  shows "brace_body (p @ ''{'' @ b @ ''}'') = Some b"
proof -
  have "takeWhile (\<lambda>d. d \<noteq> CHR ''{'') (p @ ''{'' @ b @ ''}'') = p"
    using assms by (subst takeWhile_append2) auto
  then show ?thesis by (simp add: brace_body_def find_char_def rfind_char_def)
qed

definition element_text :: "string \<Rightarrow> string \<Rightarrow> string \<Rightarrow> string list \<Rightarrow> string" where
  "element_text verb family n xs =
     verb @ '' element '' @ ferm_prefix family @ '' '' @ n @ '' { '' @ join_str '', '' xs @ '' }''"

lemma element_command_text:
  "element_command verb family n xs = (if xs = [] then [] else [element_text verb family n xs])"
  by (simp add: element_command_def element_text_def)

lemma element_text_parts:
  assumes "name_word family" and "name_word n" and "v \<in> {''add'', ''delete''}"
  shows "take 5 (py_split (element_text v family n xs)) = [v, ''element'', family, ''ferm'', n]"
proof -
  have v: "plain_word v" using assms(3) by auto
  have "element_text v family n xs =
      v @ '' '' @ ''element'' @ '' '' @ ferm_prefix family @ '' '' @ n @ '' '' @ ''{ '' @ join_str '', '' xs @ '' }''"
    by (simp add: element_text_def)
  then show ?thesis
    using py_split_head [OF v, of "''element''" family "n @ '' '' @ ''{ '' @ join_str '', '' xs @ '' }''"]
      py_split_word [of n "''{ '' @ join_str '', '' xs @ '' }''"] assms(1,2) name_word_plain by simp
qed

lemma element_text_members:
  assumes "name_word family" and "name_word n" and "v \<in> {''add'', ''delete''}"
    and "list_all stable_element xs" and "xs \<noteq> []"
  shows "element_members (element_text v family n xs) = xs"
proof -
  let ?p = "v @ '' element '' @ ferm_prefix family @ '' '' @ n @ '' ''"
  have "CHR ''{'' \<notin> set v" using assms(3) by auto
  moreover have "CHR ''{'' \<notin> set family" "CHR ''{'' \<notin> set n"
    using assms(1,2) by (auto simp: name_word_def list_all_iff)
  ultimately have "CHR ''{'' \<notin> set ?p" by (simp add: ferm_prefix_def)
  then have "brace_body (?p @ ''{'' @ ('' '' @ join_str '', '' xs @ '' '') @ ''}'') = Some ('' '' @ join_str '', '' xs @ '' '')"
    by (rule brace_body_cut)
  moreover have "?p @ ''{'' @ ('' '' @ join_str '', '' xs @ '' '') @ ''}'' = element_text v family n xs"
    by (simp add: element_text_def)
  ultimately show ?thesis
    using listed_join [OF assms(4,5)] by (simp add: element_members_def text_or_empty_def)
qed

lemma command_element:
  assumes "name_word family" and "name_word n" and "v \<in> {''add'', ''delete''}" and "set_at t n \<noteq> None"
  shows "nft_command family (element_text v family n xs) t = element_change v n (element_text v family n xs) t"
  using take5 [OF element_text_parts [OF assms(1-3), of xs]] assms(3)
  by (auto simp: nft_command_def Let_def NFT_TABLE_NAME_def)

section \<open>One set\<close>

definition set_reached :: "parsed_set \<Rightarrow> parsed_set \<Rightarrow> bool" where
  "set_reached s des \<longleftrightarrow>
     ps_type s = ps_type des \<and> ps_flags s = ps_flags des \<and> set (ps_elements s) = set (ps_elements des)"

lemma run_deleted_elements:
  assumes names: "name_word family" "name_word n" and live: "set_at t n = Some s"
    and stable: "list_all stable_element xs"
  shows "\<exists>t'. run_commands_on family (element_command ''delete'' family n xs) t = Inr t' \<and>
           pt_chains t' = pt_chains t \<and>
           set_at t' = (set_at t)(n := Some (s\<lparr>ps_elements := filter (\<lambda>x. x \<notin> set xs) (ps_elements s)\<rparr>))"
proof (cases "xs = []")
  case True
  then show ?thesis using live by (simp add: element_command_text fun_upd_idem)
next
  case False
  have "set_at t n \<noteq> None" using live by simp
  from command_element [OF names _ this, of "''delete''" xs]
  show ?thesis using element_text_members [OF names _ stable False, of "''delete''"] live False
    by (simp add: element_command_text element_change_def dict_has_def set_at_def [symmetric] change_set_at)
qed

lemma run_added_elements:
  assumes names: "name_word family" "name_word n" and live: "set_at t n = Some s"
    and stable: "list_all stable_element xs" "list_all stable_element (ps_elements s)"
  shows "\<exists>t' ys. run_commands_on family (element_command ''add'' family n xs) t = Inr t' \<and>
           pt_chains t' = pt_chains t \<and> set_at t' = (set_at t)(n := Some (s\<lparr>ps_elements := ys\<rparr>)) \<and>
           set ys = set (ps_elements s) \<union> set xs"
proof (cases "xs = []")
  case True
  then show ?thesis using live by (auto simp: element_command_text fun_upd_idem intro!: exI [of _ "ps_elements s"])
next
  case False
  obtain ys where ys: "canonicalize_set_elements False (ps_elements s @ xs) = Inr ys" "set ys = set (ps_elements s @ xs)"
    using canonicalize_stable [of "ps_elements s @ xs"] stable by auto
  have "set_at t n \<noteq> None" using live by simp
  from command_element [OF names _ this, of "''add''" xs]
  have "run_commands_on family (element_command ''add'' family n xs) t =
      Inr (change_set n (\<lambda>s. s\<lparr>ps_elements := ys\<rparr>) t)"
    using element_text_members [OF names _ stable(1) False, of "''add''"] live False ys
    by (simp add: element_command_text element_change_def dict_has_def set_at_def [symmetric] merged_elements_def)
  then show ?thesis using ys(2) live by (auto simp: change_set_at intro!: exI [of _ ys])
qed

text \<open>The lines the index holds for a set make it.\<close>

definition makes_set :: "string \<Rightarrow> desired_index \<Rightarrow> string \<Rightarrow> parsed_set \<Rightarrow> bool" where
  "makes_set family ix n s =
     (case dict_get (ix_set_decl ix) n of
        None \<Rightarrow> False
      | Some l \<Rightarrow>
          take 5 (py_split l) = [''add'', ''set'', family, ''ferm'', n] \<and>
          s = (declare_set l (new_set n))\<lparr>ps_elements := ps_elements s\<rparr> \<and>
          (case dict_get (ix_set_elements ix) n of
             None \<Rightarrow> ps_elements s = []
           | Some e \<Rightarrow>
               take 5 (py_split e) = [''add'', ''element'', family, ''ferm'', n] \<and>
               canonicalize_set_elements False (element_members e) = Inr (ps_elements s)))"

lemma command_set:
  "take 5 (py_split l) = [''add'', ''set'', family, ''ferm'', n] \<Longrightarrow>
     nft_command family l t = Inr (change_set n (declare_set l) t)"
  using take5 [of "py_split l"] by (fastforce simp: nft_command_def NFT_TABLE_NAME_def Let_def)

lemma command_elements:
  "take 5 (py_split l) = [''add'', ''element'', family, ''ferm'', n] \<Longrightarrow>
     nft_command family l t = element_change ''add'' n l t"
  using take5 [of "py_split l"] by (fastforce simp: nft_command_def NFT_TABLE_NAME_def Let_def)

lemma declare_set_elements [simp]: "ps_elements (declare_set l s) = ps_elements s"
  by (auto simp: declare_set_def split: option.split prod.split)

lemma run_new_set:
  assumes made: "makes_set family ix n s" and new: "set_at t n = None"
    and lines: "set_change_lines family current ix \<lparr>sch_table = tb, sch_name = n, sch_kind = SetAdd, sch_elements = els, sch_current = cur\<rparr> = Inr ls"
  shows "\<exists>t'. run_commands_on family ls t = Inr t' \<and> pt_chains t' = pt_chains t \<and> set_at t' = (set_at t)(n := Some s)"
proof -
  obtain l where l: "dict_get (ix_set_decl ix) n = Some l" using made by (auto simp: makes_set_def split: option.splits)
  let ?s = "declare_set l (new_set n)" and ?t = "change_set n (declare_set l) t"
  have decl: "take 5 (py_split l) = [''add'', ''set'', family, ''ferm'', n]" "s = ?s\<lparr>ps_elements := ps_elements s\<rparr>"
    using made l by (auto simp: makes_set_def)
  have at: "set_at ?t = (set_at t)(n := Some ?s)" using new by (simp add: change_set_at)
  show ?thesis
  proof (cases "dict_get (ix_set_elements ix) n")
    case None
    then have "ps_elements s = []" using made l by (simp add: makes_set_def)
    then have "s = ?s" using decl(2) by (simp add: new_set_def)
    then show ?thesis using lines l None command_set [OF decl(1), of t] at by (auto simp: set_change_lines_def)
  next
    case (Some e)
    then have e: "take 5 (py_split e) = [''add'', ''element'', family, ''ferm'', n]"
        "canonicalize_set_elements False (element_members e) = Inr (ps_elements s)"
      using made l by (auto simp: makes_set_def)
    have "merged_elements n (element_members e) ?t = Inr (ps_elements s)"
      using at e(2) by (simp add: merged_elements_def set_at_def [symmetric] new_set_def)
    then have "nft_command family e ?t = Inr (change_set n (\<lambda>x. x\<lparr>ps_elements := ps_elements s\<rparr>) ?t)"
      using command_elements [OF e(1), of ?t] at by (simp add: element_change_def dict_has_def set_at_def [symmetric])
    then show ?thesis
      using lines l Some command_set [OF decl(1), of t] at decl(2) by (auto simp: set_change_lines_def change_set_at)
  qed
qed

lemma run_modified_set:
  assumes names: "name_word family" "name_word n" and live: "set_at cur n = Some s" "set_at t n = Some s"
    and stable: "list_all stable_element (ps_elements s)" "list_all stable_element els"
    and lines: "set_change_lines family (pt_sets cur) ix \<lparr>sch_table = tb, sch_name = n, sch_kind = SetModify, sch_elements = els, sch_current = cr\<rparr> = Inr ls"
  shows "\<exists>t' ys. run_commands_on family ls t = Inr t' \<and> pt_chains t' = pt_chains t \<and>
           set_at t' = (set_at t)(n := Some (s\<lparr>ps_elements := ys\<rparr>)) \<and> set ys = set els"
proof -
  let ?rm = "filter (\<lambda>x. x \<notin> set els) (ps_elements s)" and ?ad = "filter (\<lambda>x. x \<notin> set (ps_elements s)) els"
  let ?s = "s\<lparr>ps_elements := filter (\<lambda>x. x \<notin> set ?rm) (ps_elements s)\<rparr>"
  have ls: "ls = element_command ''delete'' family n ?rm @ element_command ''add'' family n ?ad"
    using lines live(1) by (simp add: set_change_lines_def set_at_def Let_def)
  have keep: "list_all stable_element ?rm" "list_all stable_element ?ad" "list_all stable_element (ps_elements ?s)"
    using stable by (auto simp: list_all_iff)
  obtain u where u: "run_commands_on family (element_command ''delete'' family n ?rm) t = Inr u"
      "pt_chains u = pt_chains t" "set_at u = (set_at t)(n := Some ?s)"
    using run_deleted_elements [OF names live(2) keep(1)] by blast
  have "set_at u n = Some ?s" using u(3) by simp
  from run_added_elements [OF names this keep(2,3)] obtain v ys where
      "run_commands_on family (element_command ''add'' family n ?ad) u = Inr v" "pt_chains v = pt_chains u"
      "set_at v = (set_at u)(n := Some (?s\<lparr>ps_elements := ys\<rparr>))" "set ys = set (ps_elements ?s) \<union> set ?ad"
    by blast
  moreover have "set (ps_elements ?s) \<union> set ?ad = set els" by auto
  ultimately show ?thesis using u by (auto simp: ls)
qed

end
