(* ===== verification/Ferm_Nft_Collapse_Safe.thy ===== *)
theory Ferm_Nft_Collapse_Safe
  imports Ferm_Nft_Collapse Ferm_Delta_Sets
begin

text \<open>
  What the folding of rules keeps: a packet that runs through the folded chain meets the same verdicts
  and statements as in the written one. A packet is given by the texts that hold of it and by the
  statements that end the chain for it. A statement that keeps a state has one of its own in each rule, so
  the texts that hold depend on the number of the rule; chains without such statements are folded safely.
\<close>

section \<open>What a chain does to a packet\<close>

text \<open>The statements met, and whether the chain ended.\<close>

type_synonym packet_outcome = "string set \<times> bool"

definition then_do :: "packet_outcome \<Rightarrow> packet_outcome \<Rightarrow> packet_outcome" where
  "then_do a b = (if snd a then a else (fst a \<union> fst b, snd b))"

definition keyed_text :: "string \<Rightarrow> string \<Rightarrow> string" where
  "keyed_text k e = k @ '' '' @ e"

definition match_holds :: "(string \<Rightarrow> bool) \<Rightarrow> nft_match \<Rightarrow> bool" where
  "match_holds sem m =
     (case (nm_set_key m, nm_elements m) of
        (Some k, Some es) \<Rightarrow> list_ex (\<lambda>e. sem (keyed_text k e)) es
      | _ \<Rightarrow> sem (nm_expr m))"

fun action_text :: "nft_statement \<Rightarrow> string" where
  "action_text (NftMatch m) = nm_expr m"
| "action_text (NftVerdict e) = e"
| "action_text (NftVmap k ps) = k"
| "action_text (NftReset e) = e"
| "action_text (NftSetUpdate u) = update_text u"
| "action_text (NftObjectRef r) = or_expr r"
| "action_text (NftQuota e) = e"

text \<open>
  The statements from left to right: a match that fails stops the rule, a statement that ends the
  chain stops the chain, and a quota or a set update lets the packet on or not, like a match.
\<close>

fun statements_run :: "(string \<Rightarrow> bool) \<Rightarrow> (string \<Rightarrow> bool) \<Rightarrow> nft_statement list \<Rightarrow> packet_outcome" where
  "statements_run sem ends [] = ({}, False)"
| "statements_run sem ends (NftMatch m # ss) =
     (if match_holds sem m then statements_run sem ends ss else ({}, False))"
| "statements_run sem ends (NftVerdict v # ss) = then_do ({v}, ends v) (statements_run sem ends ss)"
| "statements_run sem ends (NftVmap k ps # ss) =
     (case filter (\<lambda>(e, v). sem (keyed_text k e)) ps of
        [] \<Rightarrow> ({}, False)
      | (e, v) # _ \<Rightarrow> then_do ({v}, ends v) (statements_run sem ends ss))"
| "statements_run sem ends (s # ss) =
     (if sem (action_text s)
      then then_do ({action_text s}, False) (statements_run sem ends ss)
      else ({action_text s}, False))"

fun chain_run :: "(string \<Rightarrow> bool) \<Rightarrow> (string \<Rightarrow> bool) \<Rightarrow> nft_rule list \<Rightarrow> packet_outcome" where
  "chain_run sem ends [] = ({}, False)"
| "chain_run sem ends (r # rs) = then_do (statements_run sem ends (nr_statements r)) (chain_run sem ends rs)"

section \<open>Rules as the translation leaves them\<close>

text \<open>
  A match with a key spells its operand after the key; no other match has the text of one with a key.
\<close>

fun keyed_exprs :: "nft_statement list \<Rightarrow> string list" where
  "keyed_exprs [] = []"
| "keyed_exprs (NftMatch m # ss) = (if nm_set_key m = None then keyed_exprs ss else nm_expr m # keyed_exprs ss)"
| "keyed_exprs (s # ss) = keyed_exprs ss"

definition plain_form :: "string list \<Rightarrow> nft_match \<Rightarrow> bool" where
  "plain_form ks m \<longleftrightarrow> nm_set_key m = None \<and> nm_elements m = None \<and> nm_expr m \<notin> set ks"

definition keyed_form :: "string list \<Rightarrow> nft_match \<Rightarrow> bool" where
  "keyed_form ks m \<longleftrightarrow>
     nm_set_key m \<noteq> None \<and> nm_elements m = None \<and> nm_element m \<noteq> None \<and>
     nm_expr m = keyed_text (the (nm_set_key m)) (the (nm_element m)) \<and> nm_expr m \<in> set ks"

definition folded_form :: "string list \<Rightarrow> nft_match \<Rightarrow> bool" where
  "folded_form ks m \<longleftrightarrow>
     nm_set_key m \<noteq> None \<and> nm_elements m \<noteq> None \<and> nm_element m = None \<and> nm_expr m \<in> set ks"

fun statement_form :: "(nft_match \<Rightarrow> bool) \<Rightarrow> nft_statement \<Rightarrow> bool" where
  "statement_form p (NftMatch m) \<longleftrightarrow> p m"
| "statement_form p (NftVmap k ps) \<longleftrightarrow> False"
| "statement_form p s \<longleftrightarrow> True"

definition rules_form :: "(nft_match \<Rightarrow> bool) \<Rightarrow> nft_rule list \<Rightarrow> bool" where
  "rules_form p rs \<longleftrightarrow> list_all (\<lambda>r. list_all (statement_form p) (nr_statements r)) rs"

definition written_form :: "nft_rule list \<Rightarrow> bool" where
  "written_form rs \<longleftrightarrow>
     (let ks = keyed_exprs (concat (map nr_statements rs))
      in rules_form (\<lambda>m. plain_form ks m \<or> keyed_form ks m) rs)"

abbreviation folding :: "string list \<Rightarrow> nft_match \<Rightarrow> bool" where
  "folding ks m \<equiv> plain_form ks m \<or> keyed_form ks m \<or> folded_form ks m"

section \<open>Equal statements mean the same\<close>

lemma elements_equal_set: "elements_equal (Some xs) (Some ys) = Inr True \<Longrightarrow> set xs = set ys"
  by (auto simp: elements_equal_def bindR_Inr_iff sort_set_elements_def dest!: sort_by_keys_mset)
     (metis set_mset_mset)+

lemma match_equal_holds:
  assumes "match_equal a b = Inr True" "folding ks a" "folding ks b"
  shows "match_holds sem a = match_holds sem b"
proof (cases "nm_set_key a \<noteq> None \<and> nm_set_key b \<noteq> None")
  case True
  with assms(1) have eq: "nm_set_key a = nm_set_key b" "nm_element a = nm_element b"
      "elements_equal (nm_elements a) (nm_elements b) = Inr True"
    by (auto simp: match_equal_def split: if_splits)
  show ?thesis
  proof (cases "nm_elements a")
    case None
    with eq(3) have "nm_elements b = None" by (auto simp: elements_equal_def split: option.splits)
    then show ?thesis
      using None eq True assms(2,3) by (auto simp: plain_form_def keyed_form_def folded_form_def match_holds_def)
  next
    case (Some xs)
    with eq(3) obtain ys where ys: "nm_elements b = Some ys" by (auto simp: elements_equal_def split: option.splits)
    with eq(3) Some have "set xs = set ys" using elements_equal_set by simp
    then show ?thesis using Some ys eq(1) True by (auto simp: match_holds_def list_ex_iff)
  qed
next
  case False
  with assms(1) have "nm_expr a = nm_expr b" by (auto simp: match_equal_def split: if_splits)
  then show ?thesis
    using False assms(2,3) by (auto simp: plain_form_def keyed_form_def folded_form_def match_holds_def)
qed

lemma stmt_equal_run:
  assumes "stmt_equal a b = Inr True" "statement_form (folding ks) a" "statement_form (folding ks) b"
  shows "statements_run sem ends (a # ss) = statements_run sem ends (b # ss)"
  using assms match_equal_holds
  by (cases a; cases b) (auto simp: text_equal_def bindR_Inr_iff)

section \<open>One place of a rule\<close>

lemma then_do_nothing [simp]: "then_do ({}, False) a = a"
  by (simp add: then_do_def)

lemma then_do_end [simp]: "then_do a ({}, False) = a"
  by (cases a) (simp add: then_do_def)

lemma then_do_assoc: "then_do (then_do a b) c = then_do a (then_do b c)"
  by (auto simp: then_do_def)

lemma chain_run_append: "chain_run sem ends (xs @ ys) = then_do (chain_run sem ends xs) (chain_run sem ends ys)"
  by (induction xs) (auto simp: then_do_assoc)

lemma statements_run_cong:
  "statements_run sem ends xs = statements_run sem ends ys \<Longrightarrow>
     statements_run sem ends (a # xs) = statements_run sem ends (a # ys)"
  by (cases a) (auto split: list.splits)

lemma equal_statements_run:
  assumes "list_all2 (\<lambda>a b. \<forall>ss. statements_run sem ends (a # ss) = statements_run sem ends (b # ss)) xs ys"
  shows "statements_run sem ends xs = statements_run sem ends ys"
  using assms by (induction rule: list_all2_induct) (auto intro: statements_run_cong [THEN trans])

lemma then_do_shape: 
  "(\<exists>out. \<forall>ss. then_do (A, e) (g ss) = out) \<or> (\<exists>B. \<forall>ss. then_do (A, e) (g ss) = then_do (B, False) (g ss))"
  by (cases e) (auto simp: then_do_def)

lemma statement_shape:
  "(\<exists>out. \<forall>ss. statements_run sem ends (a # ss) = out) \<or>
     (\<exists>A. \<forall>ss. statements_run sem ends (a # ss) = then_do (A, False) (statements_run sem ends ss))"
proof (cases a)
  case (NftMatch m)
  then show ?thesis by (cases "match_holds sem m") (auto intro!: exI [of _ "{}"])
next
  case (NftVerdict v)
  then show ?thesis using then_do_shape [of "{v}" "ends v" "statements_run sem ends"] by simp
next
  case (NftVmap k ps)
  show ?thesis
  proof (cases "filter (\<lambda>(e, v). sem (keyed_text k e)) ps")
    case Nil
    then have "\<forall>ss. statements_run sem ends (a # ss) = ({}, False)" using NftVmap by simp
    then show ?thesis by blast
  next
    case (Cons p qs)
    then show ?thesis using NftVmap then_do_shape [of "{snd p}" "ends (snd p)" "statements_run sem ends"] by (cases p) simp
  qed
qed (auto intro: exI [of _ "{_}"])

text \<open>What comes before a place either decides alone, or adds to what comes after.\<close>

lemma statements_before:
  "(\<exists>out. \<forall>ss. statements_run sem ends (pre @ ss) = out) \<or>
     (\<exists>A. \<forall>ss. statements_run sem ends (pre @ ss) = then_do (A, False) (statements_run sem ends ss))"
proof (induction pre)
  case Nil
  show ?case by (auto intro!: exI [of _ "{}"])
next
  case (Cons a pre)
  from statement_shape [of sem ends a] show ?case
  proof
    assume "\<exists>out. \<forall>ss. statements_run sem ends (a # ss) = out"
    then show ?thesis by (metis append_Cons)
  next
    assume "\<exists>A. \<forall>ss. statements_run sem ends (a # ss) = then_do (A, False) (statements_run sem ends ss)"
    then obtain A where a: "\<And>ss. statements_run sem ends (a # ss) = then_do (A, False) (statements_run sem ends ss)"
      by blast
    from Cons show ?thesis
    proof
      assume "\<exists>out. \<forall>ss. statements_run sem ends (pre @ ss) = out"
      then show ?thesis using a by (metis append_Cons)
    next
      assume "\<exists>B. \<forall>ss. statements_run sem ends (pre @ ss) = then_do (B, False) (statements_run sem ends ss)"
      then obtain B where b: "\<And>ss. statements_run sem ends (pre @ ss) = then_do (B, False) (statements_run sem ends ss)"
        by blast
      have "then_do (A, False) (then_do (B, False) x) = then_do (A \<union> B, False) x" for x
        by (simp add: then_do_def Un_assoc)
      then have "statements_run sem ends ((a # pre) @ ss) = then_do (A \<union> B, False) (statements_run sem ends ss)" for ss
        using a b by simp
      then show ?thesis by blast
    qed
  qed
qed

text \<open>A rule as a function of the one match at a place.\<close>

definition one_place :: "(bool \<Rightarrow> packet_outcome) \<Rightarrow> bool" where
  "one_place R \<longleftrightarrow> fst (R False) \<subseteq> fst (R True) \<and> (snd (R False) \<longrightarrow> R True = R False)"

lemma one_place_then: "one_place R \<Longrightarrow> then_do (R a) (R b) = R (a \<or> b)"
  by (cases "R False"; cases "R True"; cases a; cases b) (auto simp: one_place_def then_do_def)

lemma place_of_match:
  assumes "axis < length ss"
  shows "\<exists>R. one_place R \<and> (\<forall>m. statements_run sem ends (ss[axis := NftMatch m]) = R (match_holds sem m))"
proof -
  let ?pre = "take axis ss" and ?post = "drop (Suc axis) ss"
  have at: "ss[axis := NftMatch m] = ?pre @ NftMatch m # ?post" for m
    using assms by (simp add: upd_conv_take_nth_drop)
  let ?R = "\<lambda>b. statements_run sem ends (?pre @ (if b then ?post else [NftVmap [] []]))"
  have stop: "statements_run sem ends [NftVmap [] []] = ({}, False)" by simp
  show ?thesis
  proof (intro exI conjI allI)
    show "one_place ?R"
      using statements_before [of sem ends ?pre] by (auto simp: one_place_def then_do_def)
    show "statements_run sem ends (ss[axis := NftMatch m]) = ?R (match_holds sem m)" for m
    proof -
      have "statements_run sem ends (NftMatch m # ?post) =
          statements_run sem ends (if match_holds sem m then ?post else [NftVmap [] []])"
        by simp
      then show ?thesis unfolding at using statements_before [of sem ends ?pre] by metis
    qed
  qed
qed

section \<open>A run of rules becomes one\<close>

lemma differing_equal:
  assumes "differing k as bs = Inr ks" "length as = length bs" "i < length as" "k + i \<notin> set ks"
  shows "stmt_equal (as ! i) (bs ! i) = Inr True"
  using assms
proof (induction k as bs arbitrary: ks i rule: differing.induct)
  case (1 k a as b bs)
  then obtain eq ks' where eq: "stmt_equal a b = Inr eq" and ks': "differing (Suc k) as bs = Inr ks'"
    and ks: "ks = (if eq then ks' else k # ks')"
    by (auto simp: bindR_Inr_iff)
  show ?case
  proof (cases i)
    case 0
    then show ?thesis using 1(5) ks eq by (auto split: if_splits)
  next
    case (Suc j)
    then show ?thesis using 1(1) [OF ks', of j] 1(3,4,5) ks by (auto split: if_splits)
  qed
qed auto

lemma differing_range: "differing k as bs = Inr ks \<Longrightarrow> i \<in> set ks \<Longrightarrow> k \<le> i \<and> i < k + length as"
  by (induction k as bs arbitrary: ks rule: differing.induct) (fastforce simp: bindR_Inr_iff split: if_splits)+

lemma collapse_axis_facts:
  assumes "collapse_axis a b = Inr (Some axis)"
  shows "length (nr_statements a) = length (nr_statements b)" "axis < length (nr_statements a)"
    "eligible_pair (nr_statements a ! axis) (nr_statements b ! axis)"
    "\<forall>i < length (nr_statements a). i \<noteq> axis \<longrightarrow> stmt_equal (nr_statements a ! i) (nr_statements b ! i) = Inr True"
proof -
  from assms have len: "length (nr_statements a) = length (nr_statements b)"
    by (auto simp: collapse_axis_def split: if_splits)
  from assms obtain ks where d: "differing 0 (nr_statements a) (nr_statements b) = Inr ks"
    and some: "(case ks of [k] \<Rightarrow> if eligible_pair (nr_statements a ! k) (nr_statements b ! k) then Some k else None
      | _ \<Rightarrow> None) = Some axis"
    by (auto simp: collapse_axis_def bindR_Inr_iff split: if_splits)
  then have ks: "ks = [axis]" and el: "eligible_pair (nr_statements a ! axis) (nr_statements b ! axis)"
    by (auto split: list.splits if_splits)
  show "length (nr_statements a) = length (nr_statements b)" by (rule len)
  show "axis < length (nr_statements a)" using differing_range [OF d] ks by auto
  show "eligible_pair (nr_statements a ! axis) (nr_statements b ! axis)" by (rule el)
  show "\<forall>i < length (nr_statements a). i \<noteq> axis \<longrightarrow> stmt_equal (nr_statements a ! i) (nr_statements b ! i) = Inr True"
    using differing_equal [OF d len] ks by auto
qed

lemma sibling_run:
  assumes axis: "collapse_axis a b = Inr (Some axis)"
    and form: "list_all (statement_form (folding ks)) (nr_statements a)"
      "list_all (statement_form (folding ks)) (nr_statements b)"
  shows "statements_run sem ends (nr_statements b) =
    statements_run sem ends ((nr_statements a)[axis := nr_statements b ! axis])"
proof (rule equal_statements_run [symmetric])
  note f = collapse_axis_facts [OF axis]
  show "list_all2 (\<lambda>a b. \<forall>ss. statements_run sem ends (a # ss) = statements_run sem ends (b # ss))
      ((nr_statements a)[axis := nr_statements b ! axis]) (nr_statements b)"
  proof (rule list_all2_all_nthI)
    show "length ((nr_statements a)[axis := nr_statements b ! axis]) = length (nr_statements b)" using f(1) by simp
    fix i assume i: "i < length ((nr_statements a)[axis := nr_statements b ! axis])"
    show "\<forall>ss. statements_run sem ends ((nr_statements a)[axis := nr_statements b ! axis] ! i # ss) =
        statements_run sem ends (nr_statements b ! i # ss)"
    proof (cases "i = axis")
      case True
      then show ?thesis using i by simp
    next
      case False
      then have "stmt_equal (nr_statements a ! i) (nr_statements b ! i) = Inr True" using f(4) i by simp
      moreover have "statement_form (folding ks) (nr_statements a ! i)" "statement_form (folding ks) (nr_statements b ! i)"
        using form i f(1) by (auto simp: list_all_length)
      ultimately show ?thesis using False by (auto intro: stmt_equal_run)
    qed
  qed
qed

lemma axis_run_axes: "axis_run base axis rs = Inr (run, rest) \<Longrightarrow> r \<in> set run \<Longrightarrow> collapse_axis base r = Inr (Some axis)"
  by (induction rs arbitrary: run) (auto simp: bindR_Inr_iff split: if_splits)

lemma operands_hold:
  assumes "folding ks m" "nm_set_key m = Some k"
  shows "match_holds sem m \<longleftrightarrow> list_ex (\<lambda>e. sem (keyed_text k e)) (match_operands (NftMatch m))"
  using assms by (auto simp: plain_form_def keyed_form_def folded_form_def match_holds_def split: option.splits)

text \<open>Siblings of one base are the base at one place, and together they are the merged rule.\<close>

lemma merge_run_same:
  assumes axes: "\<And>r. r \<in> set run \<Longrightarrow> collapse_axis base r = Inr (Some axis)" and some: "run \<noteq> []"
    and form: "rules_form (folding ks) (base # run)"
  shows "chain_run sem ends (base # run) = chain_run sem ends [merge_run base run axis]"
proof -
  let ?ss = "nr_statements base" and ?at = "\<lambda>r. nr_statements r ! axis"
  have ok: "list_all (statement_form (folding ks)) (nr_statements r)" if "r \<in> set (base # run)" for r
    using form that by (auto simp: rules_form_def list_all_iff)
  obtain r0 where r0: "r0 \<in> set run" using some by (cases run) auto
  note f0 = collapse_axis_facts [OF axes [OF r0]]
  obtain m0 k where m0: "?at base = NftMatch m0" and k: "nm_set_key m0 = Some k"
    using f0(3) by (cases "?at base"; cases "?at r0") auto
  have at: "\<exists>m. ?at r = NftMatch m \<and> nm_set_key m = Some k \<and> folding ks m" if r: "r \<in> set (base # run)" for r
  proof -
    have len: "axis < length (nr_statements r)"
      using r f0(2) collapse_axis_facts(1) [OF axes, of r] by (cases "r = base") auto
    have "\<exists>m. ?at r = NftMatch m \<and> nm_set_key m = Some k"
      using r m0 k collapse_axis_facts(3) [OF axes, of r] by (cases "r = base"; cases "?at r") auto
    moreover have "statement_form (folding ks) (?at r)" using ok [OF r] len by (auto simp: list_all_length)
    ultimately show ?thesis by auto
  qed
  obtain R where R: "one_place R" and place: "\<And>m. statements_run sem ends (?ss[axis := NftMatch m]) = R (match_holds sem m)"
    using place_of_match [OF f0(2)] by blast
  let ?has = "\<lambda>r. list_ex (\<lambda>e. sem (keyed_text k e)) (match_operands (?at r))"
  have each: "statements_run sem ends (nr_statements r) = R (?has r)" if r: "r \<in> set (base # run)" for r
  proof -
    obtain m where m: "?at r = NftMatch m" "nm_set_key m = Some k" "folding ks m" using at [OF r] by blast
    have "statements_run sem ends (nr_statements r) = statements_run sem ends (?ss[axis := ?at r])"
    proof (cases "r = base")
      case False
      then have "collapse_axis base r = Inr (Some axis)" using r axes by simp
      then show ?thesis using ok [of base] ok [OF r] by (intro sibling_run) simp_all
    qed simp
    then show ?thesis using m place operands_hold [OF m(3,2)] by simp
  qed
  have many: "chain_run sem ends rs = R (list_ex ?has rs)" if "set rs \<subseteq> set (base # run)" "rs \<noteq> []" for rs
    using that(2,1)
  proof (induction rs rule: list_nonempty_induct)
    case (single r)
    then show ?case using each by simp
  next
    case (cons r rs)
    then show ?case using each one_place_then [OF R] by simp
  qed
  let ?es = "concat (map (\<lambda>r. match_operands (?at r)) (base # run))"
  let ?m = "(plain_match (nm_expr m0))\<lparr>nm_set_key := Some k, nm_elements := Some ?es\<rparr>"
  have "nr_statements (merge_run base run axis) = ?ss[axis := NftMatch ?m]"
    using m0 k by (simp add: merge_run_def Let_def)
  moreover have "match_holds sem ?m \<longleftrightarrow> list_ex ?has (base # run)"
    by (auto simp: match_holds_def plain_match_def list_ex_iff)
  ultimately have "statements_run sem ends (nr_statements (merge_run base run axis)) = R (list_ex ?has (base # run))"
    using place by simp
  moreover have "chain_run sem ends (base # run) = R (list_ex ?has (base # run))" by (rule many) auto
  moreover have "chain_run sem ends [r] = statements_run sem ends (nr_statements r)" for r
    by simp
  ultimately show ?thesis by simp
qed

lemma merge_run_form:
  assumes axes: "\<And>r. r \<in> set run \<Longrightarrow> collapse_axis base r = Inr (Some axis)" and some: "run \<noteq> []"
    and form: "rules_form (folding ks) (base # run)"
  shows "rules_form (folding ks) [merge_run base run axis]"
proof -
  have ok: "list_all (statement_form (folding ks)) (nr_statements base)" using form by (simp add: rules_form_def)
  obtain r0 where r0: "r0 \<in> set run" using some by (cases run) auto
  note f0 = collapse_axis_facts [OF axes [OF r0]]
  obtain m0 k where m0: "nr_statements base ! axis = NftMatch m0" and k: "nm_set_key m0 = Some k"
    using f0(3) by (cases "nr_statements base ! axis"; cases "nr_statements r0 ! axis") auto
  have "folding ks m0" using ok f0(2) m0 by (auto simp: list_all_length dest!: spec [of _ axis])
  then have "statement_form (folding ks) (with_elements es (NftMatch m0))" for es
    using k by (auto simp: plain_form_def keyed_form_def folded_form_def plain_match_def)
  then show ?thesis using ok m0 f0(2) by (auto simp: rules_form_def merge_run_def Let_def list_all_length nth_list_update)
qed

section \<open>The passes\<close>

lemma rules_form_append [simp]: "rules_form p (xs @ ys) \<longleftrightarrow> rules_form p xs \<and> rules_form p ys"
  by (simp add: rules_form_def)

lemma rules_form_Cons: "rules_form p (r # rs) \<longleftrightarrow> rules_form p [r] \<and> rules_form p rs"
  by (simp add: rules_form_def)

lemma collapse_one_pass_same:
  "collapse_one_pass rs = Inr (out, changed) \<Longrightarrow> rules_form (folding ks) rs \<Longrightarrow>
     rules_form (folding ks) out \<and> chain_run sem ends out = chain_run sem ends rs"
proof (induction rs arbitrary: out changed rule: collapse_one_pass.induct)
  case (3 r s rs)
  then obtain a where a: "collapse_axis r s = Inr a" by (auto simp: bindR_Inr_iff)
  show ?case
  proof (cases a)
    case None
    with a 3(3) obtain out' where out: "collapse_one_pass (s # rs) = Inr (out', changed)" "out = r # out'"
      by (auto simp: bindR_Inr_iff)
    then show ?thesis
      using 3(1) [OF a None out(1)] 3(4) rules_form_Cons [of _ r "s # rs"] rules_form_Cons [of _ r out'] by simp
  next
    case (Some axis)
    with a 3(3) obtain run rest out' c where run: "axis_run r axis rs = Inr (run, rest)"
      and out: "collapse_one_pass rest = Inr (out', c)" "out = merge_run r (s # run) axis # out'"
      by (auto simp: bindR_Inr_iff)
    have rs: "rs = run @ rest" by (rule axis_run_split [OF run])
    have axes: "\<And>x. x \<in> set (s # run) \<Longrightarrow> collapse_axis r x = Inr (Some axis)"
      using a Some axis_run_axes [OF run] by auto
    have form: "rules_form (folding ks) (r # s # run)" "rules_form (folding ks) rest"
      using 3(4) rules_form_append [of _ "r # s # run" rest] by (simp_all add: rs)
    have IH: "rules_form (folding ks) out'" "chain_run sem ends out' = chain_run sem ends rest"
      using 3(2) [OF a Some run refl out(1) form(2)] by auto
    have "rules_form (folding ks) [merge_run r (s # run) axis]" using merge_run_form [OF axes _ form(1)] by simp
    moreover have "chain_run sem ends (r # s # rs) = chain_run sem ends ([merge_run r (s # run) axis] @ rest)"
      unfolding chain_run_append using merge_run_same [OF axes _ form(1), of sem ends]
        chain_run_append [of sem ends "r # s # run" rest] by (simp add: rs)
    ultimately show ?thesis using IH out(2) rules_form_Cons [of _ _ out'] by (simp add: chain_run_append)
  qed
qed auto

lemma collapse_sets_same:
  "collapse_sets rs = Inr out \<Longrightarrow> rules_form (folding ks) rs \<Longrightarrow>
     rules_form (folding ks) out \<and> chain_run sem ends out = chain_run sem ends rs"
proof (induction rs arbitrary: out rule: collapse_sets.induct)
  case (1 rs)
  then obtain mid changed where pass: "collapse_one_pass rs = Inr (mid, changed)"
    and out: "(if changed then collapse_sets mid else Inr mid) = Inr out"
    by (subst (asm) (2) collapse_sets.simps) (auto simp: bindR_Inr_iff)
  note same = collapse_one_pass_same [OF pass 1(3), of sem ends]
  show ?case
  proof (cases changed)
    case True
    then show ?thesis using 1(1) [OF pass refl True, of out] out same by simp
  next
    case False
    then show ?thesis using out same by simp
  qed
qed

text \<open>Two different operands of one selector never hold of the packet together.\<close>

definition leaf_operands :: "nft_rule list \<Rightarrow> (string \<times> string \<times> string) list" where
  "leaf_operands rs = List.map_filter vmap_candidate rs"

definition exclusive_leaves :: "(string \<Rightarrow> bool) \<Rightarrow> nft_rule list \<Rightarrow> bool" where
  "exclusive_leaves sem rs \<longleftrightarrow>
     list_all (\<lambda>(k, e, v). list_all (\<lambda>(l, f, w).
       k = l \<and> sem (keyed_text k e) \<and> sem (keyed_text l f) \<longrightarrow> e = f) (leaf_operands rs)) (leaf_operands rs)"

lemma candidate_run:
  assumes "vmap_candidate r = Some (k, e, v)" "list_all (statement_form (folding ks)) (nr_statements r)"
  shows "statements_run sem ends (nr_statements r) = (if sem (keyed_text k e) then ({v}, ends v) else ({}, False))"
  using assms
  by (auto simp: vmap_candidate_def plain_form_def keyed_form_def folded_form_def match_holds_def then_do_def
      split: if_splits list.splits nft_statement.splits option.splits)

lemma vmap_run_same:
  assumes "vmap_run k seen rs = (ps, rest)" "rules_form (folding ks) rs"
  shows "\<exists>run. rs = run @ rest \<and> map vmap_candidate run = map (\<lambda>(e, v). Some (k, e, v)) ps \<and>
    set (map fst ps) \<inter> set seen = {} \<and> distinct (map fst ps) \<and>
    chain_run sem ends run = foldr then_do (map (\<lambda>(e, v). if sem (keyed_text k e) then ({v}, ends v) else ({}, False)) ps) ({}, False)"
  using assms
proof (induction rs arbitrary: seen ps)
  case (Cons r rs)
  consider "ps = []" "rest = r # rs" | e v ps' where "vmap_candidate r = Some (k, e, v)" "e \<notin> set seen"
      "vmap_run k (e # seen) rs = (ps', rest)" "ps = (e, v) # ps'"
    using Cons.prems(1) by (auto split: option.splits if_splits prod.splits)
  then show ?case
  proof cases
    case 1
    then show ?thesis by (intro exI [of _ "[]"]) simp
  next
    case 2
    have form: "list_all (statement_form (folding ks)) (nr_statements r)" "rules_form (folding ks) rs"
      using Cons.prems(2) by (simp_all add: rules_form_def)
    obtain run where "rs = run @ rest" "map vmap_candidate run = map (\<lambda>(e, v). Some (k, e, v)) ps'"
        "set (map fst ps') \<inter> set (e # seen) = {}" "distinct (map fst ps')"
        "chain_run sem ends run = foldr then_do
           (map (\<lambda>(e, v). if sem (keyed_text k e) then ({v}, ends v) else ({}, False)) ps') ({}, False)"
      using Cons.IH [OF 2(3) form(2)] by blast
    then show ?thesis using 2 candidate_run [OF 2(1) form(1), of sem ends] by (intro exI [of _ "r # run"]) auto
  qed
qed simp

lemma vmap_statement_run:
  assumes "distinct (map fst ps)"
    and "\<And>e v f w. (e, v) \<in> set ps \<Longrightarrow> (f, w) \<in> set ps \<Longrightarrow> sem (keyed_text k e) \<Longrightarrow> sem (keyed_text k f) \<Longrightarrow> e = f"
  shows "statements_run sem ends [NftVmap k ps] =
    foldr then_do (map (\<lambda>(e, v). if sem (keyed_text k e) then ({v}, ends v) else ({}, False)) ps) ({}, False)"
  using assms
proof (induction ps)
  case (Cons p ps)
  obtain e v where p: "p = (e, v)" by force
  have IH: "statements_run sem ends [NftVmap k ps] =
    foldr then_do (map (\<lambda>(e, v). if sem (keyed_text k e) then ({v}, ends v) else ({}, False)) ps) ({}, False)"
    using Cons.prems(1) by (intro Cons.IH) (auto intro: Cons.prems(2))
  show ?case
  proof (cases "sem (keyed_text k e)")
    case True
    have "\<not> sem (keyed_text k f)" if "(f, w) \<in> set ps" for f w
      using that True Cons.prems(1) Cons.prems(2) [of e v f w] by (force simp: p)
    then have "filter (\<lambda>(e, v). sem (keyed_text k e)) ps = []" by (auto simp: filter_empty_conv)
    then show ?thesis using IH [symmetric] True by (simp add: p)
  next
    case False
    then show ?thesis using IH [symmetric] by (simp add: p)
  qed
qed simp

lemma leaf_operands_append [simp]: "leaf_operands (xs @ ys) = leaf_operands xs @ leaf_operands ys"
  by (simp add: leaf_operands_def map_filter_def)

lemma leaf_operands_of: "map vmap_candidate run = map Some xs \<Longrightarrow> leaf_operands run = xs"
  by (induction run arbitrary: xs) (auto simp: leaf_operands_def map_filter_simps Cons_eq_map_conv)

lemma exclusive_leavesD:
  assumes "exclusive_leaves sem rs" "(k, e, v) \<in> set (leaf_operands rs)" "(k, f, w) \<in> set (leaf_operands rs)"
    "sem (keyed_text k e)" "sem (keyed_text k f)"
  shows "e = f"
  using assms unfolding exclusive_leaves_def list_all_iff by fast

lemma exclusive_leaves_mono:
  "exclusive_leaves sem rs \<Longrightarrow> set (leaf_operands xs) \<subseteq> set (leaf_operands rs) \<Longrightarrow> exclusive_leaves sem xs"
  by (simp add: exclusive_leaves_def list_all_iff split_beta) blast

lemma collapse_vmap_same:
  "rules_form (folding ks) rs \<Longrightarrow> exclusive_leaves sem rs \<Longrightarrow>
     chain_run sem ends (collapse_vmap rs) = chain_run sem ends rs"
proof (induction rs rule: collapse_vmap.induct)
  case (2 r rs)
  have form: "rules_form (folding ks) rs" "list_all (statement_form (folding ks)) (nr_statements r)"
    using 2(3) by (simp_all add: rules_form_def)
  show ?case
  proof (cases "vmap_candidate r")
    case None
    have "exclusive_leaves sem rs"
      using 2(4) by (rule exclusive_leaves_mono) (auto simp: leaf_operands_def map_filter_simps split: option.splits)
    with None 2(1) [OF None form(1)] show ?thesis by simp
  next
    case (Some c)
    obtain k e v where c: "vmap_candidate r = Some (k, e, v)" using Some by (cases c) auto
    obtain ps rest where run: "vmap_run k [e] rs = (ps, rest)" by force
    let ?does = "\<lambda>(e, v). if sem (keyed_text k e) then ({v}, ends v) else ({}, False)"
    obtain xs where xs: "rs = xs @ rest" "map vmap_candidate xs = map (\<lambda>(e, v). Some (k, e, v)) ps"
        "set (map fst ps) \<inter> set [e] = {}" "distinct (map fst ps)"
        "chain_run sem ends xs = foldr then_do (map ?does ps) ({}, False)"
      using vmap_run_same [OF run form(1), of sem ends] by blast
    have "map vmap_candidate (r # xs) = map Some (map (\<lambda>(e, v). (k, e, v)) ((e, v) # ps))" using c xs(2) by (simp add: case_prod_beta comp_def)
    then have leaves: "leaf_operands (r # xs) = map (\<lambda>(e, v). (k, e, v)) ((e, v) # ps)" by (rule leaf_operands_of)
    have all: "leaf_operands (r # rs) = leaf_operands (r # xs) @ leaf_operands rest"
      using leaf_operands_append [of "r # xs" rest] xs(1) by simp
    have "exclusive_leaves sem rest" using 2(4) by (rule exclusive_leaves_mono) (simp add: all)
    moreover have "rules_form (folding ks) rest" using form(1) xs(1) by simp
    ultimately have rest: "chain_run sem ends (collapse_vmap rest) = chain_run sem ends rest"
      using 2(2) [OF c refl refl run [symmetric]] by simp
    show ?thesis
    proof (cases "ps = []")
      case True
      then show ?thesis using c run rest xs(1,2) by simp
    next
      case False
      have "statements_run sem ends [NftVmap k ((e, v) # ps)] = foldr then_do (map ?does ((e, v) # ps)) ({}, False)"
      proof (rule vmap_statement_run)
        show "distinct (map fst ((e, v) # ps))" using xs(3,4) by auto
        fix e1 v1 f w
        assume "(e1, v1) \<in> set ((e, v) # ps)" "(f, w) \<in> set ((e, v) # ps)" "sem (keyed_text k e1)" "sem (keyed_text k f)"
        then show "e1 = f" by (intro exclusive_leavesD [OF 2(4), of k e1 v1 f w]) (auto simp: all leaves)
      qed
      also have "\<dots> = then_do (statements_run sem ends (nr_statements r)) (chain_run sem ends xs)"
        using candidate_run [OF c form(2), of sem ends] xs(5) by simp
      finally show ?thesis using c run rest False xs(1) by (simp add: chain_run_append then_do_assoc)
    qed
  qed
qed simp

lemma merge_run_no_leaf:
  assumes "collapse_axis base r = Inr (Some axis)"
  shows "vmap_candidate (merge_run base run axis) = None"
proof -
  note f = collapse_axis_facts [OF assms]
  obtain m where m: "nr_statements base ! axis = NftMatch m" using f(3) by (cases "nr_statements base ! axis") auto
  then have at: "nr_statements (merge_run base run axis) ! axis = with_elements es (NftMatch m)" if
    "es = concat (map (\<lambda>r. match_operands (nr_statements r ! axis)) (base # run))" for es
    using f(2) that by (simp add: merge_run_def Let_def)
  show ?thesis
  proof (rule ccontr)
    assume "vmap_candidate (merge_run base run axis) \<noteq> None"
    then obtain m' v where s: "nr_statements (merge_run base run axis) = [NftMatch m', NftVerdict v]" "nm_elements m' = None"
      by (auto simp: vmap_candidate_def split: if_splits list.splits nft_statement.splits option.splits)
    moreover have "axis < length (nr_statements (merge_run base run axis))" using f(2) by (simp add: merge_run_def Let_def)
    ultimately show False using at by (cases axis) (auto simp: less_Suc_eq)
  qed
qed

lemma collapse_one_pass_leaves:
  "collapse_one_pass rs = Inr (out, changed) \<Longrightarrow> set (leaf_operands out) \<subseteq> set (leaf_operands rs)"
proof (induction rs arbitrary: out changed rule: collapse_one_pass.induct)
  case (3 r s rs)
  then obtain a where a: "collapse_axis r s = Inr a" by (auto simp: bindR_Inr_iff)
  show ?case
  proof (cases a)
    case None
    with a 3(3) obtain out' where out: "collapse_one_pass (s # rs) = Inr (out', changed)" "out = r # out'"
      by (auto simp: bindR_Inr_iff)
    then show ?thesis
      using 3(1) [OF a None out(1)] leaf_operands_append [of "[r]" out'] leaf_operands_append [of "[r]" "s # rs"] by auto
  next
    case (Some axis)
    with a 3(3) obtain run rest out' c where run: "axis_run r axis rs = Inr (run, rest)"
      and out: "collapse_one_pass rest = Inr (out', c)" "out = merge_run r (s # run) axis # out'"
      by (auto simp: bindR_Inr_iff)
    have "leaf_operands [merge_run r (s # run) axis] = []"
      using merge_run_no_leaf [of r s axis] a Some by (simp add: leaf_operands_def map_filter_simps)
    then show ?thesis
      using 3(2) [OF a Some run refl out(1)] out(2) axis_run_split [OF run]
        leaf_operands_append [of "[merge_run r (s # run) axis]" out'] leaf_operands_append [of "r # s # run" rest] by auto
  qed
qed auto

lemma collapse_sets_leaves: "collapse_sets rs = Inr out \<Longrightarrow> set (leaf_operands out) \<subseteq> set (leaf_operands rs)"
proof (induction rs arbitrary: out rule: collapse_sets.induct)
  case (1 rs)
  then obtain mid changed where pass: "collapse_one_pass rs = Inr (mid, changed)"
    and out: "(if changed then collapse_sets mid else Inr mid) = Inr out"
    by (subst (asm) (2) collapse_sets.simps) (auto simp: bindR_Inr_iff)
  then show ?case using 1(1) [OF pass refl, of out] collapse_one_pass_leaves [OF pass] by (cases changed) auto
qed

lemma collapse_same_run:
  assumes "collapse_chain_rules rs = Inr out" and "written_form rs" and "exclusive_leaves sem rs"
  shows "chain_run sem ends out = chain_run sem ends rs"
proof -
  let ?ks = "keyed_exprs (concat (map nr_statements rs))"
  obtain mid where mid: "collapse_sets rs = Inr mid" and out: "out = collapse_vmap mid"
    using assms(1) by (auto simp: collapse_chain_rules_def bindR_Inr_iff)
  have written: "statement_form (\<lambda>m. plain_form ?ks m \<or> keyed_form ?ks m) s \<Longrightarrow> statement_form (folding ?ks) s" for s
    by (cases s) auto
  have "rules_form (folding ?ks) rs"
    using assms(2) written by (auto simp: written_form_def rules_form_def Let_def list_all_iff)
  then have "rules_form (folding ?ks) mid" "chain_run sem ends mid = chain_run sem ends rs"
    using collapse_sets_same [OF mid] by blast+
  moreover have "exclusive_leaves sem mid"
    using assms(3) collapse_sets_leaves [OF mid] by (rule exclusive_leaves_mono)
  ultimately show ?thesis using collapse_vmap_same out by metis
qed

section \<open>Statements that keep a state\<close>

text \<open>
  The truth of a quota, a limit, a set update or a counter \<^verbatim>\<open>numgen\<close> depends on the packets before, that is
  on the rule it stands in: two quotas of one text are two counters. So a rule with such a statement is
  judged by the texts that hold for the rule of its number, any other rule by those that hold of the packet.
\<close>

fun keeps_state :: "nft_statement \<Rightarrow> bool" where
  "keeps_state (NftMatch m) \<longleftrightarrow>
     nm_set_key m = None \<and> (starts_with ''limit '' (nm_expr m) \<or> starts_with ''numgen '' (nm_expr m))"
| "keeps_state (NftVerdict v) \<longleftrightarrow> False"
| "keeps_state (NftVmap k ps) \<longleftrightarrow> False"
| "keeps_state (NftReset e) \<longleftrightarrow> False"
| "keeps_state (NftSetUpdate u) \<longleftrightarrow> True"
| "keeps_state (NftObjectRef r) \<longleftrightarrow> True"
| "keeps_state (NftQuota e) \<longleftrightarrow> True"

definition has_state :: "nft_rule \<Rightarrow> bool" where
  "has_state r \<longleftrightarrow> list_ex keeps_state (nr_statements r)"

fun numbered_run ::
  "(nat option \<Rightarrow> string \<Rightarrow> bool) \<Rightarrow> (string \<Rightarrow> bool) \<Rightarrow> nat \<Rightarrow> nft_rule list \<Rightarrow> packet_outcome" where
  "numbered_run sem ends n [] = ({}, False)"
| "numbered_run sem ends n (r # rs) =
     then_do (statements_run (sem (if has_state r then Some n else None)) ends (nr_statements r))
       (numbered_run sem ends (Suc n) rs)"

definition stateless :: "nft_rule list \<Rightarrow> bool" where
  "stateless rs \<longleftrightarrow> \<not> list_ex has_state rs"

lemma stateless_Cons: "stateless (r # rs) \<longleftrightarrow> \<not> has_state r \<and> stateless rs"
  by (simp add: stateless_def)

lemma stateless_append: "stateless (rs @ ss) \<longleftrightarrow> stateless rs \<and> stateless ss"
  by (simp add: stateless_def)

lemma stateless_run: "stateless rs \<Longrightarrow> numbered_run sem ends n rs = chain_run (sem None) ends rs"
  by (induction rs arbitrary: n) (simp_all add: stateless_Cons)

lemma merged_stateless:
  assumes "\<not> has_state r"
  shows "\<not> has_state (merge_run r run axis)"
proof -
  have keeps: "keeps_state (with_elements es s) = keeps_state s" for es s by (cases s) (simp_all add: plain_match_def)
  show ?thesis
  proof (cases "axis < length (nr_statements r)")
    case True
    then have "\<not> keeps_state (nr_statements r ! axis)" using assms by (auto simp: has_state_def list_ex_iff)
    then show ?thesis using assms
      by (auto simp: merge_run_def Let_def has_state_def list_ex_iff keeps dest!: subsetD [OF set_update_subset_insert])
  next
    case False
    then have "xs[axis := x] = xs" if "length xs = length (nr_statements r)" for xs :: "nft_statement list" and x
      using that by (simp add: list_update_beyond)
    then show ?thesis using assms by (simp add: merge_run_def Let_def has_state_def)
  qed
qed

lemma collapse_one_pass_stateless:
  "collapse_one_pass rs = Inr (out, changed) \<Longrightarrow> stateless rs \<Longrightarrow> stateless out"
proof (induction rs arbitrary: out changed rule: collapse_one_pass.induct)
  case (3 r s rs)
  then obtain a where a: "collapse_axis r s = Inr a" by (auto simp: bindR_Inr_iff)
  show ?case
  proof (cases a)
    case None
    then show ?thesis using 3(1) [OF a] 3(3,4) a by (force simp: bindR_Inr_iff stateless_Cons)
  next
    case (Some axis)
    with a 3(3) obtain run rest out' c where run: "axis_run r axis rs = Inr (run, rest)"
      and out: "collapse_one_pass rest = Inr (out', c)" "out = merge_run r (s # run) axis # out'"
      by (auto simp: bindR_Inr_iff)
    have "stateless rest" "\<not> has_state r"
      using 3(4) axis_run_split [OF run] by (simp_all add: stateless_Cons stateless_append)
    then show ?thesis using 3(2) [OF a Some run refl out(1)] out(2) merged_stateless by (simp add: stateless_Cons)
  qed
qed auto

lemma collapse_sets_stateless: "collapse_sets rs = Inr out \<Longrightarrow> stateless rs \<Longrightarrow> stateless out"
proof (induction rs arbitrary: out rule: collapse_sets.induct)
  case (1 rs)
  then obtain mid changed where pass: "collapse_one_pass rs = Inr (mid, changed)"
    and out: "(if changed then collapse_sets mid else Inr mid) = Inr out"
    by (subst (asm) (2) collapse_sets.simps) (auto simp: bindR_Inr_iff)
  then show ?case using 1(1) [OF pass refl, of out] collapse_one_pass_stateless [OF pass 1(3)] by (cases changed) auto
qed

lemma vmap_run_suffix: "vmap_run k seen rs = (ps, rest) \<Longrightarrow> \<exists>ys. rs = ys @ rest"
proof (induction rs arbitrary: seen ps)
  case (Cons r rs)
  show ?case
  proof (cases "\<exists>e v ps'. vmap_run k (e # seen) rs = (ps', rest) \<and> ps = (e, v) # ps'")
    case True
    then show ?thesis using Cons.IH by (metis append_Cons)
  next
    case False
    then have "rest = r # rs" using Cons.prems by (auto split: option.splits prod.splits if_splits)
    then show ?thesis by simp
  qed
qed simp

lemma collapse_vmap_stateless: "stateless rs \<Longrightarrow> stateless (collapse_vmap rs)"
proof (induction rs rule: collapse_vmap.induct)
  case (2 r rs)
  show ?case
  proof (cases "vmap_candidate r")
    case (Some kev)
    obtain k e v where kev: "kev = (k, e, v)" by (cases kev)
    obtain ps rest where run: "vmap_run k [e] rs = (ps, rest)" by fastforce
    obtain ys where "rs = ys @ rest" using vmap_run_suffix [OF run] by blast
    then have "stateless rest" "\<not> has_state r" using 2(3) by (simp_all add: stateless_Cons stateless_append)
    then show ?thesis using 2(2) [OF Some kev [symmetric] refl run [symmetric]] Some kev run
      by (simp add: stateless_Cons has_state_def)
  next
    case None
    then show ?thesis using 2 by (simp add: stateless_Cons)
  qed
qed (simp add: stateless_def)

text \<open>
  C6: Folding a chain keeps what it does to a packet, under three conditions. The rules are as the
  translation usually writes them: no match without a key has the text of one with a key (a \<^verbatim>\<open>multiport\<close> of
  one port would). No rule keeps a state: no quota, limit, set update, named object or counter, whose
  copies in different rules count apart until folding joins them. And of the packet no two operands of one
  selector hold together in rules of one match and one verdict. Then the folded chain meets the same
  statements and verdicts and ends, or does not end, as the written one did; how often a statement is met
  is not compared.
\<close>

theorem collapse_same_outcome:
  assumes "collapse_chain_rules rs = Inr out" and "written_form rs" and "stateless rs"
    and "exclusive_leaves (sem None) rs"
  shows "numbered_run sem ends n out = numbered_run sem ends n rs"
proof -
  have "stateless out" using assms(1,3) collapse_sets_stateless collapse_vmap_stateless
    by (auto simp: collapse_chain_rules_def bindR_Inr_iff)
  then show ?thesis using collapse_same_run [OF assms(1,2,4)] assms(3) by (simp add: stateless_run)
qed

definition keyed_match :: "string \<Rightarrow> string \<Rightarrow> nft_statement" where
  "keyed_match k e =
     NftMatch ((plain_match (keyed_text k e))\<lparr>nm_set_key := Some k, nm_element := Some e\<rparr>)"

definition folding_sample :: "nft_rule list" where
  "folding_sample = map (\<lambda>ss. \<lparr>nr_statements = ss, nr_comment = None\<rparr>)
     [[keyed_match ''iifname'' ''eth0'', keyed_match ''tcp dport'' ''22'', NftVerdict ''accept''],
      [keyed_match ''iifname'' ''eth0'', keyed_match ''tcp dport'' ''23'', NftVerdict ''accept''],
      [keyed_match ''tcp dport'' ''80'', NftVerdict ''jump web''],
      [keyed_match ''tcp dport'' ''443'', NftVerdict ''drop'']]"

definition folding_sample_folded :: "nft_rule list" where
  "folding_sample_folded = map (\<lambda>ss. \<lparr>nr_statements = ss, nr_comment = None\<rparr>)
     [[keyed_match ''iifname'' ''eth0'', with_elements [''22'', ''23''] (keyed_match ''tcp dport'' ''22''),
       NftVerdict ''accept''],
      [NftVmap ''tcp dport'' [(''80'', ''jump web''), (''443'', ''drop'')]]]"

definition web_packet :: "string \<Rightarrow> bool" where
  "web_packet t \<longleftrightarrow> t \<in> {''iifname eth0'', ''tcp dport 443''}"

lemma collapse_same_outcome_witness:
  "numbered_run (\<lambda>_. web_packet) (\<lambda>v. v = ''drop'') 0 folding_sample_folded =
     numbered_run (\<lambda>_. web_packet) (\<lambda>v. v = ''drop'') 0 folding_sample \<and>
   numbered_run (\<lambda>_. web_packet) (\<lambda>v. v = ''drop'') 0 folding_sample = ({''drop''}, True)"
proof (rule conjI)
  have "collapse_chain_rules folding_sample = Inr folding_sample_folded" by code_simp
  moreover have "written_form folding_sample" by code_simp
  moreover have "stateless folding_sample" by code_simp
  moreover have "exclusive_leaves web_packet folding_sample" by code_simp
  ultimately show "numbered_run (\<lambda>_. web_packet) (\<lambda>v. v = ''drop'') 0 folding_sample_folded =
     numbered_run (\<lambda>_. web_packet) (\<lambda>v. v = ''drop'') 0 folding_sample"
    by (rule collapse_same_outcome)
  show "numbered_run (\<lambda>_. web_packet) (\<lambda>v. v = ''drop'') 0 folding_sample = ({''drop''}, True)" by code_simp
qed

end
