(* ===== verification/Ferm_Nft_Chains.thy ===== *)
theory Ferm_Nft_Chains
  imports Ferm_Nft_Model
begin

text \<open>
  The chains of the nft backend, \<^verbatim>\<open>src/src/pyferm/backend/nft/chains.py\<close>: the hook and priority of a
  built-in chain, the names inside the one table of a family, and the sorted list of its chains.
\<close>

definition chain_char :: "char \<Rightarrow> bool" where
  "chain_char c \<longleftrightarrow> is_word c \<or> c = CHR ''-''"

definition nft_chain_ok :: "string \<Rightarrow> bool" where
  "nft_chain_ok s \<longleftrightarrow> (case s of [] \<Rightarrow> False | c # r \<Rightarrow> is_alpha c \<and> list_all chain_char r)"

record base_chain_spec =
  bs_type :: string
  bs_hook :: string
  bs_priority :: int

type_synonym base_chain_map = "((string \<times> string) \<times> base_chain_spec) list"

definition chain_spec :: "string \<Rightarrow> string \<Rightarrow> int \<Rightarrow> base_chain_spec" where
  "chain_spec t h p = \<lparr>bs_type = t, bs_hook = h, bs_priority = p\<rparr>"

definition BASE_CHAIN_MAP :: base_chain_map where
  "BASE_CHAIN_MAP =
     [((''filter'', ''INPUT''), chain_spec ''filter'' ''input'' 0),
      ((''filter'', ''FORWARD''), chain_spec ''filter'' ''forward'' 0),
      ((''filter'', ''OUTPUT''), chain_spec ''filter'' ''output'' 0),
      ((''nat'', ''PREROUTING''), chain_spec ''nat'' ''prerouting'' (-100)),
      ((''nat'', ''INPUT''), chain_spec ''nat'' ''input'' 100),
      ((''nat'', ''OUTPUT''), chain_spec ''nat'' ''output'' (-100)),
      ((''nat'', ''POSTROUTING''), chain_spec ''nat'' ''postrouting'' 100),
      ((''mangle'', ''PREROUTING''), chain_spec ''filter'' ''prerouting'' (-150)),
      ((''mangle'', ''INPUT''), chain_spec ''filter'' ''input'' (-150)),
      ((''mangle'', ''FORWARD''), chain_spec ''filter'' ''forward'' (-150)),
      ((''mangle'', ''OUTPUT''), chain_spec ''route'' ''output'' (-150)),
      ((''mangle'', ''POSTROUTING''), chain_spec ''filter'' ''postrouting'' (-150)),
      ((''raw'', ''PREROUTING''), chain_spec ''filter'' ''prerouting'' (-300)),
      ((''raw'', ''OUTPUT''), chain_spec ''filter'' ''output'' (-300))]"

definition ARP_BASE_CHAIN_MAP :: base_chain_map where
  "ARP_BASE_CHAIN_MAP =
     [((''filter'', ''INPUT''), chain_spec ''filter'' ''input'' 0),
      ((''filter'', ''OUTPUT''), chain_spec ''filter'' ''output'' 0)]"

definition EB_BASE_CHAIN_MAP :: base_chain_map where
  "EB_BASE_CHAIN_MAP =
     [((''filter'', ''INPUT''), chain_spec ''filter'' ''input'' (-200)),
      ((''filter'', ''FORWARD''), chain_spec ''filter'' ''forward'' (-200)),
      ((''filter'', ''OUTPUT''), chain_spec ''filter'' ''output'' (-200)),
      ((''nat'', ''PREROUTING''), chain_spec ''filter'' ''prerouting'' (-300)),
      ((''nat'', ''OUTPUT''), chain_spec ''filter'' ''output'' 100),
      ((''nat'', ''POSTROUTING''), chain_spec ''filter'' ''postrouting'' 300)]"

definition map_base_chain :: "family \<Rightarrow> string \<Rightarrow> string \<Rightarrow> base_chain_spec res" where
  "map_base_chain fam table chain =
     (let table_map = (case fam of ARP \<Rightarrow> ARP_BASE_CHAIN_MAP | EB \<Rightarrow> EB_BASE_CHAIN_MAP | _ \<Rightarrow> BASE_CHAIN_MAP)
      in case dict_get table_map (table, chain) of
           Some spec \<Rightarrow> Inr spec
         | None \<Rightarrow> refuse [''chain '', sq (table @ ''/'' @ chain), '' not yet supported by nft backend''])"

definition nft_chain_name :: "string \<Rightarrow> string \<Rightarrow> string res" where
  "nft_chain_name table chain =
     (let name = (if table = ''filter'' then chain else table @ ''_'' @ chain)
      in if nft_chain_ok name then Inr name
         else refuse [''chain name '', sq chain, '' is not a valid nft identifier''])"

definition build_chain :: "family \<Rightarrow> string \<Rightarrow> string \<times> chain_info \<Rightarrow> nft_chain res" where
  "build_chain fam table = (\<lambda>(name, ci).
     bindR (nft_chain_name table name) (\<lambda>nft.
       if is_netfilter_builtin_chain table name
       then bindR (map_base_chain fam table name) (\<lambda>spec.
              Inr (NftBaseChain
                \<lparr>bc_name = nft, bc_type = bs_type spec, bc_hook = bs_hook spec,
                 bc_priority = (case ci_priority ci of Some p \<Rightarrow> p | None \<Rightarrow> bs_priority spec),
                 bc_policy = map_option py_lower_text (ci_policy ci)\<rparr>))
       else if ci_priority ci \<noteq> None
       then refuse [''priority is only valid on a base chain, not user chain '', sq name]
       else Inr (NftRegularChain nft)))"

definition build_chains :: "family \<Rightarrow> string \<Rightarrow> table_info \<Rightarrow> nft_chain list res" where
  "build_chains fam table ti = mapR (build_chain fam table) (sort_key fst (ti_chains ti))"

section \<open>What a chain name may contain\<close>

lemma nft_chain_name_ok: "nft_chain_name table chain = Inr n \<Longrightarrow> nft_chain_ok n"
  by (simp add: nft_chain_name_def Let_def split: if_splits)

lemma nft_chain_ok_chars: "nft_chain_ok n \<Longrightarrow> n \<noteq> [] \<and> list_all chain_char n"
  by (auto simp: nft_chain_ok_def chain_char_def is_word_def is_alpha_def split: list.splits)

lemma build_chain_id: "build_chain fam table (name, ci) = Inr c \<Longrightarrow> nft_chain_name table name = Inr (nft_chain_id c)"
  by (auto simp: build_chain_def bindR_Inr_iff split: if_splits)

end
