(* ===== verification/Ferm_Nft_Matches.thy ===== *)
theory Ferm_Nft_Matches
  imports Ferm_Nft_Model
begin

text \<open>
  The translation of one match option, \<^verbatim>\<open>src/src/pyferm/backend/nft/matches.py\<close>: its tables, the
  spelling of the operands, the matches collected from several options of a module, and
  \<^verbatim>\<open>_translate_match_parts\<close>, split by the groups in which the code tests the names.
\<close>

section \<open>Tables\<close>

definition dict_or :: "('k, 'v) dict \<Rightarrow> 'k \<Rightarrow> 'v \<Rightarrow> 'v" where
  "dict_or d k v = (case dict_get d k of None \<Rightarrow> v | Some w \<Rightarrow> w)"

definition NFT_RATE_UNITS :: "string list" where
  "NFT_RATE_UNITS = [''second'', ''minute'', ''hour'', ''day'']"

definition CT_STATE_RANK :: "(string, nat) dict" where
  "CT_STATE_RANK =
     [(''invalid'', 0x01), (''established'', 0x02), (''related'', 0x04), (''new'', 0x08),
      (''untracked'', 0x40)]"

definition CT_STATUS_RANK :: "(string, nat) dict" where
  "CT_STATUS_RANK =
     [(''expected'', 0x01), (''seen-reply'', 0x02), (''assured'', 0x04), (''confirmed'', 0x08),
      (''snat'', 0x10), (''dnat'', 0x20)]"

definition CT_NAT_PSEUDO_STATES :: "string list" where
  "CT_NAT_PSEUDO_STATES = [''snat'', ''dnat'']"

definition CTSTATUS_TOKENS :: "string list" where
  "CTSTATUS_TOKENS = [''expected'', ''seen-reply'', ''assured'', ''confirmed'']"

definition ADDR_KEYWORD :: "(string, string) dict" where
  "ADDR_KEYWORD = [(''source'', ''saddr''), (''destination'', ''daddr'')]"

definition IFACE_KEYWORD :: "(string, string) dict" where
  "IFACE_KEYWORD = [(''in-interface'', ''iifname''), (''out-interface'', ''oifname'')]"

definition PORT_KEYWORD :: "(string, string) dict" where
  "PORT_KEYWORD = [(''sport'', ''sport''), (''dport'', ''dport'')]"

definition MULTIPORT_KEYWORD :: "(string, string) dict" where
  "MULTIPORT_KEYWORD = [(''source-ports'', ''sport''), (''destination-ports'', ''dport'')]"

definition NFT_DEFAULT_LIMIT_RATE :: string where "NFT_DEFAULT_LIMIT_RATE = ''3/hour''"

definition PKTTYPE_MAP :: "(string, string) dict" where
  "PKTTYPE_MAP = [(''unicast'', ''host''), (''broadcast'', ''broadcast''), (''multicast'', ''multicast'')]"

definition ICMP_TYPE_MAP :: "(string, string) dict" where
  "ICMP_TYPE_MAP =
     [(''echo-reply'', ''echo-reply''), (''pong'', ''echo-reply''),
      (''destination-unreachable'', ''destination-unreachable''), (''source-quench'', ''source-quench''),
      (''redirect'', ''redirect''), (''echo-request'', ''echo-request''), (''ping'', ''echo-request''),
      (''router-advertisement'', ''router-advertisement''),
      (''router-solicitation'', ''router-solicitation''), (''time-exceeded'', ''time-exceeded''),
      (''ttl-exceeded'', ''time-exceeded''), (''parameter-problem'', ''parameter-problem''),
      (''timestamp-request'', ''timestamp-request''), (''timestamp-reply'', ''timestamp-reply''),
      (''address-mask-request'', ''address-mask-request''), (''address-mask-reply'', ''address-mask-reply'')]"

definition ICMP6_TYPE_MAP :: "(string, string) dict" where
  "ICMP6_TYPE_MAP =
     [(''destination-unreachable'', ''destination-unreachable''), (''packet-too-big'', ''packet-too-big''),
      (''time-exceeded'', ''time-exceeded''), (''ttl-exceeded'', ''time-exceeded''),
      (''parameter-problem'', ''parameter-problem''), (''echo-request'', ''echo-request''),
      (''ping'', ''echo-request''), (''echo-reply'', ''echo-reply''), (''pong'', ''echo-reply''),
      (''router-solicitation'', ''nd-router-solicit''), (''router-advertisement'', ''nd-router-advert''),
      (''neighbour-solicitation'', ''nd-neighbor-solicit''),
      (''neighbor-solicitation'', ''nd-neighbor-solicit''),
      (''neighbour-advertisement'', ''nd-neighbor-advert''),
      (''neighbor-advertisement'', ''nd-neighbor-advert''), (''redirect'', ''nd-redirect'')]"

definition ICMP_OCTET_MAX :: nat where "ICMP_OCTET_MAX = 255"
definition TCP_OPTION_KIND_MAX :: nat where "TCP_OPTION_KIND_MAX = 255"

definition TCP_OPTION_KIND :: "(nat, string) dict" where
  "TCP_OPTION_KIND =
     [(0, ''eol''), (1, ''nop''), (2, ''maxseg''), (3, ''window''), (4, ''sack-perm''), (5, ''sack''),
      (8, ''timestamp''), (19, ''md5sig''), (30, ''mptcp''), (34, ''fastopen'')]"

definition MARK_MAX :: nat where "MARK_MAX = 0xFFFFFFFF"
definition SPI_MAX :: nat where "SPI_MAX = 0xFFFFFFFF"
definition U16_MAX :: nat where "U16_MAX = 0xFFFF"
definition HOPLIMIT_MAX :: nat where "HOPLIMIT_MAX = 255"
definition NFLOG_GROUP_MAX :: nat where "NFLOG_GROUP_MAX = 65535"

definition ICMP_TYPE_BY_NUMBER :: "(nat, string) dict" where
  "ICMP_TYPE_BY_NUMBER =
     [(0, ''echo-reply''), (3, ''destination-unreachable''), (4, ''source-quench''), (5, ''redirect''),
      (8, ''echo-request''), (9, ''router-advertisement''), (10, ''router-solicitation''),
      (11, ''time-exceeded''), (12, ''parameter-problem''), (13, ''timestamp-request''),
      (14, ''timestamp-reply''), (15, ''info-request''), (16, ''info-reply''),
      (17, ''address-mask-request''), (18, ''address-mask-reply'')]"

definition ICMP6_TYPE_BY_NUMBER :: "(nat, string) dict" where
  "ICMP6_TYPE_BY_NUMBER =
     [(1, ''destination-unreachable''), (2, ''packet-too-big''), (3, ''time-exceeded''),
      (4, ''parameter-problem''), (128, ''echo-request''), (129, ''echo-reply''),
      (130, ''mld-listener-query''), (131, ''mld-listener-report''), (132, ''mld-listener-done''),
      (133, ''nd-router-solicit''), (134, ''nd-router-advert''), (135, ''nd-neighbor-solicit''),
      (136, ''nd-neighbor-advert''), (137, ''nd-redirect''), (138, ''router-renumbering''),
      (141, ''ind-neighbor-solicit''), (142, ''ind-neighbor-advert''), (143, ''mld2-listener-report'')]"

definition TCP_FLAG_ORDER :: "string list" where
  "TCP_FLAG_ORDER = [''fin'', ''syn'', ''rst'', ''psh'', ''ack'', ''urg'']"

definition ARP_OPERATION_BY_NUMBER :: "(nat, string) dict" where
  "ARP_OPERATION_BY_NUMBER =
     [(1, ''request''), (2, ''reply''), (3, ''rrequest''), (4, ''rreply''), (8, ''inrequest''),
      (9, ''inreply''), (10, ''nak'')]"

definition ARP_OPCODE_BY_NAME :: "(string, nat) dict" where
  "ARP_OPCODE_BY_NAME =
     [(''request'', 1), (''reply'', 2), (''request_reverse'', 3), (''reply_reverse'', 4),
      (''drarp_request'', 5), (''drarp_reply'', 6), (''drarp_error'', 7), (''inarp_request'', 8),
      (''arp_nak'', 9)]"

definition TTL_COMPARATOR :: "(string, string) dict" where
  "TTL_COMPARATOR = [(''ttl-eq'', ''''), (''ttl-gt'', ''> ''), (''ttl-lt'', ''< '')]"

definition HL_COMPARATOR :: "(string, string) dict" where
  "HL_COMPARATOR = [(''hl-eq'', ''''), (''hl-gt'', ''> ''), (''hl-lt'', ''< '')]"

definition FIB_TYPE_RANK :: "(string, nat) dict" where
  "FIB_TYPE_RANK =
     [(''unspec'', 0), (''unicast'', 1), (''local'', 2), (''broadcast'', 3), (''anycast'', 4),
      (''multicast'', 5), (''blackhole'', 6), (''unreachable'', 7), (''prohibit'', 8)]"

definition FIB_SELECTOR :: "(string, string) dict" where
  "FIB_SELECTOR = [(''src-type'', ''saddr''), (''dst-type'', ''daddr'')]"

definition DSCP_NAMES :: "(nat, string) dict" where
  "DSCP_NAMES =
     [(0x00, ''cs0''), (0x01, ''lephb''), (0x08, ''cs1''), (0x0A, ''af11''), (0x0C, ''af12''),
      (0x0E, ''af13''), (0x10, ''cs2''), (0x12, ''af21''), (0x14, ''af22''), (0x16, ''af23''),
      (0x18, ''cs3''), (0x1A, ''af31''), (0x1C, ''af32''), (0x1E, ''af33''), (0x20, ''cs4''),
      (0x22, ''af41''), (0x24, ''af42''), (0x26, ''af43''), (0x28, ''cs5''), (0x2C, ''va''),
      (0x2E, ''ef''), (0x30, ''cs6''), (0x38, ''cs7'')]"

definition DSCP_CLASS :: "(string, nat) dict" where
  "DSCP_CLASS =
     [(''cs0'', 0x00), (''cs1'', 0x08), (''cs2'', 0x10), (''cs3'', 0x18), (''cs4'', 0x20),
      (''cs5'', 0x28), (''cs6'', 0x30), (''cs7'', 0x38), (''af11'', 0x0A), (''af12'', 0x0C),
      (''af13'', 0x0E), (''af21'', 0x12), (''af22'', 0x14), (''af23'', 0x16), (''af31'', 0x1A),
      (''af32'', 0x1C), (''af33'', 0x1E), (''af41'', 0x22), (''af42'', 0x24), (''af43'', 0x26),
      (''ef'', 0x2E), (''be'', 0x00)]"

definition DSCP_MAX :: nat where "DSCP_MAX = 0x3F"

definition CT_TUPLE_ADDR :: "(string, string \<times> string) dict" where
  "CT_TUPLE_ADDR =
     [(''ctorigsrc'', ''original'', ''saddr''), (''ctorigdst'', ''original'', ''daddr''),
      (''ctreplsrc'', ''reply'', ''saddr''), (''ctrepldst'', ''reply'', ''daddr'')]"

definition CT_TUPLE_PORT :: "(string, string \<times> string) dict" where
  "CT_TUPLE_PORT =
     [(''ctorigsrcport'', ''original'', ''proto-src''), (''ctorigdstport'', ''original'', ''proto-dst''),
      (''ctreplsrcport'', ''reply'', ''proto-src''), (''ctrepldstport'', ''reply'', ''proto-dst'')]"

definition CT_LABEL_MAX :: nat where "CT_LABEL_MAX = 127"

definition DEVGROUP_SELECTOR :: "(string, string) dict" where
  "DEVGROUP_SELECTOR = [(''src-group'', ''iifgroup''), (''dst-group'', ''oifgroup'')]"

definition DCCP_TYPE_RANK :: "(string, nat) dict" where
  "DCCP_TYPE_RANK =
     [(''request'', 0), (''response'', 1), (''data'', 2), (''ack'', 3), (''dataack'', 4),
      (''closereq'', 5), (''close'', 6), (''reset'', 7), (''sync'', 8), (''syncack'', 9)]"

definition MH_TYPE_BY_NUMBER :: "(nat, string) dict" where
  "MH_TYPE_BY_NUMBER =
     [(0, ''binding-refresh-request''), (1, ''home-test-init''), (2, ''careof-test-init''),
      (3, ''home-test''), (4, ''careof-test''), (5, ''binding-update''), (6, ''binding-acknowledgement''),
      (7, ''binding-error''), (8, ''fast-binding-update'')]"

definition EXTHDR_SELECTOR :: "(string, string) dict" where
  "EXTHDR_SELECTOR =
     [(''hbh-len'', ''hbh hdrlength''), (''dst-len'', ''dst hdrlength''), (''rt-len'', ''rt hdrlength''),
      (''rt-type'', ''rt type''), (''rt-segsleft'', ''rt seg-left'')]"

definition ECN_ECT_NAMES :: "(string, string) dict" where
  "ECN_ECT_NAMES = [(''0'', ''not-ect''), (''1'', ''ect1''), (''2'', ''ect0''), (''3'', ''ce'')]"

definition IPV6HEADER_NAME :: "(string, string) dict" where
  "IPV6HEADER_NAME =
     [(''hop'', ''hbh''), (''hop-by-hop'', ''hbh''), (''route'', ''rt''), (''frag'', ''frag''),
      (''dst'', ''dst''), (''mh'', ''mh'')]"

definition IPV4OPTIONS_NAME :: "(string, string) dict" where
  "IPV4OPTIONS_NAME =
     [(''lsrr'', ''lsrr''), (''ssrr'', ''ssrr''), (''rr'', ''rr''), (''ts'', ''timestamp''),
      (''timestamp'', ''timestamp''), (''ro'', ''ra''), (''router-alert'', ''ra'')]"

definition TC_HANDLE_ROOT :: nat where "TC_HANDLE_ROOT = 0xFFFF"

definition OSF_TTL :: "(string, string) dict" where
  "OSF_TTL = [(''0'', ''''), (''1'', ''loose''), (''2'', ''skip'')]"

definition MATCH_SET_FLAG :: "(string, string) dict" where
  "MATCH_SET_FLAG = [(''src'', ''saddr''), (''dst'', ''daddr'')]"

section \<open>Operands\<close>

definition for_nft :: string where "for_nft = '' for nft backend''"

definition tcp_flag_token :: "string \<Rightarrow> string res" where
  "tcp_flag_token raw =
     (if py_lower_text raw \<in> set TCP_FLAG_ORDER then Inr (py_lower_text raw)
      else refuse [''unknown tcp flag '', sq raw, for_nft])"

definition tcp_flag_list :: "string \<Rightarrow> string list res" where
  "tcp_flag_list s =
     (if py_lower_text s = ''all'' then Inr TCP_FLAG_ORDER
      else bindR (mapR tcp_flag_token (split_char (CHR '','') s)) (\<lambda>seen.
             Inr (filter (\<lambda>f. f \<in> set seen) TCP_FLAG_ORDER)))"

definition tcp_flags_text :: "bool \<Rightarrow> string \<Rightarrow> string \<Rightarrow> string res" where
  "tcp_flags_text neg mask_raw comp_raw =
     bindR (tcp_flag_list mask_raw) (\<lambda>m.
       if py_lower_text comp_raw = ''none''
       then if neg then refuse [''negated tcp-flags NONE cannot be expressed'', for_nft]
            else Inr (''tcp flags ! '' @ join_str '','' m)
       else bindR (tcp_flag_list comp_raw) (\<lambda>comp.
              let mask_text = (case m of [x] \<Rightarrow> x | _ \<Rightarrow> ''('' @ join_str '' | '' m @ '')'')
              in Inr (''tcp flags & '' @ mask_text @ (if neg then '' != '' else '' == '') @
                      join_str '' | '' comp)))"

definition tcp_flags_expr :: "cfg_value \<Rightarrow> string res" where
  "tcp_flags_expr v =
     (case strip_negation v of
        VParams [VStr m, VStr c] \<Rightarrow> tcp_flags_text (is_negation v) m c
      | _ \<Rightarrow> refuse [UNSUPPORTED_VALUE_SHAPE])"

definition owner_number :: "string \<Rightarrow> (string \<Rightarrow> nat option) \<Rightarrow> string \<Rightarrow> string res" where
  "owner_number what db s =
     (if CHR 0x00 \<in> set s then Inl PyValueError
      else case db s of
             Some n \<Rightarrow> Inr (string_of_nat n)
           | None \<Rightarrow> refuse [''unknown '', what, '' '', sq s, for_nft])"

definition owner_value :: "nft_host \<Rightarrow> string \<Rightarrow> string \<Rightarrow> string res" where
  "owner_value hs name s =
     (if is_ascii_uint s \<or> dash_range s then Inr s
      else if name = ''uid-owner'' then owner_number ''user'' (nh_user hs) s
      else owner_number ''group'' (nh_group hs) s)"

text \<open>A count and, after a slash, a prefix of a unit.\<close>

definition nft_rate :: "string \<Rightarrow> string res" where
  "nft_rate s =
     (let bad = refuse [''invalid rate '', sq s, for_nft]
      in case py_partition (CHR ''/'') s of
           (n, slash, u) \<Rightarrow>
             if \<not> is_ascii_uint n then bad
             else if \<not> slash then Inr (n @ ''/second'')
             else if u = [] \<or> \<not> list_all is_alpha u then bad
             else (case filter (starts_with (py_lower_text u)) NFT_RATE_UNITS of
                     unit # _ \<Rightarrow> Inr (n @ ''/'' @ unit)
                   | [] \<Rightarrow> bad))"

definition mark_number :: "string \<Rightarrow> string res" where
  "mark_number s =
     (case py_int_auto s of
        Some n \<Rightarrow>
          if 0 \<le> n \<and> n \<le> int MARK_MAX then Inr (hex08 (nat n))
          else refuse [''invalid mark '', sq s, for_nft]
      | None \<Rightarrow> refuse [''invalid mark '', sq s, for_nft])"

definition mark_value :: "string \<Rightarrow> string res" where
  "mark_value s =
     (case py_partition (CHR ''/'') s of
        (base, slash, m) \<Rightarrow>
          if \<not> slash then mark_number s
          else if py_int_auto m \<noteq> Some (int MARK_MAX)
          then refuse [''masked mark '', sq s, '' not yet supported by nft backend'']
          else mark_number base)"

definition masked_mark_expr :: "string \<Rightarrow> string \<Rightarrow> bool \<Rightarrow> string option res" where
  "masked_mark_expr selector s neg =
     (case py_partition (CHR ''/'') s of
        (base, slash, m) \<Rightarrow>
          if \<not> slash then Inr None
          else (case (py_int_auto base, py_int_auto m) of
                  (Some n, Some k) \<Rightarrow>
                    if k = int MARK_MAX then Inr None
                    else if \<not> (0 \<le> n \<and> n \<le> int MARK_MAX \<and> 0 \<le> k \<and> k \<le> int MARK_MAX)
                    then refuse [''invalid mark '', sq s, for_nft]
                    else Inr (Some (selector @ '' & '' @ hex08 (nat k) @
                                (if neg then '' != '' else '' == '') @ hex08 (nat n)))
                | _ \<Rightarrow> refuse [''invalid mark '', sq s, for_nft]))"

text \<open>\<^verbatim>\<open>type\<close> or \<^verbatim>\<open>type/code\<close>, each of one to three digits.\<close>

definition octet_text :: "string \<Rightarrow> bool" where
  "octet_text s \<longleftrightarrow> is_ascii_uint s \<and> length s \<le> 3"

definition icmp_numeric :: "string \<Rightarrow> (string \<times> string option) option" where
  "icmp_numeric s =
     (case py_partition (CHR ''/'') s of
        (t, slash, c) \<Rightarrow>
          if octet_text t \<and> (\<not> slash \<or> octet_text c) then Some (t, if slash then Some c else None)
          else None)"

definition icmp_number_expr :: "string \<Rightarrow> (nat, string) dict \<Rightarrow> string \<Rightarrow> bool \<Rightarrow> string \<Rightarrow> string option \<Rightarrow> string res" where
  "icmp_number_expr keyword names s neg t code =
     (if nat_of_string t > ICMP_OCTET_MAX \<or>
         (case code of None \<Rightarrow> False | Some c \<Rightarrow> nat_of_string c > ICMP_OCTET_MAX)
      then refuse [''invalid icmp type '', sq s, for_nft]
      else let type_text = dict_or names (nat_of_string t) t
           in case code of
                None \<Rightarrow> Inr (keyword @ '' type '' @ nft_op neg @ type_text)
              | Some c \<Rightarrow>
                  if neg then refuse [''negated icmp type/code match cannot be expressed as infix nft matches'']
                  else Inr (keyword @ '' type '' @ type_text @ '' '' @ keyword @ '' code '' @ c))"

definition icmp_type_expr :: "family \<Rightarrow> string \<Rightarrow> bool \<Rightarrow> string res" where
  "icmp_type_expr fam s neg =
     (let keyword = (if fam = IP6 then ''icmpv6'' else ''icmp'')
      in case icmp_numeric s of
           Some (t, code) \<Rightarrow>
             icmp_number_expr keyword (if fam = IP6 then ICMP6_TYPE_BY_NUMBER else ICMP_TYPE_BY_NUMBER)
               s neg t code
         | None \<Rightarrow>
             (case dict_get (if fam = IP6 then ICMP6_TYPE_MAP else ICMP_TYPE_MAP) s of
                Some name \<Rightarrow> Inr (keyword @ '' type '' @ nft_op neg @ name)
              | None \<Rightarrow> refuse [''icmp-type '', sq s, '' not yet supported by nft backend'']))"

definition braced :: "string list \<Rightarrow> string" where
  "braced xs = (case xs of [x] \<Rightarrow> x | _ \<Rightarrow> ''{ '' @ join_str '', '' xs @ '' }'')"

definition rank_in :: "(string, nat) dict \<Rightarrow> string \<Rightarrow> nat" where
  "rank_in d s = dict_or d s 0"

definition fib_type_token :: "string \<Rightarrow> string res" where
  "fib_type_token raw =
     (let lowered = py_lower_text (py_strip raw)
      in if dict_has FIB_TYPE_RANK lowered then Inr lowered
         else refuse [''address type '', sq (py_strip raw), '' has no nft fib equivalent''])"

definition fib_type_literal :: "string \<Rightarrow> string res" where
  "fib_type_literal s =
     bindR (mapR fib_type_token (split_char (CHR '','') s)) (\<lambda>ts.
       Inr (braced (sort_key (rank_in FIB_TYPE_RANK) ts)))"

definition fib_type_match :: "string \<Rightarrow> cfg_value \<Rightarrow> string \<Rightarrow> string res" where
  "fib_type_match name v iface =
     bindR (unwrap_value v) (\<lambda>(s, neg). bindR (fib_type_literal s) (\<lambda>t.
       Inr (''fib '' @ dict_or FIB_SELECTOR name [] @ iface @ '' type '' @ nft_op neg @ t)))"

definition dscp_canon :: "nat \<Rightarrow> string" where
  "dscp_canon n = dict_or DSCP_NAMES n (''0x'' @ pad0 2 (hex_text n))"

definition dscp_value :: "string \<Rightarrow> string \<Rightarrow> nat res" where
  "dscp_value name s =
     (case py_int_auto s of
        None \<Rightarrow> refuse [''option '', sq name, '': invalid dscp value '', sq s, for_nft]
      | Some n \<Rightarrow>
          if 0 \<le> n \<and> n \<le> int DSCP_MAX then Inr (nat n)
          else refuse [''option '', sq name, '': dscp value '', sq s, '' out of range 0-63'', for_nft])"

definition dscp_class_value :: "string \<Rightarrow> string \<Rightarrow> nat res" where
  "dscp_class_value name s =
     (case dict_get DSCP_CLASS (py_lower_text s) of
        Some n \<Rightarrow> Inr n
      | None \<Rightarrow> refuse [''option '', sq name, '': unknown dscp class '', sq s, for_nft])"

definition tos_refusal :: "string \<Rightarrow> string \<Rightarrow> 'a res" where
  "tos_refusal kind name =
     refuse [kind, '' '', sq name, '' has no nft equivalent (no single nft selector covers the full '',
       ''8-bit TOS byte with a mask; nft exposes dscp and ecn separately)'']"

definition ct_bitmask_expr :: "string \<Rightarrow> string list \<Rightarrow> (string, nat) dict \<Rightarrow> bool \<Rightarrow> string" where
  "ct_bitmask_expr selector members rank neg =
     (let ordered = sort_key (rank_in rank) (remdups members); joined = join_str '','' ordered
      in if \<not> neg then selector @ '' '' @ joined
         else if selector = ''ct state'' \<and> length ordered = 1 then selector @ '' != '' @ joined
         else selector @ '' ! '' @ joined)"

definition ct_state_member :: "string \<Rightarrow> string res" where
  "ct_state_member m =
     (if m \<in> set NFT_CT_STATES \<or> m \<in> set CT_NAT_PSEUDO_STATES then Inr m
      else refuse [''unknown ct state '', sq m, for_nft])"

definition ctstate_expr :: "string \<Rightarrow> string \<Rightarrow> bool \<Rightarrow> string res" where
  "ctstate_expr name s neg =
     bindR (mapR ct_state_member (split_char (CHR '','') (py_lower_text s))) (\<lambda>members.
       let states = filter (\<lambda>m. m \<in> set NFT_CT_STATES) members;
           statuses = filter (\<lambda>m. m \<in> set CT_NAT_PSEUDO_STATES) members
       in if states \<noteq> [] \<and> statuses \<noteq> []
          then refuse [''option '', sq name, '': a list mixing connection states and SNAT/DNAT pseudo-states '',
                 ''matches any of them; nft cannot OR '', sq ''ct state'', '' with '', sq ''ct status'',
                 '' in one rule'']
          else if statuses \<noteq> [] then Inr (ct_bitmask_expr ''ct status'' statuses CT_STATUS_RANK neg)
          else Inr (ct_bitmask_expr ''ct state'' states CT_STATE_RANK neg))"

definition iprange_bound :: "family \<Rightarrow> string \<Rightarrow> string res" where
  "iprange_bound fam s =
     bindR (validate_address s) (\<lambda>safe.
       case ip_address safe of
         None \<Rightarrow> refuse [''invalid iprange bound '', sq s, '' for the nft backend'']
       | Some a \<Rightarrow>
           if ip_version a \<noteq> (if fam = IP then 4 else 6)
           then refuse [''iprange bound '', sq s, '' does not match the '', family_name fam,
                  '' family for the nft backend'']
           else Inr safe)"

definition uint_exceeds :: "string \<Rightarrow> nat \<Rightarrow> bool res" where
  "uint_exceeds s maximum = bindR (py_int_digits s) (\<lambda>n. Inr (n > maximum))"

definition uint_or_range :: "string \<Rightarrow> string \<Rightarrow> nat \<Rightarrow> string res" where
  "uint_or_range name s maximum =
     (let bad = refuse [''invalid '', name, '' '', sq s, for_nft]
      in if is_ascii_uint s
         then bindR (uint_exceeds s maximum) (\<lambda>b. if b then bad else Inr s)
         else case py_partition (CHR '':'') s of
                (low, sep, high) \<Rightarrow>
                  if sep \<and> is_ascii_uint low \<and> is_ascii_uint high
                  then bindR (uint_exceeds low maximum) (\<lambda>b. if b then bad
                         else bindR (uint_exceeds high maximum) (\<lambda>c. if c then bad
                                else Inr (low @ ''-'' @ high)))
                  else bad)"

definition group_value :: "string \<Rightarrow> string \<Rightarrow> string res" where
  "group_value name s =
     (if CHR ''/'' \<in> set s then refuse [''masked '', name, '' '', sq s, '' not yet supported by nft backend'']
      else case py_int_auto s of
             None \<Rightarrow> refuse [''symbolic '', name, '' '', sq s, '' not yet supported by nft backend'']
           | Some n \<Rightarrow>
               if 0 \<le> n \<and> n \<le> int MARK_MAX then Inr (string_of_int n)
               else refuse [''invalid '', name, '' '', sq s, for_nft])"

definition ct_expiration_operand :: "string \<Rightarrow> string res" where
  "ct_expiration_operand s =
     (if is_ascii_uint s
      then bindR (py_int_digits s) (\<lambda>n. if n = 0 then Inr ''0s'' else nft_time_canon (n * 1000))
      else case py_partition (CHR '':'') s of
             (low, sep, high) \<Rightarrow>
               if sep \<and> is_ascii_uint low \<and> is_ascii_uint high then Inr (low @ ''s-'' @ high @ ''s'')
               else refuse [''invalid ctexpire '', sq s, for_nft])"

definition dccp_type_token :: "string \<Rightarrow> string res" where
  "dccp_type_token raw =
     (let t = py_lower_text (py_strip raw)
      in if dict_has DCCP_TYPE_RANK t then Inr t
         else refuse [''dccp type '', sq raw, '' has no nft equivalent''])"

definition dccp_types_expr :: "string \<Rightarrow> bool \<Rightarrow> string res" where
  "dccp_types_expr s neg =
     bindR (mapR dccp_type_token (split_char (CHR '','') s)) (\<lambda>ts.
       Inr (''dccp type '' @ nft_op neg @ braced (sort_key (rank_in DCCP_TYPE_RANK) (remdups ts))))"

section \<open>Matches of several options\<close>

type_synonym nft_options = "(string, rendered_option) dict"

definition policy_match :: "nft_options \<Rightarrow> string res" where
  "policy_match opts =
     (case sort (filter (\<lambda>n. n \<notin> {''dir'', ''pol''}) (dict_keys opts)) of
        n # _ \<Rightarrow> refuse [''mod policy option '', sq n, '' not yet supported by nft backend'']
      | [] \<Rightarrow>
          (case (dict_get opts ''dir'', dict_get opts ''pol'') of
             (Some d, Some p) \<Rightarrow>
               bindR (unwrap_scalar (ro_value d)) (\<lambda>ds. bindR (unwrap_scalar (ro_value p)) (\<lambda>ps.
                 if ds \<noteq> ''in''
                 then refuse [''mod policy '', sq (''dir '' @ ds), '' has no nft equivalent '',
                        ''(meta ipsec tests the input secpath only)'']
                 else if ps = ''ipsec'' then Inr ''meta ipsec exists''
                 else if ps = ''none'' then Inr ''meta ipsec missing''
                 else refuse [''invalid policy pol '', sq ps, for_nft]))
           | _ \<Rightarrow> refuse [''mod policy needs both '', sq ''dir'', '' and '', sq ''pol'', '' for the nft backend'']))"

definition osf_ttl :: "rendered_option option \<Rightarrow> string res" where
  "osf_ttl ttl =
     (case ttl of
        None \<Rightarrow> Inr []
      | Some o' \<Rightarrow> bindR (unwrap_value (ro_value o')) (\<lambda>(s, neg).
          if neg then refuse [''mod osf '', sq ''ttl'', '' cannot be negated for the nft backend'']
          else case dict_get OSF_TTL s of
                 None \<Rightarrow> refuse [''mod osf '', sq (''ttl '' @ s), '' has no nft equivalent'']
               | Some level \<Rightarrow> Inr (if level = [] then [] else '' ttl '' @ level)))"

definition osf_match :: "family \<Rightarrow> nft_options \<Rightarrow> string res" where
  "osf_match fam opts =
     (if fam \<noteq> IP then refuse [''mod osf is ip-only for the nft backend'']
      else if dict_has opts ''log''
      then refuse [''mod osf option '', sq ''log'', '' has no nft equivalent '',
             ''(nft osf does not log fingerprint matches)'']
      else case dict_get opts ''genre'' of
             None \<Rightarrow> refuse [''mod osf needs '', sq ''genre'', '' for the nft backend'']
           | Some g \<Rightarrow> bindR (unwrap_value (ro_value g)) (\<lambda>(genre, neg).
               bindR (osf_ttl (dict_get opts ''ttl'')) (\<lambda>ttl.
               bindR (nft_quote_string genre) (\<lambda>q.
                 Inr (''osf'' @ ttl @ '' name '' @ nft_op neg @ q)))))"

definition ipv6header_name :: "string \<Rightarrow> string res" where
  "ipv6header_name raw =
     (let n = py_lower_text (py_strip raw)
      in case dict_get IPV6HEADER_NAME n of
           Some k \<Rightarrow> Inr k
         | None \<Rightarrow> refuse [''ipv6header header '', sq n, '' has no nft exthdr equivalent''])"

definition ipv6header_matches :: "family \<Rightarrow> nft_options \<Rightarrow> string list res" where
  "ipv6header_matches fam opts =
     (if fam \<noteq> IP6 then refuse [''mod ipv6header is ip6-only for the nft backend'']
      else case dict_get opts ''header'' of
             None \<Rightarrow> refuse [''mod ipv6header needs '', sq ''header'', '' for the nft backend'']
           | Some h \<Rightarrow>
               if \<not> dict_has opts ''soft''
               then refuse [''mod ipv6header without '', sq ''soft'', '' matches the exact header set; '',
                      ''nft exthdr cannot express it'']
               else bindR (unwrap_value (ro_value h)) (\<lambda>(s, neg).
                 bindR (mapR ipv6header_name (split_char (CHR '','') s)) (\<lambda>ks.
                   let mapped = firsts ks
                   in if neg
                      then (case mapped of
                              [k] \<Rightarrow> Inr [''exthdr '' @ k @ '' missing'']
                            | _ \<Rightarrow> refuse [''negated ipv6header header list (misses at least one) cannot '',
                                     ''be expressed as infix nft matches''])
                      else Inr (map (\<lambda>k. ''exthdr '' @ k @ '' exists'') mapped))))"

definition ipv4options_flag :: "string \<Rightarrow> string res" where
  "ipv4options_flag raw =
     (let (t, state) = (case raw of c # r \<Rightarrow> if c = CHR ''!'' then (r, ''missing'') else (raw, ''exists'')
                        | [] \<Rightarrow> (raw, ''exists''))
      in case dict_get IPV4OPTIONS_NAME (py_lower_text t) of
           Some k \<Rightarrow> Inr (''ip option '' @ k @ '' '' @ state)
         | None \<Rightarrow> refuse [''ipv4options flag '', sq raw, '' has no nft equivalent''])"

definition ipv4options_negated :: "string list \<Rightarrow> string list res" where
  "ipv4options_negated members =
     (case members of
        [m] \<Rightarrow>
          if starts_with ''!'' m
          then refuse [''negated ipv4options flag list (misses at least one) cannot be expressed as infix nft matches'']
          else (case dict_get IPV4OPTIONS_NAME (py_lower_text m) of
                  Some k \<Rightarrow> Inr [''ip option '' @ k @ '' missing'']
                | None \<Rightarrow> refuse [''ipv4options flag '', sq m, '' has no nft equivalent''])
      | _ \<Rightarrow> refuse [''negated ipv4options flag list (misses at least one) cannot be expressed as infix nft matches''])"

definition ipv4options_matches :: "family \<Rightarrow> nft_options \<Rightarrow> string list res" where
  "ipv4options_matches fam opts =
     (if fam \<noteq> IP then refuse [''mod ipv4options is ip-only for the nft backend'']
      else if dict_has opts ''any''
      then refuse [''ipv4options '', sq ''any'', '' ORs the option flags; nft cannot OR '',
             ''header-option presence in one rule'']
      else case dict_get opts ''flags'' of
             None \<Rightarrow> refuse [''mod ipv4options needs '', sq ''flags'', '' for the nft backend'']
           | Some f \<Rightarrow> bindR (unwrap_value (ro_value f)) (\<lambda>(s, neg).
               let members = map py_strip (split_char (CHR '','') s)
               in if neg then ipv4options_negated members else mapR ipv4options_flag members))"

definition rpfilter_match :: "family \<Rightarrow> string list \<Rightarrow> string res" where
  "rpfilter_match fam names =
     (if fam \<notin> {IP, IP6} then refuse [''mod rpfilter is ip/ip6-only for the nft backend'']
      else if ''accept-local'' \<in> set names
      then refuse [''rpfilter '', sq ''accept-local'', '' ORs a second local-source condition; '',
             ''nft cannot express it in one fib match'']
      else Inr (''fib saddr'' @ (if ''validmark'' \<in> set names then '' . mark'' else []) @
                (if ''loose'' \<in> set names then [] else '' . iif'') @ '' oif '' @
                (if ''invert'' \<in> set names then ''0'' else ''!= 0'')))"

definition socket_matches :: "family \<Rightarrow> string list \<Rightarrow> string list res" where
  "socket_matches fam names =
     (if fam \<notin> {IP, IP6} then refuse [''mod socket is ip/ip6-only for the nft backend'']
      else let transparent = ''transparent'' \<in> set names; nowildcard = ''nowildcard'' \<in> set names
           in Inr (if transparent \<and> nowildcard then [''socket transparent 1'']
                   else if transparent then [''socket wildcard 0'', ''socket transparent 1'']
                   else if nowildcard then [''socket wildcard <= 1'']
                   else [''socket wildcard 0'']))"

section \<open>One match option\<close>

type_synonym match_parts = "string \<times> string option \<times> string option"

definition just_expr :: "string \<Rightarrow> match_parts res" where
  "just_expr e = Inr (e, None, None)"

definition keyed_expr :: "string \<Rightarrow> bool \<Rightarrow> string \<Rightarrow> match_parts res" where
  "keyed_expr key neg operand =
     (let e = key @ '' '' @ nft_op neg @ operand
      in Inr (if neg then (e, None, None) else (e, Some key, Some operand)))"

definition port_selector :: "string \<Rightarrow> string option \<Rightarrow> string \<Rightarrow> string res" where
  "port_selector name protocol keyword =
     (case protocol of
        Some p \<Rightarrow>
          if p \<in> set PORT_PROTOCOLS then Inr (p @ '' '' @ keyword)
          else refuse [''option '', sq name, '' needs a tcp/udp protocol for the nft backend'']
      | None \<Rightarrow> refuse [''option '', sq name, '' needs a tcp/udp protocol for the nft backend''])"

definition match_selector :: "family \<Rightarrow> string \<Rightarrow> string option \<Rightarrow> string res" where
  "match_selector fam name protocol =
     (case dict_get ADDR_KEYWORD name of
        Some k \<Rightarrow> Inr (family_name fam @ '' '' @ k)
      | None \<Rightarrow>
          (case dict_get IFACE_KEYWORD name of
             Some k \<Rightarrow> Inr k
           | None \<Rightarrow>
               (case dict_get PORT_KEYWORD name of
                  Some k \<Rightarrow> port_selector name protocol k
                | None \<Rightarrow> Inl internal_error_default)))"

definition need_tcp :: "string \<Rightarrow> string option \<Rightarrow> unit res" where
  "need_tcp name protocol =
     (if protocol = Some ''tcp'' then Inr ()
      else refuse [''option '', sq name, '' needs a tcp protocol for the nft backend''])"

definition mac_text :: "string \<Rightarrow> bool" where
  "mac_text s \<longleftrightarrow>
     (let gs = split_char (CHR '':'') s in length gs = 6 \<and> list_all (\<lambda>g. length g = 2 \<and> list_all is_hex g) gs)"

text \<open>The groups in reverse order: each falls through to the one before.\<close>

definition extension_parts ::
  "family \<Rightarrow> rendered_option \<Rightarrow> string \<Rightarrow> bool \<Rightarrow> match_parts res" where
  "extension_parts fam opt s neg =
     (let name = ro_name opt
      in if name = ''mh-type'' \<and> fam = IP6
         then if is_ascii_uint s
              then bindR (py_int_digits s) (\<lambda>n.
                     if n > ICMP_OCTET_MAX then refuse [''invalid mh-type '', sq s, for_nft]
                     else just_expr (''mh type '' @ nft_op neg @ dict_or MH_TYPE_BY_NUMBER n s))
              else bindR (uint_or_range name s ICMP_OCTET_MAX) (\<lambda>x. just_expr (''mh type '' @ nft_op neg @ x))
         else if dict_has EXTHDR_SELECTOR name \<and> fam = IP6
         then bindR (uint_or_range name s ICMP_OCTET_MAX) (\<lambda>x.
                just_expr (dict_or EXTHDR_SELECTOR name [] @ '' '' @ nft_op neg @ x))
         else if name = ''dccp-types'' then bindR (dccp_types_expr s neg) just_expr
         else if name = ''ecn-ip-ect'' \<and> fam \<in> {IP, IP6}
         then (case dict_get ECN_ECT_NAMES s of
                 None \<Rightarrow> refuse [''invalid ecn-ip-ect '', sq s, for_nft]
               | Some k \<Rightarrow> just_expr (family_name fam @ '' ecn '' @ nft_op neg @ k))
         else if ro_module opt = Some ''helper'' \<and> name = ''helper''
         then if s = [] then refuse [''mod helper needs a non-empty helper name for the nft backend'']
              else bindR (nft_quote_string s) (\<lambda>q. just_expr (''ct helper '' @ q))
         else refuse [''option '', sq name, '' not yet supported by nft backend''])"

definition label_parts :: "string \<Rightarrow> bool \<Rightarrow> match_parts res" where
  "label_parts s neg =
     (let bad = refuse [''connlabel '', sq s, '' needs a numeric label (0-127) for the nft backend'']
      in if \<not> is_ascii_uint s then bad
         else bindR (py_int_digits s) (\<lambda>n.
                if n > CT_LABEL_MAX then bad
                else if neg then just_expr (''ct label & '' @ s @ '' != '' @ s)
                else just_expr (''ct label '' @ s)))"

definition conntrack_parts ::
  "nft_host \<Rightarrow> family \<Rightarrow> rendered_option \<Rightarrow> string \<Rightarrow> bool \<Rightarrow> match_parts res" where
  "conntrack_parts hs fam opt s neg =
     (let name = ro_name opt
      in if dict_has CT_TUPLE_ADDR name \<and> fam \<in> {IP, IP6}
         then (case dict_or CT_TUPLE_ADDR name ([], []) of
                 (dir, side) \<Rightarrow> bindR (validate_address s) (\<lambda>a.
                   just_expr (''ct '' @ dir @ '' '' @ family_name fam @ '' '' @ side @ '' '' @ nft_op neg @ a)))
         else if dict_has CT_TUPLE_PORT name \<and> fam \<in> {IP, IP6}
         then (case dict_or CT_TUPLE_PORT name ([], []) of
                 (dir, side) \<Rightarrow> bindR (validate_port hs s) (\<lambda>p.
                   just_expr (''ct '' @ dir @ '' '' @ side @ '' '' @ nft_op neg @ p)))
         else if name = ''ctproto''
         then bindR (validate_protocol s) (\<lambda>p. bindR (nft_l4proto fam p) (\<lambda>q.
                just_expr (''ct protocol '' @ nft_op neg @ q)))
         else if name = ''ctexpire''
         then bindR (ct_expiration_operand s) (\<lambda>x. just_expr (''ct expiration '' @ nft_op neg @ x))
         else if name = ''ctdir''
         then if py_lower_text s \<in> {''original'', ''reply''} then just_expr (''ct direction '' @ py_lower_text s)
              else refuse [''invalid ctdir '', sq s, for_nft]
         else if ro_module opt = Some ''connlabel'' \<and> name = ''label'' then label_parts s neg
         else if name = ''ahspi''
         then bindR (uint_or_range name s SPI_MAX) (\<lambda>x. just_expr (''ah spi '' @ nft_op neg @ x))
         else if name = ''espspi''
         then bindR (uint_or_range name s SPI_MAX) (\<lambda>x. just_expr (''esp spi '' @ nft_op neg @ x))
         else if name = ''cpu''
         then if is_ascii_uint s then just_expr (''meta cpu '' @ nft_op neg @ s)
              else refuse [''invalid cpu '', sq s, for_nft]
         else if dict_has DEVGROUP_SELECTOR name
         then bindR (group_value name s) (\<lambda>x.
                just_expr (dict_or DEVGROUP_SELECTOR name [] @ '' '' @ nft_op neg @ x))
         else if name = ''realm''
         then bindR (group_value name s) (\<lambda>x. just_expr (''meta rtclassid '' @ nft_op neg @ x))
         else if ro_module opt = Some ''cgroup'' \<and> name = ''cgroup''
         then if is_ascii_uint s then just_expr (''meta cgroup '' @ nft_op neg @ s)
              else refuse [''invalid cgroup classid '', sq s, for_nft]
         else extension_parts fam opt s neg)"

definition mss_operand :: "string \<Rightarrow> string res" where
  "mss_operand s =
     (case py_partition (CHR '':'') s of
        (low, sep, high) \<Rightarrow>
          if sep \<and> is_ascii_uint low \<and> is_ascii_uint high then Inr (low @ ''-'' @ high)
          else if is_ascii_uint s then Inr s
          else refuse [''invalid mss '', sq s, for_nft])"

definition tcp_option_parts :: "string \<Rightarrow> bool \<Rightarrow> match_parts res" where
  "tcp_option_parts s neg =
     (let bad = refuse [''invalid tcp-option '', sq s, for_nft]
      in if \<not> is_ascii_uint s then bad
         else bindR (py_int_digits s) (\<lambda>n.
                if n > TCP_OPTION_KIND_MAX then bad
                else just_expr (''tcp option '' @ dict_or TCP_OPTION_KIND n s @
                       (if neg then '' missing'' else '' exists''))))"

definition iprange_parts :: "family \<Rightarrow> string \<Rightarrow> string \<Rightarrow> bool \<Rightarrow> match_parts res" where
  "iprange_parts fam side s neg =
     (case py_partition (CHR ''-'') s of
        (low, sep, high) \<Rightarrow>
          if \<not> sep \<or> low = [] \<or> high = []
          then refuse [''invalid iprange '', sq s, '' for the nft backend'']
          else bindR (iprange_bound fam low) (\<lambda>lo. bindR (iprange_bound fam high) (\<lambda>hi.
                 just_expr (family_name fam @ '' '' @ side @ '' '' @ nft_op neg @ lo @ ''-'' @ hi))))"

definition header_parts ::
  "nft_host \<Rightarrow> family \<Rightarrow> rendered_option \<Rightarrow> string option \<Rightarrow> string \<Rightarrow> bool \<Rightarrow> match_parts res" where
  "header_parts hs fam opt protocol s neg =
     (let name = ro_name opt
      in if dict_has TTL_COMPARATOR name \<and> fam \<noteq> IP6
         then if is_ascii_uint s then just_expr (''ip ttl '' @ nft_op neg @ dict_or TTL_COMPARATOR name [] @ s)
              else refuse [''invalid ttl '', sq s, for_nft]
         else if dict_has HL_COMPARATOR name \<and> fam = IP6
         then if is_ascii_uint s
              then just_expr (''ip6 hoplimit '' @ nft_op neg @ dict_or HL_COMPARATOR name [] @ s)
              else refuse [''invalid hl '', sq s, for_nft]
         else if name = ''mac-source''
         then if mac_text s then just_expr (''ether saddr '' @ nft_op neg @ py_lower_text s)
              else refuse [''invalid mac '', sq s, for_nft]
         else if name \<in> {''source-mac'', ''destination-mac''}
         then if mac_text s
              then just_expr (''arp '' @ (if name = ''source-mac'' then ''saddr'' else ''daddr'') @ '' ether '' @
                     nft_op neg @ py_lower_text s)
              else refuse [''invalid mac '', sq s, for_nft]
         else if name = ''pkt-type''
         then (case dict_get PKTTYPE_MAP s of
                 None \<Rightarrow> refuse [''invalid pkttype '', sq s, for_nft]
               | Some k \<Rightarrow> just_expr (''meta pkttype '' @ nft_op neg @ k))
         else if name = ''mss''
         then bindR (need_tcp name protocol) (\<lambda>_. bindR (mss_operand s) (\<lambda>x.
                just_expr (''tcp option maxseg size '' @ nft_op neg @ x)))
         else if name = ''tcp-option'' then bindR (need_tcp name protocol) (\<lambda>_. tcp_option_parts s neg)
         else if name \<in> {''src-range'', ''dst-range''} \<and> fam \<in> {IP, IP6}
         then iprange_parts fam (if name = ''src-range'' then ''saddr'' else ''daddr'') s neg
         else conntrack_parts hs fam opt s neg)"

definition length_operand :: "string \<Rightarrow> string res" where
  "length_operand s =
     (let bad = refuse [''invalid length '', sq s, for_nft]
      in if CHR '':'' \<in> set s
         then (case py_partition (CHR '':'') s of
                 (low, _, high) \<Rightarrow>
                   if is_ascii_uint low \<and> is_ascii_uint high then Inr (low @ ''-'' @ high) else bad)
         else if is_ascii_uint s \<or> dash_range s then Inr s else bad)"

definition arp_operation :: "string \<Rightarrow> string res" where
  "arp_operation s =
     (if is_ascii_uint s
      then bindR (bounded_uint s U16_MAX ''arp opcode'') (\<lambda>n.
             if n = 0 then refuse [''arp opcode 0 is an arptables wildcard, not a match,'', for_nft]
             else Inr (dict_or ARP_OPERATION_BY_NUMBER n (string_of_nat n)))
      else case (if list_all (\<lambda>c. char_code c < 128) s then dict_get ARP_OPCODE_BY_NAME (py_lower_text s)
                 else None) of
             None \<Rightarrow> refuse [''invalid arp opcode '', sq s, for_nft]
           | Some n \<Rightarrow> Inr (dict_or ARP_OPERATION_BY_NUMBER n (string_of_nat n)))"

definition mark_parts :: "string \<Rightarrow> string \<Rightarrow> bool \<Rightarrow> match_parts res" where
  "mark_parts selector s neg =
     bindR (masked_mark_expr selector s neg) (\<lambda>m.
       case m of
         Some e \<Rightarrow> just_expr e
       | None \<Rightarrow> bindR (mark_value s) (\<lambda>x. just_expr (selector @ '' '' @ nft_op neg @ x)))"

definition meta_parts ::
  "nft_host \<Rightarrow> family \<Rightarrow> rendered_option \<Rightarrow> string option \<Rightarrow> string \<Rightarrow> bool \<Rightarrow> match_parts res" where
  "meta_parts hs fam opt protocol s neg =
     (let name = ro_name opt
      in if name = ''limit'' then bindR (nft_rate s) (\<lambda>x. just_expr (''limit rate '' @ x))
         else if name = ''icmp-type'' then bindR (icmp_type_expr fam s neg) just_expr
         else if name \<in> {''dscp'', ''dscp-class''} \<and> fam \<in> {IP, IP6}
         then bindR (if name = ''dscp'' then dscp_value name s else dscp_class_value name s) (\<lambda>n.
                just_expr (family_name fam @ '' dscp '' @ nft_op neg @ dscp_canon n))
         else if name = ''tos'' then tos_refusal ''option'' ''tos''
         else if name = ''mark''
         then mark_parts (if ro_module opt = Some ''connmark'' then ''ct mark'' else ''meta mark'') s neg
         else if name \<in> {''uid-owner'', ''gid-owner''}
         then bindR (owner_value hs name s) (\<lambda>x.
                just_expr (''meta '' @ (if name = ''uid-owner'' then ''skuid'' else ''skgid'') @ '' '' @
                  nft_op neg @ x))
         else if name = ''length''
         then bindR (length_operand s) (\<lambda>x. just_expr (''meta length '' @ nft_op neg @ x))
         else if name = ''opcode''
         then bindR (arp_operation s) (\<lambda>x. just_expr (''arp operation '' @ nft_op neg @ x))
         else header_parts hs fam opt protocol s neg)"

definition ctstatus_member :: "string \<Rightarrow> string res" where
  "ctstatus_member raw =
     (let m = replace_char (CHR ''_'') ''-'' (py_lower_text raw)
      in if m \<in> set CTSTATUS_TOKENS then Inr m
         else refuse [''ct status '', sq m, '' not yet supported by nft backend''])"

definition multiport_parts ::
  "nft_host \<Rightarrow> string \<Rightarrow> string option \<Rightarrow> string \<Rightarrow> string \<Rightarrow> bool \<Rightarrow> match_parts res" where
  "multiport_parts hs name protocol keyword s neg =
     bindR (port_selector name protocol keyword) (\<lambda>key.
     bindR (mapR (validate_port hs) (split_char (CHR '','') s)) (\<lambda>ps.
       just_expr (key @ '' '' @ nft_op neg @ braced ps)))"

definition scalar_parts ::
  "nft_host \<Rightarrow> family \<Rightarrow> rendered_option \<Rightarrow> string option \<Rightarrow> string \<Rightarrow> bool \<Rightarrow> match_parts res" where
  "scalar_parts hs fam opt protocol s neg =
     (let name = ro_name opt
      in if dict_has ADDR_KEYWORD name
         then bindR (validate_address s) (\<lambda>a. bindR (match_selector fam name protocol) (\<lambda>key.
                keyed_expr key neg a))
         else if dict_has IFACE_KEYWORD name
         then bindR (nft_ifname s) (\<lambda>q. bindR (match_selector fam name protocol) (\<lambda>key.
                keyed_expr key neg q))
         else if dict_has PORT_KEYWORD name
         then bindR (match_selector fam name protocol) (\<lambda>key. bindR (validate_port hs s) (\<lambda>p.
                keyed_expr key neg p))
         else if name \<in> {''state'', ''ctstate''} then bindR (ctstate_expr name s neg) just_expr
         else if name = ''ctstatus''
         then bindR (mapR ctstatus_member (split_char (CHR '','') s)) (\<lambda>ms.
                just_expr (ct_bitmask_expr ''ct status'' ms CT_STATUS_RANK neg))
         else case dict_get MULTIPORT_KEYWORD name of
                Some k \<Rightarrow> multiport_parts hs name protocol k s neg
              | None \<Rightarrow> meta_parts hs fam opt protocol s neg)"

definition option_error :: "string \<Rightarrow> 'a res \<Rightarrow> 'a res" where
  "option_error name r =
     (case r of Inl (Died m) \<Rightarrow> refuse [''option '', sq name, '': '', m] | _ \<Rightarrow> r)"

definition translate_match_parts ::
  "nft_host \<Rightarrow> family \<Rightarrow> rendered_option \<Rightarrow> string option \<Rightarrow> match_parts res" where
  "translate_match_parts hs fam opt protocol =
     (let name = ro_name opt
      in if name \<in> {''ecn-tcp-cwr'', ''ecn-tcp-ece''}
         then bindR (need_tcp name protocol) (\<lambda>_.
                just_expr (''tcp flags '' @ (if name = ''ecn-tcp-cwr'' then ''cwr'' else ''ece'')))
         else if ro_module opt = Some ''connlabel'' \<and> name = ''set''
         then refuse [''connlabel '', sq ''set'', '' (add the label on match) has no nft match equivalent'']
         else if name = ''tcp-flags'' then bindR (tcp_flags_expr (ro_value opt)) just_expr
         else if name = ''syn''
         then just_expr (''tcp flags & (fin | syn | rst | ack) '' @
                (if is_negation (ro_value opt) then ''!='' else ''=='') @ '' syn'')
         else bindR (option_error name (unwrap_value (ro_value opt))) (\<lambda>(s, neg).
                scalar_parts hs fam opt protocol s neg))"

definition setref_selector :: "family \<Rightarrow> string \<Rightarrow> string option \<Rightarrow> string res" where
  "setref_selector fam name protocol =
     (if \<not> dict_has ADDR_KEYWORD name \<and> \<not> dict_has IFACE_KEYWORD name \<and> \<not> dict_has PORT_KEYWORD name
      then refuse [''option '', sq name, '' cannot reference a named set'']
      else match_selector fam name protocol)"

definition set_flag_selector :: "string \<Rightarrow> string list \<Rightarrow> string \<Rightarrow> string res" where
  "set_flag_selector several unsupported flags =
     (if CHR '','' \<in> set flags then refuse [several]
      else case dict_get MATCH_SET_FLAG flags of
             Some t \<Rightarrow> Inr t
           | None \<Rightarrow> refuse unsupported)"

definition translate_match_set :: "nft_host \<Rightarrow> family \<Rightarrow> cfg_value \<Rightarrow> nft_match res" where
  "translate_match_set hs fam v =
     (case strip_negation v of
        VParams [VSetRef n es, VStr flags] \<Rightarrow>
          bindR (set_flag_selector
                   (''option '' @ sq ''match-set'' @ '': multiple set-match flags need a concatenated '' @
                    ''set type that @set does not declare'')
                   [''option '', sq ''match-set'', '': unsupported set-match flag '', sq flags,
                    '' for the nft backend''] flags) (\<lambda>side.
          bindR (validate_set_name n) (\<lambda>name.
            let selector = family_name fam @ '' '' @ side
            in Inr ((plain_match (selector @ '' '' @ nft_op (is_negation v) @ ''@'' @ name))
                 \<lparr>nm_setref := Some (n, es), nm_selector := Some selector\<rparr>)))
      | VParams [VSetRef n es, _] \<Rightarrow> Inl internal_error_default
      | VParams [w, _] \<Rightarrow>
          refuse [''option '', sq ''match-set'', '': external ipset '', sq (host_text hs w),
            '' cannot be referenced from nftables; declare it with @set $'', host_text hs w,
            '' = (...) or keep the iptables backend'']
      | _ \<Rightarrow> Inl internal_error_default)"

end
