(* ===== verification/Ferm_Nft_Decls.thy ===== *)
theory Ferm_Nft_Decls
  imports Ferm_Nft_Chains Ferm_Nft_Matches Ferm_Delta Ferm_Io
begin

text \<open>
  Declarations and the script, \<^verbatim>\<open>src/src/pyferm/backend/nft/sets.py\<close>: the sets and objects the rules
  of a family use, their conflicts, and the text of the table.
\<close>

section \<open>Declarations\<close>

record set_decl =
  sd_type :: string
  sd_interval :: bool
  sd_elements :: "string list"

record dyn_decl =
  dd_type :: string
  dd_key :: string
  dd_timeout :: "string option"
  dd_limit :: "string option"
  dd_owned :: bool

datatype nft_decl = SetDecl set_decl | DynSetDecl dyn_decl | ObjectDecl string string

definition DYN_SET_SIZE :: nat where "DYN_SET_SIZE = 65535"
definition CONNLIMIT_SENTINEL :: string where "CONNLIMIT_SENTINEL = ''?''"

definition conflicting_set :: "string \<Rightarrow> 'a res" where
  "conflicting_set name = refuse [''set '', sq name, '' has conflicting declarations for the nft backend'']"

text \<open>A number, or two with a dash or a colon between them.\<close>

definition set_port_numeric :: "string \<Rightarrow> bool" where
  "set_port_numeric s \<longleftrightarrow>
     is_ascii_uint s \<or> dash_range s \<or>
     (case split_char (CHR '':'') s of [a, b] \<Rightarrow> is_ascii_uint a \<and> is_ascii_uint b | _ \<Rightarrow> False)"

definition numeric_element :: "nft_host \<Rightarrow> string \<Rightarrow> unit res" where
  "numeric_element hs s =
     (if set_port_numeric s then Inr ()
      else refuse [''named set element '', sq s, '' must be a numeric port or range; service/protocol '',
             ''names are not supported''])"

fun any_interval :: "string list \<Rightarrow> bool res" where
  "any_interval [] = Inr False"
| "any_interval (e # es) =
     bindR (classify e) (\<lambda>(rank, _).
       if rank = RANK_INTERVAL \<or> (rank = RANK_ADDRESS \<and> CHR ''/'' \<in> set e) then Inr True
       else any_interval es)"

definition typed_elements :: "nft_host \<Rightarrow> family \<Rightarrow> string \<Rightarrow> string list \<Rightarrow> (string \<times> string list) res" where
  "typed_elements hs fam selector raw =
     (if ends_with ''dport'' selector \<or> ends_with ''sport'' selector
      then bindR (mapR (numeric_element hs) raw) (\<lambda>_. bindR (mapR (validate_port hs) raw) (\<lambda>es.
             Inr (''inet_service'', es)))
      else if contains_text ''saddr'' selector \<or> contains_text ''daddr'' selector
      then bindR (mapR validate_address raw) (\<lambda>es. Inr (if fam = IP then ''ipv4_addr'' else ''ipv6_addr'', es))
      else if ends_with ''iifname'' selector \<or> ends_with ''oifname'' selector
      then bindR (mapR nft_ifname raw) (\<lambda>es. Inr (''ifname'', es))
      else refuse [''named set selector '', sq selector, '' not supported''])"

definition set_type_and_elements ::
  "nft_host \<Rightarrow> family \<Rightarrow> string \<Rightarrow> cfg_value list \<Rightarrow> set_decl res" where
  "set_type_and_elements hs fam selector values =
     bindR (typed_elements hs fam selector (map (host_text hs) values)) (\<lambda>(ty, es).
     bindR (any_interval es) (\<lambda>i.
     bindR (sort_set_elements es) (\<lambda>sorted_es.
       Inr \<lparr>sd_type = ty, sd_interval = i \<or> (ty = ''ifname'' \<and> list_ex (ends_with ''*\"'') es),
            sd_elements = sorted_es\<rparr>)))"

type_synonym decls = "(string, nft_decl) dict"

definition dyn_of :: "set_update \<Rightarrow> dyn_decl" where
  "dyn_of u =
     \<lparr>dd_type = su_type u, dd_key = su_key u, dd_timeout = su_timeout u, dd_limit = su_limit u,
      dd_owned = su_owned u\<rparr>"

definition merge_dynamic_decl :: "decls \<Rightarrow> set_update \<Rightarrow> decls res" where
  "merge_dynamic_decl ds u =
     (let name = su_name u; d = dyn_of u
      in if name = CONNLIMIT_SENTINEL
         then Inl (internal_error ''connlimit set reached declaration collection with an unfinalized name'')
         else if su_owned u
         then if dict_get ds name \<in> {None, Some (DynSetDecl d)} then Inr (dict_set name (DynSetDecl d) ds)
              else conflicting_set name
         else case dict_get ds name of
                None \<Rightarrow> Inr (dict_set name (DynSetDecl d) ds)
              | Some (ObjectDecl _ _) \<Rightarrow> conflicting_set name
              | Some (SetDecl s) \<Rightarrow>
                  if sd_type s \<noteq> dd_type d then conflicting_set name
                  else Inr (dict_set name (DynSetDecl d) ds)
              | Some (DynSetDecl e) \<Rightarrow>
                  if dd_owned e \<or> dd_type e \<noteq> dd_type d then conflicting_set name
                  else if dd_timeout e = None
                  then Inr (dict_set name (DynSetDecl (e\<lparr>dd_timeout := dd_timeout d\<rparr>)) ds)
                  else Inr ds)"

definition merge_set_decl ::
  "string \<Rightarrow> string \<Rightarrow> set_decl \<Rightarrow> decls \<times> (string, string) dict \<Rightarrow> (decls \<times> (string, string) dict) res" where
  "merge_set_decl name selector new = (\<lambda>(ds, sels).
     case dict_get ds name of
       Some (ObjectDecl _ _) \<Rightarrow> conflicting_set name
     | Some (DynSetDecl e) \<Rightarrow>
         if dd_owned e \<or> dd_type e \<noteq> sd_type new
         then refuse [''named set '', sq name, '' collides with a stateful set of the same name for the nft backend'']
         else Inr (ds, sels)
     | prior \<Rightarrow>
         if dict_or sels name selector \<noteq> selector
         then refuse [''named set '', sq name, '' used with conflicting selectors '',
                sq (dict_or sels name selector), '' and '', sq selector]
         else if (case prior of Some (SetDecl s) \<Rightarrow> sd_elements s \<noteq> sd_elements new | _ \<Rightarrow> False)
         then refuse [''named set '', sq name, '' has conflicting element sets'']
         else Inr (dict_set name (SetDecl new) ds, dict_set name selector sels))"

definition merge_static_decl ::
  "nft_host \<Rightarrow> family \<Rightarrow> nft_match \<Rightarrow> decls \<times> (string, string) dict \<Rightarrow> (decls \<times> (string, string) dict) res" where
  "merge_static_decl hs fam m st =
     (case nm_setref m of
        None \<Rightarrow> Inl internal_error_default
      | Some (n, values) \<Rightarrow>
          bindR (validate_set_name n) (\<lambda>name.
            case nm_selector m of
              None \<Rightarrow> Inl internal_error_default
            | Some selector \<Rightarrow>
                bindR (set_type_and_elements hs fam selector values) (\<lambda>new.
                  merge_set_decl name selector new st)))"

definition merge_object_decl :: "decls \<Rightarrow> object_ref \<Rightarrow> decls res" where
  "merge_object_decl ds r =
     (let new = ObjectDecl (or_kind r) (or_body r)
      in case dict_get ds (or_name r) of
           None \<Rightarrow> Inr (dict_set (or_name r) new ds)
         | Some prior \<Rightarrow> if prior = new then Inr ds else conflicting_set (or_name r))"

fun collect_statement ::
  "nft_host \<Rightarrow> family \<Rightarrow> nft_statement \<Rightarrow> decls \<times> (string, string) dict \<Rightarrow> (decls \<times> (string, string) dict) res" where
  "collect_statement hs fam (NftSetUpdate u) st =
     bindR (merge_dynamic_decl (fst st) u) (\<lambda>ds. Inr (ds, snd st))"
| "collect_statement hs fam (NftObjectRef r) st =
     bindR (merge_object_decl (fst st) r) (\<lambda>ds. Inr (ds, snd st))"
| "collect_statement hs fam (NftMatch m) st =
     (if nm_setref m = None then Inr st else merge_static_decl hs fam m st)"
| "collect_statement hs fam _ st = Inr st"

type_synonym nft_rules = "(string, nft_rule list) dict"

definition collect_set_declarations :: "nft_host \<Rightarrow> family \<Rightarrow> nft_rules \<Rightarrow> decls res" where
  "collect_set_declarations hs fam rules =
     bindR (thread (collect_statement hs fam)
              (concat (map nr_statements (concat (map snd rules)))) ([], [])) (\<lambda>st. Inr (fst st))"

section \<open>The script\<close>

definition decl_lines :: "string \<Rightarrow> string \<times> nft_decl \<Rightarrow> string list" where
  "decl_lines p = (\<lambda>(name, d).
     case d of
       ObjectDecl kind body \<Rightarrow> [''add '' @ kind @ '' '' @ p @ '' '' @ name @ '' { '' @ body @ '' }'']
     | DynSetDecl e \<Rightarrow>
         [''add set '' @ p @ '' '' @ name @ '' { type '' @ dd_type e @ ''; size '' @
          string_of_nat DYN_SET_SIZE @ ''; flags '' @
          (if dd_timeout e \<noteq> None then ''dynamic,timeout'' else ''dynamic'') @ ''; }'']
     | SetDecl s \<Rightarrow>
         (''add set '' @ p @ '' '' @ name @ '' { type '' @ sd_type s @ '';'' @
          (if sd_interval s then '' flags interval;'' else []) @ '' }'') #
         (if sd_elements s = [] then []
          else [''add element '' @ p @ '' '' @ name @ '' '' @ set_body (sd_elements s)]))"

definition chain_decl_line :: "string \<Rightarrow> nft_chain \<Rightarrow> string" where
  "chain_decl_line p c =
     ''add chain '' @ p @ '' '' @ nft_chain_id c @
     (if chain_header c = [] then [] else '' '' @ chain_header c)"

definition rule_text :: "nft_rule \<Rightarrow> string res" where
  "rule_text r =
     bindR (mapR to_text (nr_statements r)) (\<lambda>parts.
       case nr_comment r of
         None \<Rightarrow> Inr (join_str '' '' parts)
       | Some c \<Rightarrow> bindR (render_comment c) (\<lambda>q. Inr (join_str '' '' (parts @ [q]))))"

definition nft_rule_text_line :: "string \<Rightarrow> string \<Rightarrow> nft_rule \<Rightarrow> string res" where
  "nft_rule_text_line p chain r =
     bindR (rule_text r) (\<lambda>t.
       Inr (''add rule '' @ p @ '' '' @ chain @ (if t = [] then [] else '' '') @ t))"

definition chain_rule_lines :: "string \<Rightarrow> nft_rules \<Rightarrow> nft_chain \<Rightarrow> string list res" where
  "chain_rule_lines p rules c =
     mapR (nft_rule_text_line p (nft_chain_id c)) (dict_or rules (nft_chain_id c) [])"

definition table_lines ::
  "string \<Rightarrow> nft_chain list \<Rightarrow> nft_rules \<Rightarrow> decls \<Rightarrow> bool \<Rightarrow> string list res" where
  "table_lines p chain_list rules ds noflush =
     bindR (mapR (chain_rule_lines p rules) chain_list) (\<lambda>rule_lines.
       Inr ((''add table '' @ p) # (if noflush then [] else [''flush table '' @ p]) @
            concat (map (decl_lines p) (sort_key fst ds)) @ map (chain_decl_line p) chain_list @
            concat rule_lines))"

definition serialize_table ::
  "string \<Rightarrow> nft_chain list \<Rightarrow> nft_rules \<Rightarrow> decls \<Rightarrow> bool \<Rightarrow> string res" where
  "serialize_table family chain_list rules ds noflush =
     bindR (table_lines (ferm_prefix family) chain_list rules ds noflush) (\<lambda>ls.
       Inr (concat (map (\<lambda>l. l @ [NL]) ls)))"

section \<open>Rules over named sets\<close>

fun any_set_target :: "rendered_option list \<Rightarrow> bool res" where
  "any_set_target [] = Inr False"
| "any_set_target (o' # os) =
     (if ro_kind o' = KTarget
      then bindR (first_scalar (ro_value o')) (\<lambda>s. if s = ''SET'' then Inr True else any_set_target os)
      else any_set_target os)"

fun setref_name :: "cfg_value \<Rightarrow> string" where
  "setref_name (VSetRef n es) = n"
| "setref_name _ = []"

fun setref_elements :: "cfg_value \<Rightarrow> cfg_value list" where
  "setref_elements (VSetRef n es) = es"
| "setref_elements _ = []"

definition mutated_names :: "rendered_rule \<Rightarrow> string list res" where
  "mutated_names r =
     bindR (any_set_target (rr_options r)) (\<lambda>b.
       Inr (if b
            then map setref_name (concat (map (\<lambda>o'. if ro_name o' \<in> {''add-set'', ''del-set''}
                                                     then iter_setrefs (ro_value o') else []) (rr_options r)))
            else []))"

definition collect_set_target_names :: "rendered_rule list \<Rightarrow> string list res" where
  "collect_set_target_names rs = bindR (mapR mutated_names rs) (\<lambda>ns. Inr (concat ns))"

definition references_empty_named_set :: "rendered_rule \<Rightarrow> string list \<Rightarrow> bool" where
  "references_empty_named_set r set_targets \<longleftrightarrow>
     list_ex (\<lambda>o'. list_ex (\<lambda>v. setref_elements v = [] \<and> setref_name v \<notin> set set_targets)
                (iter_setrefs (ro_value o'))) (rr_options r)"

end
