(* ===== verification/Ferm_Nft_Stateful.thy ===== *)
theory Ferm_Nft_Stateful
  imports Ferm_Nft_Decls Ferm_Sha256
begin

text \<open>
  The matches that keep state or span several options,
  \<^verbatim>\<open>src/src/pyferm/backend/nft/stateful.py\<close>: statistic and nth, recent, hashlimit, time,
  connbytes, quota and connlimit.
\<close>

section \<open>Options of a module\<close>

definition opts_by :: "(rendered_option \<Rightarrow> bool) \<Rightarrow> rendered_option list \<Rightarrow> nft_options" where
  "opts_by p os = fold (\<lambda>o' d. dict_set (ro_name o') o' d) (filter p os) []"

definition of_module :: "string \<Rightarrow> rendered_option \<Rightarrow> bool" where
  "of_module m o' \<longleftrightarrow> ro_module o' = Some m"

text \<open>The text of an integer; Python refuses more than 4300 digits.\<close>

definition py_int_text :: "nat \<Rightarrow> string res" where
  "py_int_text n = (let t = string_of_nat n in if 4300 < length t then Inl PyValueError else Inr t)"

section \<open>Floating point\<close>

text \<open>
  \<^verbatim>\<open>float(s)\<close>: a decimal numeral as sign, digits and exponent, rounded to the nearest double, ties to
  even. Only the interval from 0 to 1 matters here.
\<close>

datatype float_text = NotFinite | Decimal bool nat int

fun drop_underscores :: "bool \<Rightarrow> string \<Rightarrow> string option" where
  "drop_underscores prev [] = Some []"
| "drop_underscores prev (c # s) =
     (if c = CHR ''_''
      then (case s of
              d # _ \<Rightarrow> if prev \<and> is_digit d then drop_underscores False s else None
            | [] \<Rightarrow> None)
      else map_option (Cons c) (drop_underscores (is_digit c) s))"

definition exponent_text :: "string \<Rightarrow> int option" where
  "exponent_text s =
     (case s of
        [] \<Rightarrow> Some 0
      | e # r \<Rightarrow>
          if e \<notin> set ''eE'' then None
          else let neg = starts_with ''-'' r; ds = (if r \<noteq> [] \<and> is_sign (hd r) then tl r else r)
               in if all_digits ds then Some (if neg then - int (nat_of_string ds) else int (nat_of_string ds))
                  else None)"

definition unsigned_float :: "bool \<Rightarrow> string \<Rightarrow> float_text option" where
  "unsigned_float neg s =
     (if py_lower_text s \<in> {''inf'', ''infinity'', ''nan''} then Some NotFinite
      else let whole = takeWhile is_digit s; r = dropWhile is_digit s;
               frac = (if starts_with ''.'' r then takeWhile is_digit (tl r) else []);
               rest = (if starts_with ''.'' r then dropWhile is_digit (tl r) else r)
           in if whole @ frac = [] then None
              else map_option (\<lambda>e. Decimal neg (nat_of_string (whole @ frac)) (e - int (length frac)))
                     (exponent_text rest))"

definition py_float :: "string \<Rightarrow> float_text option" where
  "py_float s0 =
     (case drop_underscores False (num_strip s0) of
        None \<Rightarrow> None
      | Some s \<Rightarrow>
          if s \<noteq> [] \<and> is_sign (hd s) then unsigned_float (hd s = CHR ''-'') (tl s) else unsigned_float False s)"

definition round_half_even :: "nat \<Rightarrow> nat \<Rightarrow> nat" where
  "round_half_even a b =
     (let q = a div b; r = a mod b in if 2 * r < b \<or> (2 * r = b \<and> even q) then q else Suc q)"

text \<open>How often a fraction below 1 is doubled until it reaches 1, at most \<open>k\<close> times.\<close>

fun doublings :: "nat \<Rightarrow> nat \<Rightarrow> nat \<Rightarrow> nat" where
  "doublings 0 n d = 0"
| "doublings (Suc k) n d = (if d \<le> n then 0 else Suc (doublings k (2 * n) d))"

text \<open>
  The double nearest to \<open>n / d\<close>, for a value below 2, as an integer and the number of binary places:
  53 significant bits, and no place beyond the 1074th.
\<close>

definition nearest_double :: "nat \<Rightarrow> nat \<Rightarrow> nat \<times> nat" where
  "nearest_double n d =
     (let places = 52 + doublings 1022 n d in (round_half_even (n * 2 ^ places) d, places))"

text \<open>\<^verbatim>\<open>round(p * 2**31)\<close> when \<^verbatim>\<open>0.0 <= p <= 1.0\<close>.\<close>

definition unit_threshold :: "float_text \<Rightarrow> nat option" where
  "unit_threshold f =
     (case f of
        NotFinite \<Rightarrow> None
      | Decimal neg m e \<Rightarrow>
          let n = (if e < 0 then m else m * 10 ^ nat e); d = (if e < 0 then 10 ^ nat (- e) else 1)
          in if n \<ge> 2 * d then None
             else case nearest_double n d of
                    (x, places) \<Rightarrow>
                      if x > 2 ^ places \<or> (neg \<and> x \<noteq> 0) then None
                      else Some (round_half_even (x * 2 ^ 31) (2 ^ places)))"

section \<open>statistic and nth\<close>

definition STATISTIC_RANDOM_MASK :: nat where "STATISTIC_RANDOM_MASK = 2 ^ 31 - 1"

definition nth_numgen :: "string \<Rightarrow> string \<Rightarrow> string \<Rightarrow> string res" where
  "nth_numgen label every packet =
     (let bad_every = refuse [''invalid '', label, '' every '', sq every, for_nft]
      in if \<not> is_ascii_uint every then bad_every
         else bindR (py_int_digits every) (\<lambda>n.
           if n = 0 then bad_every
           else if \<not> is_ascii_uint packet then refuse [''invalid '', label, '' packet '', sq packet, for_nft]
           else bindR (py_int_digits packet) (\<lambda>p.
             if p \<ge> n
             then refuse [label, '' packet '', sq packet, '' must be less than every '', sq every,
                    '' for the nft backend'']
             else Inr (''numgen inc mod '' @ string_of_nat n @ '' '' @ string_of_nat p))))"

definition packet_scalar :: "nft_options \<Rightarrow> string res" where
  "packet_scalar opts =
     (case dict_get opts ''packet'' of None \<Rightarrow> Inr ''0'' | Some p \<Rightarrow> unwrap_scalar (ro_value p))"

definition statistic_random :: "nft_options \<Rightarrow> string res" where
  "statistic_random opts =
     (case dict_get opts ''probability'' of
        None \<Rightarrow> refuse [''mod statistic mode random needs a '', sq ''probability'', '' for the nft backend'']
      | Some p \<Rightarrow> bindR (unwrap_scalar (ro_value p)) (\<lambda>s.
          case py_float s of
            None \<Rightarrow> refuse [''invalid statistic probability '', sq s, for_nft]
          | Some f \<Rightarrow>
              (case unit_threshold f of
                 None \<Rightarrow> refuse [''statistic probability '', sq s, '' is outside [0, 1] for the nft backend'']
               | Some t \<Rightarrow>
                   Inr (''meta random & '' @ string_of_nat STATISTIC_RANDOM_MASK @ '' < '' @ string_of_nat t))))"

definition statistic_match :: "nft_options \<Rightarrow> string res" where
  "statistic_match opts =
     (case dict_get opts ''mode'' of
        None \<Rightarrow> refuse [''mod statistic needs a '', sq ''mode'', '' for the nft backend'']
      | Some m \<Rightarrow> bindR (unwrap_value (ro_value m)) (\<lambda>(mode, neg).
          if neg then refuse [''mod statistic '', sq ''mode'', '' cannot be negated for the nft backend'']
          else if mode = ''random'' then statistic_random opts
          else if mode = ''nth''
          then (case dict_get opts ''every'' of
                  None \<Rightarrow> refuse [''mod statistic mode nth needs '', sq ''every'', '' for the nft backend'']
                | Some e \<Rightarrow> bindR (unwrap_scalar (ro_value e)) (\<lambda>es. bindR (packet_scalar opts) (\<lambda>ps.
                    nth_numgen ''statistic'' es ps)))
          else refuse [''unknown statistic mode '', sq mode, '' for the nft backend'']))"

definition nth_state_zero :: "nft_options \<Rightarrow> string \<Rightarrow> unit res" where
  "nth_state_zero opts name =
     (case dict_get opts name of
        None \<Rightarrow> Inr ()
      | Some o' \<Rightarrow> bindR (unwrap_scalar (ro_value o')) (\<lambda>s.
          if \<not> is_ascii_uint s then refuse [''invalid nth '', name, '' '', sq s, for_nft]
          else bindR (py_int_digits s) (\<lambda>n.
                 if n \<noteq> 0 then refuse [''mod nth '', sq name, '' has no numgen equivalent for the nft backend'']
                 else Inr ())))"

definition nth_match :: "nft_options \<Rightarrow> string res" where
  "nth_match opts =
     (case dict_get opts ''every'' of
        None \<Rightarrow> refuse [''mod nth needs '', sq ''every'', '' for the nft backend'']
      | Some e \<Rightarrow> bindR (unwrap_scalar (ro_value e)) (\<lambda>es.
          bindR (mapR (nth_state_zero opts) [''counter'', ''start'']) (\<lambda>_.
          bindR (packet_scalar opts) (\<lambda>ps. nth_numgen ''nth'' es ps))))"

section \<open>recent\<close>

definition RATE_UNITS :: "(string \<times> nat) list" where
  "RATE_UNITS = [(''second'', 1), (''minute'', 60), (''hour'', 3600), (''day'', 86400)]"

definition HASHLIMIT_UNIT :: "(string, string) dict" where
  "HASHLIMIT_UNIT =
     [(''sec'', ''second''), (''second'', ''second''), (''min'', ''minute''), (''minute'', ''minute''),
      (''hour'', ''hour''), (''day'', ''day'')]"

definition HASHLIMIT_PERIOD_TIMEOUT :: "(string, string) dict" where
  "HASHLIMIT_PERIOD_TIMEOUT = [(''minute'', ''1m''), (''hour'', ''1h''), (''day'', ''1d'')]"

definition HASHLIMIT_MODE_ORDER :: "string list" where
  "HASHLIMIT_MODE_ORDER = [''srcip'', ''dstip'', ''srcport'', ''dstport'']"

fun reduce_in :: "(string \<times> nat) list \<Rightarrow> nat \<Rightarrow> nat \<Rightarrow> (nat \<times> string) res" where
  "reduce_in [] numerator seconds =
     bindR (py_int_text numerator) (\<lambda>t.
       refuse [''average rate '', t, ''/'', string_of_nat seconds,
         ''s has no integer nft rate unit for the nft backend''])"
| "reduce_in ((u, span) # us) numerator seconds =
     (if numerator * span mod seconds = 0 \<and> numerator * span div seconds \<ge> 1
      then Inr (numerator * span div seconds, u) else reduce_in us numerator seconds)"

definition reduce_rate :: "nat \<Rightarrow> nat \<Rightarrow> (nat \<times> string) res" where
  "reduce_rate = reduce_in RATE_UNITS"

record recent_facts =
  rf_name :: string
  rf_is_check :: bool
  rf_seconds :: "string option"
  rf_hitcount :: "string option"
  rf_direction :: string
  rf_has_verdict :: bool

record recent_spec =
  rs_direction :: string
  rs_timeout :: string
  rs_limit :: "string option"

definition recent_scalar :: "nft_options \<Rightarrow> string \<Rightarrow> string option res" where
  "recent_scalar opts key =
     (case dict_get opts key of
        None \<Rightarrow> Inr None
      | Some o' \<Rightarrow> bindR (unwrap_scalar (ro_value o')) (\<lambda>s.
          if is_ascii_uint s then Inr (Some s)
          else refuse [''invalid recent '', key, '' '', sq s, '' for the nft backend'']))"

definition no_negation :: "string \<Rightarrow> rendered_option \<Rightarrow> unit res" where
  "no_negation module o' =
     (if is_negation (ro_value o')
      then refuse [''mod '', module, '' '', sq (ro_name o'), '' cannot be negated for the nft backend'']
      else Inr ())"

definition prefixed_name :: "string \<Rightarrow> string \<Rightarrow> unit res" where
  "prefixed_name module name =
     (case validate_set_name (module @ ''_'' @ name) of
        Inl _ \<Rightarrow> refuse [''invalid '', module, '' name '', sq name, '' for the nft backend'']
      | Inr _ \<Rightarrow> Inr ())"

definition recent_verb :: "nft_options \<Rightarrow> string res" where
  "recent_verb opts =
     (case filter (dict_has opts) [''remove'', ''rttl'', ''reap'', ''mask''] of
        u # _ \<Rightarrow> refuse [''mod recent '', sq u, '' is not supported by the nft backend'']
      | [] \<Rightarrow>
          (case filter (dict_has opts) [''set'', ''rcheck'', ''update''] of
             [v] \<Rightarrow> Inr v
           | _ \<Rightarrow> refuse [''mod recent needs exactly one of set/rcheck/update for the nft backend'']))"

definition recent_name :: "nft_options \<Rightarrow> string res" where
  "recent_name opts =
     (case dict_get opts ''name'' of
        None \<Rightarrow> refuse [''mod recent needs a '', sq ''name'', '' for the nft backend'']
      | Some o' \<Rightarrow> bindR (unwrap_scalar (ro_value o')) (\<lambda>s. bindR (prefixed_name ''recent'' s) (\<lambda>_. Inr s)))"

definition recent_of_opts :: "nft_options \<Rightarrow> bool \<Rightarrow> recent_facts res" where
  "recent_of_opts opts has_verdict =
     bindR (recent_verb opts) (\<lambda>verb.
     bindR (recent_name opts) (\<lambda>name.
       if dict_has opts ''rsource'' \<and> dict_has opts ''rdest''
       then refuse [''mod recent cannot combine rsource and rdest for the nft backend'']
       else bindR (recent_scalar opts ''seconds'') (\<lambda>seconds.
            bindR (recent_scalar opts ''hitcount'') (\<lambda>hitcount.
              if hitcount \<noteq> None \<and> seconds = None
              then refuse [''mod recent '', sq ''hitcount'', '' needs '', sq ''seconds'', '' for the nft backend'']
              else if verb \<noteq> ''set'' \<and> (seconds = None \<or> hitcount = None)
              then refuse [''mod recent rcheck/update needs '', sq ''seconds'', '' and '', sq ''hitcount'',
                     '' for the nft backend'']
              else Inr \<lparr>rf_name = name, rf_is_check = (verb \<noteq> ''set''), rf_seconds = seconds,
                     rf_hitcount = hitcount,
                     rf_direction = (if dict_has opts ''rdest'' then ''daddr'' else ''saddr''),
                     rf_has_verdict = has_verdict\<rparr>))))"

definition recent_facts_of :: "family \<Rightarrow> rendered_rule \<Rightarrow> recent_facts option res" where
  "recent_facts_of fam r =
     (let os = filter (of_module ''recent'') (rr_options r)
      in if os = [] then Inr None
         else if fam \<notin> {IP, IP6} then refuse [''mod recent needs the ip or ip6 family for nft'']
         else bindR (mapR (no_negation ''recent'') os) (\<lambda>_.
              bindR (recent_of_opts (opts_by (of_module ''recent'') (rr_options r))
                       (list_ex (\<lambda>o'. ro_kind o' = KTarget) (rr_options r))) (\<lambda>f. Inr (Some f))))"

definition somes :: "'a option list \<Rightarrow> 'a list" where
  "somes xs = firsts (List.map_filter (\<lambda>x. x) xs)"

definition recent_limit :: "recent_facts list \<Rightarrow> nat \<Rightarrow> string option res" where
  "recent_limit fs seconds =
     (if \<not> list_ex rf_is_check fs then Inr None
      else bindR (py_int_digits (hd (somes (map rf_hitcount fs)))) (\<lambda>hits.
        let numerator = length fs * hits
        in if numerator \<le> 1 then Inr None
           else bindR (reduce_rate numerator seconds) (\<lambda>(rate, unit).
                bindR (py_int_text rate) (\<lambda>rt. bindR (py_int_text (numerator - 1)) (\<lambda>bt.
                  Inr (Some (''rate over '' @ rt @ ''/'' @ unit @ '' burst '' @ bt @ '' packets'')))))))"

definition recent_spec_of :: "string \<times> recent_facts list \<Rightarrow> (string \<times> recent_spec) res" where
  "recent_spec_of = (\<lambda>(name, fs).
     let intro = ''mod recent '' @ sq name in
     case somes (map rf_seconds fs) of
       _ # _ # _ \<Rightarrow> refuse [intro, '' has conflicting seconds for the nft backend'']
     | [] \<Rightarrow> refuse [intro, '' has no seconds anywhere; the window is undefined for the nft backend'']
     | [secs] \<Rightarrow>
         if length (firsts (map rf_direction fs)) > 1
         then refuse [intro, '' mixes rsource and rdest for the nft backend'']
         else if length (somes (map rf_hitcount fs)) > 1
         then refuse [intro, '' has conflicting hitcounts for the nft backend'']
         else if list_ex rf_is_check fs \<and> list_ex (\<lambda>f. \<not> rf_is_check f \<and> rf_has_verdict f) fs
         then refuse [intro, '' set rule carries a verdict but the name has check rules for the nft backend'']
         else bindR (py_int_digits secs) (\<lambda>seconds.
              bindR (nft_time_canon (seconds * 1000)) (\<lambda>timeout.
              bindR (recent_limit fs seconds) (\<lambda>limit.
                Inr (name, \<lparr>rs_direction = rf_direction (hd fs), rs_timeout = timeout, rs_limit = limit\<rparr>)))))"

type_synonym recent_specs = "(string, recent_spec) dict"

definition group_facts :: "recent_facts list \<Rightarrow> (string, recent_facts list) dict" where
  "group_facts fs =
     fold (\<lambda>f d. dict_set (rf_name f) (dict_or d (rf_name f) [] @ [f]) d) fs []"

definition build_recent_specs :: "family \<Rightarrow> rendered_rule list \<Rightarrow> recent_specs res" where
  "build_recent_specs fam rules =
     bindR (mapR (recent_facts_of fam) rules) (\<lambda>fs.
       mapR recent_spec_of (group_facts (List.map_filter (\<lambda>x. x) fs)))"

definition recent_update :: "family \<Rightarrow> rendered_rule \<Rightarrow> recent_specs \<Rightarrow> set_update res" where
  "recent_update fam r specs =
     bindR (recent_facts_of fam r) (\<lambda>fo.
       case fo of
         None \<Rightarrow> Inl internal_error_default
       | Some f \<Rightarrow>
           (case dict_get specs (rf_name f) of
              None \<Rightarrow> Inl (internal_error ''recent rule reached translate_rule without its pre-pass spec'')
            | Some spec \<Rightarrow>
                Inr \<lparr>su_name = ''recent_'' @ rf_name f, su_key = family_name fam @ '' '' @ rs_direction spec,
                     su_type = addr_set_type fam, su_timeout = Some (rs_timeout spec),
                     su_limit = rs_limit spec, su_verb = ''update'', su_owned = True\<rparr>))"

section \<open>hashlimit\<close>

definition prefix_length_mask :: "family \<Rightarrow> string \<Rightarrow> string res" where
  "prefix_length_mask fam s =
     (if \<not> is_ascii_uint s then refuse [''invalid hashlimit mask '', sq s, '' for the nft backend'']
      else bindR (py_int_digits s) (\<lambda>bits.
        if fam = IP
        then if bits > 32 then refuse [''hashlimit mask '', sq s, '' exceeds /32 for nft'']
             else Inr (ipv4_text (2 ^ 32 - 2 ^ (32 - bits)))
        else if bits > 128 then refuse [''hashlimit mask '', sq s, '' exceeds /128 for nft'']
        else Inr (ipv6_text (2 ^ 128 - 2 ^ (128 - bits)))))"

definition hashlimit_rate :: "string \<Rightarrow> (string \<times> string) res" where
  "hashlimit_rate s =
     (let bad = refuse [''unsupported hashlimit rate '', sq s, '' for the nft backend'']
      in case py_partition (CHR ''/'') s of
           (number, _, unit) \<Rightarrow>
             if \<not> is_ascii_uint number then bad
             else bindR (py_int_digits number) (\<lambda>n.
               if n < 1 then bad
               else case dict_get HASHLIMIT_UNIT unit of
                      None \<Rightarrow> refuse [''unsupported hashlimit rate unit in '', sq s, '' for the nft backend'']
                    | Some u \<Rightarrow> Inr (string_of_nat n, u)))"

definition hashlimit_field ::
  "family \<Rightarrow> nft_options \<Rightarrow> string option \<Rightarrow> string \<Rightarrow> (string \<times> string) res" where
  "hashlimit_field fam opts protocol t =
     (if t \<in> {''srcip'', ''dstip''}
      then let key = family_name fam @ (if t = ''srcip'' then '' saddr'' else '' daddr'')
           in case dict_get opts (if t = ''srcip'' then ''hashlimit-srcmask'' else ''hashlimit-dstmask'') of
                None \<Rightarrow> Inr (key, addr_set_type fam)
              | Some m \<Rightarrow> bindR (unwrap_scalar (ro_value m)) (\<lambda>s. bindR (prefix_length_mask fam s) (\<lambda>x.
                  Inr (key @ '' & '' @ x, addr_set_type fam)))
      else case protocol of
             Some p \<Rightarrow>
               if p \<in> set PORT_PROTOCOLS
               then Inr (p @ (if t = ''srcport'' then '' sport'' else '' dport''), ''inet_service'')
               else refuse [''hashlimit mode '', sq t, '' needs a tcp/udp protocol for the nft backend'']
           | None \<Rightarrow> refuse [''hashlimit mode '', sq t, '' needs a tcp/udp protocol for the nft backend''])"

definition hashlimit_key ::
  "family \<Rightarrow> string \<Rightarrow> nft_options \<Rightarrow> string option \<Rightarrow> (string \<times> string) res" where
  "hashlimit_key fam mode opts protocol =
     (let ts = split_char (CHR '','') mode
      in if \<not> list_all (\<lambda>t. t \<in> set HASHLIMIT_MODE_ORDER) ts
         then refuse [''unsupported hashlimit mode '', sq mode, '' for the nft backend'']
         else bindR (mapR (hashlimit_field fam opts protocol)
                       (filter (\<lambda>t. t \<in> set ts) HASHLIMIT_MODE_ORDER)) (\<lambda>kts.
                Inr (join_str '' . '' (map fst kts), join_str '' . '' (map snd kts))))"

definition hashlimit_timeout :: "nft_options \<Rightarrow> string \<Rightarrow> string option res" where
  "hashlimit_timeout opts unit =
     (case dict_get opts ''hashlimit-htable-expire'' of
        None \<Rightarrow> Inr (dict_get HASHLIMIT_PERIOD_TIMEOUT unit)
      | Some e \<Rightarrow> bindR (unwrap_scalar (ro_value e)) (\<lambda>s.
          if \<not> is_ascii_uint s then refuse [''invalid hashlimit htable-expire '', sq s, '' for the nft backend'']
          else bindR (py_int_digits s) (\<lambda>n. bindR (nft_time_canon n) (\<lambda>t. Inr (Some t)))))"

text \<open>A positive count without leading zeros.\<close>

definition burst_text :: "string \<Rightarrow> bool" where
  "burst_text s \<longleftrightarrow> is_ascii_uint s \<and> hd s \<noteq> CHR ''0''"

definition hashlimit_name :: "nft_options \<Rightarrow> string res" where
  "hashlimit_name opts =
     (if dict_has opts ''hashlimit-htable-max''
      then refuse [''mod hashlimit '', sq ''hashlimit-htable-max'', '' has no nft equivalent for the nft backend'']
      else case dict_get opts ''hashlimit-name'' of
             None \<Rightarrow> refuse [''mod hashlimit needs '', sq ''hashlimit-name'', '' for the nft backend'']
           | Some o' \<Rightarrow> bindR (unwrap_scalar (ro_value o')) (\<lambda>s.
               bindR (prefixed_name ''hashlimit'' s) (\<lambda>_. Inr s)))"

definition hashlimit_burst :: "nft_options \<Rightarrow> string res" where
  "hashlimit_burst opts =
     (case dict_get opts ''hashlimit-burst'' of
        None \<Rightarrow> Inr ''5''
      | Some o' \<Rightarrow> bindR (unwrap_scalar (ro_value o')) (\<lambda>s.
          if burst_text s then Inr s
          else refuse [''invalid hashlimit burst '', sq s, '' for the nft backend'']))"

definition hashlimit_limit :: "nft_options \<Rightarrow> (string \<times> string) res" where
  "hashlimit_limit opts =
     (let upto = (case dict_get opts ''hashlimit-upto'' of None \<Rightarrow> dict_get opts ''hashlimit'' | Some o' \<Rightarrow> Some o');
          above = dict_get opts ''hashlimit-above''
      in if upto \<noteq> None \<and> above \<noteq> None
         then refuse [''mod hashlimit cannot combine upto and above for the nft backend'']
         else case (if upto \<noteq> None then upto else above) of
                None \<Rightarrow> refuse [''mod hashlimit needs an upto/above rate for the nft backend'']
              | Some o' \<Rightarrow>
                  bindR (unwrap_scalar (ro_value o')) (\<lambda>s.
                  bindR (hashlimit_rate s) (\<lambda>(rate, unit).
                  bindR (hashlimit_burst opts) (\<lambda>burst.
                    Inr ((if above \<noteq> None then ''rate over'' else ''rate'') @ '' '' @ rate @ ''/'' @ unit @
                           '' burst '' @ burst @ '' packets'', unit)))))"

definition hashlimit_update :: "family \<Rightarrow> rendered_rule \<Rightarrow> string option \<Rightarrow> set_update res" where
  "hashlimit_update fam r protocol =
     (let opts = opts_by (of_module ''hashlimit'') (rr_options r)
      in if fam \<notin> {IP, IP6} then refuse [''mod hashlimit needs the ip or ip6 family for nft'']
         else bindR (mapR (no_negation ''hashlimit'') (map snd opts)) (\<lambda>_.
              bindR (hashlimit_name opts) (\<lambda>name.
              bindR (hashlimit_limit opts) (\<lambda>(limit, unit).
                case dict_get opts ''hashlimit-mode'' of
                  None \<Rightarrow> refuse [''mod hashlimit needs '', sq ''hashlimit-mode'', '' for the nft backend'']
                | Some m \<Rightarrow>
                    bindR (unwrap_scalar (ro_value m)) (\<lambda>mode.
                    bindR (hashlimit_key fam mode opts protocol) (\<lambda>(key, ty).
                    bindR (hashlimit_timeout opts unit) (\<lambda>timeout.
                      Inr \<lparr>su_name = ''hashlimit_'' @ name, su_key = key, su_type = ty, su_timeout = timeout,
                           su_limit = Some limit, su_verb = ''update'', su_owned = True\<rparr>)))))))"

fun hashlimit_key_implies_l4proto :: "rendered_option list \<Rightarrow> bool res" where
  "hashlimit_key_implies_l4proto [] = Inr False"
| "hashlimit_key_implies_l4proto (o' # os) =
     (if of_module ''hashlimit'' o' \<and> ro_name o' = ''hashlimit-mode''
      then bindR (unwrap_scalar (ro_value o')) (\<lambda>s.
             if list_ex (\<lambda>t. t \<in> {''srcport'', ''dstport''}) (split_char (CHR '','') s) then Inr True
             else hashlimit_key_implies_l4proto os)
      else hashlimit_key_implies_l4proto os)"

end
