(* ===== verification/Ferm_Nft_Counters.thy ===== *)
theory Ferm_Nft_Counters
  imports Ferm_Nft_Stateful
begin

text \<open>
  The rest of \<^verbatim>\<open>src/src/pyferm/backend/nft/stateful.py\<close>: time, connbytes, quota and connlimit with
  the names of its sets.
\<close>

section \<open>time\<close>

definition NFT_DAY_NAMES :: "string list" where
  "NFT_DAY_NAMES =
     [''Sunday'', ''Monday'', ''Tuesday'', ''Wednesday'', ''Thursday'', ''Friday'', ''Saturday'']"

definition XT_DAY_TO_NFT :: "(string, nat) dict" where
  "XT_DAY_TO_NFT =
     [(''monday'', 1), (''mon'', 1), (''tuesday'', 2), (''tue'', 2), (''wednesday'', 3), (''wed'', 3),
      (''thursday'', 4), (''thu'', 4), (''friday'', 5), (''fri'', 5), (''saturday'', 6), (''sat'', 6),
      (''sunday'', 0), (''sun'', 0)]"

definition CLOCK_HOUR_MAX :: nat where "CLOCK_HOUR_MAX = 23"
definition CLOCK_FIELD_MAX :: nat where "CLOCK_FIELD_MAX = 59"
definition DAYS_PER_WEEK :: nat where "DAYS_PER_WEEK = 7"

definition digits_of_length :: "nat \<Rightarrow> string \<Rightarrow> bool" where
  "digits_of_length n s \<longleftrightarrow> length s = n \<and> list_all is_digit s"

text \<open>\<^verbatim>\<open>HH:MM\<close> or \<^verbatim>\<open>HH:MM:SS\<close>, the hour of one or two digits.\<close>

definition clock_match :: "string \<Rightarrow> (nat \<times> nat \<times> nat) option" where
  "clock_match s =
     (let hour_ok = (\<lambda>h. digits_of_length 1 h \<or> digits_of_length 2 h)
      in case split_char (CHR '':'') s of
           [h, m] \<Rightarrow>
             if hour_ok h \<and> digits_of_length 2 m then Some (nat_of_string h, nat_of_string m, 0) else None
         | [h, m, t] \<Rightarrow>
             if hour_ok h \<and> digits_of_length 2 m \<and> digits_of_length 2 t
             then Some (nat_of_string h, nat_of_string m, nat_of_string t) else None
         | _ \<Rightarrow> None)"

definition clock_parts :: "nat \<times> nat \<times> nat \<Rightarrow> string \<Rightarrow> string \<Rightarrow> (nat \<times> nat \<times> nat) res" where
  "clock_parts hms s kind =
     (case hms of
        (h, m, t) \<Rightarrow>
          if h \<le> CLOCK_HOUR_MAX \<and> m \<le> CLOCK_FIELD_MAX \<and> t \<le> CLOCK_FIELD_MAX then Inr (h, m, t)
          else refuse [''invalid '', kind, '' '', sq s, for_nft])"

definition two_digits :: "nat \<Rightarrow> string" where
  "two_digits n = pad0 2 (string_of_nat n)"

definition clock_text :: "nat \<times> nat \<times> nat \<Rightarrow> string" where
  "clock_text = (\<lambda>(h, m, t). two_digits h @ '':'' @ two_digits m @ '':'' @ two_digits t)"

definition time_of_day :: "string \<Rightarrow> string res" where
  "time_of_day s =
     (case clock_match s of
        None \<Rightarrow> refuse [''invalid time '', sq s, for_nft]
      | Some hms \<Rightarrow> bindR (clock_parts hms s ''time'') (\<lambda>(h, m, t).
          Inr (if t \<noteq> 0 then clock_text (h, m, t) else two_digits h @ '':'' @ two_digits m)))"

definition date_text :: "string \<Rightarrow> bool" where
  "date_text s \<longleftrightarrow>
     (case split_char (CHR ''-'') s of
        [y, m, d] \<Rightarrow> digits_of_length 4 y \<and> digits_of_length 2 m \<and> digits_of_length 2 d
      | _ \<Rightarrow> False)"

definition datetime_iso :: "string \<Rightarrow> string res" where
  "datetime_iso s =
     (let bad = refuse [''invalid date '', sq s, for_nft]
      in case py_partition (CHR ''T'') s of
           (d, sep, t) \<Rightarrow>
             if \<not> date_text d then bad
             else if \<not> sep then Inr (d @ '' 00:00:00'')
             else (case clock_match t of
                     None \<Rightarrow> bad
                   | Some hms \<Rightarrow> bindR (clock_parts hms s ''date'') (\<lambda>c. Inr (d @ '' '' @ clock_text c))))"

definition dq :: "string \<Rightarrow> string" where
  "dq s = DQUOTE # s @ [DQUOTE]"

definition bound_text :: "(string \<Rightarrow> string res) \<Rightarrow> rendered_option option \<Rightarrow> string \<Rightarrow> string res" where
  "bound_text f o' absent =
     (case o' of None \<Rightarrow> Inr absent | Some x \<Rightarrow> bindR (first_scalar (ro_value x)) f)"

definition time_hour_match :: "nft_options \<Rightarrow> string option res" where
  "time_hour_match opts =
     (let start = dict_get opts ''timestart''; stop = dict_get opts ''timestop''
      in if start = None \<and> stop = None then Inr None
         else bindR (bound_text time_of_day start ''00:00'') (\<lambda>low.
              bindR (bound_text time_of_day stop ''23:59:59'') (\<lambda>high.
                Inr (Some (''meta hour '' @ dq low @ ''-'' @ dq high)))))"

definition xt_day_index :: "string \<Rightarrow> nat res" where
  "xt_day_index t =
     (let lowered = py_lower_text (py_strip t); bad = refuse [''unknown weekday '', sq (py_strip t), for_nft]
      in case dict_get XT_DAY_TO_NFT lowered of
           Some n \<Rightarrow> Inr n
         | None \<Rightarrow>
             if \<not> is_ascii_uint lowered then bad
             else bindR (py_int_digits lowered) (\<lambda>n.
               if 1 \<le> n \<and> n \<le> DAYS_PER_WEEK then Inr (n mod DAYS_PER_WEEK) else bad))"

definition time_day_match :: "nft_options \<Rightarrow> string option res" where
  "time_day_match opts =
     (let days = dict_get opts ''days''; weekdays = dict_get opts ''weekdays''
      in if days \<noteq> None \<and> weekdays \<noteq> None
         then refuse [''mod time cannot combine '', sq ''days'', '' and '', sq ''weekdays'', '' for the nft backend'']
         else case (if days \<noteq> None then days else weekdays) of
                None \<Rightarrow> Inr None
              | Some o' \<Rightarrow> bindR (unwrap_value (ro_value o')) (\<lambda>(s, neg).
                  bindR (mapR xt_day_index (filter (\<lambda>t. py_strip t \<noteq> []) (split_char (CHR '','') s))) (\<lambda>is.
                    Inr (Some (''meta day '' @ nft_op neg @
                      braced (map (\<lambda>i. dq (NFT_DAY_NAMES ! i)) (sort (remdups is))))))))"

definition optional_bound :: "rendered_option option \<Rightarrow> string option res" where
  "optional_bound o' =
     (case o' of
        None \<Rightarrow> Inr None
      | Some x \<Rightarrow> bindR (first_scalar (ro_value x)) (\<lambda>s. bindR (datetime_iso s) (\<lambda>t. Inr (Some t))))"

definition time_span_match :: "nft_options \<Rightarrow> string option res" where
  "time_span_match opts =
     bindR (optional_bound (dict_get opts ''datestart'')) (\<lambda>low.
     bindR (optional_bound (dict_get opts ''datestop'')) (\<lambda>high.
       Inr (case (low, high) of
              (Some l, Some h) \<Rightarrow> Some (''meta time '' @ dq l @ ''-'' @ dq h)
            | (Some l, None) \<Rightarrow> Some (''meta time >= '' @ dq l)
            | (None, Some h) \<Rightarrow> Some (''meta time <= '' @ dq h)
            | (None, None) \<Rightarrow> None)))"

definition time_matches :: "nft_options \<Rightarrow> string list res" where
  "time_matches opts =
     (case filter (dict_has opts) [''monthday'', ''kerneltz'', ''contiguous''] of
        n # _ \<Rightarrow> refuse [''mod time '', sq n, '' not yet supported by nft backend'']
      | [] \<Rightarrow>
          bindR (mapR (\<lambda>f. f opts) [time_hour_match, time_day_match, time_span_match]) (\<lambda>es.
            Inr (List.map_filter (\<lambda>e. e) es)))"

section \<open>connbytes and quota\<close>

definition CONNBYTES_MAX :: nat where "CONNBYTES_MAX = 2 ^ 64 - 1"
definition CONNBYTES_DIRS :: "string list" where "CONNBYTES_DIRS = [''original'', ''reply'', ''both'']"
definition CONNBYTES_MODES :: "string list" where "CONNBYTES_MODES = [''bytes'', ''packets'', ''avgpkt'']"

definition connbytes_u64 :: "string \<Rightarrow> nat res" where
  "connbytes_u64 s =
     (if \<not> is_ascii_uint s then refuse [''invalid connbytes value '', sq s, '' for the nft backend'']
      else bindR (py_int_digits s) (\<lambda>n.
        if n > CONNBYTES_MAX then refuse [''connbytes value '', sq s, '' exceeds 2^64-1 for the nft backend'']
        else Inr n))"

definition connbytes_range :: "string \<Rightarrow> string \<Rightarrow> bool \<Rightarrow> string res" where
  "connbytes_range selector s neg =
     (let above = (\<lambda>t. bindR (connbytes_u64 t) (\<lambda>n.
            Inr (selector @ (if neg then '' < '' else '' >= '') @ string_of_nat n)))
      in case py_partition (CHR '':'') s of
           (low, sep, high) \<Rightarrow>
             if \<not> sep then above s
             else if low \<noteq> [] \<and> high = [] then above low
             else if low = [] \<and> high \<noteq> []
             then bindR (connbytes_u64 high) (\<lambda>n. Inr (selector @ '' '' @ nft_op neg @ ''0-'' @ string_of_nat n))
             else if low = [] \<and> high = []
             then refuse [''invalid connbytes range '', sq s, '' for the nft backend'']
             else bindR (connbytes_u64 low) (\<lambda>lo. bindR (connbytes_u64 high) (\<lambda>hi.
               if lo > hi then refuse [''connbytes range '', sq s, '' has lo > hi for the nft backend'']
               else Inr (selector @ '' '' @ nft_op neg @ string_of_nat lo @ ''-'' @ string_of_nat hi))))"

definition connbytes_match :: "nft_options \<Rightarrow> string res" where
  "connbytes_match opts =
     (case dict_get opts ''connbytes'' of
        None \<Rightarrow> refuse [''mod connbytes needs a '', sq ''connbytes'', '' value for the nft backend'']
      | Some v \<Rightarrow>
          (case (dict_get opts ''connbytes-dir'', dict_get opts ''connbytes-mode'') of
             (Some d, Some m) \<Rightarrow>
               bindR (unwrap_value (ro_value d)) (\<lambda>(dir, dneg).
               bindR (unwrap_value (ro_value m)) (\<lambda>(mode, mneg).
                 if dneg \<or> mneg then refuse [''mod connbytes dir/mode cannot be negated for the nft backend'']
                 else if dir \<notin> set CONNBYTES_DIRS
                 then refuse [''invalid connbytes-dir '', sq dir, '' for the nft backend'']
                 else if mode \<notin> set CONNBYTES_MODES
                 then refuse [''invalid connbytes-mode '', sq mode, '' for the nft backend'']
                 else bindR (unwrap_value (ro_value v)) (\<lambda>(s, neg).
                   connbytes_range (''ct '' @ (if dir = ''both'' then [] else dir @ '' '') @ mode) s neg)))
           | _ \<Rightarrow> refuse [''mod connbytes needs both '', sq ''connbytes-dir'', '' and '', sq ''connbytes-mode'',
                    '' for the nft backend'']))"

definition QUOTA_MAX :: nat where "QUOTA_MAX = 2 ^ 63 - 1"

definition QUOTA_UNITS :: "(nat \<times> string) list" where
  "QUOTA_UNITS = [(1024 * 1024, ''mbytes''), (1024, ''kbytes'')]"

definition quota_canon :: "nat \<Rightarrow> string" where
  "quota_canon n =
     (case filter (\<lambda>(d, u). n \<noteq> 0 \<and> n mod d = 0) QUOTA_UNITS of
        (d, u) # _ \<Rightarrow> string_of_nat (n div d) @ '' '' @ u
      | [] \<Rightarrow> string_of_nat n @ '' bytes'')"

definition quota_statement :: "rendered_option \<Rightarrow> nft_statement res" where
  "quota_statement o' =
     bindR (unwrap_scalar (ro_value o')) (\<lambda>s.
       if \<not> is_ascii_uint s then refuse [''invalid quota '', sq s, '' for the nft backend'']
       else bindR (py_int_digits s) (\<lambda>n.
         if n > QUOTA_MAX
         then refuse [''quota '', sq s, '' exceeds nft'', [SQUOTE], ''s 2^63-1 ceiling for the nft backend'']
         else Inr (NftQuota (''quota '' @ quota_canon n))))"

section \<open>connlimit\<close>

definition CONNLIMIT_COUNT_MAX :: nat where "CONNLIMIT_COUNT_MAX = 0xFFFFFFFF"

definition connlimit_count :: "string \<Rightarrow> string res" where
  "connlimit_count s =
     (if \<not> is_ascii_uint s then refuse [''invalid connlimit count '', sq s, '' for the nft backend'']
      else bindR (py_int_digits s) (\<lambda>n.
        if n > CONNLIMIT_COUNT_MAX
        then refuse [''connlimit count '', sq s, '' exceeds 2^32-1 for the nft backend'']
        else Inr (string_of_nat n)))"

definition connlimit_mask :: "family \<Rightarrow> nft_options \<Rightarrow> string res" where
  "connlimit_mask fam opts =
     (case dict_get opts ''connlimit-mask'' of
        None \<Rightarrow> Inr []
      | Some o' \<Rightarrow> bindR (unwrap_scalar (ro_value o')) (\<lambda>s.
          if \<not> is_ascii_uint s then refuse [''invalid connlimit mask '', sq s, '' for the nft backend'']
          else bindR (py_int_digits s) (\<lambda>bits.
            let max_bits = (if fam = IP then 32 else 128)
            in if bits = 0
               then refuse [''connlimit-mask 0 keys the whole address space as one bucket; refused for the nft backend'']
               else if bits > max_bits
               then refuse [''connlimit mask '', sq s, '' exceeds /'', string_of_nat max_bits, '' for the nft backend'']
               else if bits < max_bits then bindR (prefix_length_mask fam s) (\<lambda>m. Inr ('' & '' @ m))
               else Inr [])))"

definition connlimit_update :: "family \<Rightarrow> rendered_rule \<Rightarrow> set_update res" where
  "connlimit_update fam r =
     (let opts = opts_by (of_module ''connlimit'') (rr_options r); upto = dict_get opts ''connlimit-upto'';
          above = dict_get opts ''connlimit-above''
      in if fam \<notin> {IP, IP6} then refuse [''mod connlimit needs the ip or ip6 family for nft'']
         else case (upto, above) of
                (Some _, Some _) \<Rightarrow>
                  refuse [''mod connlimit needs exactly one of connlimit-upto/connlimit-above for the nft backend'']
              | (None, None) \<Rightarrow>
                  refuse [''mod connlimit needs exactly one of connlimit-upto/connlimit-above for the nft backend'']
              | _ \<Rightarrow>
                  bindR (unwrap_value (ro_value (the (if upto \<noteq> None then upto else above)))) (\<lambda>(s, neg).
                  bindR (connlimit_count s) (\<lambda>count.
                    if dict_has opts ''connlimit-saddr'' \<and> dict_has opts ''connlimit-daddr''
                    then refuse [''mod connlimit cannot combine saddr and daddr for the nft backend'']
                    else bindR (connlimit_mask fam opts) (\<lambda>m.
                      let side = (if dict_has opts ''connlimit-daddr'' then ''daddr'' else ''saddr'');
                          over = ((above \<noteq> None) \<noteq> neg)
                      in Inr \<lparr>su_name = CONNLIMIT_SENTINEL,
                           su_key = family_name fam @ '' '' @ side @ m @
                             (if over then '' ct count over '' else '' ct count '') @ count,
                           su_type = addr_set_type fam, su_timeout = None, su_limit = None,
                           su_verb = ''add'', su_owned = True\<rparr>))))"

definition connlimit_name :: "family \<Rightarrow> string \<Rightarrow> string \<Rightarrow> string \<Rightarrow> nat \<Rightarrow> string" where
  "connlimit_name fam table chain t ordinal =
     ''connlimit_'' @ take 12 (sha256_hex
       (join_str [CHR 0x00] [family_name fam, table, chain, t, string_of_nat ordinal]))"

text \<open>The statements of a rule, those already named first.\<close>

fun finalize_statements ::
  "(string \<Rightarrow> nat \<Rightarrow> string) \<Rightarrow> nft_statement list \<Rightarrow> nft_statement list \<Rightarrow> (string, nat) dict \<Rightarrow>
     (nft_statement list \<times> (string, nat) dict) res" where
  "finalize_statements name pre [] ords = Inr (pre, ords)"
| "finalize_statements name pre (NftSetUpdate u # post) ords =
     (if su_name u = CONNLIMIT_SENTINEL
      then bindR (mapR to_text (pre @ NftSetUpdate u # post)) (\<lambda>ts.
             let t = join_str '' '' ts; ordinal = dict_or ords t 0
             in finalize_statements name (pre @ [NftSetUpdate (u\<lparr>su_name := name t ordinal\<rparr>)]) post
                  (dict_set t (Suc ordinal) ords))
      else finalize_statements name (pre @ [NftSetUpdate u]) post ords)"
| "finalize_statements name pre (s # post) ords = finalize_statements name (pre @ [s]) post ords"

fun finalize_rules ::
  "(string \<Rightarrow> nat \<Rightarrow> string) \<Rightarrow> nft_rule list \<Rightarrow> (string, nat) dict \<Rightarrow> nft_rule list res" where
  "finalize_rules name [] ords = Inr []"
| "finalize_rules name (r # rs) ords =
     bindR (finalize_statements name [] (nr_statements r) ords) (\<lambda>(ss, ords').
     bindR (finalize_rules name rs ords') (\<lambda>rest. Inr (r\<lparr>nr_statements := ss\<rparr> # rest)))"

definition finalize_connlimit_names ::
  "family \<Rightarrow> string \<Rightarrow> string \<Rightarrow> nft_rule list \<Rightarrow> nft_rule list res" where
  "finalize_connlimit_names fam table chain rules =
     finalize_rules (connlimit_name fam table chain) rules []"

end
