(* ===== verification/Ferm_Nft_Verdicts.thy ===== *)
theory Ferm_Nft_Verdicts
  imports Ferm_Nft_Counters
begin

text \<open>
  The targets, \<^verbatim>\<open>src/src/pyferm/backend/nft/verdicts.py\<close>: marks, NAT, logging, the targets of
  ebtables and arptables, the objects of SECMARK and CT, and \<open>build_verdict\<close>.
\<close>

unbundle bit_operations_syntax

section \<open>Marks\<close>

definition mark_pair :: "string \<Rightarrow> string \<Rightarrow> (nat \<times> nat) option" where
  "mark_pair base m =
     (case (py_int_auto base, py_int_auto m) of
        (Some v, Some k) \<Rightarrow>
          if 0 \<le> v \<and> v \<le> int MARK_MAX \<and> 0 \<le> k \<and> k \<le> int MARK_MAX then Some (nat v, nat k) else None
      | _ \<Rightarrow> None)"

definition mask_complement :: "nat \<Rightarrow> nat" where
  "mask_complement k = nat (NOT (int k) AND int MARK_MAX)"

definition masked_mark_text :: "string \<Rightarrow> nat \<Rightarrow> nat \<Rightarrow> string" where
  "masked_mark_text register v k =
     (let a = mask_complement k OR v
      in if a = MARK_MAX \<and> v \<noteq> 0 then register @ '' set '' @ register @ '' | '' @ hex08 v
         else if v = 0 then register @ '' set '' @ register @ '' & '' @ hex08 a
         else register @ '' set '' @ register @ '' & '' @ hex08 a @ '' | '' @ hex08 v)"

definition masked_mark_set :: "string \<Rightarrow> string \<Rightarrow> string \<Rightarrow> string res" where
  "masked_mark_set s option_name register =
     (case py_partition (CHR ''/'') s of
        (base, sep, m) \<Rightarrow>
          let plain = bindR (mark_value base) (\<lambda>x. Inr (register @ '' set '' @ x))
          in if \<not> sep then plain
             else case mark_pair base m of
                    None \<Rightarrow> refuse [''invalid '', option_name, '' '', sq s, for_nft]
                  | Some (v, k) \<Rightarrow>
                      if k = 0 then refuse [option_name, '' '', sq s, '' has a zero mask (a no-op)'', for_nft]
                      else if v AND mask_complement k \<noteq> 0
                      then refuse [option_name, '' '', sq s, '' value has bits outside its mask'', for_nft]
                      else if k = MARK_MAX then plain
                      else Inr (masked_mark_text register v k))"

definition setmark_effective :: "string \<Rightarrow> string res" where
  "setmark_effective s =
     (case py_partition (CHR ''/'') s of
        (base, sep, m) \<Rightarrow>
          if \<not> sep then Inr s
          else case mark_pair base m of
                 None \<Rightarrow> refuse [''invalid set-mark '', sq s, for_nft]
               | Some (v, k) \<Rightarrow> Inr (''0x'' @ hex_text v @ ''/0x'' @ hex_text (v OR k)))"

definition mark_arith_operand :: "rendered_option \<Rightarrow> string res" where
  "mark_arith_operand o' = bindR (unwrap_scalar (ro_value o')) mark_value"

definition MARK_OPERATIONS :: "(string \<times> string) list" where
  "MARK_OPERATIONS = [(''and-mark'', ''&''), (''or-mark'', ''|''), (''xor-mark'', ''^'')]"

definition mark_arith_set :: "string \<Rightarrow> string \<Rightarrow> nft_options \<Rightarrow> string res" where
  "mark_arith_set register target comps =
     (case filter (dict_has comps) [''set-mark'', ''set-xmark'', ''and-mark'', ''or-mark'', ''xor-mark''] of
        [name] \<Rightarrow>
          let opt = the (dict_get comps name)
          in if name = ''set-xmark''
             then bindR (unwrap_scalar (ro_value opt)) (\<lambda>s. masked_mark_set s ''set-xmark'' register)
             else if name = ''set-mark''
             then bindR (unwrap_scalar (ro_value opt)) (\<lambda>s. bindR (setmark_effective s) (\<lambda>e.
                    masked_mark_set e ''set-mark'' register))
             else bindR (mark_arith_operand opt) (\<lambda>x.
                    Inr (register @ '' set '' @ register @ '' '' @ dict_or MARK_OPERATIONS name [] @ '' '' @ x))
      | _ \<Rightarrow> refuse [target, '' target not yet supported by nft backend''])"

section \<open>Packet fields\<close>

definition classify_priority :: "string \<Rightarrow> string res" where
  "classify_priority s =
     (case split_char (CHR '':'') s of
        [a, b] \<Rightarrow>
          if is_hex4 a \<and> is_hex4 b
          then let major = hex_value a; minor = hex_value b
               in Inr (if major = TC_HANDLE_ROOT \<and> minor = TC_HANDLE_ROOT then ''root''
                       else if major = 0 \<and> minor = 0 then ''none''
                       else hex_text major @ '':'' @ hex_text minor)
          else refuse [''option '', sq ''set-class'', '': invalid tc class '', sq s, for_nft]
      | _ \<Rightarrow> refuse [''option '', sq ''set-class'', '': invalid tc class '', sq s, for_nft])"

definition queue_balance_text :: "rendered_option \<Rightarrow> string res" where
  "queue_balance_text o' =
     bindR (unwrap_scalar (ro_value o')) (\<lambda>s.
       case py_partition (CHR '':'') s of
         (low, sep, high) \<Rightarrow>
           if sep \<and> is_ascii_uint low \<and> is_ascii_uint high
           then bindR (py_int_digits low) (\<lambda>l. bindR (py_int_digits high) (\<lambda>h.
                  Inr (string_of_nat l @ ''-'' @ string_of_nat h)))
           else refuse [''invalid queue-balance '', sq s, for_nft])"

definition bounded_text :: "rendered_option \<Rightarrow> nat \<Rightarrow> string \<Rightarrow> string res" where
  "bounded_text o' maximum label =
     bindR (unwrap_scalar (ro_value o')) (\<lambda>s. bindR (bounded_uint s maximum label) (\<lambda>n.
       Inr (string_of_nat n)))"

definition nfqueue_verdict :: "nft_options \<Rightarrow> string res" where
  "nfqueue_verdict comps =
     (let num = dict_get comps ''queue-num''; balance = dict_get comps ''queue-balance''
      in if num \<noteq> None \<and> balance \<noteq> None
         then refuse [sq ''queue-num'', '' and '', sq ''queue-balance'',
                '' are mutually exclusive for the nft backend'']
         else if dict_has comps ''queue-cpu-fanout'' \<and> balance = None
         then refuse [''option '', sq ''queue-cpu-fanout'', '' needs '', sq ''queue-balance'',
                '' for the nft backend'']
         else bindR (case balance of
                       Some b \<Rightarrow> queue_balance_text b
                     | None \<Rightarrow> (case num of Some n \<Rightarrow> bounded_text n U16_MAX ''queue-num'' | None \<Rightarrow> Inr ''0'')) (\<lambda>t.
                let flags = (if dict_has comps ''queue-bypass'' then [''bypass''] else []) @
                            (if dict_has comps ''queue-cpu-fanout'' then [''fanout''] else [])
                in Inr (''queue'' @ (if flags = [] then [] else '' flags '' @ join_str '','' flags) @ '' to '' @ t)))"

definition hoplimit_verdict :: "string \<Rightarrow> nft_options \<Rightarrow> string res" where
  "hoplimit_verdict target comps =
     (let p = (if target = ''TTL'' then ''ttl'' else ''hl'')
      in case filter (dict_has comps) [p @ ''-inc'', p @ ''-dec''] of
           arith # _ \<Rightarrow> refuse [''option '', sq arith, '' not yet supported by nft backend'']
         | [] \<Rightarrow>
             (case dict_get comps (p @ ''-set'') of
                None \<Rightarrow> refuse [target, '' target not yet supported by nft backend'']
              | Some c \<Rightarrow> bindR (bounded_text c HOPLIMIT_MAX (p @ ''-set'')) (\<lambda>n.
                  Inr ((if target = ''TTL'' then ''ip ttl'' else ''ip6 hoplimit'') @ '' set '' @ n))))"

definition synproxy_field :: "nft_options \<Rightarrow> string \<Rightarrow> string res" where
  "synproxy_field comps label =
     bindR (case dict_get comps label of None \<Rightarrow> Inr ''0'' | Some c \<Rightarrow> unwrap_scalar (ro_value c)) (\<lambda>s.
     bindR (bounded_uint s U16_MAX (''synproxy '' @ label)) (\<lambda>n. Inr ('' '' @ label @ '' '' @ string_of_nat n)))"

definition synproxy_verdict :: "nft_options \<Rightarrow> string res" where
  "synproxy_verdict comps =
     (if dict_has comps ''ecn'' then refuse [''option '', sq ''ecn'', '' has no nft synproxy equivalent'']
      else bindR (if dict_has comps ''mss'' \<or> dict_has comps ''wscale''
                  then mapR (synproxy_field comps) [''mss'', ''wscale''] else Inr []) (\<lambda>fs.
             Inr (''synproxy'' @ concat fs @ (if dict_has comps ''timestamp'' then '' timestamp'' else []) @
                  (if dict_has comps ''sack-perm'' then '' sack-perm'' else []))))"

definition tproxy_destination :: "family \<Rightarrow> string \<Rightarrow> rendered_option option \<Rightarrow> string res" where
  "tproxy_destination fam port on_ip =
     (case on_ip of
        None \<Rightarrow> Inr ('':'' @ port)
      | Some o' \<Rightarrow> bindR (first_scalar (ro_value o')) (\<lambda>s. bindR (validate_address s) (\<lambda>a.
          Inr (if fam = IP6 then ''['' @ a @ '']:'' @ port else a @ '':'' @ port))))"

definition tproxy_verdict :: "family \<Rightarrow> nft_options \<Rightarrow> bool \<Rightarrow> string res" where
  "tproxy_verdict fam comps has_transport =
     (if \<not> has_transport
      then refuse [''TPROXY needs a transport protocol match (tcp/udp) for the nft backend'']
      else case dict_get comps ''on-port'' of
             None \<Rightarrow> refuse [''TPROXY needs '', sq ''on-port'', '' for the nft backend'']
           | Some p \<Rightarrow>
               bindR (first_scalar (ro_value p)) (\<lambda>ps.
               bindR (bounded_uint ps U16_MAX ''on-port'') (\<lambda>n.
               bindR (tproxy_destination fam (string_of_nat n) (dict_get comps ''on-ip'')) (\<lambda>dest.
               bindR (case dict_get comps ''tproxy-mark'' of
                        None \<Rightarrow> Inr []
                      | Some m \<Rightarrow> bindR (first_scalar (ro_value m)) (\<lambda>s.
                          bindR (masked_mark_set s ''tproxy-mark'' ''meta mark'') (\<lambda>t. Inr ('' '' @ t)))) (\<lambda>mark.
                 Inr (''tproxy to '' @ dest @ mark @ '' accept''))))))"

section \<open>NETMAP\<close>

definition NETMAP_SIDE :: "(string, string) dict" where
  "NETMAP_SIDE =
     [(''PREROUTING'', ''daddr''), (''OUTPUT'', ''daddr''), (''INPUT'', ''saddr''), (''POSTROUTING'', ''saddr'')]"

text \<open>\<^verbatim>\<open>ip_network(s, strict=True)\<close>: a network, or the text of the \<^verbatim>\<open>ValueError\<close>.\<close>

definition strict_check :: "ipaddr \<Rightarrow> nat \<Rightarrow> string + ipnet" where
  "strict_check a p =
     (if ip_int (mask_address p a) = ip_int a then Inr (Net a p)
      else Inl (ip_text a @ ''/'' @ string_of_nat p @ '' has host bits set''))"

definition strict_network :: "string \<Rightarrow> string + ipnet" where
  "strict_network s =
     (let ps = split_char (CHR ''/'') s;
          v4 = map_option Ip4 (parse_ipv4 (hd ps));
          p4 = (if length ps = 2 then ipv4_prefix (ps ! 1) else Some 32);
          v6 = map_option (\<lambda>(n, sc). Ip6 n sc) (parse_ipv6 (hd ps));
          p6 = (if length ps = 2 then prefix_number 128 (ps ! 1) else Some 128);
          unknown = Inl (py_repr s @ '' does not appear to be an IPv4 or IPv6 network'')
      in if length ps > 2 then unknown
         else case (v4, p4) of
                (Some a, Some p) \<Rightarrow> strict_check a p
              | _ \<Rightarrow> (case (v6, p6) of (Some a, Some p) \<Rightarrow> strict_check a p | _ \<Rightarrow> unknown))"

definition netmap_network :: "string \<Rightarrow> family \<Rightarrow> ipnet res" where
  "netmap_network s fam =
     (if CHR ''/'' \<notin> set s
      then refuse [''NETMAP prefix '', sq s, '' needs an explicit prefix length for the nft backend'']
      else case strict_network s of
             Inl e \<Rightarrow> refuse [''NETMAP prefix '', sq s, '': '', e]
           | Inr net \<Rightarrow>
               if ip_version (net_address net) \<noteq> (if fam = IP then 4 else 6)
               then refuse [''NETMAP prefix '', sq s, '' does not match the '', family_name fam, '' family'']
               else Inr net)"

definition netmap_text :: "family \<Rightarrow> string \<Rightarrow> string \<Rightarrow> string \<Rightarrow> string res" where
  "netmap_text fam side original to =
     bindR (netmap_network original fam) (\<lambda>a.
     bindR (netmap_network to fam) (\<lambda>b.
       if net_prefixlen a \<noteq> net_prefixlen b
       then refuse [''NETMAP prefix lengths differ ('', sq original, '' vs '', sq to, '') for the nft backend'']
       else Inr ((if side = ''daddr'' then ''dnat '' else ''snat '') @ family_name fam @ '' prefix to '' @
              family_name fam @ '' '' @ side @ '' map { '' @ net_text a @ '' : '' @ net_text b @ '' }'')))"

definition netmap_verdict ::
  "family \<Rightarrow> string \<Rightarrow> string \<Rightarrow> nft_options \<Rightarrow> rendered_option list \<Rightarrow> string res" where
  "netmap_verdict fam table chain comps options =
     (case (if table = ''nat'' then dict_get NETMAP_SIDE chain else None) of
        None \<Rightarrow> refuse [''NETMAP translates only inside a built-in nat chain (PREROUTING/OUTPUT rewrite '',
                  ''the destination, POSTROUTING/INPUT the source) for the nft backend'']
      | Some side \<Rightarrow>
          (case dict_get comps ''to'' of
             None \<Rightarrow> refuse [''NETMAP target not yet supported by nft backend'']
           | Some to \<Rightarrow>
               let name = (if side = ''daddr'' then ''destination'' else ''source'')
               in case filter (\<lambda>o'. ro_name o' = name) options of
                    [o'] \<Rightarrow>
                      bindR (unwrap_value (ro_value o')) (\<lambda>(original, neg).
                        if neg
                        then refuse [''NETMAP cannot map a negated '', sq name, '' match for the nft backend'']
                        else bindR (unwrap_scalar (ro_value to)) (netmap_text fam side original))
                  | _ \<Rightarrow> refuse [''NETMAP needs exactly one '', sq name,
                           '' match to name the mapped prefix for the nft backend'']))"

section \<open>The SET target\<close>

definition set_target_operand :: "nft_host \<Rightarrow> rendered_option \<Rightarrow> ((string \<times> cfg_value list) \<times> string) res" where
  "set_target_operand hs o' =
     (let intro = ''option '' @ sq (ro_name o')
      in case ro_value o' of
           VParams [VSetRef n es, VStr flags] \<Rightarrow>
             bindR (set_flag_selector
                      (intro @ '': multiple SET target flags need a concatenated set type that @set does not declare'')
                      [intro, '': unsupported SET target flag '', sq flags, '' for the nft backend''] flags)
               (\<lambda>side. Inr ((n, es), side))
         | VParams [VSetRef n es, _] \<Rightarrow> Inl internal_error_default
         | VParams [w, _] \<Rightarrow>
             refuse [intro, '': external ipset '', sq (host_text hs w),
               '' cannot be referenced from nftables; declare it with @set $'', host_text hs w,
               '' = () or keep the iptables backend'']
         | _ \<Rightarrow> Inl internal_error_default)"

definition set_target_timeout :: "nft_options \<Rightarrow> string option res" where
  "set_target_timeout comps =
     (case dict_get comps ''timeout'' of
        None \<Rightarrow> Inr None
      | Some c \<Rightarrow> bindR (unwrap_scalar (ro_value c)) (\<lambda>s.
          if \<not> is_ascii_uint s then refuse [''invalid SET timeout '', sq s, for_nft]
          else bindR (py_int_digits s) (\<lambda>n.
            if n > 0 then bindR (nft_time_canon (n * 1000)) (\<lambda>t. Inr (Some t)) else Inr None)))"

definition set_target_verb :: "nft_options \<Rightarrow> (string \<times> string option) res" where
  "set_target_verb comps =
     (if dict_has comps ''del-set''
      then (case filter (dict_has comps) [''timeout'', ''exist''] of
              extra # _ \<Rightarrow> refuse [''SET target option '', sq extra, '' is only valid with '', sq ''add-set'']
            | [] \<Rightarrow> Inr (''delete'', None))
      else bindR (set_target_timeout comps) (\<lambda>t.
             Inr (if dict_has comps ''exist'' then ''update'' else ''add'', t)))"

definition set_target_statement :: "nft_host \<Rightarrow> family \<Rightarrow> nft_options \<Rightarrow> nft_statement res" where
  "set_target_statement hs fam comps =
     (case (case dict_get comps ''add-set'' of None \<Rightarrow> dict_get comps ''del-set'' | a \<Rightarrow> a) of
        None \<Rightarrow> refuse [''SET target needs '', sq ''add-set'', '' or '', sq ''del-set'', '' for the nft backend'']
      | Some primary \<Rightarrow>
          bindR (set_target_operand hs primary) (\<lambda>((n, es), side).
            if es \<noteq> []
            then refuse [''SET target set '', sq n,
                   '' is a runtime bucket and must be declared empty (@set $x = ()) for the nft backend'']
            else bindR (validate_set_name n) (\<lambda>name.
                 bindR (set_target_verb comps) (\<lambda>(verb, timeout).
                   Inr (NftSetUpdate
                     \<lparr>su_name = name, su_key = family_name fam @ '' '' @ side, su_type = addr_set_type fam,
                      su_timeout = timeout, su_limit = None, su_verb = verb, su_owned = False\<rparr>)))))"

section \<open>ebtables and arptables\<close>

definition VERDICT_TARGET :: "(string, string) dict" where
  "VERDICT_TARGET = map (\<lambda>t. (t, py_lower_text t)) CORE_TARGETS"

definition EB_NAT_SPEC :: "(string, string list \<times> string \<times> string) dict" where
  "EB_NAT_SPEC =
     [(''snat'', [''POSTROUTING''], ''saddr'', ''to-source''),
      (''dnat'', [''PREROUTING'', ''OUTPUT''], ''daddr'', ''to-destination'')]"

definition EB_NAT_VERDICT :: "(string, string) dict" where
  "EB_NAT_VERDICT =
     [(''ACCEPT'', ''accept''), (''DROP'', ''drop''), (''CONTINUE'', ''continue''), (''RETURN'', ''return'')]"

definition EB_REFUSED_TARGETS :: "string list" where
  "EB_REFUSED_TARGETS = [''arpreply'', ''redirect'', ''MARK'', ''mark'']"

definition mac_canon :: "string \<Rightarrow> string res" where
  "mac_canon s =
     (let gs = split_char (CHR '':'') s
      in if length gs = 6 \<and> list_all (\<lambda>g. g \<noteq> [] \<and> length g \<le> 2 \<and> list_all is_hex g) gs
         then Inr (join_str '':'' (map (\<lambda>g. pad0 2 (hex_text (hex_value g))) gs))
         else refuse [''invalid mac '', sq s, for_nft])"

definition companion_scalar :: "rendered_option \<Rightarrow> string res" where
  "companion_scalar c =
     bindR (unwrap_value (ro_value c)) (\<lambda>(s, neg).
       if neg then Inl (internal_error (''negated non-negatable companion '' @ sq (ro_name c))) else Inr s)"

definition eb_nat_verdict :: "string \<Rightarrow> nft_options \<Rightarrow> string res" where
  "eb_nat_verdict target comps =
     (case dict_get comps (target @ ''-target'') of
        None \<Rightarrow> Inr ''accept''
      | Some c \<Rightarrow> bindR (companion_scalar c) (\<lambda>s.
          case dict_get EB_NAT_VERDICT s of
            Some v \<Rightarrow> Inr v
          | None \<Rightarrow> refuse [''invalid '', target, ''-target '', sq s, '' for the nft backend'']))"

definition eb_nat_statement :: "string \<Rightarrow> string \<Rightarrow> string \<Rightarrow> nft_options \<Rightarrow> nft_statement res" where
  "eb_nat_statement table chain target comps =
     (case dict_or EB_NAT_SPEC target ([], [], []) of
        (places, field, mac_name) \<Rightarrow>
          if table \<noteq> ''nat'' \<or> chain \<notin> set places
          then refuse [''eb '', target, '' translates only inside the built-in '',
                 join_str '' or '' (map (\<lambda>c. ''nat/'' @ c) places), '' chain for the nft backend'']
          else if dict_has comps ''snat-arp''
          then refuse [''option '', sq ''snat-arp'', '' has no nft equivalent (nft cannot rewrite the ARP '',
                 ''payload); use the iptables backend for this rule'']
          else case dict_get comps mac_name of
                 None \<Rightarrow> refuse [''eb '', target, '' needs '', sq mac_name, '' for the nft backend'']
               | Some c \<Rightarrow>
                   bindR (companion_scalar c) (\<lambda>s.
                   bindR (mac_canon s) (\<lambda>mac.
                   bindR (eb_nat_verdict target comps) (\<lambda>v.
                     Inr (NftVerdict (''ether '' @ field @ '' set '' @ mac @ '' '' @ v))))))"

definition ARP_MANGLE_VERDICT :: "(string, string) dict" where
  "ARP_MANGLE_VERDICT = [(''ACCEPT'', ''accept''), (''DROP'', ''drop''), (''CONTINUE'', '''')]"

definition ARP_MANGLE_REWRITES :: "(string \<times> string) list" where
  "ARP_MANGLE_REWRITES =
     [(''mangle-ip-s'', ''arp saddr ip set''), (''mangle-mac-s'', ''arp saddr ether set''),
      (''mangle-ip-d'', ''arp daddr ip set''), (''mangle-mac-d'', ''arp daddr ether set'')]"

definition ARP_MANGLE_COMPANIONS :: "string list" where
  "ARP_MANGLE_COMPANIONS = map fst ARP_MANGLE_REWRITES @ [''mangle-target'']"

definition ARP_MANGLE_GUARDS :: string where
  "ARP_MANGLE_GUARDS = ''arp htype 1 arp hlen 6 arp plen 4''"

definition arp_rewrite :: "nft_options \<Rightarrow> string \<times> string \<Rightarrow> string list res" where
  "arp_rewrite comps = (\<lambda>(name, field).
     case dict_get comps name of
       None \<Rightarrow> Inr []
     | Some c \<Rightarrow> bindR (companion_scalar c) (\<lambda>s.
         bindR (if starts_with ''mangle-ip'' name
                then (case parse_ipv4 s of
                        Some n \<Rightarrow> Inr (ipv4_text n)
                      | None \<Rightarrow> refuse [''invalid arp mangle ip '', sq s, for_nft])
                else mac_canon s) (\<lambda>t. Inr [field @ '' '' @ t])))"

definition arp_mangle_verdict :: "nft_options \<Rightarrow> string res" where
  "arp_mangle_verdict comps =
     (case dict_get comps ''mangle-target'' of
        None \<Rightarrow> Inr ''accept''
      | Some c \<Rightarrow> bindR (companion_scalar c) (\<lambda>s.
          case dict_get ARP_MANGLE_VERDICT s of
            Some v \<Rightarrow> Inr v
          | None \<Rightarrow> refuse [''invalid mangle-target '', sq s, '' for the nft backend'']))"

definition arp_mangle_statement :: "nft_options \<Rightarrow> nft_statement option res" where
  "arp_mangle_statement comps =
     bindR (mapR (arp_rewrite comps) ARP_MANGLE_REWRITES) (\<lambda>rs.
     bindR (arp_mangle_verdict comps) (\<lambda>v.
       let parts = concat rs @ (if v = [] then [] else [v])
       in Inr (if parts = [] then None else Some (NftVerdict (join_str '' '' parts)))))"

section \<open>REJECT, LOG and NAT\<close>

definition REJECT_WITH :: "(string, string) dict" where
  "REJECT_WITH =
     [(''icmp-net-unreachable'', ''reject with icmp type net-unreachable''),
      (''icmp-host-unreachable'', ''reject with icmp type host-unreachable''),
      (''icmp-proto-unreachable'', ''reject with icmp type prot-unreachable''),
      (''icmp-port-unreachable'', ''reject with icmp type port-unreachable''),
      (''icmp-net-prohibited'', ''reject with icmp type net-prohibited''),
      (''icmp-host-prohibited'', ''reject with icmp type host-prohibited''),
      (''icmp-admin-prohibited'', ''reject with icmp type admin-prohibited''),
      (''tcp-reset'', ''reject with tcp reset'')]"

definition REJECT_ALIAS :: "(string, string) dict" where
  "REJECT_ALIAS =
     [(''net-unreach'', ''icmp-net-unreachable''), (''host-unreach'', ''icmp-host-unreachable''),
      (''proto-unreach'', ''icmp-proto-unreachable''), (''port-unreach'', ''icmp-port-unreachable''),
      (''net-prohib'', ''icmp-net-prohibited''), (''host-prohib'', ''icmp-host-prohibited''),
      (''admin-prohib'', ''icmp-admin-prohibited''), (''tcp-rst'', ''tcp-reset'')]"

definition REJECT_WITH_IP6 :: "(string, string) dict" where
  "REJECT_WITH_IP6 =
     [(''icmp6-no-route'', ''reject with icmpv6 type no-route''),
      (''icmp6-adm-prohibited'', ''reject with icmpv6 type admin-prohibited''),
      (''icmp6-addr-unreachable'', ''reject with icmpv6 type addr-unreachable''),
      (''icmp6-port-unreachable'', ''reject with icmpv6 type port-unreachable''),
      (''icmp6-policy-fail'', ''reject with icmpv6 type policy-fail''),
      (''icmp6-reject-route'', ''reject with icmpv6 type reject-route''),
      (''tcp-reset'', ''reject with tcp reset'')]"

definition REJECT_ALIAS_IP6 :: "(string, string) dict" where
  "REJECT_ALIAS_IP6 =
     [(''no-route'', ''icmp6-no-route''), (''adm-prohibited'', ''icmp6-adm-prohibited''),
      (''addr-unreach'', ''icmp6-addr-unreachable''), (''port-unreach'', ''icmp6-port-unreachable''),
      (''policy-fail'', ''icmp6-policy-fail''), (''reject-route'', ''icmp6-reject-route'')]"

definition NAT_PORT_NEEDS_PROTO :: string where
  "NAT_PORT_NEEDS_PROTO = ''NAT to a port needs a tcp/udp protocol match for the nft backend''"

definition LOG_LEVEL_MAP :: "(string, string) dict" where
  "LOG_LEVEL_MAP =
     [(''emerg'', ''emerg''), (''panic'', ''emerg''), (''0'', ''emerg''), (''alert'', ''alert''),
      (''1'', ''alert''), (''crit'', ''crit''), (''2'', ''crit''), (''error'', ''err''), (''err'', ''err''),
      (''3'', ''err''), (''warning'', ''warn''), (''warn'', ''warn''), (''4'', ''warn''),
      (''notice'', ''notice''), (''5'', ''notice''), (''info'', ''info''), (''6'', ''info''),
      (''debug'', ''debug''), (''7'', ''debug'')]"

definition nat_has_port :: "family \<Rightarrow> string \<Rightarrow> bool" where
  "nat_has_port fam operand \<longleftrightarrow>
     (if fam = IP6 then contains_text '']:'' operand else CHR '':'' \<in> set operand)"

definition reject_for :: "family \<Rightarrow> string \<Rightarrow> string res" where
  "reject_for fam s =
     (let t = (if fam = IP6 then (let u = dict_or ICMP6_REJECT_MAP s s in dict_or REJECT_ALIAS_IP6 u u)
               else dict_or REJECT_ALIAS s s)
      in case dict_get (if fam = IP6 then REJECT_WITH_IP6 else REJECT_WITH) t of
           Some spec \<Rightarrow> Inr spec
         | None \<Rightarrow> refuse [''reject-with '', sq t, '' not yet supported by nft backend''])"

definition quoted_prefix :: "rendered_option option \<Rightarrow> string res" where
  "quoted_prefix o' =
     (case o' of
        None \<Rightarrow> Inr []
      | Some c \<Rightarrow> bindR (unwrap_scalar (ro_value c)) (\<lambda>s. bindR (nft_quote_string s) (\<lambda>q.
          Inr ('' prefix '' @ q))))"

definition nflog_group :: "rendered_option option \<Rightarrow> string res" where
  "nflog_group o' =
     (case o' of
        None \<Rightarrow> Inr ''0''
      | Some g \<Rightarrow> bindR (unwrap_scalar (ro_value g)) (\<lambda>s.
          bindR (bounded_uint s NFLOG_GROUP_MAX ''nflog-group'') (\<lambda>_. Inr s)))"

definition nflog_threshold :: "rendered_option option \<Rightarrow> string res" where
  "nflog_threshold o' =
     (case o' of
        None \<Rightarrow> Inr []
      | Some t \<Rightarrow> bindR (unwrap_scalar (ro_value t)) (\<lambda>s.
          let bad = refuse [''invalid nflog-threshold '', sq s, for_nft]
          in if \<not> is_ascii_uint s then bad
             else bindR (py_int_digits s) (\<lambda>n. if n = 0 then bad else Inr ('' queue-threshold '' @ s))))"

definition nflog_verdict :: "nft_options \<Rightarrow> string res" where
  "nflog_verdict comps =
     (if dict_has comps ''nflog-range''
      then refuse [''option '', sq ''nflog-range'', '' not yet supported by nft backend'']
      else bindR (quoted_prefix (dict_get comps ''nflog-prefix'')) (\<lambda>p.
           bindR (nflog_group (dict_get comps ''nflog-group'')) (\<lambda>g.
           bindR (nflog_threshold (dict_get comps ''nflog-threshold'')) (\<lambda>t.
             Inr (''log'' @ p @ '' group '' @ g @ t)))))"

definition log_level :: "rendered_option option \<Rightarrow> string res" where
  "log_level o' =
     (case o' of
        None \<Rightarrow> Inr []
      | Some c \<Rightarrow> bindR (unwrap_scalar (ro_value c)) (\<lambda>s.
          case dict_get LOG_LEVEL_MAP (py_lower_text s) of
            None \<Rightarrow> refuse [''log-level '', sq s, '' not yet supported by nft backend'']
          | Some l \<Rightarrow> Inr (if l = ''warn'' then [] else '' level '' @ l)))"

definition log_verdict :: "nft_options \<Rightarrow> string res" where
  "log_verdict comps =
     bindR (quoted_prefix (dict_get comps ''log-prefix'')) (\<lambda>p.
     bindR (log_level (dict_get comps ''log-level'')) (\<lambda>l. Inr (''log'' @ p @ l)))"

definition NAT_FLAG_SPELLING :: "(string \<times> string) list" where
  "NAT_FLAG_SPELLING =
     [(''random'', ''random''), (''random-fully'', ''fully-random''), (''persistent'', ''persistent'')]"

definition nat_flags :: "nft_options \<Rightarrow> string" where
  "nat_flags comps =
     (let flags = map snd (filter (\<lambda>(n, t). dict_has comps n) NAT_FLAG_SPELLING)
      in if flags = [] then [] else '' '' @ join_str '','' flags)"

definition nat_to_ports :: "nft_host \<Rightarrow> string \<Rightarrow> nft_options \<Rightarrow> bool \<Rightarrow> string res" where
  "nat_to_ports hs verb comps has_transport =
     (case dict_get comps ''to-ports'' of
        None \<Rightarrow> Inr (verb @ nat_flags comps)
      | Some c \<Rightarrow>
          if \<not> has_transport then refuse [NAT_PORT_NEEDS_PROTO]
          else bindR (first_scalar (ro_value c)) (\<lambda>s. bindR (validate_port hs s) (\<lambda>p.
                 Inr (verb @ '' to :'' @ p @ nat_flags comps))))"

definition nat_to_addr ::
  "string \<Rightarrow> string \<Rightarrow> string \<Rightarrow> family \<Rightarrow> nft_options \<Rightarrow> bool \<Rightarrow> string res" where
  "nat_to_addr verb target comp_key fam comps has_transport =
     (case dict_get comps comp_key of
        None \<Rightarrow> refuse [target, '' target not yet supported by nft backend'']
      | Some c \<Rightarrow> bindR (first_scalar (ro_value c)) (\<lambda>s. bindR (validate_address s) (\<lambda>a.
          if nat_has_port fam a \<and> \<not> has_transport then refuse [NAT_PORT_NEEDS_PROTO]
          else Inr (verb @ '' to '' @ a @ nat_flags comps))))"

end
