(* ===== verification/Ferm_Nft_Targets.thy ===== *)
theory Ferm_Nft_Targets
  imports Ferm_Nft_Verdicts
begin

text \<open>
  The rest of \<^verbatim>\<open>src/src/pyferm/backend/nft/verdicts.py\<close>: the CT, HMARK, SECMARK and TCPOPTSTRIP
  targets, and \<open>build_verdict\<close>.
\<close>

section \<open>CT\<close>

definition CT_ZONE_MAX :: nat where "CT_ZONE_MAX = 0xFFFF"

definition CT_EVENT_ORDER :: "string list" where
  "CT_EVENT_ORDER = [''new'', ''related'', ''destroy'', ''reply'', ''assured'', ''protoinfo'', ''label'']"

definition ct_zone_value :: "string \<Rightarrow> string \<Rightarrow> string res" where
  "ct_zone_value name s =
     (if \<not> is_ascii_uint s then refuse [''invalid CT '', name, '' '', sq s, for_nft]
      else bindR (py_int_digits s) (\<lambda>n.
        if n > CT_ZONE_MAX then refuse [''CT '', name, '' '', sq s, '' exceeds 0-65535 for the nft backend'']
        else Inr (string_of_nat n)))"

definition ct_event_canon :: "rendered_option \<Rightarrow> string res" where
  "ct_event_canon o' =
     bindR (unwrap_value (ro_value o')) (\<lambda>(s, neg).
       let members = filter (\<lambda>m. m \<noteq> []) (map py_strip (split_char (CHR '','') s))
       in if neg then refuse [''CT '', sq ''ctevents'', '' cannot be negated for the nft backend'']
          else if members = []
          then refuse [''CT '', sq ''ctevents'', '' needs at least one event for the nft backend'']
          else case filter (\<lambda>m. m \<notin> set CT_EVENT_ORDER) members of
                 m # _ \<Rightarrow> refuse [''CT event '', sq m, '' has no nft equivalent'']
               | [] \<Rightarrow> Inr (join_str '','' (filter (\<lambda>e. e \<in> set members) CT_EVENT_ORDER)))"

definition CT_HELPER_PROTO :: "(string, string) dict" where
  "CT_HELPER_PROTO =
     [(''ftp'', ''tcp''), (''irc'', ''tcp''), (''sane'', ''tcp''), (''pptp'', ''tcp''), (''tftp'', ''udp''),
      (''amanda'', ''udp''), (''snmp'', ''udp''), (''netbios-ns'', ''udp'')]"

definition ct_helper_object :: "rendered_option \<Rightarrow> nft_statement res" where
  "ct_helper_object o' =
     bindR (unwrap_value (ro_value o')) (\<lambda>(name, neg).
       if neg then refuse [''CT '', sq ''helper'', '' cannot be negated for the nft backend'']
       else if name = []
       then refuse [''CT target option '', sq ''helper'', '' needs a helper name for the nft backend'']
       else case dict_get CT_HELPER_PROTO name of
              None \<Rightarrow> refuse [''CT helper '', sq name, '' has no single-protocol nft ct-helper object '',
                        ''(supported: '', join_str '', '' (sort (dict_keys CT_HELPER_PROTO)),
                        ''); use the iptables backend for this rule'']
            | Some proto \<Rightarrow>
                let obj = ''cthelper_'' @ replace_char (CHR ''-'') ''_'' name
                in bindR (nft_quote_string name) (\<lambda>q.
                   bindR (nft_quote_string obj) (\<lambda>qo.
                     Inr (NftObjectRef
                       \<lparr>or_kind = ''ct helper'', or_name = obj,
                        or_body = ''type '' @ q @ '' protocol '' @ proto @ '';'',
                        or_expr = ''ct helper set '' @ qo\<rparr>))))"

definition ct_zone_part :: "nft_options \<Rightarrow> string \<times> string \<Rightarrow> string list res" where
  "ct_zone_part comps = (\<lambda>(name, text).
     case dict_get comps name of
       None \<Rightarrow> Inr []
     | Some c \<Rightarrow> bindR (unwrap_scalar (ro_value c)) (\<lambda>s. bindR (ct_zone_value name s) (\<lambda>z. Inr [text @ z])))"

definition CT_ZONES :: "(string \<times> string) list" where
  "CT_ZONES =
     [(''zone'', ''ct zone set ''), (''zone-orig'', ''ct original zone set ''),
      (''zone-reply'', ''ct reply zone set '')]"

definition ct_event_part :: "nft_options \<Rightarrow> string list res" where
  "ct_event_part comps =
     (case dict_get comps ''ctevents'' of
        None \<Rightarrow> Inr []
      | Some c \<Rightarrow> bindR (ct_event_canon c) (\<lambda>e. Inr [''ct event set '' @ e]))"

definition ct_target_statements :: "nft_options \<Rightarrow> nft_statement list res" where
  "ct_target_statements comps =
     (case filter (dict_has comps) [''expevents'', ''timeout''] of
        n # _ \<Rightarrow> refuse [''CT target option '', sq n, '' not yet supported by nft backend'']
      | [] \<Rightarrow>
          bindR (mapR (ct_zone_part comps) CT_ZONES) (\<lambda>zs.
          bindR (ct_event_part comps) (\<lambda>es.
          bindR (case dict_get comps ''helper'' of
                   None \<Rightarrow> Inr []
                 | Some h \<Rightarrow> bindR (ct_helper_object h) (\<lambda>s. Inr [s])) (\<lambda>hs.
            let parts = (if dict_has comps ''notrack'' then [''notrack''] else []) @ concat zs @ es;
                statements = (if parts = [] then [] else [NftVerdict (join_str '' '' parts)]) @ hs
            in if statements = [] then refuse [''CT target not yet supported by nft backend'']
               else Inr statements))))"

section \<open>HMARK, SECMARK and TCPOPTSTRIP\<close>

definition HMARK_FIXED_FIELD :: "(string, string) dict" where
  "HMARK_FIXED_FIELD = [(''sport'', ''th sport''), (''dport'', ''th dport''), (''proto'', ''meta l4proto'')]"

definition HMARK_MASKS :: "string list" where
  "HMARK_MASKS =
     [''hmark-src-prefix'', ''hmark-dst-prefix'', ''hmark-sport-mask'', ''hmark-dport-mask'',
      ''hmark-spi-mask'', ''hmark-proto-mask'']"

definition hmark_field :: "family \<Rightarrow> string \<Rightarrow> string res" where
  "hmark_field fam t =
     (if t = ''src'' then Inr (family_name fam @ '' saddr'')
      else if t = ''dst'' then Inr (family_name fam @ '' daddr'')
      else case dict_get HMARK_FIXED_FIELD t of
             Some f \<Rightarrow> Inr f
           | None \<Rightarrow> refuse [''HMARK tuple field '', sq t, '' has no nft jhash equivalent for the nft backend''])"

definition HMARK_U32_MAX :: nat where "HMARK_U32_MAX = 0xFFFFFFFF"

text \<open>A hexadecimal numeral after \<^verbatim>\<open>0x\<close>, or a decimal one without a leading zero.\<close>

definition hmark_u32 :: "string \<Rightarrow> string \<Rightarrow> nat res" where
  "hmark_u32 name s =
     (let bad = refuse [''invalid HMARK '', name, '' '', sq s, for_nft];
          check = (\<lambda>n. if n > HMARK_U32_MAX then bad else Inr n)
      in case s of
           z # x # r \<Rightarrow>
             if z = CHR ''0'' \<and> x \<in> set ''xX'' \<and> r \<noteq> [] \<and> list_all is_hex r then check (hex_value r)
             else if is_ascii_uint s \<and> z \<noteq> CHR ''0'' then bindR (py_int_digits s) check
             else bad
         | _ \<Rightarrow> if is_ascii_uint s then bindR (py_int_digits s) check else bad)"

definition hmark_operands :: "nft_options \<Rightarrow> (rendered_option \<times> rendered_option \<times> rendered_option) res" where
  "hmark_operands comps =
     (case filter (dict_has comps) HMARK_MASKS of
        m # _ \<Rightarrow> refuse [''HMARK '', sq m, '' has no nft jhash equivalent (jhash hashes fields whole) '',
                   ''for the nft backend'']
      | [] \<Rightarrow>
          (case (dict_get comps ''hmark-tuple'', dict_get comps ''hmark-mod'', dict_get comps ''hmark-rnd'') of
             (Some t, Some m, Some r) \<Rightarrow> Inr (t, m, r)
           | _ \<Rightarrow> refuse [''HMARK needs '', sq ''hmark-tuple'', '', '', sq ''hmark-mod'', '', and '',
                    sq ''hmark-rnd'', '' for the nft backend'']))"

definition hmark_offset :: "nft_options \<Rightarrow> string res" where
  "hmark_offset comps =
     (case dict_get comps ''hmark-offset'' of
        None \<Rightarrow> Inr []
      | Some c \<Rightarrow> bindR (unwrap_scalar (ro_value c)) (\<lambda>s. bindR (hmark_u32 ''hmark-offset'' s) (\<lambda>n.
          Inr (if n = 0 then [] else '' offset '' @ string_of_nat n))))"

definition hmark_verdict :: "family \<Rightarrow> nft_options \<Rightarrow> string res" where
  "hmark_verdict fam comps =
     bindR (hmark_operands comps) (\<lambda>(t, m, r).
     bindR (unwrap_scalar (ro_value t)) (\<lambda>ts.
     bindR (mapR (hmark_field fam) (filter (\<lambda>f. f \<noteq> []) (map py_strip (split_char (CHR '','') ts)))) (\<lambda>fields.
       if fields = [] then refuse [''HMARK '', sq ''hmark-tuple'', '' is empty for the nft backend'']
       else bindR (unwrap_scalar (ro_value m)) (\<lambda>ms.
            bindR (hmark_u32 ''hmark-mod'' ms) (\<lambda>mod_value.
              if mod_value < 1 then refuse [''invalid HMARK hmark-mod '', sq ms, for_nft]
              else bindR (unwrap_scalar (ro_value r)) (\<lambda>rs.
                   bindR (hmark_u32 ''hmark-rnd'' rs) (\<lambda>seed.
                   bindR (hmark_offset comps) (\<lambda>off.
                     Inr (''meta mark set jhash '' @ join_str '' . '' fields @ '' mod '' @
                       string_of_nat mod_value @ '' seed 0x'' @ hex_text seed @ off))))))))) "

definition secmark_statement :: "nft_options \<Rightarrow> nft_statement res" where
  "secmark_statement comps =
     (case dict_get comps ''selctx'' of
        None \<Rightarrow> refuse [''SECMARK target needs '', sq ''selctx'', '' for the nft backend'']
      | Some c \<Rightarrow> bindR (unwrap_scalar (ro_value c)) (\<lambda>context.
          if context = [] then refuse [''SECMARK '', sq ''selctx'', '' must be a non-empty security context'']
          else let name = ''secmark_'' @ take 12 (sha256_hex context)
               in bindR (nft_quote_string context) (\<lambda>q.
                  bindR (nft_quote_string name) (\<lambda>qn.
                    Inr (NftObjectRef
                      \<lparr>or_kind = ''secmark'', or_name = name, or_body = q,
                       or_expr = ''meta secmark set '' @ qn\<rparr>)))))"

definition TCPOPT_NAME :: "(string, string) dict" where
  "TCPOPT_NAME =
     [(''wscale'', ''window''), (''mss'', ''maxseg''), (''sack-permitted'', ''sack-perm''), (''sack'', ''sack''),
      (''timestamp'', ''timestamp''), (''md5'', ''md5sig'')]"

definition tcpopt_nft_name :: "string \<Rightarrow> string res" where
  "tcpopt_nft_name t =
     (case dict_get TCPOPT_NAME t of
        Some n \<Rightarrow> Inr n
      | None \<Rightarrow>
          if is_ascii_uint t
          then bindR (py_int_digits t) (\<lambda>n.
                 if n > TCP_OPTION_KIND_MAX then refuse [''invalid tcp option '', sq t, for_nft]
                 else Inr (dict_or TCP_OPTION_KIND n (string_of_nat n)))
          else refuse [''unknown tcp option '', sq t, for_nft])"

definition tcpoptstrip_resets :: "nft_options \<Rightarrow> string option \<Rightarrow> nft_statement list res" where
  "tcpoptstrip_resets comps protocol =
     (if protocol \<noteq> Some ''tcp''
      then refuse [''TCPOPTSTRIP needs a tcp protocol match for the nft backend'']
      else case dict_get comps ''strip-options'' of
             None \<Rightarrow> refuse [''TCPOPTSTRIP needs '', sq ''strip-options'', '' for the nft backend'']
           | Some c \<Rightarrow> bindR (unwrap_scalar (ro_value c)) (\<lambda>s.
               mapR (\<lambda>t. bindR (tcpopt_nft_name (py_strip t)) (\<lambda>n. Inr (NftReset (''reset tcp option '' @ n))))
                 (split_char (CHR '','') s)))"

section \<open>The verdict\<close>

definition tcpmss_verdict :: "nft_options \<Rightarrow> string res" where
  "tcpmss_verdict comps =
     (case (dict_has comps ''clamp-mss-to-pmtu'', dict_get comps ''set-mss'') of
        (True, None) \<Rightarrow> Inr ''tcp option maxseg size set rt mtu''
      | (False, Some c) \<Rightarrow> bindR (unwrap_scalar (ro_value c)) (\<lambda>s.
          if is_ascii_uint s then Inr (''tcp option maxseg size set '' @ s)
          else refuse [''invalid set-mss '', sq s, for_nft])
      | _ \<Rightarrow> refuse [''TCPMSS target not yet supported by nft backend''])"

definition tee_verdict :: "nft_options \<Rightarrow> string res" where
  "tee_verdict comps =
     (case dict_get comps ''gateway'' of
        None \<Rightarrow> refuse [''TEE target not yet supported by nft backend'']
      | Some c \<Rightarrow> bindR (first_scalar (ro_value c)) (\<lambda>s. bindR (validate_address s) (\<lambda>a. Inr (''dup to '' @ a))))"

definition audit_verdict :: "nft_options \<Rightarrow> string res" where
  "audit_verdict comps =
     (case dict_get comps ''type'' of
        None \<Rightarrow> refuse [''AUDIT needs '', sq ''type'', '' for the nft backend'']
      | Some c \<Rightarrow> bindR (unwrap_scalar (ro_value c)) (\<lambda>s.
          if py_lower_text s \<in> {''accept'', ''drop'', ''reject''} then Inr ''log level audit''
          else refuse [''invalid AUDIT type '', sq s, for_nft]))"

definition connmark_verdict :: "nft_options \<Rightarrow> string res" where
  "connmark_verdict comps =
     (case filter (dict_has comps) [''nfmask'', ''ctmask'', ''mask''] of
        m # _ \<Rightarrow> refuse [''CONNMARK '', sq m, '' mixes two masked registers; nft cannot express it for the nft backend'']
      | [] \<Rightarrow>
          let arith = list_ex (dict_has comps) [''set-mark'', ''set-xmark'', ''and-mark'', ''or-mark'', ''xor-mark'']
          in (case (dict_has comps ''save-mark'', dict_has comps ''restore-mark'', arith) of
                (True, False, False) \<Rightarrow> Inr ''ct mark set meta mark''
              | (False, True, False) \<Rightarrow> Inr ''meta mark set ct mark''
              | (False, False, True) \<Rightarrow> mark_arith_set ''ct mark'' ''CONNMARK'' comps
              | _ \<Rightarrow> refuse [''CONNMARK target not yet supported by nft backend'']))"

definition connsecmark_verdict :: "nft_options \<Rightarrow> string res" where
  "connsecmark_verdict comps =
     (if dict_has comps ''save'' = dict_has comps ''restore''
      then refuse [''CONNSECMARK target not yet supported by nft backend'']
      else if dict_has comps ''save'' then Inr ''ct secmark set meta secmark''
      else Inr ''meta secmark set ct secmark'')"

definition dscp_verdict :: "family \<Rightarrow> nft_options \<Rightarrow> string res" where
  "dscp_verdict fam comps =
     bindR (case (dict_get comps ''set-dscp'', dict_get comps ''set-dscp-class'') of
              (Some d, None) \<Rightarrow> bindR (unwrap_scalar (ro_value d)) (dscp_value ''set-dscp'')
            | (None, Some c) \<Rightarrow> bindR (unwrap_scalar (ro_value c)) (dscp_class_value ''set-dscp-class'')
            | _ \<Rightarrow> refuse [''DSCP target not yet supported by nft backend'']) (\<lambda>n.
       Inr (family_name fam @ '' dscp set '' @ dscp_canon n))"

definition classify_verdict :: "nft_options \<Rightarrow> string res" where
  "classify_verdict comps =
     (case dict_get comps ''set-class'' of
        None \<Rightarrow> refuse [''CLASSIFY target not yet supported by nft backend'']
      | Some c \<Rightarrow> bindR (unwrap_scalar (ro_value c)) (\<lambda>s. bindR (classify_priority s) (\<lambda>p.
          Inr (''meta priority set '' @ p))))"

definition reject_verdict :: "family \<Rightarrow> nft_options \<Rightarrow> string res" where
  "reject_verdict fam comps =
     (case dict_get comps ''reject-with'' of
        None \<Rightarrow> Inr ''reject''
      | Some c \<Rightarrow> bindR (unwrap_scalar (ro_value c)) (reject_for fam))"

text \<open>The last resort: no target of the tables, no built-in chain, a jump.\<close>

definition defs_family :: "family \<Rightarrow> string" where
  "defs_family fam = (if fam = IP6 then ''ip'' else family_name fam)"

definition chain_verdict :: "family \<Rightarrow> string \<Rightarrow> string \<Rightarrow> string \<Rightarrow> string res" where
  "chain_verdict fam table name t =
     (if fam = EB \<and> t \<in> set EB_REFUSED_TARGETS
      then refuse [''eb target '', sq t, '' (or jump to a chain of that name) not yet supported by nft backend'']
      else bindR (is_netfilter_module_target TARGET_DEFS (Some (defs_family fam)) (Some t)) (\<lambda>d.
        if d \<noteq> None
        then refuse [''target '', sq t, '' (or jump to a chain of that name) not yet supported by nft backend'']
        else if is_netfilter_builtin_chain table t
        then refuse [''jump/goto to built-in chain '', sq t, '' not yet supported by nft backend'']
        else bindR (nft_chain_name table t) (\<lambda>n. Inr (name @ '' '' @ n))))"

definition family_verdict ::
  "family \<Rightarrow> string \<Rightarrow> string \<Rightarrow> string \<Rightarrow> nft_options \<Rightarrow> bool \<Rightarrow> string res" where
  "family_verdict fam table name t comps has_transport =
     (if t = ''MARK'' \<and> fam \<noteq> EB then mark_arith_set ''meta mark'' ''MARK'' comps
      else if t = ''HMARK'' \<and> fam \<in> {IP, IP6} then hmark_verdict fam comps
      else if t = ''DSCP'' \<and> fam \<in> {IP, IP6} then dscp_verdict fam comps
      else if t = ''CLASSIFY'' then classify_verdict comps
      else if t = ''TOS'' then tos_refusal ''target'' ''TOS''
      else if t = ''NFQUEUE'' then nfqueue_verdict comps
      else if t = ''TTL'' \<and> fam = IP then hoplimit_verdict ''TTL'' comps
      else if t = ''HL'' \<and> fam = IP6 then hoplimit_verdict ''HL'' comps
      else if t = ''SYNPROXY'' \<and> fam \<in> {IP, IP6} then synproxy_verdict comps
      else if t = ''TPROXY'' \<and> fam \<in> {IP, IP6} then tproxy_verdict fam comps has_transport
      else if t = ''CHECKSUM''
      then refuse [''CHECKSUM target has no nft equivalent (kernels since 4.19 handle virtio checksum '',
             ''offload without it); use the iptables backend for this rule'']
      else chain_verdict fam table name t)"

definition build_verdict ::
  "nft_host \<Rightarrow> family \<Rightarrow> string \<Rightarrow> string \<Rightarrow> string \<Rightarrow> nft_options \<Rightarrow> bool \<Rightarrow> string res" where
  "build_verdict hs fam table name t comps has_transport =
     (case dict_get VERDICT_TARGET t of
        Some v \<Rightarrow> Inr v
      | None \<Rightarrow>
          if t = ''MASQUERADE'' then nat_to_ports hs ''masquerade'' comps has_transport
          else if t = ''REDIRECT'' then nat_to_ports hs ''redirect'' comps has_transport
          else if t = ''LOG'' then log_verdict comps
          else if t = ''NFLOG'' then nflog_verdict comps
          else if t = ''REJECT'' then reject_verdict fam comps
          else if t = ''SNAT'' then nat_to_addr ''snat'' ''SNAT'' ''to-source'' fam comps has_transport
          else if t = ''DNAT'' then nat_to_addr ''dnat'' ''DNAT'' ''to-destination'' fam comps has_transport
          else if t = ''TCPMSS'' then tcpmss_verdict comps
          else if t = ''TEE'' then tee_verdict comps
          else if t = ''NOTRACK'' then Inr ''notrack''
          else if t = ''AUDIT'' then audit_verdict comps
          else if t = ''TRACE'' then Inr ''meta nftrace set 1''
          else if t = ''CONNMARK'' then connmark_verdict comps
          else if t = ''CONNSECMARK'' then connsecmark_verdict comps
          else family_verdict fam table name t comps has_transport)"

end
