(* ===== verification/Ferm_Nft_Assemble.thy ===== *)
theory Ferm_Nft_Assemble
  imports Ferm_Nft_Targets
begin

text \<open>
  The translation of one rule, \<^verbatim>\<open>translate_rule\<close> of \<^verbatim>\<open>src/src/pyferm/backend/nft/assemble.py\<close>: what
  the options of the whole rule determine, then one step per option, then the target. The local
  variables of the loop are the fields of \<open>assembly\<close>; the flags \<^verbatim>\<open>..._emitted\<close> are the
  modules already emitted.
\<close>

section \<open>Companions of targets\<close>

definition TARGET_COMPANIONS :: "string list" where
  "TARGET_COMPANIONS =
     [''reject-with'', ''to-source'', ''to-destination'', ''log-prefix'', ''log-level'', ''to-ports'',
      ''nflog-group'', ''nflog-prefix'', ''nflog-threshold'', ''nflog-range'', ''set-mark'',
      ''set-xmark'', ''and-mark'', ''or-mark'', ''xor-mark'', ''set-mss'', ''clamp-mss-to-pmtu'',
      ''gateway'', ''save-mark'', ''restore-mark'', ''nfmask'', ''ctmask'', ''mask'', ''set-dscp'',
      ''set-dscp-class'', ''set-class'', ''set-tos'', ''and-tos'', ''or-tos'', ''xor-tos'',
      ''queue-num'', ''queue-balance'', ''queue-bypass'', ''queue-cpu-fanout'', ''ttl-set'', ''ttl-dec'',
      ''ttl-inc'', ''hl-set'', ''hl-dec'', ''hl-inc'', ''wscale'', ''sack-perm'', ''timestamp'', ''ecn'',
      ''strip-options'', ''random'', ''random-fully'', ''persistent'', ''notrack'', ''on-port'',
      ''on-ip'', ''tproxy-mark'', ''checksum-fill'', ''type'', ''save'', ''restore'', ''selctx'',
      ''snat-target'', ''dnat-target'', ''snat-arp'', ''mangle-ip-s'', ''mangle-ip-d'', ''mangle-mac-s'',
      ''mangle-mac-d'', ''mangle-target'', ''hmark-tuple'', ''hmark-mod'', ''hmark-offset'', ''hmark-rnd'',
      ''hmark-src-prefix'', ''hmark-dst-prefix'', ''hmark-sport-mask'', ''hmark-dport-mask'',
      ''hmark-spi-mask'', ''hmark-proto-mask'']"

definition MODULE_COMPANIONS :: "(string \<times> string) list" where
  "MODULE_COMPANIONS =
     [(''NETMAP'', ''to''), (''SYNPROXY'', ''mss''), (''CT'', ''helper''), (''CT'', ''ctevents''),
      (''CT'', ''expevents''), (''CT'', ''zone-orig''), (''CT'', ''zone-reply''), (''CT'', ''zone''),
      (''CT'', ''timeout''), (''SET'', ''add-set''), (''SET'', ''del-set''), (''SET'', ''timeout''),
      (''SET'', ''exist'')]"

definition BARE_INERT_MATCH_MODULES :: "string list" where
  "BARE_INERT_MATCH_MODULES = [''state'', ''conntrack'']"

definition RESTORE_SKMARK_STATEMENT :: nft_statement where
  "RESTORE_SKMARK_STATEMENT = NftVerdict ''meta mark set socket mark''"

definition is_companion :: "rendered_option \<Rightarrow> bool" where
  "is_companion o' \<longleftrightarrow>
     ro_name o' \<in> set TARGET_COMPANIONS \<or>
     (case ro_module o' of None \<Rightarrow> False | Some m \<Rightarrow> (m, ro_name o') \<in> set MODULE_COMPANIONS)"

section \<open>What the whole rule determines\<close>

record rule_facts =
  fa_has_port :: bool
  fa_implied :: bool
  fa_has_limit :: bool
  fa_burst :: "string option"
  fa_fib_iface :: string
  fa_protocol :: "string option"

definition implies_l4proto :: "rendered_option \<Rightarrow> bool" where
  "implies_l4proto o' \<longleftrightarrow>
     ro_name o' \<in> {''icmp-type'', ''tcp-flags'', ''syn'', ''ecn-tcp-cwr'', ''ecn-tcp-ece'', ''ahspi'', ''espspi''} \<or>
     (ro_name o' \<in> {''mss'', ''tcp-option''} \<and> ro_module o' \<in> {Some ''tcp'', Some ''tcpmss''}) \<or>
     (ro_name o' = ''dccp-types'' \<and> ro_module o' = Some ''dccp'')"

fun collect_burst :: "string option \<Rightarrow> rendered_option list \<Rightarrow> string option res" where
  "collect_burst burst [] = Inr burst"
| "collect_burst burst (o' # os) =
     (if ro_name o' = ''limit-burst''
      then bindR (unwrap_scalar (ro_value o')) (\<lambda>s.
             if \<not> burst_text s then refuse [''invalid limit burst '', sq s, for_nft]
             else if burst \<noteq> None
             then refuse [''more than one '', sq ''limit-burst'', '' per rule cannot be paired for the nft backend'']
             else collect_burst (Some s) os)
      else collect_burst burst os)"

definition rule_burst :: "rendered_option list \<Rightarrow> string option res" where
  "rule_burst os =
     bindR (collect_burst None os) (\<lambda>burst.
       if burst \<noteq> None \<and> length (filter (\<lambda>o'. ro_name o' = ''limit'') os) > 1
       then refuse [sq ''limit-burst'', '' with more than one '', sq ''limit'',
              '' per rule cannot be paired for the nft backend'']
       else Inr burst)"

definition fib_iface :: "family \<Rightarrow> rendered_option list \<Rightarrow> string res" where
  "fib_iface fam os =
     (let iface_in = list_ex (\<lambda>o'. ro_name o' = ''limit-iface-in'') os;
          iface_out = list_ex (\<lambda>o'. ro_name o' = ''limit-iface-out'') os
      in if fam \<notin> {IP, IP6} then Inr []
         else if iface_in \<and> iface_out
         then refuse [sq ''limit-iface-in'', '' and '', sq ''limit-iface-out'',
                '' are mutually exclusive for the nft backend'']
         else if (iface_in \<or> iface_out) \<and> \<not> list_ex (\<lambda>o'. dict_has FIB_SELECTOR (ro_name o')) os
         then refuse [sq ''limit-iface-in'', ''/'', sq ''limit-iface-out'',
                '' needs a src-type or dst-type match for the nft backend'']
         else Inr (if iface_in then '' . iif'' else if iface_out then '' . oif'' else []))"

definition rule_protocol :: "rendered_option list \<Rightarrow> string option res" where
  "rule_protocol os =
     (case filter (\<lambda>o'. ro_kind o' = KProto) os of
        [] \<Rightarrow> Inr None
      | o' # _ \<Rightarrow> bindR (unwrap_scalar (ro_value o')) (\<lambda>s. bindR (validate_protocol s) (\<lambda>p. Inr (Some p))))"

definition rule_facts_of :: "family \<Rightarrow> rendered_option list \<Rightarrow> rule_facts res" where
  "rule_facts_of fam os =
     bindR (if list_ex implies_l4proto os then Inr True else hashlimit_key_implies_l4proto os) (\<lambda>implied.
     bindR (rule_burst os) (\<lambda>burst.
     bindR (fib_iface fam os) (\<lambda>iface.
     bindR (rule_protocol os) (\<lambda>protocol.
       if length (concat (map (\<lambda>o'. iter_setrefs (ro_value o')) os)) > 1
       then refuse [''at most one named set per rule in this version'']
       else Inr \<lparr>fa_has_port = list_ex (\<lambda>o'. dict_has PORT_KEYWORD (ro_name o') \<or>
                                            dict_has MULTIPORT_KEYWORD (ro_name o')) os,
                 fa_implied = implied, fa_has_limit = list_ex (\<lambda>o'. ro_name o' = ''limit'') os,
                 fa_burst = burst, fa_fib_iface = iface, fa_protocol = protocol\<rparr>))))"

section \<open>One option\<close>

record assembly =
  as_matches :: "nft_statement list"
  as_comment :: "string option"
  as_target :: "(string \<times> string) option"
  as_companions :: nft_options
  as_emitted :: "string list"

definition start_assembly :: assembly where
  "start_assembly =
     \<lparr>as_matches = [], as_comment = None, as_target = None, as_companions = [], as_emitted = []\<rparr>"

definition add_matches :: "nft_statement list \<Rightarrow> assembly \<Rightarrow> assembly" where
  "add_matches ss a = a\<lparr>as_matches := as_matches a @ ss\<rparr>"

definition exprs :: "string list \<Rightarrow> nft_statement list" where
  "exprs es = map (\<lambda>e. NftMatch (plain_match e)) es"

text \<open>Emitted once, at the first option of the module.\<close>

definition emit_once :: "string \<Rightarrow> nft_statement list res \<Rightarrow> assembly \<Rightarrow> assembly res" where
  "emit_once module ss a =
     (if module \<in> set (as_emitted a) then Inr a
      else bindR ss (\<lambda>xs. Inr ((add_matches xs a)\<lparr>as_emitted := module # as_emitted a\<rparr>)))"

definition flag_names :: "string \<Rightarrow> rendered_option list \<Rightarrow> string list" where
  "flag_names m os = map ro_name (filter (\<lambda>o'. of_module m o' \<and> ro_kind o' \<noteq> KMatchModule) os)"

definition uncollected_opts :: "string \<Rightarrow> rendered_option list \<Rightarrow> nft_options" where
  "uncollected_opts m os = opts_by (\<lambda>o'. of_module m o' \<and> ro_kind o' \<noteq> KMatchModule) os"

definition rpfilter_statements :: "family \<Rightarrow> rendered_option list \<Rightarrow> nft_statement list res" where
  "rpfilter_statements fam os =
     bindR (rpfilter_match fam (flag_names ''rpfilter'' os)) (\<lambda>e. Inr (exprs [e]))"

definition socket_statements :: "family \<Rightarrow> rendered_option list \<Rightarrow> nft_statement list res" where
  "socket_statements fam os =
     bindR (socket_matches fam (flag_names ''socket'' os)) (\<lambda>es.
       Inr (exprs es @ (if ''restore-skmark'' \<in> set (flag_names ''socket'' os)
                        then [RESTORE_SKMARK_STATEMENT] else [])))"

definition module_marker :: "family \<Rightarrow> rendered_option list \<Rightarrow> rendered_option \<Rightarrow> assembly \<Rightarrow> assembly res" where
  "module_marker fam os o' a =
     bindR (unwrap_scalar (ro_value o')) (\<lambda>m.
       if m = ''rpfilter'' then emit_once m (rpfilter_statements fam os) a
       else if m = ''socket'' then emit_once m (socket_statements fam os) a
       else if m \<notin> set BARE_INERT_MATCH_MODULES \<and>
               \<not> list_ex (\<lambda>p. of_module m p \<and> ro_kind p \<noteq> KMatchModule) os
       then refuse [''bare '', sq (''mod '' @ m),
              '' (module load without any of its options) not yet supported by nft backend'']
       else Inr a)"

definition proto_step :: "family \<Rightarrow> rule_facts \<Rightarrow> rendered_option \<Rightarrow> assembly \<Rightarrow> assembly res" where
  "proto_step fam f o' a =
     bindR (unwrap_value (ro_value o')) (\<lambda>(s, neg).
     bindR (validate_protocol s) (\<lambda>p.
       if fa_has_port f \<or> fa_implied f then Inr a
       else bindR (nft_l4proto fam p) (\<lambda>l4.
         let m = plain_match (''meta l4proto '' @ nft_op neg @ l4)
         in Inr (add_matches
                  [NftMatch (if neg then m
                             else m\<lparr>nm_set_key := Some ''meta l4proto'', nm_element := Some l4\<rparr>)] a))))"

definition setref_statement ::
  "family \<Rightarrow> rendered_option \<Rightarrow> string option \<Rightarrow> string \<times> cfg_value list \<Rightarrow> nft_statement res" where
  "setref_statement fam o' protocol = (\<lambda>(n, es).
     bindR (setref_selector fam (ro_name o') protocol) (\<lambda>key.
     bindR (validate_set_name n) (\<lambda>name.
       Inr (NftMatch ((plain_match (key @ '' @'' @ name))
         \<lparr>nm_setref := Some (n, es), nm_selector := Some key\<rparr>)))))"

definition generic_statement ::
  "nft_host \<Rightarrow> family \<Rightarrow> rule_facts \<Rightarrow> rendered_option \<Rightarrow> nft_statement res" where
  "generic_statement hs fam f o' =
     bindR (translate_match_parts hs fam o' (fa_protocol f)) (\<lambda>(e, key, element).
       let e' = (case fa_burst f of
                   Some b \<Rightarrow> if ro_name o' = ''limit'' then e @ '' burst '' @ b @ '' packets'' else e
                 | None \<Rightarrow> e)
       in Inr (NftMatch ((plain_match e')\<lparr>nm_set_key := key, nm_element := element\<rparr>)))"

definition burst_statements :: "rule_facts \<Rightarrow> nft_statement list" where
  "burst_statements f =
     (if fa_has_limit f then []
      else exprs [''limit rate '' @ NFT_DEFAULT_LIMIT_RATE @ '' burst '' @
                  (case fa_burst f of Some b \<Rightarrow> b | None \<Rightarrow> ''None'') @ '' packets''])"

definition plain_step ::
  "nft_host \<Rightarrow> family \<Rightarrow> rule_facts \<Rightarrow> rendered_option \<Rightarrow> assembly \<Rightarrow> assembly res" where
  "plain_step hs fam f o' a =
     (let name = ro_name o'; one = (\<lambda>r. bindR r (\<lambda>s. Inr (add_matches [s] a))) in
      case ro_value o' of
        VSetRef n es \<Rightarrow> one (setref_statement fam o' (fa_protocol f) (n, es))
      | v \<Rightarrow>
          if name = ''match-set'' then one (bindR (translate_match_set hs fam v) (\<lambda>m. Inr (NftMatch m)))
          else if fam \<in> {IP, IP6} \<and> name \<in> {''limit-iface-in'', ''limit-iface-out''} then Inr a
          else if fam \<in> {IP, IP6} \<and> dict_has FIB_SELECTOR name
          then one (bindR (fib_type_match name v (fa_fib_iface f)) (\<lambda>e. Inr (NftMatch (plain_match e))))
          else if name = ''limit-burst'' then Inr (add_matches (burst_statements f) a)
          else one (generic_statement hs fam f o'))"

definition text_of_module :: "string res \<Rightarrow> nft_statement list res" where
  "text_of_module r = bindR r (\<lambda>e. Inr (exprs [e]))"

definition texts_of_module :: "string list res \<Rightarrow> nft_statement list res" where
  "texts_of_module r = bindR r (\<lambda>es. Inr (exprs es))"

definition update_of_module :: "set_update res \<Rightarrow> nft_statement list res" where
  "update_of_module r = bindR r (\<lambda>u. Inr [NftSetUpdate u])"

definition collected_match ::
  "family \<Rightarrow> rendered_rule \<Rightarrow> recent_specs \<Rightarrow> rule_facts \<Rightarrow> string \<Rightarrow> nft_statement list res option" where
  "collected_match fam r specs f m =
     (let os = rr_options r; all_opts = opts_by (of_module m) os; opts = uncollected_opts m os
      in if m = ''statistic'' then Some (text_of_module (statistic_match all_opts))
         else if m = ''nth'' then Some (text_of_module (nth_match all_opts))
         else if m = ''time'' then Some (texts_of_module (time_matches all_opts))
         else if m = ''recent'' then Some (update_of_module (recent_update fam r specs))
         else if m = ''hashlimit'' then Some (update_of_module (hashlimit_update fam r (fa_protocol f)))
         else if m = ''connbytes'' then Some (text_of_module (connbytes_match all_opts))
         else if m = ''connlimit'' then Some (update_of_module (connlimit_update fam r))
         else if m = ''policy'' then Some (text_of_module (policy_match opts))
         else if m = ''ipv6header'' then Some (texts_of_module (ipv6header_matches fam opts))
         else if m = ''ipv4options'' then Some (texts_of_module (ipv4options_matches fam opts))
         else if m = ''osf'' then Some (text_of_module (osf_match fam opts))
         else if m = ''rpfilter'' then Some (rpfilter_statements fam os)
         else if m = ''socket'' then Some (socket_statements fam os)
         else None)"

definition option_step ::
  "nft_host \<Rightarrow> family \<Rightarrow> rendered_rule \<Rightarrow> recent_specs \<Rightarrow> rule_facts \<Rightarrow> rendered_option \<Rightarrow> assembly \<Rightarrow> assembly res" where
  "option_step hs fam r specs f o' a =
     (if ro_kind o' = KMatchModule then module_marker fam (rr_options r) o' a
      else if ro_name o' = ''comment''
      then bindR (unwrap_scalar (ro_value o')) (\<lambda>s. Inr (a\<lparr>as_comment := Some s\<rparr>))
      else if ro_kind o' = KProto then proto_step fam f o' a
      else if ro_kind o' = KTarget
      then bindR (unwrap_scalar (ro_value o')) (\<lambda>s. Inr (a\<lparr>as_target := Some (ro_name o', s)\<rparr>))
      else if is_companion o'
      then Inr (a\<lparr>as_companions := dict_set (ro_name o') o' (as_companions a)\<rparr>)
      else case ro_module o' of
             None \<Rightarrow> plain_step hs fam f o' a
           | Some m \<Rightarrow>
               (case collected_match fam r specs f m of
                  Some ss \<Rightarrow> emit_once m ss a
                | None \<Rightarrow>
                    if m = ''quota'' then bindR (quota_statement o') (\<lambda>s. Inr (add_matches [s] a))
                    else plain_step hs fam f o' a))"

section \<open>The target\<close>

text \<open>The statements before and after the matches.\<close>

definition special_target ::
  "nft_host \<Rightarrow> family \<Rightarrow> string \<Rightarrow> string \<Rightarrow> string \<Rightarrow> nft_options \<Rightarrow> rendered_option list \<Rightarrow> string option \<Rightarrow>
     (nft_statement list \<times> nft_statement list) res option" where
  "special_target hs fam table chain t comps os protocol =
     (let after = (\<lambda>r. Some (bindR r (\<lambda>s. Inr ([], [s])))); afters = (\<lambda>r. Some (bindR r (\<lambda>ss. Inr ([], ss))))
      in if t = ''TCPOPTSTRIP'' then afters (tcpoptstrip_resets comps protocol)
         else if t = ''NETMAP'' \<and> fam \<in> {IP, IP6}
         then after (bindR (netmap_verdict fam table chain comps os) (\<lambda>e. Inr (NftVerdict e)))
         else if t = ''SET'' \<and> fam \<in> {IP, IP6} then after (set_target_statement hs fam comps)
         else if t = ''SECMARK'' \<and> fam \<in> {IP, IP6} then after (secmark_statement comps)
         else if t = ''CT'' then afters (ct_target_statements comps)
         else if t \<in> {''snat'', ''dnat''} \<and> fam = EB then after (eb_nat_statement table chain t comps)
         else if t = ''mangle'' \<and> fam = ARP
         then Some (bindR (arp_mangle_statement comps) (\<lambda>so.
                Inr (exprs [ARP_MANGLE_GUARDS], (case so of None \<Rightarrow> [] | Some s \<Rightarrow> [s]))))
         else None)"

definition transport_protocol :: "string option \<Rightarrow> bool" where
  "transport_protocol p = (case p of None \<Rightarrow> False | Some x \<Rightarrow> x \<in> set PORT_PROTOCOLS)"

definition target_statements ::
  "nft_host \<Rightarrow> family \<Rightarrow> string \<Rightarrow> string \<Rightarrow> rendered_option list \<Rightarrow> rule_facts \<Rightarrow> assembly \<Rightarrow> nft_statement list res" where
  "target_statements hs fam table chain os f a =
     (case as_target a of
        None \<Rightarrow> Inr (as_matches a)
      | Some (name, t) \<Rightarrow>
          (case special_target hs fam table chain t (as_companions a) os (fa_protocol f) of
             Some r \<Rightarrow> bindR r (\<lambda>(before_all, after_all). Inr (before_all @ as_matches a @ after_all))
           | None \<Rightarrow>
               bindR (build_verdict hs fam table (if name = [] then ''jump'' else name) t (as_companions a)
                        (transport_protocol (fa_protocol f))) (\<lambda>v.
                 Inr (as_matches a @ [NftVerdict v]))))"

definition stray_companion :: "family \<Rightarrow> assembly \<Rightarrow> unit res" where
  "stray_companion fam a =
     (if fam = ARP \<and> map_option snd (as_target a) \<noteq> Some ''mangle''
      then (case sort (filter (\<lambda>n. n \<in> set ARP_MANGLE_COMPANIONS) (dict_keys (as_companions a))) of
              n # _ \<Rightarrow> refuse [''option '', sq n, '' needs the arp '', sq ''jump mangle'',
                         '' target for the nft backend'']
            | [] \<Rightarrow> Inr ())
      else Inr ())"

definition translate_rule ::
  "nft_host \<Rightarrow> family \<Rightarrow> string \<Rightarrow> string \<Rightarrow> recent_specs \<Rightarrow> string list \<Rightarrow> rendered_rule \<Rightarrow> nft_rule res" where
  "translate_rule hs fam table chain specs set_targets r =
     (if references_empty_named_set r set_targets
      then Inl (internal_error (''a rule over a family-filtered empty named set reached '' @
             ''translate_rule; the caller must drop it first''))
      else bindR (rule_facts_of fam (rr_options r)) (\<lambda>f.
           bindR (thread (option_step hs fam r specs f) (rr_options r) start_assembly) (\<lambda>a.
           bindR (stray_companion fam a) (\<lambda>_.
           bindR (target_statements hs fam table chain (rr_options r) f a) (\<lambda>ss.
             Inr \<lparr>nr_statements = ss, nr_comment = as_comment a\<rparr>)))))"

end
