(* ===== verification/Ferm_Delta_Chains.thy ===== *)
theory Ferm_Delta_Chains
  imports Ferm_Nft_Commands
begin

text \<open>
  The chain phase of a delta reaches the desired chains: what the diff records for a chain, what the
  lines emitted for it do, and both phases of the deletions.
\<close>

section \<open>What the diff records\<close>

definition rebuilt_names :: "plan_diff \<Rightarrow> string set" where
  "rebuilt_names d = set (map pch_chain (pd_rebuilds d))"

definition policy_names :: "plan_diff \<Rightarrow> string set" where
  "policy_names d = set (map pch_chain (pd_policy d))"

definition rule_names :: "plan_diff \<Rightarrow> string set" where
  "rule_names d = set (map rch_chain (pd_added d @ pd_removed d))"

lemmas diff_names = rebuilt_names_def policy_names_def rule_names_def

definition other_parts :: "plan_diff \<Rightarrow> named_chain list \<times> named_chain list \<times> set_change list \<times> object_change list" where
  "other_parts d = (pd_desuet d, pd_foreign d, pd_sets d, pd_objects d)"

lemma diff_chain_names:
  assumes "d' = diff_chain t False curs (n, des) d" and "c = dict_get curs n"
  shows "rebuilt_names d' = rebuilt_names d \<union> (if chain_rebuilt c des then {n} else {})"
    and "policy_names d' = policy_names d \<union> (if \<not> chain_rebuilt c des \<and> policy_differs c des then {n} else {})"
    and "rule_names d' = rule_names d \<union> (if \<not> chain_rebuilt c des \<and> rules_of c \<noteq> pc_rules des then {n} else {})"
    and "other_parts d' = other_parts d"
proof -
  obtain ad rm where dr: "diff_rules (rules_of c) (pc_rules des) = (ad, rm)" by fastforce
  have same: "rules_of c = pc_rules des \<longleftrightarrow> ad = [] \<and> rm = []" by (rule diff_rules_changes [OF dr])
  have names: "set (map rch_chain (map (\<lambda>r. \<lparr>rch_table = t, rch_chain = n, rch_rule = r\<rparr>) rs)) = (if rs = [] then {} else {n})"
    for rs by (induction rs) auto
  note step = diff_chain_def Let_def dr assms diff_names other_parts_def emit_removal_def
  show "rebuilt_names d' = rebuilt_names d \<union> (if chain_rebuilt c des then {n} else {})"
    using dr by (simp add: step)
  show "policy_names d' = policy_names d \<union> (if \<not> chain_rebuilt c des \<and> policy_differs c des then {n} else {})"
    using dr by (simp add: step)
  show "other_parts d' = other_parts d" using dr by (simp add: step)
  show "rule_names d' = rule_names d \<union> (if \<not> chain_rebuilt c des \<and> rules_of c \<noteq> pc_rules des then {n} else {})"
    unfolding same using dr names by (simp add: step image_Un image_image)
qed

lemma fold_collects:
  assumes "\<And>n des d. F (g (n, des) d) = F d \<union> (if P n des then {n} else {})"
  shows "F (fold g cs d) = F d \<union> {n. \<exists>des. (n, des) \<in> set cs \<and> P n des}"
proof (induction cs arbitrary: d)
  case (Cons x cs)
  obtain n des where "x = (n, des)" by force
  then show ?case using Cons.IH [of "g x d"] assms [of n des d] by auto
qed simp

lemma fold_keeps: "(\<And>x d. G (g x d) = G d) \<Longrightarrow> G (fold g cs d) = G d"
  by (induction cs arbitrary: d) auto

lemma diff_chains_names:
  fixes t curs cs d
  defines "d' \<equiv> fold (diff_chain t False curs) cs d"
  shows "rebuilt_names d' = rebuilt_names d \<union> {n. \<exists>des. (n, des) \<in> set cs \<and> chain_rebuilt (dict_get curs n) des}"
    and "policy_names d' = policy_names d \<union> {n. \<exists>des. (n, des) \<in> set cs \<and>
           \<not> chain_rebuilt (dict_get curs n) des \<and> policy_differs (dict_get curs n) des}"
    and "rule_names d' = rule_names d \<union> {n. \<exists>des. (n, des) \<in> set cs \<and>
           \<not> chain_rebuilt (dict_get curs n) des \<and> rules_of (dict_get curs n) \<noteq> pc_rules des}"
    and "other_parts d' = other_parts d"
  unfolding d'_def
  by (rule fold_collects diff_chain_names [OF refl refl])+
     (rule fold_keeps, metis surj_pair diff_chain_names(4))

definition table_diff :: "parsed_table \<Rightarrow> parsed_table \<Rightarrow> plan_diff \<Rightarrow> plan_diff" where
  "table_diff cur des d = diff_table False [(NFT_TABLE_NAME, cur)] (NFT_TABLE_NAME, des) d"

lemma table_diff_names:
  assumes ok: "dict_ok (pt_chains des)" and n: "chain_at des n = Some c"
    and d: "d = table_diff cur des (empty_diff False e)"
  shows "n \<in> rebuilt_names d \<longleftrightarrow> chain_rebuilt (chain_at cur n) c"
    and "n \<in> policy_names d \<longleftrightarrow> \<not> chain_rebuilt (chain_at cur n) c \<and> policy_differs (chain_at cur n) c"
    and "n \<in> rule_names d \<longleftrightarrow> \<not> chain_rebuilt (chain_at cur n) c \<and> rules_of (chain_at cur n) \<noteq> pc_rules c"
proof -
  let ?f = "fold (diff_chain NFT_TABLE_NAME False (pt_chains cur)) (pt_chains des) (empty_diff False e)"
  have in_set: "(m, x) \<in> set (pt_chains des) \<longleftrightarrow> chain_at des m = Some x" for m x
    using ok by (simp add: pair_in_dict chain_at_def)
  have "rebuilt_names d = rebuilt_names ?f" "policy_names d = policy_names ?f" "rule_names d = rule_names ?f"
    by (simp_all add: d table_diff_def diff_table_def Let_def diff_names dict_get_def)
  moreover have "rebuilt_names (empty_diff False e) = {}" "policy_names (empty_diff False e) = {}"
      "rule_names (empty_diff False e) = {}"
    by (simp_all add: diff_names empty_diff_def)
  moreover note diff_chains_names [of NFT_TABLE_NAME "pt_chains cur" "pt_chains des" "empty_diff False e"]
  ultimately show "n \<in> rebuilt_names d \<longleftrightarrow> chain_rebuilt (chain_at cur n) c"
    and "n \<in> policy_names d \<longleftrightarrow> \<not> chain_rebuilt (chain_at cur n) c \<and> policy_differs (chain_at cur n) c"
    and "n \<in> rule_names d \<longleftrightarrow> \<not> chain_rebuilt (chain_at cur n) c \<and> rules_of (chain_at cur n) \<noteq> pc_rules c"
    using n by (simp_all add: in_set) (simp_all add: chain_at_def)
qed

lemma table_diff_left:
  assumes "d = table_diff cur des (empty_diff False e)"
  shows "map nch_chain (pd_desuet d) =
       map fst (filter (\<lambda>(n, c). \<not> dict_has (pt_chains des) n \<and> is_builtin c) (pt_chains cur)) \<and>
     map nch_chain (pd_foreign d) =
       map fst (filter (\<lambda>(n, c). \<not> dict_has (pt_chains des) n \<and> \<not> is_builtin c) (pt_chains cur))"
proof -
  let ?f = "fold (diff_chain NFT_TABLE_NAME False (pt_chains cur)) (pt_chains des) (empty_diff False e)"
  have "other_parts ?f = other_parts (empty_diff False e)"
    using diff_chains_names(4) [of NFT_TABLE_NAME "pt_chains cur" "pt_chains des" "empty_diff False e"] by simp
  then have "pd_desuet ?f = []" "pd_foreign ?f = []" by (simp_all add: other_parts_def empty_diff_def)
  then show ?thesis
    by (simp add: assms table_diff_def diff_table_def Let_def left_chains_def dict_get_def split_def comp_def)
qed

section \<open>One chain\<close>

text \<open>The lines the index holds for a chain make it.\<close>

definition makes_chain :: "string \<Rightarrow> desired_index \<Rightarrow> string \<Rightarrow> parsed_chain \<Rightarrow> bool" where
  "makes_chain family ix n c =
     (case dict_get (ix_chain_decl ix) n of
        None \<Rightarrow> False
      | Some l \<Rightarrow>
          declares family n l \<and>
          (case declared_policy family l of None \<Rightarrow> ''-'' | Some q \<Rightarrow> q) = pc_policy c \<and>
          list_all2 (adds_rule family n) (pc_rules c) (listed_rules ix n))"

text \<open>
  nft cannot turn a user chain into a base chain, and a base chain has a priority in its header.
\<close>

definition kinds_match :: "parsed_chain option \<Rightarrow> parsed_chain option \<Rightarrow> bool" where
  "kinds_match cur des =
     (case (cur, des) of
        (Some c, Some d) \<Rightarrow> if is_builtin c then header_priority_of (pc_policy c) \<noteq> None else \<not> is_builtin d
      | _ \<Rightarrow> True)"

lemma rebuilt_when_kind_changes:
  assumes "kinds_match (Some c) (Some d)" and "\<not> chain_rebuilt (Some c) d" and "\<not> is_builtin d"
  shows "\<not> is_builtin c"
proof
  assume b: "is_builtin c"
  have "header_priority_of ''-'' = None" by (simp add: header_priority_of_def py_split_def fields_by_def)
  then have "header_priority_of (pc_policy d) = None" using assms(3) by (simp add: is_builtin_def)
  then have "chain_rebuilt (Some c) d"
    using assms(1,3) b by (auto simp: kinds_match_def chain_rebuilt_def policy_differs_def is_builtin_def)
  with assms(2) show False by simp
qed

lemma add_chain_new: "chain_at t n = None \<Longrightarrow> p' = (case p of None \<Rightarrow> ''-'' | Some q \<Rightarrow> q) \<Longrightarrow>
    chain_at (add_chain n p t) = (chain_at t)(n := Some (empty_chain p'))"
  by (simp add: add_chain_def chain_at_def [symmetric] put_chain_at)

lemma add_chain_old: "chain_at t n = Some c \<Longrightarrow>
    chain_at (add_chain n p t) =
      (chain_at t)(n := Some (c\<lparr>pc_policy := (case p of None \<Rightarrow> pc_policy c | Some q \<Rightarrow> q)\<rparr>))"
  by (auto simp: add_chain_def chain_at_def [symmetric] put_chain_at split: option.split)

lemma add_chain_keeps_sets [simp]: "pt_sets (add_chain n p t) = pt_sets t"
  by (auto simp: add_chain_def split: option.split)

lemma run_new_chain:
  assumes "makes_chain family ix n c" and "chain_at t n = None" and "dict_get (ix_chain_decl ix) n = Some l"
  shows "\<exists>t'. run_commands_on family (l # listed_rules ix n) t = Inr t' \<and> pt_sets t' = pt_sets t \<and>
           chain_at t' = (chain_at t)(n := Some c)"
proof -
  let ?t = "add_chain n (declared_policy family l) t" and ?c = "empty_chain (pc_policy c)"
  have l: "declares family n l" "pc_policy c = (case declared_policy family l of None \<Rightarrow> ''-'' | Some q \<Rightarrow> q)"
      "list_all2 (adds_rule family n) (pc_rules c) (listed_rules ix n)"
    using assms(1,3) by (auto simp: makes_chain_def)
  have "chain_at ?t = (chain_at t)(n := Some ?c)" using add_chain_new [OF assms(2) l(2)] .
  then show ?thesis
    using run_rules [OF l(3), of ?t ?c] command_declares [OF l(1), of t]
    by (cases c) (auto simp: empty_chain_def)
qed

lemma run_changed_chain:
  assumes "makes_chain family ix n c" and "chain_at t n = Some live" and "dict_get (ix_chain_decl ix) n = Some l"
    and "kinds_match (Some live) (Some c)" and "\<not> chain_rebuilt (Some live) c"
    and "plain_word family" and "plain_word n"
  shows "\<exists>t'. run_commands_on family [l] t = Inr t' \<and> pt_sets t' = pt_sets t \<and>
           chain_at t' = (chain_at t)(n := Some (live\<lparr>pc_policy := pc_policy c\<rparr>))"
    and "\<exists>t'. run_commands_on family (l # flush_chain family n # listed_rules ix n) t = Inr t' \<and>
           pt_sets t' = pt_sets t \<and> chain_at t' = (chain_at t)(n := Some c)"
proof -
  let ?t = "add_chain n (declared_policy family l) t" and ?c = "live\<lparr>pc_policy := pc_policy c\<rparr>"
  have l: "declares family n l" "(case declared_policy family l of None \<Rightarrow> ''-'' | Some q \<Rightarrow> q) = pc_policy c"
      "list_all2 (adds_rule family n) (pc_rules c) (listed_rules ix n)"
    using assms(1,3) by (auto simp: makes_chain_def)
  have "(case declared_policy family l of None \<Rightarrow> pc_policy live | Some q \<Rightarrow> q) = pc_policy c"
    using l(2) rebuilt_when_kind_changes [OF assms(4,5)]
    by (cases "declared_policy family l") (auto simp: is_builtin_def)
  then have at: "chain_at ?t = (chain_at t)(n := Some ?c)" using add_chain_old [OF assms(2)] by simp
  then show "\<exists>t'. run_commands_on family [l] t = Inr t' \<and> pt_sets t' = pt_sets t \<and>
      chain_at t' = (chain_at t)(n := Some (live\<lparr>pc_policy := pc_policy c\<rparr>))"
    using command_declares [OF l(1), of t] by simp
  let ?u = "change_chain n (\<lambda>c. c\<lparr>pc_rules := []\<rparr>) ?t"
  have "chain_at ?u = (chain_at t)(n := Some (?c\<lparr>pc_rules := []\<rparr>))" using at by (simp add: change_chain_at)
  moreover have "nft_command family (flush_chain family n) ?t = Inr ?u"
    using assms(6,7) at by (intro command_flush) auto
  ultimately show "\<exists>t'. run_commands_on family (l # flush_chain family n # listed_rules ix n) t = Inr t' \<and>
      pt_sets t' = pt_sets t \<and> chain_at t' = (chain_at t)(n := Some c)"
    using run_rules [OF l(3), of ?u "?c\<lparr>pc_rules := []\<rparr>"] command_declares [OF l(1), of t]
    by (cases c; cases live) auto
qed

lemma run_chain_lines:
  assumes made: "makes_chain family ix n c" and same: "chain_at t n = chain_at cur n"
    and kinds: "kinds_match (chain_at cur n) (Some c)" and words: "plain_word family" "plain_word n"
    and rebuilt: "n \<in> rebuilt_names d \<longleftrightarrow> chain_rebuilt (chain_at cur n) c"
    and policy: "n \<in> policy_names d \<longleftrightarrow> \<not> chain_rebuilt (chain_at cur n) c \<and> policy_differs (chain_at cur n) c"
    and rules: "n \<in> rule_names d \<longleftrightarrow> \<not> chain_rebuilt (chain_at cur n) c \<and> rules_of (chain_at cur n) \<noteq> pc_rules c"
  shows "\<exists>t'. run_commands_on family (chain_lines family cur ix d n) t = Inr t' \<and> pt_sets t' = pt_sets t \<and>
           chain_at t' = (chain_at t)(n := Some c)"
proof -
  obtain l where l: "dict_get (ix_chain_decl ix) n = Some l" using made by (auto simp: makes_chain_def split: option.splits)
  have lines: "chain_lines family cur ix d n =
      (if chain_at cur n = None then l # listed_rules ix n
       else if n \<in> rebuilt_names d then delete_chain family n # l # listed_rules ix n
       else if n \<in> rule_names d then l # flush_chain family n # listed_rules ix n
       else if n \<in> policy_names d then [l] else [])"
    by (simp add: chain_lines_def dict_has_chain l Let_def diff_names rule_changed_def)
  show ?thesis
  proof (cases "chain_at cur n")
    case None
    then show ?thesis using run_new_chain [OF made _ l] same by (simp add: lines)
  next
    case (Some live)
    note changed = run_changed_chain [OF made _ l _ _ words, of t live]
    show ?thesis
    proof (cases "chain_rebuilt (chain_at cur n) c")
      case True
      let ?t = "drop_chain n t"
      have "nft_command family (delete_chain family n) t = Inr ?t" using words same Some by (intro command_delete) auto
      moreover have "chain_at ?t n = None" by (simp add: drop_chain_at)
      ultimately show ?thesis
        using run_new_chain [OF made _ l, of ?t] True rebuilt Some
        by (auto simp: lines drop_chain_at simp del: run_commands_on_simps(3))
    next
      case False
      show ?thesis
      proof (cases "rules_of (chain_at cur n) = pc_rules c")
        case True
        then have r: "pc_rules live = pc_rules c" using Some by (simp add: rules_of_def)
        show ?thesis
        proof (cases "policy_differs (chain_at cur n) c")
          case True
          have "live\<lparr>pc_policy := pc_policy c\<rparr> = c" using r by simp
          then show ?thesis
            using changed(1) False True \<open>rules_of (chain_at cur n) = pc_rules c\<close> rebuilt policy rules Some same kinds
            by (simp add: lines del: run_commands_on_simps)
        next
          case same_policy: False
          have "pc_policy live = pc_policy c"
            using same_policy kinds Some by (auto simp: policy_differs_def kinds_match_def is_builtin_def split: if_splits)
          then have "live = c" using r by simp
          then show ?thesis
            using False True same_policy rebuilt policy rules Some same by (simp add: lines fun_upd_idem)
        qed
      next
        case rules_differ: False
        then show ?thesis
          using changed(2) False rebuilt rules Some same kinds by (simp add: lines del: run_commands_on_simps)
      qed
    qed
  qed
qed

section \<open>All chains\<close>

definition chain_recorded :: "plan_diff \<Rightarrow> parsed_table \<Rightarrow> string \<Rightarrow> parsed_chain \<Rightarrow> bool" where
  "chain_recorded d cur n c \<longleftrightarrow>
     (n \<in> rebuilt_names d \<longleftrightarrow> chain_rebuilt (chain_at cur n) c) \<and>
     (n \<in> policy_names d \<longleftrightarrow> \<not> chain_rebuilt (chain_at cur n) c \<and> policy_differs (chain_at cur n) c) \<and>
     (n \<in> rule_names d \<longleftrightarrow> \<not> chain_rebuilt (chain_at cur n) c \<and> rules_of (chain_at cur n) \<noteq> pc_rules c)"

lemma run_all_chain_lines:
  assumes "distinct ns" and "plain_word family"
    and "\<And>n. n \<in> set ns \<Longrightarrow> plain_word n \<and> makes_chain family ix n (the (chain_at des n)) \<and>
           kinds_match (chain_at cur n) (Some (the (chain_at des n))) \<and> chain_recorded d cur n (the (chain_at des n))"
    and "\<And>n. n \<in> set ns \<Longrightarrow> chain_at t n = chain_at cur n"
  shows "\<exists>t'. run_commands_on family (concat (map (chain_lines family cur ix d) ns)) t = Inr t' \<and>
           pt_sets t' = pt_sets t \<and>
           chain_at t' = (\<lambda>m. if m \<in> set ns then Some (the (chain_at des m)) else chain_at t m)"
  using assms
proof (induction ns arbitrary: t)
  case (Cons n ns)
  let ?c = "the (chain_at des n)"
  obtain u where u: "run_commands_on family (chain_lines family cur ix d n) t = Inr u" "pt_sets u = pt_sets t"
      "chain_at u = (chain_at t)(n := Some ?c)"
    using run_chain_lines [of family ix n ?c t cur d] Cons.prems by (auto simp: chain_recorded_def)
  have "\<And>m. m \<in> set ns \<Longrightarrow> chain_at u m = chain_at cur m" using Cons.prems(1,4) u(3) by auto
  then obtain v where "run_commands_on family (concat (map (chain_lines family cur ix d) ns)) u = Inr v"
      "pt_sets v = pt_sets u"
      "chain_at v = (\<lambda>m. if m \<in> set ns then Some (the (chain_at des m)) else chain_at u m)"
    using Cons.IH [of u] Cons.prems by auto
  then show ?case using u Cons.prems(1) by (auto simp: fun_eq_iff)
qed auto

lemma run_deletions:
  assumes "distinct ns" and "plain_word family" and "\<And>n. n \<in> set ns \<Longrightarrow> plain_word n \<and> chain_at t n \<noteq> None"
  shows "\<exists>t'. run_commands_on family (map (delete_chain family) ns) t = Inr t' \<and> pt_sets t' = pt_sets t \<and>
           chain_at t' = (\<lambda>m. if m \<in> set ns then None else chain_at t m)"
  using assms
proof (induction ns arbitrary: t)
  case (Cons n ns)
  have step: "nft_command family (delete_chain family n) t = Inr (drop_chain n t)"
    using Cons.prems by (intro command_delete) auto
  have "\<And>m. m \<in> set ns \<Longrightarrow> plain_word m \<and> chain_at (drop_chain n t) m \<noteq> None"
    using Cons.prems by (auto simp: drop_chain_at)
  then obtain v where "run_commands_on family (map (delete_chain family) ns) (drop_chain n t) = Inr v"
      "pt_sets v = pt_sets (drop_chain n t)"
      "chain_at v = (\<lambda>m. if m \<in> set ns then None else chain_at (drop_chain n t) m)"
    using Cons.IH [of "drop_chain n t"] Cons.prems by auto
  then show ?case using step by (auto simp: fun_eq_iff drop_chain_at)
qed auto

end
