(* ===== verification/Ferm_Delta_Index.thy ===== *)
theory Ferm_Delta_Index
  imports Ferm_Delta_Chains Ferm_Delta_Sets
begin

text \<open>
  The rendered script is read twice: by the parser, whose result is the desired table, and by the index,
  whose lines make up a delta. The lines the index holds for an object make just what the parser read.
\<close>

section \<open>The index holds the lines that make the desired table\<close>

text \<open>
  The shape of a rendered script: every object line names the family, no table is deleted, a chain and
  a set are declared once, and a set gets its elements in one line after its declaration.
\<close>

definition object_free :: "(string \<times> string) list \<Rightarrow> string \<Rightarrow> string \<Rightarrow> bool" where
  "object_free seen sub n \<longleftrightarrow>
     (sub = ''rule'' \<or> (sub, n) \<notin> set seen) \<and> (sub = ''element'' \<longrightarrow> (''set'', n) \<in> set seen)"

fun rendered_lines :: "string \<Rightarrow> (string \<times> string) list \<Rightarrow> string list \<Rightarrow> bool" where
  "rendered_lines family seen [] = True"
| "rendered_lines family seen (raw # ls) =
     (let line = py_strip raw; parts = py_split line
      in if skipped_line line then rendered_lines family seen ls
         else if parts ! 1 = ''table'' then parts ! 0 \<noteq> ''delete'' \<and> rendered_lines family seen ls
         else if parts ! 1 = ''ct'' then rendered_lines family seen ls
         else parts ! 2 = family \<and> object_free seen (parts ! 1) (parts ! 4) \<and>
           rendered_lines family ((parts ! 1, parts ! 4) # seen) ls)"

definition index_matches :: "string \<Rightarrow> (string \<times> string) list \<Rightarrow> parsed_table \<Rightarrow> desired_index \<Rightarrow> bool" where
  "index_matches family seen t ix \<longleftrightarrow>
     dict_ok (pt_chains t) \<and> dict_ok (pt_sets t) \<and> dict_ok (ix_chain_decl ix) \<and>
     (\<forall>n. dict_has (ix_chain_decl ix) n \<longleftrightarrow> chain_at t n \<noteq> None) \<and>
     (\<forall>n c. chain_at t n = Some c \<longrightarrow> makes_chain family ix n c \<and> plain_word n \<and> (''chain'', n) \<in> set seen) \<and>
     (\<forall>n. chain_at t n = None \<longrightarrow> listed_rules ix n = []) \<and>
     (\<forall>n s. set_at t n = Some s \<longrightarrow> makes_set family ix n s \<and> (''set'', n) \<in> set seen) \<and>
     (\<forall>n. (''set'', n) \<in> set seen \<longrightarrow> set_at t n \<noteq> None) \<and>
     (\<forall>n. dict_has (ix_set_elements ix) n \<longrightarrow> (''set'', n) \<in> set seen \<and> (''element'', n) \<in> set seen)"

lemma matches_empty: "index_matches family [] empty_parsed_table empty_index"
  by (simp add: index_matches_def empty_parsed_table_def empty_index_def chain_at_def set_at_def listed_rules_def
      dict_has_def dict_get_def dict_ok_def)

lemma makes_chain_cong:
  "dict_get (ix_chain_decl ix') n = dict_get (ix_chain_decl ix) n \<Longrightarrow> listed_rules ix' n = listed_rules ix n \<Longrightarrow>
     makes_chain family ix' n c = makes_chain family ix n c"
  by (simp add: makes_chain_def cong: option.case_cong)

lemma makes_set_cong:
  "dict_get (ix_set_decl ix') n = dict_get (ix_set_decl ix) n \<Longrightarrow>
     dict_get (ix_set_elements ix') n = dict_get (ix_set_elements ix) n \<Longrightarrow>
     makes_set family ix' n s = makes_set family ix n s"
  by (simp add: makes_set_def cong: option.case_cong)

lemma matches_chain:
  assumes m: "index_matches family seen t ix" and free: "(''chain'', n) \<notin> set seen"
    and decl: "declares family n l" "p = (case declared_policy family l of None \<Rightarrow> ''-'' | Some q \<Rightarrow> q)"
    and word: "plain_word n"
  shows "index_matches family ((''chain'', n) # seen) (put_chain n (empty_chain p) t)
           (ix\<lparr>ix_chain_decl := dict_set n l (ix_chain_decl ix)\<rparr>)"
proof -
  let ?ix = "ix\<lparr>ix_chain_decl := dict_set n l (ix_chain_decl ix)\<rparr>" and ?t = "put_chain n (empty_chain p) t"
  have new: "chain_at t n = None" using m free by (cases "chain_at t n") (auto simp: index_matches_def)
  then have "listed_rules ?ix n = []" using m by (simp add: index_matches_def listed_rules_def)
  then have made: "makes_chain family ?ix n (empty_chain p)" using decl by (simp add: makes_chain_def empty_chain_def)
  have other: "k \<noteq> n \<Longrightarrow> makes_chain family ?ix k c = makes_chain family ix k c" for k c
    by (rule makes_chain_cong) (simp_all add: listed_rules_def)
  have sets: "makes_set family ?ix k s = makes_set family ix k s" for k s by (rule makes_set_cong) simp_all
  have at: "chain_at ?t = (chain_at t)(n := Some (empty_chain p))" "set_at ?t = set_at t"
    by (simp_all add: put_chain_at) (simp add: set_at_def [abs_def])
  show ?thesis
    using m made word unfolding index_matches_def at
    by (auto simp: other sets put_chain_def listed_rules_def dict_has_def)
qed

lemma matches_rule:
  assumes m: "index_matches family seen t ix" and c: "chain_at t n = Some c" and r: "adds_rule family n r l"
  shows "index_matches family ((''rule'', n) # seen) (append_rule_to n r t)
           (ix\<lparr>ix_chain_rules := dict_set n (listed_rules ix n @ [l]) (ix_chain_rules ix)\<rparr>)"
proof -
  let ?ix = "ix\<lparr>ix_chain_rules := dict_set n (listed_rules ix n @ [l]) (ix_chain_rules ix)\<rparr>"
  let ?c = "c\<lparr>pc_rules := pc_rules c @ [r]\<rparr>" and ?t = "append_rule_to n r t"
  have rules: "listed_rules ?ix k = (if k = n then listed_rules ix n @ [l] else listed_rules ix k)" for k
    by (simp add: listed_rules_def)
  have old: "makes_chain family ix n c" using m c by (simp add: index_matches_def)
  obtain d where "dict_get (ix_chain_decl ix) n = Some d" using old by (auto simp: makes_chain_def split: option.splits)
  then have made: "makes_chain family ?ix n ?c"
    using old r by (simp add: makes_chain_def rules list_all2_appendI)
  have other: "k \<noteq> n \<Longrightarrow> makes_chain family ?ix k x = makes_chain family ix k x" for k x
    by (rule makes_chain_cong) (simp_all add: rules)
  have sets: "makes_set family ?ix k s = makes_set family ix k s" for k s by (rule makes_set_cong) simp_all
  have at: "chain_at ?t = (chain_at t)(n := Some ?c)" "set_at ?t = set_at t"
    using c by (simp_all add: append_rule_at) (simp add: set_at_def [abs_def])
  have ok: "dict_ok (pt_chains ?t) = dict_ok (pt_chains t)"
    using m by (auto simp: append_rule_to_def put_chain_def index_matches_def split: option.split)
  show ?thesis
    using m made c unfolding index_matches_def at ok
    by (auto simp: other sets rules)
qed

lemma matches_set:
  assumes m: "index_matches family seen t ix" and free: "(''set'', n) \<notin> set seen"
    and decl: "take 5 (py_split l) = [''add'', ''set'', family, ''ferm'', n]"
  shows "index_matches family ((''set'', n) # seen) (change_set n (declare_set l) t)
           (ix\<lparr>ix_set_decl := dict_set n l (ix_set_decl ix)\<rparr>)"
proof -
  let ?ix = "ix\<lparr>ix_set_decl := dict_set n l (ix_set_decl ix)\<rparr>" and ?t = "change_set n (declare_set l) t"
  have new: "set_at t n = None" using m free by (cases "set_at t n") (auto simp: index_matches_def)
  have fresh: "dict_get (ix_set_elements ix) n = None"
    using m free by (cases "dict_get (ix_set_elements ix) n") (auto simp: index_matches_def dict_has_def)
  have made: "makes_set family ?ix n (declare_set l (new_set n))"
    using decl fresh by (simp add: makes_set_def) (simp add: new_set_def)
  have other: "k \<noteq> n \<Longrightarrow> makes_set family ?ix k s = makes_set family ix k s" for k s
    by (rule makes_set_cong) simp_all
  have chains: "makes_chain family ?ix k c = makes_chain family ix k c" for k c
    by (rule makes_chain_cong) (simp_all add: listed_rules_def)
  have at: "set_at ?t = (set_at t)(n := Some (declare_set l (new_set n)))" "chain_at ?t = chain_at t"
    using new by (simp_all add: change_set_at) (simp add: chain_at_def [abs_def])
  have ok: "dict_ok (pt_sets ?t)" using m by (simp add: change_set_def index_matches_def)
  have rules: "listed_rules ?ix = listed_rules ix" by (simp add: listed_rules_def [abs_def])
  show ?thesis using m made ok unfolding index_matches_def at rules by (auto simp: other chains)
qed

lemma matches_element:
  assumes m: "index_matches family seen t ix" and free: "(''element'', n) \<notin> set seen" "(''set'', n) \<in> set seen"
    and decl: "take 5 (py_split l) = [''add'', ''element'', family, ''ferm'', n]"
    and els: "merged_elements n (element_members l) t = Inr xs"
  shows "index_matches family ((''element'', n) # seen) (change_set n (\<lambda>s. s\<lparr>ps_elements := xs\<rparr>) t)
           (ix\<lparr>ix_set_elements := dict_set n l (ix_set_elements ix)\<rparr>)"
proof -
  let ?ix = "ix\<lparr>ix_set_elements := dict_set n l (ix_set_elements ix)\<rparr>"
    and ?t = "change_set n (\<lambda>s. s\<lparr>ps_elements := xs\<rparr>) t"
  obtain s where s: "set_at t n = Some s" using m free(2) by (auto simp: index_matches_def)
  have "dict_get (ix_set_elements ix) n = None"
    using m free(1) by (cases "dict_get (ix_set_elements ix) n") (auto simp: index_matches_def dict_has_def)
  moreover have old: "makes_set family ix n s" using m s by (simp add: index_matches_def)
  ultimately have "ps_elements s = []" by (auto simp: makes_set_def split: option.splits)
  then have "canonicalize_set_elements False (element_members l) = Inr xs"
    using els s by (simp add: merged_elements_def set_at_def [symmetric])
  then have made: "makes_set family ?ix n (s\<lparr>ps_elements := xs\<rparr>)"
    using old decl by (cases s; cases "dict_get (ix_set_decl ix) n") (simp_all add: makes_set_def)
  have other: "k \<noteq> n \<Longrightarrow> makes_set family ?ix k x = makes_set family ix k x" for k x
    by (rule makes_set_cong) simp_all
  have chains: "makes_chain family ?ix k c = makes_chain family ix k c" for k c
    by (rule makes_chain_cong) (simp_all add: listed_rules_def)
  have at: "set_at ?t = (set_at t)(n := Some (s\<lparr>ps_elements := xs\<rparr>))" "chain_at ?t = chain_at t"
    using s by (simp_all add: change_set_at) (simp add: chain_at_def [abs_def])
  have ok: "dict_ok (pt_sets ?t)" using m by (simp add: change_set_def index_matches_def)
  have rules: "listed_rules ?ix = listed_rules ix" by (simp add: listed_rules_def [abs_def])
  show ?thesis
    using m made ok free(2) unfolding index_matches_def at rules by (auto simp: other chains dict_has_def)
qed

lemma matches_more: "index_matches family seen t ix \<Longrightarrow> sub \<notin> {''chain'', ''set'', ''element''} \<Longrightarrow>
    index_matches family ((sub, n) # seen) t ix"
  by (auto simp: index_matches_def)

lemma matches_objects:
  "index_matches family seen (t\<lparr>pt_objects := os\<rparr>) ix = index_matches family seen t ix"
  "index_matches family seen t (ix\<lparr>ix_object_decl := ods\<rparr>) = index_matches family seen t ix"
proof -
  let ?ix = "ix\<lparr>ix_object_decl := ods\<rparr>"
  have "makes_chain family ?ix = makes_chain family ix" "makes_set family ?ix = makes_set family ix"
      "listed_rules ?ix = listed_rules ix"
    by (intro ext makes_chain_cong makes_set_cong; simp add: listed_rules_def)+
  then show "index_matches family seen t ?ix = index_matches family seen t ix" by (simp add: index_matches_def)
  show "index_matches family seen (t\<lparr>pt_objects := os\<rparr>) ix = index_matches family seen t ix"
    by (simp add: index_matches_def chain_at_def set_at_def)
qed

section \<open>Both readings of a script, line by line\<close>

definition ferm_only :: "parsed \<Rightarrow> bool" where
  "ferm_only ts \<longleftrightarrow> ts = [] \<or> (\<exists>t. ts = [(NFT_TABLE_NAME, t)])"

lemma in_ferm_of:
  assumes "ferm_only ts"
  shows "ferm_only (in_ferm f ts)" and "ferm_of (in_ferm f ts) = f (ferm_of ts)"
  using assms by (auto simp: ferm_only_def in_ferm_def ensure_ferm_table_def change_table_def ferm_of_def dict_has_def
      dict_get_def dict_set_def)

lemma ensure_of:
  assumes "ferm_only ts"
  shows "ferm_only (ensure_ferm_table ts)" and "ferm_of (ensure_ferm_table ts) = ferm_of ts"
  using assms by (auto simp: ferm_only_def ensure_ferm_table_def ferm_of_def dict_has_def dict_get_def dict_set_def)

lemma object_head_Inr:
  assumes "parse_object_head k parts fam e = Inr (f, n)"
  shows "parts ! (k - 1) = ''ferm'' \<and> f = parts ! (k - 2) \<and> n = parts ! k"
  using assms by (auto simp: parse_object_head_def check_family_def bindR_Inr_iff NFT_TABLE_NAME_def split: if_splits)

lemma take5I:
  "5 \<le> length xs \<Longrightarrow> take 5 xs = [xs ! 0, xs ! 1, xs ! 2, xs ! 3, xs ! 4]"
  by (cases xs rule: list.exhaust; simp; rename_tac l; case_tac l; simp; rename_tac l; case_tac l; simp;
      rename_tac l; case_tac l; simp; rename_tac l; case_tac l; simp)

text \<open>One object line: the table, the index and the names seen move together.\<close>

lemma chain_line_matches:
  assumes m: "index_matches family seen (ferm_of ts) ix" and only: "ferm_only ts"
    and line: "script_chain_line line parts e (ts, fam) = Inr (ts', fam')" and parts: "parts = py_split line"
    and len: "5 \<le> length parts" "parts ! 0 = ''add''" "parts ! 1 = ''chain''" "parts ! 2 = family"
    and free: "(''chain'', parts ! 4) \<notin> set seen"
  shows "ferm_only ts' \<and> index_matches family ((''chain'', parts ! 4) # seen) (ferm_of ts')
           (ix\<lparr>ix_chain_decl := dict_set (parts ! 4) line (ix_chain_decl ix)\<rparr>)"
proof -
  let ?n = "parts ! 4" and ?p = "case declared_policy family line of None \<Rightarrow> ''-'' | Some q \<Rightarrow> q"
  obtain f n where head: "parse_object_head 4 parts fam e = Inr (f, n)"
    using line by (auto simp: script_chain_line_def bindR_Inr_iff)
  then have fn: "parts ! 3 = ''ferm''" "f = family" "n = ?n" using object_head_Inr [OF head] len by auto
  have ts': "ts' = in_ferm (put_chain ?n (empty_chain ?p)) ts"
    using line head fn by (auto simp: script_chain_line_def declared_policy_def parts split: if_splits option.splits)
  have "declares family ?n line" using take5I [of parts] len fn by (simp add: declares_def parts)
  moreover have "plain_word ?n"
    using fields_by_parts [of ?n py_space line] nth_mem [of 4 parts] len(1)
    by (simp add: parts py_split_def plain_word_def list_all_iff)
  ultimately show ?thesis
    using matches_chain [OF m free _ refl] in_ferm_of [OF only] by (simp add: ts')
qed

lemma rule_line_matches:
  assumes m: "index_matches family seen (ferm_of ts) ix" and only: "ferm_only ts"
    and line: "nft_rule_line line parts e (ts, fam) = Inr (ts', fam')" and parts: "parts = py_split line"
    and len: "5 \<le> length parts" "parts ! 0 = ''add''" "parts ! 1 = ''rule''" "parts ! 2 = family"
  shows "ferm_only ts' \<and> index_matches family ((''rule'', parts ! 4) # seen) (ferm_of ts')
           (ix\<lparr>ix_chain_rules := dict_set (parts ! 4) (listed_rules ix (parts ! 4) @ [line]) (ix_chain_rules ix)\<rparr>)"
proof -
  let ?n = "parts ! 4"
  obtain f n where head: "parse_object_head 4 parts fam e = Inr (f, n)"
    using line by (auto simp: nft_rule_line_def bindR_Inr_iff)
  then have fn: "parts ! 3 = ''ferm''" "f = family" "n = ?n" using object_head_Inr [OF head] len by auto
  obtain r where r: "canonicalize_nft_rule family (rule_body line parts) = Inr r"
      "ts' = in_ferm (append_rule_to ?n r) ts" and has: "dict_has (pt_chains (ferm_of ts)) ?n"
    using line head fn by (auto simp: nft_rule_line_def bindR_Inr_iff split: if_splits)
  obtain c where c: "chain_at (ferm_of ts) ?n = Some c" using has by (auto simp: dict_has_chain)
  have "adds_rule family ?n r line" using take5I [of parts] len fn r(1) by (simp add: adds_rule_def parts)
  from matches_rule [OF m c this] show ?thesis using in_ferm_of [OF only] by (simp add: r(2))
qed

lemma set_line_matches:
  assumes m: "index_matches family seen (ferm_of ts) ix" and only: "ferm_only ts"
    and line: "set_line line parts e (ts, fam) = Inr (ts', fam')" and parts: "parts = py_split line"
    and len: "5 \<le> length parts" "parts ! 0 = ''add''" "parts ! 1 = ''set''" "parts ! 2 = family"
    and free: "(''set'', parts ! 4) \<notin> set seen"
  shows "ferm_only ts' \<and> index_matches family ((''set'', parts ! 4) # seen) (ferm_of ts')
           (ix\<lparr>ix_set_decl := dict_set (parts ! 4) line (ix_set_decl ix)\<rparr>)"
proof -
  let ?n = "parts ! 4"
  obtain f n where head: "parse_object_head 4 parts fam e = Inr (f, n)"
    using line by (auto simp: set_line_def bindR_Inr_iff)
  then have fn: "parts ! 3 = ''ferm''" "f = family" "n = ?n" using object_head_Inr [OF head] len by auto
  have ts': "ts' = in_ferm (change_set ?n (declare_set line)) ts"
    using line head fn by (auto simp: set_line_def)
  have "take 5 (py_split line) = [''add'', ''set'', family, ''ferm'', ?n]"
    using take5I [of parts] len fn by (simp add: parts)
  from matches_set [OF m free this] show ?thesis using in_ferm_of [OF only] by (simp add: ts')
qed

lemma element_line_matches:
  assumes m: "index_matches family seen (ferm_of ts) ix" and only: "ferm_only ts"
    and line: "element_line line parts e (ts, fam) = Inr (ts', fam')" and parts: "parts = py_split line"
    and len: "5 \<le> length parts" "parts ! 0 = ''add''" "parts ! 1 = ''element''" "parts ! 2 = family"
    and free: "(''element'', parts ! 4) \<notin> set seen" "(''set'', parts ! 4) \<in> set seen"
  shows "ferm_only ts' \<and> index_matches family ((''element'', parts ! 4) # seen) (ferm_of ts')
           (ix\<lparr>ix_set_elements := dict_set (parts ! 4) line (ix_set_elements ix)\<rparr>)"
proof -
  let ?n = "parts ! 4"
  obtain f n where head: "parse_object_head 4 parts fam e = Inr (f, n)"
    using line by (auto simp: element_line_def bindR_Inr_iff)
  then have fn: "parts ! 3 = ''ferm''" "f = family" "n = ?n" using object_head_Inr [OF head] len by auto
  obtain xs where xs: "merged_elements ?n (element_members line) (ferm_of ts) = Inr xs"
      "ts' = in_ferm (change_set ?n (\<lambda>s. s\<lparr>ps_elements := xs\<rparr>)) ts"
    using line head fn
    by (auto simp: element_line_def bindR_Inr_iff element_members_def text_or_empty_def split: option.splits)
  have "take 5 (py_split line) = [''add'', ''element'', family, ''ferm'', ?n]"
    using take5I [of parts] len fn by (simp add: parts)
  from matches_element [OF m free this xs(1)] show ?thesis using in_ferm_of [OF only] by (simp add: xs(2))
qed

lemma object_line_matches:
  assumes m: "index_matches family seen (ferm_of ts) ix" and only: "ferm_only ts"
    and line: "object_line k kind line parts e (ts, fam) = Inr (ts', fam')"
  shows "ferm_only ts' \<and> index_matches family seen (ferm_of ts') (ix\<lparr>ix_object_decl := ods\<rparr>)"
proof -
  obtain f n where "parse_object_head k parts fam e = Inr (f, n)" "ts' = store_table_object n kind line ts"
    using line by (auto simp: object_line_def bindR_Inr_iff)
  then show ?thesis
    using m in_ferm_of [OF only] by (simp add: store_table_object_def put_object_def matches_objects)
qed

lemma two_words: "take 2 xs = [a, b] \<Longrightarrow> 1 < length xs \<and> xs ! 0 = a \<and> xs ! 1 = b"
  by (cases xs rule: list.exhaust; simp; rename_tac l; case_tac l; simp)

lemma two_wordsI: "1 < length xs \<Longrightarrow> take 2 xs = [xs ! 0, xs ! 1]"
  by (cases xs rule: list.exhaust; simp; rename_tac l; case_tac l; simp)

lemma second_word: "take 1 (drop 1 xs) = [w] \<longleftrightarrow> 1 < length xs \<and> xs ! 1 = w"
  by (cases xs rule: list.exhaust; simp; rename_tac l; case_tac l; simp)

text \<open>An object line the index accepts.\<close>

lemma index_line_object:
  assumes ix: "index_line raw ix = Inr ix'" and line: "line = py_strip raw" "\<not> skipped_line line"
    and parts: "parts = py_split line" and object: "parts ! 1 \<noteq> ''table''"
  shows "5 \<le> length parts" and "parts ! 0 = ''add''"
    and "if parts ! 1 = ''ct'' \<and> parts ! 2 = ''helper'' \<and> length parts > 5
         then \<exists>ods. ix' = ix\<lparr>ix_object_decl := ods\<rparr>
         else index_object (parts ! 1) (parts ! 4) line ix = Inr ix'"
proof -
  have no: "take 2 parts \<noteq> [v, ''table'']" for v using two_words [of parts v "''table''"] object by auto
  have "index_line raw ix =
      (if length parts \<le> 4 \<or> parts ! 0 \<noteq> ''add'' then Inl (unexpected_line line)
       else if parts ! 1 = ''ct'' \<and> parts ! 2 = ''helper'' \<and> length parts > 5
       then Inr (ix\<lparr>ix_object_decl := dict_set (parts ! 5) line (ix_object_decl ix)\<rparr>)
       else index_object (parts ! 1) (parts ! 4) line ix)"
    using line(2) no unfolding index_line_def Let_def line(1) [symmetric] parts [symmetric] by simp
  then show "5 \<le> length parts" "parts ! 0 = ''add''"
    "if parts ! 1 = ''ct'' \<and> parts ! 2 = ''helper'' \<and> length parts > 5
     then \<exists>ods. ix' = ix\<lparr>ix_object_decl := ods\<rparr>
     else index_object (parts ! 1) (parts ! 4) line ix = Inr ix'"
    using ix by (auto split: if_splits)
qed

lemma script_line_object:
  assumes "parts = py_split line" and "5 \<le> length parts" and "parts ! 0 = ''add''" and "parts ! 1 \<noteq> ''table''"
    and "script_line line e st = Inr st'"
  shows "(parts ! 1 = ''chain'' \<longrightarrow> script_chain_line line parts e st = Inr st') \<and>
     (parts ! 1 = ''set'' \<longrightarrow> set_line line parts e st = Inr st') \<and>
     (parts ! 1 = ''secmark'' \<longrightarrow> object_line 4 ''secmark'' line parts e st = Inr st') \<and>
     (parts ! 1 = ''ct'' \<longrightarrow> 7 \<le> length parts \<and> parts ! 2 = ''helper'' \<and> object_line 5 ''ct helper'' line parts e st = Inr st') \<and>
     (parts ! 1 = ''element'' \<longrightarrow> element_line line parts e st = Inr st') \<and>
     (parts ! 1 = ''rule'' \<longrightarrow> nft_rule_line line parts e st = Inr st')"
proof -
  have third: "take 1 (drop 2 parts) = [w] \<longleftrightarrow> parts ! 2 = w" for w
    using assms(2) by (cases "drop 2 parts") (auto simp: nth_via_drop)
  show ?thesis
    using assms unfolding script_line_def Let_def assms(1) [symmetric] second_word third
    by (auto split: if_splits)
qed

lemma script_line_long: "script_line line e st = Inr st' \<Longrightarrow> 1 < length (py_split line)"
proof (rule ccontr)
  assume short: "\<not> 1 < length (py_split line)" and run: "script_line line e st = Inr st'"
  then have "take 1 (drop 1 (py_split line)) \<noteq> [''table'']" by (simp only: second_word) simp
  then show False using run short by (simp add: script_line_def Let_def split: if_splits)
qed

lemma script_line_table:
  assumes "script_line line e st = Inr st'" and "py_split line ! 1 = ''table''"
  shows "py_split line ! 0 \<in> {''add'', ''flush'', ''delete''} \<and> script_table_line (py_split line) e st = Inr st'"
proof -
  have "take 1 (drop 1 (py_split line)) = [''table'']"
    using script_line_long [OF assms(1)] assms(2) by (simp only: second_word)
  then show ?thesis using assms by (simp add: script_line_def Let_def split: if_splits)
qed

lemma script_index_step:
  assumes m: "index_matches family seen (ferm_of ts) ix" and only: "ferm_only ts"
    and script: "script_step (k, raw) (ts, fam) = Inr (ts', fam')" and index: "index_line raw ix = Inr ix'"
    and shape: "rendered_lines family seen (raw # ls)"
  shows "\<exists>seen'. ferm_only ts' \<and> index_matches family seen' (ferm_of ts') ix' \<and> rendered_lines family seen' ls"
proof -
  define line where "line = py_strip raw"
  define parts where "parts = py_split line"
  note here = line_def [symmetric] parts_def [symmetric]
  show ?thesis
  proof (cases "skipped_line line")
    case True
    then show ?thesis
      using m only script index shape by (auto simp: script_step_def index_line_def here Let_def)
  next
    case live: False
    then have script: "script_line line (parse_error k raw) (ts, fam) = Inr (ts', fam')"
      using script by (simp add: script_step_def here Let_def)
    show ?thesis
    proof (cases "parts ! 1 = ''table''")
      case True
      then have "parts ! 0 \<noteq> ''delete''" "rendered_lines family seen ls"
        using shape live by (simp_all add: here Let_def)
      moreover have len: "1 < length parts" using script_line_long [OF script] by (simp add: parts_def)
      moreover have "parts ! 0 \<in> {''add'', ''flush'', ''delete''}" "script_table_line parts (parse_error k raw) (ts, fam) = Inr (ts', fam')"
        using script_line_table [OF script] True by (simp_all add: parts_def)
      ultimately have table: "parts ! 0 = ''add'' \<or> parts ! 0 = ''flush''"
          "script_table_line parts (parse_error k raw) (ts, fam) = Inr (ts', fam')"
        using \<open>parts ! 0 \<noteq> ''delete''\<close> by auto
      have "take 2 parts = [parts ! 0, ''table'']" using two_wordsI [OF len] True by simp
      then have "index_line raw ix = Inr ix"
        using live table(1) by (simp add: index_line_def here Let_def) auto
      then have "ix' = ix" using index by simp
      moreover have "ts' = ensure_ferm_table ts"
        using table by (auto simp: script_table_line_def bindR_Inr_iff split: if_splits)
      ultimately have "ts' = ensure_ferm_table ts" "ix' = ix" by simp_all
      then show ?thesis using m ensure_of [OF only] \<open>rendered_lines family seen ls\<close> by auto
    next
      case object: False
      note ix = index_line_object [OF index line_def live parts_def object]
      note sc = script_line_object [OF parts_def ix(1,2) object script]
      show ?thesis
      proof (cases "parts ! 1 = ''ct''")
        case True
        then have "rendered_lines family seen ls" using shape live object by (simp add: here Let_def)
        moreover obtain ods where "ix' = ix\<lparr>ix_object_decl := ods\<rparr>" using ix(3) sc True by auto
        ultimately show ?thesis using object_line_matches [OF m only] sc True by blast
      next
        case False
        let ?n = "parts ! 4" and ?sub = "parts ! 1"
        have fam: "parts ! 2 = family" and free: "object_free seen ?sub ?n"
          and rest: "rendered_lines family ((?sub, ?n) # seen) ls"
          using shape live object False by (simp_all add: here Let_def)
        have ix': "index_object ?sub ?n line ix = Inr ix'" using ix(3) False by simp
        then consider "?sub = ''chain''" | "?sub = ''rule''" | "?sub = ''set''" | "?sub = ''element''" | "?sub = ''secmark''"
          by (auto simp: index_object_def split: if_splits)
        then show ?thesis
        proof cases
          case 1
          then have "script_chain_line line parts (parse_error k raw) (ts, fam) = Inr (ts', fam')" using sc by simp
          from chain_line_matches [OF m only this parts_def ix(1,2) 1 fam] show ?thesis
            using free ix' rest 1 by (auto simp: index_object_def object_free_def intro: exI)
        next
          case 2
          then have "nft_rule_line line parts (parse_error k raw) (ts, fam) = Inr (ts', fam')" using sc by simp
          from rule_line_matches [OF m only this parts_def ix(1,2) 2 fam] show ?thesis
            using ix' rest 2 by (auto simp: index_object_def intro: exI)
        next
          case 3
          then have "set_line line parts (parse_error k raw) (ts, fam) = Inr (ts', fam')" using sc by simp
          from set_line_matches [OF m only this parts_def ix(1,2) 3 fam] show ?thesis
            using free ix' rest 3 by (auto simp: index_object_def object_free_def intro: exI)
        next
          case 4
          then have "element_line line parts (parse_error k raw) (ts, fam) = Inr (ts', fam')" using sc by simp
          from element_line_matches [OF m only this parts_def ix(1,2) 4 fam] show ?thesis
            using free ix' rest 4 by (auto simp: index_object_def object_free_def intro: exI)
        next
          case 5
          then have l: "object_line 4 ''secmark'' line parts (parse_error k raw) (ts, fam) = Inr (ts', fam')" using sc by simp
          have "ix' = ix\<lparr>ix_object_decl := dict_set ?n line (ix_object_decl ix)\<rparr>"
            using ix' 5 by (simp add: index_object_def)
          with object_line_matches [OF m only l]
          have "ferm_only ts'" "index_matches family ((?sub, ?n) # seen) (ferm_of ts') ix'"
            using 5 by (auto intro: matches_more)
          then show ?thesis using rest by blast
        qed
      qed
    qed
  qed
qed

lemma script_index_lines:
  assumes "index_matches family seen (ferm_of ts) ix" and "ferm_only ts"
    and "foldR script_step (zip ks ls) (ts, fam) = Inr (ts', fam')" and "length ks = length ls"
    and "foldR index_line ls ix = Inr ix'" and "rendered_lines family seen ls"
  shows "\<exists>seen'. ferm_only ts' \<and> index_matches family seen' (ferm_of ts') ix'"
  using assms
proof (induction ls arbitrary: ks seen ts fam ix)
  case (Cons raw ls)
  obtain k ks' where ks: "ks = k # ks'" using Cons.prems(4) by (cases ks) auto
  obtain ts1 fam1 where one: "script_step (k, raw) (ts, fam) = Inr (ts1, fam1)"
      "foldR script_step (zip ks' ls) (ts1, fam1) = Inr (ts', fam')"
    using Cons.prems(3) by (auto simp: ks bindR_Inr_iff)
  obtain ix1 where two: "index_line raw ix = Inr ix1" "foldR index_line ls ix1 = Inr ix'"
    using Cons.prems(5) by (auto simp: bindR_Inr_iff)
  obtain seen1 where "ferm_only ts1" "index_matches family seen1 (ferm_of ts1) ix1" "rendered_lines family seen1 ls"
    using script_index_step [OF Cons.prems(1,2) one(1) two(1) Cons.prems(6)] by blast
  then show ?case using Cons.IH [of seen1 ts1 ix1 ks' fam1] one(2) two(2) Cons.prems(4) by (simp add: ks)
qed auto

lemma script_and_index:
  assumes "parse_nft_script save = Inr desired" and "build_desired_index save = Inr ix"
    and "rendered_lines family [] (py_splitlines save)"
  shows "\<exists>seen. ferm_only desired \<and> index_matches family seen (ferm_of desired) ix"
proof -
  define ls where "ls = py_splitlines save"
  define ks where "ks = [1..<Suc (length ls)]"
  obtain fam where "foldR script_step (zip ks ls) ([], None) = Inr (desired, fam)"
    using assms(1) by (auto simp: parse_nft_script_def numbered_def ls_def ks_def bindR_Inr_iff simp del: upt_Suc)
  moreover have "length ks = length ls" by (simp add: ks_def del: upt_Suc)
  moreover have "index_matches family [] (ferm_of []) empty_index" "ferm_only []"
    using matches_empty by (simp_all add: ferm_of_def dict_get_def ferm_only_def)
  ultimately show ?thesis
    using script_index_lines [of family "[]" "[]" empty_index ks ls None desired fam ix] assms(2,3)
    by (simp add: build_desired_index_def ls_def)
qed

end
