(* ===== verification/Ferm_Delta_Safe.thy ===== *)
theory Ferm_Delta_Safe
  imports Ferm_Delta_Chains Ferm_Delta_Index
begin

text \<open>
  Running a delta on the live table gives the desired table: the set phase and the chain phase put
  together, the behaviours of the delta that differ from this, and a sample.
\<close>

section \<open>The set phase\<close>

definition set_change_ok :: "string \<Rightarrow> desired_index \<Rightarrow> parsed_table \<Rightarrow> parsed_table \<Rightarrow> set_change \<Rightarrow> bool" where
  "set_change_ok family ix cur des sc \<longleftrightarrow>
     (case set_at des (sch_name sc) of
        None \<Rightarrow> False
      | Some s \<Rightarrow>
          (case sch_kind sc of
             SetAdd \<Rightarrow> set_at cur (sch_name sc) = None \<and> makes_set family ix (sch_name sc) s
           | SetModify \<Rightarrow>
               (case set_at cur (sch_name sc) of
                  None \<Rightarrow> False
                | Some c \<Rightarrow>
                    name_word (sch_name sc) \<and> list_all stable_element (ps_elements c) \<and>
                    list_all stable_element (ps_elements s) \<and> sch_elements sc = ps_elements s \<and>
                    ps_type c = ps_type s \<and> ps_flags c = ps_flags s)
           | SetRemove \<Rightarrow> False))"

lemma set_change_lines_ok:
  "set_change_ok family ix cur des sc \<Longrightarrow> \<exists>ls. set_change_lines family (pt_sets cur) ix sc = Inr ls"
  by (auto simp: set_change_ok_def set_change_lines_def makes_set_def set_at_def
      split: option.splits set_change_kind.splits)

lemma run_set_change:
  assumes "set_change_ok family ix cur des sc" and "set_change_lines family (pt_sets cur) ix sc = Inr ls"
    and "set_at t (sch_name sc) = set_at cur (sch_name sc)" and "name_word family"
  shows "\<exists>t' s. run_commands_on family ls t = Inr t' \<and> pt_chains t' = pt_chains t \<and>
           set_at t' = (set_at t)(sch_name sc := Some s) \<and> set_reached s (the (set_at des (sch_name sc)))"
proof -
  obtain s where s: "set_at des (sch_name sc) = Some s" using assms(1) by (auto simp: set_change_ok_def split: option.splits)
  show ?thesis
  proof (cases "sch_kind sc")
    case SetAdd
    then have ok: "set_at cur (sch_name sc) = None" "makes_set family ix (sch_name sc) s"
      using assms(1) s by (auto simp: set_change_ok_def)
    have sc: "sc = \<lparr>sch_table = sch_table sc, sch_name = sch_name sc, sch_kind = SetAdd,
        sch_elements = sch_elements sc, sch_current = sch_current sc\<rparr>" using SetAdd by simp
    have "set_at t (sch_name sc) = None" using ok(1) assms(3) by simp
    from run_new_set [OF ok(2) this assms(2) [unfolded sc [symmetric], THEN subst [OF sc, where P = "\<lambda>c. set_change_lines family (pt_sets cur) ix c = Inr ls"]]]
    show ?thesis using s by (auto simp: set_reached_def)
  next
    case SetModify
    then obtain c where c: "set_at cur (sch_name sc) = Some c" "name_word (sch_name sc)"
        "list_all stable_element (ps_elements c)" "list_all stable_element (ps_elements s)"
        "sch_elements sc = ps_elements s" "ps_type c = ps_type s" "ps_flags c = ps_flags s"
      using assms(1) s by (auto simp: set_change_ok_def split: option.splits)
    have sc: "sc = \<lparr>sch_table = sch_table sc, sch_name = sch_name sc, sch_kind = SetModify,
        sch_elements = ps_elements s, sch_current = sch_current sc\<rparr>" using SetModify c(5) by simp
    have "set_at t (sch_name sc) = Some c" using c(1) assms(3) by simp
    from run_modified_set [OF assms(4) c(2,1) this c(3,4), of ix "sch_table sc" "sch_current sc" ls]
    show ?thesis using assms(2) sc s c(6,7) by (fastforce simp: set_reached_def)
  next
    case SetRemove
    then show ?thesis using assms(1) s by (simp add: set_change_ok_def)
  qed
qed

lemma run_set_changes:
  assumes "distinct (map sch_name scs)" and "name_word family"
    and "\<And>sc. sc \<in> set scs \<Longrightarrow> set_change_ok family ix cur des sc \<and> set_at t (sch_name sc) = set_at cur (sch_name sc)"
  shows "\<exists>lss t'. mapR (set_change_lines family (pt_sets cur) ix) scs = Inr lss \<and>
           run_commands_on family (concat lss) t = Inr t' \<and> pt_chains t' = pt_chains t \<and>
           (\<forall>n. if n \<in> sch_name ` set scs
                then \<exists>s. set_at t' n = Some s \<and> set_reached s (the (set_at des n))
                else set_at t' n = set_at t n)"
  using assms
proof (induction scs arbitrary: t)
  case (Cons sc scs)
  obtain ls where ls: "set_change_lines family (pt_sets cur) ix sc = Inr ls"
    using set_change_lines_ok Cons.prems(3) by (meson list.set_intros(1))
  obtain u s where u: "run_commands_on family ls t = Inr u" "pt_chains u = pt_chains t"
      "set_at u = (set_at t)(sch_name sc := Some s)" "set_reached s (the (set_at des (sch_name sc)))"
    using run_set_change [OF _ ls _ Cons.prems(2)] Cons.prems(3) by (meson list.set_intros(1))
  have apart: "sch_name x \<noteq> sch_name sc" if "x \<in> set scs" for x
    using Cons.prems(1) imageI [OF that, of sch_name] by auto
  have "\<And>x. x \<in> set scs \<Longrightarrow> set_change_ok family ix cur des x \<and> set_at u (sch_name x) = set_at cur (sch_name x)"
    using Cons.prems(3) u(3) apart by simp
  then obtain lss v where v: "mapR (set_change_lines family (pt_sets cur) ix) scs = Inr lss"
      "run_commands_on family (concat lss) u = Inr v" "pt_chains v = pt_chains u"
      "\<forall>n. if n \<in> sch_name ` set scs then \<exists>s. set_at v n = Some s \<and> set_reached s (the (set_at des n))
           else set_at v n = set_at u n"
    using Cons.IH [of u] Cons.prems(1,2) by auto
  have "sch_name sc \<notin> sch_name ` set scs" using Cons.prems(1) by simp
  then have "if n \<in> sch_name ` set (sc # scs)
      then \<exists>s. set_at v n = Some s \<and> set_reached s (the (set_at des n)) else set_at v n = set_at t n" for n
    using v(4) u(3,4) by (cases "n = sch_name sc") (auto split: if_splits)
  then show ?case using ls u v by (intro exI [of _ "ls # lss"] exI [of _ v]) simp
qed auto

section \<open>What the diff records for sets\<close>

lemma table_diff_sets:
  "pd_sets (table_diff cur des (empty_diff False e)) =
     concat (map (set_changes_for NFT_TABLE_NAME (pt_sets cur)) (pt_sets des)) @
     set_removals NFT_TABLE_NAME (pt_sets cur) (pt_sets des)"
proof -
  let ?f = "fold (diff_chain NFT_TABLE_NAME False (pt_chains cur)) (pt_chains des) (empty_diff False e)"
  have "other_parts ?f = other_parts (empty_diff False e)" by (rule diff_chains_names(4))
  then have "pd_sets ?f = []" by (simp add: other_parts_def empty_diff_def)
  then show ?thesis by (simp add: table_diff_def diff_table_def Let_def dict_get_def)
qed

lemma set_changes_for_safe:
  assumes "list_all (\<lambda>sc. sch_kind sc \<noteq> SetRemove) (set_changes_for tb curs (n, s))"
  shows "set_changes_for tb curs (n, s) = [] \<and> set_agrees (dict_get curs n) s \<or>
     (\<exists>x. set_changes_for tb curs (n, s) =
        [\<lparr>sch_table = tb, sch_name = n, sch_kind = SetAdd, sch_elements = ps_elements s, sch_current = x\<rparr>] \<and>
        dict_get curs n = None) \<or>
     (\<exists>c. set_changes_for tb curs (n, s) =
        [\<lparr>sch_table = tb, sch_name = n, sch_kind = SetModify, sch_elements = ps_elements s, sch_current = ps_elements c\<rparr>] \<and>
        dict_get curs n = Some c \<and> ps_type c = ps_type s \<and> ps_flags c = ps_flags s)"
  using assms by (auto simp: set_changes_for_def set_agrees_def Let_def split: option.splits if_splits)

lemma set_changes_names:
  assumes "distinct (map fst ds)"
    and "\<And>n s. (n, s) \<in> set ds \<Longrightarrow> list_all (\<lambda>sc. sch_kind sc \<noteq> SetRemove) (set_changes_for tb curs (n, s))"
  shows "distinct (map sch_name (concat (map (set_changes_for tb curs) ds))) \<and>
     set (map sch_name (concat (map (set_changes_for tb curs) ds))) \<subseteq> set (map fst ds)"
  using assms
proof (induction ds)
  case (Cons d ds)
  obtain n s where d: "d = (n, s)" by force
  have "list_all (\<lambda>sc. sch_kind sc \<noteq> SetRemove) (set_changes_for tb curs (n, s))" using Cons.prems(2) d by simp
  then have "map sch_name (set_changes_for tb curs d) = [] \<or> map sch_name (set_changes_for tb curs d) = [n]"
    using set_changes_for_safe [of tb curs n s] d by auto
  moreover define N where "N = map sch_name (concat (map (set_changes_for tb curs) ds))"
  have N: "distinct N" "set N \<subseteq> set (map fst ds)" unfolding N_def using Cons by auto
  have "map sch_name (concat (map (set_changes_for tb curs) (d # ds))) = map sch_name (set_changes_for tb curs d) @ N"
    by (simp add: N_def)
  moreover have "n \<notin> set N" using N(2) Cons.prems(1) d by auto
  ultimately show ?case using N d by (elim disjE) (auto simp del: map_append map_concat)
qed simp

section \<open>The delta as a whole\<close>

text \<open>
  What a listing of the live table gives: names without blanks, base chains with a priority, and
  elements in the stored form.
\<close>

definition live_table :: "parsed_table \<Rightarrow> bool" where
  "live_table t \<longleftrightarrow>
     dict_ok (pt_chains t) \<and> dict_ok (pt_sets t) \<and>
     list_all (\<lambda>(n, c). plain_word n \<and> (is_builtin c \<longrightarrow> header_priority_of (pc_policy c) \<noteq> None)) (pt_chains t) \<and>
     list_all (\<lambda>(n, s). name_word n \<and> list_all stable_element (ps_elements s)) (pt_sets t)"

text \<open>No live user chain is to become a base chain, and the desired elements are in the stored form.\<close>

definition compatible :: "parsed_table \<Rightarrow> parsed_table \<Rightarrow> bool" where
  "compatible cur des \<longleftrightarrow>
     list_all (\<lambda>(n, c). case chain_at des n of None \<Rightarrow> True | Some d \<Rightarrow> is_builtin d \<longrightarrow> is_builtin c) (pt_chains cur) \<and>
     list_all (\<lambda>(n, s). list_all stable_element (ps_elements s)) (pt_sets des)"

definition set_converged :: "parsed_set option \<Rightarrow> parsed_set option \<Rightarrow> bool" where
  "set_converged x y =
     (case (x, y) of
        (None, None) \<Rightarrow> True
      | (Some s, Some des) \<Rightarrow>
          ps_type s = ps_type des \<and> ps_flags s = ps_flags des \<and>
          (set_is_dynamic des \<or> set (ps_elements s) = set (ps_elements des))
      | _ \<Rightarrow> False)"

definition converged :: "parsed_table \<Rightarrow> parsed_table \<Rightarrow> bool" where
  "converged t des \<longleftrightarrow>
     (\<forall>n. chain_at t n = chain_at des n) \<and> (\<forall>n. set_converged (set_at t n) (set_at des n))"

lemma live_chain: "live_table t \<Longrightarrow> chain_at t n = Some c \<Longrightarrow>
    plain_word n \<and> (is_builtin c \<longrightarrow> header_priority_of (pc_policy c) \<noteq> None)"
  using pair_in_dict [of "pt_chains t" n c] by (auto simp: live_table_def chain_at_def list_all_iff)

lemma live_set: "live_table t \<Longrightarrow> set_at t n = Some s \<Longrightarrow> name_word n \<and> list_all stable_element (ps_elements s)"
  using pair_in_dict [of "pt_sets t" n s] by (auto simp: live_table_def set_at_def list_all_iff)

lemma compatible_kinds:
  assumes "live_table cur" and "compatible cur des" and "chain_at des n = Some d"
  shows "kinds_match (chain_at cur n) (Some d)"
proof (cases "chain_at cur n")
  case (Some c)
  then have "(n, c) \<in> set (pt_chains cur)"
    using assms(1) pair_in_dict [of "pt_chains cur" n c] by (simp add: live_table_def chain_at_def)
  then have "is_builtin d \<longrightarrow> is_builtin c" using assms(2,3) by (auto simp: compatible_def list_all_iff)
  then show ?thesis using live_chain [OF assms(1) Some] Some by (auto simp: kinds_match_def)
qed (simp add: kinds_match_def)

lemma set_phase:
  assumes live: "live_table cur" and comp: "compatible cur des" and m: "index_matches family seen des ix"
    and d: "d = table_diff cur des (empty_diff False e)" and safe: "\<not> delta_unsafe d" and fam: "name_word family"
  shows "\<exists>ls t. emit_set_changes family cur ix d = Inr ls \<and> run_commands_on family ls cur = Inr t \<and>
           pt_chains t = pt_chains cur \<and> (\<forall>n. set_converged (set_at t n) (set_at des n))"
proof -
  let ?for = "set_changes_for NFT_TABLE_NAME (pt_sets cur)"
  have ok: "dict_ok (pt_sets des)" using m by (simp add: index_matches_def)
  have sets: "pd_sets d = concat (map ?for (pt_sets des)) @ set_removals NFT_TABLE_NAME (pt_sets cur) (pt_sets des)"
    by (simp add: d table_diff_sets)
  have all: "\<forall>sc \<in> set (pd_sets d). sch_kind sc \<noteq> SetRemove" using safe by (auto simp: delta_unsafe_def list_ex_iff)
  have none_left: "set_removals NFT_TABLE_NAME (pt_sets cur) (pt_sets des) = []"
  proof -
    have "\<forall>sc \<in> set (set_removals NFT_TABLE_NAME (pt_sets cur) (pt_sets des)). sch_kind sc = SetRemove"
      by (auto simp: set_removals_def)
    then show ?thesis
      using all by (cases "set_removals NFT_TABLE_NAME (pt_sets cur) (pt_sets des)") (auto simp: sets)
  qed
  have one: "list_all (\<lambda>sc. sch_kind sc \<noteq> SetRemove) (?for (n, s))" if "(n, s) \<in> set (pt_sets des)" for n s
    using all that by (auto simp: sets list_all_iff)
  let ?scs = "sort_key sch_name (pd_sets d)"
  have "distinct (map sch_name (pd_sets d))"
    using set_changes_names [OF _ one] ok by (simp add: sets none_left dict_ok_def)
  moreover have "mset (map sch_name ?scs) = mset (map sch_name (pd_sets d))" by simp
  ultimately have distinct: "distinct (map sch_name ?scs)" using mset_eq_imp_distinct_iff by blast
  have in_des: "(n, s) \<in> set (pt_sets des) \<longleftrightarrow> set_at des n = Some s" for n s
    using pair_in_dict [OF ok] by (simp add: set_at_def)
  have stable: "list_all stable_element (ps_elements s)" if "set_at des n = Some s" for n s
    using comp in_des [THEN iffD2, OF that] by (auto simp: compatible_def list_all_iff)
  have good: "set_change_ok family ix cur des sc" if "sc \<in> set ?scs" for sc
  proof -
    obtain n s where ns: "(n, s) \<in> set (pt_sets des)" "sc \<in> set (?for (n, s))"
      using \<open>sc \<in> set ?scs\<close> by (auto simp: sets none_left)
    have "makes_set family ix n s" using m ns(1) in_des by (auto simp: index_matches_def)
    then show ?thesis
      using set_changes_for_safe [OF one [OF ns(1)]] ns in_des stable live_set [OF live]
      by (auto simp: set_change_ok_def set_at_def)
  qed
  obtain lss t where run: "mapR (set_change_lines family (pt_sets cur) ix) ?scs = Inr lss"
      "run_commands_on family (concat lss) cur = Inr t" "pt_chains t = pt_chains cur"
      "\<forall>n. if n \<in> sch_name ` set ?scs then \<exists>s. set_at t n = Some s \<and> set_reached s (the (set_at des n))
           else set_at t n = set_at cur n"
    using run_set_changes [OF distinct fam, of ix cur des cur] good by auto
  have "set_converged (set_at t n) (set_at des n)" for n
  proof (cases "n \<in> sch_name ` set ?scs")
    case True
    then obtain sc where "sc \<in> set ?scs" "n = sch_name sc" by blast
    then have "set_at des n \<noteq> None" using good [of sc] by (auto simp: set_change_ok_def split: option.splits)
    moreover have "\<exists>s. set_at t n = Some s \<and> set_reached s (the (set_at des n))" using run(4) True by presburger
    ultimately show ?thesis by (auto simp: set_converged_def set_reached_def)
  next
    case False
    then have same: "set_at t n = set_at cur n" using run(4) by presburger
    show ?thesis
    proof (cases "set_at des n")
      case None
      then have "set_at cur n = None"
        using none_left dict_has_iff [of "pt_sets cur" n] dict_has_iff [of "pt_sets des" n]
        by (auto simp: set_removals_def filter_empty_conv set_at_def dict_has_def)
      then show ?thesis using None same by (simp add: set_converged_def)
    next
      case (Some s)
      then have ns: "(n, s) \<in> set (pt_sets des)" using in_des by simp
      have "sch_name x \<noteq> n" if "x \<in> set (?for (n, s))" for x
        using False ns that by (force simp: sets none_left)
      then have "?for (n, s) = []" using set_changes_for_safe [OF one [OF ns]] by auto
      then have "set_agrees (set_at cur n) s" by (simp add: set_changes_none set_at_def)
      then show ?thesis using Some same by (auto simp: set_converged_def set_agrees_def split: option.splits)
    qed
  qed
  then show ?thesis using run by (auto simp: emit_set_changes_def)
qed

lemma chain_phase:
  assumes live: "live_table cur" and comp: "compatible cur des" and m: "index_matches family seen des ix"
    and d: "d = table_diff cur des (empty_diff False e)" and fam: "plain_word family"
    and t: "chain_at t = chain_at cur"
  shows "\<exists>t'. run_commands_on family (emit_chain_changes family cur ix d) t = Inr t' \<and> pt_sets t' = pt_sets t \<and>
           chain_at t' = chain_at des"
proof -
  let ?ns = "sort (dict_keys (ix_chain_decl ix))"
  have ok: "dict_ok (pt_chains des)" and cur_ok: "dict_ok (pt_chains cur)"
    using m live by (simp_all add: index_matches_def live_table_def)
  have ns: "distinct ?ns" "n \<in> set ?ns \<longleftrightarrow> chain_at des n \<noteq> None" for n
    using m dict_has_iff [of "ix_chain_decl ix" n] by (auto simp: index_matches_def dict_ok_def dict_keys_def)
  have each: "plain_word n \<and> makes_chain family ix n (the (chain_at des n)) \<and>
      kinds_match (chain_at cur n) (Some (the (chain_at des n))) \<and> chain_recorded d cur n (the (chain_at des n))"
    if in_ns: "n \<in> set ?ns" for n
  proof -
    obtain c where c: "chain_at des n = Some c" using ns(2) [of n] in_ns by auto
    then show ?thesis
      using m compatible_kinds [OF live comp c] table_diff_names [OF ok c d]
      by (simp add: index_matches_def chain_recorded_def)
  qed
  have "\<And>n. n \<in> set ?ns \<Longrightarrow> chain_at t n = chain_at cur n" by (simp add: t)
  from run_all_chain_lines [OF ns(1) fam each this]
  obtain t1 where t1: "run_commands_on family (concat (map (chain_lines family cur ix d) ?ns)) t = Inr t1"
      "pt_sets t1 = pt_sets t" "chain_at t1 = (\<lambda>k. if k \<in> set ?ns then Some (the (chain_at des k)) else chain_at t k)"
    by blast
  let ?left = "\<lambda>p. sort (map fst (filter (\<lambda>(n, c). \<not> dict_has (pt_chains des) n \<and> p c) (pt_chains cur)))"
  have left: "distinct (?left p)" "n \<in> set (?left p) \<longleftrightarrow> chain_at des n = None \<and> (\<exists>c. chain_at cur n = Some c \<and> p c)" for p n
    using cur_ok pair_in_dict [OF cur_ok]
    by (auto simp: dict_ok_def distinct_map_filter dict_has_chain chain_at_def [symmetric] image_iff split: prod.splits)
  have at1: "chain_at t1 n = (case chain_at des n of None \<Rightarrow> chain_at cur n | Some c \<Rightarrow> Some c)" for n
    using ns(2) [of n] t by (auto simp: t1(3) split: option.split)
  have "plain_word n \<and> chain_at t1 n \<noteq> None" if "n \<in> set (?left p)" for n p
    using that live_chain [OF live, of n] at1 [of n] unfolding left(2) by auto
  from run_deletions [OF left(1) fam this, of is_builtin]
  obtain t2 where t2: "run_commands_on family (map (delete_chain family) (?left is_builtin)) t1 = Inr t2"
      "pt_sets t2 = pt_sets t1" "chain_at t2 = (\<lambda>k. if k \<in> set (?left is_builtin) then None else chain_at t1 k)"
    by auto
  have "plain_word n \<and> chain_at t2 n \<noteq> None" if in_left: "n \<in> set (?left (\<lambda>c. \<not> is_builtin c))" for n
  proof -
    obtain c where c: "chain_at des n = None" "chain_at cur n = Some c" "\<not> is_builtin c"
      using in_left unfolding left(2) by blast
    then have "n \<notin> set (?left is_builtin)" unfolding left(2) by simp
    then show ?thesis using live_chain [OF live c(2)] at1 [of n] c by (simp add: t2(3) del: set_sort)
  qed
  from run_deletions [OF left(1) [of "\<lambda>c. \<not> is_builtin c"] fam this]
  obtain t3 where t3: "run_commands_on family (map (delete_chain family) (?left (\<lambda>c. \<not> is_builtin c))) t2 = Inr t3"
      "pt_sets t3 = pt_sets t2" "chain_at t3 = (\<lambda>k. if k \<in> set (?left (\<lambda>c. \<not> is_builtin c)) then None else chain_at t2 k)"
    by blast
  have "chain_at t3 n = chain_at des n" for n
    unfolding t3(3) t2(3) left(2) using at1 [of n] by (cases "chain_at des n"; cases "chain_at cur n") auto
  moreover have "emit_chain_changes family cur ix d =
      concat (map (chain_lines family cur ix d) ?ns) @ map (delete_chain family) (?left is_builtin) @
      map (delete_chain family) (?left (\<lambda>c. \<not> is_builtin c))"
    using table_diff_left [OF d] by (simp add: emit_chain_changes_def)
  ultimately show ?thesis using t1 t2 t3 by auto
qed


end
