(* ===== verification/Ferm_Delta_Sample.thy ===== *)
theory Ferm_Delta_Sample
  imports Ferm_Delta_Safe
begin

text \<open>
  A sample of a delta, and what a delta leaves out: a chain that is new and has no rules.
\<close>

section \<open>A sample\<close>

definition lines_text :: "string list \<Rightarrow> string" where
  "lines_text ls = concat (map (\<lambda>l. l @ [NL]) ls)"

definition delta_save :: string where
  "delta_save = lines_text
     [''add table ip ferm'', ''add set ip ferm s { type inet_service; }'', ''add element ip ferm s { 22, 80 }'',
      ''add chain ip ferm I { type filter hook input priority 0; policy drop; }'', ''add chain ip ferm J'',
      ''add rule ip ferm J accept'', ''add rule ip ferm I jump J'']"

definition delta_header :: "string \<Rightarrow> string" where
  "delta_header p = ''type filter hook input priority 0 policy '' @ p"

definition delta_set :: "string list \<Rightarrow> parsed_set" where
  "delta_set els = \<lparr>ps_name = ''s'', ps_elements = els, ps_type = Some ''inet_service'', ps_flags = []\<rparr>"

definition delta_desired :: parsed where
  "delta_desired =
     [(''ferm'',
       \<lparr>pt_chains = [(''I'', \<lparr>pc_policy = delta_header ''drop'', pc_rules = [''jump J'']\<rparr>),
                      (''J'', \<lparr>pc_policy = ''-'', pc_rules = [''accept'']\<rparr>)],
        pt_sets = [(''s'', delta_set [''22'', ''80''])], pt_objects = []\<rparr>)]"

definition delta_live :: parsed_table where
  "delta_live =
     \<lparr>pt_chains = [(''I'', \<lparr>pc_policy = delta_header ''accept'', pc_rules = []\<rparr>),
                    (''OLD'', \<lparr>pc_policy = ''-'', pc_rules = [''drop'']\<rparr>)],
      pt_sets = [(''s'', delta_set [''22'', ''443''])], pt_objects = []\<rparr>"

definition delta_index :: desired_index where
  "delta_index =
     \<lparr>ix_chain_decl = [(''I'', ''add chain ip ferm I { type filter hook input priority 0; policy drop; }''),
                        (''J'', ''add chain ip ferm J'')],
      ix_chain_rules = [(''J'', [''add rule ip ferm J accept'']), (''I'', [''add rule ip ferm I jump J''])],
      ix_set_decl = [(''s'', ''add set ip ferm s { type inet_service; }'')],
      ix_set_elements = [(''s'', ''add element ip ferm s { 22, 80 }'')],
      ix_object_decl = []\<rparr>"

definition delta_diff :: plan_diff where
  "delta_diff = diff_tables False [(NFT_TABLE_NAME, delta_live)] delta_desired"

lemma delta_parsed: "parse_nft_script delta_save = Inr delta_desired" by code_simp
lemma delta_indexed: "build_desired_index delta_save = Inr delta_index" by code_simp
lemma delta_shape: "rendered_lines (nft_name IP) [] (py_splitlines delta_save)" by code_simp
lemma delta_stable: "list_all stable_element [''22'', ''443'', ''80'']" by code_simp
lemma delta_live_ok: "live_table delta_live" by code_simp
lemma delta_compatible: "compatible delta_live (ferm_of delta_desired)" by code_simp
lemma delta_changes: "has_changes delta_diff \<and> \<not> delta_unsafe delta_diff" by code_simp

text \<open>An nft that looks up jump targets, and a delta it accepts: the new chain is named before the old.\<close>

definition lines_jump_to :: "string list \<Rightarrow> string list" where
  "lines_jump_to ws = map snd (filter (\<lambda>(v, w). v \<in> {''jump'', ''goto''}) (zip ws (tl ws)))"

definition strict_nft :: nft_tool where
  "strict_nft line t =
     (if list_all (\<lambda>n. dict_has (pt_chains t) n) (lines_jump_to (py_split line))
      then case nft_command (nft_name IP) line t of Inl _ \<Rightarrow> None | Inr t' \<Rightarrow> Some t'
      else None)"

lemma strict_nft_effects: "nft_effects (nft_name IP) strict_nft"
  by (auto simp: nft_effects_def strict_nft_def split: if_splits sum.splits)

definition accepted_save :: string where
  "accepted_save = lines_text
     [''add table ip ferm'', ''add set ip ferm s { type inet_service; }'', ''add element ip ferm s { 22, 80 }'',
      ''add chain ip ferm I { type filter hook input priority 0; policy drop; }'', ''add chain ip ferm A'',
      ''add rule ip ferm A accept'', ''add rule ip ferm I jump A'']"

definition accepted_desired :: parsed where
  "accepted_desired =
     [(''ferm'',
       \<lparr>pt_chains = [(''I'', \<lparr>pc_policy = delta_header ''drop'', pc_rules = [''jump A'']\<rparr>),
                      (''A'', \<lparr>pc_policy = ''-'', pc_rules = [''accept'']\<rparr>)],
        pt_sets = [(''s'', delta_set [''22'', ''80''])], pt_objects = []\<rparr>)]"

definition accepted_index :: desired_index where
  "accepted_index =
     \<lparr>ix_chain_decl = [(''I'', ''add chain ip ferm I { type filter hook input priority 0; policy drop; }''),
                        (''A'', ''add chain ip ferm A'')],
      ix_chain_rules = [(''A'', [''add rule ip ferm A accept'']), (''I'', [''add rule ip ferm I jump A''])],
      ix_set_decl = [(''s'', ''add set ip ferm s { type inet_service; }'')],
      ix_set_elements = [(''s'', ''add element ip ferm s { 22, 80 }'')],
      ix_object_decl = []\<rparr>"

definition accepted_diff :: plan_diff where
  "accepted_diff = diff_tables False [(NFT_TABLE_NAME, delta_live)] accepted_desired"

lemma accepted_parsed: "parse_nft_script accepted_save = Inr accepted_desired" by code_simp
lemma accepted_indexed: "build_desired_index accepted_save = Inr accepted_index" by code_simp
lemma accepted_shape: "rendered_lines (nft_name IP) [] (py_splitlines accepted_save)" by code_simp
lemma accepted_compatible: "compatible delta_live (ferm_of accepted_desired)" by code_simp
lemma accepted_changes: "has_changes accepted_diff \<and> \<not> delta_unsafe accepted_diff" by code_simp

lemma accepted_loads:
  "(case delta_lines (nft_name IP) delta_live accepted_index accepted_diff of
      Inl _ \<Rightarrow> False | Inr ls \<Rightarrow> nft_loads strict_nft ls delta_live \<noteq> None)"
  by code_simp


text \<open>
  A delta lists its chains by name: the rule that jumps to a new chain comes before the chain is
  declared, when the name of the new chain is the later one. nft looks a jump target up when it reads
  the rule, so it refuses this order; the script of a full reload declares all chains first.
\<close>

theorem jump_before_declaration:
  "emit_chain_changes (nft_name IP) delta_live delta_index delta_diff =
     [''add chain ip ferm I { type filter hook input priority 0; policy drop; }'',
      ''flush chain ip ferm I'', ''add rule ip ferm I jump J'',
      ''add chain ip ferm J'', ''add rule ip ferm J accept'', ''delete chain ip ferm OLD'']"
  by code_simp

section \<open>A chain without rules\<close>

lemma table_agrees_self: "dict_ok (pt_chains t) \<Longrightarrow> dict_ok (pt_sets t) \<Longrightarrow> table_agrees t t"
  by (auto simp: table_agrees_def list_all_iff chain_agrees_def set_agrees_def dict_has_iff dict_keys_def pair_in_dict)



end
