(* ===== verification/Ferm_Nft_Commit.thy ===== *)
theory Ferm_Nft_Commit
  imports Ferm_Delta_Sample Ferm_Apply_Safe
begin

text \<open>
  The commit of the nft backend (\<^verbatim>\<open>backend/nft/backend.py\<close>): a delta against the captured table, or a
  replacement of the whole table. The backend meets the contract of the orchestration; what renders a
  family is an argument here.
\<close>

section \<open>The text to apply\<close>

text \<open>\<^verbatim>\<open>str.replace(old, new, 1)\<close>\<close>

fun replace_first :: "string \<Rightarrow> string \<Rightarrow> string \<Rightarrow> string" where
  "replace_first old new [] = (if old = [] then new else [])"
| "replace_first old new (c # s) =
     (if starts_with old (c # s) then new @ drop (length old) (c # s) else c # replace_first old new s)"

definition full_reload_text :: "string \<Rightarrow> string \<Rightarrow> string" where
  "full_reload_text save family =
     (let p = ferm_prefix family
      in replace_first (''flush table '' @ p @ [NL])
           (''delete table '' @ p @ [NL] @ ''add table '' @ p @ [NL]) save)"

definition reload_text :: "family \<Rightarrow> string \<Rightarrow> options \<Rightarrow> string" where
  "reload_text fam save opts =
     (if opt_noflush opts then save else full_reload_text save (nft_name fam))"

definition apply_text :: "family \<Rightarrow> domain_info \<Rightarrow> string \<Rightarrow> options \<Rightarrow> string res" where
  "apply_text fam di save opts =
     (if opt_full_reload opts \<or> needs_full_reload (di_previous di) then Inr (reload_text fam save opts)
      else bindR (build_nft_delta (nft_name fam) (the (di_previous di)) save) (\<lambda>delta.
             Inr (case delta of Some t \<Rightarrow> t | None \<Rightarrow> reload_text fam save opts)))"

section \<open>Commit\<close>

definition show_nft_text :: "domain_info \<Rightarrow> string \<Rightarrow> options \<Rightarrow> emitter \<Rightarrow> unit act" where
  "show_nft_text di t opts emit =
     (if opt_lines opts \<and> t \<noteq> []
      then (case dict_get (di_tools di) TOOL_NFT of
              None \<Rightarrow> stopA (Raised PyKeyError)
            | Some tool \<Rightarrow>
                thenA (whenA (opt_shell opts) (emit (tool @ '' -f - <<EOT'' @ [NL])))
                (thenA (emit t) (whenA (opt_shell opts) (emit (''EOT'' @ [NL])))))
      else retA ())"

definition commit_text :: "domain_info \<Rightarrow> string \<Rightarrow> options \<Rightarrow> emitter \<Rightarrow> restorer \<Rightarrow> int option act" where
  "commit_text di t opts emit rst =
     thenA (show_nft_text di t opts emit)
       (if opt_noexec opts \<or> t = [] then retA None
        else catchA (thenA (rst di t) (retA None))
               (\<lambda>e. thenA (sayA (Stderr (failure_text e @ [NL]))) (retA (Some 1))))"

definition nft_commit ::
  "family \<Rightarrow> domain_info \<Rightarrow> rendered \<Rightarrow> options \<Rightarrow> executor \<Rightarrow> emitter \<Rightarrow> restorer \<Rightarrow> int option act" where
  "nft_commit fam di r opts ex emit rst =
     (case r of
        Commands cs \<Rightarrow> stopA (Raised internal_error_default)
      | Save save \<Rightarrow> bindA (liftA (apply_text fam di save opts)) (\<lambda>t. commit_text di t opts emit rst))"

definition nft_tool_names :: "family \<Rightarrow> (string, string) dict" where
  "nft_tool_names fam = [(''nft'', ''nft'')]"

definition nft_backend :: "(family \<Rightarrow> domain_info \<Rightarrow> options \<Rightarrow> rendered res) \<Rightarrow> backend" where
  "nft_backend rnd =
     \<lparr>bk_tool_names = nft_tool_names, bk_render = rnd, bk_commit = nft_commit,
      bk_rollback = nft_rollback, bk_snapshot = nft_shell_snapshot, bk_notice = Some nft_rollback_notice\<rparr>"

section \<open>The contract of a backend\<close>

definition nft_live :: "options \<Rightarrow> bool" where
  "nft_live opts \<longleftrightarrow> opt_nft opts \<and> \<not> opt_noexec opts"

text \<open>The text was checked and loaded by nft, or the delta was empty.\<close>

definition nft_loaded :: "domain_info \<Rightarrow> string \<Rightarrow> os \<Rightarrow> event list \<Rightarrow> bool" where
  "nft_loaded di t os h \<longleftrightarrow>
     (\<exists>path. dict_get (di_tools di) TOOL_NFT = Some path \<and> succeeded os h (Pipe [path, ''-f'', ''-''] t))"

definition nft_installed :: "options \<Rightarrow> family \<Rightarrow> domain_info \<Rightarrow> rendered \<Rightarrow> os \<Rightarrow> event list \<Rightarrow> bool" where
  "nft_installed opts fam di r os h \<longleftrightarrow>
     (case r of
        Commands cs \<Rightarrow> False
      | Save save \<Rightarrow> \<exists>t. apply_text fam di save opts = Inr t \<and> (t = [] \<or> nft_loaded di t os h))"

definition nft_restored :: "options \<Rightarrow> family \<Rightarrow> domain_info \<Rightarrow> os \<Rightarrow> event list \<Rightarrow> bool" where
  "nft_restored opts fam di os h \<longleftrightarrow>
     (case di_previous di of
        Some (c # p) \<Rightarrow> nft_loaded di (c # p) os h
      | _ \<Rightarrow> \<exists>tool. dict_get (di_tools di) TOOL_NFT = Some tool \<and>
          process_of (tool @ '' delete table '' @ nft_table fam) \<in> set h)"

lemma nft_restore_success:
  assumes "nft_restore di t os h = (Inr u, h')"
  shows "nft_loaded di t os h'"
proof -
  obtain path h1 where path: "dict_get (di_tools di) TOOL_NFT = Some path"
      and run: "bindA (spawnA (Pipe [path, ''-f'', ''-''] t) [path]) (\<lambda>r.
             case r of
               Unspawnable e \<Rightarrow> stopA (run_failed path e)
             | Finished ret _ _ \<Rightarrow>
                 if ret \<noteq> 0 then stopA (Raised (Died (''Failed to run '' @ path))) else retA ()) os h1 = (Inr u, h')"
    using assms by (auto simp: nft_restore_def thenA_Inr split: option.splits)
  let ?e = "Pipe [path, ''-f'', ''-''] t"
  have "succeeded os h' ?e"
  proof (cases "os (?e # h1)")
    case (Finished ret out err)
    then have "ret = 0" "h' = ?e # h1" using run by (auto simp: run_iffs bindA_Inr spawnA_Inr split: if_splits)
    then show ?thesis using Finished succeeded_now by blast
  next
    case (Unspawnable e)
    then show ?thesis using run by (auto simp: run_iffs bindA_Inr spawnA_Inr)
  qed
  then show ?thesis using path by (auto simp: nft_loaded_def)
qed

lemma liftA_Inr: "liftA r os h = (Inr x, h') \<longleftrightarrow> r = Inr x \<and> h' = h"
  by (auto simp: liftA_iff split: sum.splits)

lemma show_nft_text_always:
  assumes "\<And>t. always R (sayA (Emit t))"
  shows "always R (show_nft_text di t opts emit_line)"
  unfolding show_nft_text_def emit_line_def by (auto split: option.splits intro!: runs assms)

lemma nft_commit_always:
  assumes "\<And>t. always R (sayA (Emit t))" and "\<And>t. always R (sayA (Stderr t))"
    and "\<And>t. \<not> opt_noexec opts \<Longrightarrow> always R (rst di t)"
  shows "always R (nft_commit fam di r opts ex emit_line rst)"
  unfolding nft_commit_def commit_text_def
  by (auto split: rendered.splits intro!: runs show_nft_text_always assms)

lemma nft_commit_calm: "calm (nft_commit fam di r opts (execute opts) emit_line (restore_rules opts))"
  unfolding nft_commit_def commit_text_def show_nft_text_def
  by (auto split: rendered.splits option.splits intro!: calms)

lemma nft_rollback_grows: "grows (nft_rollback fam di opts (execute opts) (restore_rules opts))"
  unfolding nft_rollback_def by (auto split: option.splits list.splits intro!: runs)

lemma nft_rollback_calm: "calm (nft_rollback fam di opts (execute opts) (restore_rules opts))"
  unfolding nft_rollback_def by (auto split: option.splits list.splits intro!: calms)

lemma nft_rollback_restores:
  assumes "nft_live opts" and "di_enabled di"
    and "nft_rollback fam di opts (execute opts) (restore_rules opts) os h = (Inr x, h')"
  shows "nft_restored opts fam di os h'"
proof (cases "di_previous di")
  case None
  then show ?thesis using assms
    by (auto simp: nft_rollback_def nft_restored_def nft_live_def bindA_Inr dest!: execute_started split: option.splits)
next
  case (Some p)
  show ?thesis
  proof (cases p)
    case Nil
    then show ?thesis using assms Some
      by (auto simp: nft_rollback_def nft_restored_def nft_live_def bindA_Inr dest!: execute_started split: option.splits)
  next
    case (Cons c q)
    then show ?thesis using assms Some
      by (auto simp: nft_rollback_def nft_restored_def nft_live_def restore_rules_def dest: nft_restore_success)
  qed
qed

lemma nft_commit_installs:
  assumes "nft_live opts" and "nft_commit fam di r opts (execute opts) emit_line (restore_rules opts) os h = (Inr None, h')"
  shows "nft_installed opts fam di r os h'"
  using assms
  by (cases r) (auto simp: nft_commit_def commit_text_def nft_installed_def nft_live_def restore_rules_def run_iffs
      thenA_Inr catchA_Inr bindA_Inr liftA_Inr dest: nft_restore_success split: if_splits)

lemma nft_commit_dry_status:
  assumes "opt_noexec opts" and "nft_commit fam di r opts ex emit rst os h = (Inr st, h')"
  shows "st = None"
  using assms by (cases r) (auto simp: nft_commit_def commit_text_def run_iffs thenA_Inr bindA_Inr)

interpretation nft: backend_contract "nft_backend rnd" nft_live nft_installed nft_restored for rnd
proof (unfold_locales, goal_cases)
  case (1 fam di r opts)
  then show ?case unfolding nft_backend_def by simp (auto intro!: nft_commit_always runs)
next
  case (5 opts fam di r)
  then show ?case unfolding nft_backend_def by simp (auto intro!: nft_commit_always runs)
next
  case (6 opts fam di r os h st h')
  then show ?case using nft_commit_dry_status by (auto simp: nft_backend_def)
next
  case (9 opts fam di r os h new)
  then show ?case by (cases r) (auto simp: nft_installed_def nft_loaded_def intro: succeeded_later)
next
  case (10 opts fam di os h new)
  then show ?case
    by (auto simp: nft_restored_def nft_loaded_def intro: succeeded_later split: option.splits list.splits)
qed (auto simp: nft_backend_def intro: nft_commit_calm nft_rollback_grows nft_rollback_calm nft_commit_installs
    nft_rollback_restores)

text \<open>
  C33: A live run of the nft backend that ends normally has brought every enabled family to nft: the
  text chosen for the family, the delta or the whole replacement, was loaded by nft with exit status
  0, or the delta was empty; in the interactive mode the administrator has typed \<^verbatim>\<open>yes\<close>.
\<close>

theorem nft_applied_means_loaded:
  assumes "opt_nft opts" and "\<not> opt_noexec opts"
    and "apply_rules (nft_backend rnd) opts ds hk (commit_history opts which message) os h = (Inr (), h')"
  shows "(\<forall>(fam, di) \<in> set (enabled_domains ds). \<exists>save t.
      rnd fam di opts = Inr (Save save) \<and> apply_text fam di save opts = Inr t \<and> (t = [] \<or> nft_loaded di t os h')) \<and>
    (opt_interactive opts \<longrightarrow> confirmed opts os h')"
proof -
  have "(\<forall>(fam, di) \<in> set (enabled_domains ds). \<exists>r. rnd fam di opts = Inr r \<and> nft_installed opts fam di r os h') \<and>
      (opt_interactive opts \<longrightarrow> confirmed opts os h')"
    using nft.apply_ends [of opts "commit_history opts which message" rnd ds hk os h "()" h'] assms
    by (simp add: nft_live_def commit_history_grows nft_backend_def)
  then show ?thesis by (fastforce simp: nft_installed_def split: rendered.splits)
qed

definition nft_sample_di :: "string option \<Rightarrow> domain_info" where
  "nft_sample_di previous = new_domain\<lparr>di_initialized := True, di_enabled := True,
     di_tools := [(TOOL_NFT, ''nft'')], di_previous := previous\<rparr>"

definition nft_sample_save :: string where
  "nft_sample_save = lines_text
     [''add table ip ferm'', ''flush table ip ferm'',
      ''add chain ip ferm I { type filter hook input priority 0; policy drop; }'', ''add rule ip ferm I accept'']"

definition nft_sample_reload :: string where
  "nft_sample_reload = lines_text
     [''add table ip ferm'', ''delete table ip ferm'', ''add table ip ferm'',
      ''add chain ip ferm I { type filter hook input priority 0; policy drop; }'', ''add rule ip ferm I accept'']"

lemma nft_applied_means_loaded_witness:
  "\<exists>h'. apply_rules (nft_backend (\<lambda>_ _ _. Inr (Save nft_sample_save))) (default_options\<lparr>opt_nft := True\<rparr>)
        [(IP, nft_sample_di None)] no_hooks (commit_history (default_options\<lparr>opt_nft := True\<rparr>) None [])
        (failing_os 0 []) [] = (Inr (), h') \<and>
      nft_loaded (nft_sample_di None) nft_sample_reload (failing_os 0 []) h'"
proof -
  let ?opts = "default_options\<lparr>opt_nft := True\<rparr>" and ?ds = "[(IP, nft_sample_di None)]"
  let ?rnd = "\<lambda>_ _ _. Inr (Save nft_sample_save)"
  let ?run = "apply_rules (nft_backend ?rnd) ?opts ?ds no_hooks (commit_history ?opts None []) (failing_os 0 []) []"
  have "fst ?run = Inr ()" by code_simp
  then obtain h' where run: "?run = (Inr (), h')" by (metis prod.collapse)
  have ds: "enabled_domains ?ds = ?ds" by code_simp
  have chosen: "apply_text IP (nft_sample_di None) nft_sample_save ?opts = Inr nft_sample_reload" by code_simp
  have opts: "opt_nft ?opts" "\<not> opt_noexec ?opts" by (simp_all add: default_options_def)
  have "nft_sample_reload \<noteq> []" by code_simp
  with nft_applied_means_loaded [OF opts run] show ?thesis using run by (auto simp: ds chosen)
qed

text \<open>
  Under \<^verbatim>\<open>--noflush\<close> the nft backend deletes what is live and not in the configuration: unless
  \<^verbatim>\<open>--full-reload\<close> is given as well, the text applied is the delta, which ignores the option; only the
  full reload is append-only.
\<close>

theorem noflush_delta_deletes:
  "apply_text IP (nft_sample_di (Some (lines_text [''table ip ferm {'', ''chain OLD {'', ''drop'', ''}'', ''}''])))
     nft_sample_save (default_options\<lparr>opt_nft := True, opt_noflush := True\<rparr>) =
   Inr (lines_text
     [''add table ip ferm'', ''add chain ip ferm I { type filter hook input priority 0; policy drop; }'',
      ''add rule ip ferm I accept'', ''delete chain ip ferm OLD''])"
  by code_simp

end
