(* ===== verification/Ferm_Nft_Render.thy ===== *)
theory Ferm_Nft_Render
  imports Ferm_Nft_Assemble Ferm_Nft_Collapse Ferm_Nft_Decls Ferm_Nft_Commit
begin

text \<open>
  The renderer of the nft backend, \<^verbatim>\<open>NftBackend.render\<close> of \<^verbatim>\<open>src/src/pyferm/backend/nft/backend.py\<close>: a
  domain becomes one script for \<^verbatim>\<open>nft -f\<close>, in which every table of ferm is a group of chains of the
  one table \<^verbatim>\<open>ferm\<close> of the family.
\<close>

definition all_rules :: "domain_info \<Rightarrow> rendered_rule list" where
  "all_rules di =
     concat (map (\<lambda>(n, ti). concat (map (\<lambda>(c, ci). ci_rules ci) (ti_chains ti))) (di_tables di))"

definition render_chain ::
  "nft_host \<Rightarrow> family \<Rightarrow> recent_specs \<Rightarrow> string list \<Rightarrow> string \<Rightarrow> string \<times> chain_info \<Rightarrow> nft_rules \<Rightarrow>
     nft_rules res" where
  "render_chain hs fam specs set_targets tbl = (\<lambda>(original, ci) rules.
     bindR (nft_chain_name tbl original) (\<lambda>name.
       if dict_has rules name
       then refuse [''nft chain name collision '', sq name, '' in table ferm'']
       else bindR (mapR (translate_rule hs fam tbl original specs set_targets)
                     (filter (\<lambda>r. \<not> references_empty_named_set r set_targets) (ci_rules ci))) (\<lambda>translated.
            bindR (finalize_connlimit_names fam tbl original translated) (\<lambda>named.
            bindR (collapse_chain_rules named) (\<lambda>folded.
              Inr (dict_set name folded rules))))))"

definition render_table ::
  "nft_host \<Rightarrow> family \<Rightarrow> recent_specs \<Rightarrow> string list \<Rightarrow> string \<times> table_info \<Rightarrow>
     nft_chain list \<times> nft_rules \<Rightarrow> (nft_chain list \<times> nft_rules) res" where
  "render_table hs fam specs set_targets = (\<lambda>(tbl, ti) (cs, rules).
     if ti_preserve_regexes ti \<noteq> [] then refuse [''@preserve not yet supported by nft backend'']
     else bindR (build_chains fam tbl ti) (\<lambda>more.
          bindR (thread (render_chain hs fam specs set_targets tbl) (sort_key fst (ti_chains ti)) rules) (\<lambda>rules'.
            Inr (cs @ more, rules'))))"

definition render_script ::
  "nft_host \<Rightarrow> family \<Rightarrow> domain_info \<Rightarrow> options \<Rightarrow> string res" where
  "render_script hs fam di opts =
     bindR (build_recent_specs fam (all_rules di)) (\<lambda>specs.
     bindR (collect_set_target_names (all_rules di)) (\<lambda>set_targets.
     bindR (thread (render_table hs fam specs set_targets) (sort_key fst (di_tables di)) ([], [])) (\<lambda>(cs, rules).
     bindR (collect_set_declarations hs fam rules) (\<lambda>ds.
       serialize_table (nft_name fam) cs rules ds (opt_noflush opts)))))"

definition nft_render ::
  "nft_host \<Rightarrow> family \<Rightarrow> domain_info \<Rightarrow> options \<Rightarrow> rendered res" where
  "nft_render hs fam di opts = bindR (render_script hs fam di opts) (\<lambda>s. Inr (Save s))"

text \<open>The backend as it stands: \<^verbatim>\<open>NftBackend\<close> with its own renderer.\<close>

definition native_backend :: "nft_host \<Rightarrow> backend" where
  "native_backend hs = nft_backend (nft_render hs)"

end
