(* ===== verification/Ferm_Nft_Sample.thy ===== *)
theory Ferm_Nft_Sample
  imports Ferm_Nft_Render Ferm_Nft_Collapse_Safe
begin

text \<open>
  Scripts of small domains, evaluated: what the renderer makes of rules that share a quota, of rules
  with the same text but not the same key, of negated lookups in an empty set, and of a comment with
  the byte 0x85.
\<close>

definition sample_host :: nft_host where
  "sample_host = \<lparr>nh_service = (\<lambda>_. None), nh_user = (\<lambda>_. None), nh_group = (\<lambda>_. None), nh_text = (\<lambda>_. [])\<rparr>"

definition sample_match :: "string \<Rightarrow> string \<Rightarrow> cfg_value \<Rightarrow> rendered_option" where
  "sample_match module name v = \<lparr>ro_name = name, ro_value = v, ro_kind = KOption, ro_module = Some module\<rparr>"

definition sample_proto :: "string \<Rightarrow> rendered_option" where
  "sample_proto p = \<lparr>ro_name = ''protocol'', ro_value = VStr p, ro_kind = KProto, ro_module = None\<rparr>"

definition sample_interface :: "string \<Rightarrow> rendered_option" where
  "sample_interface i = \<lparr>ro_name = ''in-interface'', ro_value = VStr i, ro_kind = KOption, ro_module = None\<rparr>"

definition sample_mod :: "string \<Rightarrow> rendered_option" where
  "sample_mod m = \<lparr>ro_name = ''match'', ro_value = VStr m, ro_kind = KMatchModule, ro_module = Some m\<rparr>"

definition sample_jump :: "string \<Rightarrow> rendered_option" where
  "sample_jump t = \<lparr>ro_name = ''jump'', ro_value = VStr t, ro_kind = KTarget, ro_module = None\<rparr>"

text \<open>The rules of the chain \<^verbatim>\<open>INPUT\<close> of the table \<^verbatim>\<open>filter\<close>, translated and folded.\<close>

definition folded_rules :: "rendered_option list list \<Rightarrow> nft_rule list res" where
  "folded_rules rs =
     bindR (mapR (\<lambda>os. translate_rule sample_host IP ''filter'' ''INPUT'' [] [] \<lparr>rr_options = os, rr_script = None\<rparr>) rs)
       collapse_chain_rules"

definition keyed_rule :: "(string \<times> string) list \<Rightarrow> nft_statement list \<Rightarrow> nft_rule" where
  "keyed_rule ms ss = \<lparr>nr_statements = map (\<lambda>(k, e). keyed_match k e) ms @ ss, nr_comment = None\<rparr>"

lemmas folding_steps = keyed_rule_def keyed_match_def collapse_chain_rules_def collapse_sets.simps collapse_axis_def
  match_equal_def text_equal_def elements_equal_def merge_run_def plain_match_def vmap_candidate_def bindR_def

text \<open>
  C39: Two rules that differ in one operand only and have a quota each, of the same text, become one rule
  with one quota, whatever the selector, the operands, the quota and the verdict: the folding compares
  quotas by their text. This is not harmless: there are counters with which a packet meets the verdict in
  the written chain and passes the folded one untouched, because the quota the two rules now share is used
  up although that of its own rule is not.
\<close>

theorem quota_shared_by_folding:
  assumes "p \<noteq> q" and "quota \<notin> {keyed_text k p, keyed_text k q}"
  shows "\<exists>r. collapse_chain_rules
        [keyed_rule [(k, p)] [NftQuota quota, NftVerdict v], keyed_rule [(k, q)] [NftQuota quota, NftVerdict v]] = Inr [r] \<and>
      nr_statements r = [with_elements [p, q] (keyed_match k p), NftQuota quota, NftVerdict v] \<and>
      (\<exists>sem. numbered_run sem ends 0
          [keyed_rule [(k, p)] [NftQuota quota, NftVerdict v], keyed_rule [(k, q)] [NftQuota quota, NftVerdict v]] =
            ({quota, v}, ends v) \<and>
        numbered_run sem ends 0 [r] = ({quota}, False))"
proof -
  let ?rs = "[keyed_rule [(k, p)] [NftQuota quota, NftVerdict v], keyed_rule [(k, q)] [NftQuota quota, NftVerdict v]]"
  let ?r = "\<lparr>nr_statements = [with_elements [p, q] (keyed_match k p), NftQuota quota, NftVerdict v], nr_comment = None\<rparr>"
  have folded: "collapse_chain_rules ?rs = Inr [?r]"
    using assms(1) by (simp add: folding_steps)
  let ?sem = "\<lambda>n t. t = keyed_text k q \<or> t = quota \<and> n = Some 1"
  have written_run: "numbered_run ?sem ends 0 ?rs = ({quota, v}, ends v)"
    using assms by (auto simp: keyed_rule_def keyed_match_def plain_match_def match_holds_def keyed_text_def has_state_def
        then_do_def)
  have folded_run: "numbered_run ?sem ends 0 [?r] = ({quota}, False)"
    using assms by (auto simp: keyed_match_def plain_match_def match_holds_def keyed_text_def has_state_def then_do_def)
  show ?thesis
    by (rule exI [of _ ?r], intro conjI exI [of _ ?sem], rule folded, simp, rule written_run, rule folded_run)
qed

definition web_rule :: "string \<Rightarrow> nft_rule" where
  "web_rule p = keyed_rule [(''tcp dport'', p)] [NftQuota ''quota until 10 mbytes'', NftVerdict ''accept'']"

lemma quota_shared_by_folding_witness:
  "\<exists>r. collapse_chain_rules [web_rule ''22'', web_rule ''23''] = Inr [r] \<and>
     rule_text r = Inr ''tcp dport { 22, 23 } quota until 10 mbytes accept''"
proof -
  obtain r where r: "collapse_chain_rules [web_rule ''22'', web_rule ''23''] = Inr [r]"
    using quota_shared_by_folding [of "''22''" "''23''" "''quota until 10 mbytes''" "''tcp dport''" "''accept''"]
    by (auto simp: web_rule_def keyed_text_def)
  have "(case collapse_chain_rules [web_rule ''22'', web_rule ''23''] of
      Inr [r] \<Rightarrow> rule_text r = Inr ''tcp dport { 22, 23 } quota until 10 mbytes accept'' | _ \<Rightarrow> False)"
    by code_simp
  then show ?thesis using r by simp
qed

text \<open>
  C40: A folded match keeps the text of its first rule, and a later match without a key that has that
  text, as the translation makes it of a \<^verbatim>\<open>multiport\<close> of one port, counts as equal to it. So three rules,
  on one operand \<open>a\<close> with \<open>p\<close>, on \<open>a\<close> with \<open>q\<close> and on \<open>b\<close> with the text of \<open>p\<close> only, become one rule for
  \<open>a\<close> or \<open>b\<close> with \<open>p\<close> or \<open>q\<close>, whatever the selectors, the operands and the verdict: a packet with \<open>b\<close> and \<open>q\<close>, which no
  written rule takes, meets the verdict in the folded chain.
\<close>

theorem folding_widens_multiport:
  assumes "distinct [keyed_text k a, keyed_text k b, keyed_text l p, keyed_text l q]"
  shows "\<exists>r. collapse_chain_rules
        [keyed_rule [(k, a), (l, p)] [NftVerdict v], keyed_rule [(k, a), (l, q)] [NftVerdict v],
         keyed_rule [(k, b)] [NftMatch (plain_match (keyed_text l p)), NftVerdict v]] = Inr [r] \<and>
      numbered_run (\<lambda>_ t. t \<in> {keyed_text k b, keyed_text l q}) ends 0
        [keyed_rule [(k, a), (l, p)] [NftVerdict v], keyed_rule [(k, a), (l, q)] [NftVerdict v],
         keyed_rule [(k, b)] [NftMatch (plain_match (keyed_text l p)), NftVerdict v]] = ({}, False) \<and>
      numbered_run (\<lambda>_ t. t \<in> {keyed_text k b, keyed_text l q}) ends 0 [r] = ({v}, ends v)"
proof -
  let ?rs = "[keyed_rule [(k, a), (l, p)] [NftVerdict v], keyed_rule [(k, a), (l, q)] [NftVerdict v],
      keyed_rule [(k, b)] [NftMatch (plain_match (keyed_text l p)), NftVerdict v]]"
  let ?r = "\<lparr>nr_statements = [with_elements [a, b] (keyed_match k a), with_elements [p, q] (keyed_match l p), NftVerdict v],
      nr_comment = None\<rparr>"
  let ?sem = "\<lambda>_ t. t \<in> {keyed_text k b, keyed_text l q}"
  have apart: "a \<noteq> b" "p \<noteq> q" using assms by auto
  have "collapse_chain_rules ?rs = Inr [?r]"
    using apart by (simp add: folding_steps)
  moreover have "numbered_run ?sem ends 0 ?rs = ({}, False)"
    using assms by (auto simp: keyed_rule_def keyed_match_def plain_match_def match_holds_def has_state_def then_do_def)
  moreover have "numbered_run ?sem ends 0 [?r] = ({v}, ends v)"
    using assms by (auto simp: keyed_match_def plain_match_def match_holds_def has_state_def then_do_def)
  ultimately show ?thesis by blast
qed

definition multiport_rules :: "rendered_option list list" where
  "multiport_rules =
     [[sample_interface ''eth0'', sample_proto ''tcp'', sample_match ''tcp'' ''dport'' (VStr ''22''), sample_jump ''ACCEPT''],
      [sample_interface ''eth0'', sample_proto ''tcp'', sample_match ''tcp'' ''dport'' (VStr ''23''), sample_jump ''ACCEPT''],
      [sample_interface ''eth1'', sample_proto ''tcp'', sample_mod ''multiport'',
       sample_match ''multiport'' ''destination-ports'' (VStr ''22''), sample_jump ''ACCEPT'']]"

text \<open>The interface names are quoted in the operands; the protocol is part of the second selector.\<close>

lemma multiport_translated:
  "mapR (\<lambda>os. translate_rule sample_host IP ''filter'' ''INPUT'' [] [] \<lparr>rr_options = os, rr_script = None\<rparr>) multiport_rules =
   Inr [keyed_rule [(''iifname'', ''\"eth0\"''), (''tcp dport'', ''22'')] [NftVerdict ''accept''],
     keyed_rule [(''iifname'', ''\"eth0\"''), (''tcp dport'', ''23'')] [NftVerdict ''accept''],
     keyed_rule [(''iifname'', ''\"eth1\"'')]
       [NftMatch (plain_match (keyed_text ''tcp dport'' ''22'')), NftVerdict ''accept'']]"
  by code_simp

lemma folding_widens_multiport_witness:
  "\<exists>r. folded_rules multiport_rules = Inr [r] \<and>
     numbered_run (\<lambda>_ t. t \<in> {''iifname \"eth1\"'', ''tcp dport 23''}) (\<lambda>v. v = ''accept'') 0 [r] = ({''accept''}, True)"
  using folding_widens_multiport [of "''iifname''" "''\"eth0\"''" "''\"eth1\"''" "''tcp dport''" "''22''" "''23''"
      "''accept''" "\<lambda>v. v = ''accept''"]
  unfolding folded_rules_def multiport_translated by (simp add: keyed_text_def bindR_def) blast

text \<open>
  A rule that drops what is \<^bold>\<open>not\<close> in a set is left out of the chain when the set is empty, for
  instance in the ip6 pass over a set of IPv4 addresses: the renderer takes every reference to an empty
  set for a match that never holds, but the negated one, which translates to \<^verbatim>\<open>!= @set\<close>, always holds.
\<close>

theorem negated_empty_set_dropped:
  "translate_match_set hs IP6 (VPreNegated (VParams [VSetRef ''allowed'' [], VStr ''src''])) =
     Inr ((plain_match ''ip6 saddr != @allowed'')\<lparr>nm_setref := Some (''allowed'', []), nm_selector := Some ''ip6 saddr''\<rparr>) \<and>
   render_chain hs IP6 specs [] ''filter''
     (''INPUT'', new_chain\<lparr>ci_rules := [\<lparr>rr_options =
        [sample_mod ''set'', sample_match ''set'' ''match-set'' (VPreNegated (VParams [VSetRef ''allowed'' [], VStr ''src''])),
         sample_jump ''DROP''], rr_script = None\<rparr>]\<rparr>) [] = Inr [(''INPUT'', [])]"
proof (rule conjI)
  show "translate_match_set hs IP6 (VPreNegated (VParams [VSetRef ''allowed'' [], VStr ''src''])) =
     Inr ((plain_match ''ip6 saddr != @allowed'')\<lparr>nm_setref := Some (''allowed'', []), nm_selector := Some ''ip6 saddr''\<rparr>)"
    by code_simp
  show "render_chain hs IP6 specs [] ''filter''
     (''INPUT'', new_chain\<lparr>ci_rules := [\<lparr>rr_options =
        [sample_mod ''set'', sample_match ''set'' ''match-set'' (VPreNegated (VParams [VSetRef ''allowed'' [], VStr ''src''])),
         sample_jump ''DROP''], rr_script = None\<rparr>]\<rparr>) [] = Inr [(''INPUT'', [])]"
    by code_simp
qed

text \<open>
  A comment may hold the byte 0x85, which is part of many letters in UTF-8, and nft loads it; but
  the next run splits the rendered script at that byte, cannot read what follows and fails, so a
  configuration that was applied once can neither be applied again nor be planned.
\<close>

theorem comment_byte_stops_delta:
  "render_comment [CHR 0xD1, CHR 0x85] = Inr (''comment \"'' @ [CHR 0xD1, CHR 0x85] @ ''\"'') \<and>
   build_nft_delta ''ip'' (lines_text [''table ip ferm {'', ''}''])
     (lines_text [''add table ip ferm'', ''add chain ip ferm A'',
        ''add rule ip ferm A comment \"'' @ [CHR 0xD1, CHR 0x85] @ ''\"'']) =
   Inl (Died (''cannot parse save line 4: '' @ [SQUOTE, DQUOTE, SQUOTE]))"
  by code_simp

end
