(* ===== verification/Ferm_Tree.thy ===== *)
theory Ferm_Tree
  imports Ferm_Walker
begin

text \<open>
  The structural parser behind \<^verbatim>\<open>--lint\<close> and \<^verbatim>\<open>--graph\<close>: the tree of \<^verbatim>\<open>src/src/pyferm/tree.py\<close> and
  \<^verbatim>\<open>_StructuralParser\<close> of \<^verbatim>\<open>src/src/pyferm/parser.py\<close>, which builds it from the tokens without
  evaluating anything. A position of the parser is the tokens left and the line of the last sentinel.
  The loops of the program may fail to end, so they are bounded by fuel here, and running out of it is
  \<open>None\<close>.
\<close>

section \<open>The tree\<close>

datatype node =
    RuleNode nat "token list"
  | BlockNode nat "block option"
  | IfNode nat "token list" "block option" "block option"
  | IncludeNode nat "token list"
  | PreserveNode nat "token list"
  | HookNode nat "token list"
  | HeaderNode nat string "token list" "block option"
  | SubchainNode nat "token list"
  | DefNode nat "token list"
  | SetNode nat "token list"
and block = Block nat "node list"

fun statements :: "block \<Rightarrow> node list" where
  "statements (Block _ ns) = ns"

fun node_line :: "node \<Rightarrow> nat" where
  "node_line (RuleNode l _) = l"
| "node_line (BlockNode l _) = l"
| "node_line (IfNode l _ _ _) = l"
| "node_line (IncludeNode l _) = l"
| "node_line (PreserveNode l _) = l"
| "node_line (HookNode l _) = l"
| "node_line (HeaderNode l _ _ _) = l"
| "node_line (SubchainNode l _) = l"
| "node_line (DefNode l _) = l"
| "node_line (SetNode l _) = l"

section \<open>Scanning\<close>

type_synonym tree_pos = "token list \<times> nat"

fun line_after :: "token \<Rightarrow> nat \<Rightarrow> nat" where
  "line_after (TLine n) l = n"
| "line_after t l = l"

fun skip_sentinels :: "tree_pos \<Rightarrow> tree_pos" where
  "skip_sentinels ([], l) = ([], l)"
| "skip_sentinels (t # ts, l) = (if is_str_token t then (t # ts, l) else skip_sentinels (ts, line_after t l))"

definition peek_string :: "tree_pos \<Rightarrow> string option \<times> tree_pos" where
  "peek_string p =
     (let q = skip_sentinels p
      in (case fst q of TStr s # ts \<Rightarrow> Some s | _ \<Rightarrow> None, q))"

definition drop_token :: "tree_pos \<Rightarrow> tree_pos" where
  "drop_token p = (tl (fst p), snd p)"

text \<open>The tokens up to the \<^verbatim>\<open>}\<close> that matches, and past it.\<close>

fun skip_to_block_end :: "nat \<Rightarrow> tree_pos \<Rightarrow> tree_pos" where
  "skip_to_block_end 0 p = p"
| "skip_to_block_end d ([], l) = ([], l)"
| "skip_to_block_end (Suc d) (t # ts, l) =
     skip_to_block_end (if t = TStr ''{'' then Suc (Suc d) else if t = TStr ''}'' then d else Suc d)
       (ts, line_after t l)"

text \<open>The tokens of a statement, and the position after it.\<close>

fun capture_statement_span :: "bool \<Rightarrow> nat \<Rightarrow> tree_pos \<Rightarrow> token list \<times> tree_pos" where
  "capture_statement_span stop d ([], l) = ([], ([], l))"
| "capture_statement_span stop d (t # ts, l) =
     (let more = (\<lambda>d'. case capture_statement_span stop d' (ts, line_after t l) of (ws, p) \<Rightarrow> (t # ws, p))
      in if t = TStr ''('' then more (Suc d)
         else if t = TStr ''{'' then if stop \<and> d = 0 then ([], (t # ts, l)) else more (Suc d)
         else if t = TStr ''}'' \<or> t = TStr '')'' then if d = 0 then ([], (t # ts, l)) else more (d - 1)
         else if t = TStr '';'' \<and> d = 0 then ([t], (ts, l))
         else more d)"

text \<open>The tokens of the value of a header, up to what ends it.\<close>

fun scan_header_value :: "nat \<Rightarrow> tree_pos \<Rightarrow> token list \<times> tree_pos" where
  "scan_header_value d ([], l) = ([], ([], l))"
| "scan_header_value d (t # ts, l) =
     (let more = (\<lambda>d'. case scan_header_value d' (ts, line_after t l) of (ws, p) \<Rightarrow> (t # ws, p))
      in if t = TStr ''('' then more (Suc d)
         else if t = TStr '')'' then more (d - 1)
         else if d = 0 \<and> t \<in> {TStr ''{'', TStr '';'', TStr ''}''} then ([], (t # ts, l))
         else more d)"

section \<open>Statements\<close>

type_synonym sub_parser = "tree_pos \<Rightarrow> (block \<times> tree_pos) option"

definition parse_branch_block :: "sub_parser \<Rightarrow> nat \<Rightarrow> tree_pos \<Rightarrow> (block \<times> tree_pos) option" where
  "parse_branch_block sub l p =
     (case peek_string p of
        (Some s, q) \<Rightarrow> if s = ''{'' then sub (drop_token q) else Some (Block l [], q)
      | (None, q) \<Rightarrow> Some (Block l [], q))"

text \<open>The links of a chain of \<^verbatim>\<open>@if ... @else @if ...\<close>, from the position of an \<^verbatim>\<open>@if\<close>.\<close>

primrec if_links ::
  "nat \<Rightarrow> sub_parser \<Rightarrow> tree_pos \<Rightarrow>
     ((nat \<times> token list \<times> block) list \<times> block option \<times> tree_pos) option" where
  "if_links 0 sub p = None"
| "if_links (Suc n) sub p =
     (let here = snd p; (cond, q) = scan_header_value 0 (drop_token p)
      in case parse_branch_block sub here q of
           None \<Rightarrow> None
         | Some (then_body, q1) \<Rightarrow>
             (case peek_string q1 of
                (word, q2) \<Rightarrow>
                  if word \<noteq> Some ''@else'' then Some ([(here, cond, then_body)], None, q2)
                  else (case peek_string (drop_token q2) of
                          (word', q3) \<Rightarrow>
                            if word' \<noteq> Some ''@if''
                            then (case parse_branch_block sub here q3 of
                                    None \<Rightarrow> None
                                  | Some (b, q4) \<Rightarrow> Some ([(here, cond, then_body)], Some b, q4))
                            else (case if_links n sub q3 of
                                    None \<Rightarrow> None
                                  | Some (ls, final, q4) \<Rightarrow> Some ((here, cond, then_body) # ls, final, q4)))))"

fun link_node :: "(nat \<times> token list \<times> block) list \<Rightarrow> block option \<Rightarrow> node option" where
  "link_node [] final = None"
| "link_node ((l, cond, b) # ls) final =
     Some (IfNode l cond (Some b)
       (case link_node ls final of None \<Rightarrow> final | Some n \<Rightarrow> Some (Block (node_line n) [n])))"

definition parse_if :: "nat \<Rightarrow> sub_parser \<Rightarrow> tree_pos \<Rightarrow> (node \<times> tree_pos) option" where
  "parse_if n sub p =
     (case if_links n sub p of
        None \<Rightarrow> None
      | Some (ls, final, q) \<Rightarrow> (case link_node ls final of None \<Rightarrow> None | Some nd \<Rightarrow> Some (nd, q)))"

definition parse_tree_header :: "sub_parser \<Rightarrow> string \<Rightarrow> tree_pos \<Rightarrow> (node \<times> tree_pos) option" where
  "parse_tree_header sub keyword p =
     (case scan_header_value 0 (drop_token p) of
        (span, q) \<Rightarrow>
          (case fst q of
             TStr s # _ \<Rightarrow>
               if s = ''{''
               then (case sub (drop_token q) of
                       None \<Rightarrow> None
                     | Some (b, q') \<Rightarrow> Some (HeaderNode (snd p) keyword span (Some b), q'))
               else if s = '';'' then Some (HeaderNode (snd p) keyword span None, drop_token q)
               else Some (HeaderNode (snd p) keyword span None, q)
           | _ \<Rightarrow> Some (HeaderNode (snd p) keyword span None, q)))"

text \<open>The nodes of the keywords that lead a statement of their own.\<close>

definition STMT_NODES :: "(string \<times> (nat \<Rightarrow> token list \<Rightarrow> node)) list" where
  "STMT_NODES =
     [(''@def'', DefNode), (''def'', DefNode), (''@set'', SetNode), (''@include'', IncludeNode),
      (''include'', IncludeNode), (''@preserve'', PreserveNode), (''@hook'', HookNode), (''hook'', HookNode),
      (''@subchain'', SubchainNode), (''subchain'', SubchainNode), (''@gotosubchain'', SubchainNode)]"

definition header_keyword :: "string \<Rightarrow> bool" where
  "header_keyword s \<longleftrightarrow> (case dict_get STMT_TABLE s of Some sp \<Rightarrow> ss_kind sp = Header | None \<Rightarrow> False)"

definition span_node :: "(nat \<Rightarrow> token list \<Rightarrow> node) \<Rightarrow> bool \<Rightarrow> tree_pos \<Rightarrow> node \<times> tree_pos" where
  "span_node f stop p = (case capture_statement_span stop 0 p of (span, q) \<Rightarrow> (f (snd p) span, q))"

definition parse_statement :: "nat \<Rightarrow> sub_parser \<Rightarrow> string \<Rightarrow> tree_pos \<Rightarrow> (node \<times> tree_pos) option" where
  "parse_statement n sub s p =
     (if s = ''@if'' then parse_if n sub p
      else if s = ''{''
      then (case sub (drop_token p) of
              None \<Rightarrow> None
            | Some (b, q) \<Rightarrow> Some (BlockNode (snd p) (Some b), q))
      else if header_keyword s then parse_tree_header sub s p
      else case dict_get STMT_NODES s of
             Some f \<Rightarrow> Some (span_node f False p)
           | None \<Rightarrow> Some (span_node RuleNode True p))"

primrec parse_statements :: "nat \<Rightarrow> nat \<Rightarrow> sub_parser \<Rightarrow> tree_pos \<Rightarrow> (node list \<times> tree_pos) option" where
  "parse_statements 0 F sub p = None"
| "parse_statements (Suc n) F sub p =
     (case peek_string p of
        (None, q) \<Rightarrow> Some ([], q)
      | (Some s, q) \<Rightarrow>
          if s = ''}'' then Some ([], drop_token q)
          else (case parse_statement F sub s q of
                  None \<Rightarrow> None
                | Some (nd, q1) \<Rightarrow>
                    (case parse_statements n F sub q1 of
                       None \<Rightarrow> None
                     | Some (nds, q2) \<Rightarrow> Some (nd # nds, q2))))"

text \<open>The second argument counts the levels of blocks left.\<close>

primrec parse_block :: "nat \<Rightarrow> nat \<Rightarrow> tree_pos \<Rightarrow> (block \<times> tree_pos) option" where
  "parse_block F 0 p = Some (Block (snd p) [], skip_to_block_end 1 p)"
| "parse_block F (Suc d) p =
     (case parse_statements F F (parse_block F d) p of
        None \<Rightarrow> None
      | Some (nds, q) \<Rightarrow> Some (Block (snd p) nds, q))"

text \<open>
  The tokens of a whole configuration and its tree. The tokens are read raw, which leaves the line of
  the script at zero: the sentinel of every line carries the number one.
\<close>

definition config_tokens :: "string list \<Rightarrow> token list" where
  "config_tokens ls = concat (map (\<lambda>x. TLine 1 # map TStr (tokenize_string x)) ls)"

definition parse_to_block :: "nat \<Rightarrow> token list \<Rightarrow> block option" where
  "parse_to_block F ts = map_option fst (parse_block F MAX_BLOCK_DEPTH (ts, 0))"

end
