(* ===== verification/Ferm_Tree_Safe.thy ===== *)
theory Ferm_Tree_Safe
  imports Ferm_Tree
begin

text \<open>
  When the structural parser ends. A stack of open brackets is run over the tokens; the parser returns
  on every text in which a \<^verbatim>\<open>)\<close> only closes a \<^verbatim>\<open>(\<close>, however truncated it is, and it never
  returns from a first rule with a \<^verbatim>\<open>)\<close> of its own.
\<close>

section \<open>Brackets\<close>

datatype bracket = Round | Curly | EndRound | EndCurly | Semicolon | Plain

definition bracket_of :: "token \<Rightarrow> bracket" where
  "bracket_of t =
     (if t = TStr ''('' then Round else if t = TStr ''{'' then Curly
      else if t = TStr '')'' then EndRound else if t = TStr ''}'' then EndCurly
      else if t = TStr '';'' then Semicolon else Plain)"

lemma bracket_of_iff:
  "bracket_of t = Round \<longleftrightarrow> t = TStr ''(''" "bracket_of t = Curly \<longleftrightarrow> t = TStr ''{''"
  "bracket_of t = EndRound \<longleftrightarrow> t = TStr '')''" "bracket_of t = EndCurly \<longleftrightarrow> t = TStr ''}''"
  "bracket_of t = Semicolon \<longleftrightarrow> t = TStr '';''"
  by (simp_all add: bracket_of_def)

text \<open>The open brackets, the innermost first; True is a brace. Too many \<^verbatim>\<open>}\<close> are allowed.\<close>

fun bracketed :: "bool list \<Rightarrow> token list \<Rightarrow> bool" where
  "bracketed st [] = True"
| "bracketed st (t # ts) =
     (case bracket_of t of
        Round \<Rightarrow> bracketed (False # st) ts
      | Curly \<Rightarrow> bracketed (True # st) ts
      | EndRound \<Rightarrow> st \<noteq> [] \<and> \<not> hd st \<and> bracketed (tl st) ts
      | EndCurly \<Rightarrow> (st \<noteq> [] \<longrightarrow> hd st) \<and> bracketed (tl st) ts
      | _ \<Rightarrow> bracketed st ts)"

lemma bracketed_more: "bracketed st ts \<Longrightarrow> bracketed (st @ [True]) ts"
proof (induction st ts rule: bracketed.induct)
  case (2 st t ts)
  then show ?case by (cases st; cases "bracket_of t") auto
qed simp

text \<open>The scans of the parser, by the kind of the token.\<close>

lemma capture_step:
  "capture_statement_span stop d (t # ts, l) =
     (let more = (\<lambda>d'. case capture_statement_span stop d' (ts, line_after t l) of (ws, p) \<Rightarrow> (t # ws, p))
      in case bracket_of t of
           Round \<Rightarrow> more (Suc d)
         | Curly \<Rightarrow> if stop \<and> d = 0 then ([], (t # ts, l)) else more (Suc d)
         | EndRound \<Rightarrow> if d = 0 then ([], (t # ts, l)) else more (d - 1)
         | EndCurly \<Rightarrow> if d = 0 then ([], (t # ts, l)) else more (d - 1)
         | Semicolon \<Rightarrow> if d = 0 then ([t], (ts, l)) else more d
         | Plain \<Rightarrow> more d)"
  by (simp add: bracket_of_def)

lemma header_step:
  "scan_header_value d (t # ts, l) =
     (let more = (\<lambda>d'. case scan_header_value d' (ts, line_after t l) of (ws, p) \<Rightarrow> (t # ws, p))
      in case bracket_of t of
           Round \<Rightarrow> more (Suc d)
         | EndRound \<Rightarrow> more (d - 1)
         | Plain \<Rightarrow> more d
         | _ \<Rightarrow> if d = 0 then ([], (t # ts, l)) else more d)"
  by (simp add: bracket_of_def)

lemma skip_step:
  "skip_to_block_end (Suc d) (t # ts, l) =
     skip_to_block_end (case bracket_of t of Curly \<Rightarrow> Suc (Suc d) | EndCurly \<Rightarrow> d | _ \<Rightarrow> Suc d) (ts, line_after t l)"
  by (simp add: bracket_of_def)

lemma string_bracket:
  "bracket_of (TStr s) = Round \<longleftrightarrow> s = ''(''" "bracket_of (TStr s) = Curly \<longleftrightarrow> s = ''{''"
  "bracket_of (TStr s) = EndRound \<longleftrightarrow> s = '')''" "bracket_of (TStr s) = EndCurly \<longleftrightarrow> s = ''}''"
  "bracket_of (TLine n) = Plain" "bracket_of (TVal v) = Plain"
  by (simp_all add: bracket_of_def)

declare capture_statement_span.simps (2) [simp del] scan_header_value.simps (2) [simp del]
  skip_to_block_end.simps (3) [simp del]

text \<open>A position between statements: the open brackets are braces.\<close>

definition level :: "tree_pos \<Rightarrow> bool" where
  "level p \<longleftrightarrow> (\<exists>st. False \<notin> set st \<and> bracketed st (fst p))"

lemma levelI: "bracketed st (fst p) \<Longrightarrow> False \<notin> set st \<Longrightarrow> level p"
  by (auto simp: level_def)

lemma level_nil [simp]: "level ([], l)"
  by (auto simp: level_def intro: exI [of _ "[]"])

definition left :: "tree_pos \<Rightarrow> nat" where "left p = length (fst p)"

lemma left_Pair [simp]: "left (ts, l) = length ts"
  by (simp add: left_def)

section \<open>The scans\<close>

lemma skip_sentinels_left: "left (skip_sentinels p) \<le> left p"
  by (induction p rule: skip_sentinels.induct) (auto simp: le_Suc_eq)

lemma skip_sentinels_level: "level p \<Longrightarrow> level (skip_sentinels p)"
proof (induction p rule: skip_sentinels.induct)
  case (2 t ts l)
  show ?case
  proof (cases "is_str_token t")
    case False
    then have "level (ts, line_after t l)" using 2 (2) by (cases t) (auto simp: level_def string_bracket)
    then show ?thesis using 2 (1) False by simp
  qed (use 2 in simp)
qed simp

lemma skip_sentinels_string: "skip_sentinels p = (t # ts, l) \<Longrightarrow> \<exists>s. t = TStr s"
proof (induction p rule: skip_sentinels.induct)
  case (2 u us k)
  then show ?case by (cases u) auto
qed simp

lemma peek_stringD:
  assumes "peek_string p = (w, q)"
  shows "left q \<le> left p" "level p \<Longrightarrow> level q"
    "w = Some s \<Longrightarrow> \<exists>ts. fst q = TStr s # ts"
  using assms skip_sentinels_left [of p] skip_sentinels_level [of p]
  by (auto simp: peek_string_def Let_def split: list.splits token.splits)

lemma drop_token_left: "fst q = t # ts \<Longrightarrow> left (drop_token q) < left q"
  by (simp add: drop_token_def left_def)

lemma drop_token_level:
  assumes "level q" "fst q = TStr s # ts" "s \<noteq> ''(''"
  shows "level (drop_token q)"
proof -
  obtain st where st: "False \<notin> set st" "bracketed st (TStr s # ts)" using assms by (auto simp: level_def)
  have "bracket_of (TStr s) \<noteq> Round" using assms (3) by (simp add: string_bracket)
  then have "bracketed st ts \<or> bracketed (True # st) ts \<or> (False \<notin> set (tl st) \<and> bracketed (tl st) ts)"
    using st by (cases st) (auto split: bracket.splits)
  then show ?thesis using st (1)
    by (auto simp: level_def drop_token_def assms (2) intro: exI [of _ "True # st"])
qed

lemma level_no_close:
  assumes "level q" "fst q = TStr s # ts"
  shows "s \<noteq> '')''"
proof
  assume "s = '')''"
  then have "bracket_of (TStr s) = EndRound" by (simp add: string_bracket)
  then show False using assms by (auto simp: level_def) (metis hd_in_set)
qed

text \<open>The capture of a statement: every open bracket of the statement is counted.\<close>

lemma capture_level:
  assumes "bracketed (r @ st) ts" "False \<notin> set st" "capture_statement_span stop (length r) (ts, l) = (ws, q)"
  shows "level q \<and> left q \<le> length ts"
  using assms
proof (induction ts arbitrary: r l ws q)
  case Nil
  then show ?case by auto
next
  case (Cons t ts)
  have step: "level q \<and> left q \<le> length (t # ts)"
    if "bracketed (r' @ st) ts" "length r' = d"
      "(case capture_statement_span stop d (ts, line_after t l) of (ws, p) \<Rightarrow> (t # ws, p)) = (ws, q)" for r' d
  proof -
    note h = that
    obtain ws' where "capture_statement_span stop (length r') (ts, line_after t l) = (ws', q)"
      using h (2,3) by (auto split: prod.splits)
    from Cons.IH [OF h (1) Cons.prems (2) this] show ?thesis by simp
  qed
  have here: "level q \<and> left q \<le> length (t # ts)" if "r = []" "q = (t # ts, l)"
    using Cons.prems (1,2) that by (auto intro: levelI [of st])
  have none: "hd st" if "st \<noteq> []" using Cons.prems (2) that hd_in_set by metis
  note eq = Cons.prems (3) [unfolded capture_step Let_def]
  show ?case
  proof (cases "bracket_of t")
    case Round
    then show ?thesis using step [of "False # r"] Cons.prems (1) eq by simp
  next
    case Curly
    then show ?thesis using step [of "True # r"] here Cons.prems (1) eq by (auto split: if_splits)
  next
    case EndRound
    then show ?thesis using step [of "tl r"] here none Cons.prems (1) eq by (cases r) auto
  next
    case EndCurly
    then show ?thesis using step [of "tl r"] here Cons.prems (1) eq by (cases r) auto
  next
    case Semicolon
    then show ?thesis using step [of r] Cons.prems (1,2) eq
      by (cases r) (auto simp: level_def)
  next
    case Plain
    then show ?thesis using step [of r] Cons.prems (1) eq by simp
  qed
qed

lemma capture_progress:
  assumes "capture_statement_span stop 0 (t # ts, l) = (ws, q)" "bracket_of t \<notin> {EndRound, EndCurly}"
    "stop \<longrightarrow> bracket_of t \<noteq> Curly"
  shows "\<exists>ws'. ws = t # ws'"
  using assms by (auto simp: Let_def capture_step split: if_splits prod.splits bracket.splits)

lemma capture_split: "capture_statement_span stop d (ts, l) = (ws, (us, k)) \<Longrightarrow> ts = ws @ us"
proof (induction ts arbitrary: d l ws)
  case (Cons t ts)
  have step: "t # ts = ws @ us"
    if "(case capture_statement_span stop d' (ts, line_after t l) of (ws, p) \<Rightarrow> (t # ws, p)) = (ws, us, k)" for d'
    using that Cons.IH by (auto split: prod.splits)
  show ?case using Cons.prems step
    by (cases "bracket_of t") (auto simp: capture_step Let_def split: if_splits)
qed simp

text \<open>The value of a header: only parentheses are counted, so a brace is open only inside one.\<close>

definition inside :: "bool \<Rightarrow> bool list \<Rightarrow> bool" where
  "inside b r \<longleftrightarrow> r = [] \<or> last r = b"

lemma inside_Cons: "inside b r \<Longrightarrow> inside b (b # r)"
  "inside b r \<Longrightarrow> r \<noteq> [] \<Longrightarrow> inside b (x # r)" "inside b r \<Longrightarrow> inside b (tl r)"
  by (cases r; auto simp: inside_def)+

lemma inside_count: "inside b r \<Longrightarrow> count_list r b = 0 \<Longrightarrow> r = []"
  by (cases r rule: rev_cases) (auto simp: inside_def)

lemma scan_header_level:
  assumes "bracketed (r @ st) ts" "False \<notin> set st" "inside False r"
    "scan_header_value (count_list r False) (ts, l) = (ws, q)"
  shows "level q \<and> left q \<le> length ts"
  using assms
proof (induction ts arbitrary: r l ws q)
  case Nil
  then show ?case by auto
next
  case (Cons t ts)
  have step: "level q \<and> left q \<le> length (t # ts)"
    if "bracketed (r' @ st) ts" "inside False r'" "count_list r' False = d"
      "(case scan_header_value d (ts, line_after t l) of (ws, p) \<Rightarrow> (t # ws, p)) = (ws, q)" for r' d
  proof -
    note h = that
    obtain ws' where "scan_header_value (count_list r' False) (ts, line_after t l) = (ws', q)"
      using h (3,4) by (auto split: prod.splits)
    from Cons.IH [OF h (1) Cons.prems (2) h (2) this] show ?thesis by simp
  qed
  have here: "level q \<and> left q \<le> length (t # ts)" if "count_list r False = 0" "q = (t # ts, l)"
    using Cons.prems (1,2) inside_count [OF Cons.prems (3) that (1)] that (2) by (auto intro: levelI [of st])
  have none: "hd st" if "st \<noteq> []" using Cons.prems (2) that hd_in_set by metis
  note ins = inside_Cons (1) [OF Cons.prems (3)] inside_Cons (3) [OF Cons.prems (3)]
  note eq = Cons.prems (4) [unfolded header_step Let_def]
  show ?case
  proof (cases "bracket_of t")
    case Round
    then show ?thesis using step [of "False # r"] ins Cons.prems (1) eq by simp
  next
    case Curly
    show ?thesis
    proof (cases "count_list r False = 0")
      case True
      then show ?thesis using here Curly eq by auto
    next
      case False
      then have "r \<noteq> []" by auto
      then have "inside False (True # r)" using inside_Cons (2) [OF Cons.prems (3)] by blast
      then show ?thesis using step [of "True # r"] False Curly Cons.prems (1) eq by simp
    qed
  next
    case EndRound
    then show ?thesis using step [of "tl r"] ins none Cons.prems (1) eq by (cases r) auto
  next
    case EndCurly
    show ?thesis
    proof (cases "count_list r False = 0")
      case True
      then show ?thesis using here EndCurly eq by auto
    next
      case False
      then show ?thesis using step [of "tl r"] ins EndCurly Cons.prems (1) eq by (cases r) auto
    qed
  next
    case Semicolon
    then show ?thesis using step [of r] here Cons.prems (1,3) eq by (auto split: if_splits)
  next
    case Plain
    then show ?thesis using step [of r] Cons.prems (1,3) eq by simp
  qed
qed

text \<open>The end of a block that is not entered: only braces are counted.\<close>

lemma skip_block_level:
  assumes "bracketed (r @ st) ts" "False \<notin> set st" "inside True r"
  shows "level (skip_to_block_end (count_list r True) (ts, l)) \<and>
    left (skip_to_block_end (count_list r True) (ts, l)) \<le> length ts"
  using assms
proof (induction ts arbitrary: r l)
  case Nil
  then show ?case by (cases "count_list r True") auto
next
  case (Cons t ts)
  show ?case
  proof (cases "count_list r True")
    case 0
    then have "r = []" using Cons.prems (3) inside_count by blast
    then show ?thesis using Cons.prems by (auto intro!: levelI [of st])
  next
    case (Suc n)
    have step: "level (skip_to_block_end (Suc n) (t # ts, l)) \<and> left (skip_to_block_end (Suc n) (t # ts, l)) \<le> length (t # ts)"
      if "bracketed (r' @ st) ts" "inside True r'"
        "count_list r' True = (case bracket_of t of Curly \<Rightarrow> Suc (Suc n) | EndCurly \<Rightarrow> n | _ \<Rightarrow> Suc n)" for r'
      using Cons.IH [OF that (1) Cons.prems (2) that (2), of "line_after t l"] that (3) by (simp add: skip_step)
    have r: "r \<noteq> []" using Suc by auto
    note ins = inside_Cons (1) [OF Cons.prems (3)] inside_Cons (2) [OF Cons.prems (3) r, of False] inside_Cons (3) [OF Cons.prems (3)]
    show ?thesis
    proof (cases "bracket_of t")
      case Round
      then show ?thesis using step [of "False # r"] ins Cons.prems (1) Suc by simp
    next
      case Curly
      then show ?thesis using step [of "True # r"] ins Cons.prems (1) Suc by simp
    next
      case EndRound
      then show ?thesis using step [of "tl r"] ins Cons.prems (1) Suc r by (cases r) auto
    next
      case EndCurly
      then show ?thesis using step [of "tl r"] ins Cons.prems (1) Suc r by (cases r) auto
    next
      case Semicolon
      then show ?thesis using step [of r] Cons.prems (1,3) Suc by simp
    next
      case Plain
      then show ?thesis using step [of r] Cons.prems (1,3) Suc by simp
    qed
  qed
qed

section \<open>Statements\<close>

text \<open>What a level of the parser promises: it returns, between statements and never further back.\<close>

definition returns :: "nat \<Rightarrow> (tree_pos \<Rightarrow> ('a \<times> tree_pos) option) \<Rightarrow> bool" where
  "returns n f \<longleftrightarrow> (\<forall>p. level p \<and> left p < n \<longrightarrow> (\<exists>x q. f p = Some (x, q) \<and> level q \<and> left q \<le> left p))"

lemma returnsD: "returns n f \<Longrightarrow> level p \<Longrightarrow> left p < n \<Longrightarrow> \<exists>x q. f p = Some (x, q) \<and> level q \<and> left q \<le> left p"
  unfolding returns_def by blast

lemma peek_cases:
  obtains (none) q where "peek_string p = (None, q)" "left q \<le> left p" "level p \<Longrightarrow> level q"
  | (some) s ts l where "peek_string p = (Some s, (TStr s # ts, l))" "length (TStr s # ts) \<le> left p"
      "level p \<Longrightarrow> level (TStr s # ts, l)"
proof -
  obtain w q where Pair: "peek_string p = (w, q)" by (metis prod.collapse)
  show thesis
  proof (cases w)
    case None
    then show ?thesis using that (1) Pair peek_stringD (1,2) [OF Pair] by blast
  next
    case (Some s)
    then obtain ts where "fst q = TStr s # ts" using peek_stringD (3) [OF Pair] by blast
    then have "q = (TStr s # ts, snd q)" by (cases q) simp
    then show ?thesis using that (2) Pair Some peek_stringD (1,2) [OF Pair] left_Pair by metis
  qed
qed

lemma drop_first:
  assumes "level (TStr s # ts, l)" "s \<noteq> ''(''"
  shows "level (drop_token (TStr s # ts, l))" "left (drop_token (TStr s # ts, l)) = length ts"
  using drop_token_level [OF assms (1) _ assms (2)] by (simp_all add: drop_token_def)

lemma scan_header_returns:
  assumes "level p" "scan_header_value 0 p = (ws, q)"
  shows "level q" "left q \<le> left p"
proof -
  obtain ts l where p: "p = (ts, l)" by fastforce
  obtain st where "False \<notin> set st" "bracketed ([] @ st) ts" using assms (1) by (auto simp: level_def p)
  then have "level q \<and> left q \<le> length ts"
    using scan_header_level [of "[]" st ts l ws q] assms (2) by (simp add: p inside_def)
  then show "level q" "left q \<le> left p" by (simp_all add: p)
qed

lemma branch_returns:
  assumes "returns n sub" "level p" "left p < n"
  shows "\<exists>b q. parse_branch_block sub l p = Some (b, q) \<and> level q \<and> left q \<le> left p"
proof (cases p rule: peek_cases)
  case (none q)
  then show ?thesis using assms (2) by (auto simp: parse_branch_block_def)
next
  case (some s ts k)
  have lev: "level (TStr s # ts, k)" using some (3) assms (2) by blast
  show ?thesis
  proof (cases "s = ''{''")
    case True
    then have "s \<noteq> ''(''" by simp
    note d = drop_first [OF lev this]
    then obtain b q where "sub (drop_token (TStr s # ts, k)) = Some (b, q)" "level q" "left q \<le> length ts"
      using returnsD [OF assms (1) d (1)] some (2) assms (3) by auto
    then show ?thesis using some True by (auto simp: parse_branch_block_def)
  next
    case False
    then show ?thesis using some lev by (auto simp: parse_branch_block_def)
  qed
qed

lemma links_return:
  assumes "returns n sub"
  shows "level (TStr ''@if'' # ts, l) \<Longrightarrow> length ts < n \<Longrightarrow> length ts < k \<Longrightarrow>
    \<exists>ls final q. if_links k sub (TStr ''@if'' # ts, l) = Some (ls, final, q) \<and> ls \<noteq> [] \<and> level q \<and> left q \<le> length ts"
proof (induction k arbitrary: ts l)
  case 0
  then show ?case by simp
next
  case (Suc k)
  have "''@if'' \<noteq> ''(''" by simp
  note d = drop_first [OF Suc.prems (1) this]
  obtain cond q where q: "scan_header_value 0 (drop_token (TStr ''@if'' # ts, l)) = (cond, q)" by (metis prod.collapse)
  have q2: "level q" "left q \<le> length ts" using scan_header_returns [OF d (1) q] d (2) by simp_all
  then obtain b q1 where b: "parse_branch_block sub l q = Some (b, q1)" "level q1" "left q1 \<le> length ts"
    using branch_returns [OF assms, of q l] Suc.prems (2) by auto
  show ?case
  proof (cases q1 rule: peek_cases)
    case (none q')
    then show ?thesis using q b by auto
  next
    case (some s us m)
    have lev: "level (TStr s # us, m)" using some (3) b (2) by blast
    show ?thesis
    proof (cases "s = ''@else''")
      case False
      then show ?thesis using q b some lev by auto
    next
      case True
      then have "s \<noteq> ''(''" by simp
      note e = drop_first [OF lev this]
      have us: "length us < length ts" using some (2) b (3) by simp
      have plain: ?thesis if other: "peek_string (drop_token (TStr s # us, m)) = (w, q3)" "level q3" "left q3 \<le> length us"
        "w \<noteq> Some ''@if''" for w q3
      proof -
        have "left q3 < n" using other (3) us Suc.prems (2) by simp
        then obtain b' q4 where "parse_branch_block sub l q3 = Some (b', q4)" "level q4" "left q4 \<le> left q3"
          using branch_returns [OF assms other (2)] by blast
        then show ?thesis using q b some True other us by simp
      qed
      show ?thesis
      proof (cases "drop_token (TStr s # us, m)" rule: peek_cases)
        case (none q3)
        then show ?thesis using plain [of None q3] e by simp
      next
        case inner: (some s' vs o')
        have lev': "level (TStr s' # vs, o')" using inner (3) e (1) by blast
        show ?thesis
        proof (cases "s' = ''@if''")
          case False
          then show ?thesis using plain [OF inner (1) lev'] inner (2) e (2) by simp
        next
          case else_if: True
          have vs: "length vs < length us" using inner (2) e (2) by simp
          obtain ls final q4 where "if_links k sub (TStr ''@if'' # vs, o') = Some (ls, final, q4)" "level q4" "left q4 \<le> length vs"
            using Suc.IH [of vs o'] lev' else_if vs us Suc.prems (2,3) by auto
          then show ?thesis using q b some True inner else_if us vs by simp
        qed
      qed
    qed
  qed
qed

lemma link_node_some: "ls \<noteq> [] \<Longrightarrow> \<exists>nd. link_node ls final = Some nd"
  by (cases ls) auto

lemma statement_returns:
  assumes "returns n sub" "level (TStr s # ts, l)" "s \<noteq> ''}''" "length ts < n"
  shows "\<exists>nd q. parse_statement n sub s (TStr s # ts, l) = Some (nd, q) \<and> level q \<and> left q \<le> length ts"
proof -
  have close: "s \<noteq> '')''" using level_no_close [OF assms (2)] by simp
  have span: "\<exists>nd q. Some (span_node f stop (TStr s # ts, l)) = Some (nd, q) \<and> level q \<and> left q \<le> length ts"
    if "stop \<longrightarrow> s \<noteq> ''{''" for f stop
  proof -
    note h = that
    obtain ws q where c: "capture_statement_span stop 0 (TStr s # ts, l) = (ws, q)" by (metis prod.collapse)
    obtain st where "False \<notin> set st" "bracketed ([] @ st) (TStr s # ts)" using assms (2) by (auto simp: level_def)
    then have lev: "level q" using capture_level [of "[]" st "TStr s # ts" stop l ws q] c by simp
    obtain ws' where "ws = TStr s # ws'"
      using capture_progress [OF c] close assms (3) h by (auto simp: string_bracket)
    moreover obtain us k where "q = (us, k)" by fastforce
    ultimately have "left q \<le> length ts" using capture_split [of stop 0 "TStr s # ts" l ws us k] c by simp
    then show ?thesis using c lev by (simp add: span_node_def)
  qed
  consider (if_link) "s = ''@if''" | (block) "s \<noteq> ''@if''" "s = ''{''"
    | (header) "s \<noteq> ''@if''" "s \<noteq> ''{''" "header_keyword s" | (other) "s \<noteq> ''@if''" "s \<noteq> ''{''" "\<not> header_keyword s"
    by blast
  then show ?thesis
  proof cases
    case if_link
    then obtain ls final q where "if_links n sub (TStr s # ts, l) = Some (ls, final, q)" "ls \<noteq> []" "level q" "left q \<le> length ts"
      using links_return [OF assms (1), of ts l n] assms (2,4) by auto
    moreover obtain nd where "link_node ls final = Some nd" using link_node_some calculation (2) by blast
    ultimately show ?thesis using if_link by (simp add: parse_statement_def parse_if_def)
  next
    case block
    then have "s \<noteq> ''(''" by simp
    note d = drop_first [OF assms (2) this]
    then obtain b q where "sub (drop_token (TStr s # ts, l)) = Some (b, q)" "level q" "left q \<le> length ts"
      using returnsD [OF assms (1) d (1)] assms (4) by auto
    then show ?thesis using block by (simp add: parse_statement_def)
  next
    case header
    have "s \<noteq> ''(''"
    proof
      assume "s = ''(''"
      moreover have "\<not> header_keyword ''(''" by code_simp
      ultimately show False using header (3) by simp
    qed
    note d = drop_first [OF assms (2) this]
    obtain ws us m where h: "scan_header_value 0 (drop_token (TStr s # ts, l)) = (ws, (us, m))" by (metis prod.collapse)
    note h2 = scan_header_returns [OF d (1) h]
    show ?thesis
    proof (cases "us = [] \<or> (\<forall>w. hd us = TStr w \<longrightarrow> w \<noteq> ''{'' \<and> w \<noteq> '';'')")
      case True
      then show ?thesis using header h h2 d (2)
        by (cases us) (auto simp: parse_statement_def parse_tree_header_def split: token.splits)
    next
      case False
      then obtain w vs where us: "us = TStr w # vs" "w = ''{'' \<or> w = '';''" by (cases us) auto
      have "w \<noteq> ''(''" using us (2) by auto
      then have e: "level (drop_token (us, m))" "left (drop_token (us, m)) = length vs"
        using drop_first h2 (1) us (1) by blast+
      have "length vs < n" using h2 (2) d (2) us (1) assms (4) by simp
      then obtain b q where b: "sub (drop_token (us, m)) = Some (b, q)" "level q" "left q \<le> length vs"
        using returnsD [OF assms (1) e (1)] e (2) by auto
      show ?thesis
      proof (cases "w = ''{''")
        case True
        then show ?thesis using header h h2 d (2) b us
          by (auto simp: parse_statement_def parse_tree_header_def)
      next
        case False
        then show ?thesis using header h h2 d (2) e us
          by (auto simp: parse_statement_def parse_tree_header_def)
      qed
    qed
  next
    case other
    then show ?thesis using span by (auto simp: parse_statement_def split: option.splits)
  qed
qed

lemma statements_return:
  assumes "returns n sub"
  shows "level p \<Longrightarrow> left p < n \<Longrightarrow> left p < k \<Longrightarrow>
    \<exists>nds q. parse_statements k n sub p = Some (nds, q) \<and> level q \<and> left q \<le> left p"
proof (induction k arbitrary: p)
  case 0
  then show ?case by simp
next
  case (Suc k)
  show ?case
  proof (cases p rule: peek_cases)
    case (none q)
    then show ?thesis using Suc.prems (1) by auto
  next
    case (some s ts l)
    have lev: "level (TStr s # ts, l)" using some (3) Suc.prems (1) by blast
    show ?thesis
    proof (cases "s = ''}''")
      case True
      then have "s \<noteq> ''(''" by simp
      then show ?thesis using drop_first [OF lev] some True by simp
    next
      case False
      obtain nd q where st: "parse_statement n sub s (TStr s # ts, l) = Some (nd, q)" "level q" "left q \<le> length ts"
        using statement_returns [OF assms lev False] some (2) Suc.prems (2) by auto
      obtain nds q' where "parse_statements k n sub q = Some (nds, q')" "level q'" "left q' \<le> left q"
        using Suc.IH [OF st (2)] st (3) some (2) Suc.prems (2,3) by auto
      then show ?thesis using some False st by simp
    qed
  qed
qed

lemma block_returns: "returns n (parse_block n d)"
proof (induction d)
  case 0
  have "level (skip_to_block_end 1 p) \<and> left (skip_to_block_end 1 p) \<le> left p" if lev: "level p" for p
  proof -
    obtain ts l where p: "p = (ts, l)" by fastforce
    obtain st where st: "False \<notin> set st" "bracketed st ts" using lev by (auto simp: level_def p)
    show ?thesis
    proof (cases st)
      case Nil
      then show ?thesis using skip_block_level [of "[True]" "[]" ts l] bracketed_more [of "[]" ts] st
        by (auto simp: p inside_def)
    next
      case (Cons b st')
      then show ?thesis using st skip_block_level [of "[b]" st' ts l] by (auto simp: p inside_def)
    qed
  qed
  then show ?case by (simp add: returns_def)
next
  case (Suc d)
  then show ?case using statements_return [OF Suc] by (fastforce simp: returns_def)
qed

section \<open>Properties\<close>

text \<open>
  C10: The structural parser ends on truncated text too: whatever the tokens, if every \<^verbatim>\<open>)\<close> closes a
  \<^verbatim>\<open>(\<close> and no \<^verbatim>\<open>}\<close> comes while a parenthesis opened after the last open brace is still open, it
  returns a tree; a bound of one more than the number of tokens is enough, however deep the blocks are. Neither
  condition is idle: \<^verbatim>\<open>proto ( tcp } ) ;\<close> keeps it in its loop (\<open>brace_in_parentheses_hangs\<close>), and so does a stray
  \<^verbatim>\<open>)\<close> in a rule.
\<close>

theorem structural_parser_returns:
  assumes "bracketed [] ts" "length ts < F"
  shows "\<exists>b. parse_to_block F ts = Some b"
proof -
  have "level (ts, 0)" using assms (1) by (auto intro: levelI [of "[]"])
  then show ?thesis using returnsD [OF block_returns, of "(ts, 0)" F MAX_BLOCK_DEPTH] assms (2)
    by (auto simp: parse_to_block_def)
qed

theorem structural_parser_returns_witness:
  "\<exists>b. parse_to_block 12 (map TStr [''chain'', ''INPUT'', ''{'', ''proto'', ''('', ''tcp'', ''udp'', '')'', ''{'', ''ACCEPT'', '';'']) = Some b"
  by (rule structural_parser_returns) (simp_all add: bracket_of_def)

text \<open>The words of a rule that the parser reads as one span.\<close>

definition rule_words :: "string list \<Rightarrow> bool" where
  "rule_words ws \<longleftrightarrow>
     list_all (\<lambda>w. bracket_of (TStr w) = Plain) ws \<and>
     (case ws of [] \<Rightarrow> True | w # _ \<Rightarrow> w \<noteq> ''@if'' \<and> \<not> header_keyword w \<and> dict_get STMT_NODES w = None)"

lemma capture_rule_words:
  assumes "list_all (\<lambda>w. bracket_of (TStr w) = Plain) ws"
  shows "capture_statement_span b 0 (map TStr ws @ TStr '')'' # ts, l) = (map TStr ws, (TStr '')'' # ts, l))"
  using assms
proof (induction ws)
  case Nil
  have "bracket_of (TStr '')'') = EndRound" by (simp add: string_bracket)
  then show ?case by (simp add: capture_step)
next
  case (Cons w ws)
  then show ?case by (simp add: capture_step)
qed

lemma rule_words_nil: "rule_words []"
  by (simp add: rule_words_def)

lemma stuck_statement:
  assumes "rule_words ws"
  shows "peek_string (map TStr ws @ TStr '')'' # ts, l) =
      (Some (case ws of [] \<Rightarrow> '')'' | w # _ \<Rightarrow> w), (map TStr ws @ TStr '')'' # ts, l))"
    "(case ws of [] \<Rightarrow> '')'' | w # _ \<Rightarrow> w) \<noteq> ''}''"
    "parse_statement F sub (case ws of [] \<Rightarrow> '')'' | w # _ \<Rightarrow> w) (map TStr ws @ TStr '')'' # ts, l) =
      Some (RuleNode l (map TStr ws), (TStr '')'' # ts, l))"
proof -
  have close: "'')'' \<noteq> ''@if'' \<and> \<not> header_keyword '')'' \<and> dict_get STMT_NODES '')'' = None" by code_simp
  show "peek_string (map TStr ws @ TStr '')'' # ts, l) =
      (Some (case ws of [] \<Rightarrow> '')'' | w # _ \<Rightarrow> w), (map TStr ws @ TStr '')'' # ts, l))"
    by (cases ws) (simp_all add: peek_string_def)
  show "(case ws of [] \<Rightarrow> '')'' | w # _ \<Rightarrow> w) \<noteq> ''}''"
    using assms by (cases ws) (auto simp: rule_words_def bracket_of_def)
  have "list_all (\<lambda>w. bracket_of (TStr w) = Plain) ws" using assms by (simp add: rule_words_def)
  note cap = capture_rule_words [OF this]
  have no_brace: "w \<noteq> ''{''" if "ws = w # vs" for w vs
    using assms that string_bracket (2) [of w] by (auto simp: rule_words_def)
  show "parse_statement F sub (case ws of [] \<Rightarrow> '')'' | w # _ \<Rightarrow> w) (map TStr ws @ TStr '')'' # ts, l) =
      Some (RuleNode l (map TStr ws), (TStr '')'' # ts, l))"
    using assms close cap [of True ts l] no_brace
    by (cases ws) (simp_all add: parse_statement_def span_node_def rule_words_def)
qed

lemma statements_stuck:
  "rule_words ws \<Longrightarrow> parse_statements n F sub (map TStr ws @ TStr '')'' # ts, l) = None"
proof (induction n arbitrary: ws)
  case (Suc n)
  show ?case
    using Suc.IH [OF rule_words_nil] stuck_statement (1) [OF Suc.prems, of ts l]
      stuck_statement (2) [OF Suc.prems] stuck_statement (3) [OF Suc.prems, of F sub ts l] by simp
qed simp

text \<open>The two ways the conditions of the properties below can matter: a brace that closes a
  parenthesis leaves its partner stray; a header takes a stray parenthesis for a part of its value.\<close>

lemma brace_in_parentheses_hangs:
  "parse_to_block F (map TStr [''proto'', ''('', ''tcp'', ''}'', '')'', '';'']) = None"
proof -
  obtain d where d: "MAX_BLOCK_DEPTH = Suc d" by (simp add: MAX_BLOCK_DEPTH_def)
  have stuck: "parse_statements n F sub (TStr '')'' # [TStr '';''], l) = None" for n sub l
    using statements_stuck [of "[]" n F sub "[TStr '';'']" l] by (simp add: rule_words_nil)
  have "parse_statements F F sub (map TStr [''proto'', ''('', ''tcp'', ''}'', '')'', '';''], 0) = None" for sub
  proof (cases F)
    case (Suc n)
    have word: "''proto'' \<noteq> ''@if'' \<and> \<not> header_keyword ''proto'' \<and> dict_get STMT_NODES ''proto'' = None"
      by code_simp
    have "capture_statement_span True 0 (map TStr [''proto'', ''('', ''tcp'', ''}'', '')'', '';''], 0) =
        (map TStr [''proto'', ''('', ''tcp'', ''}''], (map TStr ['')'', '';''], 0))"
      by code_simp
    with word have "parse_statement F sub ''proto'' (map TStr [''proto'', ''('', ''tcp'', ''}'', '')'', '';''], 0) =
        Some (RuleNode 0 (map TStr [''proto'', ''('', ''tcp'', ''}'']), (map TStr ['')'', '';''], 0))"
      by (simp add: parse_statement_def span_node_def)
    then show ?thesis using stuck [of n sub 0] by (simp add: Suc peek_string_def)
  qed simp
  then show ?thesis by (simp add: parse_to_block_def d)
qed

lemma stray_parenthesis_in_header:
  "parse_to_block 10 (config_tokens [''chain INPUT ) { ACCEPT; }'']) =
     Some (Block 0 [HeaderNode 1 ''chain'' (map TStr [''INPUT'', '')'']) (Some (Block 1 [RuleNode 1 (map TStr [''ACCEPT'', '';''])]))])"
  by code_simp



end
