(* ===== verification/Ferm_Treescan.thy ===== *)
theory Ferm_Treescan
  imports Ferm_Tree
begin

text \<open>
  The scans over the spans of a structural tree (\<^verbatim>\<open>src/src/pyferm/_treescan.py\<close>), shared by the
  analyzers of \<^verbatim>\<open>--lint\<close> and the graph of \<^verbatim>\<open>--graph\<close>. A generator is the list of what it yields; an
  index into a list of tokens is the list from it on.
\<close>

section \<open>References\<close>

definition is_name :: "string \<Rightarrow> bool" where
  "is_name s \<longleftrightarrow> s \<noteq> [] \<and> list_all unicode_word s"

fun span_index :: "token list \<Rightarrow> string \<Rightarrow> nat option" where
  "span_index [] w = None"
| "span_index (t # ts) w = (if t = TStr w then Some 0 else map_option Suc (span_index ts w))"

text \<open>\<^verbatim>\<open>span[:i]\<close>, where no index is the whole span.\<close>

definition span_until :: "token list \<Rightarrow> nat option \<Rightarrow> token list" where
  "span_until ts i = (case i of None \<Rightarrow> ts | Some n \<Rightarrow> take n ts)"

fun str_tokens :: "token list \<Rightarrow> string list" where
  "str_tokens [] = []"
| "str_tokens (TStr s # ts) = s # str_tokens ts"
| "str_tokens (_ # ts) = str_tokens ts"

definition is_quoted :: "string \<Rightarrow> bool" where
  "is_quoted s \<longleftrightarrow> 2 \<le> length s \<and> hd s \<in> {SQUOTE, DQUOTE} \<and> last s = hd s"

definition unquote :: "string \<Rightarrow> string" where
  "unquote s = (if is_quoted s then butlast (tl s) else s)"

definition is_quoted_interpolation :: "string \<Rightarrow> bool" where
  "is_quoted_interpolation s \<longleftrightarrow>
     is_quoted s \<and> hd s = DQUOTE \<and> take 1 (unquote s) \<in> {''$'', ''@''}"

text \<open>The matches of \<^verbatim>\<open>\$(\w+)\<close> from left to right.\<close>

function interpolated_names :: "string \<Rightarrow> string list" where
  "interpolated_names [] = []"
| "interpolated_names (c # cs) =
     (if c = CHR ''$'' \<and> takeWhile unicode_word cs \<noteq> []
      then takeWhile unicode_word cs # interpolated_names (dropWhile unicode_word cs)
      else interpolated_names cs)"
  by pat_completeness auto
termination
  by (relation "measure length") (auto simp: le_imp_less_Suc length_dropWhile_le)

definition sigil_name :: "string \<Rightarrow> token list \<Rightarrow> string list" where
  "sigil_name sigil ts = (case ts of TStr n # _ \<Rightarrow> if is_name n then [sigil @ n] else [] | _ \<Rightarrow> [])"

fun iter_var_refs :: "token list \<Rightarrow> string list" where
  "iter_var_refs [] = []"
| "iter_var_refs (t # ts) =
     (if t = TStr ''$'' \<and> ts \<noteq> [] then sigil_name ''$'' ts
      else case t of
             TStr s \<Rightarrow> if is_quoted s \<and> hd s = DQUOTE
                       then map (\<lambda>n. ''$'' @ n) (interpolated_names (unquote s)) else []
           | _ \<Rightarrow> []) @ iter_var_refs ts"

fun iter_func_refs :: "token list \<Rightarrow> string list" where
  "iter_func_refs [] = []"
| "iter_func_refs (t # ts) = (if t = TStr ''&'' then sigil_name ''&'' ts else []) @ iter_func_refs ts"

fun child_blocks :: "node \<Rightarrow> block list" where
  "child_blocks (BlockNode _ b) = (case b of None \<Rightarrow> [] | Some x \<Rightarrow> [x])"
| "child_blocks (HeaderNode _ _ _ b) = (case b of None \<Rightarrow> [] | Some x \<Rightarrow> [x])"
| "child_blocks (IfNode _ _ t e) =
     (case t of None \<Rightarrow> [] | Some x \<Rightarrow> [x]) @ (case e of None \<Rightarrow> [] | Some x \<Rightarrow> [x])"
| "child_blocks _ = []"

section \<open>Chains\<close>

definition SUBCHAIN_KW :: "string list" where
  "SUBCHAIN_KW = [''@subchain'', ''subchain'', ''@gotosubchain'']"

definition JUMP_KW :: "string list" where
  "JUMP_KW = [''jump'', ''goto'', ''realgoto'']"

definition CHAIN_VALUE_BOUNDARY :: "string list" where
  "CHAIN_VALUE_BOUNDARY = [''{'', ''}'', '';'']"

fun take_value :: "string list \<Rightarrow> string list \<times> string list" where
  "take_value [] = ([], [])"
| "take_value (t # ts) =
     (if t = ''$'' then ([], case ts of n # r \<Rightarrow> if is_name n then r else ts | [] \<Rightarrow> [])
      else if starts_with ''$'' t then ([], ts)
      else if is_quoted_interpolation t then ([], ts)
      else ([unquote t], ts))"

lemma take_value_shorter: "length (snd (take_value (t # ts))) \<le> length ts"
  by (auto split: list.splits)

lemma take_value_less: "(vs, r) = take_value (t # ts) \<Longrightarrow> length r < Suc (length ts)"
  using take_value_shorter [of t ts] by (simp del: take_value.simps add: eq_commute [of "(vs, r)"])

function take_values :: "(string \<Rightarrow> bool) \<Rightarrow> string list \<Rightarrow> string list \<times> string list" where
  "take_values stop [] = ([], [])"
| "take_values stop (t # ts) =
     (if stop t then ([], t # ts)
      else case take_value (t # ts) of
             (vs, r) \<Rightarrow> (case take_values stop r of (ws, q) \<Rightarrow> (vs @ ws, q)))"
  by pat_completeness auto
termination
  by (relation "measure (\<lambda>(_, ts). length ts)") (auto simp del: take_value.simps dest: take_value_less)

lemma take_values_shorter: "length (snd (take_values stop ts)) \<le> length ts"
proof (induction stop ts rule: take_values.induct)
  case (2 stop t ts)
  show ?case
  proof (cases "stop t")
    case False
    obtain vs r where r: "take_value (t # ts) = (vs, r)" by fastforce
    obtain ws q where q: "take_values stop r = (ws, q)" by fastforce
    have "length q \<le> length r" using 2 False r q by force
    then show ?thesis using take_value_shorter [of t ts] False r q by (simp del: take_value.simps)
  qed simp
qed simp

text \<open>What a \<^verbatim>\<open>chain\<close> keyword declares: one name or the names of an array.\<close>

definition chain_value :: "string list \<Rightarrow> string list \<times> string list" where
  "chain_value ts =
     (case ts of
        [] \<Rightarrow> ([], [])
      | t # r \<Rightarrow>
          if t = ''(''
          then (case take_values (\<lambda>w. w = '')'') r of
                  (ns, q) \<Rightarrow> (ns, case q of w # q' \<Rightarrow> if w = '')'' then q' else q | [] \<Rightarrow> []))
          else if t \<notin> set CHAIN_VALUE_BOUNDARY then take_value ts else ([], ts))"

lemma chain_value_shorter: "length (snd (chain_value ts)) \<le> length ts"
proof (cases ts)
  case (Cons t r)
  then show ?thesis
    using take_value_shorter [of t r] take_values_shorter [of "\<lambda>w. w = '')''" r]
    by (auto simp: chain_value_def simp del: take_value.simps split: prod.splits list.splits)
qed (simp add: chain_value_def)

lemma chain_value_less: "(ns, r) = chain_value ts \<Longrightarrow> length r < Suc (length ts)"
  using chain_value_shorter [of ts] by (simp add: eq_commute [of "(ns, r)"])

definition quoted_name :: "string list \<Rightarrow> string list" where
  "quoted_name ts =
     (case ts of q # _ \<Rightarrow> if is_quoted q \<and> \<not> is_quoted_interpolation q then [unquote q] else [] | [] \<Rightarrow> [])"

function chain_decls :: "string list \<Rightarrow> string list" where
  "chain_decls [] = []"
| "chain_decls (t # ts) =
     (if t = ''chain'' then (case chain_value ts of (ns, r) \<Rightarrow> ns @ chain_decls r)
      else if t \<in> set SUBCHAIN_KW then quoted_name ts @ chain_decls ts
      else chain_decls ts)"
  by pat_completeness auto
termination
  by (relation "measure length") (auto dest: chain_value_less)

fun subchain_pairs :: "string list \<Rightarrow> (string \<times> string) list" where
  "subchain_pairs [] = []"
| "subchain_pairs (t # ts) =
     (if t \<in> set SUBCHAIN_KW then map (\<lambda>n. (t, n)) (quoted_name ts) else []) @ subchain_pairs ts"

definition subchain_decls :: "string list \<Rightarrow> string list" where
  "subchain_decls toks = map snd (subchain_pairs toks)"

fun jump_pairs :: "string list \<Rightarrow> (string \<times> string) list" where
  "jump_pairs [] = []"
| "jump_pairs (t # ts) =
     (if t \<in> set JUMP_KW
      then (case ts of
              target # _ \<Rightarrow>
                if \<not> starts_with ''$'' target \<and> \<not> is_quoted_interpolation target
                then [(t, unquote target)] else []
            | [] \<Rightarrow> [])
      else []) @ jump_pairs ts"

definition declared_chains :: "token list \<Rightarrow> string list" where
  "declared_chains span = chain_decls (str_tokens span)"

definition subchain_names :: "token list \<Rightarrow> string list" where
  "subchain_names span = subchain_decls (str_tokens span)"

definition jump_targets :: "token list \<Rightarrow> string list" where
  "jump_targets span = map snd (jump_pairs (str_tokens span))"

end
