(* ===== verification/Ferm_Graph.thy ===== *)
theory Ferm_Graph
  imports Ferm_Treescan "HOL-Library.Product_Lexorder"
begin

text \<open>
  The control-flow graph of the chains behind \<^verbatim>\<open>ferm --graph\<close> (\<^verbatim>\<open>src/src/pyferm/graph.py\<close>): the
  walk of the structural tree that carries the domains, tables and chains of the headers, the
  accumulator it fills for each domain and table, and the two renderings. A set of the accumulator is
  the list of what was added; the frozen cluster sorts it without repetitions.
\<close>

section \<open>The graph\<close>

datatype edge_kind = EJump | EGoto | ESubchain | EPolicy | EVerdict

fun edge_label :: "edge_kind \<Rightarrow> string" where
  "edge_label EJump = ''jump''"
| "edge_label EGoto = ''goto''"
| "edge_label ESubchain = ''subchain''"
| "edge_label EPolicy = ''policy''"
| "edge_label EVerdict = ''''"

datatype node_kind = NBuiltin | NUser | NUndefined | NVerdict

type_synonym graph_edge = "string \<times> string \<times> edge_kind"

record cluster =
  cl_domain :: string
  cl_table :: string
  cl_nodes :: "(string \<times> node_kind) list"
  cl_edges :: "graph_edge list"

record cluster_acc =
  ca_declared :: "string list"
  ca_edges :: "graph_edge list"
  ca_names :: "string list"

definition empty_acc :: cluster_acc where
  "empty_acc = \<lparr>ca_declared = [], ca_edges = [], ca_names = []\<rparr>"

type_synonym graph_acc = "(string \<times> string, cluster_acc) dict"

section \<open>Identifiers\<close>

definition id_safe :: "char \<Rightarrow> bool" where
  "id_safe c \<longleftrightarrow> is_digit c \<or> is_upper c \<or> is_lower c"

definition sanitize_char :: "char \<Rightarrow> string" where
  "sanitize_char c =
     (if id_safe c then [c] else [CHR ''_'', hex_digit (char_code c div 16), hex_digit (char_code c mod 16)])"

definition sanitize :: "string \<Rightarrow> string" where
  "sanitize part = concat (map sanitize_char part)"

definition cluster_id :: "string \<Rightarrow> string \<Rightarrow> string" where
  "cluster_id dm table = sanitize dm @ ''__'' @ sanitize table"

definition escape_ident_char :: "char \<Rightarrow> string" where
  "escape_ident_char c = (if c = BACKSLASH then [BACKSLASH, BACKSLASH] else if c = DQUOTE then [BACKSLASH, DQUOTE] else [c])"

definition escape_ident :: "string \<Rightarrow> string" where
  "escape_ident name = escape_control_chars (concat (map escape_ident_char name))"

definition quote_ident :: "string \<Rightarrow> string" where
  "quote_ident name = [DQUOTE] @ escape_ident name @ [DQUOTE]"

definition cluster_label :: "cluster \<Rightarrow> string" where
  "cluster_label c = escape_ident (cl_domain c) @ ''/'' @ escape_ident (cl_table c)"

section \<open>Headers\<close>

definition LOCATION_KEYWORDS :: "string list" where
  "LOCATION_KEYWORDS = map fst (filter (\<lambda>(_, s). ss_location s) STMT_TABLE)"

definition header_value :: "string list \<Rightarrow> string list \<times> string list" where
  "header_value toks = chain_value toks"

record header_context =
  hx_domains :: "string list option"
  hx_tables :: "string list option"
  hx_chains :: "string list option"
  hx_policy :: "string option"

definition no_context :: header_context where
  "no_context = \<lparr>hx_domains = None, hx_tables = None, hx_chains = None, hx_policy = None\<rparr>"

definition set_location :: "string \<Rightarrow> string list \<Rightarrow> header_context \<Rightarrow> header_context" where
  "set_location keyword vs h =
     (if vs = [] then h
      else if keyword = ''domain'' then h\<lparr>hx_domains := Some vs\<rparr>
      else if keyword = ''table'' then h\<lparr>hx_tables := Some vs\<rparr>
      else h\<lparr>hx_chains := Some vs\<rparr>)"

text \<open>The run of locations and policies, and the rule that follows it.\<close>

function header_run :: "header_context \<Rightarrow> string list \<Rightarrow> header_context \<times> string list" where
  "header_run h [] = (h, [])"
| "header_run h (t # ts) =
     (if t \<in> set LOCATION_KEYWORDS
      then (case header_value ts of (vs, r) \<Rightarrow> header_run (set_location t vs h) r)
      else if t = ''policy''
      then (case ts of
              [] \<Rightarrow> (h, [])
            | p # r \<Rightarrow> header_run (if p \<in> set CORE_TARGETS then h\<lparr>hx_policy := Some p\<rparr> else h) r)
      else (h, t # ts))"
  by pat_completeness auto
termination
  by (relation "measure (\<lambda>(_, ts). length ts)") (auto simp: header_value_def dest: chain_value_less)

definition header_context_of :: "token list \<Rightarrow> header_context \<times> string list" where
  "header_context_of span = header_run no_context (str_tokens span)"

section \<open>Edges of a span\<close>

definition jump_kind :: "string \<Rightarrow> edge_kind" where
  "jump_kind keyword = (if keyword = ''jump'' then EJump else EGoto)"

definition subchain_kind :: "string \<Rightarrow> edge_kind" where
  "subchain_kind keyword = (if keyword = ''@gotosubchain'' then EGoto else ESubchain)"

definition span_jumps :: "string list \<Rightarrow> (edge_kind \<times> string) list" where
  "span_jumps toks = map (\<lambda>(kw, target). (jump_kind kw, target)) (jump_pairs toks)"

definition span_subchains :: "string list \<Rightarrow> (edge_kind \<times> string) list" where
  "span_subchains toks = map (\<lambda>(kw, name). (subchain_kind kw, name)) (subchain_pairs toks)"

definition fold_family :: "string \<Rightarrow> string" where
  "fold_family dm = (if dm = ''ip6'' then ''ip'' else dm)"

definition family_targets :: "string \<Rightarrow> string list" where
  "family_targets fam = CORE_TARGETS @ (case dict_get TARGET_DEFS fam of None \<Rightarrow> [] | Some ms \<Rightarrow> dict_keys ms)"

definition params_keywords :: "registry \<Rightarrow> string \<Rightarrow> string list" where
  "params_keywords reg fam =
     (case dict_get reg fam of
        None \<Rightarrow> []
      | Some ms \<Rightarrow> concat (map (\<lambda>(_, m). map fst (filter (\<lambda>(_, kw). kw_params kw \<noteq> PNone) (md_keywords m))) ms))"

definition kw_has_params :: "string \<Rightarrow> string list" where
  "kw_has_params fam = params_keywords PROTO_DEFS fam @ params_keywords MATCH_DEFS fam @ params_keywords TARGET_DEFS fam"

text \<open>Past the parenthesis that closes, with the last token passed.\<close>

fun skip_group :: "nat \<Rightarrow> string \<Rightarrow> string list \<Rightarrow> string \<times> string list" where
  "skip_group 0 w ts = (w, ts)"
| "skip_group (Suc d) w [] = (w, [])"
| "skip_group (Suc d) w (t # ts) =
     skip_group (if t = ''('' then Suc (Suc d) else if t = '')'' then d else Suc d) t ts"

lemma skip_group_shorter: "length (snd (skip_group d w ts)) \<le> length ts"
proof (induction d w ts rule: skip_group.induct)
  case (3 d w t ts)
  then show ?case using le_Suc_eq by (auto split del: if_split)
qed simp_all

lemma skip_group_less: "(w', r) = skip_group d w ts \<Longrightarrow> length r < Suc (length ts)"
  using skip_group_shorter [of d w ts] by (simp add: eq_commute [of "(w', r)"])

function scan_verdicts :: "string list \<Rightarrow> string list \<Rightarrow> string option \<Rightarrow> string list \<Rightarrow> string list" where
  "scan_verdicts targets params prev [] = []"
| "scan_verdicts targets params prev (t # ts) =
     (if t \<in> set JUMP_KW then (case ts of [] \<Rightarrow> [] | x # r \<Rightarrow> scan_verdicts targets params (Some x) r)
      else if prev \<in> Some ` set params
      then (if t = ''('' then (case skip_group 1 t ts of (w, r) \<Rightarrow> scan_verdicts targets params (Some w) r)
            else scan_verdicts targets params (Some t) ts)
      else (if t \<in> set targets then [t] else []) @ scan_verdicts targets params (Some t) ts)"
  by pat_completeness auto
termination
  by (relation "measure (\<lambda>(_, _, _, ts). length ts)") (auto dest: skip_group_less)

definition span_verdicts :: "string \<Rightarrow> string list \<Rightarrow> string list" where
  "span_verdicts fam toks = scan_verdicts (family_targets fam) (kw_has_params fam) None toks"

text \<open>The tokens of a leaf that its chain is scanned for.\<close>

fun scan_span :: "node \<Rightarrow> token list option" where
  "scan_span (DefNode _ span) =
     (case str_tokens span of _ # t # _ \<Rightarrow> if t = ''&'' then Some span else None | _ \<Rightarrow> None)"
| "scan_span (SubchainNode _ span) = Some (takeWhile (\<lambda>t. t \<noteq> TStr ''{'') span)"
| "scan_span (RuleNode _ span) = Some span"
| "scan_span _ = None"

definition classify_name :: "string \<Rightarrow> string list \<Rightarrow> string \<Rightarrow> node_kind" where
  "classify_name name declared fam =
     (if is_netfilter_builtin_chain '''' name then NBuiltin
      else if name \<in> set declared then NUser
      else if name \<in> set (family_targets fam) then NVerdict
      else NUndefined)"

section \<open>The walk\<close>

definition add_to_cluster :: "string \<Rightarrow> string \<Rightarrow> (cluster_acc \<Rightarrow> cluster_acc) \<Rightarrow> graph_acc \<Rightarrow> graph_acc" where
  "add_to_cluster dm table f acc =
     dict_set (dm, table) (f (case dict_get acc (dm, table) of None \<Rightarrow> empty_acc | Some ca \<Rightarrow> ca)) acc"

text \<open>The same for every domain and table, the domain deciding what is added.\<close>

definition add_to_clusters ::
  "string list \<Rightarrow> string list \<Rightarrow> (string \<Rightarrow> cluster_acc \<Rightarrow> cluster_acc) \<Rightarrow> graph_acc \<Rightarrow> graph_acc" where
  "add_to_clusters dms tables f acc =
     fold (\<lambda>dm. fold (\<lambda>table. add_to_cluster dm table (f dm)) tables) dms acc"

definition declare_names :: "string list \<Rightarrow> cluster_acc \<Rightarrow> cluster_acc" where
  "declare_names ns ca = ca\<lparr>ca_declared := ca_declared ca @ ns, ca_names := ca_names ca @ ns\<rparr>"

text \<open>Edges from a chain, with the names at both ends.\<close>

definition add_edges :: "string \<Rightarrow> (edge_kind \<times> string) list \<Rightarrow> cluster_acc \<Rightarrow> cluster_acc" where
  "add_edges src es ca =
     ca\<lparr>ca_edges := ca_edges ca @ map (\<lambda>(k, dst). (src, dst, k)) es, ca_names := ca_names ca @ src # map snd es\<rparr>"

definition emit_span :: "string list \<Rightarrow> string list \<Rightarrow> string list \<Rightarrow> string list \<Rightarrow> graph_acc \<Rightarrow> graph_acc" where
  "emit_span dms tables cs toks =
     (let jumps = span_jumps toks; subs = span_subchains toks; declared = chain_decls toks
      in add_to_clusters dms tables (\<lambda>dm ca.
           fold (\<lambda>src ca'. add_edges src (map (Pair EVerdict) (span_verdicts (fold_family dm) toks))
                             (declare_names (map snd subs) (add_edges src (jumps @ subs) ca')))
             cs (declare_names declared ca)))"

definition or_default :: "string list \<Rightarrow> string list" where
  "or_default tables = (if tables = [] then [DEFAULT_TABLE] else tables)"

type_synonym graph_place = "string list \<times> string list \<times> string list"

definition visit_header :: "graph_place \<Rightarrow> token list \<Rightarrow> graph_acc \<Rightarrow> graph_place \<times> graph_acc" where
  "visit_header place span acc =
     (case place of (dms, tables, cs) \<Rightarrow>
      case header_context_of span of (h, tail) \<Rightarrow>
        (let d = (case hx_domains h of None \<Rightarrow> dms | Some vs \<Rightarrow> vs);
             t0 = (case hx_tables h of None \<Rightarrow> tables | Some vs \<Rightarrow> vs);
             t = (if hx_chains h = None then t0 else or_default t0);
             c = (case hx_chains h of None \<Rightarrow> cs | Some vs \<Rightarrow> vs);
             acc1 = (case hx_chains h of None \<Rightarrow> acc | Some vs \<Rightarrow> add_to_clusters d t (\<lambda>_. declare_names vs) acc);
             acc2 = (case hx_policy h of
                       None \<Rightarrow> acc1
                     | Some p \<Rightarrow> if c = [] then acc1
                                 else add_to_clusters d (or_default t) (\<lambda>_. fold (\<lambda>src. add_edges src [(EPolicy, p)]) c) acc1);
             acc3 = (if tail \<noteq> [] \<and> c \<noteq> [] then emit_span d (or_default t) c tail acc2 else acc2)
         in ((d, t, c), acc3)))"

definition is_leaf :: "node \<Rightarrow> bool" where
  "is_leaf n = (case n of RuleNode _ _ \<Rightarrow> True | DefNode _ _ \<Rightarrow> True | SubchainNode _ _ \<Rightarrow> True | _ \<Rightarrow> False)"

text \<open>The place inside a statement, what it adds, and the subchains whose body may come next.\<close>

definition visit_node :: "graph_place \<Rightarrow> node \<Rightarrow> graph_acc \<Rightarrow> graph_place \<times> graph_acc \<times> string list option" where
  "visit_node place n acc =
     (case place of (dms, tables, cs) \<Rightarrow>
        (case n of
           HeaderNode _ keyword span _ \<Rightarrow>
             (case visit_header place (TStr keyword # span) acc of (place', acc') \<Rightarrow> (place', acc', None))
         | _ \<Rightarrow>
             if is_leaf n \<and> cs \<noteq> []
             then (place,
                   case scan_span n of None \<Rightarrow> acc | Some s \<Rightarrow> emit_span dms (or_default tables) cs (str_tokens s) acc,
                   case n of RuleNode _ span \<Rightarrow> (let subs = subchain_names span in if subs = [] then None else Some subs)
                   | _ \<Rightarrow> None)
             else (place, acc, None)))"

fun walk_statements ::
  "(block \<Rightarrow> graph_place \<Rightarrow> graph_acc \<Rightarrow> graph_acc) \<Rightarrow> graph_place \<Rightarrow> string list option \<Rightarrow> node list \<Rightarrow> graph_acc \<Rightarrow> graph_acc" where
  "walk_statements sub place pend [] acc = acc"
| "walk_statements sub place pend (n # ns) acc =
     (case (n, pend) of
        (BlockNode _ _, Some body) \<Rightarrow>
          walk_statements sub place None ns
            (fold (\<lambda>b. sub b (fst place, fst (snd place), body)) (child_blocks n) acc)
      | _ \<Rightarrow>
          (case visit_node place n acc of (place', acc', pend') \<Rightarrow>
             walk_statements sub place pend' ns (fold (\<lambda>b. sub b place') (child_blocks n) acc')))"

primrec graph_walk :: "nat \<Rightarrow> block \<Rightarrow> graph_place \<Rightarrow> graph_acc \<Rightarrow> graph_acc" where
  "graph_walk 0 b place acc = acc"
| "graph_walk (Suc d) b place acc = walk_statements (graph_walk d) place None (statements b) acc"

definition freeze_cluster :: "(string \<times> string) \<times> cluster_acc \<Rightarrow> cluster" where
  "freeze_cluster e =
     (case e of ((dm, table), ca) \<Rightarrow>
        \<lparr>cl_domain = dm, cl_table = table,
         cl_nodes = map (\<lambda>n. (n, classify_name n (ca_declared ca) (fold_family dm))) (sort (remdups (ca_names ca))),
         cl_edges = sort_key (\<lambda>(s, d, k). (s, d, edge_label k)) (remdups (ca_edges ca))\<rparr>)"

definition freeze :: "graph_acc \<Rightarrow> cluster list" where
  "freeze acc = sort_key (\<lambda>c. (cl_domain c, cl_table c)) (map freeze_cluster acc)"

definition collect_graph :: "block \<Rightarrow> cluster list" where
  "collect_graph root = freeze (graph_walk (Suc MAX_BLOCK_DEPTH) root ([''ip''], [], []) [])"

section \<open>Renderings\<close>

fun dot_node_attr :: "node_kind \<Rightarrow> string" where
  "dot_node_attr NBuiltin = '' [shape=box]''"
| "dot_node_attr NUndefined = '' [style=dashed]''"
| "dot_node_attr NVerdict = '' [shape=plaintext]''"
| "dot_node_attr NUser = ''''"

definition dot_cluster_lines :: "cluster \<Rightarrow> string list" where
  "dot_cluster_lines c =
     [''  subgraph cluster_'' @ cluster_id (cl_domain c) (cl_table c) @ '' {'',
      ''    label='' @ [DQUOTE] @ cluster_label c @ [DQUOTE] @ '';''] @
     map (\<lambda>(n, kind). ''    '' @ quote_ident n @ dot_node_attr kind @ '';'') (cl_nodes c) @
     map (\<lambda>(s, d, k). ''    '' @ quote_ident s @ '' -> '' @ quote_ident d @
            (if edge_label k = '''' then '''' else '' [label='' @ [DQUOTE] @ edge_label k @ [DQUOTE] @ '']'') @ '';'') (cl_edges c) @
     [''  }'']"

definition render_dot :: "cluster list \<Rightarrow> string" where
  "render_dot g = join_str [NL] (''digraph ferm {'' # concat (map dot_cluster_lines g) @ [''}'']) @ [NL]"

fun d2_node_style :: "node_kind \<Rightarrow> string option" where
  "d2_node_style NBuiltin = Some ''shape: hexagon''"
| "d2_node_style NUndefined = Some ''style.stroke-dash: 3''"
| "d2_node_style NVerdict = Some ''shape: oval''"
| "d2_node_style NUser = None"

definition d2_cluster_lines :: "cluster \<Rightarrow> string list" where
  "d2_cluster_lines c =
     [cluster_id (cl_domain c) (cl_table c) @ '': '' @ [DQUOTE] @ cluster_label c @ [DQUOTE] @ '' {''] @
     map (\<lambda>(n, kind). ''  '' @ quote_ident n @
            (case d2_node_style kind of None \<Rightarrow> '''' | Some style \<Rightarrow> '': { '' @ style @ '' }'')) (cl_nodes c) @
     map (\<lambda>(s, d, k). ''  '' @ quote_ident s @ '' -> '' @ quote_ident d @
            (if edge_label k = '''' then '''' else '': '' @ edge_label k)) (cl_edges c) @
     [''}'']"

definition render_d2 :: "cluster list \<Rightarrow> string" where
  "render_d2 g = join_str [NL] (concat (map d2_cluster_lines g)) @ [NL]"

end
