(* ===== verification/Ferm_Graph_Safe.thy ===== *)
theory Ferm_Graph_Safe
  imports Ferm_Graph
begin

text \<open>
  What holds of every graph and of its rendering: the ends of the edges are nodes of the cluster, the
  ids of clusters and nodes name one cluster and one node, and no name of a configuration reaches the
  rendering with a control character or closes its quotes.
\<close>

section \<open>Identifiers\<close>

lemma char_code_bound: "char_code c < 256"
  using of_char_mod_256 [of c, where 'a = nat] mod_less_divisor [of 256 "char_code c"] by (simp add: char_code_def)

lemma char_code_eq: "char_code c = char_code d \<longleftrightarrow> c = d"
  by (simp add: char_code_def)

lemma hex_digit_code: "d < 16 \<Longrightarrow> char_code (hex_digit d) = (if d < 10 then 48 + d else 87 + d)"
  by (simp add: hex_digit_def char_code_def)

lemma hex_digit_inj:
  assumes "d < 16" "e < 16"
  shows "hex_digit d = hex_digit e \<longleftrightarrow> d = e"
proof
  assume "hex_digit d = hex_digit e"
  then have "(if d < 10 then 48 + d else 87 + d) = (if e < 10 then 48 + e else 87 + e)"
    using hex_digit_code assms by metis
  then show "d = e" using assms by (simp split: if_splits)
qed simp

lemma hex_pair_inj:
  "hex_digit (char_code c div 16) = hex_digit (char_code d div 16) \<Longrightarrow>
   hex_digit (char_code c mod 16) = hex_digit (char_code d mod 16) \<Longrightarrow> c = d"
proof -
  assume h: "hex_digit (char_code c div 16) = hex_digit (char_code d div 16)"
    "hex_digit (char_code c mod 16) = hex_digit (char_code d mod 16)"
  have "char_code c div 16 < 16" "char_code d div 16 < 16" using char_code_bound [of c] char_code_bound [of d] by simp_all
  then have "char_code c div 16 = char_code d div 16" "char_code c mod 16 = char_code d mod 16"
    using h hex_digit_inj by simp_all
  then have "char_code c = char_code d" by (metis div_mult_mod_eq)
  then show "c = d" by (simp add: char_code_eq)
qed

lemma hex_digit_not_underscore: "d < 16 \<Longrightarrow> hex_digit d \<noteq> CHR ''_''"
  using hex_digit_code [of d] by (auto simp: char_code_def split: if_splits)

lemma underscore_unsafe: "\<not> id_safe (CHR ''_'')"
  by (simp add: id_safe_def is_digit_def is_upper_def is_lower_def char_code_def)

lemma sanitize_char_split:
  assumes "sanitize_char c @ x = sanitize_char d @ y"
  shows "c = d \<and> x = y"
  using assms underscore_unsafe hex_pair_inj [of c d]
  by (auto simp: sanitize_char_def split: if_splits)

lemma sanitize_char_nonempty: "sanitize_char c \<noteq> []"
  by (simp add: sanitize_char_def)

lemma sanitize_inj: "sanitize s = sanitize t \<longleftrightarrow> s = t"
proof
  show "sanitize s = sanitize t \<Longrightarrow> s = t"
  proof (induction s arbitrary: t)
    case Nil
    then show ?case using sanitize_char_nonempty by (cases t) (auto simp: sanitize_def)
  next
    case (Cons c s)
    then obtain d t' where t: "t = d # t'" using sanitize_char_nonempty by (cases t) (auto simp: sanitize_def)
    then have "c = d \<and> sanitize s = sanitize t'"
      using Cons.prems sanitize_char_split by (simp add: sanitize_def)
    then show ?case using Cons.IH t by blast
  qed
qed simp

lemma no_delimiter: "CHR ''_'' # CHR ''_'' # x \<noteq> sanitize_char c @ y"
proof
  assume eq: "CHR ''_'' # CHR ''_'' # x = sanitize_char c @ y"
  have "char_code c div 16 < 16" using char_code_bound [of c] by simp
  then have "hex_digit (char_code c div 16) \<noteq> CHR ''_''" by (rule hex_digit_not_underscore)
  then show False using eq underscore_unsafe by (auto simp: sanitize_char_def split: if_splits)
qed

text \<open>
  The ids of the clusters are those of one cluster each: two different domains or tables, however
  they are spelled, never share the id of a subgraph, since the delimiter of the two parts cannot
  appear earlier in the first.
\<close>

theorem cluster_id_injective: "cluster_id dm table = cluster_id dm' table' \<longleftrightarrow> dm = dm' \<and> table = table'"
proof
  show "cluster_id dm table = cluster_id dm' table' \<Longrightarrow> dm = dm' \<and> table = table'"
  proof (induction dm arbitrary: dm')
    case Nil
    then show ?case using no_delimiter
      by (cases dm') (auto simp: cluster_id_def sanitize_inj, auto simp: sanitize_def)
  next
    case (Cons c dm)
    show ?case
    proof (cases dm')
      case Nil
      then show ?thesis using Cons.prems no_delimiter [of "sanitize table'" c]
        by (simp add: cluster_id_def sanitize_def) metis
    next
      case (Cons d dm'')
      then have "c = d \<and> sanitize dm @ ''__'' @ sanitize table = sanitize dm'' @ ''__'' @ sanitize table'"
        using Cons.prems sanitize_char_split by (simp add: cluster_id_def sanitize_def)
      then show ?thesis using Cons.IH [of dm''] Cons by (simp add: cluster_id_def)
    qed
  qed
qed simp

section \<open>Names\<close>

text \<open>A quoted identifier read back, with the text after it.\<close>

definition unhex :: "char \<Rightarrow> nat" where
  "unhex c = (if char_code c < 58 then char_code c - 48 else char_code c - 87)"

fun read_ident :: "string \<Rightarrow> (string \<times> string) option" where
  "read_ident [] = None"
| "read_ident (c # cs) =
     (if c = DQUOTE then Some ([], cs)
      else if c \<noteq> BACKSLASH then map_option (\<lambda>(n, t). (c # n, t)) (read_ident cs)
      else case cs of
             [] \<Rightarrow> None
           | e # r \<Rightarrow>
               if e \<noteq> CHR ''x'' then map_option (\<lambda>(n, t). (e # n, t)) (read_ident r)
               else (case r of
                       h # l # q \<Rightarrow> map_option (\<lambda>(n, t). (char_of (16 * unhex h + unhex l) # n, t)) (read_ident q)
                     | _ \<Rightarrow> None))"

lemma unhex_digit: "d < 16 \<Longrightarrow> unhex (hex_digit d) = d"
  by (simp add: unhex_def hex_digit_code)

lemma escape_ident_Cons:
  "escape_ident (c # cs) =
     (if c = BACKSLASH then [BACKSLASH, BACKSLASH] else if c = DQUOTE then [BACKSLASH, DQUOTE]
      else if is_control c then [BACKSLASH, CHR ''x'', hex_digit (char_code c div 16), hex_digit (char_code c mod 16)]
      else [c]) @ escape_ident cs"
  by (auto simp: escape_ident_def escape_ident_char_def escape_control_chars_def is_control_def char_code_def)

text \<open>
  C35: A name of the configuration cannot reach the markup of a rendering: read with the escapes of the
  quoted form, the identifier it is written as ends where the program ends it and gives the name back,
  so two nodes never share an identifier either.
\<close>

theorem quoted_name_read_back: "read_ident (tl (quote_ident name @ rest)) = Some (name, rest)"
proof -
  have "read_ident (escape_ident name @ DQUOTE # rest) = Some (name, rest)"
  proof (induction name)
    case Nil
    then show ?case by (simp add: escape_ident_def escape_control_chars_def)
  next
    case (Cons c name)
    have "char_code c div 16 < 16" using char_code_bound [of c] by simp
    moreover have "char_of (16 * (char_code c div 16) + char_code c mod 16) = c"
      by (simp add: char_code_def)
    ultimately show ?case using Cons.IH by (simp add: escape_ident_Cons unhex_digit)
  qed
  then show ?thesis by (simp add: quote_ident_def)
qed

section \<open>Nodes and edges\<close>

definition acc_joined :: "cluster_acc \<Rightarrow> bool" where
  "acc_joined ca \<longleftrightarrow>
     set (ca_declared ca) \<subseteq> set (ca_names ca) \<and>
     (\<forall>(s, d, k) \<in> set (ca_edges ca). s \<in> set (ca_names ca) \<and> d \<in> set (ca_names ca))"

definition graph_joined :: "graph_acc \<Rightarrow> bool" where
  "graph_joined acc \<longleftrightarrow> (\<forall>e \<in> set acc. acc_joined (snd e))"

lemma dict_set_elem: "e \<in> set (dict_set k v d) \<Longrightarrow> e = (k, v) \<or> e \<in> set d"
  unfolding dict_set_def by (induction d) (auto split: if_splits)

lemma joined_empty: "acc_joined empty_acc"
  by (simp add: acc_joined_def empty_acc_def)

lemma joined_declare: "acc_joined ca \<Longrightarrow> acc_joined (declare_names ns ca)"
  by (auto simp: acc_joined_def declare_names_def)

lemma joined_edges: "acc_joined ca \<Longrightarrow> acc_joined (add_edges src es ca)"
  by (force simp: acc_joined_def add_edges_def)

lemma joined_fold: "(\<And>x ca. acc_joined ca \<Longrightarrow> acc_joined (f x ca)) \<Longrightarrow> acc_joined ca \<Longrightarrow> acc_joined (fold f xs ca)"
  by (induction xs arbitrary: ca) auto

lemma graph_fold: "(\<And>x acc. graph_joined acc \<Longrightarrow> graph_joined (f x acc)) \<Longrightarrow> graph_joined acc \<Longrightarrow> graph_joined (fold f xs acc)"
  by (induction xs arbitrary: acc) auto

lemma joined_add:
  assumes "\<And>ca. acc_joined ca \<Longrightarrow> acc_joined (f ca)" "graph_joined acc"
  shows "graph_joined (add_to_cluster dm table f acc)"
proof -
  have "acc_joined (case dict_get acc (dm, table) of None \<Rightarrow> empty_acc | Some ca \<Rightarrow> ca)"
    using assms (2) joined_empty
    by (cases "dict_get acc (dm, table)") (force simp: graph_joined_def dict_get_def dest: map_of_SomeD)+
  then show ?thesis using assms dict_set_elem by (fastforce simp: add_to_cluster_def graph_joined_def)
qed

lemma joined_add_all:
  "(\<And>dm ca. acc_joined ca \<Longrightarrow> acc_joined (f dm ca)) \<Longrightarrow> graph_joined acc \<Longrightarrow> graph_joined (add_to_clusters dms tables f acc)"
  unfolding add_to_clusters_def by (intro graph_fold joined_add)

lemma joined_emit: "graph_joined acc \<Longrightarrow> graph_joined (emit_span dms tables cs toks acc)"
  unfolding emit_span_def Let_def by (intro joined_add_all joined_fold joined_edges joined_declare)

lemma joined_header: "graph_joined acc \<Longrightarrow> graph_joined (snd (visit_header place span acc))"
proof -
  assume acc: "graph_joined acc"
  obtain dms tables cs where place: "place = (dms, tables, cs)" by (metis prod.collapse)
  obtain h tail where h: "header_context_of span = (h, tail)" by (metis prod.collapse)
  show ?thesis
    using acc by (auto simp: visit_header_def place h Let_def split: option.splits
        intro!: joined_emit joined_add_all joined_fold joined_edges joined_declare)
qed

lemma joined_headerD: "visit_header place span acc = (place', acc') \<Longrightarrow> graph_joined acc \<Longrightarrow> graph_joined acc'"
  using joined_header [of acc place span] by simp

lemma joined_visit: "graph_joined acc \<Longrightarrow> graph_joined (fst (snd (visit_node place n acc)))"
  by (cases place; cases n)
    (auto simp: visit_node_def is_leaf_def split: prod.splits option.splits intro: joined_emit joined_headerD)

lemma joined_statements:
  "(\<And>b place acc. graph_joined acc \<Longrightarrow> graph_joined (sub b place acc)) \<Longrightarrow> graph_joined acc \<Longrightarrow>
   graph_joined (walk_statements sub place pend ns acc)"
proof (induction ns arbitrary: place pend acc)
  case (Cons n ns)
  obtain place' acc' pend' where v: "visit_node place n acc = (place', acc', pend')" by (metis prod.collapse)
  have acc': "graph_joined acc'" using joined_visit [OF Cons.prems (2), of place n] v by simp
  have fold_ok: "graph_joined (fold (\<lambda>b. sub b p) bs a)" if "graph_joined a" for p bs a
    using that by (rule graph_fold [rotated]) (rule Cons.prems (1))
  have plain: "graph_joined (walk_statements sub q pend' ns (fold (\<lambda>b. sub b p) (child_blocks n) acc'))" for q p
    by (rule Cons.IH [OF Cons.prems (1) fold_ok [OF acc']])
  have body_ok: "graph_joined (walk_statements sub q None ns (fold (\<lambda>b. sub b p) (child_blocks n) acc))" for q p
    by (rule Cons.IH [OF Cons.prems (1) fold_ok [OF Cons.prems (2)]])
  show ?case
  proof (cases "(\<exists>l b. n = BlockNode l b) \<and> pend \<noteq> None")
    case True
    then obtain l b body where "n = BlockNode l b" "pend = Some body" by blast
    then show ?thesis using body_ok by simp
  next
    case False
    have "walk_statements sub place pend (n # ns) acc =
        walk_statements sub place pend' ns (fold (\<lambda>b. sub b place') (child_blocks n) acc')"
      using False v by (cases n; cases pend) (simp_all del: child_blocks.simps)
    then show ?thesis using plain by simp
  qed
qed simp

lemma joined_walk: "graph_joined acc \<Longrightarrow> graph_joined (graph_walk d b place acc)"
  by (induction d arbitrary: b place acc) (auto intro: joined_statements)

text \<open>The nodes of a cluster are sorted, without repetitions, and hold the ends of its edges.\<close>

definition well_joined :: "cluster \<Rightarrow> bool" where
  "well_joined c \<longleftrightarrow>
     sorted (map fst (cl_nodes c)) \<and> distinct (map fst (cl_nodes c)) \<and>
     (\<forall>(s, d, k) \<in> set (cl_edges c). s \<in> fst ` set (cl_nodes c) \<and> d \<in> fst ` set (cl_nodes c))"

text \<open>
  C34: Every edge of the graph joins two nodes of its own cluster, whatever the configuration, and each
  name is one node: the renderings never draw an edge to a chain that they do not show.
\<close>

theorem graph_edges_join_nodes: "list_all well_joined (collect_graph root)"
proof -
  let ?acc = "graph_walk (Suc MAX_BLOCK_DEPTH) root ([''ip''], [], []) []"
  have "graph_joined ?acc" by (rule joined_walk) (simp add: graph_joined_def)
  then have "well_joined (freeze_cluster e)" if "e \<in> set ?acc" for e
    using that by (cases e) (fastforce simp: graph_joined_def acc_joined_def well_joined_def freeze_cluster_def comp_def image_image)
  then show ?thesis by (auto simp: collect_graph_def freeze_def list_all_iff simp del: graph_walk.simps)
qed

section \<open>Control characters\<close>

definition printable_text :: "string \<Rightarrow> bool" where
  "printable_text s \<longleftrightarrow> list_all (\<lambda>c. \<not> is_control c) s"

lemma printable_append [simp]: "printable_text (s @ t) \<longleftrightarrow> printable_text s \<and> printable_text t"
  by (simp add: printable_text_def)

lemma printable_Cons [simp]: "printable_text (c # s) \<longleftrightarrow> \<not> is_control c \<and> printable_text s"
  by (simp add: printable_text_def)

lemma printable_Nil [simp]: "printable_text []"
  by (simp add: printable_text_def)

lemma printable_escape: "printable_text (escape_ident s)"
  using escape_no_control by (auto simp: printable_text_def escape_ident_def list_all_iff)

lemma printable_safe: "id_safe c \<Longrightarrow> \<not> is_control c"
  by (auto simp: id_safe_def is_control_def is_digit_def is_upper_def is_lower_def char_code_def)

lemma printable_id: "printable_text (cluster_id a b)"
proof -
  have "printable_text (sanitize s)" for s
  proof (induction s)
    case (Cons c s)
    have "char_code c div 16 < 16" using char_code_bound [of c] by simp
    then have "printable_text (sanitize_char c)"
      using printable_safe [of c] hex_digit_not_control
      by (auto simp: sanitize_char_def printable_text_def is_control_def char_code_def)
    then show ?case using Cons by (simp add: sanitize_def)
  qed (simp add: sanitize_def printable_text_def)
  then show ?thesis by (simp add: cluster_id_def) (simp add: printable_text_def is_control_def char_code_def)
qed

lemma printable_join: "list_all printable_text xs \<Longrightarrow> set (join_str [NL] xs) \<inter> Collect is_control \<subseteq> {NL}"
  by (induction "[NL]" xs rule: join_str.induct) (auto simp: printable_text_def list_all_iff)

lemma printable_lines: "list_all printable_text xs \<Longrightarrow> set (join_str [NL] xs @ [NL]) \<inter> Collect is_control \<subseteq> {NL}"
  using printable_join [of xs] by (simp add: Int_insert_left)

lemmas literal_control = is_control_def char_code_def

lemma printable_pieces:
  "printable_text (dot_node_attr k)" "printable_text (edge_label e)" "printable_text (quote_ident n)"
  "printable_text (cluster_label c)"
  "printable_text (case d2_node_style k of None \<Rightarrow> '''' | Some style \<Rightarrow> '': { '' @ style @ '' }'')"
      apply (cases k; simp add: literal_control)
     apply (cases e; simp add: literal_control)
    apply (simp add: quote_ident_def printable_escape) apply (simp add: literal_control)
   apply (simp add: cluster_label_def printable_escape) apply (simp add: literal_control)
  by (cases k; simp add: literal_control)

lemma printable_dot: "list_all printable_text (dot_cluster_lines c)"
  unfolding dot_cluster_lines_def
  by (auto simp: list_all_iff printable_pieces printable_id literal_control)

lemma printable_d2: "list_all printable_text (d2_cluster_lines c)"
  unfolding d2_cluster_lines_def
  by (auto simp: list_all_iff printable_pieces printable_id literal_control)

text \<open>
  No name of a configuration brings a control character into either rendering: the only one in it
  is the end of a line that the renderer writes.
\<close>

theorem renderings_printable:
  "set (render_dot g) \<inter> Collect is_control \<subseteq> {NL} \<and> set (render_d2 g) \<inter> Collect is_control \<subseteq> {NL}"
proof -
  have "printable_text ''digraph ferm {''" "printable_text ''}''" by (simp_all add: literal_control)
  then have "list_all printable_text (''digraph ferm {'' # concat (map dot_cluster_lines g) @ [''}''])"
    using printable_dot by (auto simp: list_all_iff simp del: printable_Cons)
  moreover have "list_all printable_text (concat (map d2_cluster_lines g))"
    using printable_d2 by (auto simp: list_all_iff)
  ultimately show ?thesis unfolding render_dot_def render_d2_def by (intro conjI printable_lines)
qed

end
