(* ===== verification/Ferm_Analysis.thy ===== *)
theory Ferm_Analysis
  imports Ferm_Treescan "HOL-Library.Product_Lexorder"
begin

text \<open>
  The analyzers behind \<^verbatim>\<open>ferm --lint\<close> (\<^verbatim>\<open>src/src/pyferm/analysis.py\<close>). A registry that the
  program fills while it visits the tree is the list of what the visits contribute; where the program
  keeps a set, only membership and the sorted list of the set are used. The search for cycles keeps its
  path, its set of nodes on the path and its stack of iterators in step: here they are one stack of
  frames, the node and the successors left, the top first.
\<close>

section \<open>Findings\<close>

datatype severity = SevError | SevWarning | SevInfo

fun severity_level :: "severity \<Rightarrow> nat" where
  "severity_level SevError = 0"
| "severity_level SevWarning = 1"
| "severity_level SevInfo = 2"

fun severity_name :: "severity \<Rightarrow> string" where
  "severity_name SevError = ''error''"
| "severity_name SevWarning = ''warning''"
| "severity_name SevInfo = ''info''"

datatype finding = Finding (fi_severity: severity) (fi_code: string) (fi_message: string)

text \<open>Every statement of a block and of the blocks inside, the outer ones first.\<close>

primrec walk_all :: "nat \<Rightarrow> block \<Rightarrow> node list" where
  "walk_all 0 b = []"
| "walk_all (Suc d) b = concat (map (\<lambda>n. n # concat (map (walk_all d) (child_blocks n))) (statements b))"

definition tree_nodes :: "block \<Rightarrow> node list" where
  "tree_nodes = walk_all (Suc MAX_BLOCK_DEPTH)"

section \<open>Definitions\<close>

definition is_function_def :: "token list \<Rightarrow> bool" where
  "is_function_def span \<longleftrightarrow> TStr ''&'' \<in> set (span_until span (span_index span ''=''))"

definition function_def_name :: "token list \<Rightarrow> string option" where
  "function_def_name span =
     (case iter_func_refs (span_until span (span_index span ''='')) of [] \<Rightarrow> None | n # _ \<Rightarrow> Some n)"

definition declared_def_name :: "token list \<Rightarrow> string option" where
  "declared_def_name span =
     (if is_function_def span then function_def_name span
      else case iter_var_refs span of [] \<Rightarrow> None | n # _ \<Rightarrow> Some n)"

definition note_refs :: "token list \<Rightarrow> string list" where
  "note_refs span = iter_var_refs span @ iter_func_refs span"

text \<open>What a statement declares and what it mentions.\<close>

fun declared_by :: "node \<Rightarrow> string list" where
  "declared_by (DefNode _ span) = (case declared_def_name span of None \<Rightarrow> [] | Some n \<Rightarrow> [n])"
| "declared_by _ = []"

fun mentioned_by :: "node \<Rightarrow> string list" where
  "mentioned_by (DefNode _ span) =
     (if is_function_def span
      then (case span_index span ''='' of None \<Rightarrow> [] | Some i \<Rightarrow> note_refs (drop (Suc i) span))
      else tl (iter_var_refs span) @ iter_func_refs span)"
| "mentioned_by (SetNode _ span) = note_refs span"
| "mentioned_by (RuleNode _ span) = note_refs span"
| "mentioned_by (IfNode _ cond _ _) = note_refs cond"
| "mentioned_by (HeaderNode _ keyword span _) = note_refs (TStr keyword # span)"
| "mentioned_by _ = []"

definition find_unused_defs :: "block \<Rightarrow> string list" where
  "find_unused_defs root =
     (let nodes = tree_nodes root; mentioned = concat (map mentioned_by nodes)
      in sort (filter (\<lambda>n. n \<notin> set mentioned) (remdups (concat (map declared_by nodes)))))"

section \<open>Chains\<close>

record chain_harvest =
  ch_declared :: "string list"
  ch_jumps :: "string list"
  ch_subchains :: "string list"

definition harvest :: "bool \<Rightarrow> token list \<Rightarrow> chain_harvest" where
  "harvest with_jumps span =
     (let toks = str_tokens span
      in \<lparr>ch_declared = chain_decls toks, ch_jumps = (if with_jumps then map snd (jump_pairs toks) else []),
          ch_subchains = subchain_decls toks\<rparr>)"

fun harvest_node :: "node \<Rightarrow> chain_harvest" where
  "harvest_node (HeaderNode _ keyword span _) = harvest True (TStr keyword # span)"
| "harvest_node (RuleNode _ span) = harvest True span"
| "harvest_node (SubchainNode _ span) = harvest False span"
| "harvest_node (DefNode _ span) = harvest True span"
| "harvest_node _ = \<lparr>ch_declared = [], ch_jumps = [], ch_subchains = []\<rparr>"

definition collect_chains :: "block \<Rightarrow> chain_harvest" where
  "collect_chains root =
     (let hs = map harvest_node (tree_nodes root)
      in \<lparr>ch_declared = concat (map ch_declared hs), ch_jumps = concat (map ch_jumps hs),
          ch_subchains = concat (map ch_subchains hs)\<rparr>)"

definition undefined_targets :: "chain_harvest \<Rightarrow> string list" where
  "undefined_targets ch = sort (remdups (filter (\<lambda>t. t \<notin> set (ch_declared ch)) (ch_jumps ch)))"

definition find_undefined_chain_jumps :: "block \<Rightarrow> string list" where
  "find_undefined_chain_jumps root = undefined_targets (collect_chains root)"

definition unreachable_findings_from :: "chain_harvest \<Rightarrow> finding list" where
  "unreachable_findings_from ch =
     map (\<lambda>n. Finding SevWarning ''unreachable-chain'' (''unreachable chain: '' @ n))
       (filter (\<lambda>n. n \<notin> set (ch_jumps ch) \<and> n \<notin> set (ch_subchains ch) \<and> \<not> is_netfilter_builtin_chain '''' n)
         (sort (remdups (ch_declared ch))))"

definition find_unreachable_chains :: "block \<Rightarrow> finding list" where
  "find_unreachable_chains root = unreachable_findings_from (collect_chains root)"

definition unused_definition_findings :: "block \<Rightarrow> finding list" where
  "unused_definition_findings root =
     map (\<lambda>n. Finding SevWarning ''unused-definition'' (''unused definition: '' @ n)) (find_unused_defs root)"

definition undefined_jump_findings_from :: "chain_harvest \<Rightarrow> finding list" where
  "undefined_jump_findings_from ch =
     map (\<lambda>n. Finding SevWarning ''undefined-jump'' (''jump to undefined chain: '' @ n)) (undefined_targets ch)"

section \<open>Deprecated keywords\<close>

definition DEPRECATED_KEYWORDS :: "(string \<times> string) list" where
  "DEPRECATED_KEYWORDS = [(''realgoto'', ''goto'')]"

definition scan_deprecated :: "token list \<Rightarrow> string list" where
  "scan_deprecated span = filter (\<lambda>t. t \<in> set (map fst DEPRECATED_KEYWORDS)) (str_tokens span)"

fun deprecated_hits :: "node \<Rightarrow> string list" where
  "deprecated_hits (RuleNode _ span) = scan_deprecated span"
| "deprecated_hits (DefNode _ span) = scan_deprecated span"
| "deprecated_hits (HeaderNode _ keyword span _) = scan_deprecated (TStr keyword # span)"
| "deprecated_hits _ = []"

definition find_deprecated_keywords :: "block \<Rightarrow> finding list" where
  "find_deprecated_keywords root =
     map (\<lambda>kw. Finding SevInfo ''deprecated-keyword''
            (''deprecated keyword: '' @ kw @ '' (use '' @ the (map_of DEPRECATED_KEYWORDS kw) @ '')''))
       (sort (remdups (concat (map deprecated_hits (tree_nodes root)))))"

section \<open>The jump graph\<close>

text \<open>The chains a header puts its statements in: what it declares but no subchain of its own.\<close>

definition header_sources :: "token list \<Rightarrow> string list \<Rightarrow> string list" where
  "header_sources span sources =
     (let subs = subchain_names span; context = filter (\<lambda>n. n \<notin> set subs) (declared_chains span)
      in if context = [] then sources else context)"

fun node_sources :: "node \<Rightarrow> string list \<Rightarrow> string list" where
  "node_sources (HeaderNode _ keyword span _) sources = header_sources (TStr keyword # span) sources"
| "node_sources _ sources = sources"

fun node_targets :: "node \<Rightarrow> string list" where
  "node_targets (HeaderNode _ keyword span _) =
     jump_targets (TStr keyword # span) @ subchain_names (TStr keyword # span)"
| "node_targets (RuleNode _ span) = jump_targets span @ subchain_names span"
| "node_targets (SubchainNode _ span) = jump_targets span @ subchain_names span"
| "node_targets (DefNode _ span) = jump_targets span @ subchain_names span"
| "node_targets _ = []"

primrec collect_edges :: "nat \<Rightarrow> block \<Rightarrow> string list \<Rightarrow> (string \<times> string) list" where
  "collect_edges 0 b sources = []"
| "collect_edges (Suc d) b sources =
     concat (map (\<lambda>n. let here = node_sources n sources
                      in List.product here (node_targets n) @
                         concat (map (\<lambda>c. collect_edges d c here) (child_blocks n)))
       (statements b))"

definition jump_edges :: "block \<Rightarrow> (string \<times> string) list" where
  "jump_edges root = collect_edges (Suc MAX_BLOCK_DEPTH) root []"

type_synonym adjacency = "(string, string list) dict"

definition successors :: "adjacency \<Rightarrow> string \<Rightarrow> string list" where
  "successors adj v = (case dict_get adj v of None \<Rightarrow> [] | Some ss \<Rightarrow> ss)"

definition adjacency_of :: "(string \<times> string) list \<Rightarrow> adjacency" where
  "adjacency_of edges =
     fold (\<lambda>(source, target) adj. dict_set source (successors adj source @ [target]) adj) (sort (remdups edges)) []"

definition canonical_cycle :: "string list \<Rightarrow> string list" where
  "canonical_cycle c =
     (let low = Min (set c)
      in dropWhile (\<lambda>v. v \<noteq> low) c @ takeWhile (\<lambda>v. v \<noteq> low) c)"

text \<open>The path of the frames from a node on.\<close>

definition path_from :: "(string \<times> string list) list \<Rightarrow> string \<Rightarrow> string list" where
  "path_from frames s = dropWhile (\<lambda>v. v \<noteq> s) (rev (map fst frames))"

text \<open>The nodes that a search can still meet.\<close>

definition reach_bound :: "adjacency \<Rightarrow> (string \<times> string list) list \<Rightarrow> string set" where
  "reach_bound adj frames = (\<Union>(_, ss) \<in> set adj. set ss) \<union> (\<Union>(_, ss) \<in> set frames. set ss)"

lemma finite_reach_bound: "finite (reach_bound adj frames)"
  by (auto simp: reach_bound_def)

lemma successors_bound: "set (successors adj s) \<subseteq> reach_bound adj frames"
proof
  fix t
  assume "t \<in> set (successors adj s)"
  then obtain ss where "dict_get adj s = Some ss" "t \<in> set ss"
    by (cases "dict_get adj s") (auto simp: successors_def)
  then show "t \<in> reach_bound adj frames" by (force simp: reach_bound_def dict_get_def dest: map_of_SomeD)
qed

function cycle_search ::
  "adjacency \<Rightarrow> (string \<times> string list) list \<Rightarrow> string list \<Rightarrow> string list list \<Rightarrow> string list list" where
  "cycle_search adj [] visited cycles = cycles"
| "cycle_search adj ((v, []) # frames) visited cycles = cycle_search adj frames visited cycles"
| "cycle_search adj ((v, s # ss) # frames) visited cycles =
     (if s \<in> set (map fst ((v, ss) # frames))
      then cycle_search adj ((v, ss) # frames) visited (canonical_cycle (path_from ((v, ss) # frames) s) # cycles)
      else if s \<in> set visited then cycle_search adj ((v, ss) # frames) visited cycles
      else cycle_search adj ((s, successors adj s) # (v, ss) # frames) (s # visited) cycles)"
  by pat_completeness auto

termination
proof (relation "inv_image (less_than <*lex*> less_than)
    (\<lambda>(adj, frames, visited, cycles).
       (card (reach_bound adj frames - set visited), sum_list (map (\<lambda>(_, ss). Suc (length ss)) frames)))", goal_cases)
  case 1
  then show ?case by (auto intro: wf_inv_image wf_lex_prod)
next
  case (2 adj v frames visited cycles)
  have "card (reach_bound adj frames - set visited) \<le> card (reach_bound adj ((v, []) # frames) - set visited)"
    by (rule card_mono) (auto simp: reach_bound_def)
  then show ?case by auto
next
  case (3 adj v s ss frames visited cycles)
  have "card (reach_bound adj ((v, ss) # frames) - set visited) \<le> card (reach_bound adj ((v, s # ss) # frames) - set visited)"
    by (rule card_mono) (auto simp: reach_bound_def)
  then show ?case by auto
next
  case (4 adj v s ss frames visited cycles)
  have "card (reach_bound adj ((v, ss) # frames) - set visited) \<le> card (reach_bound adj ((v, s # ss) # frames) - set visited)"
    by (rule card_mono) (auto simp: reach_bound_def)
  then show ?case by auto
next
  case (5 adj v s ss frames visited cycles)
  have "reach_bound adj ((s, successors adj s) # (v, ss) # frames) - set (s # visited)
      \<subset> reach_bound adj ((v, s # ss) # frames) - set visited"
    using 5 (2) successors_bound [of adj s "(v, ss) # frames"] by (auto simp: reach_bound_def)
  then have "card (reach_bound adj ((s, successors adj s) # (v, ss) # frames) - set (s # visited))
      < card (reach_bound adj ((v, s # ss) # frames) - set visited)"
    by (intro psubset_card_mono finite_Diff finite_reach_bound)
  then show ?case by simp
qed

definition find_cycles :: "adjacency \<Rightarrow> string list list" where
  "find_cycles adj = concat (map (\<lambda>start. cycle_search adj [(start, successors adj start)] [start] []) (dict_keys adj))"

definition find_jump_cycles :: "block \<Rightarrow> finding list" where
  "find_jump_cycles root =
     map (\<lambda>c. Finding SevError ''jump-cycle'' (''jump cycle: '' @ join_str '' -> '' (c @ [hd c])))
       (sort (remdups (find_cycles (adjacency_of (jump_edges root)))))"

section \<open>Duplicate definitions\<close>

text \<open>The names that repeat one before.\<close>

fun repeated :: "string list \<Rightarrow> string list \<Rightarrow> string list" where
  "repeated seen [] = []"
| "repeated seen (n # ns) = (if n \<in> set seen then [n] else []) @ repeated (n # seen) ns"

primrec collect_duplicate_defs :: "nat \<Rightarrow> block \<Rightarrow> string list" where
  "collect_duplicate_defs 0 b = []"
| "collect_duplicate_defs (Suc d) b =
     repeated [] (concat (map declared_by (statements b))) @
     concat (map (\<lambda>n. concat (map (collect_duplicate_defs d) (child_blocks n))) (statements b))"

definition find_duplicate_definitions :: "block \<Rightarrow> finding list" where
  "find_duplicate_definitions root =
     map (\<lambda>n. Finding SevWarning ''duplicate-definition'' (''duplicate definition: '' @ n))
       (sort (remdups (collect_duplicate_defs (Suc MAX_BLOCK_DEPTH) root)))"

section \<open>The registry\<close>

definition ANALYZERS :: "string list" where
  "ANALYZERS =
     [''jump-cycle'', ''unused-definition'', ''undefined-jump'', ''unreachable-chain'', ''duplicate-definition'',
      ''deprecated-keyword'']"

definition registration_index :: "string \<Rightarrow> nat" where
  "registration_index code = length (takeWhile (\<lambda>c. c \<noteq> code) ANALYZERS)"

definition finding_key :: "finding \<Rightarrow> nat \<times> nat \<times> string" where
  "finding_key f = (severity_level (fi_severity f), registration_index (fi_code f), fi_message f)"

definition run_analysis :: "block \<Rightarrow> finding list" where
  "run_analysis root =
     (let chains = collect_chains root
      in sort_key finding_key (remdups
           (find_jump_cycles root @ unused_definition_findings root @ undefined_jump_findings_from chains @
            unreachable_findings_from chains @ find_duplicate_definitions root @ find_deprecated_keywords root)))"

end
