(* ===== verification/Ferm_Difflib.thy ===== *)
theory Ferm_Difflib
  imports Ferm_Prelude
begin

text \<open>
  What the program uses of the standard library's \<^verbatim>\<open>difflib\<close>: the blocks that
  \<^verbatim>\<open>SequenceMatcher\<close> matches, with its rule for elements that are too frequent, the operations
  made of them and the lines of \<^verbatim>\<open>unified_diff\<close>.
\<close>

section \<open>Matching blocks\<close>

text \<open>In a second list of two hundred elements or more, one that fills over one percent starts no match.\<close>

definition popular :: "'a list \<Rightarrow> 'a \<Rightarrow> bool" where
  "popular b c \<longleftrightarrow> 200 \<le> length b \<and> length b div 100 + 1 < count_list b c"

text \<open>The length of the common start of two lists.\<close>

fun match_run :: "('a \<Rightarrow> bool) \<Rightarrow> 'a list \<Rightarrow> 'a list \<Rightarrow> nat" where
  "match_run junk (c # cs) (d # ds) = (if c = d \<and> \<not> junk d then Suc (match_run junk cs ds) else 0)"
| "match_run junk _ _ = 0"

definition match_ends :: "('a \<Rightarrow> bool) \<Rightarrow> 'a list \<Rightarrow> 'a list \<Rightarrow> (nat \<times> nat \<times> nat) list" where
  "match_ends junk a b =
     concat (map (\<lambda>i. concat (map (\<lambda>j.
         let k = match_run junk (rev (take (Suc i) a)) (rev (take (Suc j) b))
         in if k = 0 then [] else [(Suc i - k, Suc j - k, k)]) [0..<length b])) [0..<length a])"

text \<open>The first of the longest, extended on both sides by whatever is equal.\<close>

definition longer :: "nat \<times> nat \<times> nat \<Rightarrow> nat \<times> nat \<times> nat \<Rightarrow> nat \<times> nat \<times> nat" where
  "longer m best = (if snd (snd best) < snd (snd m) then m else best)"

definition extend_block :: "'a list \<Rightarrow> 'a list \<Rightarrow> nat \<times> nat \<times> nat \<Rightarrow> nat \<times> nat \<times> nat" where
  "extend_block a b m =
     (case m of (i, j, k) \<Rightarrow>
        let l = match_run (\<lambda>_. False) (rev (take i a)) (rev (take j b));
            r = match_run (\<lambda>_. False) (drop (i + k) a) (drop (j + k) b)
        in (i - l, j - l, l + k + r))"

definition longest_block :: "('a \<Rightarrow> bool) \<Rightarrow> 'a list \<Rightarrow> 'a list \<Rightarrow> nat \<times> nat \<times> nat" where
  "longest_block junk a b = extend_block a b (fold longer (match_ends junk a b) (0, 0, 0))"

definition is_block :: "'a list \<Rightarrow> 'a list \<Rightarrow> nat \<times> nat \<times> nat \<Rightarrow> bool" where
  "is_block a b m =
     (case m of (i, j, k) \<Rightarrow> i + k \<le> length a \<and> j + k \<le> length b \<and> take k (drop i a) = take k (drop j b))"

lemma match_run_take: "n = match_run junk xs ys \<Longrightarrow> n \<le> length xs \<and> n \<le> length ys \<and> take n xs = take n ys"
  by (induction junk xs ys arbitrary: n rule: match_run.induct) (auto split: if_splits)

lemma rev_match:
  assumes "n \<le> length xs" "n \<le> length ys" "take n (rev xs) = take n (rev ys)"
  shows "drop (length xs - n) xs = drop (length ys - n) ys"
  using assms by (metis rev_drop rev_rev_ident take_rev)

lemma match_ends_block: "m \<in> set (match_ends junk a b) \<Longrightarrow> is_block a b m"
proof -
  assume "m \<in> set (match_ends junk a b)"
  then obtain i j k where m: "i < length a" "j < length b" "k = match_run junk (rev (take (Suc i) a)) (rev (take (Suc j) b))"
    "m = (Suc i - k, Suc j - k, k)"
    by (auto simp: match_ends_def Let_def split: if_splits)
  let ?x = "take (Suc i) a" and ?y = "take (Suc j) b"
  have len: "length ?x = Suc i" "length ?y = Suc j" using m by auto
  have k: "k \<le> Suc i" "k \<le> Suc j" "take k (rev ?x) = take k (rev ?y)"
    using match_run_take [OF m (3)] len by simp_all
  have "drop (Suc i - k) ?x = drop (Suc j - k) ?y"
    using rev_match [of k ?x ?y] k len by simp
  then have "take k (drop (Suc i - k) a) = take k (drop (Suc j - k) b)"
    using k (1,2) by (simp add: drop_take)
  then show ?thesis using m k by (simp add: is_block_def)
qed

lemma longer_block: "is_block a b m \<Longrightarrow> is_block a b n \<Longrightarrow> is_block a b (longer m n)"
  by (simp add: longer_def)

lemma fold_longer_block: "(\<And>m. m \<in> set ms \<Longrightarrow> is_block a b m) \<Longrightarrow> is_block a b n \<Longrightarrow> is_block a b (fold longer ms n)"
proof (induction ms arbitrary: n)
  case (Cons m ms)
  have "is_block a b m" by (rule Cons.prems) simp
  then have "is_block a b (longer m n)" by (rule longer_block [OF _ Cons.prems (2)])
  then show ?case using Cons.IH Cons.prems (1) by simp
qed simp

lemma extend_is_block:
  assumes "is_block a b (i, j, k)"
  shows "is_block a b (extend_block a b (i, j, k))"
proof -
  define l where "l = match_run (\<lambda>_. False) (rev (take i a)) (rev (take j b))"
  define r where "r = match_run (\<lambda>_. False) (drop (i + k) a) (drop (j + k) b)"
  have blk: "i + k \<le> length a" "j + k \<le> length b" "take k (drop i a) = take k (drop j b)"
    using assms by (auto simp: is_block_def)
  have l: "l \<le> i" "l \<le> j" "take l (rev (take i a)) = take l (rev (take j b))"
    using match_run_take [OF l_def] blk by simp_all
  have r: "r \<le> length a - (i + k)" "r \<le> length b - (j + k)" "take r (drop (i + k) a) = take r (drop (j + k) b)"
    using match_run_take [OF r_def] by simp_all
  have left: "drop (i - l) (take i a) = drop (j - l) (take j b)"
    using rev_match [of l "take i a" "take j b"] l blk by simp
  have cut: "take (l + k + r) (drop (i' - l) xs) = drop (i' - l) (take i' xs) @ take k (drop i' xs) @ take r (drop (i' + k) xs)"
    if "l \<le> i'" "i' + k \<le> length xs" for i' and xs :: "'a list"
  proof -
    have "drop (i' - l) xs = drop (i' - l) (take i' xs) @ drop i' xs"
      using that by (metis append_take_drop_id diff_le_self drop_append drop_0 length_take min.absorb2 add_leD1 diff_is_0_eq)
    moreover have "length (drop (i' - l) (take i' xs)) = l" using that by simp
    ultimately have "take (l + (k + r)) (drop (i' - l) xs) = drop (i' - l) (take i' xs) @ take (k + r) (drop i' xs)"
      by simp
    moreover have "take (k + r) (drop i' xs) = take k (drop i' xs) @ take r (drop (i' + k) xs)"
      by (simp add: take_add add.commute)
    ultimately show ?thesis by (simp only: add.assoc)
  qed
  have "take (l + k + r) (drop (i - l) a) = take (l + k + r) (drop (j - l) b)"
    using cut [OF l (1) blk (1)] cut [OF l (2) blk (2)] left blk (3) r (3) by simp
  moreover have "i + (k + r) \<le> length a" "j + (k + r) \<le> length b" using r (1,2) blk (1,2) by linarith+
  ultimately show ?thesis using blk l r by (simp add: extend_block_def is_block_def Let_def flip: l_def r_def)
qed

lemma longest_is_block: "is_block a b (longest_block junk a b)"
proof -
  obtain i j k where m: "fold longer (match_ends junk a b) (0, 0, 0) = (i, j, k)" by (metis prod_cases3)
  have "is_block a b (fold longer (match_ends junk a b) (0, 0, 0))"
    by (rule fold_longer_block) (rule match_ends_block, assumption, simp add: is_block_def)
  then show ?thesis using extend_is_block m by (simp add: longest_block_def)
qed

lemma longest_block_bounds: "(i, j, k) = longest_block junk a b \<Longrightarrow> i + k \<le> length a \<and> j + k \<le> length b"
  using longest_is_block [of a b junk] by (auto simp: is_block_def)

text \<open>The blocks from left to right: the longest, and those of the parts before and after it.\<close>

definition shift_block :: "nat \<Rightarrow> nat \<Rightarrow> nat \<times> nat \<times> nat \<Rightarrow> nat \<times> nat \<times> nat" where
  "shift_block i j m = (case m of (i', j', k) \<Rightarrow> (i + i', j + j', k))"

function raw_blocks :: "('a \<Rightarrow> bool) \<Rightarrow> 'a list \<Rightarrow> 'a list \<Rightarrow> (nat \<times> nat \<times> nat) list" where
  "raw_blocks junk a b =
     (case longest_block junk a b of
        (i, j, k) \<Rightarrow>
          if k = 0 then []
          else raw_blocks junk (take i a) (take j b) @ [(i, j, k)] @
               map (shift_block (i + k) (j + k)) (raw_blocks junk (drop (i + k) a) (drop (j + k) b)))"
  by auto
termination
  by (relation "measure (\<lambda>(_, a, _). length a)") (auto dest!: longest_block_bounds)

declare raw_blocks.simps [simp del]

text \<open>Adjacent blocks are one.\<close>

fun merge_blocks :: "nat \<times> nat \<times> nat \<Rightarrow> (nat \<times> nat \<times> nat) list \<Rightarrow> (nat \<times> nat \<times> nat) list" where
  "merge_blocks (i, j, k) [] = (if k = 0 then [] else [(i, j, k)])"
| "merge_blocks (i, j, k) ((i', j', k') # ms) =
     (if i + k = i' \<and> j + k = j' then merge_blocks (i, j, k + k') ms
      else (if k = 0 then [] else [(i, j, k)]) @ merge_blocks (i', j', k') ms)"

definition matching_blocks :: "'a list \<Rightarrow> 'a list \<Rightarrow> (nat \<times> nat \<times> nat) list" where
  "matching_blocks a b = merge_blocks (0, 0, 0) (raw_blocks (popular b) a b) @ [(length a, length b, 0)]"

section \<open>Operations\<close>

datatype op_tag = OpReplace | OpDelete | OpInsert | OpEqual

type_synonym opcode = "op_tag \<times> nat \<times> nat \<times> nat \<times> nat"

fun opcodes_from :: "nat \<Rightarrow> nat \<Rightarrow> (nat \<times> nat \<times> nat) list \<Rightarrow> opcode list" where
  "opcodes_from i j [] = []"
| "opcodes_from i j ((ai, bj, n) # ms) =
     (if i < ai \<and> j < bj then [(OpReplace, i, ai, j, bj)]
      else if i < ai then [(OpDelete, i, ai, j, bj)]
      else if j < bj then [(OpInsert, i, ai, j, bj)]
      else []) @
     (if n = 0 then [] else [(OpEqual, ai, ai + n, bj, bj + n)]) @
     opcodes_from (ai + n) (bj + n) ms"

definition get_opcodes :: "'a list \<Rightarrow> 'a list \<Rightarrow> opcode list" where
  "get_opcodes a b = opcodes_from 0 0 (matching_blocks a b)"

definition trim_first :: "opcode \<Rightarrow> opcode" where
  "trim_first c = (case c of (tag, i1, i2, j1, j2) \<Rightarrow>
     if tag = OpEqual then (tag, max i1 (i2 - 3), i2, max j1 (j2 - 3), j2) else c)"

definition trim_last :: "opcode \<Rightarrow> opcode" where
  "trim_last c = (case c of (tag, i1, i2, j1, j2) \<Rightarrow>
     if tag = OpEqual then (tag, i1, min i2 (i1 + 3), j1, min j2 (j1 + 3)) else c)"

definition trimmed_codes :: "opcode list \<Rightarrow> opcode list" where
  "trimmed_codes codes =
     (let cs = (if codes = [] then [(OpEqual, 0, 1, 0, 1)] else codes);
          cs1 = trim_first (hd cs) # tl cs
      in butlast cs1 @ [trim_last (last cs1)])"

fun group_opcodes :: "opcode list \<Rightarrow> opcode list \<Rightarrow> opcode list list" where
  "group_opcodes grp [] =
     (if grp = [] \<or> (length grp = 1 \<and> fst (hd grp) = OpEqual) then [] else [grp])"
| "group_opcodes grp ((tag, i1, i2, j1, j2) # cs) =
     (if tag = OpEqual \<and> 6 < i2 - i1
      then (grp @ [(tag, i1, min i2 (i1 + 3), j1, min j2 (j1 + 3))]) #
           group_opcodes [(tag, max i1 (i2 - 3), i2, max j1 (j2 - 3), j2)] cs
      else group_opcodes (grp @ [(tag, i1, i2, j1, j2)]) cs)"

definition grouped_opcodes :: "'a list \<Rightarrow> 'a list \<Rightarrow> opcode list list" where
  "grouped_opcodes a b = group_opcodes [] (trimmed_codes (get_opcodes a b))"

section \<open>Unified diffs\<close>

definition range_text :: "nat \<Rightarrow> nat \<Rightarrow> string" where
  "range_text start stop =
     (let n = stop - start
      in if n = 1 then string_of_nat (start + 1)
         else string_of_nat (if n = 0 then start else start + 1) @ '','' @ string_of_nat n)"

definition part_of :: "nat \<Rightarrow> nat \<Rightarrow> 'a list \<Rightarrow> 'a list" where
  "part_of i j xs = take (j - i) (drop i xs)"

definition opcode_lines :: "string list \<Rightarrow> string list \<Rightarrow> opcode \<Rightarrow> string list" where
  "opcode_lines a b c =
     (case c of (tag, i1, i2, j1, j2) \<Rightarrow>
        if tag = OpEqual then map (\<lambda>l. CHR '' '' # l) (part_of i1 i2 a)
        else (if tag = OpInsert then [] else map (\<lambda>l. CHR ''-'' # l) (part_of i1 i2 a)) @
             (if tag = OpDelete then [] else map (\<lambda>l. CHR ''+'' # l) (part_of j1 j2 b)))"

definition hunk_lines :: "string list \<Rightarrow> string list \<Rightarrow> opcode list \<Rightarrow> string list" where
  "hunk_lines a b grp =
     (case (hd grp, last grp) of
        ((_, i1, _, j1, _), (_, _, i2, _, j2)) \<Rightarrow>
          (''@@ -'' @ range_text i1 i2 @ '' +'' @ range_text j1 j2 @ '' @@'') # concat (map (opcode_lines a b) grp))"

definition unified_diff :: "string list \<Rightarrow> string list \<Rightarrow> string \<Rightarrow> string \<Rightarrow> string list" where
  "unified_diff a b from_file to_file =
     (let gs = grouped_opcodes a b
      in if gs = [] then []
         else [''--- '' @ from_file, ''+++ '' @ to_file] @ concat (map (hunk_lines a b) gs))"

section \<open>A diff hides no difference\<close>

text \<open>Blocks in order, each after the one before, the ends of the lists included.\<close>

fun blocks_from :: "'a list \<Rightarrow> 'a list \<Rightarrow> nat \<Rightarrow> nat \<Rightarrow> (nat \<times> nat \<times> nat) list \<Rightarrow> bool" where
  "blocks_from a b i j [] = True"
| "blocks_from a b i j ((i', j', k) # ms) \<longleftrightarrow>
     i \<le> i' \<and> j \<le> j' \<and> is_block a b (i', j', k) \<and> blocks_from a b (i' + k) (j' + k) ms"

lemma blocks_from_start: "blocks_from a b p q ms \<Longrightarrow> i \<le> p \<Longrightarrow> j \<le> q \<Longrightarrow> blocks_from a b i j ms"
  by (cases ms) auto

lemma blocks_from_append:
  "blocks_from (take p a) (take q b) i j xs \<Longrightarrow> i \<le> p \<Longrightarrow> j \<le> q \<Longrightarrow> p \<le> length a \<Longrightarrow> q \<le> length b \<Longrightarrow>
   blocks_from a b p q ys \<Longrightarrow> blocks_from a b i j (xs @ ys)"
proof (induction xs arbitrary: i j)
  case Nil
  then show ?case using blocks_from_start by auto
next
  case (Cons m xs)
  obtain i' j' k where m: "m = (i', j', k)" by (metis prod_cases3)
  have blk: "is_block (take p a) (take q b) (i', j', k)" using Cons.prems (1) by (simp add: m)
  then have ends: "i' + k \<le> p" "j' + k \<le> q" by (auto simp: is_block_def)
  have "take k (drop i' (take p a)) = take k (drop i' a)" "take k (drop j' (take q b)) = take k (drop j' b)"
    using ends by (simp_all add: drop_take)
  then have "is_block a b (i', j', k)" using blk ends Cons.prems (4,5) by (auto simp: is_block_def)
  moreover have "blocks_from a b (i' + k) (j' + k) (xs @ ys)"
    using Cons.IH [OF _ ends Cons.prems (4-6)] Cons.prems (1) by (simp add: m)
  ultimately show ?case using Cons.prems (1) by (simp add: m)
qed

lemma blocks_from_shift:
  "blocks_from (drop p a) (drop q b) i j ms \<Longrightarrow> p \<le> length a \<Longrightarrow> q \<le> length b \<Longrightarrow>
   blocks_from a b (p + i) (q + j) (map (shift_block p q) ms)"
proof (induction ms arbitrary: i j)
  case (Cons m ms)
  obtain i' j' k where m: "m = (i', j', k)" by (metis prod_cases3)
  have "is_block (drop p a) (drop q b) (i', j', k)" using Cons.prems (1) by (simp add: m)
  then have "is_block a b (p + i', q + j', k)"
    using Cons.prems (2,3) by (auto simp: is_block_def add.commute)
  then show ?case using Cons.IH [of "i' + k" "j' + k"] Cons.prems by (simp add: m shift_block_def add.assoc)
qed simp

lemma raw_blocks_from: "blocks_from a b 0 0 (raw_blocks junk a b)"
proof (induction junk a b rule: raw_blocks.induct)
  case (1 junk a b)
  obtain i j k where m: "longest_block junk a b = (i, j, k)" by (metis prod_cases3)
  have blk: "is_block a b (i, j, k)" using longest_is_block [of a b junk] m by simp
  then have ends: "i + k \<le> length a" "j + k \<le> length b" by (auto simp: is_block_def)
  show ?case
  proof (cases "k = 0")
    case False
    note left = 1 (1) [OF m [symmetric] refl False] and right = 1 (2) [OF m [symmetric] refl False]
    have "blocks_from a b (i + k) (j + k) (map (shift_block (i + k) (j + k)) (raw_blocks junk (drop (i + k) a) (drop (j + k) b)))"
      using blocks_from_shift [OF right ends] by simp
    then have "blocks_from a b i j ((i, j, k) # map (shift_block (i + k) (j + k)) (raw_blocks junk (drop (i + k) a) (drop (j + k) b)))"
      using blk by simp
    then show ?thesis using blocks_from_append [OF left] ends m False
      by (simp add: raw_blocks.simps [of junk a b])
  qed (simp add: raw_blocks.simps [of junk a b] m)
qed

lemma block_join: "is_block a b (i, j, k) \<Longrightarrow> is_block a b (i + k, j + k, k') \<Longrightarrow> is_block a b (i, j, k + k')"
  by (auto simp: is_block_def take_add add.commute add.left_commute)

lemma merge_blocks_from:
  "blocks_from a b i0 j0 (m # ms) \<Longrightarrow> blocks_from a b i0 j0 (merge_blocks m ms)"
proof (induction m ms arbitrary: i0 j0 rule: merge_blocks.induct)
  case (2 i j k i' j' k' ms)
  show ?case
  proof (cases "i + k = i' \<and> j + k = j'")
    case True
    then have "is_block a b (i, j, k + k')" using 2 (3) block_join [of a b i j k k'] by simp
    moreover have "i' = i + k" "j' = j + k" using True by simp_all
    ultimately have "blocks_from a b i0 j0 ((i, j, k + k') # ms)" using 2 (3) by (simp add: add.assoc)
    then show ?thesis using 2 (1) [OF True] True by simp
  next
    case False
    have tail: "blocks_from a b (i + k) (j + k) ((i', j', k') # ms)" using 2 (3) by simp
    show ?thesis
    proof (cases "k = 0")
      case True
      have "blocks_from a b i0 j0 ((i', j', k') # ms)" using 2 (3) True by auto
      then show ?thesis using 2 (2) [OF False] False True by simp
    next
      case k: False
      then have "merge_blocks (i, j, k) ((i', j', k') # ms) = (i, j, k) # merge_blocks (i', j', k') ms"
        using False by auto
      then show ?thesis using 2 (2) [OF False tail] 2 (3) by simp
    qed
  qed
qed auto

lemma matching_blocks_from: "blocks_from a b 0 0 (matching_blocks a b)"
proof -
  have "blocks_from a b 0 0 ((0, 0, 0) # raw_blocks (popular b) a b)"
    using raw_blocks_from by (simp add: is_block_def)
  then have "blocks_from a b 0 0 (merge_blocks (0, 0, 0) (raw_blocks (popular b) a b))" by (rule merge_blocks_from)
  then show ?thesis
    using blocks_from_append [of "length a" a "length b" b 0 0 _ "[(length a, length b, 0)]"]
    by (simp add: matching_blocks_def is_block_def)
qed

text \<open>If every operation is an equality, the lists are equal from there on.\<close>

lemma equal_opcodes:
  "blocks_from a b i j (ms @ [(length a, length b, 0)]) \<Longrightarrow> i \<le> length a \<Longrightarrow> j \<le> length b \<Longrightarrow>
   (\<And>c. c \<in> set (opcodes_from i j (ms @ [(length a, length b, 0)])) \<Longrightarrow> fst c = OpEqual) \<Longrightarrow> drop i a = drop j b"
proof (induction ms arbitrary: i j)
  case Nil
  have "\<not> i < length a \<and> \<not> j < length b"
    using Nil (4) by (cases "i < length a"; cases "j < length b") fastforce+
  then show ?case by simp
next
  case (Cons m ms)
  obtain ai bj k where m: "m = (ai, bj, k)" by (metis prod_cases3)
  have start: "i \<le> ai" "j \<le> bj" "is_block a b (ai, bj, k)" using Cons.prems (1) by (simp_all add: m)
  have "\<not> i < ai \<and> \<not> j < bj"
    using Cons.prems (4) by (cases "i < ai"; cases "j < bj") (fastforce simp: m)+
  then have here: "ai = i" "bj = j" using start by simp_all
  have ends: "i + k \<le> length a" "j + k \<le> length b" "take k (drop i a) = take k (drop j b)"
    using start (3) here by (auto simp: is_block_def)
  have "drop (i + k) a = drop (j + k) b"
    using Cons.IH [OF _ ends (1,2)] Cons.prems (1,4) by (simp add: m here)
  then show ?case using ends (3) by (metis append_take_drop_id drop_drop add.commute)
qed

lemma trimmed_tags: "codes \<noteq> [] \<Longrightarrow> map fst (trimmed_codes codes) = map fst codes"
proof -
  assume ne: "codes \<noteq> []"
  have t: "fst (trim_first c) = fst c" "fst (trim_last c) = fst c" for c
    by (auto simp: trim_first_def trim_last_def split: prod.splits)
  define cs1 where "cs1 = trim_first (hd codes) # tl codes"
  have "map fst (butlast cs1 @ [trim_last (last cs1)]) = map fst (butlast cs1 @ [last cs1])" by (simp add: t)
  also have "butlast cs1 @ [last cs1] = cs1" by (simp add: cs1_def)
  also have "map fst cs1 = map fst codes" using ne by (cases codes) (simp_all add: cs1_def t)
  finally show ?thesis using ne by (simp add: trimmed_codes_def cs1_def Let_def)
qed

lemma group_opcodes_none:
  "group_opcodes grp cs = [] \<Longrightarrow> c \<in> set grp \<union> set cs \<Longrightarrow> fst c = OpEqual"
proof (induction grp cs rule: group_opcodes.induct)
  case (1 grp)
  then show ?case by (cases grp) (auto split: if_splits)
next
  case (2 grp tag i1 i2 j1 j2 cs)
  then show ?case by (auto split: if_splits)
qed

lemma unified_diff_none: "unified_diff a b f t = [] \<Longrightarrow> a = b"
proof -
  assume "unified_diff a b f t = []"
  then have none: "group_opcodes [] (trimmed_codes (get_opcodes a b)) = []"
    by (simp add: unified_diff_def grouped_opcodes_def Let_def split: if_splits)
  have "fst c = OpEqual" if c: "c \<in> set (get_opcodes a b)" for c
  proof -
    have "fst c \<in> set (map fst (get_opcodes a b))" using c by simp
    moreover have "get_opcodes a b \<noteq> []" using c by auto
    ultimately have "fst c \<in> set (map fst (trimmed_codes (get_opcodes a b)))" using trimmed_tags by metis
    then obtain d where "d \<in> set (trimmed_codes (get_opcodes a b))" "fst d = fst c" by auto
    then show ?thesis using group_opcodes_none [OF none] by simp
  qed
  then have "drop 0 a = drop 0 b"
    using equal_opcodes [of a b 0 0 "merge_blocks (0, 0, 0) (raw_blocks (popular b) a b)"] matching_blocks_from [of a b]
    by (simp add: get_opcodes_def matching_blocks_def)
  then show "a = b" by simp
qed

section \<open>Equal lists have no difference\<close>

lemma match_run_le:
  "match_run junk xs ys \<le> match_run junk ys ys" "match_run junk xs ys \<le> match_run junk xs xs"
  by (induction junk xs ys rule: match_run.induct) auto

lemma match_run_all: "match_run (\<lambda>_. False) xs xs = length xs"
  by (induction xs) simp_all

lemma longer_none: "(\<And>m. m \<in> set ms \<Longrightarrow> snd (snd m) \<le> snd (snd n)) \<Longrightarrow> fold longer ms n = n"
proof (induction ms)
  case (Cons m ms)
  have "snd (snd m) \<le> snd (snd n)" by (rule Cons.prems) simp
  then have "longer m n = n" by (simp add: longer_def)
  then show ?case using Cons by simp
qed simp

text \<open>
  Matched with itself, the longest of the matches found is on the diagonal: one that ends at two
  different places is no longer than the one found before that ends at the first of them.
\<close>

lemma longest_on_diagonal:
  obtains p n where "fold longer (match_ends junk a a) (0, 0, 0) = (p, p, n)" and "p + n \<le> length a"
proof -
  define run where "run = (\<lambda>i j. match_run junk (rev (take (Suc i) a)) (rev (take (Suc j) a)))"
  define cell where "cell = (\<lambda>i j. if run i j = 0 then [] else [(Suc i - run i j, Suc j - run i j, run i j)])"
  define row where "row = (\<lambda>i. concat (map (cell i) [0..<length a]))"
  have ends: "match_ends junk a a = concat (map row [0..<length a])"
    unfolding match_ends_def row_def cell_def run_def Let_def ..
  have le: "run i j \<le> run i i" "run i j \<le> run j j" for i j
    by (simp_all add: run_def match_run_le)
  have bound: "run i i \<le> Suc i" for i
    using match_run_take [of "run i i" junk] by (fastforce simp: run_def)
  have "\<exists>p s. fold longer (concat (map row [0..<m])) (0, 0, 0) = (p, p, s) \<and> p + s \<le> length a \<and> (\<forall>j < m. run j j \<le> s)"
    if "m \<le> length a" for m
    using that
  proof (induction m)
    case (Suc m)
    then obtain p s where b: "fold longer (concat (map row [0..<m])) (0, 0, 0) = (p, p, s)" "p + s \<le> length a"
      and s: "\<forall>j < m. run j j \<le> s" by auto
    have "[0..<length a] = [0..<m] @ m # [Suc m..<length a]"
      using Suc.prems upt_add_eq_append [of 0 m "length a - m"] by (simp add: upt_conv_Cons)
    then have row: "row m = concat (map (cell m) [0..<m]) @ cell m m @ concat (map (cell m) [Suc m..<length a])"
      by (simp add: row_def)
    have before: "fold longer (concat (map (cell m) [0..<m])) (p, p, s) = (p, p, s)"
    proof (rule longer_none)
      fix c assume "c \<in> set (concat (map (cell m) [0..<m]))"
      then obtain j where "j < m" "snd (snd c) = run m j" by (auto simp: cell_def split: if_splits)
      then show "snd (snd c) \<le> snd (snd (p, p, s))" using le(2) [of m j] s by fastforce
    qed
    obtain p' s' where diag: "fold longer (cell m m) (p, p, s) = (p', p', s')" "p' + s' \<le> length a" "s \<le> s'" "run m m \<le> s'"
    proof (cases "s < run m m")
      case True
      then have "fold longer (cell m m) (p, p, s) = (Suc m - run m m, Suc m - run m m, run m m)"
        by (simp add: cell_def longer_def)
      then show ?thesis using that [of "Suc m - run m m" "run m m"] True bound [of m] Suc.prems by simp
    next
      case False
      then have "fold longer (cell m m) (p, p, s) = (p, p, s)" by (simp add: cell_def longer_def)
      then show ?thesis using that b(2) False by simp
    qed
    have after: "fold longer (concat (map (cell m) [Suc m..<length a])) (p', p', s') = (p', p', s')"
    proof (rule longer_none)
      fix c assume "c \<in> set (concat (map (cell m) [Suc m..<length a]))"
      then obtain j where "snd (snd c) = run m j" by (auto simp: cell_def split: if_splits)
      then show "snd (snd c) \<le> snd (snd (p', p', s'))" using le(1) [of m j] diag(4) by simp
    qed
    have "fold longer (concat (map row [0..<Suc m])) (0, 0, 0) = (p', p', s')"
      using b(1) before diag(1) after by (simp add: row)
    moreover have "\<forall>j < Suc m. run j j \<le> s'" using s diag(3,4) by (auto simp: less_Suc_eq)
    ultimately show ?case using diag(2) by blast
  qed simp
  from this [of "length a"] that show ?thesis by (auto simp: ends)
qed

lemma longest_block_self: "longest_block junk a a = (0, 0, length a)"
proof -
  obtain p n where d: "fold longer (match_ends junk a a) (0, 0, 0) = (p, p, n)" "p + n \<le> length a"
    by (rule longest_on_diagonal)
  then show ?thesis by (simp add: longest_block_def extend_block_def match_run_all Let_def)
qed

lemma unified_diff_self: "unified_diff a a f t = []"
proof -
  have nil: "raw_blocks junk [] [] = []" for junk :: "string \<Rightarrow> bool"
    using longest_block_self [of junk "[]"] by (simp add: raw_blocks.simps [of junk "[]" "[]"])
  have raw: "raw_blocks (popular a) a a = (if a = [] then [] else [(0, 0, length a)])"
    using nil by (simp add: raw_blocks.simps [of _ a a] longest_block_self)
  then have "get_opcodes a a = (if a = [] then [] else [(OpEqual, 0, length a, 0, length a)])"
    by (simp add: get_opcodes_def matching_blocks_def)
  then show ?thesis
    by (simp add: unified_diff_def grouped_opcodes_def trimmed_codes_def trim_first_def trim_last_def Let_def min_def max_def)
qed

lemma unified_diff_none_iff: "unified_diff a b f t = [] \<longleftrightarrow> a = b"
  using unified_diff_none unified_diff_self by blast

end
