(* ===== verification/Ferm_Introspect.thy ===== *)
theory Ferm_Introspect
  imports Complex_Main Ferm_Analysis Ferm_Readback Ferm_Difflib
begin

text \<open>
  The descriptions of the module registries behind \<^verbatim>\<open>--list-modules\<close> and \<^verbatim>\<open>--describe\<close>
  (\<^verbatim>\<open>src/src/pyferm/introspect.py\<close>), with the close matches of the standard library's
  \<^verbatim>\<open>difflib\<close> that an unknown name is answered with. The score of a match is a quotient of two
  lengths; it is kept as a rational, which orders such scores as their floating-point values do.
\<close>

section \<open>Options\<close>

definition letter_label :: "char \<Rightarrow> string" where
  "letter_label c = (if c = CHR ''c'' then ''<comma-separated list>'' else ''<value>'')"

definition count_label :: "int \<Rightarrow> string" where
  "count_label n = (if n = 1 then ''<value>'' else ''<'' @ string_of_int n @ '' values>'')"

fun render_params :: "kparams \<Rightarrow> string" where
  "render_params PNone = ''(no argument)''"
| "render_params (PFun f) = (if f = ''address_magic'' then ''<address[/mask]>'' else ''<special: '' @ f @ ''>'')"
| "render_params (PInt n) = count_label (int n)"
| "render_params (PCodes s) =
     (if s = ''m'' then ''<value>... (repeatable)''
      else if all_digits s then count_label (int (nat_of_string s))
      else join_str '' '' (map letter_label s))"

definition FAMILY_ORDER :: "string list" where
  "FAMILY_ORDER = [''ip'', ''arp'', ''eb'']"

definition family_label :: "string \<Rightarrow> string" where
  "family_label fam = (if fam = ''ip'' then ''ip/ip6'' else fam)"

datatype registry_kind = KProto | KMatch | KTarget

fun kind_label :: "registry_kind \<Rightarrow> string" where
  "kind_label KProto = ''protocol''"
| "kind_label KMatch = ''match''"
| "kind_label KTarget = ''target''"

type_synonym option_line = "string \<times> string \<times> string"

text \<open>The aliases of a keyword are the other names of its cell.\<close>

definition keyword_aliases :: "nat \<Rightarrow> moddef \<Rightarrow> string list" where
  "keyword_aliases i m = map fst (filter (\<lambda>(a, j). j = i \<and> a \<noteq> kw_name (md_cells m ! i)) (md_names m))"

definition option_row :: "string \<Rightarrow> nat \<Rightarrow> moddef \<Rightarrow> option_line" where
  "option_row key i m =
     (let kw = md_cells m ! i; aliases = keyword_aliases i m
      in (key, render_params (kw_params kw),
          join_str '' ''
            ((if kw_pre_negation kw then [''negatable (! before keyword)'']
              else if kw_negation kw then [''negatable''] else []) @
             (if aliases \<noteq> [] then [''(aliases: '' @ join_str '', '' aliases @ '')''] else []))))"

definition ljust :: "nat \<Rightarrow> string \<Rightarrow> string" where
  "ljust w s = s @ replicate (w - length s) (CHR '' '')"

definition longest :: "string list \<Rightarrow> nat" where
  "longest ss = fold max (map length ss) 0"

definition render_rows :: "option_line list \<Rightarrow> string list" where
  "render_rows rows =
     (let nw = longest (map fst rows) + 2; aw = longest (map (\<lambda>(_, a, _). a) rows) + 2
      in map (\<lambda>(n, a, t). py_rstrip (''  '' @ ljust nw n @ ljust aw a @ t)) rows)"

definition quoted :: "string \<Rightarrow> string" where
  "quoted s = [SQUOTE] @ s @ [SQUOTE]"

definition render_module :: "registry_kind \<Rightarrow> string \<Rightarrow> string \<Rightarrow> moddef \<Rightarrow> string" where
  "render_module k name fam m =
     join_str [NL]
       ((kind_label k @ '' module '' @ quoted name @ '' ('' @ family_label fam @ ''):'') #
        render_rows (map (\<lambda>(key, i). option_row key i m)
                      (filter (\<lambda>(key, i). key = kw_name (md_cells m ! i)) (md_names m))) @
        [''  see iptables-extensions(8) and ferm(1)''])"

section \<open>Keywords of the language\<close>

datatype builtin_category = Location | Structure | RuleWord | FunctionWord | CoreTarget

fun category_label :: "builtin_category \<Rightarrow> string" where
  "category_label Location = ''location keyword''"
| "category_label Structure = ''structure keyword''"
| "category_label RuleWord = ''rule keyword''"
| "category_label FunctionWord = ''function''"
| "category_label CoreTarget = ''core target''"

record builtin =
  bi_name :: string
  bi_category :: builtin_category
  bi_signature :: string
  bi_summary :: string

definition builtin_row :: "string \<Rightarrow> builtin_category \<Rightarrow> string \<Rightarrow> string \<Rightarrow> string \<times> builtin" where
  "builtin_row n c s t = (n, \<lparr>bi_name = n, bi_category = c, bi_signature = s, bi_summary = t\<rparr>)"

definition BUILTINS :: "(string, builtin) dict" where
  "BUILTINS =
     [
      builtin_row ''domain'' Location (''domain (ip ip6 ...) { ... }'')
        (''select the netfilter domain(s) a block applies to''),
      builtin_row ''table'' Location (''table NAME { ... }'')
        (''select the table (filter, nat, mangle, ...)''),
      builtin_row ''chain'' Location (''chain NAME [NAME ...] { ... }'')
        (''select the chain(s) the rules go into''),
      builtin_row ''policy'' Location (''policy (ACCEPT|DROP|...);'')
        (''set the built-in chain policy''),
      builtin_row ''priority'' Location (''priority NUMBER;'')
        (''set the nft base-chain hook priority (port-only)''),
      builtin_row ''@def'' Structure (''@def $name = value; / @def &fn(...) = ...;'')
        (''define a variable or a function''),
      builtin_row ''def'' Structure (''def ...'')
        (''deprecated spelling of '' @ [SQUOTE] @ ''@def'' @ [SQUOTE]),
      builtin_row ''@include'' Structure (''@include '' @ [SQUOTE] @ ''file'' @ [SQUOTE] @ ''|'' @ [SQUOTE] @ ''dir/'' @ [SQUOTE] @ ''|'' @ [SQUOTE] @ ''command|'' @ [SQUOTE] @ '';'')
        (''include a file, a directory or a command'' @ [SQUOTE] @ ''s output''),
      builtin_row ''include'' Structure (''include ...'')
        (''deprecated spelling of '' @ [SQUOTE] @ ''@include'' @ [SQUOTE]),
      builtin_row ''@if'' Structure (''@if condition { ... } [@else { ... }]'')
        (''conditional inclusion at evaluation time''),
      builtin_row ''@else'' Structure (''@if ... @else { ... }'')
        (''alternative branch of '' @ [SQUOTE] @ ''@if'' @ [SQUOTE]),
      builtin_row ''@hook'' Structure (''@hook (pre|post|flush) '' @ [SQUOTE] @ ''command'' @ [SQUOTE] @ '';'')
        (''run a shell command around rule application''),
      builtin_row ''hook'' Structure (''hook ...'')
        (''deprecated spelling of '' @ [SQUOTE] @ ''@hook'' @ [SQUOTE]),
      builtin_row ''@preserve'' Structure (''@preserve;'')
        (''keep the kernel'' @ [SQUOTE] @ ''s current rules for this chain''),
      builtin_row ''@set'' Structure (''@set NAME ...;'')
        (''define a named set (nft backend)''),
      builtin_row ''@subchain'' Structure (''@subchain ['' @ [SQUOTE] @ ''NAME'' @ [SQUOTE] @ ''] { ... }'')
        (''move the enclosed rules into their own chain''),
      builtin_row ''subchain'' Structure (''subchain ...'')
        (''deprecated spelling of '' @ [SQUOTE] @ ''@subchain'' @ [SQUOTE]),
      builtin_row ''@gotosubchain'' Structure (''@gotosubchain ['' @ [SQUOTE] @ ''NAME'' @ [SQUOTE] @ ''] { ... }'')
        (''like '' @ [SQUOTE] @ ''@subchain'' @ [SQUOTE] @ '' but enters the chain with goto''),
      builtin_row ''jump'' RuleWord (''jump CHAIN'')
        (''jump to a chain''),
      builtin_row ''goto'' RuleWord (''goto CHAIN'')
        (''go to a chain without returning''),
      builtin_row ''NOP'' RuleWord (''NOP;'')
        (''emit the rule without any jump target''),
      builtin_row ''proto'' RuleWord (''proto PROTOCOL'')
        (''match the protocol (alias: protocol)''),
      builtin_row ''protocol'' RuleWord (''protocol PROTOCOL'')
        (''alias of '' @ [SQUOTE] @ ''proto'' @ [SQUOTE]),
      builtin_row ''sport'' RuleWord (''sport PORT[:PORT]'')
        (''match the source port (needs proto tcp/udp)''),
      builtin_row ''dport'' RuleWord (''dport PORT[:PORT]'')
        (''match the destination port (needs proto tcp/udp)''),
      builtin_row ''mod'' RuleWord (''mod MODULE [MODULE ...]'')
        (''load a match module (alias: module)''),
      builtin_row ''module'' RuleWord (''module MODULE [MODULE ...]'')
        (''alias of '' @ [SQUOTE] @ ''mod'' @ [SQUOTE]),
      builtin_row ''ACCEPT'' CoreTarget (''ACCEPT'')
        (''core netfilter target (no module required)''),
      builtin_row ''DROP'' CoreTarget (''DROP'')
        (''core netfilter target (no module required)''),
      builtin_row ''RETURN'' CoreTarget (''RETURN'')
        (''core netfilter target (no module required)''),
      builtin_row ''QUEUE'' CoreTarget (''QUEUE'')
        (''core netfilter target (no module required)''),
      builtin_row ''@defined'' FunctionWord (''@defined($name) / @defined(&name)'')
        (''true if the variable or function is defined''),
      builtin_row ''@eq'' FunctionWord (''@eq(a, b)'')
        (''true if a equals b''),
      builtin_row ''@ne'' FunctionWord (''@ne(a, b)'')
        (''true if a differs from b''),
      builtin_row ''@not'' FunctionWord (''@not(a)'')
        (''boolean negation''),
      builtin_row ''@cat'' FunctionWord (''@cat(a, b, ...)'')
        (''concatenate values into one string''),
      builtin_row ''@join'' FunctionWord (''@join(separator, ...)'')
        (''join values with a separator''),
      builtin_row ''@substr'' FunctionWord (''@substr(string, num, num)'')
        (''extract a substring''),
      builtin_row ''@length'' FunctionWord (''@length(string)'')
        (''length of a string''),
      builtin_row ''@basename'' FunctionWord (''@basename(path)'')
        (''file name part of a path''),
      builtin_row ''@dirname'' FunctionWord (''@dirname(path)'')
        (''directory part of a path''),
      builtin_row ''@glob'' FunctionWord (''@glob(string)'')
        (''expand a filename glob''),
      builtin_row ''@resolve'' FunctionWord (''@resolve((hostname ...), [type])'')
        (''resolve hostnames via DNS at evaluation time''),
      builtin_row ''@ipfilter'' FunctionWord (''@ipfilter((ip1 ip2 ...))'')
        (''keep only addresses matching the current domain family'')]"

definition render_builtin :: "builtin \<Rightarrow> string" where
  "render_builtin b =
     ''built-in '' @ category_label (bi_category b) @ '' '' @ quoted (bi_name b) @ '':'' @ [NL] @
     ''  '' @ bi_signature b @ '' -- '' @ bi_summary b"

section \<open>Lookup\<close>

definition REGISTRIES :: "(registry_kind \<times> registry) list" where
  "REGISTRIES = [(KProto, PROTO_DEFS), (KMatch, MATCH_DEFS), (KTarget, TARGET_DEFS)]"

text \<open>The modules of all registries and families, in the order in which they are looked through.\<close>

definition family_modules :: "registry \<Rightarrow> string \<Rightarrow> family_defs" where
  "family_modules reg fam = (case dict_get reg fam of None \<Rightarrow> [] | Some ms \<Rightarrow> ms)"

definition module_sites :: "(registry_kind \<times> string \<times> family_defs) list" where
  "module_sites = concat (map (\<lambda>(k, reg). map (\<lambda>fam. (k, fam, family_modules reg fam)) FAMILY_ORDER) REGISTRIES)"

definition module_blocks :: "string \<Rightarrow> string list" where
  "module_blocks name =
     (if name = [] then []
      else concat (map (\<lambda>(k, fam, ms). case dict_get ms name of
                                         None \<Rightarrow> [] | Some m \<Rightarrow> [render_module k name fam m]) module_sites))"

definition builtin_blocks :: "string \<Rightarrow> string list" where
  "builtin_blocks name = (case dict_get BUILTINS name of None \<Rightarrow> [] | Some b \<Rightarrow> [render_builtin b])"

definition shortcut_blocks :: "string \<Rightarrow> string list" where
  "shortcut_blocks name =
     concat (map (\<lambda>(fam, scs). case dict_get scs name of
         None \<Rightarrow> []
       | Some (m, opt) \<Rightarrow>
           [''shortcut '' @ quoted name @ '' ('' @ family_label fam @ '') = match module '' @ quoted m @
            '', option '' @ quoted opt]) SHORTCUTS)"

definition deprecated_blocks :: "string \<Rightarrow> string list" where
  "deprecated_blocks name =
     (case map_of DEPRECATED_KEYWORDS name of
        None \<Rightarrow> [] | Some r \<Rightarrow> [''deprecated keyword '' @ quoted name @ '': use '' @ quoted r])"

definition option_owner :: "registry_kind \<Rightarrow> string \<Rightarrow> string \<Rightarrow> string" where
  "option_owner k fam m =
     (if m = [] then ''the implicit base match ('' @ family_label fam @ '')''
      else kind_label k @ '' module '' @ quoted m @ '' ('' @ family_label fam @ '')'')"

text \<open>The note of an option found by an alias names its keyword.\<close>

definition alias_tail :: "string \<Rightarrow> string \<Rightarrow> string \<Rightarrow> string" where
  "alias_tail name keyword notes =
     (if name \<noteq> keyword then py_lstrip (py_rstrip (notes @ '' alias of '' @ quoted keyword)) else notes)"

definition option_fallback_blocks :: "string \<Rightarrow> string list" where
  "option_fallback_blocks name =
     concat (map (\<lambda>(k, fam, ms). concat (map (\<lambda>(mn, m).
         case dict_get (md_names m) name of
           None \<Rightarrow> []
         | Some i \<Rightarrow>
             (let kw = kw_name (md_cells m ! i)
              in case option_row kw i m of
                   (n, arg, notes) \<Rightarrow>
                     [join_str [NL] ((''option '' @ quoted name @ '' of '' @ option_owner k fam mn @ '':'') #
                        render_rows [(n, arg, alias_tail name kw notes)])])) ms)) module_sites)"

definition known_names :: "string list" where
  "known_names =
     concat (map (\<lambda>(_, _, ms). concat (map (\<lambda>(mn, m). (if mn \<noteq> [] then [mn] else []) @ dict_keys (md_names m)) ms)) module_sites) @
     dict_keys BUILTINS @ concat (map (\<lambda>(_, scs). dict_keys scs) SHORTCUTS) @ map fst DEPRECATED_KEYWORDS"

section \<open>Close matches\<close>

text \<open>The characters in matching blocks; the first argument bounds the halvings.\<close>

primrec matched :: "nat \<Rightarrow> (char \<Rightarrow> bool) \<Rightarrow> string \<Rightarrow> string \<Rightarrow> nat" where
  "matched 0 junk a b = 0"
| "matched (Suc n) junk a b =
     (case longest_block junk a b of
        (i, j, k) \<Rightarrow>
          if k = 0 then 0
          else k + matched n junk (take i a) (take j b) + matched n junk (drop (i + k) a) (drop (j + k) b))"

definition similarity :: "string \<Rightarrow> string \<Rightarrow> rat" where
  "similarity word x =
     (if length x + length word = 0 then 1
      else of_nat (2 * matched (Suc (length x)) (popular word) x word) / of_nat (length x + length word))"

definition close_matches :: "string \<Rightarrow> string list \<Rightarrow> string list" where
  "close_matches word xs =
     map snd (take 3 (rev (sort (filter (\<lambda>(r, _). 3 / 5 \<le> r) (map (\<lambda>x. (similarity word x, x)) xs)))))"

section \<open>Describing\<close>

definition unknown_name :: "string \<Rightarrow> failure" where
  "unknown_name name =
     (let ms = close_matches name (sort (remdups known_names))
      in Died (''ferm --describe: unknown name '' @ quoted name @
           (if ms = [] then '''' else ''; did you mean: '' @ join_str '', '' ms @ ''?'')))"

definition description_blocks :: "string \<Rightarrow> string list" where
  "description_blocks name =
     (let bs = module_blocks name @ builtin_blocks name @ shortcut_blocks name @ deprecated_blocks name
      in if bs = [] then option_fallback_blocks name else bs)"

definition describe :: "string \<Rightarrow> string res" where
  "describe name =
     (if description_blocks name = [] then Inl (unknown_name name)
      else Inr (join_str [NL, NL] (description_blocks name) @ [NL]))"

section \<open>The catalogue\<close>

definition MAX_WIDTH :: nat where "MAX_WIDTH = 79"

text \<open>The slices of a list, as long as given.\<close>

fun slices :: "nat \<Rightarrow> 'a list \<Rightarrow> 'a list list" where
  "slices n [] = []"
| "slices n (x # xs) = take (Suc (n - 1)) (x # xs) # slices n (drop (n - 1) xs)"

definition fold_columns :: "nat \<Rightarrow> string list \<Rightarrow> string list" where
  "fold_columns ind names =
     (let column = longest names + 2; per_line = max 1 ((MAX_WIDTH - ind) div column)
      in map (\<lambda>row. py_rstrip (replicate ind (CHR '' '') @ concat (map (ljust column) row))) (slices per_line names))"

definition site_lines :: "registry_kind \<times> string \<times> family_defs \<Rightarrow> string list" where
  "site_lines site =
     (case site of (k, fam, ms) \<Rightarrow>
        if ms = [] then []
        else [kind_label k @ '' modules ('' @ family_label fam @ ''):''] @
             fold_columns 2 (sort (filter (\<lambda>n. n \<noteq> []) (dict_keys ms))) @
             (case (if k = KMatch then dict_get ms [] else None) of
                None \<Rightarrow> []
              | Some m \<Rightarrow> ''  implicit base options:'' #
                  fold_columns 4 (sort (map fst (filter (\<lambda>(key, i). key = kw_name (md_cells m ! i)) (md_names m))))) @
             [''''])"

definition list_modules :: string where
  "list_modules =
     join_str [NL]
       (concat (map site_lines module_sites) @ [''built-in keywords:''] @ fold_columns 2 (sort (dict_keys BUILTINS)) @
        ['''', ''Use --describe NAME for details on a module, option or keyword.'']) @ [NL]"

end
