(* ===== verification/Ferm_Introspect_Safe.thy ===== *)
theory Ferm_Introspect_Safe
  imports Ferm_Introspect
begin

text \<open>
  The names \<^verbatim>\<open>--describe\<close> answers: those it draws its suggestions from, and no other.
\<close>

lemma dict_get_key: "dict_get d k \<noteq> None \<longleftrightarrow> k \<in> set (dict_keys d)"
  by (simp add: dict_get_def dict_keys_def map_of_eq_None_iff)

lemma blocks_of_keys:
  "(case dict_get d k of None \<Rightarrow> [] | Some v \<Rightarrow> [f v]) \<noteq> [] \<longleftrightarrow> k \<in> set (dict_keys d)"
  using dict_get_key [of d k] by (cases "dict_get d k") auto

lemma module_blocks_iff:
  "module_blocks n \<noteq> [] \<longleftrightarrow> n \<noteq> [] \<and> (\<exists>(k, fam, ms) \<in> set module_sites. n \<in> set (dict_keys ms))"
  unfolding module_blocks_def
  by (auto simp: concat_eq_Nil_conv blocks_of_keys split: prod.splits if_splits)

lemma builtin_blocks_iff: "builtin_blocks n \<noteq> [] \<longleftrightarrow> n \<in> set (dict_keys BUILTINS)"
  by (simp only: builtin_blocks_def blocks_of_keys)

lemma shortcut_blocks_iff: "shortcut_blocks n \<noteq> [] \<longleftrightarrow> (\<exists>(fam, scs) \<in> set SHORTCUTS. n \<in> set (dict_keys scs))"
proof -
  have "(case dict_get scs n of None \<Rightarrow> [] | Some (m, opt) \<Rightarrow> [f m opt]) \<noteq> [] \<longleftrightarrow> n \<in> set (dict_keys scs)"
    for scs :: "(string, string \<times> string) dict" and f :: "string \<Rightarrow> string \<Rightarrow> string"
    using dict_get_key [of scs n] by (cases "dict_get scs n") (auto split: prod.splits)
  then show ?thesis unfolding shortcut_blocks_def concat_eq_Nil_conv by (fastforce split: prod.splits)
qed

lemma deprecated_blocks_iff: "deprecated_blocks n \<noteq> [] \<longleftrightarrow> n \<in> set (map fst DEPRECATED_KEYWORDS)"
  using map_of_eq_None_iff [of DEPRECATED_KEYWORDS n]
  by (cases "map_of DEPRECATED_KEYWORDS n") (auto simp: deprecated_blocks_def)

lemma option_blocks_iff:
  "option_fallback_blocks n \<noteq> [] \<longleftrightarrow>
   (\<exists>(k, fam, ms) \<in> set module_sites. \<exists>(mn, m) \<in> set ms. n \<in> set (dict_keys (md_names m)))"
proof -
  have "(case dict_get ns n of None \<Rightarrow> [] | Some i \<Rightarrow> let kw = g i in case h kw i of (n', arg, notes) \<Rightarrow> [f kw n' arg notes]) \<noteq> []
      \<longleftrightarrow> n \<in> set (dict_keys ns)"
    for ns :: "(string, nat) dict" and g :: "nat \<Rightarrow> string" and h :: "string \<Rightarrow> nat \<Rightarrow> option_line"
      and f :: "string \<Rightarrow> string \<Rightarrow> string \<Rightarrow> string \<Rightarrow> string"
    using dict_get_key [of ns n] by (cases "dict_get ns n") (auto simp: Let_def split: prod.splits)
  then show ?thesis
    unfolding option_fallback_blocks_def concat_eq_Nil_conv by (fastforce split: prod.splits)
qed

lemma known_names_iff:
  "n \<in> set known_names \<longleftrightarrow>
     (n \<noteq> [] \<and> (\<exists>(k, fam, ms) \<in> set module_sites. n \<in> set (dict_keys ms))) \<or>
     (\<exists>(k, fam, ms) \<in> set module_sites. \<exists>(mn, m) \<in> set ms. n \<in> set (dict_keys (md_names m))) \<or>
     n \<in> set (dict_keys BUILTINS) \<or> (\<exists>(fam, scs) \<in> set SHORTCUTS. n \<in> set (dict_keys scs)) \<or>
     n \<in> set (map fst DEPRECATED_KEYWORDS)"
proof -
  have site: "n \<in> set (concat (map (\<lambda>(mn, m). (if mn \<noteq> [] then [mn] else []) @ dict_keys (md_names m)) ms)) \<longleftrightarrow>
      (n \<noteq> [] \<and> n \<in> set (dict_keys ms)) \<or> (\<exists>(mn, m) \<in> set ms. n \<in> set (dict_keys (md_names m)))" for ms :: family_defs
  proof (induction ms)
    case (Cons x ms)
    obtain mn m where x: "x = (mn, m)" by (metis prod.collapse)
    show ?case unfolding x list.map concat.simps prod.case set_append Un_iff Cons.IH
      by (auto simp: dict_keys_def simp del: set_concat)
  qed (simp add: dict_keys_def)
  have sites: "n \<in> set (concat (map (\<lambda>(_, _, ms). f ms) xs)) \<longleftrightarrow> (\<exists>(k, fam, ms) \<in> set xs. n \<in> set (f ms))"
    for f :: "family_defs \<Rightarrow> string list" and xs :: "(registry_kind \<times> string \<times> family_defs) list"
    by (induction xs) auto
  have scs: "n \<in> set (concat (map (\<lambda>(_, scs). f scs) xs)) \<longleftrightarrow> (\<exists>(fam, scs) \<in> set xs. n \<in> set (f scs))"
    for f :: "(string, string \<times> string) dict \<Rightarrow> string list" and xs :: "(string \<times> (string, string \<times> string) dict) list"
    by (induction xs) auto
  show ?thesis
    unfolding known_names_def set_append Un_iff sites scs site by blast
qed

text \<open>
  C12: \<^verbatim>\<open>--describe\<close> answers exactly the names of the pool its suggestions are drawn from: a suggested
  name is never refused in turn, and no name it could describe is missing from the pool.
\<close>

theorem describe_answers_known_names: "(\<exists>text. describe n = Inr text) \<longleftrightarrow> n \<in> set known_names"
proof -
  have "(\<exists>text. describe n = Inr text) \<longleftrightarrow>
      module_blocks n \<noteq> [] \<or> builtin_blocks n \<noteq> [] \<or> shortcut_blocks n \<noteq> [] \<or> deprecated_blocks n \<noteq> [] \<or>
      option_fallback_blocks n \<noteq> []"
    by (auto simp: describe_def description_blocks_def Let_def)
  also have "\<dots> \<longleftrightarrow> n \<in> set known_names"
    unfolding module_blocks_iff builtin_blocks_iff shortcut_blocks_iff deprecated_blocks_iff option_blocks_iff
      known_names_iff by blast
  finally show ?thesis .
qed

end
