(* ===== verification/Ferm_Analysis_Safe.thy ===== *)
theory Ferm_Analysis_Safe
  imports Ferm_Analysis
begin

text \<open>
  What the analysis reports: the chains of the reported cycles are exactly those on a loop of the jump
  graph, and a loop is reported once, whatever chain the search met first.
\<close>

section \<open>The jump graph\<close>

definition jumps_to :: "adjacency \<Rightarrow> (string \<times> string) set" where
  "jumps_to adj = {(v, s). s \<in> set (successors adj v)}"

lemma jumps_to_iff [simp]: "(v, s) \<in> jumps_to adj \<longleftrightarrow> s \<in> set (successors adj v)"
  by (simp add: jumps_to_def)

lemma successors_fold:
  "successors (fold (\<lambda>(source, target) adj. dict_set source (successors adj source @ [target]) adj) es adj) v =
   successors adj v @ map snd (filter (\<lambda>e. fst e = v) es)"
proof (induction es arbitrary: adj)
  case (Cons e es)
  obtain s t where e: "e = (s, t)" by fastforce
  have "successors (dict_set s (successors adj s @ [t]) adj) v = successors adj v @ (if s = v then [t] else [])"
    by (auto simp: successors_def)
  then show ?case using Cons.IH by (simp add: e)
qed simp

lemma jumps_to_adjacency: "jumps_to (adjacency_of edges) = set edges"
  by (auto simp: adjacency_of_def successors_fold successors_def [of "[]"] jumps_to_def dict_get_def image_iff)

section \<open>Soundness\<close>

fun linked :: "adjacency \<Rightarrow> (string \<times> string list) list \<Rightarrow> bool" where
  "linked adj [] = True"
| "linked adj ((v, ss) # frames) \<longleftrightarrow>
     set ss \<subseteq> set (successors adj v) \<and>
     (case frames of [] \<Rightarrow> True | (u, _) # _ \<Rightarrow> v \<in> set (successors adj u)) \<and> linked adj frames"

lemma linked_path: "linked adj frames \<Longrightarrow> successively (\<lambda>a b. (b, a) \<in> jumps_to adj) (map fst frames)"
  by (induction adj frames rule: linked.induct)
    (auto simp: successively_Cons split: list.splits prod.splits)

lemma path_reaches:
  "successively (\<lambda>a b. (a, b) \<in> E) xs \<Longrightarrow> w \<in> set xs \<Longrightarrow> (hd xs, w) \<in> E\<^sup>* \<and> (w, last xs) \<in> E\<^sup>*"
proof (induction xs arbitrary: w)
  case (Cons x xs)
  show ?case
  proof (cases "xs = []")
    case True
    then show ?thesis using Cons.prems by simp
  next
    case False
    then have step: "(x, hd xs) \<in> E" "successively (\<lambda>a b. (a, b) \<in> E) xs" "last (x # xs) = last xs"
      using Cons.prems by (auto simp: successively_Cons)
    note tail = Cons.IH [OF step (2)]
    have "(x, last xs) \<in> E\<^sup>*"
      using tail [of "hd xs"] step (1) False by (simp add: converse_rtrancl_into_rtrancl)
    then show ?thesis using tail [of w] step Cons.prems (2)
      by (auto intro: converse_rtrancl_into_rtrancl)
  qed
qed simp

lemma successively_dropWhile: "successively P xs \<Longrightarrow> successively P (dropWhile Q xs)"
  by (induction xs) (auto simp: successively_Cons)

lemma path_from_split:
  assumes "s \<in> set (map fst frames)"
  obtains pre ps where "rev (map fst frames) = pre @ s # ps" "path_from frames s = s # ps"
proof -
  have "s \<in> set (rev (map fst frames))" using assms by simp
  then obtain pre ps where split: "rev (map fst frames) = pre @ s # ps" "s \<notin> set pre" by (meson split_list_first)
  then have "path_from frames s = s # ps" by (auto simp: path_from_def dropWhile_append)
  then show thesis using that split (1) by blast
qed

lemma path_from_loop:
  assumes "linked adj ((v, ss) # frames)" "s \<in> set (map fst ((v, ss) # frames))" "s \<in> set (successors adj v)"
    "w \<in> set (path_from ((v, ss) # frames) s)"
  shows "(w, w) \<in> (jumps_to adj)\<^sup>+"
proof -
  let ?P = "rev (map fst ((v, ss) # frames))" and ?D = "path_from ((v, ss) # frames) s"
  have "successively (\<lambda>a b. (a, b) \<in> jumps_to adj) ?P"
    using linked_path [OF assms (1)] by (simp only: successively_rev)
  then have D: "successively (\<lambda>a b. (a, b) \<in> jumps_to adj) ?D"
    using successively_dropWhile by (simp add: path_from_def del: jumps_to_iff)
  obtain pre ps where ps: "?P = pre @ s # ps" "?D = s # ps" using path_from_split [OF assms (2)] by blast
  have "last ?P = v" by simp
  then have "last ?D = v" using ps by (metis last_appendR list.distinct(1))
  moreover have "hd ?D = s" using ps by simp
  ultimately have "(s, w) \<in> (jumps_to adj)\<^sup>*" "(w, v) \<in> (jumps_to adj)\<^sup>*"
    using path_reaches [OF D assms (4)] by simp_all
  moreover have "(v, s) \<in> jumps_to adj" using assms (3) by simp
  ultimately show ?thesis by (meson rtrancl_into_trancl1 rtrancl_trancl_trancl trancl_rtrancl_trancl)
qed

lemma set_canonical [simp]: "set (canonical_cycle c) = set c"
  by (auto simp: canonical_cycle_def Let_def) (metis UnE set_append takeWhile_dropWhile_id set_dropWhileD set_takeWhileD)+

definition all_loops :: "adjacency \<Rightarrow> string list list \<Rightarrow> bool" where
  "all_loops adj cycles \<longleftrightarrow> (\<forall>c \<in> set cycles. \<forall>w \<in> set c. (w, w) \<in> (jumps_to adj)\<^sup>+)"

lemma linked_skip: "linked adj ((v, s # ss) # frames) \<Longrightarrow> linked adj ((v, ss) # frames)"
  by simp

lemma cycle_search_sound:
  "linked adj frames \<Longrightarrow> all_loops adj cycles \<Longrightarrow> all_loops adj (cycle_search adj frames visited cycles)"
proof (induction adj frames visited cycles rule: cycle_search.induct)
  case (3 adj v s ss frames visited cycles)
  have s: "s \<in> set (successors adj v)" using 3 (4) by simp
  note link = linked_skip [OF 3 (4)]
  consider (closing) "s \<in> set (map fst ((v, ss) # frames))"
    | (seen) "s \<notin> set (map fst ((v, ss) # frames))" "s \<in> set visited"
    | (fresh) "s \<notin> set (map fst ((v, ss) # frames))" "s \<notin> set visited" by blast
  then show ?case
  proof cases
    case closing
    have "all_loops adj (canonical_cycle (path_from ((v, ss) # frames) s) # cycles)"
      using 3 (5) path_from_loop [OF link closing s] by (auto simp: all_loops_def)
    then show ?thesis using 3 (1) [OF closing link] closing by simp
  next
    case seen
    then show ?thesis using 3 (2) [OF seen link 3 (5)] by simp
  next
    case fresh
    have "linked adj ((s, successors adj s) # (v, ss) # frames)" using link s by simp
    then show ?thesis using 3 (3) [OF fresh] 3 (5) fresh by simp
  qed
qed simp_all

section \<open>Completeness\<close>

definition pending :: "(string \<times> string list) list \<Rightarrow> string \<Rightarrow> string \<Rightarrow> bool" where
  "pending frames v s \<longleftrightarrow> (\<exists>ss. (v, ss) \<in> set frames \<and> s \<in> set ss)"

definition found :: "string list list \<Rightarrow> string \<Rightarrow> bool" where
  "found cycles x \<longleftrightarrow> (\<exists>c \<in> set cycles. x \<in> set c)"

definition searching :: "adjacency \<Rightarrow> string \<Rightarrow> (string \<times> string list) list \<Rightarrow> string list \<Rightarrow> string list list \<Rightarrow> bool" where
  "searching adj x frames visited cycles \<longleftrightarrow>
     (frames \<noteq> [] \<longrightarrow> fst (last frames) = x) \<and> x \<in> set visited \<and> fst ` set frames \<subseteq> set visited \<and>
     (\<forall>v \<in> set visited. \<forall>s \<in> set (successors adj v). s \<in> set visited \<or> pending frames v s) \<and>
     (\<forall>v \<in> set visited. x \<in> set (successors adj v) \<longrightarrow> found cycles x \<or> pending frames v x)"

lemma pending_Cons: "pending ((v, ss) # frames) u s \<longleftrightarrow> u = v \<and> s \<in> set ss \<or> pending frames u s"
  by (auto simp: pending_def)

lemma cycle_search_complete:
  "searching adj x frames visited cycles \<Longrightarrow> (x, v) \<in> (jumps_to adj)\<^sup>* \<Longrightarrow> (v, x) \<in> jumps_to adj \<Longrightarrow>
   found (cycle_search adj frames visited cycles) x"
proof (induction adj frames visited cycles rule: cycle_search.induct)
  case (1 adj visited cycles)
  have "w \<in> set visited" if "(x, w) \<in> (jumps_to adj)\<^sup>*" for w
    using that by (induction rule: rtrancl_induct) (use 1 in \<open>auto simp: searching_def pending_def\<close>)
  then show ?case using 1 by (auto simp: searching_def pending_def)
next
  case (2 adj u frames visited cycles)
  have "searching adj x frames visited cycles"
    using 2 (2) by (auto simp: searching_def pending_Cons split: if_splits)
  then show ?case using 2 by simp
next
  case (3 adj u s ss frames visited cycles)
  let ?frames = "(u, ss) # frames"
  note inv = 3 (4) [unfolded searching_def pending_Cons]
  have base: "fst (last ?frames) = x" "fst ` set ?frames \<subseteq> set visited" "x \<in> set visited" using inv by auto
  then have top: "x \<in> set (map fst ?frames)" by (metis last_in_set list.distinct(1) list.set_map imageI)
  consider (closing) "s \<in> set (map fst ?frames)"
    | (seen) "s \<notin> set (map fst ?frames)" "s \<in> set visited"
    | (fresh) "s \<notin> set (map fst ?frames)" "s \<notin> set visited" by blast
  then show ?case
  proof cases
    case closing
    let ?c = "canonical_cycle (path_from ?frames s) # cycles"
    have s: "s \<in> set visited" using closing base (2) by auto
    have "found ?c x" if "s = x"
    proof -
      have "s \<in> set (path_from ?frames s)" using path_from_split [OF closing] by (metis list.set_intros(1))
      then show ?thesis using that by (simp add: found_def)
    qed
    then have "searching adj x ?frames visited ?c"
      using inv base s unfolding searching_def pending_Cons by (auto simp: found_def)
    then show ?thesis using 3 (1) [OF closing] 3 (5,6) closing by simp
  next
    case seen
    then have "s \<noteq> x" using top by blast
    then have "searching adj x ?frames visited cycles"
      using inv base seen (2) unfolding searching_def pending_Cons by auto
    then show ?thesis using 3 (2) [OF seen] 3 (5,6) seen by simp
  next
    case fresh
    then have "s \<noteq> x" using base (3) by blast
    then have "searching adj x ((s, successors adj s) # ?frames) (s # visited) cycles"
      using inv base unfolding searching_def pending_Cons by auto
    then show ?thesis using 3 (3) [OF fresh] 3 (5,6) fresh by simp
  qed
qed

lemma searching_start: "searching adj x [(x, successors adj x)] [x] []"
  by (auto simp: searching_def pending_def)

lemma find_cycles_loops: "(\<exists>c \<in> set (find_cycles adj). x \<in> set c) \<longleftrightarrow> (x, x) \<in> (jumps_to adj)\<^sup>+"
proof
  assume "\<exists>c \<in> set (find_cycles adj). x \<in> set c"
  then obtain start c where c: "c \<in> set (cycle_search adj [(start, successors adj start)] [start] [])" "x \<in> set c"
    by (auto simp: find_cycles_def)
  have "all_loops adj (cycle_search adj [(start, successors adj start)] [start] [])"
    by (rule cycle_search_sound) (simp_all add: all_loops_def)
  then show "(x, x) \<in> (jumps_to adj)\<^sup>+" using c by (simp add: all_loops_def)
next
  assume "(x, x) \<in> (jumps_to adj)\<^sup>+"
  then obtain v where v: "(x, v) \<in> (jumps_to adj)\<^sup>*" "(v, x) \<in> jumps_to adj" by (metis tranclD2)
  have "found (cycle_search adj [(x, successors adj x)] [x] []) x"
    by (rule cycle_search_complete [OF searching_start v])
  moreover have "x \<in> set (dict_keys adj)"
  proof -
    obtain s where "s \<in> set (successors adj x)"
      using \<open>(x, x) \<in> (jumps_to adj)\<^sup>+\<close> by (metis jumps_to_iff tranclD)
    then obtain ss where "dict_get adj x = Some ss" by (cases "dict_get adj x") (auto simp: successors_def)
    then have "(x, ss) \<in> set adj" by (simp add: dict_get_def map_of_SomeD)
    then show ?thesis by (force simp: dict_keys_def)
  qed
  ultimately show "\<exists>c \<in> set (find_cycles adj). x \<in> set c" by (auto simp: find_cycles_def found_def)
qed

text \<open>
  C8: The chains on the cycles that \<^verbatim>\<open>--lint\<close> reports are exactly the chains on a loop of the jump
  graph: nothing off a loop is reported and no loop goes unseen, although the search visits each chain
  once for every start and does not enumerate the cycles.
\<close>

theorem reported_cycles_are_the_loops:
  "(\<exists>c \<in> set (find_cycles (adjacency_of edges)). x \<in> set c) \<longleftrightarrow> (x, x) \<in> (set edges)\<^sup>+"
  using find_cycles_loops jumps_to_adjacency by simp

section \<open>One report for a loop\<close>

lemma canonical_split: "m = Min (set (a @ m # b)) \<Longrightarrow> m \<notin> set a \<Longrightarrow> canonical_cycle (a @ m # b) = m # b @ a"
proof -
  assume m: "m = Min (set (a @ m # b))" "m \<notin> set a"
  then have "takeWhile (\<lambda>v. v \<noteq> m) (a @ m # b) = a" "dropWhile (\<lambda>v. v \<noteq> m) (a @ m # b) = m # b"
    by (auto simp: takeWhile_append dropWhile_append)
  then show ?thesis using m (1) by (simp add: canonical_cycle_def Let_def)
qed

text \<open>
  A loop met from another of its chains is the same cycle: every rotation of a path without
  repetitions has the same canonical form, so the set of cycles keeps one of them.
\<close>

theorem canonical_cycle_rotate:
  assumes "distinct c"
  shows "canonical_cycle (rotate n c) = canonical_cycle c"
proof (cases "c = []")
  case False
  define m where "m = Min (set c)"
  then have "m \<in> set c" using False by simp
  then obtain a b where c: "c = a @ m # b" by (meson split_list)
  then have ab: "c = a @ m # b" "m \<notin> set a" "m \<notin> set b" using assms by auto
  then have low: "m = Min (set (a @ m # b))" using m_def by simp
  define k where "k = n mod length c"
  have rot: "rotate n c = drop k c @ take k c" by (simp add: k_def rotate_drop_take)
  have "canonical_cycle (rotate n c) = m # b @ a"
  proof (cases "k \<le> length a")
    case True
    then have r: "rotate n c = drop k a @ m # (b @ take k a)" using rot ab (1) by simp
    have "m \<notin> set (drop k a)" using ab (2) in_set_dropD by metis
    moreover have "m = Min (set (drop k a @ m # (b @ take k a)))"
    proof -
      have "set (drop k a @ m # (b @ take k a)) = set c" using r set_rotate by metis
      then show ?thesis using m_def by simp
    qed
    ultimately show ?thesis using canonical_split r by (metis append.assoc append_take_drop_id)
  next
    case False
    then obtain j where j: "k = length a + Suc j" by (metis add_Suc_right less_iff_Suc_add not_le)
    then have r: "rotate n c = (drop j b @ a) @ m # take j b" using rot ab (1) by simp
    have "m \<notin> set (drop j b @ a)" using ab (2,3) by (auto dest: in_set_dropD)
    moreover have "m = Min (set ((drop j b @ a) @ m # take j b))"
    proof -
      have "set ((drop j b @ a) @ m # take j b) = set c" using r set_rotate by metis
      then show ?thesis using m_def by simp
    qed
    ultimately show ?thesis using canonical_split r by (metis append.assoc append_take_drop_id)
  qed
  then show ?thesis using canonical_split [OF low ab (2)] ab (1) by simp
qed simp

theorem canonical_cycle_rotate_witness:
  "canonical_cycle (rotate 2 [''web'', ''dns'', ''mail'']) = canonical_cycle [''web'', ''dns'', ''mail'']"
  by (rule canonical_cycle_rotate) simp

end
