(* ===== verification/Ferm_Modes.thy ===== *)
theory Ferm_Modes
  imports Ferm_Analysis_Safe Ferm_Graph Ferm_Introspect Ferm_Options
begin

text \<open>
  The dispatch of a command line (\<^verbatim>\<open>src/src/pyferm/cli/app.py\<close>) and the terminal modes that evaluate
  nothing (\<^verbatim>\<open>cli/modes.py\<close>): \<^verbatim>\<open>--lint\<close>, \<^verbatim>\<open>--graph\<close>, \<^verbatim>\<open>--list-modules\<close> and \<^verbatim>\<open>--describe\<close>. The
  argument parser is a parameter; a mode is the text it prints and its exit code. What the structural
  parser does not finish within the bound \<open>F\<close> is \<open>OutOfFuel\<close>.
\<close>

section \<open>Arguments\<close>

record arguments = switches +
  ar_help :: bool
  ar_version :: bool
  ar_list_modules :: bool
  ar_describe :: "string option"
  ar_graph :: bool
  ar_graph_format :: "string option"
  ar_files :: "string list"

definition EXIT_OK :: int where "EXIT_OK = 0"
definition EXIT_ERROR :: int where "EXIT_ERROR = 1"
definition EXIT_CHANGES :: int where "EXIT_CHANGES = 2"

text \<open>Every destination of the parser, in its order, and whether its switch was given.\<close>

definition given_flags :: "arguments \<Rightarrow> (string \<times> bool) list" where
  "given_flags a =
     [(''noexec'', sw_noexec a), (''flush'', sw_flush a), (''noflush'', sw_noflush a), (''lines'', sw_lines a),
      (''interactive'', sw_interactive a), (''timeout'', sw_timeout a \<noteq> None), (''help'', ar_help a),
      (''version'', ar_version a), (''test'', sw_test a), (''test_mock_previous'', sw_mock_previous a \<noteq> []),
      (''fast'', sw_fast a), (''slow'', sw_slow a), (''shell'', sw_shell a), (''domain'', sw_domain a \<noteq> None),
      (''defs'', sw_defs a \<noteq> []), (''nolegacy'', sw_nolegacy a), (''nft'', sw_nft a),
      (''full_reload'', sw_full_reload a), (''no_etckeeper'', sw_no_etckeeper a), (''plan'', sw_plan a),
      (''plan_format'', sw_plan_format a \<noteq> Structured), (''lint'', sw_lint a), (''lint_strict'', sw_lint_strict a),
      (''lint_fail_level'', sw_lint_fail_level a \<noteq> None), (''list_modules'', ar_list_modules a),
      (''describe'', ar_describe a \<noteq> None), (''graph'', ar_graph a), (''graph_format'', ar_graph_format a \<noteq> None),
      (''files'', ar_files a \<noteq> [])]"

definition flag_name :: "string \<Rightarrow> string" where
  "flag_name attr =
     (if attr = ''defs'' then ''--def''
      else if attr = ''test'' then ''--test/--remote''
      else ''--'' @ map (\<lambda>c. if c = CHR ''_'' then CHR ''-'' else c) attr)"

definition reject_other_flags :: "arguments \<Rightarrow> string \<Rightarrow> string list \<Rightarrow> unit res" where
  "reject_other_flags a mode exempt =
     (case find (\<lambda>(attr, given). attr \<notin> set exempt \<and> given) (given_flags a) of
        None \<Rightarrow> Inr ()
      | Some (attr, _) \<Rightarrow> Inl (Died (''ferm '' @ mode @ '' cannot be combined with '' @ flag_name attr)))"

definition INTROSPECTION_EXEMPT :: "string list" where
  "INTROSPECTION_EXEMPT = [''list_modules'', ''describe'', ''help'', ''version'', ''files'']"

definition GRAPH_EXEMPT :: "string list" where
  "GRAPH_EXEMPT = [''graph'', ''graph_format'', ''help'', ''version'', ''files'']"

section \<open>Modes\<close>

text \<open>The tree of a configuration that is read but not evaluated.\<close>

definition parse_config_eval_free ::
  "nat \<Rightarrow> (string \<Rightarrow> file_result) \<Rightarrow> string list \<Rightarrow> string \<Rightarrow> string \<Rightarrow> block res" where
  "parse_config_eval_free F open_file stdin mode path =
     (if ends_with ''|'' path then Inl (Died (''ferm '' @ mode @ '' cannot read from a pipe command''))
      else bindR (open_script open_file stdin path None) (\<lambda>sc.
        case parse_to_block F (config_tokens (case sc_handle sc of None \<Rightarrow> [] | Some ls \<Rightarrow> ls)) of
          None \<Rightarrow> Inl OutOfFuel
        | Some b \<Rightarrow> Inr b))"

definition lint_line :: "finding \<Rightarrow> string" where
  "lint_line f = escape_control_chars (severity_name (fi_severity f) @ '': '' @ fi_message f) @ [NL]"

definition lint_exit :: "finding list \<Rightarrow> severity option \<Rightarrow> int" where
  "lint_exit fs fail_level =
     (case fail_level of
        None \<Rightarrow> EXIT_OK
      | Some l \<Rightarrow> if \<exists>f \<in> set fs. severity_level (fi_severity f) \<le> severity_level l then EXIT_CHANGES else EXIT_OK)"

definition run_lint ::
  "nat \<Rightarrow> (string \<Rightarrow> file_result) \<Rightarrow> string list \<Rightarrow> string \<Rightarrow> severity option \<Rightarrow> (string \<times> int) res" where
  "run_lint F open_file stdin path fail_level =
     bindR (parse_config_eval_free F open_file stdin ''--lint'' path) (\<lambda>b.
       let fs = run_analysis b in Inr (concat (map lint_line fs), lint_exit fs fail_level))"

definition severity_of :: "string \<Rightarrow> severity" where
  "severity_of s = (if s = ''error'' then SevError else if s = ''warning'' then SevWarning else SevInfo)"

definition fail_level_of :: "arguments \<Rightarrow> severity option" where
  "fail_level_of a =
     (case sw_lint_fail_level a of
        Some s \<Rightarrow> Some (severity_of s)
      | None \<Rightarrow> if sw_lint_strict a then Some SevWarning else None)"

definition run_introspection :: "arguments \<Rightarrow> (string \<times> int) res" where
  "run_introspection a =
     (let mode = (if ar_list_modules a then ''--list-modules'' else ''--describe'')
      in bindR (guardR (ar_list_modules a \<and> ar_describe a \<noteq> None) ''ferm --list-modules cannot be combined with --describe'') (\<lambda>_.
         bindR (guardR (ar_files a \<noteq> []) (''ferm '' @ mode @ '' takes no input file'')) (\<lambda>_.
         bindR (reject_other_flags a mode INTROSPECTION_EXEMPT) (\<lambda>_.
         if ar_list_modules a then Inr (list_modules, EXIT_OK)
         else bindR (describe (the (ar_describe a))) (\<lambda>text. Inr (text, EXIT_OK))))))"

definition run_graph :: "nat \<Rightarrow> (string \<Rightarrow> file_result) \<Rightarrow> string list \<Rightarrow> arguments \<Rightarrow> (string \<times> int) res" where
  "run_graph F open_file stdin a =
     bindR (reject_other_flags a ''--graph'' GRAPH_EXEMPT) (\<lambda>_.
     bindR (guardR (length (ar_files a) \<noteq> 1) ''ferm --graph requires exactly one input file'') (\<lambda>_.
     bindR (parse_config_eval_free F open_file stdin ''--graph'' (hd (ar_files a))) (\<lambda>b.
       let g = collect_graph b
       in Inr (if ar_graph_format a = Some ''dot'' then render_dot g else render_d2 g, EXIT_OK))))"

section \<open>Dispatch\<close>

text \<open>What a command line comes to: a text and an exit code, or a mode that works on the system.\<close>

datatype dispatched =
    ToRollback "string list"
  | Printed string int
  | ShowHelp int
  | ShowVersion
  | ToRun options arguments

definition printed :: "(string \<times> int) res \<Rightarrow> dispatched res" where
  "printed r = bindR r (\<lambda>(text, code). Inr (Printed text code))"

definition dispatch_args ::
  "nat \<Rightarrow> (string \<Rightarrow> file_result) \<Rightarrow> string list \<Rightarrow> bool \<Rightarrow> bool \<Rightarrow> arguments \<Rightarrow> dispatched res" where
  "dispatch_args F open_file stdin stdin_tty stderr_tty a =
     (if ar_help a then Inr (ShowHelp EXIT_OK)
      else if ar_version a then Inr ShowVersion
      else if ar_list_modules a \<or> ar_describe a \<noteq> None then printed (run_introspection a)
      else if ar_graph_format a \<noteq> None \<and> \<not> ar_graph a then Inl (Died ''ferm --graph-format requires --graph'')
      else if ar_graph a then printed (run_graph F open_file stdin a)
      else bindR (resolve_options stdin_tty stderr_tty (switches.truncate a)) (\<lambda>opts.
        if length (ar_files a) \<noteq> 1 then Inr (ShowHelp EXIT_ERROR)
        else if sw_lint a then printed (run_lint F open_file stdin (hd (ar_files a)) (fail_level_of a))
        else Inr (ToRun opts a)))"

definition dispatch ::
  "nat \<Rightarrow> (string \<Rightarrow> file_result) \<Rightarrow> string list \<Rightarrow> bool \<Rightarrow> bool \<Rightarrow> (string list \<Rightarrow> arguments) \<Rightarrow> string list \<Rightarrow> dispatched res" where
  "dispatch F open_file stdin stdin_tty stderr_tty parse_args argv =
     (case argv of
        word # rest \<Rightarrow>
          if word = ''rollback'' then Inr (ToRollback rest)
          else dispatch_args F open_file stdin stdin_tty stderr_tty (parse_args argv)
      | [] \<Rightarrow> dispatch_args F open_file stdin stdin_tty stderr_tty (parse_args argv))"

section \<open>Properties\<close>

lemma run_analysis_set:
  "set (run_analysis b) =
     set (find_jump_cycles b) \<union> set (unused_definition_findings b) \<union>
     set (undefined_jump_findings_from (collect_chains b)) \<union> set (unreachable_findings_from (collect_chains b)) \<union>
     set (find_duplicate_definitions b) \<union> set (find_deprecated_keywords b)"
  by (auto simp: run_analysis_def Let_def)

lemma error_findings: "f \<in> set (run_analysis b) \<Longrightarrow> fi_severity f = SevError \<longleftrightarrow> f \<in> set (find_jump_cycles b)"
  unfolding run_analysis_set
  by (auto simp: find_jump_cycles_def unused_definition_findings_def undefined_jump_findings_from_def
      unreachable_findings_from_def find_duplicate_definitions_def find_deprecated_keywords_def)

lemma find_cycles_nonempty:
  "c \<in> set (cycle_search adj frames visited cycles) \<Longrightarrow> [] \<notin> set cycles \<Longrightarrow> c \<noteq> []"
proof (induction adj frames visited cycles rule: cycle_search.induct)
  case (3 adj v s ss frames visited cycles)
  have "canonical_cycle (path_from ((v, ss) # frames) s) \<noteq> []" if "s \<in> set (map fst ((v, ss) # frames))"
    using path_from_split [OF that] set_canonical by (metis list.distinct(1) set_empty)
  then show ?case using 3 by (auto split: if_splits)
qed auto

lemma jump_cycles_iff: "set (find_jump_cycles b) \<noteq> {} \<longleftrightarrow> (\<exists>x. (x, x) \<in> (set (jump_edges b))\<^sup>+)"
proof -
  let ?cs = "set (find_cycles (adjacency_of (jump_edges b)))"
  have "[] \<notin> ?cs" using find_cycles_nonempty by (force simp: find_cycles_def)
  then have some: "\<exists>x. x \<in> set c" if "c \<in> ?cs" for c using that by (cases c) auto
  have "?cs \<noteq> {} \<longleftrightarrow> (\<exists>x. \<exists>c \<in> ?cs. x \<in> set c)"
    using some by (metis ex_in_conv)
  also have "\<dots> \<longleftrightarrow> (\<exists>x. (x, x) \<in> (set (jump_edges b))\<^sup>+)"
    by (simp only: find_cycles_loops jumps_to_adjacency)
  finally show ?thesis by (simp add: find_jump_cycles_def)
qed

text \<open>
  C9: The gate \<^verbatim>\<open>ferm --lint --lint-fail-level error\<close> exits with 2 exactly when the jump graph of the text
  has a loop, and no other finding makes it do so. The graph is lexical, not the one the kernel sees: its
  nodes are chain names in one name space for all tables and families, its edges are the literal jumps and
  subchains, taken from both branches of an \<^verbatim>\<open>@if\<close> and from the body of a \<^verbatim>\<open>@def\<close> inside a chain whether it is
  called or not. So the gate may fail a configuration of which no table has a loop, and a loop that only
  the call of a function closes passes.
\<close>

theorem lint_gate_finds_loops:
  "lint_exit (run_analysis b) (Some SevError) = EXIT_CHANGES \<longleftrightarrow> (\<exists>x. (x, x) \<in> (set (jump_edges b))\<^sup>+)"
proof -
  have lev: "severity_level s \<le> severity_level SevError \<longleftrightarrow> s = SevError" for s by (cases s) simp_all
  have "(\<exists>f \<in> set (run_analysis b). fi_severity f = SevError) \<longleftrightarrow> set (find_jump_cycles b) \<noteq> {}"
  proof
    assume "\<exists>f \<in> set (run_analysis b). fi_severity f = SevError"
    then show "set (find_jump_cycles b) \<noteq> {}" using error_findings by (metis empty_iff)
  next
    assume "set (find_jump_cycles b) \<noteq> {}"
    then obtain f where f: "f \<in> set (find_jump_cycles b)" by (meson ex_in_conv)
    then have "f \<in> set (run_analysis b)" by (simp add: run_analysis_set)
    then show "\<exists>f \<in> set (run_analysis b). fi_severity f = SevError" using error_findings f by metis
  qed
  then show ?thesis unfolding lint_exit_def option.case lev jump_cycles_iff
    by (simp add: EXIT_OK_def EXIT_CHANGES_def)
qed

end
