(* ===== verification/Ferm_Plan.thy ===== *)
theory Ferm_Plan
  imports Ferm_Apply Ferm_Readback Ferm_Difflib "HOL-Library.Product_Lexorder"
begin

text \<open>
  Plans: \<^verbatim>\<open>build_plan\<close> and the read-only mode of \<^verbatim>\<open>src/src/pyferm/cli/history.py\<close>, the structured and
  the unified rendering and the counts of \<^verbatim>\<open>plan/render.py\<close>. A plan is the diff of each family and
  the families it does not support.
\<close>

definition empty_plan :: plan where
  "empty_plan = \<lparr>pl_families = [], pl_unsupported = []\<rparr>"

section \<open>Counts\<close>

record delta_counts =
  dc_added :: nat
  dc_removed :: nat
  dc_policies :: nat
  dc_chains_removed :: nat
  dc_chains_rebuilt :: nat
  dc_sets :: nat
  dc_objects :: nat

definition no_counts :: delta_counts where
  "no_counts = \<lparr>dc_added = 0, dc_removed = 0, dc_policies = 0, dc_chains_removed = 0, dc_chains_rebuilt = 0,
     dc_sets = 0, dc_objects = 0\<rparr>"

definition add_counts :: "delta_counts \<Rightarrow> delta_counts \<Rightarrow> delta_counts" where
  "add_counts a b =
     \<lparr>dc_added = dc_added a + dc_added b, dc_removed = dc_removed a + dc_removed b,
      dc_policies = dc_policies a + dc_policies b, dc_chains_removed = dc_chains_removed a + dc_chains_removed b,
      dc_chains_rebuilt = dc_chains_rebuilt a + dc_chains_rebuilt b, dc_sets = dc_sets a + dc_sets b,
      dc_objects = dc_objects a + dc_objects b\<rparr>"

definition count_changes :: "plan_diff \<Rightarrow> delta_counts" where
  "count_changes d =
     \<lparr>dc_added = length (pd_added d), dc_removed = length (pd_removed d), dc_policies = length (pd_policy d),
      dc_chains_removed = length (pd_desuet d) + length (pd_foreign d), dc_chains_rebuilt = length (pd_rebuilds d),
      dc_sets = length (pd_sets d), dc_objects = length (pd_objects d)\<rparr>"

definition plural :: "nat \<Rightarrow> string \<Rightarrow> string" where
  "plural n noun = (if n = 1 then noun else noun @ ''s'')"

definition counted :: "nat \<Rightarrow> string \<Rightarrow> string" where
  "counted n noun = string_of_nat n @ '' '' @ plural n noun"

definition delta_clauses :: "delta_counts \<Rightarrow> string list" where
  "delta_clauses c =
     (if dc_added c \<noteq> 0 \<and> dc_removed c \<noteq> 0
      then [''+'' @ string_of_nat (dc_added c) @ ''/-'' @ string_of_nat (dc_removed c) @ '' rules'']
      else if dc_added c \<noteq> 0 then [''+'' @ counted (dc_added c) ''rule'']
      else if dc_removed c \<noteq> 0 then [''-'' @ counted (dc_removed c) ''rule'']
      else []) @
     (if dc_policies c \<noteq> 0
      then [string_of_nat (dc_policies c) @ '' '' @ (if dc_policies c = 1 then ''policy'' else ''policies'')] else []) @
     (if dc_chains_removed c \<noteq> 0 then [counted (dc_chains_removed c) ''chain'' @ '' removed''] else []) @
     (if dc_chains_rebuilt c \<noteq> 0 then [counted (dc_chains_rebuilt c) ''chain'' @ '' rebuilt''] else []) @
     (if dc_sets c \<noteq> 0 then [counted (dc_sets c) ''set''] else []) @
     (if dc_objects c \<noteq> 0 then [counted (dc_objects c) ''object''] else [])"

definition delta_phrase :: "delta_counts \<Rightarrow> string" where
  "delta_phrase c = (if delta_clauses c = [] then ''no changes'' else join_str '', '' (delta_clauses c))"

definition summary_clause :: "nat \<Rightarrow> string \<Rightarrow> string \<Rightarrow> string" where
  "summary_clause n noun verb = (if n = 0 then '''' else '', '' @ counted n noun @ '' '' @ verb)"

definition summary_line :: "plan_diff \<Rightarrow> string" where
  "summary_line d =
     (let c = count_changes d
      in ''Plan: '' @ string_of_nat (dc_added c) @ '' to add, '' @ string_of_nat (dc_removed c) @ '' to remove, '' @
         string_of_nat (dc_policies c) @ '' policy '' @ (if dc_policies c = 1 then ''change'' else ''changes'') @
         summary_clause (dc_chains_removed c) ''chain'' ''removed'' @
         summary_clause (dc_chains_rebuilt c) ''chain'' ''rebuilt'' @
         summary_clause (dc_sets c) ''set'' ''changed'' @ summary_clause (dc_objects c) ''object'' ''changed'')"

section \<open>The structured rendering\<close>

definition NO_CHANGES :: string where
  "NO_CHANGES = ''No changes. Live ruleset matches the configuration.'' @ [NL]"

definition unsupported_line :: "string \<Rightarrow> string" where
  "unsupported_line f = ''family '' @ f @ '': plan not supported for this family''"

definition sorted_families :: "plan \<Rightarrow> (string \<times> plan_diff) list" where
  "sorted_families p = sort_key fst (pl_families p)"

definition set_change_line :: "set_change \<Rightarrow> string" where
  "set_change_line sc =
     (if sch_kind sc = SetRemove then ''  - set '' @ sch_table sc @ ''/'' @ sch_name sc
      else ''  '' @ (if sch_kind sc = SetAdd then ''+'' else ''~'') @ '' set '' @ sch_table sc @ ''/'' @ sch_name sc @
           '' { '' @ join_str '', '' (sch_elements sc) @ '' }'')"

definition object_change_line :: "object_change \<Rightarrow> string" where
  "object_change_line oc =
     ''  '' @ (if och_added oc then ''+'' else ''-'') @ '' '' @ och_kind oc @ '' '' @ och_table oc @ ''/'' @ och_name oc"

definition note_lines :: "plan_diff \<Rightarrow> string list" where
  "note_lines d =
     (if pd_current_empty d then [''  note: current ruleset is empty''] else []) @
     (if pd_noflush d
      then [''  note: noflush -- existing built-in/undeclared rules kept; declared user chains overwritten; policies applied'',
            ''  note: noflush -- counts are the net positional diff; apply re-appends listed rules to unflushed chains, so live rules overlapping the config are duplicated'']
      else [])"

definition diff_lines :: "plan_diff \<Rightarrow> string list" where
  "diff_lines d =
     map (\<lambda>c. ''  ~ policy '' @ pch_table c @ ''/'' @ pch_chain c @ '': '' @ pch_old c @ '' -> '' @ pch_new c)
       (sort_key (\<lambda>c. (pch_table c, pch_chain c)) (pd_policy d)) @
     map (\<lambda>r. ''  - '' @ rch_rule r) (sort_key (\<lambda>r. (rch_table r, rch_chain r)) (pd_removed d)) @
     map (\<lambda>r. ''  + '' @ rch_rule r) (sort_key (\<lambda>r. (rch_table r, rch_chain r)) (pd_added d)) @
     map (\<lambda>c. ''  warning: chain '' @ nch_table c @ ''/'' @ nch_chain c @ '' is not in the config and will be flushed'')
       (sort_key (\<lambda>c. (nch_table c, nch_chain c)) (pd_foreign d)) @
     map (\<lambda>c. ''  ~ chain '' @ nch_table c @ ''/'' @ nch_chain c @ '' removed (base chain no longer declared)'')
       (sort_key (\<lambda>c. (nch_table c, nch_chain c)) (pd_desuet d)) @
     map (\<lambda>c. ''  ~ chain '' @ pch_table c @ ''/'' @ pch_chain c @ '' priority '' @ pch_old c @ '' -> '' @ pch_new c @
                '' (rebuilt; counters reset)'')
       (sort_key (\<lambda>c. (pch_table c, pch_chain c)) (pd_rebuilds d)) @
     map set_change_line (sort_key (\<lambda>s. (sch_table s, sch_name s)) (pd_sets d)) @
     map object_change_line (sort_key (\<lambda>s. (och_table s, och_name s)) (pd_objects d))"

definition family_lines :: "string \<times> plan_diff \<Rightarrow> string list" where
  "family_lines e =
     (case e of (f, d) \<Rightarrow>
        if has_changes d
        then (''family '' @ f) # note_lines d @ diff_lines d @ [''  '' @ summary_line d] else [])"

definition render_structured :: "plan \<Rightarrow> string" where
  "render_structured p =
     (if \<not> plan_has_changes p \<and> pl_unsupported p = [] then NO_CHANGES
      else join_str [NL] (map unsupported_line (pl_unsupported p) @ concat (map family_lines (sorted_families p))) @ [NL])"

section \<open>The unified rendering\<close>

definition diff_table_names :: "plan_diff \<Rightarrow> string list" where
  "diff_table_names d =
     sort (remdups (map pch_table (pd_policy d) @ map rch_table (pd_removed d) @ map rch_table (pd_added d) @
       map nch_table (pd_foreign d) @ map nch_table (pd_desuet d) @ map pch_table (pd_rebuilds d) @
       map sch_table (pd_sets d) @ map och_table (pd_objects d)))"

definition in_table :: "('a \<Rightarrow> string) \<Rightarrow> ('a \<Rightarrow> string) \<Rightarrow> string \<Rightarrow> 'a list \<Rightarrow> 'a list" where
  "in_table tb key table xs = sort_key key (filter (\<lambda>x. tb x = table) xs)"

definition set_blob_line :: "string \<Rightarrow> string \<Rightarrow> string list \<Rightarrow> string" where
  "set_blob_line table name es = ''add set '' @ table @ '' '' @ name @ '' { '' @ join_str '', '' es @ '' }''"

definition object_decl :: "string \<Rightarrow> object_change \<Rightarrow> string" where
  "object_decl table oc = ''add '' @ och_kind oc @ '' '' @ table @ '' '' @ och_name oc"

definition rule_decl :: "rule_change \<Rightarrow> string" where
  "rule_decl r = ''-A '' @ rch_chain r @ '' '' @ rch_rule r"

definition blob_current :: "plan_diff \<Rightarrow> string \<Rightarrow> string list" where
  "blob_current d t =
     [''*'' @ t] @
     map (\<lambda>c. '':'' @ pch_chain c @ '' '' @ pch_old c) (in_table pch_table pch_chain t (pd_policy d)) @
     map (\<lambda>c. '':'' @ pch_chain c @ '' priority '' @ pch_old c) (in_table pch_table pch_chain t (pd_rebuilds d)) @
     map (\<lambda>c. ''# foreign chain '' @ nch_chain c @ '' will be flushed'') (in_table nch_table nch_chain t (pd_foreign d)) @
     map (\<lambda>c. ''# base chain '' @ nch_chain c @ '' removed (no longer declared)'') (in_table nch_table nch_chain t (pd_desuet d)) @
     map rule_decl (in_table rch_table rch_chain t (pd_removed d)) @
     concat (map (\<lambda>s. if \<not> is_removal (sch_kind s) then []
                      else if sch_current s \<noteq> [] then [set_blob_line t (sch_name s) (sch_current s)]
                      else [''add set '' @ t @ '' '' @ sch_name s])
               (in_table sch_table sch_name t (pd_sets d))) @
     map (object_decl t) (filter (\<lambda>oc. \<not> och_added oc) (in_table och_table och_name t (pd_objects d)))"

definition blob_desired :: "plan_diff \<Rightarrow> string \<Rightarrow> string list" where
  "blob_desired d t =
     [''*'' @ t] @
     map (\<lambda>c. '':'' @ pch_chain c @ '' '' @ pch_new c) (in_table pch_table pch_chain t (pd_policy d)) @
     map (\<lambda>c. '':'' @ pch_chain c @ '' priority '' @ pch_new c) (in_table pch_table pch_chain t (pd_rebuilds d)) @
     map rule_decl (in_table rch_table rch_chain t (pd_added d)) @
     concat (map (\<lambda>s. if touches_elements (sch_kind s) then [set_blob_line t (sch_name s) (sch_elements s)] else [])
               (in_table sch_table sch_name t (pd_sets d))) @
     map (object_decl t) (filter och_added (in_table och_table och_name t (pd_objects d)))"

definition diff_blob :: "plan_diff \<Rightarrow> string list \<times> string list" where
  "diff_blob d =
     (concat (map (blob_current d) (diff_table_names d)), concat (map (blob_desired d) (diff_table_names d)))"

definition unified_lines :: "string \<times> plan_diff \<Rightarrow> string list" where
  "unified_lines e =
     (case e of (f, d) \<Rightarrow>
        case diff_blob d of (current, desired) \<Rightarrow>
          unified_diff current desired (f @ '' (current)'') (f @ '' (desired)''))"

definition unified_text :: "plan \<Rightarrow> string list" where
  "unified_text p = map unsupported_line (pl_unsupported p) @ concat (map unified_lines (sorted_families p))"

definition render_unified :: "plan \<Rightarrow> string" where
  "render_unified p = (if unified_text p = [] then NO_CHANGES else join_str [NL] (unified_text p) @ [NL])"

definition render_plan :: "plan_format \<Rightarrow> plan \<Rightarrow> string" where
  "render_plan fmt p = (if fmt = UnifiedDiff then render_unified p else render_structured p)"

section \<open>Building a plan\<close>

definition add_family :: "family \<Rightarrow> plan_diff \<Rightarrow> plan \<Rightarrow> plan" where
  "add_family f d p = p\<lparr>pl_families := dict_set (family_name f) d (pl_families p)\<rparr>"

definition plan_nft :: "bool \<Rightarrow> backend \<Rightarrow> options \<Rightarrow> plan \<Rightarrow> family \<times> domain_info \<Rightarrow> plan act" where
  "plan_nft check bk opts p e =
     (case e of (f, di) \<Rightarrow>
        if opt_noflush opts then stopA (Raised (internal_error ''build_plan: noflush set under --plan --nft''))
        else
          bindA (liftA (parse_nft_list (nft_name f) (case di_previous di of None \<Rightarrow> [] | Some s \<Rightarrow> s))) (\<lambda>current.
          bindA (liftA (bk_render bk f di opts)) (\<lambda>r.
            case r of
              Commands _ \<Rightarrow> stopA (Raised (internal_error ''nft render returned no save text''))
            | Save text \<Rightarrow>
                bindA (if check
                       then case dict_get (di_tools di) TOOL_NFT of
                              None \<Rightarrow> stopA (Raised PyKeyError)
                            | Some path \<Rightarrow> validate_desired_nft opts path text
                       else retA ()) (\<lambda>_.
                bindA (liftA (parse_nft_script text)) (\<lambda>desired.
                  retA (add_family f (diff_tables False current desired) p))))))"

definition plan_save :: "save_params \<Rightarrow> options \<Rightarrow> plan \<Rightarrow> family \<times> domain_info \<Rightarrow> plan act" where
  "plan_save pv opts p e =
     (case e of (f, di) \<Rightarrow>
        if di_plan_unsupported di then retA (p\<lparr>pl_unsupported := pl_unsupported p @ [family_name f]\<rparr>)
        else
          let hm = (if f = IP then ''/32'' else ''/128'')
          in bindA (liftA (validate_names di)) (\<lambda>_.
             bindA (liftA (rules_to_save f pv di opts)) (\<lambda>text.
             bindA (liftA (parse_save hm (case di_previous di of None \<Rightarrow> [] | Some s \<Rightarrow> s))) (\<lambda>current.
             bindA (liftA (parse_save hm text)) (\<lambda>desired.
               retA (add_family f (diff_tables (opt_noflush opts) current desired) p))))))"

fun foldA :: "('s \<Rightarrow> 'a \<Rightarrow> 's act) \<Rightarrow> 'a list \<Rightarrow> 's \<Rightarrow> 's act" where
  "foldA f [] s = retA s"
| "foldA f (x # xs) s = bindA (f s x) (foldA f xs)"

definition build_plan :: "bool \<Rightarrow> save_params \<Rightarrow> backend \<Rightarrow> options \<Rightarrow> domains \<Rightarrow> plan act" where
  "build_plan check pv bk opts ds =
     foldA (if opt_nft opts then plan_nft check bk opts else plan_save pv opts) (enabled_domains ds) empty_plan"

text \<open>
  The text goes to the standard output, which \<^verbatim>\<open>--shell\<close> has joined to the standard error by then; the
  exit code tells whether there are changes.
\<close>

definition plan_output :: "options \<Rightarrow> string \<Rightarrow> event" where
  "plan_output opts t = (if opt_shell opts then Stderr t else Emit t)"

definition run_plan :: "save_params \<Rightarrow> backend \<Rightarrow> options \<Rightarrow> domains \<Rightarrow> int act" where
  "run_plan pv bk opts ds =
     bindA (build_plan True pv bk opts ds) (\<lambda>p.
     bindA (sayA (plan_output opts (render_plan (opt_plan_format opts) p))) (\<lambda>_.
       retA (if plan_has_changes p then 2 else 0)))"

section \<open>The delta of a commit message\<close>

definition commit_body :: "plan \<Rightarrow> string" where
  "commit_body p =
     join_str [NL] (map (\<lambda>(f, d). ''  '' @ f @ '': '' @ summary_line d)
       (filter (\<lambda>(_, d). has_changes d) (sorted_families p)))"

definition plan_counts :: "plan \<Rightarrow> delta_counts" where
  "plan_counts p = fold (\<lambda>(_, d) c. add_counts c (count_changes d)) (pl_families p) no_counts"

definition commit_delta :: "plan \<Rightarrow> string \<times> string" where
  "commit_delta p = (delta_phrase (plan_counts p), commit_body p)"

end
