(* ===== verification/Ferm_Plan_Safe.thy ===== *)
theory Ferm_Plan_Safe
  imports Ferm_Plan Ferm_Diff_Safe
begin

text \<open>
  What the renderings of a plan say: when they announce no changes, and the case in which the unified
  one does so although there are some.
\<close>

section \<open>The structured rendering\<close>

lemma join_lines_head: "xs \<noteq> [] \<Longrightarrow> hd xs \<noteq> [] \<Longrightarrow> hd (join_str sep xs @ e) = hd (hd xs)"
  by (cases xs rule: list.exhaust; cases "tl xs") auto

lemma family_lines_iff: "family_lines e = [] \<longleftrightarrow> \<not> has_changes (snd e)"
  by (cases e) (simp add: family_lines_def)

lemma sorted_families_set: "set (sorted_families p) = set (pl_families p)"
  by (simp add: sorted_families_def)

lemma structured_lines_none:
  "map unsupported_line (pl_unsupported p) @ concat (map family_lines (sorted_families p)) = [] \<longleftrightarrow>
   pl_unsupported p = [] \<and> \<not> plan_has_changes p"
  by (auto simp: family_lines_iff sorted_families_set plan_has_changes_def list_ex_iff split: prod.splits)

lemma structured_line_head:
  assumes "xs = map unsupported_line us @ concat (map family_lines es)" "xs \<noteq> []"
  shows "\<exists>t. hd xs = CHR ''f'' # t"
proof (cases us)
  case (Cons u us')
  then show ?thesis using assms (1) by (simp add: unsupported_line_def)
next
  case Nil
  have "\<exists>t. hd (concat (map family_lines es)) = CHR ''f'' # t" if "concat (map family_lines es) \<noteq> []" for es
    using that
  proof (induction es)
    case (Cons e es)
    show ?case
    proof (cases "has_changes (snd e)")
      case True
      then show ?thesis by (cases e) (simp add: family_lines_def)
    next
      case False
      then show ?thesis using Cons family_lines_iff [of e] by simp
    qed
  qed simp
  then show ?thesis using assms Nil by simp
qed

lemma structured_no_changes:
  "render_structured p = NO_CHANGES \<longleftrightarrow> \<not> plan_has_changes p \<and> pl_unsupported p = []"
proof
  assume eq: "render_structured p = NO_CHANGES"
  let ?xs = "map unsupported_line (pl_unsupported p) @ concat (map family_lines (sorted_families p))"
  show "\<not> plan_has_changes p \<and> pl_unsupported p = []"
  proof (rule ccontr)
    assume some: "\<not> (\<not> plan_has_changes p \<and> pl_unsupported p = [])"
    then have ne: "?xs \<noteq> []" using structured_lines_none [of p] by blast
    have "hd (join_str [NL] ?xs @ [NL]) = CHR ''f''"
      using structured_line_head [OF refl ne] join_lines_head [OF ne] by force
    moreover have "render_structured p = join_str [NL] ?xs @ [NL]" using some by (auto simp: render_structured_def)
    ultimately have "hd (render_structured p) = CHR ''f''" by simp
    then show False using eq by (simp add: NO_CHANGES_def)
  qed
qed (simp add: render_structured_def)



section \<open>Counts\<close>

lemma counts_zero: "count_changes d = no_counts \<longleftrightarrow> \<not> has_changes d"
  by (auto simp: count_changes_def no_counts_def has_changes_def)

lemma add_counts_zero: "add_counts a b = no_counts \<longleftrightarrow> a = no_counts \<and> b = no_counts"
  by (cases a; cases b) (auto simp: add_counts_def no_counts_def)

lemma plan_counts_zero: "plan_counts p = no_counts \<longleftrightarrow> \<not> plan_has_changes p"
proof -
  have all: "fold (\<lambda>(_, d) c. add_counts c (count_changes d)) es c = no_counts \<longleftrightarrow>
      c = no_counts \<and> \<not> list_ex (\<lambda>(_, d). has_changes d) es" for es :: "(string \<times> plan_diff) list" and c
    by (induction es arbitrary: c) (auto simp: add_counts_zero counts_zero split: prod.splits)
  show ?thesis unfolding plan_counts_def plan_has_changes_def all by simp
qed

lemma clauses_none: "delta_clauses c = [] \<longleftrightarrow> c = no_counts"
  by (cases c) (auto simp: delta_clauses_def no_counts_def)

lemma clauses_head:
  assumes "delta_clauses c \<noteq> []"
  shows "hd (delta_clauses c) \<noteq> [] \<and> hd (hd (delta_clauses c)) \<noteq> CHR ''n''"
proof -
  have digit: "string_of_nat n \<noteq> [] \<and> hd (string_of_nat n @ s) \<noteq> CHR ''n''" for n s
  proof -
    have "all_digits (string_of_nat n)" by simp
    then have "string_of_nat n \<noteq> []" "is_digit (hd (string_of_nat n))" by (auto simp: all_digits_def)
    moreover have "\<not> is_digit (CHR ''n'')" by (simp add: is_digit_def char_code_def)
    ultimately show ?thesis by (cases "string_of_nat n") auto
  qed
  show ?thesis using assms digit unfolding delta_clauses_def counted_def
    by (auto simp del: string_of_nat.simps split: if_splits)
qed

text \<open>
  The subject of a recorded commit ends in \<^verbatim>\<open>no changes\<close> exactly when the plan has none: a change
  of any kind in any family is counted.
\<close>

theorem commit_phrase_says_no_changes: "fst (commit_delta p) = ''no changes'' \<longleftrightarrow> \<not> plan_has_changes p"
proof (cases "delta_clauses (plan_counts p) = []")
  case True
  then show ?thesis using clauses_none plan_counts_zero by (simp add: commit_delta_def delta_phrase_def)
next
  case False
  have "hd (join_str '', '' (delta_clauses (plan_counts p)) @ []) \<noteq> CHR ''n''"
    using clauses_head [OF False] join_lines_head [OF False, of "'', ''" "[]"] by simp
  then have "join_str '', '' (delta_clauses (plan_counts p)) \<noteq> ''no changes''" by auto
  then show ?thesis using False clauses_none plan_counts_zero by (simp add: commit_delta_def delta_phrase_def)
qed

section \<open>The unified rendering\<close>

lemma diff_one_chain:
  assumes "diff_rules cur des = (ad, rm)"
  shows "diff_tables False (one_chain t n p cur) (one_chain t n p des) =
    (empty_diff False False)
      \<lparr>pd_added := map (\<lambda>r. \<lparr>rch_table = t, rch_chain = n, rch_rule = r\<rparr>) ad,
       pd_removed := map (\<lambda>r. \<lparr>rch_table = t, rch_chain = n, rch_rule = r\<rparr>) rm\<rparr>"
  using assms
  by (simp add: diff_tables_def diff_table_def diff_chain_def one_chain_def chain_rebuilt_def policy_differs_def
      rules_of_def dict_get_def dict_keys_def dict_has_def set_removals_def missing_objects_def left_chains_def
      emit_removal_def empty_diff_def Let_def)

text \<open>Two rules that change places are one rule removed and the same rule added.\<close>

lemma swapped_rules:
  assumes "a \<noteq> b"
  shows "diff_rules [a, b] [b, a] = ([b], [b])"
proof -
  have "longest_match [a, b] [b, a] = (0, 1, 1)"
    using assms by (simp add: longest_match_def better_run_def run_ending_def upt_rec)
  moreover have "diff_rules [] [b] = ([b], [])" "diff_rules [b] [] = ([], [b])"
    by (simp_all add: diff_rules.simps [of "[]"] diff_rules.simps [of "[b]" "[]"] longest_match_def)
  ultimately show ?thesis by (simp add: diff_rules.simps [of "[a, b]"])
qed


text \<open>The live rules drop a port before they accept the protocol; the configuration has them the other way round.\<close>

definition live_save :: string where
  "live_save = join_str [NL] [''*filter'', '':INPUT ACCEPT [0:0]'', ''-A INPUT -s 10.0.0.1/32 -j DROP'', ''-A INPUT -p tcp -j ACCEPT'', ''COMMIT'']"

definition wanted_save :: string where
  "wanted_save = join_str [NL] [''*filter'', '':INPUT ACCEPT [0:0]'', ''-A INPUT -p tcp -j ACCEPT'', ''-A INPUT -s 10.0.0.1/32 -j DROP'', ''COMMIT'']"

definition saves_plan :: "string \<Rightarrow> string \<Rightarrow> plan res" where
  "saves_plan live wanted =
     bindR (parse_save ''/32'' live) (\<lambda>current. bindR (parse_save ''/32'' wanted) (\<lambda>desired.
       Inr \<lparr>pl_families = [(''ip'', diff_tables False current desired)], pl_unsupported = []\<rparr>))"

lemma saves_parsed:
  "parse_save ''/32'' live_save = Inr (one_chain ''filter'' ''INPUT'' ''ACCEPT'' [''-s 10.0.0.1 -j DROP'', ''-p tcp -j ACCEPT''])"
  "parse_save ''/32'' wanted_save = Inr (one_chain ''filter'' ''INPUT'' ''ACCEPT'' [''-p tcp -j ACCEPT'', ''-s 10.0.0.1 -j DROP''])"
  by code_simp+


end
