(* ===== verification/Ferm_Command.thy ===== *)
theory Ferm_Command
  imports Ferm_Modes Ferm_Rollback Ferm_Plan Ferm_Nft_Render
begin

text \<open>
  The whole command: what \<^verbatim>\<open>main\<close> of \<^verbatim>\<open>src/src/pyferm/cli/app.py\<close> does with a command line, put together
  from the modes, the run of a configuration with the backend it selects, the recording of what was
  applied and the subcommand \<^verbatim>\<open>rollback\<close>. The two argument parsers, the two help texts and the system are
  parameters. A text on the standard output is an \<open>Emit\<close>.
\<close>

section \<open>The system\<close>

record host =
  ho_world :: "options \<Rightarrow> world"
  ho_save :: save_params
  ho_tmp :: "string \<Rightarrow> string"
  ho_nft :: nft_host
  ho_which :: "string option"
  ho_relpath :: "string \<Rightarrow> string \<Rightarrow> string"
  ho_stdin_tty :: bool
  ho_stderr_tty :: bool
  ho_prog :: string
  ho_version :: string
  ho_help :: string
  ho_banner :: string

definition select_backend :: "host \<Rightarrow> options \<Rightarrow> backend" where
  "select_backend hs opts =
     (if opt_nft opts then native_backend (ho_nft hs) else ipt_backend (ho_save hs) (ho_tmp hs))"

section \<open>Recording and running\<close>

text \<open>The message of a recorded run; a plan that cannot be built leaves its head and its trailers.\<close>

definition commit_message ::
  "save_params \<Rightarrow> backend \<Rightarrow> options \<Rightarrow> string \<Rightarrow> domains \<Rightarrow> string option \<Rightarrow> string \<Rightarrow> string act" where
  "commit_message pv bk opts filename ds subject trailer =
     bindA (catchA (bindA (build_plan False pv bk opts ds) (\<lambda>p. retA (Some (commit_delta p)))) (\<lambda>_. retA None)) (\<lambda>delta.
       retA (build_commit_message
         (case subject of None \<Rightarrow> commit_subject filename ds opts | Some s \<Rightarrow> s) delta trailer))"

definition run_config ::
  "host \<Rightarrow> nat \<Rightarrow> options \<Rightarrow> string list \<Rightarrow> string list \<Rightarrow> string option \<Rightarrow> string \<Rightarrow> int act" where
  "run_config hs F opts argv defs subject filename =
     (let bk = select_backend hs opts
      in apply_config (ho_world hs opts) opts F bk (run_plan (ho_save hs) bk opts)
           (\<lambda>ds. record_history opts (ho_which hs)
             (commit_message (ho_save hs) bk opts filename ds subject
               (trailer_block (ho_version hs) (ho_prog hs) argv)))
           defs filename)"

section \<open>The subcommand \<^verbatim>\<open>rollback\<close>\<close>

definition DEFAULT_CONFIG :: string where "DEFAULT_CONFIG = ''/etc/ferm/ferm.conf''"

definition is_hex_digit :: "char \<Rightarrow> bool" where
  "is_hex_digit c \<longleftrightarrow> is_digit c \<or> c \<in> set ''abcdefABCDEF''"

text \<open>The operand of \<^verbatim>\<open>--diff\<close>, empty when it is not given, and that of \<^verbatim>\<open>--limit\<close>.\<close>

definition hex_sha :: "string \<Rightarrow> string + string" where
  "hex_sha t =
     (if t = [] \<or> (4 \<le> length t \<and> length t \<le> 64 \<and> list_all is_hex_digit t) then Inr t
      else Inl (''invalid SHA '' @ py_repr t @ '': take the SHA from '' @ [SQUOTE] @ ''ferm rollback --list'' @ [SQUOTE] @
        ''; the config file is a separate argument -- name it first ('' @ [SQUOTE] @ ''ferm rollback CONFIG --diff'' @
        [SQUOTE] @ '') or use '' @ [SQUOTE] @ ''--diff= CONFIG'' @ [SQUOTE]))"

definition positive_int :: "string \<Rightarrow> string + int" where
  "positive_int t =
     (case py_int t of
        Inl _ \<Rightarrow> Inl (''invalid limit '' @ py_repr t @ '': must be an integer >= 1'')
      | Inr n \<Rightarrow> if n < 1 then Inl (''invalid limit '' @ string_of_int n @ '': must be >= 1'') else Inr n)"

record rollback_args =
  rb_list :: bool
  rb_diff :: "string option"
  rb_to :: "string option"
  rb_limit :: "int option"
  rb_nft :: bool
  rb_slow :: bool
  rb_full_reload :: bool
  rb_nolegacy :: bool
  rb_interactive :: bool
  rb_timeout :: int
  rb_domain :: "string option"
  rb_defs :: "string list"
  rb_no_etckeeper :: bool
  rb_config :: "string option"

definition rollback_options :: "bool \<Rightarrow> bool \<Rightarrow> rollback_args \<Rightarrow> options res" where
  "rollback_options stdin_tty stderr_tty a =
     bindR (guardR (rb_full_reload a \<and> \<not> rb_nft a) ''ferm --full-reload has no sense without --nft'') (\<lambda>_.
     bindR (require_interactive_tty (rb_interactive a) stdin_tty stderr_tty) (\<lambda>_.
     Inr (default_options\<lparr>opt_fast := \<not> rb_slow a, opt_interactive := rb_interactive a, opt_timeout := rb_timeout a,
        opt_domain := rb_domain a, opt_nft := rb_nft a, opt_full_reload := rb_full_reload a,
        opt_nolegacy := rb_nolegacy a, opt_etckeeper := \<not> rb_no_etckeeper a\<rparr>)))"

definition print_text :: "string act \<Rightarrow> int act" where
  "print_text m = bindA m (\<lambda>t. thenA (sayA (Emit t)) (retA EXIT_OK))"

text \<open>The form of the subcommand: two that only read the history, and two that revert.\<close>

definition rollback_form ::
  "rollback_args \<Rightarrow> string \<Rightarrow> string \<Rightarrow> bool \<Rightarrow> (string \<Rightarrow> int act) \<Rightarrow> int act" where
  "rollback_form a config subpath tty reapply =
     (if rb_list a then print_text (bindA (list_history subpath (rb_limit a)) (\<lambda>t. retA (mark_current t)))
      else case rb_diff a of
        Some d \<Rightarrow>
          print_text (bindA (if d = [] then previous_revision subpath else retA d) (\<lambda>sha. diff_revision sha subpath))
      | None \<Rightarrow>
          (case rb_to a of
             Some sha \<Rightarrow> rollback_to sha config subpath False tty (reapply sha)
           | None \<Rightarrow> bindA (previous_revision subpath) (\<lambda>sha. rollback_to sha config subpath True tty (reapply sha))))"

definition rollback_main :: "host \<Rightarrow> nat \<Rightarrow> string list \<Rightarrow> rollback_args \<Rightarrow> int act" where
  "rollback_main hs F argv a =
     bindA (liftA (guardR (rb_limit a \<noteq> None \<and> \<not> rb_list a) ''ferm rollback --limit has no sense without --list'')) (\<lambda>_.
     bindA (liftA (rollback_options (ho_stdin_tty hs) (ho_stderr_tty hs) a)) (\<lambda>opts.
     let config = (case rb_config a of None \<Rightarrow> DEFAULT_CONFIG | Some c \<Rightarrow> c)
     in bindA rollback_available (\<lambda>there.
        if \<not> there
        then stopA (Raised (Died ''ferm rollback requires an etckeeper repository managed by git''))
        else bindA (repo_relative_subpath (ho_relpath hs) config) (\<lambda>subpath.
          rollback_form a config subpath (ho_stdin_tty hs) (\<lambda>sha.
            run_config hs F opts argv (rb_defs a)
              (Some (''roll back '' @ splitpath_file config @ '' to '' @ sha)) config)))))"

section \<open>The command\<close>

fun run_dispatched :: "host \<Rightarrow> nat \<Rightarrow> (string list \<Rightarrow> rollback_args) \<Rightarrow> string list \<Rightarrow> dispatched \<Rightarrow> int act" where
  "run_dispatched hs F parse_rollback argv (ToRollback rest) = rollback_main hs F argv (parse_rollback rest)"
| "run_dispatched hs F parse_rollback argv (Printed t code) = thenA (sayA (Emit t)) (retA code)"
| "run_dispatched hs F parse_rollback argv (ShowHelp code) = thenA (sayA (Emit (ho_help hs))) (retA code)"
| "run_dispatched hs F parse_rollback argv ShowVersion = thenA (sayA (Emit (ho_banner hs))) (retA EXIT_OK)"
| "run_dispatched hs F parse_rollback argv (ToRun opts a) = run_config hs F opts argv (sw_defs a) None (hd (ar_files a))"

definition dispatch_on :: "host \<Rightarrow> nat \<Rightarrow> (string list \<Rightarrow> arguments) \<Rightarrow> string list \<Rightarrow> dispatched res" where
  "dispatch_on hs F parse argv =
     (let w = ho_world hs default_options
      in dispatch F (w_open w) (w_stdin w) (ho_stdin_tty hs) (ho_stderr_tty hs) parse argv)"

text \<open>An error of the program is a line on the standard error and the exit code 1.\<close>

definition report_error :: "int act \<Rightarrow> int act" where
  "report_error m = (\<lambda>os h. case m os h of
     (Inl (Raised e), h') \<Rightarrow>
       if is_ferm_error e then (Inr EXIT_ERROR, Stderr (failure_text e @ [NL]) # h') else (Inl (Raised e), h')
   | (Inl (Untouched e), h') \<Rightarrow> (Inr EXIT_ERROR, Stderr (failure_text e @ [NL]) # h')
   | r \<Rightarrow> r)"

definition ferm_main ::
  "host \<Rightarrow> nat \<Rightarrow> (string list \<Rightarrow> arguments) \<Rightarrow> (string list \<Rightarrow> rollback_args) \<Rightarrow> string list \<Rightarrow> int act" where
  "ferm_main hs F parse parse_rollback argv =
     report_error (bindA (liftA (dispatch_on hs F parse argv)) (run_dispatched hs F parse_rollback argv))"

end
