(* ===== verification/Ferm_Command_Sample.thy ===== *)
theory Ferm_Command_Sample
  imports Ferm_Apply_Safe
begin

text \<open>A configuration of one line, read and applied by evaluation.\<close>

definition command_world :: world where
  "command_world = sample_world\<lparr>
     w_open := (\<lambda>_. Inr ([''chain INPUT policy DROP;''], None)),
     w_seams := sample_seams\<lparr>se_resolve_tools := Some default_tool_names\<rparr>\<rparr>"

definition command_start :: pstate where
  "command_start =
     open_config ''a.ferm'' (new_script ''a.ferm'' (Some [''chain INPUT policy DROP;'']) [] None) bare_state"

definition command_di :: domain_info where
  "command_di = new_domain\<lparr>di_initialized := True, di_enabled := True,
     di_tools := [(TOOL_TABLES, ''/usr/sbin/iptables-legacy''), (TOOL_SAVE, ''/usr/sbin/iptables-legacy-save''),
       (TOOL_RESTORE, ''/usr/sbin/iptables-legacy-restore'')],
     di_tables := [(''filter'', new_table\<lparr>ti_chains := [(''INPUT'', new_chain\<lparr>ci_policy := Some ''DROP''\<rparr>)]\<rparr>)]\<rparr>"

definition settled :: "pstate \<Rightarrow> bool" where
  "settled s \<longleftrightarrow> ps_domains s = [(IP, command_di)] \<and> length (so_stack (ps_scope s)) = 2 \<and> ps_stderr s = [] \<and>
     ps_lines s = [] \<and> ps_pre_hooks s = [] \<and> ps_post_hooks s = [] \<and> ps_flush_hooks s = []"

lemma command_settles:
  "(case enter command_world default_options 5 MAX_BLOCK_DEPTH 0 None command_start of
      Inl _ \<Rightarrow> False | Inr (_, s) \<Rightarrow> settled s)"
  by code_simp

definition command_save :: string where
  "command_save = ''# Generated by ferm 2 (iptables-legacy-save) on now'' @ [NL] @ ''*filter'' @ [NL] @
     '':INPUT DROP [0:0]'' @ [NL] @ ''COMMIT'' @ [NL]"

lemma command_applies:
  "run_sample default_options [(IP, command_di)] (failing_os 0 []) =
     (Inr (), [Pipe [''/usr/sbin/iptables-legacy-restore''] command_save])"
  by code_simp

lemma command_renders:
  "render IP sample_params (\<lambda>_. ''tmp'') command_di default_options = Inr (Save command_save)"
  "enabled_domains [(IP, command_di)] = [(IP, command_di)]"
  "dict_get (di_tools command_di) TOOL_RESTORE = Some ''/usr/sbin/iptables-legacy-restore''"
  "restore_argv default_options ''/usr/sbin/iptables-legacy-restore'' = [''/usr/sbin/iptables-legacy-restore'']"
  by code_simp+

end
