(* ===== verification/Ferm_Command_Safe.thy ===== *)
theory Ferm_Command_Safe
  imports Ferm_Command Ferm_Command_Sample
begin

text \<open>
  What the exit code of the whole command tells, and what its modes leave alone: a run that ends with 0
  has installed every family, recording the history cannot fail a run, the plan and the queries of
  the history only read, and a dry run writes nothing but the generated script and messages.
\<close>

section \<open>Recording the history\<close>

definition no_exit :: "'a act \<Rightarrow> bool" where
  "no_exit m \<longleftrightarrow> (\<forall>os h e h'. m os h = (Inl e, h') \<longrightarrow> \<not> is_exit e)"

named_theorems no_exits \<open>actions that do not end the process\<close>

lemma no_exitI: "(\<And>os h e h'. m os h = (Inl e, h') \<Longrightarrow> \<not> is_exit e) \<Longrightarrow> no_exit m"
  by (simp add: no_exit_def)

lemma no_exitD: "no_exit m \<Longrightarrow> m os h = (Inl e, h') \<Longrightarrow> \<not> is_exit e"
  by (auto simp: no_exit_def)

lemma no_exit_basic [no_exits]:
  "no_exit (retA x)" "\<not> is_exit e \<Longrightarrow> no_exit (stopA e)" "no_exit (sayA ev)" "no_exit (askA ev)"
  "no_exit (spawnA ev argv)" "no_exit (liftA r)"
  by (auto intro!: no_exitI simp: spawnA_Inl liftA_iff is_exit_def split: sum.splits)

lemma no_exit_bind [no_exits]:
  assumes "no_exit m" and "\<And>x. no_exit (f x)"
  shows "no_exit (bindA m f)"
  using no_exitD [OF assms(1)] no_exitD [OF assms(2)] by (auto intro!: no_exitI simp: bindA_Inl)

lemma no_exit_when [no_exits]: "(b \<Longrightarrow> no_exit m) \<Longrightarrow> no_exit (whenA b m)"
  by (simp add: whenA_def no_exits)

lemma no_exit_catch [no_exits]:
  assumes "no_exit m" and "\<And>e. no_exit (f e)"
  shows "no_exit (catchA m f)"
proof (rule no_exitI)
  fix os h e h'
  assume "catchA m f os h = (Inl e, h')"
  then have "m os h = (Inl e, h') \<or> (\<exists>x h1. f x os h1 = (Inl e, h'))"
    by (auto simp: catchA_def split: prod.splits sum.splits stop.splits if_splits)
  then show "\<not> is_exit e" using no_exitD [OF assms(1)] no_exitD [OF assms(2)] by blast
qed

lemma no_exit_fold [no_exits]: "(\<And>s x. no_exit (f s x)) \<Longrightarrow> no_exit (foldA f xs s)"
  by (induction xs arbitrary: s) (auto intro: no_exits)

lemma no_exit_check [no_exits]: "no_exit (validate_desired_nft opts path t)"
  unfolding validate_desired_nft_def nft_check_save_def run_failed_def
  by (auto intro!: no_exits simp: is_exit_def split: outcome.splits)

lemma no_exit_plan [no_exits]: "no_exit (build_plan check pv bk opts ds)"
  unfolding build_plan_def plan_nft_def plan_save_def
  by (auto intro!: no_exits simp: Let_def is_exit_def split: rendered.splits option.splits prod.splits)

lemma no_exit_etckeeper [no_exits]: "no_exit (working_tree_dirty p)" "no_exit (ek_commit t)"
  unfolding working_tree_dirty_def vcs_def stdout_or_raise_def ek_commit_def Let_def
  by (auto intro!: no_exits simp: is_exit_def split: outcome.splits prod.splits)

lemma no_exit_message [no_exits]: "no_exit (commit_message pv bk opts filename ds subject trailer)"
  unfolding commit_message_def by (intro no_exits)

lemma catch_any_returns:
  assumes "no_exit m" and "\<And>e os h. \<exists>h'. f e os h = (Inr (), h')"
  shows "\<exists>h'. catch_any m f os h = (Inr (), h')"
proof (cases "fst (m os h)")
  case (Inl e)
  then have m: "m os h = (Inl e, snd (m os h))" by (metis prod.collapse)
  then show ?thesis using no_exitD [OF assms(1) m] assms(2) by (auto simp: catch_any_def split: prod.splits)
qed (auto simp: catch_any_def split: prod.splits)

text \<open>
  C22: Recording the history never fails a run: whatever etckeeper, the tools and the plan do, the step
  ends normally, so that an applied firewall is not reported as a failure because of its history.
\<close>

theorem recording_never_fails:
  "\<exists>h'. record_history opts which (commit_message pv bk opts filename ds subject trailer) os h = (Inr (), h')"
  unfolding record_history_def
  by (auto intro!: catch_any_returns no_exits)

section \<open>Exit code 0\<close>

text \<open>The domains of a configuration, when it is read to its end.\<close>

definition parsed_domains :: "world \<Rightarrow> options \<Rightarrow> nat \<Rightarrow> string list \<Rightarrow> string \<Rightarrow> domains option" where
  "parsed_domains w opts F defs filename =
     (case apply_defs w defs bare_state of
        Inl _ \<Rightarrow> None
      | Inr (_, s0) \<Rightarrow>
          (case open_script (w_open w) (w_stdin w) filename None of
             Inl _ \<Rightarrow> None
           | Inr sc \<Rightarrow>
               (case enter w opts F MAX_BLOCK_DEPTH 0 None (open_config filename sc s0) of
                  Inl _ \<Rightarrow> None
                | Inr (_, s) \<Rightarrow> Some (ps_domains s))))"

text \<open>What the backend in use counts as installed: \<open>nft_installed\<close> or \<open>ipt_installed\<close>.\<close>

definition family_installed ::
  "host \<Rightarrow> options \<Rightarrow> family \<Rightarrow> domain_info \<Rightarrow> rendered \<Rightarrow> os \<Rightarrow> event list \<Rightarrow> bool" where
  "family_installed hs opts fam di r os h =
     (if opt_nft opts then nft_installed opts fam di r os h else ipt_installed (ho_tmp hs) opts fam di r os h)"

lemma fold_always [runs]: "(\<And>s x. always R (f s x)) \<Longrightarrow> always R (foldA f xs s)"
  by (induction xs arbitrary: s) (auto intro: runs)

lemma plan_always:
  assumes "\<And>path t os h. R os (Pipe [path, ''-c'', ''-f'', ''-''] t # h)"
  shows "always R (build_plan check pv bk opts ds)"
  unfolding build_plan_def plan_nft_def plan_save_def validate_desired_nft_def nft_check_save_def
  by (auto intro!: runs assms simp: Let_def split: rendered.splits option.splits prod.splits outcome.splits)

lemma message_grows [runs]: "grows (commit_message pv bk opts filename ds subject trailer)"
  unfolding commit_message_def by (intro runs plan_always) simp_all

lemma apply_config_Inr:
  assumes "apply_config w opts F bk plan history defs filename os h = (Inr code, h')" and "\<not> opt_plan opts"
  shows "\<exists>(s :: pstate) h1. parsed_domains w opts F defs filename = Some (ps_domains s) \<and> code = 0 \<and>
    apply_rules bk opts (ps_domains s)
      \<lparr>hk_pre = ps_pre_hooks s, hk_post = ps_post_hooks s, hk_flush = ps_flush_hooks s\<rparr>
      (history (ps_domains s)) os h1 = (Inr (), h')"
proof -
  obtain u s0 where defs: "apply_defs w defs bare_state = Inr (u, s0)"
    using assms(1) by (auto simp: apply_config_def thenA_Inr split: sum.splits)
  obtain sc where sc: "open_script (w_open w) (w_stdin w) filename None = Inr sc"
    using assms(1) by (auto simp: apply_config_def defs split: sum.splits)
  obtain x s where s: "enter w opts F MAX_BLOCK_DEPTH 0 None (open_config filename sc s0) = Inr (x, s)"
    using assms(1) by (auto simp: apply_config_def defs sc thenA_Inr split: sum.splits if_splits)
  show ?thesis
    using assms by (intro exI [of _ s])
      (auto simp: apply_config_def parsed_domains_def apply_parsed_def defs sc s thenA_Inr split: if_splits)
qed

lemma bind_known [simp]: "bindA (liftA (Inr x)) f = f x"
  by (simp add: bindA_def liftA_def retA_def)

lemma report_error_zero: "report_error m os h = (Inr 0, h') \<Longrightarrow> m os h = (Inr 0, h')"
  by (auto simp: report_error_def EXIT_ERROR_def split: prod.splits sum.splits stop.splits if_splits)

lemma run_config_installs:
  assumes "run_config hs F opts argv defs subject filename os h = (Inr code, h')"
    and "\<not> opt_noexec opts" and "\<not> opt_plan opts"
  shows "\<exists>ds. parsed_domains (ho_world hs opts) opts F defs filename = Some ds \<and>
    (\<forall>(fam, di) \<in> set (enabled_domains ds). \<exists>r.
       bk_render (select_backend hs opts) fam di opts = Inr r \<and> family_installed hs opts fam di r os h') \<and>
    (opt_interactive opts \<longrightarrow> confirmed opts os h')"
proof -
  let ?bk = "select_backend hs opts"
  let ?history = "\<lambda>ds. record_history opts (ho_which hs) (commit_message (ho_save hs) ?bk opts filename ds subject
    (trailer_block (ho_version hs) (ho_prog hs) argv))"
  obtain s :: pstate and h1 where s: "parsed_domains (ho_world hs opts) opts F defs filename = Some (ps_domains s)"
    and run: "apply_rules ?bk opts (ps_domains s)
      \<lparr>hk_pre = ps_pre_hooks s, hk_post = ps_post_hooks s, hk_flush = ps_flush_hooks s\<rparr>
      (?history (ps_domains s)) os h1 = (Inr (), h')"
    using apply_config_Inr [OF assms(1) [unfolded run_config_def Let_def] assms(3)] by blast
  have g: "grows (?history (ps_domains s))" by (intro runs)
  show ?thesis
  proof (cases "opt_nft opts")
    case True
    then show ?thesis
      using nft.apply_ends [OF _ assms(2) g] run s assms(2)
      by (simp add: select_backend_def native_backend_def nft_live_def family_installed_def)
  next
    case False
    then show ?thesis
      using ipt.apply_ends [OF _ assms(2) g] run s assms(2)
      by (simp add: select_backend_def ipt_live_def family_installed_def)
  qed
qed

text \<open>
  C2: When \<^verbatim>\<open>ferm CONFIG\<close> ends with exit code 0 and was not told to leave the system alone, the
  configuration was read to its end and every enabled family was installed by the selected backend: the
  text nft was to load was loaded with status 0 (or the delta was empty); or the restore tool was given
  the rendered text and exited with 0; or all commands of the slow mode were started in their order and
  succeeded. In the interactive mode the administrator has typed \<^verbatim>\<open>yes\<close>. Neither a failed tool nor an
  error on the way ends with 0, with one exception the program makes: of the bridge family's slow mode
  only the commands of the rules are known to have succeeded; the commits of the tables were started last
  and their status is ignored, so a failed commit still ends with 0.
\<close>

theorem exit_zero_means_installed:
  assumes "dispatch_on hs F parse argv = Inr (ToRun opts a)" and "\<not> opt_noexec opts" and "\<not> opt_plan opts"
    and "ferm_main hs F parse parse_rollback argv os h = (Inr 0, h')"
  shows "\<exists>ds. parsed_domains (ho_world hs opts) opts F (sw_defs a) (hd (ar_files a)) = Some ds \<and>
    (\<forall>(fam, di) \<in> set (enabled_domains ds). \<exists>r.
       bk_render (select_backend hs opts) fam di opts = Inr r \<and> family_installed hs opts fam di r os h') \<and>
    (opt_interactive opts \<longrightarrow> confirmed opts os h')"
proof -
  have "run_config hs F opts argv (sw_defs a) None (hd (ar_files a)) os h = (Inr 0, h')"
    using report_error_zero assms(1,4) unfolding ferm_main_def by (fastforce simp: bindA_Inr liftA_iff)
  then show ?thesis using run_config_installs assms(2,3) by blast
qed

text \<open>A system with one configuration and a restore tool that accepts it.\<close>

definition command_host :: host where
  "command_host =
     \<lparr>ho_world = (\<lambda>_. command_world), ho_save = sample_params, ho_tmp = (\<lambda>_. ''tmp''),
      ho_nft = \<lparr>nh_service = (\<lambda>_. None), nh_user = (\<lambda>_. None), nh_group = (\<lambda>_. None), nh_text = (\<lambda>_. [])\<rparr>,
      ho_which = None, ho_relpath = (\<lambda>_ _. ''ferm''), ho_stdin_tty = False, ho_stderr_tty = False,
      ho_prog = ''ferm'', ho_version = ''2'', ho_help = ''usage'', ho_banner = ''ferm 2''\<rparr>"

definition command_args :: "bool \<Rightarrow> string list \<Rightarrow> arguments" where
  "command_args plan argv = switches.extend (default_switches\<lparr>sw_plan := plan\<rparr>)
     \<lparr>ar_help = False, ar_version = False, ar_list_modules = False, ar_describe = None, ar_graph = False,
      ar_graph_format = None, ar_files = argv\<rparr>"

definition history_args :: rollback_args where
  "history_args =
     \<lparr>rb_list = True, rb_diff = None, rb_to = None, rb_limit = Some 3, rb_nft = False, rb_slow = False,
      rb_full_reload = False, rb_nolegacy = False, rb_interactive = False, rb_timeout = 30, rb_domain = None,
      rb_defs = [], rb_no_etckeeper = False, rb_config = None\<rparr>"

lemma command_dispatch:
  "dispatch_on command_host F (command_args plan) [''a.ferm''] =
     Inr (ToRun (default_options\<lparr>opt_plan := plan\<rparr>) (command_args plan [''a.ferm'']))"
  by (simp add: dispatch_on_def dispatch_def dispatch_args_def command_args_def command_host_def switches.defs
      resolve_options_def require_interactive_tty_def resolve_timeout_def default_switches_def default_options_def
      guardR_def)

definition dry_args :: "string list \<Rightarrow> arguments" where
  "dry_args argv = (command_args False argv)\<lparr>sw_test := True\<rparr>"

lemma dry_dispatch:
  "dispatch_on command_host F dry_args [''a.ferm''] =
     Inr (ToRun (default_options\<lparr>opt_test := True, opt_noexec := True, opt_lines := True\<rparr>) (dry_args [''a.ferm'']))"
  by (simp add: dispatch_on_def dispatch_def dispatch_args_def dry_args_def command_args_def command_host_def switches.defs
      resolve_options_def require_interactive_tty_def resolve_timeout_def default_switches_def default_options_def
      guardR_def)

lemma command_reads:
  "\<exists>s. enter command_world default_options 5 MAX_BLOCK_DEPTH 0 None command_start = Inr ((), s) \<and> settled s"
  using command_settles by (auto split: sum.splits)

lemma command_parsed: "parsed_domains command_world default_options 5 [] ''a.ferm'' = Some [(IP, command_di)]"
proof -
  obtain s where "enter command_world default_options 5 MAX_BLOCK_DEPTH 0 None command_start = Inr ((), s)"
    and "settled s" using command_reads by blast
  then show ?thesis
    by (simp add: parsed_domains_def retP_def open_script_def command_world_def command_start_def settled_def)
qed

lemma exit_zero_means_installed_witness:
  "\<exists>h'. ferm_main command_host 5 (command_args False) (\<lambda>_. history_args) [''a.ferm''] (failing_os 0 []) [] = (Inr 0, h') \<and>
     succeeded (failing_os 0 []) h' (Pipe [''/usr/sbin/iptables-legacy-restore''] command_save)"
proof -
  let ?run = "ferm_main command_host 5 (command_args False) (\<lambda>_. history_args) [''a.ferm''] (failing_os 0 []) []"
  have opts: "default_options\<lparr>opt_plan := False\<rparr> = default_options" by (simp add: default_options_def)
  obtain s where s: "enter command_world default_options 5 MAX_BLOCK_DEPTH 0 None command_start = Inr ((), s)"
    and "settled s" using command_reads by blast
  have applied: "apply_rules (ipt_backend sample_params (\<lambda>_. ''tmp'')) default_options [(IP, command_di)] no_hooks
      (record_history default_options None m) (failing_os 0 []) [] =
    (Inr (), [Pipe [''/usr/sbin/iptables-legacy-restore''] command_save])" for m
    using command_applies unfolding run_sample_def commit_history_def record_history_def by simp
  have live: "\<not> opt_noexec default_options" "\<not> opt_plan default_options" "\<not> opt_nft default_options"
    by (simp_all add: default_options_def)
  have args: "sw_defs (command_args False [''a.ferm'']) = []" "hd (ar_files (command_args False [''a.ferm''])) = ''a.ferm''"
    by (simp_all add: command_args_def default_switches_def switches.defs)
  have host: "ho_world command_host opts = command_world" "ho_which command_host = None"
      "select_backend command_host default_options = ipt_backend sample_params (\<lambda>_. ''tmp'')" for opts
    using live(3) by (simp_all add: command_host_def select_backend_def)
  have opened: "open_script (w_open command_world) (w_stdin command_world) ''a.ferm'' None =
      Inr (new_script ''a.ferm'' (Some [''chain INPUT policy DROP;'']) [] None)"
    by (simp add: open_script_def command_world_def)
  have parsed: "apply_parsed (ipt_backend sample_params (\<lambda>_. ''tmp'')) default_options plan
      (\<lambda>ds. record_history default_options None (m ds)) s (failing_os 0 []) [] =
    (Inr 0, [Pipe [''/usr/sbin/iptables-legacy-restore''] command_save])" for plan m
    using \<open>settled s\<close> applied [unfolded no_hooks_def] live
    by (simp add: apply_parsed_def settled_def report_parse_def thenA_def bindA_def retA_def)
  have "?run = (Inr 0, [Pipe [''/usr/sbin/iptables-legacy-restore''] command_save])"
    using s parsed
    by (simp add: ferm_main_def command_dispatch opts run_config_def apply_config_def args retP_def opened
        command_start_def report_error_def host Let_def)
  then have run: "fst ?run = Inr 0" by simp
  then obtain h' where h': "?run = (Inr 0, h')" by (metis prod.collapse)
  from exit_zero_means_installed [OF command_dispatch [of 5 False, unfolded opts] live(1,2) h'] show ?thesis
    using h' live(3) by (simp add: args host  command_parsed command_renders family_installed_def ipt_backend_def ipt_installed_def)
qed

lemma reapply_guarded_Inr:
  "reapply_guarded config subpath reapply os h = (Inr x, h') \<Longrightarrow> reapply os h = (Inr x, h')"
  by (auto simp: reapply_guarded_def thenA_Inr split: prod.splits sum.splits)

lemma rollback_options_live:
  assumes "rollback_options a b args = Inr opts"
  shows "\<not> opt_noexec opts" and "\<not> opt_plan opts"
  using assms by (auto simp: rollback_options_def bindR_Inr_iff default_options_def)

text \<open>
  The same for \<^verbatim>\<open>ferm rollback --to SHA\<close>: when it ends with 0 the revision was checked out, and on the
  system so changed the configuration was read and every enabled family installed.
\<close>

theorem rollback_zero_means_installed:
  assumes "rollback_main hs F argv a os h = (Inr code, h')" and "rb_to a = Some sha"
    and "\<not> rb_list a" and "rb_diff a = None"
  shows "\<exists>opts subpath h1 ds config. rollback_options (ho_stdin_tty hs) (ho_stderr_tty hs) a = Inr opts \<and>
    config = (case rb_config a of None \<Rightarrow> DEFAULT_CONFIG | Some c \<Rightarrow> c) \<and> checked_out sha subpath os h1 \<and>
    run_config hs F opts argv (rb_defs a) (Some (''roll back '' @ splitpath_file config @ '' to '' @ sha)) config os h1 =
      (Inr code, h') \<and>
    parsed_domains (ho_world hs opts) opts F (rb_defs a) config = Some ds \<and>
    (\<forall>(fam, di) \<in> set (enabled_domains ds). \<exists>r.
       bk_render (select_backend hs opts) fam di opts = Inr r \<and> family_installed hs opts fam di r os h')"
proof -
  define config where "config = (case rb_config a of None \<Rightarrow> DEFAULT_CONFIG | Some c \<Rightarrow> c)"
  obtain opts subpath h0 where opts: "rollback_options (ho_stdin_tty hs) (ho_stderr_tty hs) a = Inr opts"
    and to: "rollback_to sha config subpath False (ho_stdin_tty hs)
      (run_config hs F opts argv (rb_defs a) (Some (''roll back '' @ splitpath_file config @ '' to '' @ sha)) config)
      os h0 = (Inr code, h')"
    using assms unfolding rollback_main_def rollback_form_def Let_def config_def
    by (auto simp: bindA_Inr liftA_Inr split: if_splits)
  obtain u h2 h1 where reverted: "ek_rollback sha subpath os h2 = (Inr u, h1)"
    and run: "run_config hs F opts argv (rb_defs a) (Some (''roll back '' @ splitpath_file config @ '' to '' @ sha)) config
      os h1 = (Inr code, h')"
    using to unfolding rollback_to_def
    by (auto simp: bindA_Inr thenA_Inr split: if_splits dest: reapply_guarded_Inr)
  then show ?thesis
    using opts run_config_installs [OF run rollback_options_live [OF opts]] ek_rollback_success [OF reverted]
    unfolding config_def by blast
qed

section \<open>Modes that only read\<close>

lemma all_new_head: "all_new (\<lambda>h. h \<noteq> [] \<and> P (hd h)) new h \<longleftrightarrow> list_all P new"
  by (induction new) auto

definition only :: "(event \<Rightarrow> bool) \<Rightarrow> os \<Rightarrow> event list \<Rightarrow> bool" where
  "only P os h \<longleftrightarrow> h \<noteq> [] \<and> P (hd h)"

lemma only_simp [simp]: "only P os (e # h) \<longleftrightarrow> P e"
  by (simp add: only_def)

lemma only_new: "always (only P) m \<Longrightarrow> m os h = (r, h') \<Longrightarrow> \<exists>new. h' = new @ h \<and> list_all P new"
  unfolding always_def only_def all_new_head by (metis snd_conv)

lemma report_error_only:
  assumes "always (only P) m" and "\<And>t. P (Stderr t)"
  shows "always (only P) (report_error m)"
proof (rule always_alwaysI)
  fix os h
  obtain r h1 where m: "m os h = (r, h1)" by fastforce
  obtain new where new: "h1 = new @ h" "all_new (only P os) new h"
    using assms(1) m unfolding always_def by (metis snd_conv)
  have "snd (report_error m os h) = h1 \<or> (\<exists>t. snd (report_error m os h) = Stderr t # h1)"
    using m by (auto simp: report_error_def split: sum.splits stop.splits)
  then show "\<exists>new. snd (report_error m os h) = new @ h \<and> all_new (only P os) new h"
    using new assms(2) by (metis all_new.simps(2) append_Cons only_simp)
qed

lemma quiet_only: "quiet = only quiet_event"
  by (simp add: fun_eq_iff quiet_def only_def)

lemma printed_not_run: "printed m \<noteq> Inr (ToRun opts a)"
  by (auto simp: printed_def bindR_Inr_iff split: prod.splits)

lemma dispatched_options:
  assumes "dispatch_on hs F parse argv = Inr (ToRun opts a)"
  shows "opt_noexec opts \<longleftrightarrow> sw_test a \<or> sw_noexec a" and "opt_plan opts = sw_plan a"
proof -
  have run: "resolve_options x y (switches.truncate a) = Inr opts \<and> \<not> sw_lint a"
    if "dispatch_args F fs sin x y b = Inr (ToRun opts a)" for fs sin x y b
    using that by (auto simp: dispatch_args_def bindR_Inr_iff printed_not_run split: if_splits)
  obtain fs sin x y b where "dispatch_args F fs sin x y b = Inr (ToRun opts a)"
    using assms unfolding dispatch_on_def dispatch_def Let_def by (auto split: list.splits if_splits)
  from run [OF this] have "resolve_options x y (switches.truncate a) = Inr opts" and "\<not> sw_lint a" by simp_all
  then show "opt_noexec opts \<longleftrightarrow> sw_test a \<or> sw_noexec a" and "opt_plan opts = sw_plan a"
    using resolve_options_noexec [of x y "switches.truncate a" opts] resolve_options_plan [of x y "switches.truncate a" opts]
    by (auto simp: switches.defs)
qed

text \<open>What a plan may start is the check of a script by nft.\<close>

fun plan_event :: "event \<Rightarrow> bool" where
  "plan_event (Emit _) = True"
| "plan_event (Stderr _) = True"
| "plan_event (Pipe argv _) = (tl argv = [''-c'', ''-f'', ''-''])"
| "plan_event _ = False"

lemma run_plan_only: "always (only plan_event) (run_plan pv bk opts ds)"
  unfolding run_plan_def plan_output_def by (intro runs plan_always) (simp_all split: if_splits)

lemma report_parse_only: "(\<And>t. P (Emit t)) \<Longrightarrow> (\<And>t. P (Stderr t)) \<Longrightarrow> always (only P) (report_parse errs lines)"
  unfolding report_parse_def emit_line_def by (auto intro!: runs)

text \<open>
  C21: \<^verbatim>\<open>ferm --plan\<close> changes nothing: whatever the configuration, all the run does after reading it is to
  print and, for nft, to have a script checked by \<^verbatim>\<open>nft -c\<close>; no hook is run, no rule is loaded, nobody
  is asked and nothing is recorded.
\<close>

theorem plan_only_checks:
  assumes "dispatch_on hs F parse argv = Inr (ToRun opts a)" and "opt_plan opts"
    and "ferm_main hs F parse parse_rollback argv os h = (r, h')"
  shows "\<exists>new. h' = new @ h \<and> list_all plan_event new"
proof -
  have "always (only plan_event) (apply_config w opts F bk (run_plan pv bk opts) history defs filename)" for w bk pv history defs filename
    using assms(2) unfolding apply_config_def apply_parsed_def
    by (auto intro!: runs report_parse_only run_plan_only split: sum.splits prod.splits)
  then have "always (only plan_event) (run_config hs F opts argv defs subject filename)" for defs subject filename
    by (simp add: run_config_def Let_def)
  then have "always (only plan_event) (ferm_main hs F parse parse_rollback argv)"
    unfolding ferm_main_def assms(1) by (intro report_error_only) auto
  then show ?thesis using only_new assms(3) by blast
qed

lemma plan_only_checks_witness:
  "\<exists>r h' new. ferm_main command_host 5 (command_args True) (\<lambda>_. history_args) [''a.ferm''] (failing_os 0 []) [] = (r, h') \<and>
     h' = new @ [] \<and> list_all plan_event new"
proof -
  have plan: "opt_plan (default_options\<lparr>opt_plan := True\<rparr>)" by simp
  show ?thesis using plan_only_checks [OF command_dispatch plan prod.collapse [symmetric]] by (metis prod.collapse)
qed

text \<open>
  C24: \<^verbatim>\<open>ferm --test\<close> and \<^verbatim>\<open>ferm --noexec\<close>, whatever the other switches but \<^verbatim>\<open>--plan\<close>, do nothing to the
  system once the configuration is read, with either backend and on every path, errors included: no
  process and no hook is started, nothing is piped to a tool, nobody is asked and nothing is recorded;
  all the run does is to write the generated script and messages. (Reading a configuration is not part
  of this: it may run backticks and the tools that list the live rules.)
\<close>

theorem dry_run_touches_nothing:
  assumes "dispatch_on hs F parse argv = Inr (ToRun opts a)" and "sw_test a \<or> sw_noexec a" and "\<not> sw_plan a"
    and "ferm_main hs F parse parse_rollback argv os h = (r, h')"
  shows "\<exists>new. h' = new @ h \<and> list_all quiet_event new"
proof -
  have opts: "opt_noexec opts" "\<not> opt_plan opts" using dispatched_options [OF assms(1)] assms(2,3) by auto
  have history: "always quiet (record_history opts which m)" for which m by (rule record_history_dry) (rule opts)
  have "always quiet (apply_rules (select_backend hs opts) opts ds hk (record_history opts which m))" for ds hk which m
    using ipt.apply_dry [OF opts(1) history] nft.apply_dry [OF opts(1) history]
    by (simp add: select_backend_def native_backend_def)
  then have rules: "always (only quiet_event) (apply_rules (select_backend hs opts) opts ds hk (record_history opts which m))"
    for ds hk which m by (simp add: quiet_only)
  have "always (only quiet_event) (run_config hs F opts argv defs subject filename)" for defs subject filename
    unfolding run_config_def Let_def apply_config_def apply_parsed_def
    using opts(2) by (auto intro!: runs report_parse_only rules split: sum.splits prod.splits)
  then have "always (only quiet_event) (ferm_main hs F parse parse_rollback argv)"
    unfolding ferm_main_def assms(1) by (intro report_error_only) auto
  then show ?thesis using only_new assms(4) by blast
qed

lemma dry_run_touches_nothing_witness:
  "\<exists>r h' new. ferm_main command_host 5 dry_args (\<lambda>_. history_args) [''a.ferm''] (failing_os 0 []) [] = (r, h') \<and>
     h' = new @ [] \<and> list_all quiet_event new"
proof -
  have "sw_test (dry_args [''a.ferm''])" "\<not> sw_plan (dry_args [''a.ferm''])"
    by (simp_all add: dry_args_def command_args_def switches.defs default_switches_def)
  then show ?thesis using dry_run_touches_nothing [OF dry_dispatch _ _ prod.collapse [symmetric]] by (metis prod.collapse)
qed

text \<open>What a query of the history starts.\<close>

fun query_event :: "event \<Rightarrow> bool" where
  "query_event (Emit _) = True"
| "query_event (Stderr _) = True"
| "query_event (Capture argv) =
     (take 2 argv = [''etckeeper'', ''vcs''] \<and> take 1 (drop 2 argv) \<in> {[''rev-parse''], [''log''], [''diff'']})"
| "query_event _ = False"

lemma vcs_only [runs]:
  "take 1 args \<in> {[''rev-parse''], [''log''], [''diff'']} \<Longrightarrow> always (only query_event) (vcs args action)"
  unfolding vcs_def Let_def by (auto intro!: runs split: outcome.splits)

lemma query_only [runs]:
  "always (only query_event) rollback_available"
  "always (only query_event) (repo_relative_subpath rp config)"
  "always (only query_event) (list_history subpath limit)"
  "always (only query_event) (previous_revision subpath)"
  "always (only query_event) (diff_revision sha subpath)"
  unfolding rollback_available_def repo_relative_subpath_def list_history_def previous_revision_def
    diff_revision_def stdout_or_raise_def Let_def
  by (auto intro!: runs split: prod.splits)

text \<open>
  C23: \<^verbatim>\<open>ferm rollback --list\<close> and \<^verbatim>\<open>--diff\<close> only read: whatever the other switches of the subcommand, they
  ask etckeeper for the root of the repository, the log and a difference, and print; no revision is
  checked out and no rule is applied.
\<close>

theorem rollback_queries_only_read:
  assumes "rb_list a \<or> rb_diff a \<noteq> None" and "rollback_main hs F argv a os h = (r, h')"
  shows "\<exists>new. h' = new @ h \<and> list_all query_event new"
proof -
  have "always (only query_event) (rollback_form a config subpath tty reapply)" for config subpath tty reapply
    using assms(1) unfolding rollback_form_def print_text_def
    by (auto intro!: runs split: option.splits)
  then have "always (only query_event) (rollback_main hs F argv a)"
    unfolding rollback_main_def Let_def by (auto intro!: runs)
  then show ?thesis using only_new assms(2) by blast
qed

lemma rollback_queries_only_read_witness:
  "\<exists>r h' new. rollback_main command_host 5 [''rollback'', ''--list'', ''--limit'', ''3''] history_args (failing_os 0 []) [] =
     (r, h') \<and> h' = new @ [] \<and> list_all query_event new"
proof -
  have "rb_list history_args \<or> rb_diff history_args \<noteq> None" by (simp add: history_args_def)
  then show ?thesis using rollback_queries_only_read [OF _ prod.collapse [symmetric]] by (metis prod.collapse)
qed

end
